(* ===== verification/PyBase.thy ===== *)
theory PyBase
  imports
    Complex_Main
    "HOL-Library.Word"
    "HOL-Library.Char_ord"
    "HOL-Library.List_Lexorder"
    "HOL-Library.Product_Lexorder"
    "HOL-Library.Sublist"
begin

text \<open>
  The prelude of the development: the parts of Python's own language and standard library
  that the modelled code uses, and the generic lemmas the components share.

  Text is a list of 8-bit characters, read as the Unicode code points 0 to 255; on these
  \<open>py_strip\<close> and \<open>py_lower\<close> are exactly \<^verbatim>\<open>str.strip\<close> and \<^verbatim>\<open>str.lower\<close>, and the order of
  strings is the code point order of \<^verbatim>\<open>str.__lt__\<close>. A timezone-aware datetime is the integer
  number of microseconds since the epoch, so two datetimes are equal or ordered as their
  instants are; \<open>datetime_ok\<close> are the integers that Python can represent. Python's unbounded integers are \<open>int\<close>; floats are exact rationals
  (rounding is not modelled). An exception is the left side of a sum.
\<close>

section \<open>Collections of facts the components share\<close>

named_theorems py_simps \<open>evaluation rules for the Python operations\<close>
named_theorems table_simps \<open>lookups and updates of keyed tables\<close>
named_theorems redis_simps \<open>reads after writes of the Redis model\<close>

section \<open>Types\<close>

type_synonym uuid = "128 word"
type_synonym datetime = int

definition seconds :: "int \<Rightarrow> int" where
  "seconds n = n * 1000000"

lemma seconds_mono [simp]: "seconds a \<le> seconds b \<longleftrightarrow> a \<le> b"
  by (simp add: seconds_def)

lemma seconds_less [simp]: "seconds a < seconds b \<longleftrightarrow> a < b"
  by (simp add: seconds_def)

lemma seconds_nonneg [simp]: "0 \<le> seconds n \<longleftrightarrow> 0 \<le> n"
  by (simp add: seconds_def)

text \<open>
  The instants whose year in UTC is one of \<^verbatim>\<open>datetime.MINYEAR\<close> to \<^verbatim>\<open>datetime.MAXYEAR\<close>: from
  0001-01-01 to the last microsecond of 9999.
\<close>

definition datetime_ok :: "datetime \<Rightarrow> bool" where
  "datetime_ok t = (- 62135596800000000 \<le> t \<and> t < 253402300800000000)"

lemma datetime_ok_between: "datetime_ok a \<Longrightarrow> datetime_ok b \<Longrightarrow> a \<le> t \<Longrightarrow> t \<le> b \<Longrightarrow> datetime_ok t"
  by (simp add: datetime_ok_def)

text \<open>\<^verbatim>\<open>value.replace(microsecond=0)\<close>: the start of the second.\<close>

definition drop_micros :: "datetime \<Rightarrow> datetime" where
  "drop_micros t = t - t mod 1000000"

lemma drop_micros_le: "drop_micros t \<le> t"
  by (simp add: drop_micros_def)

section \<open>JSON-like values\<close>

datatype json =
    JNull
  | JBool bool
  | JInt int
  | JFloat rat
  | JStr string
  | JList "json list"
  | JObj "(string \<times> json) list"

text \<open>\<^verbatim>\<open>d.get(key)\<close> of a dictionary kept as an association list.\<close>

definition dict_get :: "(string \<times> json) list \<Rightarrow> string \<Rightarrow> json" where
  "dict_get d k = (case map_of d k of None \<Rightarrow> JNull | Some v \<Rightarrow> v)"

section \<open>Truth values of Python objects\<close>

fun truthy :: "json \<Rightarrow> bool" where
  "truthy JNull = False"
| "truthy (JBool b) = b"
| "truthy (JInt i) = (i \<noteq> 0)"
| "truthy (JFloat r) = (r \<noteq> 0)"
| "truthy (JStr s) = (s \<noteq> [])"
| "truthy (JList xs) = (xs \<noteq> [])"
| "truthy (JObj d) = (d \<noteq> [])"

fun truthy_str :: "string option \<Rightarrow> bool" where
  "truthy_str None = False"
| "truthy_str (Some s) = (s \<noteq> [])"

text \<open>\<^verbatim>\<open>value or default\<close> for an optional string.\<close>

definition str_or :: "string option \<Rightarrow> string \<Rightarrow> string" where
  "str_or v d = (if truthy_str v then the v else d)"

lemma str_or_simps [simp]:
  "str_or None d = d" "str_or (Some []) d = d" "s \<noteq> [] \<Longrightarrow> str_or (Some s) d = s"
  by (simp_all add: str_or_def)

text \<open>\<^verbatim>\<open>text[:n] or None\<close>.\<close>

definition none_if_empty :: "string \<Rightarrow> string option" where
  "none_if_empty s = (if s = [] then None else Some s)"

section \<open>Sequencing of fallible steps\<close>

text \<open>Running \<open>f\<close> on the value of \<open>m\<close>; an exception of \<open>m\<close> escapes.\<close>

definition then_do :: "'e + 'a \<Rightarrow> ('a \<Rightarrow> 'e + 'b) \<Rightarrow> 'e + 'b" where
  "then_do m f = (case m of Inl x \<Rightarrow> Inl x | Inr a \<Rightarrow> f a)"

lemma then_do_simps [simp, py_simps]:
  "then_do (Inl x) f = Inl x" "then_do (Inr a) f = f a"
  by (simp_all add: then_do_def)

lemma then_do_Inr [simp]: "then_do m f = Inr b \<longleftrightarrow> (\<exists>a. m = Inr a \<and> f a = Inr b)"
  by (cases m) auto

lemma then_do_Inl: "then_do m f = Inl x \<longleftrightarrow> m = Inl x \<or> (\<exists>a. m = Inr a \<and> f a = Inl x)"
  by (cases m) auto

lemma then_do_cong [fundef_cong]:
  "m = m' \<Longrightarrow> (\<And>a. m' = Inr a \<Longrightarrow> f a = g a) \<Longrightarrow> then_do m f = then_do m' g"
  by (cases m') auto

text \<open>\<^verbatim>\<open>[f(x) for x in xs]\<close>.\<close>

fun map_e :: "('a \<Rightarrow> 'e + 'b) \<Rightarrow> 'a list \<Rightarrow> 'e + 'b list" where
  "map_e f [] = Inr []"
| "map_e f (x # xs) = then_do (f x) (\<lambda>y. then_do (map_e f xs) (\<lambda>ys. Inr (y # ys)))"

section \<open>Strings\<close>

definition is_space :: "char \<Rightarrow> bool" where
  "is_space c = (let n = (of_char c :: nat)
     in (9 \<le> n \<and> n \<le> 13) \<or> (28 \<le> n \<and> n \<le> 32) \<or> n = 133 \<or> n = 160)"

definition py_lstrip :: "string \<Rightarrow> string" where
  "py_lstrip s = dropWhile is_space s"

definition py_rstrip :: "string \<Rightarrow> string" where
  "py_rstrip s = rev (dropWhile is_space (rev s))"

definition py_strip :: "string \<Rightarrow> string" where
  "py_strip s = py_rstrip (py_lstrip s)"

definition lower_char :: "char \<Rightarrow> char" where
  "lower_char c = (let n = (of_char c :: nat)
     in if (65 \<le> n \<and> n \<le> 90) \<or> (192 \<le> n \<and> n \<le> 222 \<and> n \<noteq> 215) then char_of (n + 32) else c)"

definition py_lower :: "string \<Rightarrow> string" where
  "py_lower s = map lower_char s"

text \<open>
  \<^verbatim>\<open>str.casefold\<close>: as \<^verbatim>\<open>lower\<close>, and the sharp s becomes ss. (The micro sign, whose folding
  is not among the first 256 code points, is left as it is.)
\<close>

definition py_casefold :: "string \<Rightarrow> string" where
  "py_casefold s = concat (map (\<lambda>c. if (of_char c :: nat) = 223 then ''ss'' else [lower_char c]) s)"

definition upper_char :: "char \<Rightarrow> char" where
  "upper_char c = (let n = (of_char c :: nat)
     in if (97 \<le> n \<and> n \<le> 122) \<or> (224 \<le> n \<and> n \<le> 254 \<and> n \<noteq> 247) then char_of (n - 32) else c)"

text \<open>\<^verbatim>\<open>str.upper\<close> (the code points 181, 223 and 255 map outside the range and are kept).\<close>

definition py_upper :: "string \<Rightarrow> string" where
  "py_upper s = map upper_char s"

definition startswith :: "string \<Rightarrow> string \<Rightarrow> bool" where
  "startswith s p = (take (length p) s = p)"

definition endswith :: "string \<Rightarrow> string \<Rightarrow> bool" where
  "endswith s p = (length p \<le> length s \<and> drop (length s - length p) s = p)"

text \<open>\<^verbatim>\<open>a, b = text.split(sep, 1)\<close>: None where the unpacking raises ValueError.\<close>

definition split_once :: "char \<Rightarrow> string \<Rightarrow> (string \<times> string) option" where
  "split_once c s = (let (a, b) = (takeWhile (\<lambda>x. x \<noteq> c) s, dropWhile (\<lambda>x. x \<noteq> c) s)
     in if b = [] then None else Some (a, tl b))"

text \<open>\<^verbatim>\<open>text.split(sep)\<close> for a one-character separator.\<close>

fun split_all :: "char \<Rightarrow> string \<Rightarrow> string list" where
  "split_all c [] = [[]]"
| "split_all c (x # xs) =
     (if x = c then [] # split_all c xs
      else (case split_all c xs of [] \<Rightarrow> [[x]] | y # ys \<Rightarrow> (x # y) # ys))"

text \<open>\<^verbatim>\<open>needle in haystack\<close>.\<close>

definition contains :: "string \<Rightarrow> string \<Rightarrow> bool" where
  "contains hay needle = sublist needle hay"

text \<open>\<^verbatim>\<open>sep.join(parts)\<close>.\<close>

fun join :: "string \<Rightarrow> string list \<Rightarrow> string" where
  "join sep [] = []"
| "join sep [x] = x"
| "join sep (x # y # zs) = x @ sep @ join sep (y # zs)"

section \<open>Decimal numbers\<close>

definition digit_char :: "nat \<Rightarrow> char" where
  "digit_char n = char_of (48 + n)"

fun str_of_nat :: "nat \<Rightarrow> string" where
  "str_of_nat n = (if n < 10 then [digit_char n] else str_of_nat (n div 10) @ [digit_char (n mod 10)])"

declare str_of_nat.simps [simp del]

definition str_of_int :: "int \<Rightarrow> string" where
  "str_of_int i = (if i < 0 then ''-'' @ str_of_nat (nat (- i)) else str_of_nat (nat i))"

definition is_digit :: "char \<Rightarrow> bool" where
  "is_digit c = (let n = (of_char c :: nat) in 48 \<le> n \<and> n \<le> 57)"

definition digit_val :: "char \<Rightarrow> nat" where
  "digit_val c = (of_char c :: nat) - 48"

definition nat_of_digits :: "string \<Rightarrow> nat" where
  "nat_of_digits s = foldl (\<lambda>acc c. 10 * acc + digit_val c) 0 s"

section \<open>Facts about strings\<close>

lemma of_char_digit [simp]: "n < 10 \<Longrightarrow> (of_char (digit_char n) :: nat) = 48 + n"
  by (simp add: digit_char_def)

lemma digit_val_digit_char [simp]: "n < 10 \<Longrightarrow> digit_val (digit_char n) = n"
  by (simp add: digit_val_def)

lemma is_digit_digit_char [simp]: "n < 10 \<Longrightarrow> is_digit (digit_char n)"
  by (simp add: is_digit_def)

lemma nat_of_digits_append [simp]: "nat_of_digits (s @ [c]) = 10 * nat_of_digits s + digit_val c"
  by (simp add: nat_of_digits_def)

lemma str_of_nat_digits: "\<forall>c \<in> set (str_of_nat n). is_digit c"
proof (induction n rule: str_of_nat.induct)
  case (1 n)
  then show ?case by (subst str_of_nat.simps) auto
qed

lemma str_of_nat_nonempty [simp]: "str_of_nat n \<noteq> []"
  by (subst str_of_nat.simps) simp

lemma nat_of_str_of_nat [simp]: "nat_of_digits (str_of_nat n) = n"
proof (induction n rule: str_of_nat.induct)
  case (1 n)
  show ?case
  proof (cases "n < 10")
    case True
    then show ?thesis by (subst str_of_nat.simps) (simp add: nat_of_digits_def)
  next
    case False
    with 1 show ?thesis by (subst str_of_nat.simps) simp
  qed
qed

lemma str_of_nat_inj [simp]: "str_of_nat m = str_of_nat n \<longleftrightarrow> m = n"
  by (metis nat_of_str_of_nat)

lemma no_char_in_number: "\<not> is_digit c \<Longrightarrow> c \<notin> set (str_of_nat n)"
  using str_of_nat_digits by blast

text \<open>A text with a separator splits at the first one in one way only.\<close>

lemma append_sep_inj:
  assumes "a @ c # b = a' @ c # b'" and "c \<notin> set a" and "c \<notin> set a'"
  shows "a = a' \<and> b = b'"
  using assms
proof (induction a arbitrary: a')
  case Nil
  then show ?case by (cases a') auto
next
  case (Cons x xs)
  then show ?case by (cases a') auto
qed

lemma split_once_append [simp, py_simps]: "c \<notin> set a \<Longrightarrow> split_once c (a @ c # b) = Some (a, b)"
  by (simp add: split_once_def takeWhile_append dropWhile_append)

lemma split_once_Some: "split_once c s = Some (a, b) \<Longrightarrow> s = a @ c # b \<and> c \<notin> set a"
proof -
  assume h: "split_once c s = Some (a, b)"
  then have a: "a = takeWhile (\<lambda>x. x \<noteq> c) s"
    and ne: "dropWhile (\<lambda>x. x \<noteq> c) s \<noteq> []" and b: "b = tl (dropWhile (\<lambda>x. x \<noteq> c) s)"
    by (auto simp: split_once_def split: if_splits)
  have "hd (dropWhile (\<lambda>x. x \<noteq> c) s) = c"
    using hd_dropWhile [OF ne] by simp
  then have "dropWhile (\<lambda>x. x \<noteq> c) s = c # b"
    using ne b by (metis list.collapse)
  then have "s = a @ c # b"
    using a takeWhile_dropWhile_id [of "\<lambda>x. x \<noteq> c" s] by simp
  moreover have "c \<notin> set a"
    using a by (auto dest: set_takeWhileD)
  ultimately show ?thesis by simp
qed

lemma startswith_append [simp, py_simps]: "startswith (p @ s) p"
  by (simp add: startswith_def)

lemma startswith_iff_prefix: "startswith s p \<longleftrightarrow> prefix p s"
  by (auto simp: startswith_def prefix_def) (metis append_take_drop_id)

lemma lower_char_idem [simp]: "lower_char (lower_char c) = lower_char c"
  by (auto simp: lower_char_def Let_def)

lemma py_lower_idem [simp]: "py_lower (py_lower s) = py_lower s"
  by (simp add: py_lower_def)

lemma length_py_lower [simp]: "length (py_lower s) = length s"
  by (simp add: py_lower_def)

lemma py_lower_Nil [simp]: "py_lower s = [] \<longleftrightarrow> s = []"
  by (simp add: py_lower_def)

section \<open>Numbers\<close>

text \<open>\<^verbatim>\<open>int(x)\<close> of a number: truncation towards zero.\<close>

definition py_trunc :: "rat \<Rightarrow> int" where
  "py_trunc r = (if 0 \<le> r then \<lfloor>r\<rfloor> else - \<lfloor>- r\<rfloor>)"

lemma py_trunc_ge: "of_int n \<le> r \<Longrightarrow> 0 \<le> n \<Longrightarrow> n \<le> py_trunc r"
  by (simp add: py_trunc_def le_floor_iff)

text \<open>\<^verbatim>\<open>min(xs)\<close> and \<^verbatim>\<open>max(xs)\<close>, which raise ValueError on an empty sequence.\<close>

definition py_min :: "'a :: linorder list \<Rightarrow> 'e \<Rightarrow> 'e + 'a" where
  "py_min xs x = (if xs = [] then Inl x else Inr (Min (set xs)))"

definition py_max :: "'a :: linorder list \<Rightarrow> 'e \<Rightarrow> 'e + 'a" where
  "py_max xs x = (if xs = [] then Inl x else Inr (Max (set xs)))"

lemma py_min_Inr: "py_min xs x = Inr m \<longleftrightarrow> xs \<noteq> [] \<and> m = Min (set xs)"
  by (auto simp: py_min_def)

lemma py_max_Inr: "py_max xs x = Inr m \<longleftrightarrow> xs \<noteq> [] \<and> m = Max (set xs)"
  by (auto simp: py_max_def)

section \<open>Facts about lists\<close>

text \<open>The last elements of a list, \<^verbatim>\<open>xs[-n:]\<close> for a positive \<open>n\<close>.\<close>

definition last_n :: "nat \<Rightarrow> 'a list \<Rightarrow> 'a list" where
  "last_n n xs = drop (length xs - n) xs"

lemma length_last_n [simp]: "length (last_n n xs) = min n (length xs)"
  by (simp add: last_n_def)

lemma set_last_n: "set (last_n n xs) \<subseteq> set xs"
  by (simp add: last_n_def set_drop_subset)

lemma last_n_all: "length xs \<le> n \<Longrightarrow> last_n n xs = xs"
  by (simp add: last_n_def)

lemma last_n_snoc: "0 < n \<Longrightarrow> last_n n (xs @ [x]) = last_n (n - 1) xs @ [x]"
  by (cases "length xs < n") (auto simp: last_n_def Suc_diff_le)

lemma sorted_hd_min: "sorted xs \<Longrightarrow> x \<in> set xs \<Longrightarrow> hd xs \<le> x"
  by (cases xs) auto

lemma sorted_last_max: "sorted xs \<Longrightarrow> x \<in> set xs \<Longrightarrow> x \<le> last xs"
  by (induction xs) (auto split: if_splits)

lemma sort_key_hd_min: "x \<in> set xs \<Longrightarrow> f (hd (sort_key f xs)) \<le> f x"
proof -
  assume x: "x \<in> set xs"
  then have ne: "sort_key f xs \<noteq> []" by (metis empty_iff set_empty set_sort)
  have "hd (map f (sort_key f xs)) \<le> f x"
    by (rule sorted_hd_min) (use x in simp_all)
  with ne show ?thesis by (simp add: hd_map)
qed

lemma sort_key_last_max: "x \<in> set xs \<Longrightarrow> f x \<le> f (last (sort_key f xs))"
proof -
  assume x: "x \<in> set xs"
  then have ne: "sort_key f xs \<noteq> []" by (metis empty_iff set_empty set_sort)
  have "f x \<le> last (map f (sort_key f xs))"
    by (rule sorted_last_max) (use x in simp_all)
  with ne show ?thesis by (simp add: last_map)
qed

end
