(* ===== verification/PyUuid.thy ===== *)
theory PyUuid
  imports PyBase
begin

text \<open>
  \<^verbatim>\<open>uuid.UUID\<close> of Python's standard library, as the code uses it: \<^verbatim>\<open>str(u)\<close> and the parser
  \<^verbatim>\<open>uuid.UUID(text)\<close> (with the forms it accepts: a URN prefix, braces, hyphens anywhere, and
  whatever \<^verbatim>\<open>int(text, 16)\<close> accepts), and the round trip between them that tokens, tickets,
  queue entries and evidence references rely on.
\<close>

section \<open>Hexadecimal text\<close>

definition hex_char :: "nat \<Rightarrow> char" where
  "hex_char n = (if n < 10 then digit_char n else char_of (87 + n))"

definition hex_val :: "char \<Rightarrow> nat option" where
  "hex_val c = (let n = (of_char c :: nat)
     in if 48 \<le> n \<and> n \<le> 57 then Some (n - 48)
        else if 97 \<le> n \<and> n \<le> 102 then Some (n - 87)
        else if 65 \<le> n \<and> n \<le> 70 then Some (n - 55)
        else None)"

fun hex_digits :: "nat \<Rightarrow> nat \<Rightarrow> string" where
  "hex_digits 0 n = []"
| "hex_digits (Suc k) n = hex_digits k (n div 16) @ [hex_char (n mod 16)]"

text \<open>
  The digits of \<^verbatim>\<open>int(text, 16)\<close>: hexadecimal digits with single underscores between them.
  The flag says whether an underscore may come next.
\<close>

fun hex_scan :: "bool \<Rightarrow> nat \<Rightarrow> string \<Rightarrow> nat option" where
  "hex_scan ok acc [] = (if ok then Some acc else None)"
| "hex_scan ok acc (c # cs) =
     (if c = CHR ''_'' then (if ok then hex_scan False acc cs else None)
      else (case hex_val c of None \<Rightarrow> None | Some v \<Rightarrow> hex_scan True (16 * acc + v) cs))"

definition py_int16 :: "string \<Rightarrow> nat option" where
  "py_int16 s =
     (let t = py_strip s;
          t = (case t of c # cs \<Rightarrow> if c = CHR ''+'' then cs else t | [] \<Rightarrow> t)
      in if startswith t ''0x'' \<or> startswith t ''0X''
         then (let r = drop 2 t in
               case r of c # cs \<Rightarrow> if c = CHR ''_'' then hex_scan False 0 cs else hex_scan False 0 r
               | [] \<Rightarrow> None)
         else hex_scan False 0 t)"

section \<open>Printing and parsing\<close>

text \<open>\<^verbatim>\<open>text.replace(needle, '')\<close>: the occurrences from left to right.\<close>

function py_remove :: "string \<Rightarrow> string \<Rightarrow> string" where
  "py_remove needle s =
     (if needle \<noteq> [] \<and> s \<noteq> [] \<and> startswith s needle then py_remove needle (drop (length needle) s)
      else (case s of [] \<Rightarrow> [] | c # cs \<Rightarrow> c # py_remove needle cs))"
  by pat_completeness auto
termination
  by (relation "measure (\<lambda>(needle, s). length s)") auto

declare py_remove.simps [simp del]

definition strip_braces :: "string \<Rightarrow> string" where
  "strip_braces s = (let brace = (\<lambda>c. c = CHR ''{'' \<or> c = CHR ''}'')
     in rev (dropWhile brace (rev (dropWhile brace s))))"

definition uuid_hex :: "uuid \<Rightarrow> string" where
  "uuid_hex u = hex_digits 32 (unat u)"

definition uuid_str :: "uuid \<Rightarrow> string" where
  "uuid_str u = (let h = uuid_hex u
     in take 8 h @ ''-'' @ take 4 (drop 8 h) @ ''-'' @ take 4 (drop 12 h) @ ''-''
        @ take 4 (drop 16 h) @ ''-'' @ drop 20 h)"

definition uuid_parse :: "string \<Rightarrow> uuid option" where
  "uuid_parse s =
     (let h = py_remove ''-'' (strip_braces (py_remove ''uuid:'' (py_remove ''urn:'' s)))
      in if length h \<noteq> 32 then None
         else (case py_int16 h of None \<Rightarrow> None | Some n \<Rightarrow> Some (of_nat n)))"

section \<open>The round trip\<close>

lemma length_hex_digits [simp]: "length (hex_digits k n) = k"
  by (induction k arbitrary: n) auto

text \<open>The characters \<open>hex_digits\<close> writes.\<close>

definition is_hex :: "char \<Rightarrow> bool" where
  "is_hex c = (let n = (of_char c :: nat) in (48 \<le> n \<and> n \<le> 57) \<or> (97 \<le> n \<and> n \<le> 102))"

lemma is_hex_hex_char: "n < 16 \<Longrightarrow> is_hex (hex_char n)"
  by (auto simp: is_hex_def hex_char_def)

lemma hex_val_hex_char [simp]: "n < 16 \<Longrightarrow> hex_val (hex_char n) = Some n"
  by (auto simp: hex_val_def hex_char_def)

lemma hex_digits_is_hex: "c \<in> set (hex_digits k n) \<Longrightarrow> is_hex c"
  by (induction k arbitrary: n) (auto simp: is_hex_hex_char)

lemma hex_scan_digits:
  "hex_scan ok acc (hex_digits k n @ cs)
   = hex_scan (ok \<or> 0 < k) (16 ^ k * acc + n mod 16 ^ k) cs"
proof (induction k arbitrary: n cs)
  case 0
  then show ?case by simp
next
  case (Suc k)
  have not_us: "hex_char (n mod 16) \<noteq> CHR ''_''"
    using is_hex_hex_char [of "n mod 16"] by (auto simp: is_hex_def)
  show ?case
    using not_us by (simp add: Suc.IH mod_mult2_eq algebra_simps)
qed

lemma py_remove_absent:
  assumes "x \<in> set needle" and "x \<notin> set s"
  shows "py_remove needle s = s"
  using assms
proof (induction s)
  case Nil
  then show ?case by (simp add: py_remove.simps)
next
  case (Cons c cs)
  have "\<not> startswith (c # cs) needle"
    using Cons.prems by (auto simp: startswith_def) (metis in_set_takeD set_ConsD)
  then show ?case
    using Cons by (subst py_remove.simps) simp
qed

lemma py_remove_dash_append: "py_remove ''-'' (a @ b) = py_remove ''-'' a @ py_remove ''-'' b"
proof (induction a)
  case Nil
  then show ?case by (simp add: py_remove.simps [of _ "[]"])
next
  case (Cons c cs)
  then show ?case
    by (subst (1 2) py_remove.simps) (simp add: startswith_def)
qed

lemma py_remove_dash_dash [simp]: "py_remove ''-'' ''-'' = ''''"
  by (simp add: py_remove.simps startswith_def)

lemma is_hex_facts:
  assumes "is_hex c"
  shows "c \<noteq> CHR ''-''" "c \<noteq> CHR '':''" "c \<noteq> CHR ''{''" "c \<noteq> CHR ''}''" "c \<noteq> CHR ''+''"
    "c \<noteq> CHR ''x''" "c \<noteq> CHR ''X''" "\<not> is_space c" "c \<noteq> CHR ''.''" "c \<noteq> CHR ''_''"
  using assms by (auto simp: is_hex_def is_space_def Let_def)

lemma dropWhile_none: "(\<And>c. c \<in> set s \<Longrightarrow> \<not> P c) \<Longrightarrow> dropWhile P s = s"
  by (cases s) auto

lemma dropWhile_none_both:
  assumes "\<And>c. c \<in> set s \<Longrightarrow> \<not> P c"
  shows "rev (dropWhile P (rev (dropWhile P s))) = s"
proof -
  have "dropWhile P s = s" and "dropWhile P (rev s) = rev s"
    using assms by (auto intro!: dropWhile_none)
  then show ?thesis by simp
qed

lemma py_strip_hex: "(\<And>c. c \<in> set s \<Longrightarrow> is_hex c) \<Longrightarrow> py_strip s = s"
  unfolding py_strip_def py_lstrip_def py_rstrip_def
  by (rule dropWhile_none_both) (simp add: is_hex_facts)

lemma py_int16_digits: "0 < k \<Longrightarrow> py_int16 (hex_digits k n) = Some (n mod 16 ^ k)"
proof -
  assume k: "0 < k"
  let ?h = "hex_digits k n"
  have strip: "py_strip ?h = ?h"
    by (rule py_strip_hex) (rule hex_digits_is_hex)
  have hex: "\<And>c. c \<in> set ?h \<Longrightarrow> is_hex c" by (rule hex_digits_is_hex)
  obtain c cs where h: "?h = c # cs"
    using k by (metis length_0_conv length_hex_digits less_nat_zero_code list.exhaust)
  have c: "c \<noteq> CHR ''+''" and pre: "\<not> startswith ?h ''0x''" "\<not> startswith ?h ''0X''"
    using hex h by (cases cs; auto simp: startswith_def dest: is_hex_facts)+
  have "hex_scan False 0 ?h = Some (n mod 16 ^ k)"
    using hex_scan_digits [of False 0 k n "[]"] k by simp
  then show ?thesis
    using strip h c pre by (simp add: py_int16_def Let_def)
qed

lemma uuid_str_chars: "c \<in> set (uuid_str u) \<Longrightarrow> is_hex c \<or> c = CHR ''-''"
  by (auto simp: uuid_str_def uuid_hex_def Let_def
      dest!: in_set_takeD in_set_dropD dest: hex_digits_is_hex)

lemma uuid_str_no_sep: "c \<in> set '':._{}'' \<Longrightarrow> c \<notin> set (uuid_str u)"
  using uuid_str_chars [of c u] is_hex_facts [of c] by auto

lemma remove_dash_uuid_str: "py_remove ''-'' (uuid_str u) = uuid_hex u"
proof -
  let ?h = "uuid_hex u"
  have part: "py_remove ''-'' s = s" if "set s \<subseteq> set ?h" for s
    by (rule py_remove_absent [of "CHR ''-''"])
      (use that in \<open>auto simp: uuid_hex_def dest!: hex_digits_is_hex subsetD dest: is_hex_facts\<close>)
  have piece: "drop n ?h = take m (drop n ?h) @ drop (n + m) ?h" for n m
    by (metis add.commute append_take_drop_id drop_drop)
  have parts: "take 8 ?h @ take 4 (drop 8 ?h) @ take 4 (drop 12 ?h) @ take 4 (drop 16 ?h)
      @ drop 20 ?h = ?h"
    using piece [of 8 4] piece [of 12 4] piece [of 16 4] append_take_drop_id [of 8 ?h] by simp
  have subs: "set (take n (drop m ?h)) \<subseteq> set ?h" "set (take n ?h) \<subseteq> set ?h" "set (drop m ?h) \<subseteq> set ?h" for n m
    by (auto dest: in_set_takeD in_set_dropD)
  show ?thesis
    unfolding uuid_str_def Let_def py_remove_dash_append
    using parts by (simp add: part subs)
qed

theorem uuid_parse_str [simp, py_simps]: "uuid_parse (uuid_str u) = Some u"
proof -
  have colon: "CHR '':'' \<notin> set (uuid_str u)" by (rule uuid_str_no_sep) simp
  have braces: "strip_braces (uuid_str u) = uuid_str u"
    unfolding strip_braces_def Let_def
    by (rule dropWhile_none_both) (use uuid_str_no_sep [of "CHR ''{''" u] uuid_str_no_sep [of "CHR ''}''" u] in auto)
  have no_urn: "py_remove ''urn:'' (uuid_str u) = uuid_str u" "py_remove ''uuid:'' (uuid_str u) = uuid_str u"
    using colon by (auto intro!: py_remove_absent [of "CHR '':''"])
  have "unat u mod 16 ^ 32 = unat u"
    using unsigned_less [of u, where ?'a = nat] by simp
  then have "py_int16 (uuid_hex u) = Some (unat u)"
    using py_int16_digits [of 32 "unat u"] by (simp add: uuid_hex_def)
  then show ?thesis
    by (simp add: uuid_parse_def no_urn braces remove_dash_uuid_str uuid_hex_def)
qed

lemma uuid_str_inj [simp]: "uuid_str u = uuid_str v \<longleftrightarrow> u = v"
  by (metis option.inject uuid_parse_str)

lemma uuid_str_nonempty [simp]: "uuid_str u \<noteq> []"
  by (simp add: uuid_str_def Let_def)

end
