(* ===== verification/Settings.thy ===== *)
theory Settings
  imports PyUuid
begin

text \<open>
  \<^verbatim>\<open>backend/app/core/config.py\<close>: the settings record, its defaults, the bounds its fields
  declare (which pydantic enforces when the object is built) and the model validator on the
  secret key. A settings object of the program is one for which \<open>settings_valid\<close> holds.
\<close>

section \<open>The settings object\<close>

record settings =
  app_env :: string
  app_host :: string
  app_port :: int
  api_v1_prefix :: string
  cors_origins :: "string list"
  database_url :: string
  redis_url :: string
  secret_key :: string
  auth_jwt_issuer :: string
  auth_jwt_audience :: string
  auth_access_token_minutes :: int
  auth_refresh_token_days :: int
  auth_refresh_cookie_name :: string
  auth_cookie_secure :: bool
  auth_login_window_seconds :: int
  auth_login_account_limit :: int
  auth_login_ip_limit :: int
  llm_enabled :: bool
  aws_response_enabled :: bool
  aws_allowed_account_ids :: string
  aws_allowed_bucket_prefix :: string
  llm_provider :: string
  llm_api_key :: "string option"
  llm_base_url :: "string option"
  llm_model :: string
  llm_timeout_seconds :: rat
  llm_max_retries :: int
  llm_max_output_tokens :: int
  llm_prompt_version :: string
  llm_context_max_chars :: int
  investigation_queue_key :: string
  investigation_worker_block_seconds :: int
  automatic_investigations_enabled :: bool
  automatic_investigation_min_severity :: string
  automatic_investigation_cooldown_seconds :: int
  realtime_ws_path :: string
  realtime_allowed_origins :: "string list"
  realtime_redis_channel_prefix :: string
  realtime_ticket_ttl_seconds :: int
  realtime_heartbeat_seconds :: int
  realtime_max_connections :: int
  realtime_max_message_bytes :: int
  log_level :: string
  brute_force_threshold :: int
  brute_force_window_seconds :: int
  password_spray_unique_users :: int
  password_spray_window_seconds :: int
  privilege_change_lookback_seconds :: int
  large_download_threshold_bytes :: int
  login_after_failures_threshold :: int
  login_after_failures_window_seconds :: int
  credential_compromise_lookback_seconds :: int
  incident_merge_window_seconds :: int
  risk_score_high_severity_weight :: int
  risk_score_medium_severity_weight :: int
  risk_score_low_severity_weight :: int
  risk_score_confidence_multiplier :: int
  risk_score_combo_bonus :: int
  risk_score_supporting_bonus :: int
  ml_enabled :: bool
  ml_model_name :: string
  ml_artifact_dir :: string
  ml_aggregation_window_seconds :: int
  ml_training_lookback_days :: int
  ml_min_training_rows :: int
  ml_isolation_forest_contamination :: rat
  ml_isolation_forest_random_state :: int
  ml_anomaly_alert_threshold :: rat
  ml_feature_version :: string

text \<open>The fields without a default are the arguments.\<close>

definition default_settings :: "string \<Rightarrow> string \<Rightarrow> string \<Rightarrow> settings" where
  "default_settings db redis key = \<lparr>
    app_env = ''development'',
    app_host = ''0.0.0.0'',
    app_port = 8000,
    api_v1_prefix = ''/api/v1'',
    cors_origins = [''http://localhost:3000''],
    database_url = db,
    redis_url = redis,
    secret_key = key,
    auth_jwt_issuer = ''ai-soc'',
    auth_jwt_audience = ''ai-soc-api'',
    auth_access_token_minutes = 15,
    auth_refresh_token_days = 7,
    auth_refresh_cookie_name = ''ai_soc_refresh'',
    auth_cookie_secure = False,
    auth_login_window_seconds = 900,
    auth_login_account_limit = 5,
    auth_login_ip_limit = 20,
    llm_enabled = False,
    aws_response_enabled = False,
    aws_allowed_account_ids = '''',
    aws_allowed_bucket_prefix = '''',
    llm_provider = ''disabled'',
    llm_api_key = None,
    llm_base_url = None,
    llm_model = ''gpt-5-mini'',
    llm_timeout_seconds = 60,
    llm_max_retries = 2,
    llm_max_output_tokens = 2000,
    llm_prompt_version = ''v1'',
    llm_context_max_chars = 30000,
    investigation_queue_key = ''ai_soc:investigations'',
    investigation_worker_block_seconds = 5,
    automatic_investigations_enabled = False,
    automatic_investigation_min_severity = ''critical'',
    automatic_investigation_cooldown_seconds = 3600,
    realtime_ws_path = ''/api/v1/realtime'',
    realtime_allowed_origins = [''http://localhost:3000'', ''http://localhost:8080''],
    realtime_redis_channel_prefix = ''ai_soc:realtime'',
    realtime_ticket_ttl_seconds = 60,
    realtime_heartbeat_seconds = 20,
    realtime_max_connections = 1000,
    realtime_max_message_bytes = 262144,
    log_level = ''INFO'',
    brute_force_threshold = 10,
    brute_force_window_seconds = 60,
    password_spray_unique_users = 5,
    password_spray_window_seconds = 300,
    privilege_change_lookback_seconds = 900,
    large_download_threshold_bytes = 1000000,
    login_after_failures_threshold = 3,
    login_after_failures_window_seconds = 900,
    credential_compromise_lookback_seconds = 1800,
    incident_merge_window_seconds = 3600,
    risk_score_high_severity_weight = 20,
    risk_score_medium_severity_weight = 10,
    risk_score_low_severity_weight = 5,
    risk_score_confidence_multiplier = 20,
    risk_score_combo_bonus = 15,
    risk_score_supporting_bonus = 10,
    ml_enabled = True,
    ml_model_name = ''isolation_forest_v1'',
    ml_artifact_dir = ''/app/artifacts/models'',
    ml_aggregation_window_seconds = 300,
    ml_training_lookback_days = 30,
    ml_min_training_rows = 200,
    ml_isolation_forest_contamination = 1 / 20,
    ml_isolation_forest_random_state = 42,
    ml_anomaly_alert_threshold = - (3 / 20),
    ml_feature_version = ''v1''\<rparr>"

section \<open>Validation\<close>

text \<open>The bounds (\<^verbatim>\<open>ge\<close>, \<^verbatim>\<open>gt\<close>, \<^verbatim>\<open>le\<close>) of the fields that declare any.\<close>

definition settings_bounds :: "settings \<Rightarrow> bool" where
  "settings_bounds s =
    (1 \<le> auth_access_token_minutes s \<and>
     auth_access_token_minutes s \<le> 60 \<and>
     1 \<le> auth_refresh_token_days s \<and>
     auth_refresh_token_days s \<le> 30 \<and>
     60 \<le> auth_login_window_seconds s \<and>
     1 \<le> auth_login_account_limit s \<and>
     1 \<le> auth_login_ip_limit s \<and>
     0 < llm_timeout_seconds s \<and>
     0 \<le> llm_max_retries s \<and>
     llm_max_retries s \<le> 10 \<and>
     256 \<le> llm_max_output_tokens s \<and>
     5000 \<le> llm_context_max_chars s \<and>
     1 \<le> investigation_worker_block_seconds s \<and>
     investigation_worker_block_seconds s \<le> 60 \<and>
     60 \<le> automatic_investigation_cooldown_seconds s \<and>
     automatic_investigation_cooldown_seconds s \<le> 86400 \<and>
     10 \<le> realtime_ticket_ttl_seconds s \<and>
     realtime_ticket_ttl_seconds s \<le> 300 \<and>
     5 \<le> realtime_heartbeat_seconds s \<and>
     realtime_heartbeat_seconds s \<le> 120 \<and>
     1 \<le> realtime_max_connections s \<and>
     realtime_max_connections s \<le> 10000 \<and>
     1024 \<le> realtime_max_message_bytes s \<and>
     realtime_max_message_bytes s \<le> 1048576)"

text \<open>The model validator: false where it raises.\<close>

definition validate_secret_key :: "settings \<Rightarrow> bool" where
  "validate_secret_key s =
    (\<not> (py_lower (app_env s) \<notin> {''development'', ''test''} \<and>
        (secret_key s = ''change-me'' \<or> length (secret_key s) < 32)))"

definition settings_valid :: "settings \<Rightarrow> bool" where
  "settings_valid s = (settings_bounds s \<and> validate_secret_key s)"

lemma settings_validD:
  assumes "settings_valid s"
  shows "1 \<le> auth_login_account_limit s" "1 \<le> auth_login_ip_limit s"
    "60 \<le> auth_login_window_seconds s" "1 \<le> auth_access_token_minutes s"
    "1 \<le> auth_refresh_token_days s" "60 \<le> automatic_investigation_cooldown_seconds s"
    "10 \<le> realtime_ticket_ttl_seconds s" "1 \<le> realtime_max_connections s"
    "5000 \<le> llm_context_max_chars s"
  using assms by (simp_all add: settings_valid_def settings_bounds_def)

lemma default_settings_valid: "settings_valid (default_settings db redis key)"
  by (simp add: settings_valid_def settings_bounds_def validate_secret_key_def
      default_settings_def py_lower_def lower_char_def)

lemma default_settings_simps [simp]:
  "auth_login_account_limit (default_settings db redis key) = 5"
  "auth_login_ip_limit (default_settings db redis key) = 20"
  "auth_login_window_seconds (default_settings db redis key) = 900"
  "auth_refresh_token_days (default_settings db redis key) = 7"
  "auth_access_token_minutes (default_settings db redis key) = 15"
  "aws_response_enabled (default_settings db redis key) = False"
  "llm_enabled (default_settings db redis key) = False"
  "brute_force_threshold (default_settings db redis key) = 10"
  "brute_force_window_seconds (default_settings db redis key) = 60"
  "password_spray_unique_users (default_settings db redis key) = 5"
  "password_spray_window_seconds (default_settings db redis key) = 300"
  "privilege_change_lookback_seconds (default_settings db redis key) = 900"
  "large_download_threshold_bytes (default_settings db redis key) = 1000000"
  "login_after_failures_threshold (default_settings db redis key) = 3"
  "login_after_failures_window_seconds (default_settings db redis key) = 900"
  "credential_compromise_lookback_seconds (default_settings db redis key) = 1800"
  "incident_merge_window_seconds (default_settings db redis key) = 3600"
  "risk_score_high_severity_weight (default_settings db redis key) = 20"
  "risk_score_medium_severity_weight (default_settings db redis key) = 10"
  "risk_score_low_severity_weight (default_settings db redis key) = 5"
  "risk_score_confidence_multiplier (default_settings db redis key) = 20"
  "risk_score_combo_bonus (default_settings db redis key) = 15"
  "risk_score_supporting_bonus (default_settings db redis key) = 10"
  "automatic_investigations_enabled (default_settings db redis key) = False"
  "automatic_investigation_min_severity (default_settings db redis key) = ''critical''"
  "automatic_investigation_cooldown_seconds (default_settings db redis key) = 3600"
  "investigation_queue_key (default_settings db redis key) = ''ai_soc:investigations''"
  "realtime_redis_channel_prefix (default_settings db redis key) = ''ai_soc:realtime''"
  "ml_enabled (default_settings db redis key) = True"
  "llm_provider (default_settings db redis key) = ''disabled''"
  "llm_api_key (default_settings db redis key) = None"
  "llm_model (default_settings db redis key) = ''gpt-5-mini''"
  "llm_prompt_version (default_settings db redis key) = ''v1''"
  "realtime_ticket_ttl_seconds (default_settings db redis key) = 60"
  by (simp_all add: default_settings_def)

end
