(* ===== verification/Models.thy ===== *)
theory Models
  imports Settings
begin

text \<open>
  \<^verbatim>\<open>backend/app/models/\<close>: one record per ORM class, one field per mapped column, under the
  column's name with the table's two-letter prefix; and the database as the record of its
  tables. A table is the list of its rows in insertion order. JSON columns holding a
  dictionary are association lists. Column length limits are not modelled.

  Also here: the generic operations on a table with a primary key and the interface
  \<open>keyed_table\<close> that the services rely on (\<^verbatim>\<open>session.get\<close>, \<^verbatim>\<open>session.add\<close> followed by a
  flush, and the flush of a mutated row).
\<close>

section \<open>Exceptions\<close>

text \<open>The exceptions of the program and of the library calls it makes, by class.\<close>

datatype exn =
    IndexError
  | KeyError
  | TypeError
  | AttributeError
  | OverflowError
  | ValueError string
  | LookupError string
  | IntegrityError
  | DBAPIError
  | RuntimeError string
  | HTTPException int string
  | UserConflictError
  | LastAdminError
  | InvalidCredentialsError
  | LoginRateLimitedError
  | UserAlreadyExistsError
  | RefreshTokenError
  | InvalidAccessTokenError
  | ResponseActionError string
  | ExecutionError string
  | TargetNotFoundError string
  | IncidentEvidenceError string
  | IncidentNotFoundError string
  | InvestigationContextTooLargeError
  | InvestigationDisabledError string
  | InvestigationQueueError
  | InvestigationValidationError "string list"
  | InvestigationCancelledError
  | FileNotFoundError
  | LLMProviderError string
  | LLMProviderDisabledError string
  | LLMProviderTransientError string
  | LLMProviderQuotaError string int
  | RecursionError

text \<open>
  \<^verbatim>\<open>str(exc)\<close>. (The texts the interpreter and the database give to their own exceptions are left
  empty; the program only stores and shows them.)
\<close>

definition exn_text :: "exn \<Rightarrow> string" where
  "exn_text x = (case x of
      ValueError m \<Rightarrow> m | LookupError m \<Rightarrow> m | RuntimeError m \<Rightarrow> m | ResponseActionError m \<Rightarrow> m
    | ExecutionError m \<Rightarrow> m | TargetNotFoundError m \<Rightarrow> m | IncidentEvidenceError m \<Rightarrow> m
    | IncidentNotFoundError m \<Rightarrow> m | InvestigationDisabledError m \<Rightarrow> m | LLMProviderError m \<Rightarrow> m
    | LLMProviderDisabledError m \<Rightarrow> m | LLMProviderTransientError m \<Rightarrow> m | LLMProviderQuotaError m _ \<Rightarrow> m
    | InvestigationContextTooLargeError \<Rightarrow> ''Safe incident context exceeds LLM_CONTEXT_MAX_CHARS''
    | InvestigationQueueError \<Rightarrow> ''Unable to enqueue investigation''
    | InvestigationValidationError errors \<Rightarrow> join ''; '' errors
    | InvestigationCancelledError \<Rightarrow> ''Investigation was cancelled by analyst''
    | _ \<Rightarrow> [])"

section \<open>Rows\<close>

record alert =
  al_id :: uuid
  al_rule_id :: string
  al_event_id :: uuid
  al_title :: string
  al_description :: string
  al_severity :: string
  al_confidence :: rat
  al_status :: string
  al_source_ip :: "string option"
  al_username :: "string option"
  al_evidence :: "(string \<times> json) list"
  al_first_seen :: datetime
  al_last_seen :: datetime
  al_created_at :: datetime

record role =
  ro_name :: string
  ro_description :: string
  ro_created_at :: datetime

record user =
  us_id :: uuid
  us_email :: string
  us_full_name :: string
  us_password_hash :: string
  us_role_name :: string
  us_is_active :: bool
  us_last_login_at :: "datetime option"
  us_credentials_changed_at :: datetime
  us_created_by :: "uuid option"
  us_created_at :: datetime
  us_updated_at :: datetime

record auth_session =
  as_id :: uuid
  as_family_id :: uuid
  as_user_id :: uuid
  as_token_hash :: string
  as_expires_at :: datetime
  as_revoked_at :: "datetime option"
  as_replaced_by_id :: "uuid option"
  as_source_ip :: "string option"
  as_user_agent :: "string option"
  as_created_at :: datetime
  as_last_used_at :: "datetime option"

record service_api_key =
  ak_id :: uuid
  ak_name :: string
  ak_prefix :: string
  ak_key_hash :: string
  ak_scopes :: "string list"
  ak_is_active :: bool
  ak_expires_at :: "datetime option"
  ak_created_by :: uuid
  ak_last_used_at :: "datetime option"
  ak_revoked_at :: "datetime option"
  ak_created_at :: datetime

record audit_log =
  au_id :: uuid
  au_actor_type :: string
  au_actor_id :: "uuid option"
  au_actor_label :: "string option"
  au_action :: string
  au_resource_type :: "string option"
  au_resource_id :: "string option"
  au_outcome :: string
  au_request_id :: "string option"
  au_method :: "string option"
  au_path :: "string option"
  au_source_ip :: "string option"
  au_user_agent :: "string option"
  au_details :: "(string \<times> json) list"
  au_created_at :: datetime

record event =
  ev_id :: uuid
  ev_event_id :: string
  ev_timestamp :: datetime
  ev_received_at :: datetime
  ev_source :: string
  ev_source_type :: string
  ev_event_type :: string
  ev_category :: string
  ev_severity :: "string option"
  ev_user_id :: "string option"
  ev_username :: "string option"
  ev_source_ip :: "string option"
  ev_destination_ip :: "string option"
  ev_source_port :: "int option"
  ev_destination_port :: "int option"
  ev_hostname :: "string option"
  ev_device_id :: "string option"
  ev_action :: "string option"
  ev_status :: "string option"
  ev_resource :: "string option"
  ev_resource_type :: "string option"
  ev_country :: "string option"
  ev_user_agent :: "string option"
  ev_bytes_sent :: "int option"
  ev_bytes_received :: "int option"
  ev_raw_payload :: "(string \<times> json) list"
  ev_event_metadata :: "(string \<times> json) list"
  ev_created_at :: datetime

record incident =
  in_id :: uuid
  in_title :: string
  in_description :: string
  in_status :: string
  in_severity :: string
  in_risk_score :: int
  in_correlation_key :: string
  in_primary_username :: "string option"
  in_primary_source_ip :: "string option"
  in_first_seen :: datetime
  in_last_seen :: datetime
  in_timeline :: "json list"
  in_created_at :: datetime
  in_updated_at :: datetime

record incident_alert =
  ia_incident_id :: uuid
  ia_alert_id :: uuid
  ia_created_at :: datetime

record incident_evidence =
  ie_id :: uuid
  ie_incident_id :: uuid
  ie_submitted_by :: uuid
  ie_kind :: string
  ie_source :: string
  ie_summary :: string
  ie_network :: "((string \<times> json) list) option"
  ie_observed_at :: "datetime option"
  ie_sensitive_redacted :: bool
  ie_created_at :: datetime

record investigation =
  iv_id :: uuid
  iv_incident_id :: uuid
  iv_status :: string
  iv_provider :: string
  iv_model :: string
  iv_prompt_version :: string
  iv_context_hash :: string
  iv_context_snapshot :: "(string \<times> json) list"
  iv_result :: "((string \<times> json) list) option"
  iv_validation_errors :: "string list"
  iv_provider_response_ids :: "string list"
  iv_error :: "string option"
  iv_error_class :: "string option"
  iv_input_tokens :: int
  iv_output_tokens :: int
  iv_attempt_count :: int
  iv_next_retry_at :: "datetime option"
  iv_queued_at :: datetime
  iv_started_at :: "datetime option"
  iv_completed_at :: "datetime option"
  iv_created_at :: datetime
  iv_updated_at :: datetime

record model_registry =
  mr_id :: uuid
  mr_model_name :: string
  mr_model_version :: string
  mr_algorithm :: string
  mr_status :: string
  mr_feature_version :: string
  mr_artifact_path :: string
  mr_trained_at :: "datetime option"
  mr_evaluation_metrics :: "(string \<times> json) list"
  mr_training_metadata :: "(string \<times> json) list"
  mr_created_at :: datetime

record mitre_technique =
  mt_external_id :: string
  mt_name :: string
  mt_description :: string
  mt_tactics :: "string list"
  mt_platforms :: "string list"
  mt_version :: string
  mt_source_url :: string
  mt_is_subtechnique :: bool
  mt_parent_external_id :: "string option"
  mt_created_at :: datetime
  mt_updated_at :: datetime

record rule_technique_mapping =
  rm_rule_id :: string
  rm_technique_external_id :: string
  rm_created_at :: datetime

record incident_note =
  no_id :: uuid
  no_incident_id :: uuid
  no_author_id :: uuid
  no_content :: string
  no_created_at :: datetime
  no_updated_at :: datetime

record response_action =
  ra_id :: uuid
  ra_incident_id :: uuid
  ra_action_type :: string
  ra_target :: string
  ra_account_id :: "string option"
  ra_status :: string
  ra_rationale :: string
  ra_impact :: string
  ra_evidence_refs :: "string list"
  ra_idempotency_key :: string
  ra_proposed_by :: uuid
  ra_approved_by :: "uuid option"
  ra_result :: "((string \<times> json) list) option"
  ra_error :: "string option"
  ra_created_at :: datetime
  ra_updated_at :: datetime

record training_incident =
  ti_id :: uuid
  ti_scenario_id :: string
  ti_title :: string
  ti_account_id :: string
  ti_observed_at :: "datetime option"
  ti_source_kind :: string
  ti_review_status :: string
  ti_labels :: "string list"
  ti_events :: "json list"
  ti_source_ref :: "string option"
  ti_created_at :: datetime

section \<open>The database\<close>

record db =
  db_events :: "event list"
  db_alerts :: "alert list"
  db_incidents :: "incident list"
  db_incident_alerts :: "incident_alert list"
  db_incident_evidence :: "incident_evidence list"
  db_investigations :: "investigation list"
  db_response_actions :: "response_action list"
  db_roles :: "role list"
  db_users :: "user list"
  db_auth_sessions :: "auth_session list"
  db_api_keys :: "service_api_key list"
  db_audit_logs :: "audit_log list"
  db_notes :: "incident_note list"
  db_techniques :: "mitre_technique list"
  db_rule_techniques :: "rule_technique_mapping list"
  db_model_registry :: "model_registry list"
  db_training_incidents :: "training_incident list"

definition empty_db :: db where
  "empty_db = \<lparr>db_events = [], db_alerts = [], db_incidents = [], db_incident_alerts = [],
     db_incident_evidence = [], db_investigations = [], db_response_actions = [], db_roles = [],
     db_users = [], db_auth_sessions = [], db_api_keys = [], db_audit_logs = [], db_notes = [],
     db_techniques = [], db_rule_techniques = [], db_model_registry = [],
     db_training_incidents = []\<rparr>"

section \<open>Keyed tables\<close>

definition table_get :: "('r \<Rightarrow> 'k) \<Rightarrow> 'k \<Rightarrow> 'r list \<Rightarrow> 'r option" where
  "table_get key k rows = find (\<lambda>r. key r = k) rows"

definition table_save :: "('r \<Rightarrow> 'k) \<Rightarrow> 'r \<Rightarrow> 'r list \<Rightarrow> 'r list" where
  "table_save key r rows = map (\<lambda>x. if key x = key r then r else x) rows"

text \<open>\<^verbatim>\<open>UPDATE ... WHERE p\<close>.\<close>

definition update_where :: "('r \<Rightarrow> bool) \<Rightarrow> ('r \<Rightarrow> 'r) \<Rightarrow> 'r list \<Rightarrow> 'r list" where
  "update_where p f rows = map (\<lambda>x. if p x then f x else x) rows"

lemma table_get_Nil [simp]: "table_get key k [] = None"
  by (simp add: table_get_def)

lemma table_get_Cons [simp]:
  "table_get key k (r # rows) = (if key r = k then Some r else table_get key k rows)"
  by (simp add: table_get_def)

lemma table_get_Some: "table_get key k rows = Some r \<Longrightarrow> r \<in> set rows \<and> key r = k"
  by (induction rows) (auto split: if_splits)

lemma table_get_None: "table_get key k rows = None \<longleftrightarrow> k \<notin> key ` set rows"
  by (induction rows) auto

lemma table_get_distinct:
  "distinct (map key rows) \<Longrightarrow> r \<in> set rows \<Longrightarrow> table_get key (key r) rows = Some r"
  by (induction rows) (auto simp: image_iff)

lemma table_get_append [table_simps]:
  "table_get key k (rows @ [r]) = (case table_get key k rows of None \<Rightarrow> (if key r = k then Some r else None)
     | Some x \<Rightarrow> Some x)"
  by (induction rows) auto

lemma table_get_save [table_simps]:
  "table_get key k (table_save key r rows)
   = (if key r = k \<and> table_get key k rows \<noteq> None then Some r else table_get key k rows)"
  by (induction rows) (auto simp: table_save_def)

lemma keys_table_save [simp]: "map key (table_save key r rows) = map key rows"
  by (simp add: table_save_def)

lemma set_table_save: "x \<in> set (table_save key r rows) \<Longrightarrow> x = r \<or> x \<in> set rows"
  by (auto simp: table_save_def split: if_splits)

lemma update_where_map: "(\<And>x. p x \<Longrightarrow> g (f x) = g x) \<Longrightarrow> map g (update_where p f rows) = map g rows"
  by (simp add: update_where_def)

lemma update_where_Nil [simp]: "update_where p f [] = []"
  by (simp add: update_where_def)

lemma update_where_Cons [simp]:
  "update_where p f (x # xs) = (if p x then f x else x) # update_where p f xs"
  by (simp add: update_where_def)

lemma set_update_where: "set (update_where p f rows) = (\<lambda>x. if p x then f x else x) ` set rows"
  by (simp add: update_where_def)

text \<open>
  The interface of a table with a primary key, as the services use it. What the client
  calls: \<open>get\<close> (\<^verbatim>\<open>session.get\<close>), \<open>add\<close> (\<^verbatim>\<open>session.add\<close> and a flush) and \<open>save\<close> (the flush of a
  row changed in place).
\<close>

locale keyed_table =
  fixes key :: "'r \<Rightarrow> 'k"
    and get :: "'k \<Rightarrow> 't \<Rightarrow> 'r option"
    and add :: "'r \<Rightarrow> 't \<Rightarrow> 't"
    and save :: "'r \<Rightarrow> 't \<Rightarrow> 't"
  assumes get_add: "get k (add r t) = (case get k t of None \<Rightarrow> (if key r = k then Some r else None)
      | Some x \<Rightarrow> Some x)"
    and get_save: "get k (save r t) = (if key r = k \<and> get k t \<noteq> None then Some r else get k t)"
    and get_key: "get k t = Some r \<Longrightarrow> key r = k"
begin

lemma get_add_fresh: "get (key r) t = None \<Longrightarrow> get (key r) (add r t) = Some r"
  by (simp add: get_add)

lemma get_add_other: "key r \<noteq> k \<Longrightarrow> get k (add r t) = get k t"
  by (simp add: get_add split: option.split)

lemma get_save_same: "get (key r) t = Some x \<Longrightarrow> get (key r) (save r t) = Some r"
  by (simp add: get_save)

lemma get_save_other: "key r \<noteq> k \<Longrightarrow> get k (save r t) = get k t"
  by (simp add: get_save)

lemma get_save_iff: "(get k (save r t) = None) = (get k t = None)"
  by (simp add: get_save)

lemma save_twice: "key r = key r' \<Longrightarrow> get k (save r (save r' t)) = get k (save r t)"
  by (simp add: get_save)

end

section \<open>The tables of the database\<close>

definition get_user :: "uuid \<Rightarrow> db \<Rightarrow> user option" where
  "get_user i d = table_get us_id i (db_users d)"

definition add_user :: "user \<Rightarrow> db \<Rightarrow> db" where
  "add_user r d = d\<lparr>db_users := db_users d @ [r]\<rparr>"

definition save_user :: "user \<Rightarrow> db \<Rightarrow> db" where
  "save_user r d = d\<lparr>db_users := table_save us_id r (db_users d)\<rparr>"

interpretation users: keyed_table us_id get_user add_user save_user
  by unfold_locales
    (auto simp: get_user_def add_user_def save_user_def table_simps dest: table_get_Some)

definition get_auth_session :: "uuid \<Rightarrow> db \<Rightarrow> auth_session option" where
  "get_auth_session i d = table_get as_id i (db_auth_sessions d)"

definition add_auth_session :: "auth_session \<Rightarrow> db \<Rightarrow> db" where
  "add_auth_session r d = d\<lparr>db_auth_sessions := db_auth_sessions d @ [r]\<rparr>"

definition save_auth_session :: "auth_session \<Rightarrow> db \<Rightarrow> db" where
  "save_auth_session r d = d\<lparr>db_auth_sessions := table_save as_id r (db_auth_sessions d)\<rparr>"

interpretation auth_sessions: keyed_table as_id get_auth_session add_auth_session save_auth_session
  by unfold_locales
    (auto simp: get_auth_session_def add_auth_session_def save_auth_session_def table_simps dest: table_get_Some)

definition get_api_key :: "uuid \<Rightarrow> db \<Rightarrow> service_api_key option" where
  "get_api_key i d = table_get ak_id i (db_api_keys d)"

definition add_api_key :: "service_api_key \<Rightarrow> db \<Rightarrow> db" where
  "add_api_key r d = d\<lparr>db_api_keys := db_api_keys d @ [r]\<rparr>"

definition save_api_key :: "service_api_key \<Rightarrow> db \<Rightarrow> db" where
  "save_api_key r d = d\<lparr>db_api_keys := table_save ak_id r (db_api_keys d)\<rparr>"

interpretation api_keys: keyed_table ak_id get_api_key add_api_key save_api_key
  by unfold_locales
    (auto simp: get_api_key_def add_api_key_def save_api_key_def table_simps dest: table_get_Some)

definition get_incident :: "uuid \<Rightarrow> db \<Rightarrow> incident option" where
  "get_incident i d = table_get in_id i (db_incidents d)"

definition add_incident :: "incident \<Rightarrow> db \<Rightarrow> db" where
  "add_incident r d = d\<lparr>db_incidents := db_incidents d @ [r]\<rparr>"

definition save_incident :: "incident \<Rightarrow> db \<Rightarrow> db" where
  "save_incident r d = d\<lparr>db_incidents := table_save in_id r (db_incidents d)\<rparr>"

interpretation incidents: keyed_table in_id get_incident add_incident save_incident
  by unfold_locales
    (auto simp: get_incident_def add_incident_def save_incident_def table_simps dest: table_get_Some)

definition get_investigation :: "uuid \<Rightarrow> db \<Rightarrow> investigation option" where
  "get_investigation i d = table_get iv_id i (db_investigations d)"

definition add_investigation :: "investigation \<Rightarrow> db \<Rightarrow> db" where
  "add_investigation r d = d\<lparr>db_investigations := db_investigations d @ [r]\<rparr>"

definition save_investigation :: "investigation \<Rightarrow> db \<Rightarrow> db" where
  "save_investigation r d = d\<lparr>db_investigations := table_save iv_id r (db_investigations d)\<rparr>"

interpretation investigations: keyed_table iv_id get_investigation add_investigation save_investigation
  by unfold_locales
    (auto simp: get_investigation_def add_investigation_def save_investigation_def table_simps dest: table_get_Some)

definition get_response_action :: "uuid \<Rightarrow> db \<Rightarrow> response_action option" where
  "get_response_action i d = table_get ra_id i (db_response_actions d)"

definition add_response_action :: "response_action \<Rightarrow> db \<Rightarrow> db" where
  "add_response_action r d = d\<lparr>db_response_actions := db_response_actions d @ [r]\<rparr>"

definition save_response_action :: "response_action \<Rightarrow> db \<Rightarrow> db" where
  "save_response_action r d = d\<lparr>db_response_actions := table_save ra_id r (db_response_actions d)\<rparr>"

interpretation response_actions: keyed_table ra_id get_response_action add_response_action save_response_action
  by unfold_locales
    (auto simp: get_response_action_def add_response_action_def save_response_action_def table_simps dest: table_get_Some)

definition get_note :: "uuid \<Rightarrow> db \<Rightarrow> incident_note option" where
  "get_note i d = table_get no_id i (db_notes d)"

definition add_note :: "incident_note \<Rightarrow> db \<Rightarrow> db" where
  "add_note r d = d\<lparr>db_notes := db_notes d @ [r]\<rparr>"

definition save_note :: "incident_note \<Rightarrow> db \<Rightarrow> db" where
  "save_note r d = d\<lparr>db_notes := table_save no_id r (db_notes d)\<rparr>"

interpretation incident_notes: keyed_table no_id get_note add_note save_note
  by unfold_locales
    (auto simp: get_note_def add_note_def save_note_def table_simps dest: table_get_Some)

definition get_model :: "uuid \<Rightarrow> db \<Rightarrow> model_registry option" where
  "get_model i d = table_get mr_id i (db_model_registry d)"

definition add_model :: "model_registry \<Rightarrow> db \<Rightarrow> db" where
  "add_model r d = d\<lparr>db_model_registry := db_model_registry d @ [r]\<rparr>"

definition save_model :: "model_registry \<Rightarrow> db \<Rightarrow> db" where
  "save_model r d = d\<lparr>db_model_registry := table_save mr_id r (db_model_registry d)\<rparr>"

interpretation model_rows: keyed_table mr_id get_model add_model save_model
  by unfold_locales
    (auto simp: get_model_def add_model_def save_model_def table_simps dest: table_get_Some)

end
