(* ===== verification/EventStore.thy ===== *)
theory EventStore
  imports Models
begin

text \<open>
  Telemetry events: the ingestion schema (\<^verbatim>\<open>schemas/event.py\<close>), the normalizer
  (\<^verbatim>\<open>services/event_normalizer.py\<close>) and the event repository
  (\<^verbatim>\<open>repositories/event_repository.py\<close>), whose queries are filters and stable sorts of the
  events table. SQL's comparison with NULL is not true, so a column that is None matches
  no value. Rows that SQL may return in any order (equal sort keys) come in insertion
  order here.
\<close>

section \<open>Times\<close>

text \<open>
  The result of datetime arithmetic, which raises OverflowError outside the years 1 to 9999. (A
  \<^verbatim>\<open>timedelta\<close> has a limit of its own, but from a representable instant one beyond it leads
  outside anyway, to the same exception.)
\<close>

definition checked_datetime :: "datetime \<Rightarrow> exn + datetime" where
  "checked_datetime t = (if datetime_ok t then Inr t else Inl OverflowError)"

lemma checked_datetime_simps [simp]:
  "checked_datetime t = Inr u \<longleftrightarrow> datetime_ok t \<and> u = t"
  "checked_datetime t = Inl x \<longleftrightarrow> \<not> datetime_ok t \<and> x = OverflowError"
  by (auto simp: checked_datetime_def)

lemma checked_datetime_ok: "datetime_ok t \<Longrightarrow> checked_datetime t = Inr t"
  by simp

section \<open>The ingestion schema\<close>

definition event_categories :: "string list" where
  "event_categories = [''authentication'', ''network'', ''cloud'', ''application'', ''file_access'',
     ''privilege_change'', ''process'', ''api'', ''security_finding'']"

definition event_types :: "string list" where
  "event_types = [''login_success'', ''login_failure'', ''logout'', ''api_request'', ''api_error'',
     ''file_access'', ''file_download'', ''privilege_change'', ''network_connection'', ''network_scan'',
     ''resource_access'', ''account_created'', ''account_deleted'', ''password_changed'', ''cloud_finding'',
     ''access_key_used'', ''s3_public_exposure'', ''secret_exposure'', ''data_exfiltration'']"

definition event_severities :: "string list" where
  "event_severities = [''low'', ''medium'', ''high'', ''critical'']"

text \<open>
  A datetime of a request: naive (its wall-clock microseconds), or aware (the wall-clock
  microseconds and the offset from UTC, also in microseconds).
\<close>

datatype py_datetime = Naive int | Aware int int

fun instant :: "py_datetime \<Rightarrow> datetime" where
  "instant (Naive w) = w"
| "instant (Aware w off) = w - off"

definition ensure_timestamp_has_timezone :: "py_datetime \<Rightarrow> py_datetime" where
  "ensure_timestamp_has_timezone v = (case v of Naive w \<Rightarrow> Aware w 0 | Aware w off \<Rightarrow> v)"

record event_create =
  ec_timestamp :: py_datetime
  ec_source :: string
  ec_source_type :: string
  ec_event_type :: string
  ec_category :: string
  ec_severity :: "string option"
  ec_event_id :: "string option"
  ec_user_id :: "string option"
  ec_username :: "string option"
  ec_source_ip :: "string option"
  ec_destination_ip :: "string option"
  ec_source_port :: "int option"
  ec_destination_port :: "int option"
  ec_hostname :: "string option"
  ec_device_id :: "string option"
  ec_action :: "string option"
  ec_status :: "string option"
  ec_resource :: "string option"
  ec_resource_type :: "string option"
  ec_country :: "string option"
  ec_user_agent :: "string option"
  ec_bytes_sent :: "int option"
  ec_bytes_received :: "int option"
  ec_raw_payload :: "((string \<times> json) list) option"
  ec_metadata :: "(string \<times> json) list"

definition max_len :: "nat \<Rightarrow> string option \<Rightarrow> bool" where
  "max_len n v = (case v of None \<Rightarrow> True | Some s \<Rightarrow> length s \<le> n)"

definition int_range :: "int \<Rightarrow> int \<Rightarrow> int option \<Rightarrow> bool" where
  "int_range lo hi v = (case v of None \<Rightarrow> True | Some i \<Rightarrow> lo \<le> i \<and> i \<le> hi)"

definition non_negative :: "int option \<Rightarrow> bool" where
  "non_negative v = (case v of None \<Rightarrow> True | Some i \<Rightarrow> 0 \<le> i)"

text \<open>The constraints the fields declare; an object of the class satisfies them.\<close>

definition event_create_valid :: "event_create \<Rightarrow> bool" where
  "event_create_valid p =
    (1 \<le> length (ec_source p) \<and> length (ec_source p) \<le> 255 \<and>
     1 \<le> length (ec_source_type p) \<and> length (ec_source_type p) \<le> 64 \<and>
     ec_event_type p \<in> set event_types \<and>
     ec_category p \<in> set event_categories \<and>
     (case ec_severity p of None \<Rightarrow> True | Some s \<Rightarrow> s \<in> set event_severities) \<and>
     max_len 128 (ec_event_id p) \<and> max_len 128 (ec_user_id p) \<and> max_len 255 (ec_username p) \<and>
     max_len 64 (ec_source_ip p) \<and> max_len 64 (ec_destination_ip p) \<and>
     int_range 0 65535 (ec_source_port p) \<and> int_range 0 65535 (ec_destination_port p) \<and>
     max_len 255 (ec_hostname p) \<and> max_len 255 (ec_device_id p) \<and>
     max_len 128 (ec_action p) \<and> max_len 64 (ec_status p) \<and>
     max_len 255 (ec_resource p) \<and> max_len 128 (ec_resource_type p) \<and> max_len 128 (ec_country p) \<and>
     non_negative (ec_bytes_sent p) \<and> non_negative (ec_bytes_received p))"

text \<open>Building the object: the field checks, then the validator on the timestamp.\<close>

definition build_event_create :: "event_create \<Rightarrow> exn + event_create" where
  "build_event_create p =
    (if event_create_valid p
     then Inr (p\<lparr>ec_timestamp := ensure_timestamp_has_timezone (ec_timestamp p)\<rparr>)
     else Inl (ValueError ''validation''))"

definition event_bulk_valid :: "event_create list \<Rightarrow> bool" where
  "event_bulk_valid ps = (1 \<le> length ps \<and> length ps \<le> 1000 \<and> (\<forall>p \<in> set ps. event_create_valid p))"

section \<open>The normalizer\<close>

text \<open>\<^verbatim>\<open>astimezone(UTC)\<close> of a time near an end of the calendar can leave it.\<close>

definition normalize_timestamp :: "py_datetime \<Rightarrow> exn + datetime" where
  "normalize_timestamp v = (case v of Naive w \<Rightarrow> Inr w | Aware w off \<Rightarrow> checked_datetime (w - off))"

lemma normalize_timestamp_Inr: "normalize_timestamp v = Inr t \<Longrightarrow> t = instant v"
  by (auto simp: normalize_timestamp_def split: py_datetime.splits)

lemma normalize_timestamp_ok: "datetime_ok (instant v) \<Longrightarrow> normalize_timestamp v = Inr (instant v)"
  by (auto simp: normalize_timestamp_def split: py_datetime.split)

text \<open>
  The row \<^verbatim>\<open>GenericJSONNormalizer.normalize\<close> builds for the UTC time \<open>t\<close>. The two UUIDs it draws (for a missing event id and,
  as the column default, for the row) and the two clock readings are arguments, and so is
  \<open>dump\<close>, pydantic's \<^verbatim>\<open>model_dump(mode="json", exclude_none=True)\<close>.
\<close>

definition event_row :: "(event_create \<Rightarrow> (string \<times> json) list) \<Rightarrow> uuid \<Rightarrow> uuid \<Rightarrow> datetime \<Rightarrow> datetime \<Rightarrow>
    event_create \<Rightarrow> datetime \<Rightarrow> event" where
  "event_row dump row_id fresh now1 now2 p t =
    \<lparr>ev_id = row_id,
     ev_event_id = str_or (ec_event_id p) (''evt_'' @ uuid_hex fresh),
     ev_timestamp = t,
     ev_received_at = now1,
     ev_source = ec_source p,
     ev_source_type = ec_source_type p,
     ev_event_type = ec_event_type p,
     ev_category = ec_category p,
     ev_severity = ec_severity p,
     ev_user_id = ec_user_id p,
     ev_username = ec_username p,
     ev_source_ip = ec_source_ip p,
     ev_destination_ip = ec_destination_ip p,
     ev_source_port = ec_source_port p,
     ev_destination_port = ec_destination_port p,
     ev_hostname = ec_hostname p,
     ev_device_id = ec_device_id p,
     ev_action = ec_action p,
     ev_status = ec_status p,
     ev_resource = ec_resource p,
     ev_resource_type = ec_resource_type p,
     ev_country = ec_country p,
     ev_user_agent = ec_user_agent p,
     ev_bytes_sent = ec_bytes_sent p,
     ev_bytes_received = ec_bytes_received p,
     ev_raw_payload = (case ec_raw_payload p of None \<Rightarrow> dump p | Some [] \<Rightarrow> dump p | Some d \<Rightarrow> d),
     ev_event_metadata = ec_metadata p,
     ev_created_at = now2\<rparr>"

definition normalize :: "(event_create \<Rightarrow> (string \<times> json) list) \<Rightarrow> uuid \<Rightarrow> uuid \<Rightarrow> datetime \<Rightarrow> datetime \<Rightarrow>
    event_create \<Rightarrow> exn + event" where
  "normalize dump row_id fresh now1 now2 p =
    then_do (normalize_timestamp (ec_timestamp p)) (\<lambda>t. Inr (event_row dump row_id fresh now1 now2 p t))"

lemma event_row_simps [simp]:
  "ev_id (event_row dump i f n1 n2 p t) = i"
  "ev_event_type (event_row dump i f n1 n2 p t) = ec_event_type p"
  "ev_source_ip (event_row dump i f n1 n2 p t) = ec_source_ip p"
  "ev_username (event_row dump i f n1 n2 p t) = ec_username p"
  "ev_timestamp (event_row dump i f n1 n2 p t) = t"
  by (simp_all add: event_row_def)

section \<open>The repository\<close>

text \<open>
  \<^verbatim>\<open>create\<close>: the flush raises IntegrityError when the primary key or the unique \<^verbatim>\<open>event_id\<close>
  is taken. Before that the driver refuses a number that does not fit its column: the byte counts
  are 32-bit signed integers, which the request's schema does not check.
\<close>

definition fits_integer :: "int option \<Rightarrow> bool" where
  "fits_integer v = (case v of None \<Rightarrow> True | Some n \<Rightarrow> sint (word_of_int n :: 32 word) = n)"

definition event_row_fits :: "event \<Rightarrow> bool" where
  "event_row_fits e = (fits_integer (ev_source_port e) \<and> fits_integer (ev_destination_port e) \<and>
     fits_integer (ev_bytes_sent e) \<and> fits_integer (ev_bytes_received e))"

definition event_create_row :: "event \<Rightarrow> db \<Rightarrow> exn + db" where
  "event_create_row e d =
    (if \<not> event_row_fits e then Inl DBAPIError
     else if ev_id e \<in> ev_id ` set (db_events d) \<or> ev_event_id e \<in> ev_event_id ` set (db_events d)
     then Inl IntegrityError else Inr (d\<lparr>db_events := db_events d @ [e]\<rparr>))"

text \<open>One flush for all rows: it fails as a whole.\<close>

fun events_create_many :: "event list \<Rightarrow> db \<Rightarrow> exn + db" where
  "events_create_many [] d = Inr d"
| "events_create_many (e # es) d = then_do (event_create_row e d) (events_create_many es)"

lemma events_create_many_rows: "events_create_many es d = Inr d' \<Longrightarrow> d' = d\<lparr>db_events := db_events d @ es\<rparr>"
proof (induction es arbitrary: d)
  case (Cons e es)
  then obtain d1 where d1: "event_create_row e d = Inr d1" and rest: "events_create_many es d1 = Inr d'" by auto
  have "d1 = d\<lparr>db_events := db_events d @ [e]\<rparr>" using d1 by (auto simp: event_create_row_def split: if_splits)
  with Cons.IH [OF rest] show ?case by simp
qed simp

definition get_by_event_id :: "string \<Rightarrow> db \<Rightarrow> event option" where
  "get_by_event_id i d = find (\<lambda>e. ev_event_id e = i) (db_events d)"

text \<open>\<^verbatim>\<open>get_by_ids\<close>: a dictionary from row ids to events.\<close>

definition get_by_ids :: "uuid list \<Rightarrow> db \<Rightarrow> (uuid \<times> event) list" where
  "get_by_ids ids d = map (\<lambda>e. (ev_id e, e)) (filter (\<lambda>e. ev_id e \<in> set ids) (db_events d))"

definition list_between :: "datetime \<Rightarrow> datetime \<Rightarrow> db \<Rightarrow> event list" where
  "list_between start_time end_time d =
    sort_key (\<lambda>e. (ev_timestamp e, ev_created_at e))
      (filter (\<lambda>e. start_time \<le> ev_timestamp e \<and> ev_timestamp e \<le> end_time) (db_events d))"

record event_query_filters =
  qf_start_time :: "datetime option"
  qf_end_time :: "datetime option"
  qf_event_type :: "string option"
  qf_category :: "string option"
  qf_source_ip :: "string option"
  qf_username :: "string option"
  qf_severity :: "string option"
  qf_limit :: nat
  qf_offset :: nat

definition event_matches :: "event_query_filters \<Rightarrow> event \<Rightarrow> bool" where
  "event_matches f e =
    ((case qf_start_time f of None \<Rightarrow> True | Some t \<Rightarrow> t \<le> ev_timestamp e) \<and>
     (case qf_end_time f of None \<Rightarrow> True | Some t \<Rightarrow> ev_timestamp e \<le> t) \<and>
     (case qf_event_type f of None \<Rightarrow> True | Some s \<Rightarrow> ev_event_type e = s) \<and>
     (case qf_category f of None \<Rightarrow> True | Some s \<Rightarrow> ev_category e = s) \<and>
     (case qf_source_ip f of None \<Rightarrow> True | Some s \<Rightarrow> ev_source_ip e = Some s) \<and>
     (case qf_username f of None \<Rightarrow> True | Some s \<Rightarrow> ev_username e = Some s) \<and>
     (case qf_severity f of None \<Rightarrow> True | Some s \<Rightarrow> ev_severity e = Some s))"

definition list_events :: "event_query_filters \<Rightarrow> db \<Rightarrow> event list \<times> nat" where
  "list_events f d =
    (let rows = filter (event_matches f) (db_events d)
     in (take (qf_limit f) (drop (qf_offset f) (sort_key (\<lambda>e. - ev_timestamp e) rows)), length rows))"

definition recent_login_failures_by_source_ip :: "db \<Rightarrow> string \<Rightarrow> datetime \<Rightarrow> datetime \<Rightarrow> event list" where
  "recent_login_failures_by_source_ip d source_ip since until =
    sort_key ev_timestamp
      (filter (\<lambda>e. ev_event_type e = ''login_failure'' \<and> ev_source_ip e = Some source_ip \<and>
                   since \<le> ev_timestamp e \<and> ev_timestamp e \<le> until) (db_events d))"

definition distinct_usernames_for_failures_by_source_ip ::
    "db \<Rightarrow> string \<Rightarrow> datetime \<Rightarrow> datetime \<Rightarrow> string list" where
  "distinct_usernames_for_failures_by_source_ip d source_ip since until =
    remdups (List.map_filter ev_username
      (filter (\<lambda>e. ev_event_type e = ''login_failure'' \<and> ev_source_ip e = Some source_ip \<and>
                   ev_username e \<noteq> None \<and> since \<le> ev_timestamp e \<and> ev_timestamp e \<le> until) (db_events d)))"

definition same_identity :: "string option \<Rightarrow> string option \<Rightarrow> string option \<Rightarrow> string option \<Rightarrow> bool" where
  "same_identity username source_ip row_username row_source_ip =
    ((username \<noteq> None \<and> row_username = username) \<or> (source_ip \<noteq> None \<and> row_source_ip = source_ip))"

definition recent_login_failures_for_identity ::
    "db \<Rightarrow> string option \<Rightarrow> string option \<Rightarrow> datetime \<Rightarrow> datetime \<Rightarrow> event list" where
  "recent_login_failures_for_identity d username source_ip since until =
    (if username = None \<and> source_ip = None then []
     else sort_key ev_timestamp
       (filter (\<lambda>e. ev_event_type e = ''login_failure'' \<and> since \<le> ev_timestamp e \<and> ev_timestamp e \<le> until \<and>
                    same_identity username source_ip (ev_username e) (ev_source_ip e)) (db_events d)))"

definition recent_authentication_context_for_privilege_change ::
    "db \<Rightarrow> string option \<Rightarrow> string option \<Rightarrow> int \<Rightarrow> datetime \<Rightarrow> exn + event list" where
  "recent_authentication_context_for_privilege_change d username source_ip lookback_seconds event_time =
    then_do (checked_datetime (event_time - seconds lookback_seconds)) (\<lambda>since.
      Inr (recent_login_failures_for_identity d username source_ip since event_time))"

section \<open>The interface the detection rules use\<close>

text \<open>\<^verbatim>\<open>DetectionContext.event_repository\<close>: the queries a rule may call.\<close>

record event_repository =
  er_failures_by_source_ip :: "string \<Rightarrow> datetime \<Rightarrow> datetime \<Rightarrow> event list"
  er_usernames_by_source_ip :: "string \<Rightarrow> datetime \<Rightarrow> datetime \<Rightarrow> string list"
  er_failures_for_identity :: "string option \<Rightarrow> string option \<Rightarrow> datetime \<Rightarrow> datetime \<Rightarrow> event list"
  er_context_for_privilege_change :: "string option \<Rightarrow> string option \<Rightarrow> int \<Rightarrow> datetime \<Rightarrow> exn + event list"

definition event_repository_of :: "db \<Rightarrow> event_repository" where
  "event_repository_of d =
    \<lparr>er_failures_by_source_ip = recent_login_failures_by_source_ip d,
     er_usernames_by_source_ip = distinct_usernames_for_failures_by_source_ip d,
     er_failures_for_identity = recent_login_failures_for_identity d,
     er_context_for_privilege_change = recent_authentication_context_for_privilege_change d\<rparr>"

text \<open>
  What the rules rely on: a window query returns login failures of the window only, oldest
  first; the usernames are those of the failures of the same window, without repetition.
\<close>

locale failure_history =
  fixes repo :: event_repository
  assumes by_ip_sound: "e \<in> set (er_failures_by_source_ip repo ip s u) \<Longrightarrow>
      ev_event_type e = ''login_failure'' \<and> ev_source_ip e = Some ip \<and> s \<le> ev_timestamp e \<and> ev_timestamp e \<le> u"
    and by_ip_sorted: "sorted (map ev_timestamp (er_failures_by_source_ip repo ip s u))"
    and usernames_set: "set (er_usernames_by_source_ip repo ip s u)
      = {n. \<exists>e \<in> set (er_failures_by_source_ip repo ip s u). ev_username e = Some n}"
    and usernames_distinct: "distinct (er_usernames_by_source_ip repo ip s u)"
    and identity_sound: "e \<in> set (er_failures_for_identity repo un sip s u) \<Longrightarrow>
      ev_event_type e = ''login_failure'' \<and> s \<le> ev_timestamp e \<and> ev_timestamp e \<le> u \<and>
      same_identity un sip (ev_username e) (ev_source_ip e)"
    and identity_sorted: "sorted (map ev_timestamp (er_failures_for_identity repo un sip s u))"
    and privilege_context: "er_context_for_privilege_change repo un sip k t
      = then_do (checked_datetime (t - seconds k)) (\<lambda>since. Inr (er_failures_for_identity repo un sip since t))"
begin

lemma by_ip_bounds:
  assumes "er_failures_by_source_ip repo ip s u \<noteq> []"
  shows "s \<le> ev_timestamp (hd (er_failures_by_source_ip repo ip s u))"
    "ev_timestamp (hd (er_failures_by_source_ip repo ip s u)) \<le> ev_timestamp (last (er_failures_by_source_ip repo ip s u))"
    "ev_timestamp (last (er_failures_by_source_ip repo ip s u)) \<le> u"
proof -
  let ?fs = "er_failures_by_source_ip repo ip s u"
  have "hd ?fs \<in> set ?fs" "last ?fs \<in> set ?fs" using assms by simp_all
  then show "s \<le> ev_timestamp (hd ?fs)" "ev_timestamp (last ?fs) \<le> u"
    using by_ip_sound by blast+
  show "ev_timestamp (hd ?fs) \<le> ev_timestamp (last ?fs)"
    using sorted_last_max [OF by_ip_sorted, of "ev_timestamp (hd ?fs)" ip s u] assms \<open>hd ?fs \<in> set ?fs\<close>
    by (simp add: last_map)
qed

lemma identity_bounds:
  assumes "er_failures_for_identity repo n ip s u \<noteq> []"
  shows "s \<le> ev_timestamp (hd (er_failures_for_identity repo n ip s u))"
    "ev_timestamp (hd (er_failures_for_identity repo n ip s u)) \<le> u"
  using assms identity_sound [OF hd_in_set] by blast+

lemma usernames_le_failures:
  "length (er_usernames_by_source_ip repo ip s u) \<le> length (er_failures_by_source_ip repo ip s u)"
proof -
  let ?fs = "er_failures_by_source_ip repo ip s u" and ?ns = "er_usernames_by_source_ip repo ip s u"
  have "set ?ns \<subseteq> (the \<circ> ev_username) ` set ?fs"
    unfolding usernames_set by force
  then have "card (set ?ns) \<le> card (set ?fs)"
    by (meson card_image_le card_mono finite_imageI finite_set le_trans)
  then show ?thesis
    using distinct_card [OF usernames_distinct, of ip s u] card_length [of ?fs] by linarith
qed

end

interpretation event_history: failure_history "event_repository_of d" for d :: db
proof unfold_locales
  show "set (er_usernames_by_source_ip (event_repository_of d) ip s u)
      = {n. \<exists>e \<in> set (er_failures_by_source_ip (event_repository_of d) ip s u). ev_username e = Some n}" for ip s u
    by (auto simp: event_repository_of_def distinct_usernames_for_failures_by_source_ip_def
        recent_login_failures_by_source_ip_def map_filter_def intro: rev_image_eqI)
qed (auto simp: event_repository_of_def recent_login_failures_by_source_ip_def
    recent_login_failures_for_identity_def distinct_usernames_for_failures_by_source_ip_def
    recent_authentication_context_for_privilege_change_def split: if_splits)

section \<open>An example row\<close>

text \<open>An event with the given row id, type, source address, username and time, used by the witnesses.\<close>

definition example_event :: "uuid \<Rightarrow> string \<Rightarrow> string option \<Rightarrow> string option \<Rightarrow> datetime \<Rightarrow> event" where
  "example_event i typ ip name t =
    \<lparr>ev_id = i, ev_event_id = ''evt'', ev_timestamp = t, ev_received_at = t, ev_source = ''sensor'',
     ev_source_type = ''auth'', ev_event_type = typ, ev_category = ''authentication'', ev_severity = None,
     ev_user_id = None, ev_username = name, ev_source_ip = ip, ev_destination_ip = None,
     ev_source_port = None, ev_destination_port = None, ev_hostname = None, ev_device_id = None,
     ev_action = None, ev_status = None, ev_resource = None, ev_resource_type = None, ev_country = None,
     ev_user_agent = None, ev_bytes_sent = None, ev_bytes_received = None, ev_raw_payload = [],
     ev_event_metadata = [], ev_created_at = t\<rparr>"

end
