(* ===== verification/PyFormat.thy ===== *)
theory PyFormat
  imports PyUuid
begin

text \<open>
  Formatting of Python values that ends up in messages and stored texts: \<^verbatim>\<open>round\<close>,
  fixed-point formats, \<^verbatim>\<open>repr\<close> of texts and lists of texts, and dotted IPv4 addresses as
  \<^verbatim>\<open>ipaddress.ip_address\<close> reads them.
\<close>

section \<open>Rounding\<close>

text \<open>\<^verbatim>\<open>round\<close> (to even on ties), on exact values.\<close>

definition round_half_even :: "rat \<Rightarrow> int" where
  "round_half_even r = (let f = \<lfloor>r\<rfloor>; d = r - of_int f
     in if d < 1 / 2 then f else if 1 / 2 < d then f + 1 else if even f then f else f + 1)"

text \<open>The format \<^verbatim>\<open>:.2f\<close>.\<close>

definition format2 :: "rat \<Rightarrow> string" where
  "format2 r = (let n = nat \<bar>round_half_even (r * 100)\<bar>
     in (if r < 0 then ''-'' else []) @ str_of_nat (n div 100) @ ''.'' @ map digit_char [n div 10 mod 10, n mod 10])"

section \<open>Representations of texts\<close>

definition repr_char :: "char \<Rightarrow> char \<Rightarrow> string" where
  "repr_char q c = (let n = (of_char c :: nat)
     in if c = q \<or> c = CHR 0x5C then [CHR 0x5C, c]
        else if n = 9 then [CHR 0x5C, CHR ''t'']
        else if n = 10 then [CHR 0x5C, CHR ''n'']
        else if n = 13 then [CHR 0x5C, CHR ''r'']
        else if n < 32 \<or> (127 \<le> n \<and> n \<le> 160) \<or> n = 173 then [CHR 0x5C, CHR ''x''] @ hex_digits 2 n
        else [c])"

definition py_repr :: "string \<Rightarrow> string" where
  "py_repr s = (let q = (if CHR 0x27 \<in> set s \<and> CHR 0x22 \<notin> set s then CHR 0x22 else CHR 0x27)
     in [q] @ concat (map (repr_char q) s) @ [q])"

definition py_repr_list :: "string list \<Rightarrow> string" where
  "py_repr_list xs = ''['' @ join '', '' (map py_repr xs) @ '']''"

section \<open>IPv4 addresses\<close>

text \<open>
  \<^verbatim>\<open>IPv4Address._parse_octet\<close>: one to three decimal digits, no leading zero, at most 255. The
  result is None where it raises ValueError.
\<close>

definition parse_octet :: "string \<Rightarrow> nat option" where
  "parse_octet s =
    (if s = [] \<or> \<not> list_all is_digit s \<or> 3 < length s \<or> (s \<noteq> ''0'' \<and> hd s = CHR ''0'') then None
     else (let n = nat_of_digits s in if 255 < n then None else Some n))"

definition parse_ipv4 :: "string \<Rightarrow> 32 word option" where
  "parse_ipv4 s =
    (case map parse_octet (split_all CHR ''.'' s) of
       [Some a, Some b, Some c, Some d] \<Rightarrow> Some (of_nat (((a * 256 + b) * 256 + c) * 256 + d))
     | _ \<Rightarrow> None)"

definition ipv4_text :: "nat \<Rightarrow> nat \<Rightarrow> nat \<Rightarrow> nat \<Rightarrow> string" where
  "ipv4_text a b c d = join ''.'' (map str_of_nat [a, b, c, d])"

text \<open>\<^verbatim>\<open>address in network\<close> for a network given by its first address and prefix length.\<close>

definition in_network :: "32 word \<Rightarrow> 32 word \<Rightarrow> nat \<Rightarrow> bool" where
  "in_network ip net len = (and ip (push_bit (32 - len) (mask len)) = net)"

subsection \<open>Every dotted quad is read as its four octets\<close>

lemma split_all_no_sep: "c \<notin> set s \<Longrightarrow> split_all c s = [s]"
  by (induction s) auto

lemma split_all_nonempty [simp]: "split_all c s \<noteq> []"
  by (induction s) (auto split: list.split)

lemma split_all_append_sep: "c \<notin> set a \<Longrightarrow> split_all c (a @ c # b) = a # split_all c b"
  by (induction a) auto

lemma str_of_nat_small: "n < 10 \<Longrightarrow> str_of_nat n = [digit_char n]"
  by (subst str_of_nat.simps) simp

lemma str_of_nat_hd: "0 < n \<Longrightarrow> hd (str_of_nat n) \<noteq> CHR ''0''"
proof (induction n rule: str_of_nat.induct)
  case (1 n)
  show ?case
  proof (cases "n < 10")
    case True
    have "(of_char (digit_char n) :: nat) \<noteq> of_char (CHR ''0'')" using True 1(2) by simp
    then have "digit_char n \<noteq> CHR ''0''" by metis
    then show ?thesis using True by (simp add: str_of_nat_small)
  next
    case False
    then have "hd (str_of_nat (n div 10)) \<noteq> CHR ''0''" using 1 by simp
    moreover have "str_of_nat n = str_of_nat (n div 10) @ [digit_char (n mod 10)]"
      using False by (subst str_of_nat.simps) simp
    ultimately show ?thesis by (simp add: hd_append)
  qed
qed

lemma length_str_of_nat: "n < 10 ^ k \<Longrightarrow> 0 < k \<Longrightarrow> length (str_of_nat n) \<le> k"
proof (induction k arbitrary: n)
  case (Suc k)
  show ?case
  proof (cases "n < 10")
    case True
    then show ?thesis by (simp add: str_of_nat_small)
  next
    case False
    then have "k \<noteq> 0" using Suc.prems by (cases k) auto
    moreover have "n div 10 < 10 ^ k" using Suc.prems by (simp add: less_mult_imp_div_less mult.commute)
    ultimately have "length (str_of_nat (n div 10)) \<le> k" using Suc.IH by simp
    moreover have "str_of_nat n = str_of_nat (n div 10) @ [digit_char (n mod 10)]"
      using False by (subst str_of_nat.simps) simp
    ultimately show ?thesis by simp
  qed
qed simp

lemma parse_octet_str [simp]: "n \<le> 255 \<Longrightarrow> parse_octet (str_of_nat n) = Some n"
proof -
  assume n: "n \<le> 255"
  have "length (str_of_nat n) \<le> 3" using length_str_of_nat [of n 3] n by simp
  moreover have "str_of_nat n = ''0'' \<or> hd (str_of_nat n) \<noteq> CHR ''0''"
  proof (cases "n = 0")
    case True
    then show ?thesis by (simp add: str_of_nat_small digit_char_def)
  qed (use str_of_nat_hd in simp)
  ultimately show ?thesis
    using n str_of_nat_digits [of n] by (auto simp: parse_octet_def list_all_iff)
qed

lemma no_dot_in_number [simp]: "CHR ''.'' \<notin> set (str_of_nat n)"
  by (rule no_char_in_number) (simp add: is_digit_def)

lemma parse_ipv4_text:
  assumes "a \<le> 255" "b \<le> 255" "c \<le> 255" "d \<le> 255"
  shows "parse_ipv4 (ipv4_text a b c d) = Some (of_nat (((a * 256 + b) * 256 + c) * 256 + d))"
  using assms by (simp add: parse_ipv4_def ipv4_text_def split_all_append_sep split_all_no_sep)

lemma is_space_digit: "is_digit c \<Longrightarrow> \<not> is_space c"
  by (auto simp: is_digit_def is_space_def Let_def)

subsection \<open>Membership in a network is equality of the leading bits\<close>

lemma in_network_drop: "len \<le> 32 \<Longrightarrow> in_network ip net len \<longleftrightarrow> push_bit (32 - len) (drop_bit (32 - len) ip) = net"
proof -
  assume len: "len \<le> 32"
  have "and ip (push_bit (32 - len) (mask len)) = push_bit (32 - len) (drop_bit (32 - len) ip)"
    by (rule bit_word_eqI) (use len in \<open>auto simp: bit_simps\<close>)
  then show ?thesis by (simp add: in_network_def)
qed

lemma drop_bit_of_nat_word:
  assumes "n < 2 ^ 32" shows "drop_bit k (of_nat n :: 32 word) = of_nat (n div 2 ^ k)"
proof -
  have "n div 2 ^ k < 2 ^ 32" using assms div_le_dividend le_less_trans by blast
  then have "unat (drop_bit k (of_nat n :: 32 word)) = unat (of_nat (n div 2 ^ k) :: 32 word)"
    using assms by (simp only: unat_drop_bit_eq unat_of_nat) (simp add: drop_bit_eq_div)
  then show ?thesis by (rule injD [OF inj_unsigned])
qed

lemma in_network_of_nat:
  assumes "n < 2 ^ 32" and "len \<le> 32" and "m < 2 ^ len" and "net = of_nat (m * 2 ^ (32 - len))"
  shows "in_network (of_nat n) net len \<longleftrightarrow> n div 2 ^ (32 - len) = m"
proof -
  let ?k = "32 - len"
  have "n div 2 ^ ?k * 2 ^ ?k \<le> n" by (rule div_times_less_eq_dividend)
  then have n: "n div 2 ^ ?k * 2 ^ ?k < 2 ^ 32" using assms(1) by linarith
  have "m * 2 ^ ?k < 2 ^ len * 2 ^ ?k" using assms(3) by simp
  then have m: "m * 2 ^ ?k < 2 ^ 32" using assms(2) by (simp add: power_add [symmetric])
  have "push_bit ?k (drop_bit ?k (of_nat n :: 32 word)) = of_nat (n div 2 ^ ?k * 2 ^ ?k)"
    by (simp only: drop_bit_of_nat_word [OF assms(1)] push_bit_eq_mult of_nat_mult of_nat_power of_nat_numeral)
  then have "in_network (of_nat n) net len \<longleftrightarrow>
      of_nat (n div 2 ^ ?k * 2 ^ ?k) = (of_nat (m * 2 ^ ?k) :: 32 word)"
    by (simp only: in_network_drop [OF assms(2)] assms(4))
  also have "\<dots> \<longleftrightarrow> n div 2 ^ ?k * 2 ^ ?k = m * 2 ^ ?k"
    using n m by (simp add: word_of_nat_eq_iff take_bit_nat_eq_self del: of_nat_mult of_nat_power)
  finally show ?thesis by simp
qed

lemma quad_less: "a \<le> 255 \<Longrightarrow> b \<le> 255 \<Longrightarrow> c \<le> 255 \<Longrightarrow> d \<le> 255 \<Longrightarrow>
    ((a * 256 + b) * 256 + c) * 256 + d < (2 :: nat) ^ 32"
  by simp

end
