(* ===== verification/Detection.thy ===== *)
theory Detection
  imports EventStore PyFormat
begin

text \<open>
  \<^verbatim>\<open>backend/app/detection/\<close>: the seven detection rules, the registry and the engine. A rule's
  \<^verbatim>\<open>evaluate\<close> is a function of the context and the event; an exception it lets escape (an
  index into an empty list, a failing model) is the left side of its result. The event
  repository of the context is a record of queries, and the model service is a function
  that may fail (its own code is outside this theory).
\<close>

section \<open>Results and context\<close>

record detection_result =
  dr_rule_id :: string
  dr_title :: string
  dr_description :: string
  dr_severity :: string
  dr_confidence :: rat
  dr_source_ip :: "string option"
  dr_username :: "string option"
  dr_event_id :: string
  dr_evidence :: "(string \<times> json) list"
  dr_first_seen :: "datetime option"
  dr_last_seen :: "datetime option"

record anomaly_score =
  sc_score :: rat
  sc_threshold :: rat
  sc_model_version :: string
  sc_feature_version :: string
  sc_features :: "(string \<times> rat) list"

definition is_anomaly :: "anomaly_score \<Rightarrow> bool" where
  "is_anomaly a = (sc_score a < sc_threshold a)"

record detection_context =
  dc_event_repository :: event_repository
  dc_settings :: settings
  dc_ml_inference_service :: "(event \<Rightarrow> exn + anomaly_score option) option"

type_synonym rule_outcome = "exn + detection_result option"

definition json_str :: "string option \<Rightarrow> json" where
  "json_str v = (case v of None \<Rightarrow> JNull | Some s \<Rightarrow> JStr s)"

definition json_nat :: "nat \<Rightarrow> json" where
  "json_nat n = JInt (int n)"

text \<open>\<^verbatim>\<open>xs[0]\<close> and \<^verbatim>\<open>xs[-1]\<close>, for code that reads them without a check.\<close>

definition first_item :: "'a list \<Rightarrow> exn + 'a" where
  "first_item xs = (case xs of [] \<Rightarrow> Inl IndexError | x # _ \<Rightarrow> Inr x)"

section \<open>The rules\<close>

definition brute_force_evaluate :: "detection_context \<Rightarrow> event \<Rightarrow> rule_outcome" where
  "brute_force_evaluate c e =
    (if ev_event_type e \<noteq> ''login_failure'' \<or> \<not> truthy_str (ev_source_ip e) then Inr None
     else
       let ip = the (ev_source_ip e);
           window = brute_force_window_seconds (dc_settings c)
       in then_do (checked_datetime (ev_timestamp e - seconds window)) (\<lambda>since.
       let failures = er_failures_by_source_ip (dc_event_repository c) ip since (ev_timestamp e)
       in if int (length failures) < brute_force_threshold (dc_settings c) then Inr None
          else (case first_item failures of Inl x \<Rightarrow> Inl x | Inr f \<Rightarrow>
            Inr (Some \<lparr>dr_rule_id = ''rule_001_brute_force'',
              dr_title = ''Potential brute-force attack detected'',
              dr_description = ''Detected '' @ str_of_nat (length failures) @ '' login failures from '' @ ip
                @ '' within '' @ str_of_int window @ '' seconds.'',
              dr_severity = ''high'', dr_confidence = 9 / 10,
              dr_source_ip = ev_source_ip e, dr_username = ev_username e, dr_event_id = ev_event_id e,
              dr_evidence = [(''failure_count'', json_nat (length failures)),
                (''window_seconds'', JInt window),
                (''event_ids'', JList (map (\<lambda>f. JStr (ev_event_id f)) failures))],
              dr_first_seen = Some (ev_timestamp f),
              dr_last_seen = Some (ev_timestamp (last failures))\<rparr>))))"

definition password_spray_evaluate :: "detection_context \<Rightarrow> event \<Rightarrow> rule_outcome" where
  "password_spray_evaluate c e =
    (if ev_event_type e \<noteq> ''login_failure'' \<or> \<not> truthy_str (ev_source_ip e) then Inr None
     else
       let ip = the (ev_source_ip e);
           window = password_spray_window_seconds (dc_settings c)
       in then_do (checked_datetime (ev_timestamp e - seconds window)) (\<lambda>since.
       let usernames = er_usernames_by_source_ip (dc_event_repository c) ip since (ev_timestamp e)
       in if int (length usernames) < password_spray_unique_users (dc_settings c) then Inr None
          else
            let failures = er_failures_by_source_ip (dc_event_repository c) ip since (ev_timestamp e)
            in Inr (Some \<lparr>dr_rule_id = ''rule_002_password_spray'',
              dr_title = ''Potential password spray detected'',
              dr_description = ''Detected login failures against '' @ str_of_nat (length usernames)
                @ '' users from '' @ ip @ '' within '' @ str_of_int window @ '' seconds.'',
              dr_severity = ''high'', dr_confidence = 88 / 100,
              dr_source_ip = ev_source_ip e, dr_username = ev_username e, dr_event_id = ev_event_id e,
              dr_evidence = [(''unique_users'', JList (map JStr (sort usernames))),
                (''unique_user_count'', json_nat (length usernames)),
                (''window_seconds'', JInt window)],
              dr_first_seen = Some (case failures of [] \<Rightarrow> ev_timestamp e | f # _ \<Rightarrow> ev_timestamp f),
              dr_last_seen = Some (ev_timestamp e)\<rparr>)))"

definition suspicious_privilege_change_evaluate :: "detection_context \<Rightarrow> event \<Rightarrow> rule_outcome" where
  "suspicious_privilege_change_evaluate c e =
    (if ev_event_type e \<noteq> ''privilege_change'' then Inr None
     else
       let lookback = privilege_change_lookback_seconds (dc_settings c)
       in then_do (er_context_for_privilege_change (dc_event_repository c)
             (ev_username e) (ev_source_ip e) lookback (ev_timestamp e)) (\<lambda>failures.
          case failures of [] \<Rightarrow> Inr None | f # _ \<Rightarrow>
            Inr (Some \<lparr>dr_rule_id = ''rule_003_suspicious_privilege_change'',
              dr_title = ''Suspicious privilege change detected'',
              dr_description = ''Privilege change followed recent failed authentication activity for the same identity or source IP.'',
              dr_severity = ''high'', dr_confidence = 82 / 100,
              dr_source_ip = ev_source_ip e, dr_username = ev_username e, dr_event_id = ev_event_id e,
              dr_evidence = [(''lookback_seconds'', JInt lookback),
                (''failure_event_ids'', JList (map (\<lambda>f. JStr (ev_event_id f)) failures)),
                (''failure_count'', json_nat (length failures))],
              dr_first_seen = Some (ev_timestamp f),
              dr_last_seen = Some (ev_timestamp e)\<rparr>)))"

definition large_download_evaluate :: "detection_context \<Rightarrow> event \<Rightarrow> rule_outcome" where
  "large_download_evaluate c e =
    (if ev_event_type e \<notin> {''file_download'', ''resource_access''} then Inr None
     else case ev_bytes_received e of None \<Rightarrow> Inr None | Some n \<Rightarrow>
       if n < large_download_threshold_bytes (dc_settings c) then Inr None
       else Inr (Some \<lparr>dr_rule_id = ''rule_004_large_download'',
              dr_title = ''Large download detected'',
              dr_description = ''Detected download volume of '' @ str_of_int n @ '' bytes above threshold.'',
              dr_severity = ''medium'', dr_confidence = 8 / 10,
              dr_source_ip = ev_source_ip e, dr_username = ev_username e, dr_event_id = ev_event_id e,
              dr_evidence = [(''bytes_received'', JInt n),
                (''threshold_bytes'', JInt (large_download_threshold_bytes (dc_settings c))),
                (''resource'', json_str (ev_resource e))],
              dr_first_seen = Some (ev_timestamp e),
              dr_last_seen = Some (ev_timestamp e)\<rparr>))"

definition login_after_failures_evaluate :: "detection_context \<Rightarrow> event \<Rightarrow> rule_outcome" where
  "login_after_failures_evaluate c e =
    (if ev_event_type e \<noteq> ''login_success'' then Inr None
     else
       let window = login_after_failures_window_seconds (dc_settings c);
           threshold = login_after_failures_threshold (dc_settings c)
       in then_do (checked_datetime (ev_timestamp e - seconds window)) (\<lambda>since.
       let failures = er_failures_for_identity (dc_event_repository c) (ev_username e) (ev_source_ip e)
             since (ev_timestamp e)
       in if int (length failures) < threshold then Inr None
          else (case first_item failures of Inl x \<Rightarrow> Inl x | Inr f \<Rightarrow>
            Inr (Some \<lparr>dr_rule_id = ''rule_005_login_after_failures'',
              dr_title = ''Login after multiple failures detected'',
              dr_description = ''Successful login followed multiple recent failures for the same user or source IP.'',
              dr_severity = ''high'', dr_confidence = 86 / 100,
              dr_source_ip = ev_source_ip e, dr_username = ev_username e, dr_event_id = ev_event_id e,
              dr_evidence = [(''failure_count'', json_nat (length failures)),
                (''threshold'', JInt threshold),
                (''failure_event_ids'', JList (map (\<lambda>f. JStr (ev_event_id f)) failures)),
                (''window_seconds'', JInt window)],
              dr_first_seen = Some (ev_timestamp f),
              dr_last_seen = Some (ev_timestamp e)\<rparr>))))"

text \<open>The score rounded to two places and the fixed-point format \<^verbatim>\<open>:.4f\<close>, on exact values.\<close>

definition round2 :: "rat \<Rightarrow> rat" where
  "round2 r = of_int (round_half_even (r * 100)) / 100"

definition format4 :: "rat \<Rightarrow> string" where
  "format4 r = (let n = nat \<bar>round_half_even (r * 10000)\<bar>
     in (if r < 0 then ''-'' else []) @ str_of_nat (n div 10000) @ ''.''
        @ map digit_char [n div 1000 mod 10, n div 100 mod 10, n div 10 mod 10, n mod 10])"

definition ml_anomaly_evaluate :: "detection_context \<Rightarrow> event \<Rightarrow> rule_outcome" where
  "ml_anomaly_evaluate c e =
    (case dc_ml_inference_service c of None \<Rightarrow> Inr None | Some score_event \<Rightarrow>
     (case score_event e of Inl x \<Rightarrow> Inl x | Inr None \<Rightarrow> Inr None | Inr (Some a) \<Rightarrow>
       if \<not> is_anomaly a then Inr None
       else
         let distance = sc_threshold a - sc_score a;
             confidence = min (9 / 10) (max (6 / 10) (6 / 10 + distance))
         in Inr (Some \<lparr>dr_rule_id = ''rule_006_ml_anomaly'',
              dr_title = ''Anomalous telemetry detected'',
              dr_description = ev_event_type e @ '' anomaly score '' @ format4 (sc_score a) @ '' crossed the ''
                @ format4 (sc_threshold a) @ '' threshold'',
              dr_severity = ''medium'', dr_confidence = round2 confidence,
              dr_source_ip = ev_source_ip e, dr_username = ev_username e, dr_event_id = ev_event_id e,
              dr_evidence = [(''anomaly_score'', JFloat (sc_score a)),
                (''threshold'', JFloat (sc_threshold a)),
                (''feature_version'', JStr (sc_feature_version a)),
                (''model_version'', JStr (sc_model_version a)),
                (''features'', JObj (map (\<lambda>(k, v). (k, JFloat v)) (sc_features a)))],
              dr_first_seen = Some (ev_timestamp e),
              dr_last_seen = Some (ev_timestamp e)\<rparr>)))"

text \<open>
  \<^verbatim>\<open>str(value)\<close> of a metadata value; the text of a container or a float is left to the
  argument \<open>other\<close>.
\<close>

definition py_str :: "(json \<Rightarrow> string) \<Rightarrow> json \<Rightarrow> string" where
  "py_str other v = (case v of JStr s \<Rightarrow> s | JInt i \<Rightarrow> str_of_int i | JNull \<Rightarrow> ''None''
     | JBool b \<Rightarrow> (if b then ''True'' else ''False'') | _ \<Rightarrow> other v)"

text \<open>\<^verbatim>\<open>str(a or b)\<close> for a JSON value \<open>a\<close> and a string \<open>b\<close>.\<close>

definition str_or_json :: "(json \<Rightarrow> string) \<Rightarrow> json \<Rightarrow> string \<Rightarrow> string" where
  "str_or_json other v d = (if truthy v then py_str other v else d)"

definition cloud_event_types :: "string list" where
  "cloud_event_types = [''cloud_finding'', ''s3_public_exposure'', ''secret_exposure'',
     ''access_key_used'', ''data_exfiltration'']"

definition cloud_finding_evaluate :: "(json \<Rightarrow> string) \<Rightarrow> detection_context \<Rightarrow> event \<Rightarrow> rule_outcome" where
  "cloud_finding_evaluate other c e =
    (if ev_event_type e \<notin> set cloud_event_types then Inr None
     else
       let metadata = ev_event_metadata e;
           finding_type = take 128 (str_or_json other (dict_get metadata ''finding_type'') (ev_event_type e));
           severity = str_or (ev_severity e) ''medium''
       in Inr (Some \<lparr>dr_rule_id = ''rule_006_cloud_finding'',
              dr_title = ''Security finding: '' @ finding_type,
              dr_description = ev_source e @ '' reported '' @ finding_type @ '' on ''
                @ str_or (ev_resource e) ''an asset'' @ ''.'',
              dr_severity = severity,
              dr_confidence = (if ev_source_type e = ''aws_security_hub'' then 9 / 10 else 75 / 100),
              dr_source_ip = ev_source_ip e, dr_username = ev_username e, dr_event_id = ev_event_id e,
              dr_evidence = [(''finding_type'', JStr finding_type),
                (''resource'', json_str (ev_resource e)),
                (''account_id'', dict_get metadata ''account_id''),
                (''provider_finding_id'', dict_get metadata ''provider_finding_id'')],
              dr_first_seen = Some (ev_timestamp e),
              dr_last_seen = Some (ev_timestamp e)\<rparr>))"

section \<open>The registry and the engine\<close>

record detection_rule =
  ru_id :: string
  ru_name :: string
  ru_severity :: string
  ru_evaluate :: "detection_context \<Rightarrow> event \<Rightarrow> rule_outcome"

text \<open>\<^verbatim>\<open>RuleRegistry.__init__\<close>: the rules and the dictionary by id, or ValueError on a repeated id.\<close>

fun register_rules :: "detection_rule list \<Rightarrow> (string \<rightharpoonup> detection_rule) \<Rightarrow> exn + (string \<rightharpoonup> detection_rule)" where
  "register_rules [] by_id = Inr by_id"
| "register_rules (r # rs) by_id =
     (if by_id (ru_id r) \<noteq> None then Inl (ValueError (''Duplicate detection rule id: '' @ ru_id r))
      else register_rules rs (by_id(ru_id r \<mapsto> r)))"

record rule_registry =
  rg_rules :: "detection_rule list"
  rg_rules_by_id :: "string \<rightharpoonup> detection_rule"

definition make_registry :: "detection_rule list \<Rightarrow> exn + rule_registry" where
  "make_registry rules = (case register_rules rules Map.empty of Inl x \<Rightarrow> Inl x
     | Inr by_id \<Rightarrow> Inr \<lparr>rg_rules = rules, rg_rules_by_id = by_id\<rparr>)"

definition registry_get :: "rule_registry \<Rightarrow> string \<Rightarrow> detection_rule option" where
  "registry_get g rule_id = rg_rules_by_id g rule_id"

definition builtin_rules :: "(json \<Rightarrow> string) \<Rightarrow> detection_rule list" where
  "builtin_rules other =
    [\<lparr>ru_id = ''rule_001_brute_force'', ru_name = ''Brute Force'', ru_severity = ''high'',
      ru_evaluate = brute_force_evaluate\<rparr>,
     \<lparr>ru_id = ''rule_002_password_spray'', ru_name = ''Password Spray'', ru_severity = ''high'',
      ru_evaluate = password_spray_evaluate\<rparr>,
     \<lparr>ru_id = ''rule_003_suspicious_privilege_change'', ru_name = ''Suspicious Privilege Change'',
      ru_severity = ''high'', ru_evaluate = suspicious_privilege_change_evaluate\<rparr>,
     \<lparr>ru_id = ''rule_004_large_download'', ru_name = ''Large Download'', ru_severity = ''medium'',
      ru_evaluate = large_download_evaluate\<rparr>,
     \<lparr>ru_id = ''rule_005_login_after_failures'', ru_name = ''Login After Failures'', ru_severity = ''high'',
      ru_evaluate = login_after_failures_evaluate\<rparr>,
     \<lparr>ru_id = ''rule_006_ml_anomaly'', ru_name = ''ML telemetry anomaly'', ru_severity = ''medium'',
      ru_evaluate = ml_anomaly_evaluate\<rparr>,
     \<lparr>ru_id = ''rule_006_cloud_finding'', ru_name = ''Cloud or identity security finding'',
      ru_severity = ''high'', ru_evaluate = cloud_finding_evaluate other\<rparr>]"

definition build_rule_registry :: "(json \<Rightarrow> string) \<Rightarrow> exn + rule_registry" where
  "build_rule_registry other = make_registry (builtin_rules other)"

fun evaluate_rules :: "detection_rule list \<Rightarrow> detection_context \<Rightarrow> event \<Rightarrow> exn + detection_result list" where
  "evaluate_rules [] c e = Inr []"
| "evaluate_rules (r # rs) c e =
     (case ru_evaluate r c e of Inl x \<Rightarrow> Inl x | Inr res \<Rightarrow>
       (case evaluate_rules rs c e of Inl x \<Rightarrow> Inl x
        | Inr ms \<Rightarrow> Inr (case res of None \<Rightarrow> ms | Some m \<Rightarrow> m # ms)))"

definition evaluate_event :: "rule_registry \<Rightarrow> detection_context \<Rightarrow> event \<Rightarrow> exn + detection_result list" where
  "evaluate_event g c e = evaluate_rules (rg_rules g) c e"

text \<open>\<^verbatim>\<open>build_alerts\<close>: the row ids (the i-th alert's is \<open>ids i\<close>) and the creation time are
  the column defaults.\<close>

definition build_alert :: "event \<Rightarrow> detection_result \<Rightarrow> uuid \<Rightarrow> datetime \<Rightarrow> alert" where
  "build_alert e m row_id now =
    \<lparr>al_id = row_id, al_rule_id = dr_rule_id m, al_event_id = ev_id e, al_title = dr_title m,
     al_description = dr_description m, al_severity = dr_severity m, al_confidence = dr_confidence m,
     al_status = ''new'', al_source_ip = dr_source_ip m, al_username = dr_username m,
     al_evidence = dr_evidence m,
     al_first_seen = (case dr_first_seen m of None \<Rightarrow> ev_timestamp e | Some t \<Rightarrow> t),
     al_last_seen = (case dr_last_seen m of None \<Rightarrow> ev_timestamp e | Some t \<Rightarrow> t),
     al_created_at = now\<rparr>"

definition build_alerts :: "event \<Rightarrow> detection_result list \<Rightarrow> (nat \<Rightarrow> uuid) \<Rightarrow> datetime \<Rightarrow> alert list" where
  "build_alerts e ms ids now = map (\<lambda>(i, m). build_alert e m (ids i) now) (enumerate 0 ms)"

section \<open>What the rules compute\<close>

text \<open>The login failures of a source address in a window of the events table.\<close>

definition ip_failure :: "string \<Rightarrow> datetime \<Rightarrow> datetime \<Rightarrow> event \<Rightarrow> bool" where
  "ip_failure ip s u f = (ev_event_type f = ''login_failure'' \<and> ev_source_ip f = Some ip \<and>
     s \<le> ev_timestamp f \<and> ev_timestamp f \<le> u)"

lemma length_failures:
  "length (er_failures_by_source_ip (event_repository_of d) ip s u)
   = length (filter (ip_failure ip s u) (db_events d))"
  by (simp add: event_repository_of_def recent_login_failures_by_source_ip_def ip_failure_def [abs_def])

lemma first_item_cases: "first_item xs = (if xs = [] then Inl IndexError else Inr (hd xs))"
  by (cases xs) (simp_all add: first_item_def)

lemma first_item_Inr [simp]: "(first_item xs = Inr y) \<longleftrightarrow> xs \<noteq> [] \<and> y = hd xs"
  by (auto simp: first_item_cases)

lemma first_item_Inl [simp]: "(first_item xs = Inl x) \<longleftrightarrow> xs = [] \<and> x = IndexError"
  by (auto simp: first_item_cases)

lemma brute_force_match:
  assumes "ev_event_type e = ''login_failure''" and "ev_source_ip e = Some ip" and "ip \<noteq> []"
    and "0 < brute_force_threshold (dc_settings c)"
    and "since = ev_timestamp e - seconds (brute_force_window_seconds (dc_settings c))"
  shows "(\<exists>r. brute_force_evaluate c e = Inr (Some r)) \<longleftrightarrow> datetime_ok since \<and>
      brute_force_threshold (dc_settings c) \<le> int (length (er_failures_by_source_ip (dc_event_repository c) ip since (ev_timestamp e)))"
  using assms by (auto simp: brute_force_evaluate_def first_item_cases Let_def)

lemma brute_force_no_exception:
  assumes "0 < brute_force_threshold (dc_settings c)"
  shows "brute_force_evaluate c e = Inl x \<longleftrightarrow> x = OverflowError \<and> ev_event_type e = ''login_failure'' \<and>
     truthy_str (ev_source_ip e) \<and> \<not> datetime_ok (ev_timestamp e - seconds (brute_force_window_seconds (dc_settings c)))"
  using assms by (auto simp: brute_force_evaluate_def Let_def then_do_Inl split: if_splits sum.splits)

lemma login_after_failures_no_exception:
  assumes "0 < login_after_failures_threshold (dc_settings c)"
  shows "login_after_failures_evaluate c e = Inl x \<longleftrightarrow> x = OverflowError \<and> ev_event_type e = ''login_success'' \<and>
     \<not> datetime_ok (ev_timestamp e - seconds (login_after_failures_window_seconds (dc_settings c)))"
  using assms by (auto simp: login_after_failures_evaluate_def Let_def then_do_Inl split: if_splits sum.splits)

lemma window_rules_no_exception:
  "datetime_ok (ev_timestamp e - seconds (password_spray_window_seconds (dc_settings c))) \<Longrightarrow> password_spray_evaluate c e \<noteq> Inl x"
  "failure_history (dc_event_repository c) \<Longrightarrow>
     datetime_ok (ev_timestamp e - seconds (privilege_change_lookback_seconds (dc_settings c))) \<Longrightarrow>
     suspicious_privilege_change_evaluate c e \<noteq> Inl x"
  by (auto simp: password_spray_evaluate_def suspicious_privilege_change_evaluate_def failure_history.privilege_context
      then_do_Inl Let_def split: if_splits list.splits)

lemma other_rules_no_exception:
  "large_download_evaluate c e \<noteq> Inl x" "cloud_finding_evaluate other c e \<noteq> Inl x"
  by (simp_all add: large_download_evaluate_def cloud_finding_evaluate_def Let_def split: option.split)

text \<open>
  C29: on the events table and with a positive threshold, the brute-force rule raises a match on an
  event exactly when it is a login failure with a source address, the start of its window is a date
  Python can represent, and the table holds, in the window that ends at the event, at least as many
  login failures of that address as the threshold. The one exception it lets escape is
  OverflowError, exactly for the login failures with a source address whose window would begin
  outside the years 1 to 9999.
\<close>

theorem brute_force_detects:
  assumes "dc_event_repository c = event_repository_of d"
    and "0 < brute_force_threshold (dc_settings c)"
    and "since = ev_timestamp e - seconds (brute_force_window_seconds (dc_settings c))"
  shows "((\<exists>r. brute_force_evaluate c e = Inr (Some r)) \<longleftrightarrow>
      ev_event_type e = ''login_failure'' \<and> datetime_ok since \<and>
      (\<exists>ip. ev_source_ip e = Some ip \<and> ip \<noteq> [] \<and>
        brute_force_threshold (dc_settings c) \<le> int (length (filter (ip_failure ip since (ev_timestamp e)) (db_events d))))) \<and>
    (\<forall>x. brute_force_evaluate c e = Inl x \<longleftrightarrow>
      x = OverflowError \<and> ev_event_type e = ''login_failure'' \<and> truthy_str (ev_source_ip e) \<and> \<not> datetime_ok since)"
proof (cases "ev_event_type e = ''login_failure'' \<and> truthy_str (ev_source_ip e)")
  case True
  then obtain ip where "ev_source_ip e = Some ip" "ip \<noteq> []"
    by (cases "ev_source_ip e") auto
  with True assms brute_force_match [of e ip c since] show ?thesis
    by (auto simp: length_failures brute_force_no_exception)
next
  case False
  then show ?thesis by (auto simp: brute_force_evaluate_def)
qed

definition example_context :: "event list \<Rightarrow> detection_context" where
  "example_context es = \<lparr>dc_event_repository = event_repository_of (empty_db\<lparr>db_events := es\<rparr>),
     dc_settings = default_settings [] [] [], dc_ml_inference_service = None\<rparr>"

definition example_failures :: "event list" where
  "example_failures = map (\<lambda>n. example_event n ''login_failure'' (Some ''10.0.0.9'') (Some ''eve'') (seconds (uint n)))
     [1, 2, 3, 4, 5, 6, 7, 8, 9, 10]"

lemma example_context_simps [simp]:
  "dc_event_repository (example_context es) = event_repository_of (empty_db\<lparr>db_events := es\<rparr>)"
  "dc_settings (example_context es) = default_settings [] [] []"
  "dc_ml_inference_service (example_context es) = None"
  by (simp_all add: example_context_def)

theorem brute_force_detects_witness:
  "\<exists>r. brute_force_evaluate (example_context example_failures)
     (example_event 10 ''login_failure'' (Some ''10.0.0.9'') (Some ''eve'') (seconds 10)) = Inr (Some r)"
  by (subst brute_force_detects [where d = "empty_db\<lparr>db_events := example_failures\<rparr>", OF _ _ refl, THEN conjunct1])
    (simp_all add: example_failures_def example_event_def default_settings_simps ip_failure_def seconds_def datetime_ok_def)

text \<open>The login failures that share the event's username or source address.\<close>

definition identity_failure :: "string option \<Rightarrow> string option \<Rightarrow> datetime \<Rightarrow> datetime \<Rightarrow> event \<Rightarrow> bool" where
  "identity_failure un sip s u f = (ev_event_type f = ''login_failure'' \<and>
     same_identity un sip (ev_username f) (ev_source_ip f) \<and> s \<le> ev_timestamp f \<and> ev_timestamp f \<le> u)"

lemma length_identity_failures:
  "length (er_failures_for_identity (event_repository_of d) un sip s u)
   = length (filter (identity_failure un sip s u) (db_events d))"
proof (cases "un = None \<and> sip = None")
  case True
  then show ?thesis
    by (simp add: event_repository_of_def recent_login_failures_for_identity_def identity_failure_def [abs_def]
        same_identity_def)
next
  case False
  then show ?thesis
    by (auto simp: event_repository_of_def recent_login_failures_for_identity_def identity_failure_def [abs_def]
        conj_ac)
qed

text \<open>
  the login-after-failures rule raises a match on an event exactly when it is a successful
  login, the start of its window is representable, and the table holds, in the window that ends
  at it, at least the configured number of login failures that share its username or its source
  address (an identity field that is None matches nothing); for a positive threshold the one
  exception that escapes is the OverflowError of a window that begins outside the calendar.
\<close>

theorem login_after_failures_detects:
  assumes "dc_event_repository c = event_repository_of d"
    and "0 < login_after_failures_threshold (dc_settings c)"
    and "since = ev_timestamp e - seconds (login_after_failures_window_seconds (dc_settings c))"
  shows "((\<exists>r. login_after_failures_evaluate c e = Inr (Some r)) \<longleftrightarrow>
      ev_event_type e = ''login_success'' \<and> datetime_ok since \<and>
      login_after_failures_threshold (dc_settings c) \<le> int (length (filter
        (identity_failure (ev_username e) (ev_source_ip e) since (ev_timestamp e)) (db_events d)))) \<and>
    (\<forall>x. login_after_failures_evaluate c e = Inl x \<longleftrightarrow>
      x = OverflowError \<and> ev_event_type e = ''login_success'' \<and> \<not> datetime_ok since)"
proof -
  let ?fs = "er_failures_for_identity (event_repository_of d) (ev_username e) (ev_source_ip e) since (ev_timestamp e)"
  have "(\<exists>r. login_after_failures_evaluate c e = Inr (Some r)) \<longleftrightarrow>
      ev_event_type e = ''login_success'' \<and> datetime_ok since \<and> login_after_failures_threshold (dc_settings c) \<le> int (length ?fs)"
    using assms by (auto simp: login_after_failures_evaluate_def first_item_cases Let_def)
  then show ?thesis
    using assms(2,3) by (simp add: length_identity_failures login_after_failures_no_exception)
qed

theorem login_after_failures_detects_witness:
  "\<exists>r. login_after_failures_evaluate (example_context example_failures)
     (example_event 11 ''login_success'' None (Some ''eve'') (seconds 11)) = Inr (Some r)"
  by (subst login_after_failures_detects [where d = "empty_db\<lparr>db_events := example_failures\<rparr>", OF _ _ refl, THEN conjunct1])
    (simp_all add: example_failures_def example_event_def default_settings_simps
      identity_failure_def same_identity_def seconds_def datetime_ok_def)

section \<open>The registry\<close>

lemma register_rules_Inr:
  "register_rules rs m = Inr m' \<Longrightarrow>
     distinct (map ru_id rs) \<and> (\<forall>r \<in> set rs. m (ru_id r) = None) \<and>
     (\<forall>k. m' k = (case find (\<lambda>r. ru_id r = k) rs of None \<Rightarrow> m k | Some r \<Rightarrow> Some r))"
proof (induction rs arbitrary: m)
  case (Cons r rs)
  then have fresh: "m (ru_id r) = None" and rec: "register_rules rs (m(ru_id r \<mapsto> r)) = Inr m'"
    by (auto split: if_splits)
  have "ru_id r \<notin> ru_id ` set rs"
    using Cons.IH [OF rec] by fastforce
  then have "find (\<lambda>x. ru_id x = ru_id r) rs = None"
    by (auto simp: find_None_iff image_iff)
  moreover have "m (ru_id x) = None" if "x \<in> set rs" for x
    using Cons.IH [OF rec] that by (metis fun_upd_apply option.distinct(1))
  ultimately show ?case
    using Cons.IH [OF rec] fresh \<open>ru_id r \<notin> ru_id ` set rs\<close> by (auto split: option.split)
qed simp

lemma register_rules_ok:
  "distinct (map ru_id rs) \<Longrightarrow> \<forall>r \<in> set rs. m (ru_id r) = None \<Longrightarrow> \<exists>m'. register_rules rs m = Inr m'"
proof (induction rs arbitrary: m)
  case (Cons r rs)
  then have "\<forall>x \<in> set rs. (m(ru_id r \<mapsto> r)) (ru_id x) = None" by (auto simp: image_iff)
  with Cons show ?case by simp
qed simp

text \<open>
  a rule registry is built exactly when the rule ids are pairwise distinct, and then
  looking an id up returns the rule registered under it, or None for an unknown id; a
  repeated id is refused with ValueError.
\<close>

theorem make_registry_iff:
  "((\<exists>g. make_registry rules = Inr g) \<longleftrightarrow> distinct (map ru_id rules)) \<and>
   (\<forall>g. make_registry rules = Inr g \<longrightarrow>
      rg_rules g = rules \<and> (\<forall>k. registry_get g k = find (\<lambda>r. ru_id r = k) rules)) \<and>
   (\<forall>x. make_registry rules = Inl x \<longrightarrow> (\<exists>m. x = ValueError m))"
proof -
  have error: "register_rules rules m = Inl x \<Longrightarrow> \<exists>msg. x = ValueError msg" for m x
    by (induction rules arbitrary: m) (auto split: if_splits)
  show ?thesis
  proof (cases "register_rules rules Map.empty")
    case (Inl x)
    then have "\<not> distinct (map ru_id rules)"
      using register_rules_ok [of rules Map.empty] by auto
    moreover have "\<exists>m. x = ValueError m" using error Inl .
    ultimately show ?thesis using Inl by (simp add: make_registry_def)
  next
    case (Inr by_id)
    with register_rules_Inr [OF Inr] show ?thesis
      by (simp add: make_registry_def registry_get_def split: option.split)
  qed
qed

theorem make_registry_iff_witness:
  "\<exists>g. build_rule_registry (\<lambda>_. []) = Inr g \<and> registry_get g ''rule_004_large_download'' \<noteq> None"
proof -
  have "distinct (map ru_id (builtin_rules (\<lambda>_. [])))" by (simp add: builtin_rules_def)
  then obtain g where g: "make_registry (builtin_rules (\<lambda>_. [])) = Inr g"
    using make_registry_iff [of "builtin_rules (\<lambda>_. [])"] by blast
  then have "registry_get g ''rule_004_large_download'' = find (\<lambda>r. ru_id r = ''rule_004_large_download'') (builtin_rules (\<lambda>_. []))"
    using make_registry_iff [of "builtin_rules (\<lambda>_. [])"] by blast
  then show ?thesis using g by (simp add: build_rule_registry_def builtin_rules_def)
qed

section \<open>The engine\<close>

lemma evaluate_rules_Inr:
  "evaluate_rules rs c e = Inr ms \<Longrightarrow>
     (\<forall>r \<in> set rs. \<exists>res. ru_evaluate r c e = Inr res) \<and>
     ms = List.map_filter (\<lambda>r. projr (ru_evaluate r c e)) rs"
  by (induction rs arbitrary: ms) (auto simp: map_filter_simps split: sum.splits option.splits)

lemma evaluate_rules_total:
  "\<forall>r \<in> set rs. \<exists>res. ru_evaluate r c e = Inr res \<Longrightarrow> \<exists>ms. evaluate_rules rs c e = Inr ms"
  by (induction rs) auto

definition model_answers :: "detection_context \<Rightarrow> event \<Rightarrow> bool" where
  "model_answers c e = (case dc_ml_inference_service c of None \<Rightarrow> True | Some f \<Rightarrow> (\<exists>res. f e = Inr res))"

lemma ml_anomaly_no_exception: "model_answers c e \<Longrightarrow> \<exists>res. ml_anomaly_evaluate c e = Inr res"
  by (auto simp: model_answers_def ml_anomaly_evaluate_def Let_def split: option.splits)

lemma Inr_ex: "(\<And>x. a \<noteq> Inl x) \<Longrightarrow> \<exists>res. a = Inr res"
  by (cases a) auto

text \<open>The windows the rules open before an event, and the times before which all of them can begin.\<close>

definition rule_windows :: "settings \<Rightarrow> int list" where
  "rule_windows st = [brute_force_window_seconds st, password_spray_window_seconds st, privilege_change_lookback_seconds st,
     login_after_failures_window_seconds st]"

definition rule_windows_ok :: "settings \<Rightarrow> datetime \<Rightarrow> bool" where
  "rule_windows_ok st t = list_all (\<lambda>n. datetime_ok (t - seconds n)) (rule_windows st)"

lemma builtin_rules_total:
  assumes "0 < brute_force_threshold (dc_settings c)" "0 < login_after_failures_threshold (dc_settings c)"
    and "model_answers c e" and "failure_history (dc_event_repository c)" and "rule_windows_ok (dc_settings c) (ev_timestamp e)"
    and "r \<in> set (builtin_rules other)"
  shows "\<exists>res. ru_evaluate r c e = Inr res"
proof -
  note w = assms(5) [unfolded rule_windows_ok_def rule_windows_def list.pred_inject]
  have "\<exists>res. brute_force_evaluate c e = Inr res" "\<exists>res. login_after_failures_evaluate c e = Inr res"
    using w by (intro Inr_ex; simp add: brute_force_no_exception [OF assms(1)] login_after_failures_no_exception [OF assms(2)])+
  moreover have "\<exists>res. password_spray_evaluate c e = Inr res" "\<exists>res. suspicious_privilege_change_evaluate c e = Inr res"
    using w by (intro Inr_ex; simp add: window_rules_no_exception assms(4))+
  moreover have "\<exists>res. large_download_evaluate c e = Inr res" "\<exists>res. cloud_finding_evaluate other c e = Inr res"
    by (intro Inr_ex; simp add: other_rules_no_exception)+
  ultimately show ?thesis
    using assms(6) ml_anomaly_no_exception [OF assms(3)] by (auto simp: builtin_rules_def)
qed

text \<open>
  with positive thresholds, a model service that answers and windows that begin within the
  calendar, the engine over the built-in rules returns, and what it returns is the matches of all
  seven rules, in registration order.
\<close>

theorem engine_runs_every_rule:
  assumes "build_rule_registry other = Inr g" and "dc_event_repository c = event_repository_of d"
    and "0 < brute_force_threshold (dc_settings c)" and "0 < login_after_failures_threshold (dc_settings c)"
    and "model_answers c e" and "rule_windows_ok (dc_settings c) (ev_timestamp e)"
  shows "\<exists>ms. evaluate_event g c e = Inr ms \<and>
     ms = List.map_filter (\<lambda>r. projr (ru_evaluate r c e)) (builtin_rules other)"
proof -
  have "rg_rules g = builtin_rules other"
    using assms(1) by (auto simp: build_rule_registry_def make_registry_def split: sum.splits)
  moreover have "failure_history (dc_event_repository c)"
    using event_history.failure_history_axioms by (simp add: assms(2))
  then obtain ms where "evaluate_rules (builtin_rules other) c e = Inr ms"
    using evaluate_rules_total [of "builtin_rules other" c e] builtin_rules_total [OF assms(3-5) _ assms(6)] by blast
  ultimately show ?thesis
    using evaluate_rules_Inr by (auto simp: evaluate_event_def)
qed

theorem engine_runs_every_rule_witness:
  "\<exists>g ms. build_rule_registry (\<lambda>_. []) = Inr g \<and>
     evaluate_event g (example_context example_failures) (example_event 9 ''logout'' None None 9) = Inr ms"
proof -
  obtain g where g: "build_rule_registry (\<lambda>_. []) = Inr g"
    by (auto simp: build_rule_registry_def make_registry_def builtin_rules_def)
  have "rule_windows_ok (default_settings [] [] []) 9"
    by (simp add: rule_windows_ok_def rule_windows_def default_settings_simps seconds_def datetime_ok_def)
  with engine_runs_every_rule [OF g, of "example_context example_failures"] g
  show ?thesis by (fastforce simp: default_settings_simps model_answers_def example_event_def)
qed

section \<open>The alerts\<close>

lemma round_half_even_mono_bounds: "of_int a \<le> r \<Longrightarrow> r \<le> of_int b \<Longrightarrow> a \<le> round_half_even r \<and> round_half_even r \<le> b"
proof -
  assume a: "of_int a \<le> r" and b: "r \<le> of_int b"
  have lo: "a \<le> \<lfloor>r\<rfloor>" using a by (simp add: le_floor_iff)
  have hi: "\<lfloor>r\<rfloor> \<le> b" using b by (metis floor_mono floor_of_int)
  have "round_half_even r \<le> b"
  proof (cases "\<lfloor>r\<rfloor> = b")
    case True
    then have "r = of_int b" using b of_int_floor_le [of r] by simp
    then show ?thesis by (simp add: round_half_even_def Let_def)
  next
    case False
    then show ?thesis using hi by (simp add: round_half_even_def Let_def)
  qed
  moreover have "\<lfloor>r\<rfloor> \<le> round_half_even r" by (simp add: round_half_even_def Let_def)
  ultimately show ?thesis using lo by simp
qed

lemma round2_bounds:
  assumes "of_int a / 100 \<le> r" and "r \<le> of_int b / 100"
  shows "of_int a / 100 \<le> round2 r \<and> round2 r \<le> of_int b / 100"
  using round_half_even_mono_bounds [of a "r * 100" b] assms
  by (simp add: round2_def field_simps)

text \<open>What every alert built from a match of the built-in rules satisfies.\<close>

definition match_ok :: "event \<Rightarrow> detection_result \<Rightarrow> bool" where
  "match_ok e m = (case (dr_first_seen m, dr_last_seen m) of
      (Some f, Some l) \<Rightarrow> f \<le> l \<and> l \<le> ev_timestamp e \<and> 6 / 10 \<le> dr_confidence m \<and> dr_confidence m \<le> 9 / 10 \<and>
        dr_event_id m = ev_event_id e \<and> dr_source_ip m = ev_source_ip e \<and> dr_username m = ev_username e
    | _ \<Rightarrow> False)"

lemma brute_force_match_ok:
  assumes h: "failure_history (dc_event_repository c)" and "brute_force_evaluate c e = Inr (Some m)"
  shows "match_ok e m"
  using assms(2) failure_history.by_ip_bounds [OF h]
  by (auto simp: brute_force_evaluate_def match_ok_def Let_def split: if_splits sum.splits)

text \<open>A window that has failures includes its end, so the event itself, once stored, is the last failure.\<close>

lemma brute_force_last_seen:
  assumes "dc_event_repository c = event_repository_of d" and "e \<in> set (db_events d)"
    and "brute_force_evaluate c e = Inr (Some m)"
  shows "dr_last_seen m = Some (ev_timestamp e)"
proof -
  have h: "failure_history (dc_event_repository c)"
    using event_history.failure_history_axioms by (simp add: assms(1))
  define since where "since = ev_timestamp e - seconds (brute_force_window_seconds (dc_settings c))"
  obtain ip where ip: "ev_event_type e = ''login_failure''" "ev_source_ip e = Some ip"
    and ne: "er_failures_by_source_ip (dc_event_repository c) ip since (ev_timestamp e) \<noteq> []"
    and m: "dr_last_seen m = Some (ev_timestamp (last (er_failures_by_source_ip (dc_event_repository c) ip since (ev_timestamp e))))"
    using assms(3) by (cases "ev_source_ip e")
      (auto simp: brute_force_evaluate_def since_def Let_def split: if_splits sum.splits)
  have "since \<le> ev_timestamp e" using failure_history.by_ip_bounds [OF h ne] by linarith
  then have "e \<in> set (er_failures_by_source_ip (dc_event_repository c) ip since (ev_timestamp e))"
    using assms(2) ip by (simp add: assms(1) event_repository_of_def recent_login_failures_by_source_ip_def)
  then have "ev_timestamp e \<le> ev_timestamp (last (er_failures_by_source_ip (dc_event_repository c) ip since (ev_timestamp e)))"
    using sorted_last_max [OF failure_history.by_ip_sorted [OF h], of "ev_timestamp e" ip since "ev_timestamp e"] ne
    by (simp add: last_map)
  with failure_history.by_ip_bounds(3) [OF h ne] show ?thesis by (simp add: m)
qed

lemma password_spray_match_ok:
  assumes h: "failure_history (dc_event_repository c)" and "password_spray_evaluate c e = Inr (Some m)"
  shows "match_ok e m"
proof -
  have "er_failures_by_source_ip (dc_event_repository c) ip s u = x # xs \<Longrightarrow> ev_timestamp x \<le> u" for x xs ip s u
    using failure_history.by_ip_sound [OF h, of x ip s u] by simp
  then show ?thesis
    using assms(2) by (auto simp: password_spray_evaluate_def match_ok_def Let_def split: if_splits list.split)
qed

lemma suspicious_privilege_change_match_ok:
  assumes h: "failure_history (dc_event_repository c)"
    and "suspicious_privilege_change_evaluate c e = Inr (Some m)"
  shows "match_ok e m"
proof -
  have "er_failures_for_identity (dc_event_repository c) un sip s t = x # xs \<Longrightarrow> ev_timestamp x \<le> t" for x xs un sip s t
    using failure_history.identity_sound [OF h, of x un sip s t] by simp
  then show ?thesis
    using assms(2)
    by (auto simp: suspicious_privilege_change_evaluate_def failure_history.privilege_context [OF h] match_ok_def Let_def
        split: if_splits list.splits)
qed

lemma login_after_failures_match_ok:
  assumes h: "failure_history (dc_event_repository c)" and "login_after_failures_evaluate c e = Inr (Some m)"
  shows "match_ok e m"
  using assms(2) failure_history.identity_bounds [OF h]
  by (auto simp: login_after_failures_evaluate_def match_ok_def Let_def split: if_splits sum.splits)

lemmas history_rules_match_ok = brute_force_match_ok password_spray_match_ok
  suspicious_privilege_change_match_ok login_after_failures_match_ok

lemma event_rules_match_ok:
  "large_download_evaluate c e = Inr (Some m) \<Longrightarrow> match_ok e m"
  "cloud_finding_evaluate other c e = Inr (Some m) \<Longrightarrow> match_ok e m"
  by (auto simp: large_download_evaluate_def cloud_finding_evaluate_def match_ok_def Let_def
      split: if_splits option.splits)

lemma ml_anomaly_match_ok: "ml_anomaly_evaluate c e = Inr (Some m) \<Longrightarrow> match_ok e m"
proof -
  have "6 / 10 \<le> round2 (min (9 / 10) (max (6 / 10) x)) \<and> round2 (min (9 / 10) (max (6 / 10) x)) \<le> 9 / 10" for x
    using round2_bounds [of 60 "min (9 / 10) (max (6 / 10) x)" 90] by simp
  then show "ml_anomaly_evaluate c e = Inr (Some m) \<Longrightarrow> match_ok e m"
    by (auto simp: ml_anomaly_evaluate_def Let_def match_ok_def split: option.splits sum.splits if_splits)
qed

lemma builtin_match_ok:
  assumes "failure_history (dc_event_repository c)" and "r \<in> set (builtin_rules other)"
    and "ru_evaluate r c e = Inr (Some m)"
  shows "match_ok e m"
  using assms(2,3) history_rules_match_ok [OF assms(1), where e = e and m = m] event_rules_match_ok [where e = e and m = m] ml_anomaly_match_ok [of c e m]
  by (auto simp: builtin_rules_def)

text \<open>
  every alert built from a match of the engine over the built-in rules on the events table
  refers to the triggering event, carries a status of new and a confidence between 0.6 and
  0.9, and has first_seen not after last_seen, which is not after the event.
\<close>

theorem alerts_well_formed:
  assumes "build_rule_registry other = Inr g" and "dc_event_repository c = event_repository_of d"
    and "evaluate_event g c e = Inr ms" and "a \<in> set (build_alerts e ms ids now)"
  shows "al_event_id a = ev_id e \<and> al_status a = ''new'' \<and> 6 / 10 \<le> al_confidence a \<and> al_confidence a \<le> 9 / 10 \<and>
     al_first_seen a \<le> al_last_seen a \<and> al_last_seen a \<le> ev_timestamp e"
proof -
  have g: "rg_rules g = builtin_rules other"
    using assms(1) by (auto simp: build_rule_registry_def make_registry_def split: sum.splits)
  obtain m i where a: "a = build_alert e m i now" and m: "m \<in> set ms"
    using assms(4) by (auto simp: build_alerts_def dest: set_zip_rightD simp: enumerate_eq_zip)
  have tot: "\<forall>r \<in> set (builtin_rules other). \<exists>res. ru_evaluate r c e = Inr res"
    and ms: "ms = List.map_filter (\<lambda>r. projr (ru_evaluate r c e)) (builtin_rules other)"
    using assms(3) evaluate_rules_Inr unfolding evaluate_event_def g by blast+
  obtain r where "r \<in> set (builtin_rules other)" "projr (ru_evaluate r c e) = Some m"
    using m unfolding ms by (auto simp: map_filter_def)
  with tot have "r \<in> set (builtin_rules other)" "ru_evaluate r c e = Inr (Some m)"
    by (auto dest!: bspec)
  then have "match_ok e m"
    using builtin_match_ok assms(2) event_history.failure_history_axioms by metis
  then show ?thesis by (auto simp: a build_alert_def match_ok_def split: option.splits)
qed

theorem alerts_well_formed_witness:
  "\<exists>g ms a. build_rule_registry (\<lambda>_. []) = Inr g \<and>
     evaluate_event g (example_context []) (example_event 9 ''cloud_finding'' None None 9) = Inr ms \<and>
     a \<in> set (build_alerts (example_event 9 ''cloud_finding'' None None 9) ms (\<lambda>_. 1) 0) \<and> al_first_seen a \<le> al_last_seen a"
proof -
  let ?e = "example_event 9 ''cloud_finding'' None None 9" and ?c = "example_context []"
  obtain g where g: "build_rule_registry (\<lambda>_. []) = Inr g" and rs: "rg_rules g = builtin_rules (\<lambda>_. [])"
    by (auto simp: build_rule_registry_def make_registry_def builtin_rules_def)
  obtain m where ms: "evaluate_event g ?c ?e = Inr [m]"
    by (simp add: evaluate_event_def rs builtin_rules_def brute_force_evaluate_def password_spray_evaluate_def
        suspicious_privilege_change_evaluate_def large_download_evaluate_def login_after_failures_evaluate_def
        ml_anomaly_evaluate_def cloud_finding_evaluate_def example_event_def cloud_event_types_def Let_def)
  have "build_alert ?e m 1 0 \<in> set (build_alerts ?e [m] (\<lambda>_. 1) 0)" by (simp add: build_alerts_def)
  with alerts_well_formed [OF g _ ms this, of "empty_db\<lparr>db_events := []\<rparr>"] g ms show ?thesis
    by (fastforce simp only: example_context_simps)
qed

end
