(* ===== verification/Mitre.thy ===== *)
theory Mitre
  imports Detection
begin

text \<open>
  The MITRE ATT&CK catalog and its mapping to detection rules: \<^verbatim>\<open>mitre/catalog.py\<close>,
  \<^verbatim>\<open>repositories/mitre_repository.py\<close> and \<^verbatim>\<open>services/mitre_service.py\<close>.
\<close>

section \<open>The catalog\<close>

text \<open>The rows of the catalog with the times they are inserted at.\<close>

definition core_techniques :: "datetime \<Rightarrow> datetime \<Rightarrow> mitre_technique list" where
  "core_techniques created updated = [
   \<lparr>mt_external_id = ''T1110'', mt_name = ''Brute Force'',
      mt_description = ''Adversaries may systematically guess passwords or crack password material to gain account access.'',
      mt_tactics = [''Credential Access''],
      mt_platforms = [''Containers'', ''ESXi'', ''IaaS'', ''Identity Provider'', ''Linux'', ''Network Devices'', ''Office Suite'', ''SaaS'', ''Windows'', ''macOS''],
      mt_version = ''2.8'', mt_source_url = ''https://attack.mitre.org/techniques/T1110/'',
      mt_is_subtechnique = False, mt_parent_external_id = None, mt_created_at = created, mt_updated_at = updated\<rparr>,
   \<lparr>mt_external_id = ''T1110.003'', mt_name = ''Password Spraying'',
      mt_description = ''Adversaries may try one or a small set of common passwords against many accounts.'',
      mt_tactics = [''Credential Access''],
      mt_platforms = [''Containers'', ''ESXi'', ''IaaS'', ''Identity Provider'', ''Linux'', ''Network Devices'', ''Office Suite'', ''SaaS'', ''Windows'', ''macOS''],
      mt_version = ''1.8'', mt_source_url = ''https://attack.mitre.org/techniques/T1110/003/'',
      mt_is_subtechnique = True, mt_parent_external_id = Some ''T1110'', mt_created_at = created, mt_updated_at = updated\<rparr>,
   \<lparr>mt_external_id = ''T1098'', mt_name = ''Account Manipulation'',
      mt_description = ''Adversaries may modify accounts, credentials, groups, or roles to preserve or elevate access.'',
      mt_tactics = [''Persistence'', ''Privilege Escalation''],
      mt_platforms = [''Containers'', ''ESXi'', ''IaaS'', ''Identity Provider'', ''Linux'', ''Network Devices'', ''Office Suite'', ''SaaS'', ''Windows'', ''macOS''],
      mt_version = ''2.8'', mt_source_url = ''https://attack.mitre.org/techniques/T1098/'',
      mt_is_subtechnique = False, mt_parent_external_id = None, mt_created_at = created, mt_updated_at = updated\<rparr>,
   \<lparr>mt_external_id = ''T1005'', mt_name = ''Data from Local System'',
      mt_description = ''Adversaries may collect sensitive data from local files, databases, configuration, or memory.'',
      mt_tactics = [''Collection''],
      mt_platforms = [''ESXi'', ''Linux'', ''Network Devices'', ''Windows'', ''macOS''],
      mt_version = ''1.8'', mt_source_url = ''https://attack.mitre.org/techniques/T1005/'',
      mt_is_subtechnique = False, mt_parent_external_id = None, mt_created_at = created, mt_updated_at = updated\<rparr>,
   \<lparr>mt_external_id = ''T1078'', mt_name = ''Valid Accounts'',
      mt_description = ''Adversaries may abuse credentials for existing accounts to gain or maintain access.'',
      mt_tactics = [''Stealth'', ''Persistence'', ''Privilege Escalation'', ''Initial Access''],
      mt_platforms = [''Containers'', ''ESXi'', ''IaaS'', ''Identity Provider'', ''Linux'', ''Network Devices'', ''Office Suite'', ''SaaS'', ''Windows'', ''macOS''],
      mt_version = ''3.0'', mt_source_url = ''https://attack.mitre.org/techniques/T1078/'',
      mt_is_subtechnique = False, mt_parent_external_id = None, mt_created_at = created, mt_updated_at = updated\<rparr>]"

definition core_rule_mappings :: "(string \<times> string) list" where
  "core_rule_mappings = [
   (''rule_001_brute_force'', ''T1110''),
   (''rule_002_password_spray'', ''T1110.003''),
   (''rule_003_suspicious_privilege_change'', ''T1098''),
   (''rule_004_large_download'', ''T1005''),
   (''rule_005_login_after_failures'', ''T1078'')]"

section \<open>The repository\<close>

text \<open>\<^verbatim>\<open>ILIKE\<close>: a percent sign matches any text, an underscore any character, a backslash quotes.\<close>

fun like_match :: "string \<Rightarrow> string \<Rightarrow> bool" where
  "like_match [] s = (s = [])"
| "like_match (p # ps) [] = (p = CHR 0x25 \<and> like_match ps [])"
| "like_match (p # ps) (c # s) =
    (if p = CHR 0x25 then like_match ps (c # s) \<or> like_match (p # ps) s
     else if p = CHR 0x5C then (case ps of [] \<Rightarrow> False | q # qs \<Rightarrow> q = c \<and> like_match qs s)
     else (p = CHR ''_'' \<or> p = c) \<and> like_match ps s)"

definition ilike :: "string \<Rightarrow> string \<Rightarrow> bool" where
  "ilike s pat = like_match (py_lower pat) (py_lower s)"

definition technique_matches :: "string option \<Rightarrow> string option \<Rightarrow> mitre_technique \<Rightarrow> bool" where
  "technique_matches tactic search t =
    ((truthy_str tactic \<longrightarrow> the tactic \<in> set (mt_tactics t)) \<and>
     (truthy_str search \<longrightarrow> (let pat = ''%'' @ the search @ ''%'' in ilike (mt_external_id t) pat \<or> ilike (mt_name t) pat)))"

definition list_techniques :: "string option \<Rightarrow> string option \<Rightarrow> nat \<Rightarrow> nat \<Rightarrow> db \<Rightarrow> mitre_technique list \<times> nat" where
  "list_techniques tactic search limit offset d =
    (let rows = filter (technique_matches tactic search) (db_techniques d)
     in (take limit (drop offset (sort_key mt_external_id rows)), length rows))"

definition get_technique :: "string \<Rightarrow> db \<Rightarrow> mitre_technique option" where
  "get_technique external_id d = find (\<lambda>t. mt_external_id t = py_upper external_id) (db_techniques d)"

definition get_for_rules :: "string list \<Rightarrow> db \<Rightarrow> mitre_technique list" where
  "get_for_rules rule_ids d =
    sort_key mt_external_id (filter (\<lambda>t. \<exists>m \<in> set (db_rule_techniques d).
       rm_technique_external_id m = mt_external_id t \<and> rm_rule_id m \<in> set rule_ids) (db_techniques d))"

text \<open>The missing techniques and the missing mappings are added, in the order of the catalog.\<close>

definition seed_core_catalog :: "datetime \<Rightarrow> db \<Rightarrow> db" where
  "seed_core_catalog now d =
    (let new_techniques = filter (\<lambda>t. mt_external_id t \<notin> mt_external_id ` set (db_techniques d)) (core_techniques now now);
         new_mappings = filter (\<lambda>(r, t). (r, t) \<notin> (\<lambda>m. (rm_rule_id m, rm_technique_external_id m)) ` set (db_rule_techniques d))
           core_rule_mappings
     in d\<lparr>db_techniques := db_techniques d @ new_techniques,
          db_rule_techniques := db_rule_techniques d @
            map (\<lambda>(r, t). \<lparr>rm_rule_id = r, rm_technique_external_id = t, rm_created_at = now\<rparr>) new_mappings\<rparr>)"

section \<open>The service\<close>

definition get_rule_techniques :: "rule_registry \<Rightarrow> string \<Rightarrow> db \<Rightarrow> (string \<times> mitre_technique list) option" where
  "get_rule_techniques registry rule_id d =
    (case registry_get registry rule_id of None \<Rightarrow> None | Some _ \<Rightarrow> Some (rule_id, get_for_rules [rule_id] d))"

section \<open>Seeding\<close>

lemma catalog_ids: "mt_external_id ` set (core_techniques c u) = {''T1110'', ''T1110.003'', ''T1098'', ''T1005'', ''T1078''}"
  by (simp add: core_techniques_def)

lemma mapped_techniques_exist: "(r, t) \<in> set core_rule_mappings \<Longrightarrow> t \<in> mt_external_id ` set (core_techniques c u)"
  unfolding catalog_ids by (auto simp: core_rule_mappings_def)

lemma seed_rows:
  "mt_external_id ` set (db_techniques (seed_core_catalog now d)) =
     mt_external_id ` set (db_techniques d) \<union> mt_external_id ` set (core_techniques now now)"
  "(\<lambda>m. (rm_rule_id m, rm_technique_external_id m)) ` set (db_rule_techniques (seed_core_catalog now d)) =
     (\<lambda>m. (rm_rule_id m, rm_technique_external_id m)) ` set (db_rule_techniques d) \<union> set core_rule_mappings"
proof -
  show "mt_external_id ` set (db_techniques (seed_core_catalog now d)) =
     mt_external_id ` set (db_techniques d) \<union> mt_external_id ` set (core_techniques now now)"
    by (auto simp: seed_core_catalog_def Let_def)
  let ?k = "\<lambda>m. (rm_rule_id m, rm_technique_external_id m)"
  let ?new = "filter (\<lambda>(r, t). (r, t) \<notin> ?k ` set (db_rule_techniques d)) core_rule_mappings"
  have "?k ` set (map (\<lambda>(r, t). \<lparr>rm_rule_id = r, rm_technique_external_id = t, rm_created_at = now\<rparr>) xs) = set xs"
    for xs by (induction xs) auto
  then have "?k ` set (db_rule_techniques (seed_core_catalog now d)) = ?k ` set (db_rule_techniques d) \<union> set ?new"
    by (simp add: seed_core_catalog_def Let_def image_Un del: set_map set_filter)
  then show "?k ` set (db_rule_techniques (seed_core_catalog now d)) = ?k ` set (db_rule_techniques d) \<union> set core_rule_mappings"
    by auto
qed

text \<open>
  seeding the catalog keeps every row that is there, gives each mapped rule its technique, and
  running it again, at any later time, changes nothing.
\<close>

theorem seed_is_idempotent:
  "seed_core_catalog now' (seed_core_catalog now d) = seed_core_catalog now d \<and>
   set (db_techniques d) \<subseteq> set (db_techniques (seed_core_catalog now d)) \<and>
   (\<forall>(r, t) \<in> set core_rule_mappings. t \<in> mt_external_id ` set (get_for_rules [r] (seed_core_catalog now d)))"
proof -
  let ?d = "seed_core_catalog now d"
  have "filter (\<lambda>t. mt_external_id t \<notin> mt_external_id ` set (db_techniques ?d)) (core_techniques now' now') = []"
    using catalog_ids [of now' now'] catalog_ids [of now now] unfolding seed_rows(1) by (auto simp: filter_empty_conv)
  moreover have "filter (\<lambda>(r, t). (r, t) \<notin> (\<lambda>m. (rm_rule_id m, rm_technique_external_id m)) ` set (db_rule_techniques ?d))
      core_rule_mappings = []"
    unfolding seed_rows(2) by (auto simp: filter_empty_conv)
  ultimately have again: "seed_core_catalog now' ?d = ?d"
    unfolding seed_core_catalog_def [of now' ?d] by (simp add: Let_def)
  have "t \<in> mt_external_id ` set (get_for_rules [r] ?d)" if "(r, t) \<in> set core_rule_mappings" for r t
  proof -
    have "t \<in> mt_external_id ` set (db_techniques ?d)"
      unfolding seed_rows(1) using mapped_techniques_exist [OF that, of now now] by blast
    then obtain x where x: "x \<in> set (db_techniques ?d)" "mt_external_id x = t" by auto
    have "(r, t) \<in> (\<lambda>m. (rm_rule_id m, rm_technique_external_id m)) ` set (db_rule_techniques ?d)"
      unfolding seed_rows(2) using that by blast
    then obtain m where "m \<in> set (db_rule_techniques ?d)" "rm_rule_id m = r" "rm_technique_external_id m = t" by auto
    then have "x \<in> set (get_for_rules [r] ?d)" using x by (auto simp: get_for_rules_def)
    then show ?thesis using x(2) by blast
  qed
  then show ?thesis using again by (auto simp: seed_core_catalog_def Let_def)
qed

theorem seed_is_idempotent_witness:
  "''T1110'' \<in> mt_external_id ` set (get_for_rules [''rule_001_brute_force''] (seed_core_catalog 0 empty_db))"
  using seed_is_idempotent [of 0 0 empty_db] by (simp add: core_rule_mappings_def)

end
