(* ===== verification/PyDatetime.thy ===== *)
theory PyDatetime
  imports PyBase
begin

text \<open>
  \<^verbatim>\<open>datetime.isoformat()\<close> of an aware UTC datetime, which the timeline, the investigation
  context and the context hash print: the proleptic Gregorian calendar of Python's datetime
  module and the text it gives. The main fact is that on the years 1 to 9999 the text order
  of two such strings is the order of the instants, although the fractional part is left
  out when it is zero.
\<close>

section \<open>The calendar\<close>

text \<open>Days before 1 January of a year, in ordinals where day 1 is 0001-01-01.\<close>

definition days_before_year :: "int \<Rightarrow> int" where
  "days_before_year y = (let p = y - 1 in 365 * p + p div 4 - p div 100 + p div 400)"

definition is_leap :: "int \<Rightarrow> bool" where
  "is_leap y = (y mod 4 = 0 \<and> (y mod 100 \<noteq> 0 \<or> y mod 400 = 0))"

definition year_of :: "int \<Rightarrow> int" where
  "year_of n = (let y = 400 * (n - 1) div 146097 + 1
     in if n \<le> days_before_year y then y - 1
        else if days_before_year (y + 1) < n then y + 1 else y)"

text \<open>Days before each month of a year that is not a leap year, and the month of a day.\<close>

definition days_before_month :: "bool \<Rightarrow> int \<Rightarrow> int" where
  "days_before_month leap m =
     [0, 31, 59, 90, 120, 151, 181, 212, 243, 273, 304, 334] ! nat (m - 1) + (if leap \<and> 2 < m then 1 else 0)"

fun month_search :: "bool \<Rightarrow> int \<Rightarrow> nat \<Rightarrow> int" where
  "month_search leap d 0 = 1"
| "month_search leap d (Suc k) =
     (if days_before_month leap (int k + 2) < d then int k + 2 else month_search leap d k)"

definition month_of :: "bool \<Rightarrow> int \<Rightarrow> int" where
  "month_of leap d = month_search leap d 11"

text \<open>Year, month and day of an ordinal.\<close>

definition ord2ymd :: "int \<Rightarrow> int \<times> int \<times> int" where
  "ord2ymd n = (let y = year_of n; d = n - days_before_year y; m = month_of (is_leap y) d
     in (y, m, d - days_before_month (is_leap y) m))"

section \<open>The text\<close>

text \<open>\<^verbatim>\<open>'%0*d' % (k, n)\<close> for a number of at most \<open>k\<close> digits.\<close>

fun pad :: "nat \<Rightarrow> nat \<Rightarrow> string" where
  "pad 0 n = []"
| "pad (Suc k) n = pad k (n div 10) @ [digit_char (n mod 10)]"

definition isoformat :: "datetime \<Rightarrow> string" where
  "isoformat t =
    (let (y, m, d) = ord2ymd (t div 86400000000 + 719163);
         r = t mod 86400000000;
         us = r mod 1000000; s = r div 1000000
     in pad 4 (nat y) @ ''-'' @ pad 2 (nat m) @ ''-'' @ pad 2 (nat d) @ ''T''
        @ pad 2 (nat (s div 3600)) @ '':'' @ pad 2 (nat (s div 60 mod 60)) @ '':'' @ pad 2 (nat (s mod 60))
        @ (if us = 0 then [] else ''.'' @ pad 6 (nat us)) @ ''+00:00'')"

text \<open>The representable instants are those whose day is one of the calendar's 3652059 days.\<close>

lemma datetime_ok_days:
  "datetime_ok t \<longleftrightarrow> 0 < t div 86400000000 + 719163 \<and> t div 86400000000 + 719163 \<le> 3652059"
proof -
  define q where "q = t div 86400000000"
  have "86400000000 * q \<le> t" "t < 86400000000 * q + 86400000000"
    using mult_div_mod_eq [of 86400000000 t] pos_mod_sign [of 86400000000 t] pos_mod_bound [of 86400000000 t]
    unfolding q_def by linarith+
  then have "- 62135596800000000 \<le> t \<longleftrightarrow> 0 < q + 719163" "t < 253402300800000000 \<longleftrightarrow> q + 719163 \<le> 3652059"
    by linarith+
  then show ?thesis by (simp add: datetime_ok_def q_def)
qed

section \<open>Years and months are found correctly\<close>

lemma leap_days_arith:
  fixes p a b c :: int
  assumes "4 * a \<le> p" "p < 4 * a + 4" "100 * b \<le> p" "p < 100 * b + 100" "400 * c \<le> p" "p < 400 * c + 400"
  shows "146097 * p - 800 < 400 * (365 * p + a - b + c)" "400 * (365 * p + a - b + c) < 146097 * p + 400"
proof -
  have "100 * p < 400 * a + 400" "400 * b \<le> 4 * p" "400 * a \<le> 100 * p" "4 * p < 400 * b + 400"
    using assms by linarith+
  then show "146097 * p - 800 < 400 * (365 * p + a - b + c)" "400 * (365 * p + a - b + c) < 146097 * p + 400"
    using assms(5,6) by (simp_all add: algebra_simps)
qed

lemma days_before_year_bounds:
  "146097 * (y - 1) - 800 < 400 * days_before_year y" "400 * days_before_year y < 146097 * (y - 1) + 400"
proof -
  have div: "k * ((y - 1) div k) \<le> y - 1 \<and> y - 1 < k * ((y - 1) div k) + k" if "0 < k" for k :: int
    using that pos_mod_sign [of k "y - 1"] pos_mod_bound [of k "y - 1"] mult_div_mod_eq [of k "y - 1"] by linarith
  show "146097 * (y - 1) - 800 < 400 * days_before_year y" "400 * days_before_year y < 146097 * (y - 1) + 400"
    unfolding days_before_year_def Let_def
    by (rule leap_days_arith; use div [of 4] div [of 100] div [of 400] in simp)+
qed

lemma days_before_year_mono: "y \<le> y' \<Longrightarrow> days_before_year y \<le> days_before_year y'"
proof -
  assume le: "y \<le> y'"
  have "(y - 1) div 4 \<le> (y' - 1) div 4" "(y - 1) div 400 \<le> (y' - 1) div 400"
    using le by (simp_all add: zdiv_mono1)
  moreover have "365 * (y - 1) - (y - 1) div 100 \<le> 365 * (y' - 1) - (y' - 1) div 100"
  proof -
    have "(y' - 1) div 100 \<le> (y - 1) div 100 + (y' - y)"
    proof -
      have "(y' - 1) div 100 \<le> ((y - 1) + 100 * (y' - y)) div 100"
        by (rule zdiv_mono1) (use le in auto)
      then show ?thesis by simp
    qed
    moreover define a where "a = (y - 1) div 100"
    moreover define b where "b = (y' - 1) div 100"
    ultimately have "b \<le> a + (y' - y)" by simp
    then show ?thesis using le unfolding a_def [symmetric] b_def [symmetric] by simp
  qed
  ultimately show ?thesis
    unfolding days_before_year_def Let_def by linarith
qed

lemma year_of_bounds: "days_before_year (year_of n) < n \<and> n \<le> days_before_year (year_of n + 1)"
proof -
  define y where "y = 400 * (n - 1) div 146097 + 1"
  have r: "146097 * (y - 1) \<le> 400 * (n - 1)" "400 * (n - 1) < 146097 * y"
    unfolding y_def by (simp_all add: algebra_simps)
  have lo: "days_before_year (y - 1) < n"
  proof -
    have "400 * days_before_year (y - 1) < 400 * n"
      using days_before_year_bounds(2) [of "y - 1"] r by (simp add: algebra_simps)
    then show ?thesis by simp
  qed
  have hi: "n \<le> days_before_year (y + 2)"
  proof -
    have "400 * n < 400 * (days_before_year (y + 2) + 1)"
      using days_before_year_bounds(1) [of "y + 2"] r by (simp add: algebra_simps)
    then show ?thesis by simp
  qed
  have y: "year_of n = (if n \<le> days_before_year y then y - 1
      else if days_before_year (y + 1) < n then y + 1 else y)"
    by (simp add: year_of_def y_def Let_def)
  show ?thesis
    using lo hi by (auto simp: y add.commute)
qed

lemma year_of_mono:
  assumes "n \<le> n'"
  shows "year_of n \<le> year_of n'"
proof (rule ccontr)
  assume "\<not> year_of n \<le> year_of n'"
  then have "days_before_year (year_of n' + 1) \<le> days_before_year (year_of n)"
    by (intro days_before_year_mono) simp
  then show False
    using year_of_bounds [of n] year_of_bounds [of n'] assms by linarith
qed

lemma month_search_bounds: "1 \<le> month_search leap d k \<and> month_search leap d k \<le> int k + 1"
  by (induction k) auto

lemma month_search_mono: "d \<le> d' \<Longrightarrow> month_search leap d k \<le> month_search leap d' k"
proof (induction k)
  case (Suc k)
  then show ?case
    using month_search_bounds [of leap d k] by auto
qed simp

lemma month_search_start: "0 < d \<Longrightarrow> days_before_month leap (month_search leap d k) < d"
  by (induction k) (auto simp: days_before_month_def)

section \<open>Order of the texts\<close>

lemma length_pad [simp]: "length (pad k n) = k"
  by (induction k arbitrary: n) auto

lemma append_less_same_length:
  fixes a a' :: string
  assumes "length a = length a'"
  shows "a @ b < a' @ b' \<longleftrightarrow> a < a' \<or> (a = a' \<and> b < b')"
  using assms
proof (induction a a' rule: list_induct2)
  case Nil
  then show ?case by simp
next
  case (Cons x xs y ys)
  then show ?case by auto
qed

lemma digit_char_less: "m < 10 \<Longrightarrow> n < 10 \<Longrightarrow> digit_char m < digit_char n \<longleftrightarrow> m < n"
  by (simp add: less_char_def)

lemma div_mod_less_int:
  fixes m n k :: int
  assumes "m < n" and "0 < k"
  shows "m div k < n div k \<or> (m div k = n div k \<and> m mod k < n mod k)"
  using assms zdiv_mono1 [of m n k] mult_div_mod_eq [of k m] mult_div_mod_eq [of k n]
  by (metis add_less_cancel_left linorder_less_linear not_less order_less_imp_le)

lemma div_mod_less:
  fixes m n k :: nat
  assumes "m < n" and "0 < k"
  shows "m div k < n div k \<or> (m div k = n div k \<and> m mod k < n mod k)"
  using assms div_le_mono [of m n k] mult_div_mod_eq [of k m] mult_div_mod_eq [of k n]
  by (metis add_less_cancel_left linorder_less_linear not_less order_less_imp_le)

lemma pad_less: "m < 10 ^ k \<Longrightarrow> n < 10 ^ k \<Longrightarrow> m < n \<Longrightarrow> pad k m < pad k n"
proof (induction k arbitrary: m n)
  case 0
  then show ?case by simp
next
  case (Suc k)
  have d: "m div 10 < 10 ^ k" "n div 10 < 10 ^ k"
    using Suc.prems by (simp_all add: less_mult_imp_div_less mult.commute)
  have "m div 10 < n div 10 \<or> (m div 10 = n div 10 \<and> m mod 10 < n mod 10)"
    using Suc.prems(3) by (rule div_mod_less) simp
  then show ?case
    using Suc.IH [OF d] by (auto simp: append_less_same_length digit_char_less)
qed

lemma less_ymd:
  assumes "n < n'"
  shows "ord2ymd n < ord2ymd n'"
proof (cases "year_of n = year_of n'")
  case False
  with assms have "year_of n < year_of n'"
    using year_of_mono [of n n'] by simp
  then show ?thesis
    by (simp add: ord2ymd_def Let_def)
next
  case True
  let ?l = "is_leap (year_of n)"
  let ?d = "n - days_before_year (year_of n)" and ?d' = "n' - days_before_year (year_of n)"
  have "?d \<le> ?d'" using assms by simp
  then have "month_of ?l ?d \<le> month_of ?l ?d'"
    unfolding month_of_def by (rule month_search_mono)
  then have "month_of ?l ?d < month_of ?l ?d' \<or>
      (month_of ?l ?d = month_of ?l ?d' \<and>
       ?d - days_before_month ?l (month_of ?l ?d) < ?d' - days_before_month ?l (month_of ?l ?d'))"
    using assms by (cases "month_of ?l ?d = month_of ?l ?d'") auto
  then show ?thesis
    using True by (auto simp: ord2ymd_def Let_def)
qed

text \<open>The fields of a date are in the ranges their text has room for.\<close>

lemma days_before_year_1 [simp]: "days_before_year 1 = 0" "days_before_year 10000 = 3652059"
  by (simp_all add: days_before_year_def)

lemma year_length: "days_before_year (y + 1) \<le> days_before_year y + 367"
proof -
  have up: "y div k \<le> (y - 1) div k + 1" if "1 < k" for k :: int
    using zdiv_mono1 [of y "y - 1 + k" k] that by simp
  have "(y - 1) div 100 \<le> y div 100" by (rule zdiv_mono1) simp_all
  then show ?thesis
    using up [of 4] up [of 400] unfolding days_before_year_def Let_def by simp
qed

lemma month_search_end:
  "0 < d \<Longrightarrow> d \<le> 367 \<Longrightarrow> d - days_before_month leap (month_search leap d 11) \<le> 33"
  by (cases leap) (simp_all add: eval_nat_numeral days_before_month_def)

lemma ord2ymd_ranges:
  assumes "0 < n" and "n \<le> 3652059" and "ord2ymd n = (y, m, d)"
  shows "1 \<le> y" "y \<le> 9999" "1 \<le> m" "m \<le> 12" "1 \<le> d" "d \<le> 33"
proof -
  let ?d = "n - days_before_year (year_of n)"
  have y: "y = year_of n" and m: "m = month_of (is_leap y) ?d"
    and d: "d = ?d - days_before_month (is_leap y) m"
    using assms(3) by (auto simp: ord2ymd_def Let_def)
  show "1 \<le> y"
    using year_of_bounds [of n] days_before_year_mono [of "y + 1" 1] assms(1) y by (cases "1 \<le> y") auto
  show "y \<le> 9999"
    using year_of_bounds [of n] days_before_year_mono [of 10000 y] assms(2) y by (cases "y \<le> 9999") auto
  show "1 \<le> m" "m \<le> 12"
    using month_search_bounds [of "is_leap y" ?d 11] by (simp_all add: m month_of_def)
  have pos: "0 < ?d" "?d \<le> 367"
    using year_of_bounds [of n] year_length [of "year_of n"] by linarith+
  then show "1 \<le> d"
    using month_search_start [of ?d "is_leap y" 11] by (simp add: d m month_of_def)
  show "d \<le> 33"
    using month_search_end [of ?d "is_leap y"] pos by (simp add: d m month_of_def)
qed

section \<open>Texts are ordered as instants\<close>

lemma pad_le_iff_less_or_eq:
  "m < 10 ^ k \<Longrightarrow> n < 10 ^ k \<Longrightarrow> pad k m < pad k n \<longleftrightarrow> m < n"
  using pad_less [of m k n] pad_less [of n k m] by (cases m n rule: linorder_cases) auto

definition date_text :: "int \<Rightarrow> string" where
  "date_text n = (let (y, m, d) = ord2ymd n in pad 4 (nat y) @ ''-'' @ pad 2 (nat m) @ ''-'' @ pad 2 (nat d))"

definition time_text :: "int \<Rightarrow> string" where
  "time_text r = (let us = r mod 1000000; s = r div 1000000
     in pad 2 (nat (s div 3600)) @ '':'' @ pad 2 (nat (s div 60 mod 60)) @ '':'' @ pad 2 (nat (s mod 60))
        @ (if us = 0 then [] else ''.'' @ pad 6 (nat us)) @ ''+00:00'')"

lemma isoformat_text: "isoformat t = date_text (t div 86400000000 + 719163) @ ''T'' @ time_text (t mod 86400000000)"
proof -
  obtain y m d where "ord2ymd (t div 86400000000 + 719163) = (y, m, d)"
    by (metis prod_cases3)
  then show ?thesis
    by (simp only: isoformat_def date_text_def time_text_def Let_def prod.case append_assoc)
qed

lemma length_date_text [simp]: "length (date_text n) = 10"
  by (simp add: date_text_def split: prod.split)

lemma date_text_less:
  assumes "0 < n" and "n < n'" and "n' \<le> 3652059"
  shows "date_text n < date_text n'"
proof -
  obtain y m d where n: "ord2ymd n = (y, m, d)" by (metis prod_cases3)
  obtain y' m' d' where n': "ord2ymd n' = (y', m', d')" by (metis prod_cases3)
  have r: "1 \<le> y" "y \<le> 9999" "1 \<le> m" "m \<le> 12" "1 \<le> d" "d \<le> 33"
    using ord2ymd_ranges [OF _ _ n] assms by simp_all
  have r': "1 \<le> y'" "y' \<le> 9999" "1 \<le> m'" "m' \<le> 12" "1 \<le> d'" "d' \<le> 33"
    using ord2ymd_ranges [OF _ _ n'] assms by simp_all
  have "(y, m, d) < (y', m', d')"
    using less_ymd [OF assms(2)] n n' by simp
  then have "y < y' \<or> (y = y' \<and> (m < m' \<or> (m = m' \<and> d < d')))"
    by auto
  moreover have "y < y' \<Longrightarrow> pad 4 (nat y) < pad 4 (nat y')" "m < m' \<Longrightarrow> pad 2 (nat m) < pad 2 (nat m')"
    "d < d' \<Longrightarrow> pad 2 (nat d) < pad 2 (nat d')"
    using r r' by (simp_all add: pad_less)
  ultimately show ?thesis
    by (auto simp: date_text_def n n' append_less_same_length)
qed

lemma fields_less:
  assumes "length a = length a'" and "length b = length b'" and "length c = length c'"
    and "a < a' \<or> (a = a' \<and> (b < b' \<or> (b = b' \<and> (c < c' \<or> (c = c' \<and> f < f')))))"
  shows "a @ '':'' @ b @ '':'' @ c @ f < a' @ '':'' @ b' @ '':'' @ c' @ (f' :: string)"
  using assms(4) by (auto simp: append_less_same_length assms(1-3))

lemma time_text_less:
  assumes "0 \<le> r" and "r < r'" and "r' < 86400000000"
  shows "time_text r < time_text r'"
proof -
  define s u where "s = r div 1000000" and "u = r mod 1000000"
  define s' u' where "s' = r' div 1000000" and "u' = r' mod 1000000"
  have s: "0 \<le> s" "s \<le> s'" "s' < 86400"
    unfolding s_def s'_def using assms by (auto simp: zdiv_mono1)
  have u: "0 \<le> u" "0 \<le> u'" "u' < 1000000"
    by (simp_all add: u_def u'_def)
  have sec: "s < s' \<or> (s = s' \<and> u < u')"
    unfolding s_def s'_def u_def u'_def using assms(2) by (rule div_mod_less_int) simp
  have hms: "s div 3600 < s' div 3600 \<or> (s div 3600 = s' div 3600 \<and>
      (s div 60 mod 60 < s' div 60 mod 60 \<or> (s div 60 mod 60 = s' div 60 mod 60 \<and> s mod 60 < s' mod 60)))"
    if "s < s'"
  proof -
    have minutes: "s div 60 < s' div 60 \<or> (s div 60 = s' div 60 \<and> s mod 60 < s' mod 60)"
      using that by (rule div_mod_less_int) simp
    have hours: "s div 60 < s' div 60 \<Longrightarrow> s div 60 div 60 < s' div 60 div 60 \<or>
        (s div 60 div 60 = s' div 60 div 60 \<and> s div 60 mod 60 < s' div 60 mod 60)"
      by (rule div_mod_less_int) simp_all
    have parts: "s div 3600 = s div 60 div 60" "s' div 3600 = s' div 60 div 60"
      using zdiv_zmult2_eq [of 60 s 60] zdiv_zmult2_eq [of 60 s' 60] by simp_all
    show ?thesis using minutes
    proof
      assume "s div 60 < s' div 60"
      from hours [OF this] show ?thesis unfolding parts by blast
    qed (simp add: parts)
  qed
  have pads: "s div 3600 < s' div 3600 \<Longrightarrow> pad 2 (nat (s div 3600)) < pad 2 (nat (s' div 3600))"
    "s div 60 mod 60 < s' div 60 mod 60 \<Longrightarrow> pad 2 (nat (s div 60 mod 60)) < pad 2 (nat (s' div 60 mod 60))"
    "s mod 60 < s' mod 60 \<Longrightarrow> pad 2 (nat (s mod 60)) < pad 2 (nat (s' mod 60))"
    "u < u' \<Longrightarrow> pad 6 (nat u) < pad 6 (nat u')"
    using s u by (auto intro!: pad_less pos_imp_zdiv_nonneg_iff)
  have frac: "(if u = 0 then [] else ''.'' @ pad 6 (nat u)) @ ''+00:00''
      < (if u' = 0 then [] else ''.'' @ pad 6 (nat u')) @ ''+00:00''" if "u < u'"
    using that u pads(4) by (auto simp: append_less_same_length less_char_def)
  have order: "pad 2 (nat (s div 3600)) < pad 2 (nat (s' div 3600)) \<or>
      (pad 2 (nat (s div 3600)) = pad 2 (nat (s' div 3600)) \<and>
       (pad 2 (nat (s div 60 mod 60)) < pad 2 (nat (s' div 60 mod 60)) \<or>
        (pad 2 (nat (s div 60 mod 60)) = pad 2 (nat (s' div 60 mod 60)) \<and>
         (pad 2 (nat (s mod 60)) < pad 2 (nat (s' mod 60)) \<or>
          (pad 2 (nat (s mod 60)) = pad 2 (nat (s' mod 60)) \<and>
           (if u = 0 then [] else ''.'' @ pad 6 (nat u)) @ ''+00:00''
           < (if u' = 0 then [] else ''.'' @ pad 6 (nat u')) @ ''+00:00'')))))"
    using sec
  proof
    assume "s < s'"
    then show ?thesis using hms pads(1-3) by metis
  next
    assume "s = s' \<and> u < u'"
    then show ?thesis using frac by blast
  qed
  show ?thesis
    unfolding time_text_def Let_def s_def [symmetric] s'_def [symmetric] u_def [symmetric] u'_def [symmetric]
    by (rule fields_less) (use order in \<open>simp_all only: length_pad\<close>)
qed

text \<open>The order of the texts of two UTC datetimes is the order of the instants.\<close>

lemma isoformat_less:
  assumes "datetime_ok t" and "datetime_ok t'" and "t < t'"
  shows "isoformat t < isoformat t'"
proof -
  have "t div 86400000000 < t' div 86400000000 \<or>
      (t div 86400000000 = t' div 86400000000 \<and> t mod 86400000000 < t' mod 86400000000)"
    using assms(3) by (rule div_mod_less_int) simp
  then show ?thesis
    using assms(1,2) date_text_less [of "t div 86400000000 + 719163" "t' div 86400000000 + 719163"]
      time_text_less [of "t mod 86400000000" "t' mod 86400000000"]
    by (auto simp: isoformat_text append_less_same_length datetime_ok_days)
qed

lemma isoformat_le_iff:
  "datetime_ok t \<Longrightarrow> datetime_ok t' \<Longrightarrow> isoformat t \<le> isoformat t' \<longleftrightarrow> t \<le> t'"
  using isoformat_less [of t t'] isoformat_less [of t' t] by (cases t t' rule: linorder_cases) auto

lemma isoformat_less_iff:
  "datetime_ok t \<Longrightarrow> datetime_ok t' \<Longrightarrow> isoformat t < isoformat t' \<longleftrightarrow> t < t'"
  using isoformat_le_iff [of t' t] by (auto simp: not_le [symmetric])

lemma isoformat_inj: "datetime_ok t \<Longrightarrow> datetime_ok t' \<Longrightarrow> isoformat t = isoformat t' \<longleftrightarrow> t = t'"
  using isoformat_less [of t t'] isoformat_less [of t' t] by (cases t t' rule: linorder_cases) auto

end
