(* ===== verification/Correlation.thy ===== *)
theory Correlation
  imports Detection PyDatetime "HOL-Library.Multiset"
begin

text \<open>
  \<^verbatim>\<open>backend/app/correlation/\<close> with the alert and incident repositories: identity keys, risk
  scores, timelines and \<^verbatim>\<open>IncidentCorrelationService\<close>. The service's effects are those of a
  state record: the database, the set \<^verbatim>\<open>last_created_ids\<close> and the advisory locks taken so
  far in the transaction, in order. Fresh row ids and clock readings are arguments.
\<close>

section \<open>Identity keys\<close>

definition normalized :: "string option \<Rightarrow> string" where
  "normalized v = py_lower (py_strip (str_or v []))"

definition build_correlation_key :: "string option \<Rightarrow> string option \<Rightarrow> string" where
  "build_correlation_key username source_ip =
    (let u = normalized username; s = normalized source_ip
     in ''credential_compromise:u:'' @ str_of_nat (length u) @ '':'' @ u
        @ ''|s:'' @ str_of_nat (length s) @ '':'' @ s)"

definition build_identity_lock_keys :: "string option \<Rightarrow> string option \<Rightarrow> string list" where
  "build_identity_lock_keys username source_ip =
    (let u = normalized username; s = normalized source_ip
     in sort ((if u \<noteq> [] then [''credential_compromise:username:'' @ str_of_nat (length u) @ '':'' @ u] else []) @
              (if s \<noteq> [] then [''credential_compromise:source_ip:'' @ str_of_nat (length s) @ '':'' @ s] else [])))"

section \<open>Risk scores\<close>

definition severity_weight :: "settings \<Rightarrow> string \<Rightarrow> int" where
  "severity_weight st severity =
    (if severity = ''critical'' then risk_score_high_severity_weight st + 10
     else if severity = ''high'' then risk_score_high_severity_weight st
     else if severity = ''medium'' then risk_score_medium_severity_weight st
     else risk_score_low_severity_weight st)"

definition confidence_score :: "settings \<Rightarrow> alert list \<Rightarrow> int" where
  "confidence_score st alerts =
    py_trunc ((sum_list (map al_confidence alerts) / of_nat (length alerts))
              * of_int (risk_score_confidence_multiplier st))"

definition combo_bonus :: "settings \<Rightarrow> string set \<Rightarrow> int" where
  "combo_bonus st rule_ids =
    (if ''rule_005_login_after_failures'' \<in> rule_ids \<and>
        (''rule_001_brute_force'' \<in> rule_ids \<or> ''rule_002_password_spray'' \<in> rule_ids)
     then risk_score_combo_bonus st else 0) +
    (if ''rule_003_suspicious_privilege_change'' \<in> rule_ids \<or> ''rule_004_large_download'' \<in> rule_ids
     then risk_score_supporting_bonus st else 0)"

definition score :: "settings \<Rightarrow> alert list \<Rightarrow> int" where
  "score st alerts =
    (if alerts = [] then 0
     else
       let severity_score = sum_list (map (\<lambda>a. severity_weight st (al_severity a)) alerts);
           raw_score = severity_score + confidence_score st alerts
             + combo_bonus st (al_rule_id ` set alerts)
       in max 0 (min 100 raw_score))"

definition severity_from_score :: "int \<Rightarrow> string" where
  "severity_from_score s =
    (if 85 \<le> s then ''critical'' else if 65 \<le> s then ''high'' else if 35 \<le> s then ''medium'' else ''low'')"

section \<open>Timelines\<close>

type_synonym timeline_entry = "(string \<times> json) list"

definition json_int :: "int option \<Rightarrow> json" where
  "json_int v = (case v of None \<Rightarrow> JNull | Some i \<Rightarrow> JInt i)"

definition event_entry :: "event \<Rightarrow> timeline_entry" where
  "event_entry e =
    [(''timestamp'', JStr (isoformat (ev_timestamp e))),
     (''type'', JStr ''event''),
     (''title'', JStr (''Event: '' @ ev_event_type e)),
     (''description'', JStr (ev_source e @ '' generated a '' @ ev_event_type e @ '' event.'')),
     (''event_id'', JStr (ev_event_id e)),
     (''alert_id'', JNull),
     (''rule_id'', JNull),
     (''username'', json_str (ev_username e)),
     (''source_ip'', json_str (ev_source_ip e)),
     (''metadata'', JObj [(''category'', JStr (ev_category e)), (''status'', json_str (ev_status e)),
        (''resource'', json_str (ev_resource e)), (''bytes_received'', json_int (ev_bytes_received e))])]"

definition alert_entry :: "alert \<Rightarrow> event option \<Rightarrow> timeline_entry" where
  "alert_entry a e =
    [(''timestamp'', JStr (isoformat (al_last_seen a))),
     (''type'', JStr ''alert''),
     (''title'', JStr (al_title a)),
     (''description'', JStr (al_description a)),
     (''event_id'', (case e of None \<Rightarrow> JNull | Some x \<Rightarrow> JStr (ev_event_id x))),
     (''alert_id'', JStr (uuid_str (al_id a))),
     (''rule_id'', JStr (al_rule_id a)),
     (''username'', json_str (al_username a)),
     (''source_ip'', json_str (al_source_ip a)),
     (''metadata'', JObj (al_evidence a))]"

definition entry_text :: "timeline_entry \<Rightarrow> string \<Rightarrow> string" where
  "entry_text entry k = (case dict_get entry k of JStr s \<Rightarrow> s | _ \<Rightarrow> [])"

fun timeline_entries :: "alert list \<Rightarrow> (uuid \<times> event) list \<Rightarrow> string list \<Rightarrow> timeline_entry list" where
  "timeline_entries [] events_by_id seen = []"
| "timeline_entries (a # as) events_by_id seen =
     (case map_of events_by_id (al_event_id a) of
        Some e \<Rightarrow>
          (if ev_event_id e \<notin> set seen
           then event_entry e # alert_entry a (Some e) # timeline_entries as events_by_id (ev_event_id e # seen)
           else alert_entry a (Some e) # timeline_entries as events_by_id seen)
      | None \<Rightarrow> alert_entry a None # timeline_entries as events_by_id seen)"

definition build_incident_timeline :: "alert list \<Rightarrow> (uuid \<times> event) list \<Rightarrow> timeline_entry list" where
  "build_incident_timeline alerts events_by_id =
    sort_key (\<lambda>entry. (entry_text entry ''timestamp'', entry_text entry ''type''))
      (timeline_entries (sort_key (\<lambda>a. (al_first_seen a, al_created_at a)) alerts) events_by_id [])"

section \<open>The alert repository\<close>

definition alerts_create_many :: "alert list \<Rightarrow> db \<Rightarrow> exn + db" where
  "alerts_create_many as d =
    (if \<not> distinct (map al_id as) \<or> al_id ` set as \<inter> al_id ` set (db_alerts d) \<noteq> {}
     then Inl IntegrityError else Inr (d\<lparr>db_alerts := db_alerts d @ as\<rparr>))"

definition alert_create :: "alert \<Rightarrow> db \<Rightarrow> exn + db" where
  "alert_create a d =
    (if al_id a \<in> al_id ` set (db_alerts d) then Inl IntegrityError else Inr (d\<lparr>db_alerts := db_alerts d @ [a]\<rparr>))"

lemma alert_create_single: "alert_create a d = alerts_create_many [a] d"
  by (simp add: alert_create_def alerts_create_many_def)

definition list_all_alerts :: "db \<Rightarrow> alert list" where
  "list_all_alerts d = sort_key al_created_at (db_alerts d)"

definition related_alerts :: "string option \<Rightarrow> string option \<Rightarrow> datetime \<Rightarrow> datetime \<Rightarrow> uuid list \<Rightarrow> db \<Rightarrow> alert list" where
  "related_alerts username source_ip since until exclude d =
    (if username = None \<and> source_ip = None then []
     else sort_key (\<lambda>a. (al_first_seen a, al_created_at a))
       (filter (\<lambda>a. since \<le> al_last_seen a \<and> al_last_seen a \<le> until \<and>
                    same_identity username source_ip (al_username a) (al_source_ip a) \<and>
                    (exclude \<noteq> [] \<longrightarrow> al_id a \<notin> set exclude)) (db_alerts d)))"

section \<open>The incident repository\<close>

text \<open>A link whose primary key exists already makes the flush fail.\<close>

definition add_alert_links :: "datetime \<Rightarrow> uuid \<Rightarrow> uuid list \<Rightarrow> db \<Rightarrow> exn + db" where
  "add_alert_links now incident_id alert_ids d =
    (let existing = {ia_alert_id l | l. l \<in> set (db_incident_alerts d) \<and> ia_incident_id l = incident_id
           \<and> ia_alert_id l \<in> set alert_ids};
         new = filter (\<lambda>i. i \<notin> existing) alert_ids
     in if \<not> distinct new then Inl IntegrityError
        else Inr (d\<lparr>db_incident_alerts := db_incident_alerts d @
          map (\<lambda>i. \<lparr>ia_incident_id = incident_id, ia_alert_id = i, ia_created_at = now\<rparr>) new\<rparr>))"

text \<open>The flush of a changed incident; \<^verbatim>\<open>updated_at\<close> changes with any other column.\<close>

definition incident_update :: "datetime \<Rightarrow> incident \<Rightarrow> db \<Rightarrow> incident \<times> db" where
  "incident_update now r d =
    (case get_incident (in_id r) d of
       Some old \<Rightarrow> (let r' = (if r = old then r else r\<lparr>in_updated_at := now\<rparr>) in (r', save_incident r' d))
     | None \<Rightarrow> (r, d))"

definition find_open_related_incident ::
    "string \<Rightarrow> string option \<Rightarrow> string option \<Rightarrow> datetime \<Rightarrow> datetime \<Rightarrow> db \<Rightarrow> incident option" where
  "find_open_related_incident key username source_ip since until d =
    (case sort_key (\<lambda>i. - in_last_seen i)
       (filter (\<lambda>i. in_status i = ''open'' \<and>
                    (in_correlation_key i = key \<or>
                     same_identity username source_ip (in_primary_username i) (in_primary_source_ip i)) \<and>
                    since \<le> in_last_seen i \<and> in_last_seen i \<le> until) (db_incidents d))
     of [] \<Rightarrow> None | i # _ \<Rightarrow> Some i)"

record incident_query_filters =
  if_status :: "string option"
  if_severity :: "string option"
  if_username :: "string option"
  if_source_ip :: "string option"
  if_limit :: nat
  if_offset :: nat

definition incident_matches :: "incident_query_filters \<Rightarrow> incident \<Rightarrow> bool" where
  "incident_matches f i =
    ((case if_status f of None \<Rightarrow> True | Some s \<Rightarrow> in_status i = s) \<and>
     (case if_severity f of None \<Rightarrow> True | Some s \<Rightarrow> in_severity i = s) \<and>
     (case if_username f of None \<Rightarrow> True | Some s \<Rightarrow> in_primary_username i = Some s) \<and>
     (case if_source_ip f of None \<Rightarrow> True | Some s \<Rightarrow> in_primary_source_ip i = Some s))"

definition list_incidents :: "incident_query_filters \<Rightarrow> db \<Rightarrow> incident list \<times> nat" where
  "list_incidents f d =
    (let rows = filter (incident_matches f) (db_incidents d)
     in (take (if_limit f) (drop (if_offset f) (sort_key (\<lambda>i. - in_last_seen i) rows)), length rows))"

definition get_alerts_for_incident :: "uuid \<Rightarrow> db \<Rightarrow> alert list" where
  "get_alerts_for_incident incident_id d =
    sort_key (\<lambda>a. (al_first_seen a, al_created_at a))
      (filter (\<lambda>a. \<exists>l \<in> set (db_incident_alerts d). ia_incident_id l = incident_id \<and> ia_alert_id l = al_id a)
        (db_alerts d))"

section \<open>The correlation service\<close>

record correlator =
  cs_db :: db
  cs_last_created_ids :: "uuid list"
  cs_locks :: "string list"

definition acquire_correlation_lock :: "string \<Rightarrow> correlator \<Rightarrow> correlator" where
  "acquire_correlation_lock key c = c\<lparr>cs_locks := cs_locks c @ [key]\<rparr>"

definition allowed_rules :: "string list" where
  "allowed_rules = [''rule_001_brute_force'', ''rule_002_password_spray'', ''rule_003_suspicious_privilege_change'',
     ''rule_004_large_download'', ''rule_005_login_after_failures'']"

definition credential_compromise_candidates :: "alert list \<Rightarrow> alert list" where
  "credential_compromise_candidates alerts =
    (let rule_ids = al_rule_id ` set alerts;
         has_initial_access = (''rule_001_brute_force'' \<in> rule_ids \<or> ''rule_002_password_spray'' \<in> rule_ids);
         has_success = (''rule_005_login_after_failures'' \<in> rule_ids)
     in if \<not> (has_initial_access \<and> has_success) then []
        else filter (\<lambda>a. al_rule_id a \<in> set allowed_rules) alerts)"

fun first_present :: "string option list \<Rightarrow> string option" where
  "first_present [] = None"
| "first_present (v # vs) = (if truthy_str v then v else first_present vs)"

fun select_preferred :: "string list \<Rightarrow> (alert \<Rightarrow> string option) \<Rightarrow> alert list \<Rightarrow> string option" where
  "select_preferred [] field alerts = first_present (map field alerts)"
| "select_preferred (r # rs) field alerts =
     (case first_present (map field (filter (\<lambda>a. al_rule_id a = r) alerts)) of
        Some v \<Rightarrow> Some v
      | None \<Rightarrow> select_preferred rs field alerts)"

definition select_primary_username :: "alert list \<Rightarrow> string option" where
  "select_primary_username alerts = select_preferred
    [''rule_005_login_after_failures'', ''rule_003_suspicious_privilege_change'', ''rule_004_large_download'']
    al_username alerts"

definition select_primary_source_ip :: "alert list \<Rightarrow> string option" where
  "select_primary_source_ip alerts = select_preferred
    [''rule_005_login_after_failures'', ''rule_003_suspicious_privilege_change'', ''rule_004_large_download'',
     ''rule_001_brute_force'', ''rule_002_password_spray''] al_source_ip alerts"

text \<open>The truthiness of \<^verbatim>\<open>username or incident.primary_username\<close>.\<close>

definition opt_or :: "string option \<Rightarrow> string option \<Rightarrow> string option" where
  "opt_or v w = (if truthy_str v then v else w)"

definition compromise_description :: string where
  "compromise_description = ''Correlated attack activity indicates a likely credential compromise sequence.''"

text \<open>The incident the service opens for a credential compromise.\<close>

definition new_compromise_incident :: "uuid \<Rightarrow> datetime \<Rightarrow> string \<Rightarrow> string option \<Rightarrow> string option \<Rightarrow>
    datetime \<Rightarrow> datetime \<Rightarrow> incident" where
  "new_compromise_incident i now key username source_ip first_t last_t =
    \<lparr>in_id = i, in_title = ''Credential compromise incident'', in_description = compromise_description,
     in_status = ''open'', in_severity = ''low'', in_risk_score = 0, in_correlation_key = key,
     in_primary_username = username, in_primary_source_ip = source_ip, in_first_seen = first_t,
     in_last_seen = last_t, in_timeline = [], in_created_at = now, in_updated_at = now\<rparr>"

definition empty_seq :: exn where
  "empty_seq = ValueError ''min() arg is an empty sequence''"

definition find_or_create :: "incident option \<Rightarrow> incident \<Rightarrow> correlator \<Rightarrow> incident \<times> correlator" where
  "find_or_create found fresh c =
    (case found of Some i \<Rightarrow> (i, c)
     | None \<Rightarrow> (fresh, c\<lparr>cs_db := add_incident fresh (cs_db c),
                        cs_last_created_ids := in_id fresh # cs_last_created_ids c\<rparr>))"

definition refresh_incident :: "settings \<Rightarrow> datetime \<Rightarrow> string \<Rightarrow> string option \<Rightarrow> string option \<Rightarrow>
    alert list \<Rightarrow> db \<Rightarrow> incident \<Rightarrow> exn + incident \<times> db" where
  "refresh_incident st now key username source_ip all_alerts d incident =
    then_do (py_min (map al_first_seen all_alerts) empty_seq) (\<lambda>first.
    then_do (py_max (map al_last_seen all_alerts) empty_seq) (\<lambda>last.
      (let risk_score = score st all_alerts
       in Inr (incident_update now (incident\<lparr>
            in_severity := severity_from_score risk_score,
            in_risk_score := risk_score,
            in_correlation_key := key,
            in_primary_username := opt_or username (in_primary_username incident),
            in_primary_source_ip := opt_or source_ip (in_primary_source_ip incident),
            in_first_seen := first,
            in_last_seen := last,
            in_timeline := map JObj (build_incident_timeline all_alerts
              (get_by_ids (map al_event_id all_alerts) d)),
            in_description := compromise_description\<rparr>) d))))"

definition correlate_compromise :: "settings \<Rightarrow> datetime \<Rightarrow> uuid \<Rightarrow> alert \<Rightarrow> correlator \<Rightarrow>
    exn + (incident option \<times> correlator)" where
  "correlate_compromise st now fresh_id a c =
    then_do (checked_datetime (al_last_seen a - seconds (credential_compromise_lookback_seconds st))) (\<lambda>lookback_since.
     let found = related_alerts (al_username a) (al_source_ip a) lookback_since (al_last_seen a) [] (cs_db c);
         related = (if al_id a \<notin> al_id ` set found then found @ [a] else found);
         candidates = credential_compromise_candidates related
     in if candidates = [] then Inr (None, c)
        else
          let username = select_primary_username candidates;
              source_ip = select_primary_source_ip candidates;
              key = build_correlation_key username source_ip;
              c1 = fold acquire_correlation_lock (build_identity_lock_keys username source_ip) c
          in then_do (checked_datetime (al_last_seen a - seconds (incident_merge_window_seconds st))) (\<lambda>merge_since.
             then_do (py_min (map al_first_seen candidates) empty_seq) (\<lambda>first.
             then_do (py_max (map al_last_seen candidates) empty_seq) (\<lambda>last.
             (case find_or_create
                (find_open_related_incident key username source_ip merge_since (al_last_seen a) (cs_db c1))
                (new_compromise_incident fresh_id now key username source_ip first last) c1
              of (incident, c2) \<Rightarrow>
             then_do (add_alert_links now (in_id incident) (map al_id candidates) (cs_db c2)) (\<lambda>d3.
             then_do (refresh_incident st now key username source_ip
                (get_alerts_for_incident (in_id incident) d3) d3 incident) (\<lambda>(inc, d4).
             Inr (Some inc, c2\<lparr>cs_db := d4\<rparr>))))))))"

text \<open>The score table of the finding severities; another severity raises KeyError.\<close>

definition finding_score :: "string \<Rightarrow> exn + int" where
  "finding_score severity =
    (if severity = ''low'' then Inr 25 else if severity = ''medium'' then Inr 50
     else if severity = ''high'' then Inr 75 else if severity = ''critical'' then Inr 95 else Inl KeyError)"

fun all_scores :: "alert list \<Rightarrow> exn + int list" where
  "all_scores [] = Inr []"
| "all_scores (a # as) = then_do (finding_score (al_severity a)) (\<lambda>s.
     then_do (all_scores as) (\<lambda>ss. Inr (s # ss)))"

definition finding_key :: "(json \<Rightarrow> string) \<Rightarrow> event \<Rightarrow> string" where
  "finding_key other e =
    (let metadata = ev_event_metadata e;
         provider_id = str_or_json other (dict_get metadata ''provider_finding_id'') (ev_event_id e);
         account_id = str_or_json other (dict_get metadata ''account_id'') ''local''
     in take 512 (''finding:'' @ account_id @ '':'' @ provider_id))"

definition new_finding_incident :: "uuid \<Rightarrow> datetime \<Rightarrow> string \<Rightarrow> alert \<Rightarrow> int \<Rightarrow> incident" where
  "new_finding_incident i now key a risk =
    \<lparr>in_id = i, in_title = al_title a, in_description = al_description a, in_status = ''open'',
     in_severity = al_severity a, in_risk_score = risk, in_correlation_key = key,
     in_primary_username = al_username a, in_primary_source_ip = al_source_ip a,
     in_first_seen = al_first_seen a, in_last_seen = al_last_seen a, in_timeline = [],
     in_created_at = now, in_updated_at = now\<rparr>"

definition find_or_create_finding :: "uuid \<Rightarrow> datetime \<Rightarrow> string \<Rightarrow> alert \<Rightarrow> correlator \<Rightarrow>
    exn + (incident \<times> correlator)" where
  "find_or_create_finding fresh_id now key a c =
    then_do (checked_datetime (al_first_seen a - seconds (90 * 86400))) (\<lambda>since.
    then_do (checked_datetime (al_last_seen a + seconds 1)) (\<lambda>until.
     (case find_open_related_incident key None None since until (cs_db c)
      of Some i \<Rightarrow> Inr (i, c)
       | None \<Rightarrow> then_do (finding_score (al_severity a)) (\<lambda>risk.
           Inr (find_or_create None (new_finding_incident fresh_id now key a risk) c)))))"

definition correlate_cloud_finding :: "settings \<Rightarrow> (json \<Rightarrow> string) \<Rightarrow> datetime \<Rightarrow> uuid \<Rightarrow> alert \<Rightarrow> correlator \<Rightarrow>
    exn + (incident \<times> correlator)" where
  "correlate_cloud_finding st other now fresh_id a c =
    (case map_of (get_by_ids [al_event_id a] (cs_db c)) (al_event_id a) of None \<Rightarrow> Inl KeyError
     | Some e \<Rightarrow>
       let key = finding_key other e
       in then_do (find_or_create_finding fresh_id now key a (acquire_correlation_lock key c)) (\<lambda>(incident, c2).
          then_do (add_alert_links now (in_id incident) [al_id a] (cs_db c2)) (\<lambda>d3.
          let all_alerts = get_alerts_for_incident (in_id incident) d3
          in then_do (all_scores all_alerts) (\<lambda>ss.
             then_do (py_max ss empty_seq) (\<lambda>worst.
             then_do (py_max (map al_last_seen all_alerts) empty_seq) (\<lambda>last.
             let risk = max (score st all_alerts) worst;
                 (inc, d4) = incident_update now (incident\<lparr>
                   in_timeline := map JObj (build_incident_timeline all_alerts
                     (get_by_ids (map al_event_id all_alerts) d3)),
                   in_risk_score := risk,
                   in_severity := severity_from_score risk,
                   in_last_seen := last\<rparr>) d3
             in Inr (inc, c2\<lparr>cs_db := d4\<rparr>)))))))"

definition correlate_alert :: "settings \<Rightarrow> (json \<Rightarrow> string) \<Rightarrow> datetime \<Rightarrow> uuid \<Rightarrow> alert \<Rightarrow> correlator \<Rightarrow>
    exn + (incident option \<times> correlator)" where
  "correlate_alert st other now fresh_id a c =
    (if al_rule_id a = ''rule_006_cloud_finding''
     then then_do (correlate_cloud_finding st other now fresh_id a c) (\<lambda>(i, c'). Inr (Some i, c'))
     else if al_rule_id a \<notin> set allowed_rules then Inr (None, c)
     else correlate_compromise st now fresh_id a c)"

text \<open>
  The list of incidents holds the session's objects, so a later change of an incident shows in
  the element already there.
\<close>

fun correlate_all :: "settings \<Rightarrow> (json \<Rightarrow> string) \<Rightarrow> datetime \<Rightarrow> (alert \<times> uuid) list \<Rightarrow> incident list \<Rightarrow>
    correlator \<Rightarrow> exn + (incident list \<times> correlator)" where
  "correlate_all st other now [] incidents c = Inr (incidents, c)"
| "correlate_all st other now ((a, i) # rest) incidents c =
     then_do (correlate_alert st other now i a c) (\<lambda>(found, c').
       correlate_all st other now rest
         (case found of None \<Rightarrow> incidents
          | Some inc \<Rightarrow> (if in_id inc \<in> in_id ` set incidents then table_save in_id inc incidents else incidents @ [inc])) c')"

definition correlate :: "settings \<Rightarrow> (json \<Rightarrow> string) \<Rightarrow> datetime \<Rightarrow> (alert \<times> uuid) list \<Rightarrow> correlator \<Rightarrow>
    exn + (incident list \<times> correlator)" where
  "correlate st other now alerts c = correlate_all st other now alerts [] (c\<lparr>cs_last_created_ids := []\<rparr>)"

section \<open>Identity keys: injectivity and lock order\<close>

lemma length_prefix_inj:
  assumes "str_of_nat (length u) @ CHR '':'' # u @ r = str_of_nat (length u') @ CHR '':'' # u' @ r'"
  shows "u = u' \<and> r = r'"
proof -
  have colon: "CHR '':'' \<notin> set (str_of_nat n)" for n
    by (rule no_char_in_number) (simp add: is_digit_def)
  from append_sep_inj [OF assms colon colon]
  have "length u = length u'" and "u @ r = u' @ r'" by simp_all
  then show ?thesis by simp
qed

lemma lock_key_inj:
  "(str_of_nat (length u) @ CHR '':'' # u = str_of_nat (length u') @ CHR '':'' # u') \<longleftrightarrow> u = u'"
  using length_prefix_inj [of u "[]" u' "[]"] by auto

text \<open>
  two correlation keys are equal exactly when the normalised usernames and the normalised
  source addresses are, so no pair of distinct identities shares a key, whatever separators
  their texts contain.
\<close>

theorem correlation_key_injective:
  "build_correlation_key u s = build_correlation_key u' s' \<longleftrightarrow>
     normalized u = normalized u' \<and> normalized s = normalized s'"
proof
  assume "build_correlation_key u s = build_correlation_key u' s'"
  then have eq: "str_of_nat (length (normalized u)) @ CHR '':'' # normalized u @ ''|s:'' @
        str_of_nat (length (normalized s)) @ CHR '':'' # normalized s
      = str_of_nat (length (normalized u')) @ CHR '':'' # normalized u' @ ''|s:'' @
        str_of_nat (length (normalized s')) @ CHR '':'' # normalized s'"
    by (simp add: build_correlation_key_def Let_def)
  from length_prefix_inj [OF eq] show "normalized u = normalized u' \<and> normalized s = normalized s'"
    by (simp add: lock_key_inj)
qed (simp add: build_correlation_key_def)

lemma set_lock_keys:
  "set (build_identity_lock_keys u s) =
    (if normalized u = [] then {} else {''credential_compromise:username:'' @ str_of_nat (length (normalized u)) @ '':'' @ normalized u}) \<union>
    (if normalized s = [] then {} else {''credential_compromise:source_ip:'' @ str_of_nat (length (normalized s)) @ '':'' @ normalized s})"
  by (simp add: build_identity_lock_keys_def Let_def)

text \<open>
  the lock keys of an identity come strictly ascending, so that within one correlation every
  worker takes them in the same global order; and two correlations compete for a lock
  exactly when they have the same non-empty normalised username or source address.
\<close>

theorem lock_keys_order_and_overlap:
  "sorted_wrt (<) (build_identity_lock_keys u s) \<and>
   (set (build_identity_lock_keys u s) \<inter> set (build_identity_lock_keys u' s') \<noteq> {} \<longleftrightarrow>
     (normalized u \<noteq> [] \<and> normalized u = normalized u') \<or> (normalized s \<noteq> [] \<and> normalized s = normalized s'))"
proof
  have "distinct (build_identity_lock_keys u s)"
    by (simp add: build_identity_lock_keys_def Let_def)
  then show "sorted_wrt (<) (build_identity_lock_keys u s)"
    by (simp add: strict_sorted_iff) (simp add: build_identity_lock_keys_def Let_def)
  show "set (build_identity_lock_keys u s) \<inter> set (build_identity_lock_keys u' s') \<noteq> {} \<longleftrightarrow>
     (normalized u \<noteq> [] \<and> normalized u = normalized u') \<or> (normalized s \<noteq> [] \<and> normalized s = normalized s')"
    unfolding set_lock_keys by (auto simp: lock_key_inj split: if_splits)
qed

section \<open>Risk scores\<close>

lemma score_range: "0 \<le> score st alerts \<and> score st alerts \<le> 100"
  by (simp add: score_def Let_def)

lemma severity_from_score_mono:
  "s \<le> t \<Longrightarrow> severity_from_score s = ''high'' \<Longrightarrow> severity_from_score t \<in> {''high'', ''critical''}"
  by (auto simp: severity_from_score_def split: if_splits)

lemma sum_list_confidence:
  fixes alerts :: "alert list"
  assumes "alerts \<noteq> []" and "\<forall>a \<in> set alerts. q \<le> al_confidence a"
  shows "q \<le> sum_list (map al_confidence alerts) / of_nat (length alerts)"
proof -
  have "of_nat (length alerts) * q \<le> sum_list (map al_confidence alerts)"
    using assms(2) by (induction alerts) (auto simp: algebra_simps)
  then show ?thesis using assms(1) by (simp add: field_simps)
qed

lemma sum_list_two:
  fixes f :: "alert \<Rightarrow> int"
  assumes "a \<in> set xs" "b \<in> set xs" "a \<noteq> b" "\<forall>x \<in> set xs. 0 \<le> f x"
  shows "f a + f b \<le> sum_list (map f xs)"
  using assms
proof (induction xs)
  case (Cons x xs)
  have "y \<in> set xs \<Longrightarrow> f y \<le> sum_list (map f xs)" for y
    using Cons.prems(4) by (intro member_le_sum_list) (auto simp: image_iff)
  moreover have "0 \<le> sum_list (map f xs)"
    using Cons.prems(4) by (intro sum_list_nonneg) auto
  ultimately show ?case
    using Cons by (fastforce dest: meta_spec)
qed simp

section \<open>Links between incidents and alerts\<close>

definition alert_links :: "db \<Rightarrow> (uuid \<times> uuid) list" where
  "alert_links d = map (\<lambda>l. (ia_incident_id l, ia_alert_id l)) (db_incident_alerts d)"

lemma get_alerts_for_incident_links:
  "get_alerts_for_incident i d = sort_key (\<lambda>a. (al_first_seen a, al_created_at a))
     (filter (\<lambda>a. (i, al_id a) \<in> set (alert_links d)) (db_alerts d))"
  unfolding get_alerts_for_incident_def alert_links_def
  by (rule arg_cong [where f = "sort_key _"], rule filter_cong) (auto simp: image_iff)

lemma set_get_alerts_for_incident:
  "a \<in> set (get_alerts_for_incident i d) \<longleftrightarrow> a \<in> set (db_alerts d) \<and> (i, al_id a) \<in> set (alert_links d)"
  by (auto simp: get_alerts_for_incident_links)

definition unlinked :: "uuid \<Rightarrow> uuid list \<Rightarrow> db \<Rightarrow> uuid list" where
  "unlinked i ids d = filter (\<lambda>x. (i, x) \<notin> set (alert_links d)) ids"

lemma add_alert_links_eq:
  "add_alert_links now i ids d =
    (if \<not> distinct (unlinked i ids d) then Inl IntegrityError
     else Inr (d\<lparr>db_incident_alerts := db_incident_alerts d @
       map (\<lambda>x. \<lparr>ia_incident_id = i, ia_alert_id = x, ia_created_at = now\<rparr>) (unlinked i ids d)\<rparr>))"
proof -
  have "filter (\<lambda>x. x \<notin> {ia_alert_id l | l. l \<in> set (db_incident_alerts d) \<and> ia_incident_id l = i
      \<and> ia_alert_id l \<in> set ids}) ids = unlinked i ids d"
    unfolding unlinked_def alert_links_def by (rule filter_cong) (auto simp: image_iff)
  then show ?thesis by (simp add: add_alert_links_def Let_def)
qed

lemma add_alert_links_Inr:
  assumes "add_alert_links now i ids d = Inr d'"
  shows "alert_links d' = alert_links d @ map (Pair i) (unlinked i ids d)"
    and "set (alert_links d') = set (alert_links d) \<union> Pair i ` set ids"
    and "db_alerts d' = db_alerts d" and "db_incidents d' = db_incidents d" and "db_events d' = db_events d"
    and "distinct (alert_links d) \<Longrightarrow> distinct (alert_links d')"
proof -
  have dist: "distinct (unlinked i ids d)"
    and d': "d' = d\<lparr>db_incident_alerts := db_incident_alerts d @
       map (\<lambda>x. \<lparr>ia_incident_id = i, ia_alert_id = x, ia_created_at = now\<rparr>) (unlinked i ids d)\<rparr>"
    using assms by (simp_all add: add_alert_links_eq split: if_splits)
  show links: "alert_links d' = alert_links d @ map (Pair i) (unlinked i ids d)"
    by (simp add: d' alert_links_def comp_def)
  then show "set (alert_links d') = set (alert_links d) \<union> Pair i ` set ids"
    by (auto simp: unlinked_def)
  show "distinct (alert_links d')" if "distinct (alert_links d)"
    using that dist by (auto simp: links distinct_map inj_on_def unlinked_def)
qed (use assms in \<open>auto simp: add_alert_links_eq split: if_splits\<close>)

lemma add_alert_links_ok: "distinct ids \<Longrightarrow> \<exists>d'. add_alert_links now i ids d = Inr d'"
  by (simp add: add_alert_links_eq unlinked_def)

lemma get_incident_cong: "db_incidents d = db_incidents d' \<Longrightarrow> get_incident i d = get_incident i d'"
  by (simp add: get_incident_def)

lemma incident_update_facts:
  assumes "incident_update now r d = (r', d')"
  shows "db_alerts d' = db_alerts d" "alert_links d' = alert_links d" "db_events d' = db_events d"
    "in_id r' = in_id r" "in_risk_score r' = in_risk_score r" "in_severity r' = in_severity r"
    "in_first_seen r' = in_first_seen r" "in_last_seen r' = in_last_seen r" "in_timeline r' = in_timeline r"
    "in_status r' = in_status r"
  using assms
  by (auto simp: incident_update_def alert_links_def save_incident_def Let_def split: option.splits if_splits)

lemma incident_update_get:
  assumes "incident_update now r d = (r', d')" and "get_incident (in_id r) d \<noteq> None"
  shows "get_incident (in_id r) d' = Some r'"
proof -
  have "d' = save_incident r' d" "in_id r' = in_id r"
    using assms by (auto simp: incident_update_def Let_def split: if_splits)
  then show ?thesis using assms(2) by (simp add: incidents.get_save)
qed

section \<open>Credential-compromise incidents\<close>

lemma candidates_facts:
  assumes "credential_compromise_candidates as \<noteq> []"
  shows "set (credential_compromise_candidates as) \<subseteq> set as"
    and "\<exists>x \<in> set (credential_compromise_candidates as). al_rule_id x \<in> {''rule_001_brute_force'', ''rule_002_password_spray''}"
    and "\<exists>x \<in> set (credential_compromise_candidates as). al_rule_id x = ''rule_005_login_after_failures''"
  using assms by (auto simp: credential_compromise_candidates_def allowed_rules_def Let_def split: if_splits)

lemma fold_locks [simp]: "fold acquire_correlation_lock ks c = c\<lparr>cs_locks := cs_locks c @ ks\<rparr>"
  by (induction ks arbitrary: c) (simp_all add: acquire_correlation_lock_def)

lemma find_open_in_table:
  "find_open_related_incident k u s t1 t2 d = Some i \<Longrightarrow> i \<in> set (db_incidents d) \<and> in_status i = ''open''"
proof -
  assume "find_open_related_incident k u s t1 t2 d = Some i"
  then obtain rest where "sort_key (\<lambda>i. - in_last_seen i) (filter (\<lambda>i. in_status i = ''open'' \<and>
                    (in_correlation_key i = k \<or>
                     same_identity u s (in_primary_username i) (in_primary_source_ip i)) \<and>
                    t1 \<le> in_last_seen i \<and> in_last_seen i \<le> t2) (db_incidents d)) = i # rest"
    by (auto simp: find_open_related_incident_def split: list.splits)
  from arg_cong [OF this, of set] show ?thesis by auto
qed

lemma table_get_member: "r \<in> set rows \<Longrightarrow> table_get key (key r) rows \<noteq> None"
  by (simp add: table_get_None)

lemma find_or_create_facts:
  assumes "find_or_create (find_open_related_incident k u s t1 t2 (cs_db c)) fresh c = (inc, c2)"
    and "in_status fresh = ''open''"
  shows "get_incident (in_id inc) (cs_db c2) \<noteq> None" "in_status inc = ''open''"
    "db_alerts (cs_db c2) = db_alerts (cs_db c)" "alert_links (cs_db c2) = alert_links (cs_db c)"
  using assms find_open_in_table [of k u s t1 t2 "cs_db c"]
  by (auto simp: find_or_create_def get_incident_def add_incident_def alert_links_def table_get_None
      split: option.splits)

lemma refresh_incident_Inr:
  assumes "refresh_incident st now k u s as d inc = Inr (inc', d')" and "get_incident (in_id inc) d \<noteq> None"
  shows "in_id inc' = in_id inc" "in_status inc' = in_status inc" "in_risk_score inc' = score st as"
    "in_severity inc' = severity_from_score (score st as)"
    "as \<noteq> []" "in_first_seen inc' = Min (al_first_seen ` set as)" "in_last_seen inc' = Max (al_last_seen ` set as)"
    "db_alerts d' = db_alerts d" "alert_links d' = alert_links d" "get_incident (in_id inc) d' = Some inc'"
proof -
  define r where "r = inc\<lparr>in_severity := severity_from_score (score st as), in_risk_score := score st as,
      in_correlation_key := k, in_primary_username := opt_or u (in_primary_username inc),
      in_primary_source_ip := opt_or s (in_primary_source_ip inc), in_first_seen := Min (al_first_seen ` set as),
      in_last_seen := Max (al_last_seen ` set as),
      in_timeline := map JObj (build_incident_timeline as (get_by_ids (map al_event_id as) d)),
      in_description := compromise_description\<rparr>"
  have ne: "as \<noteq> []"
    using assms(1) by (simp add: refresh_incident_def py_min_def split: if_splits)
  with assms(1) have up: "incident_update now r d = (inc', d')"
    by (simp add: refresh_incident_def py_min_def py_max_def Let_def r_def)
  have id: "in_id r = in_id inc" by (simp add: r_def)
  show "as \<noteq> []" by (rule ne)
  show "get_incident (in_id inc) d' = Some inc'"
    using incident_update_get [OF up] assms(2) by (simp add: id)
  show "in_id inc' = in_id inc" "in_status inc' = in_status inc" "in_risk_score inc' = score st as"
    "in_severity inc' = severity_from_score (score st as)"
    "in_first_seen inc' = Min (al_first_seen ` set as)" "in_last_seen inc' = Max (al_last_seen ` set as)"
    "db_alerts d' = db_alerts d" "alert_links d' = alert_links d"
    using incident_update_facts [OF up] by (simp_all add: r_def)
qed

lemma refresh_incident_ok: "as \<noteq> [] \<Longrightarrow> \<exists>x. refresh_incident st now k u s as d inc = Inr x"
  by (simp add: refresh_incident_def py_min_def py_max_def Let_def)

text \<open>The alerts a correlation considers: those found, and the alert itself.\<close>

definition related_with :: "settings \<Rightarrow> alert \<Rightarrow> db \<Rightarrow> alert list" where
  "related_with st a d =
    (let found = related_alerts (al_username a) (al_source_ip a)
         (al_last_seen a - seconds (credential_compromise_lookback_seconds st)) (al_last_seen a) [] d
     in if al_id a \<notin> al_id ` set found then found @ [a] else found)"

lemma related_with_facts:
  assumes "a \<in> set (db_alerts d)"
  shows "set (related_with st a d) \<subseteq> set (db_alerts d)"
    and "distinct (map al_id (db_alerts d)) \<Longrightarrow> distinct (map al_id (related_with st a d))"
  using assms
  by (auto simp: related_with_def related_alerts_def Let_def distinct_map inj_on_def split: if_splits)

text \<open>The two times the correlation computes, which may lie outside the calendar.\<close>

definition lookback_ok :: "settings \<Rightarrow> alert \<Rightarrow> bool" where
  "lookback_ok st a = datetime_ok (al_last_seen a - seconds (credential_compromise_lookback_seconds st))"

definition merge_window_ok :: "settings \<Rightarrow> alert \<Rightarrow> bool" where
  "merge_window_ok st a = datetime_ok (al_last_seen a - seconds (incident_merge_window_seconds st))"

lemma correlate_compromise_unfold:
  "correlate_compromise st now i a c =
    (if \<not> lookback_ok st a then Inl OverflowError
     else
     let candidates = credential_compromise_candidates (related_with st a (cs_db c))
     in if candidates = [] then Inr (None, c)
        else if \<not> merge_window_ok st a then Inl OverflowError
        else
          let username = select_primary_username candidates;
              source_ip = select_primary_source_ip candidates;
              key = build_correlation_key username source_ip;
              c1 = fold acquire_correlation_lock (build_identity_lock_keys username source_ip) c;
              merge_since = al_last_seen a - seconds (incident_merge_window_seconds st)
          in then_do (py_min (map al_first_seen candidates) empty_seq) (\<lambda>first.
             then_do (py_max (map al_last_seen candidates) empty_seq) (\<lambda>last.
             (case find_or_create
                (find_open_related_incident key username source_ip merge_since (al_last_seen a) (cs_db c1))
                (new_compromise_incident i now key username source_ip first last) c1
              of (incident, c2) \<Rightarrow>
             then_do (add_alert_links now (in_id incident) (map al_id candidates) (cs_db c2)) (\<lambda>d3.
             then_do (refresh_incident st now key username source_ip
                (get_alerts_for_incident (in_id incident) d3) d3 incident) (\<lambda>(inc, d4).
             Inr (Some inc, c2\<lparr>cs_db := d4\<rparr>)))))))"
  by (simp add: correlate_compromise_def related_with_def Let_def lookback_ok_def merge_window_ok_def checked_datetime_def)

lemma correlate_compromise_times:
  "correlate_compromise st now i a c = Inr x \<Longrightarrow> lookback_ok st a \<and>
     (credential_compromise_candidates (related_with st a (cs_db c)) \<noteq> [] \<longrightarrow> merge_window_ok st a)"
  by (simp add: correlate_compromise_unfold Let_def split: if_splits)

lemma correlate_compromise_None:
  "correlate_compromise st now i a c = Inr (None, c') \<Longrightarrow>
     c' = c \<and> credential_compromise_candidates (related_with st a (cs_db c)) = []"
  by (auto simp: correlate_compromise_unfold Let_def split_beta split: if_splits)

lemma correlate_compromise_Some:
  assumes "correlate_compromise st now i a c = Inr (Some inc, c')"
    and "cand = credential_compromise_candidates (related_with st a (cs_db c))"
    and "as = get_alerts_for_incident (in_id inc) (cs_db c')"
  shows "cand \<noteq> []" "in_status inc = ''open''" "get_incident (in_id inc) (cs_db c') = Some inc"
    "db_alerts (cs_db c') = db_alerts (cs_db c)"
    "set (alert_links (cs_db c')) = set (alert_links (cs_db c)) \<union> Pair (in_id inc) ` al_id ` set cand"
    "distinct (alert_links (cs_db c)) \<Longrightarrow> distinct (alert_links (cs_db c'))"
    "as \<noteq> []" "in_risk_score inc = score st as" "in_severity inc = severity_from_score (score st as)"
    "in_first_seen inc = Min (al_first_seen ` set as)" "in_last_seen inc = Max (al_last_seen ` set as)"
proof -
  have ne: "cand \<noteq> []"
    using assms(1,2) by (auto simp: correlate_compromise_unfold Let_def split: if_splits)
  then have times: "lookback_ok st a" "merge_window_ok st a"
    using correlate_compromise_times [OF assms(1)] assms(2) by simp_all
  define u where "u = select_primary_username cand"
  define s where "s = select_primary_source_ip cand"
  define f where "f = Min (al_first_seen ` set cand)"
  define l where "l = Max (al_last_seen ` set cand)"
  obtain inc0 c2 where
    cr: "find_or_create (find_open_related_incident (build_correlation_key u s) u s
        (al_last_seen a - seconds (incident_merge_window_seconds st)) (al_last_seen a) (cs_db c))
        (new_compromise_incident i now (build_correlation_key u s) u s f l)
        (c\<lparr>cs_locks := cs_locks c @ build_identity_lock_keys u s\<rparr>) = (inc0, c2)"
    by fastforce
  have "then_do (add_alert_links now (in_id inc0) (map al_id cand) (cs_db c2)) (\<lambda>d3.
      then_do (refresh_incident st now (build_correlation_key u s) u s (get_alerts_for_incident (in_id inc0) d3) d3 inc0)
        (\<lambda>(inc, d4). Inr (Some inc, c2\<lparr>cs_db := d4\<rparr>))) = Inr (Some inc, c')"
    using assms(1) ne cr times
    by (simp add: correlate_compromise_unfold Let_def py_min_def py_max_def assms(2) [symmetric]
        u_def [symmetric] s_def [symmetric] f_def [symmetric] l_def [symmetric] del: then_do_Inr)
  then obtain d3 d4 where
    ln: "add_alert_links now (in_id inc0) (map al_id cand) (cs_db c2) = Inr d3" and
    rf: "refresh_incident st now (build_correlation_key u s) u s (get_alerts_for_incident (in_id inc0) d3) d3 inc0 = Inr (inc, d4)" and
    c': "c' = c2\<lparr>cs_db := d4\<rparr>"
    by auto
  have "in_status (new_compromise_incident i now (build_correlation_key u s) u s f l) = ''open''"
    by (simp add: new_compromise_incident_def)
  note F = find_or_create_facts [where c = "c\<lparr>cs_locks := cs_locks c @ build_identity_lock_keys u s\<rparr>", simplified, OF cr [simplified] this]
  note L = add_alert_links_Inr [OF ln]
  have "get_incident (in_id inc0) d3 \<noteq> None"
    using F(1) unfolding get_incident_cong [OF L(4)] by simp
  note R = refresh_incident_Inr [OF rf this]
  have as: "as = get_alerts_for_incident (in_id inc0) d3"
    using R(1,8,9) unfolding assms(3) c' get_alerts_for_incident_links by simp
  show "cand \<noteq> []" by (rule ne)
  show "in_status inc = ''open''" "get_incident (in_id inc) (cs_db c') = Some inc"
    using F R by (simp_all add: c')
  show "db_alerts (cs_db c') = db_alerts (cs_db c)" using F L R by (simp add: c')
  show "set (alert_links (cs_db c')) = set (alert_links (cs_db c)) \<union> Pair (in_id inc) ` al_id ` set cand"
    using F(4) L(2) R(1,9) by (simp add: c')
  show "distinct (alert_links (cs_db c)) \<Longrightarrow> distinct (alert_links (cs_db c'))"
    using F(4) L(6) R(9) by (simp add: c')
  show "as \<noteq> []" "in_risk_score inc = score st as" "in_severity inc = severity_from_score (score st as)"
    "in_first_seen inc = Min (al_first_seen ` set as)" "in_last_seen inc = Max (al_last_seen ` set as)"
    unfolding as using R by simp_all
qed

text \<open>
  C21: credential-compromise incidents have their cause. When \<open>correlate_compromise\<close>, the
  correlation of every alert that is not a cloud finding, opens or extends an incident, that
  incident is stored, open, linked to a brute-force or password-spray alert and to a
  login-after-failures alert, and its risk score, severity and time span are those of all the
  alerts linked to it; and when it yields no incident, nothing was written and no lock was taken.
  (Incidents of cloud findings and those an analyst reports are opened by other code.)
\<close>

theorem compromise_incident_sound:
  assumes "correlate_compromise st now i a c = Inr (r, c')" and "a \<in> set (db_alerts (cs_db c))"
  shows "case r of None \<Rightarrow> c' = c
    | Some inc \<Rightarrow> (let as = get_alerts_for_incident (in_id inc) (cs_db c') in
        get_incident (in_id inc) (cs_db c') = Some inc \<and> in_status inc = ''open'' \<and>
        (\<exists>x \<in> set as. al_rule_id x \<in> {''rule_001_brute_force'', ''rule_002_password_spray''}) \<and>
        (\<exists>x \<in> set as. al_rule_id x = ''rule_005_login_after_failures'') \<and>
        in_risk_score inc = score st as \<and> in_severity inc = severity_from_score (score st as) \<and>
        in_first_seen inc = Min (al_first_seen ` set as) \<and> in_last_seen inc = Max (al_last_seen ` set as))"
proof (cases r)
  case None
  with assms(1) show ?thesis
    by (simp add: correlate_compromise_None)
next
  case (Some inc)
  define cand where "cand = credential_compromise_candidates (related_with st a (cs_db c))"
  define as where "as = get_alerts_for_incident (in_id inc) (cs_db c')"
  note S = correlate_compromise_Some [OF assms(1) [unfolded Some] cand_def as_def]
  have "set cand \<subseteq> set (db_alerts (cs_db c))"
    using candidates_facts(1) [of "related_with st a (cs_db c)"] related_with_facts(1) [OF assms(2)] S(1)
    unfolding cand_def by blast
  then have "set cand \<subseteq> set as"
    unfolding as_def using S(4,5) by (auto simp: set_get_alerts_for_incident)
  with candidates_facts(2,3) S(1) have
    "\<exists>x \<in> set as. al_rule_id x \<in> {''rule_001_brute_force'', ''rule_002_password_spray''}"
    "\<exists>x \<in> set as. al_rule_id x = ''rule_005_login_after_failures''"
    unfolding cand_def by blast+
  with S show ?thesis by (simp add: Some as_def)
qed

lemma correlate_compromise_total:
  assumes "a \<in> set (db_alerts (cs_db c))" and "distinct (map al_id (db_alerts (cs_db c)))"
    and "lookback_ok st a" and "merge_window_ok st a"
  shows "\<exists>r. correlate_compromise st now i a c = Inr r"
proof (cases "credential_compromise_candidates (related_with st a (cs_db c)) = []")
  case True
  then show ?thesis using assms(3) by (simp add: correlate_compromise_unfold)
next
  case False
  define cand where "cand = credential_compromise_candidates (related_with st a (cs_db c))"
  define u where "u = select_primary_username cand"
  define s where "s = select_primary_source_ip cand"
  define f where "f = Min (al_first_seen ` set cand)"
  define l where "l = Max (al_last_seen ` set cand)"
  obtain inc0 c2 where
    cr: "find_or_create (find_open_related_incident (build_correlation_key u s) u s
        (al_last_seen a - seconds (incident_merge_window_seconds st)) (al_last_seen a) (cs_db c))
        (new_compromise_incident i now (build_correlation_key u s) u s f l)
        (c\<lparr>cs_locks := cs_locks c @ build_identity_lock_keys u s\<rparr>) = (inc0, c2)"
    by fastforce
  have ne: "cand \<noteq> []" using False by (simp add: cand_def)
  have sub: "set cand \<subseteq> set (db_alerts (cs_db c))"
    using candidates_facts(1) [OF False] related_with_facts(1) [OF assms(1)] unfolding cand_def by blast
  have "distinct (map al_id cand)"
    using related_with_facts(2) [OF assms(1,2)]
    by (auto simp: cand_def credential_compromise_candidates_def Let_def distinct_map_filter)
  then obtain d3 where ln: "add_alert_links now (in_id inc0) (map al_id cand) (cs_db c2) = Inr d3"
    using add_alert_links_ok by blast
  have "db_alerts (cs_db c2) = db_alerts (cs_db c)"
    using cr by (auto simp: find_or_create_def add_incident_def split: option.splits)
  then have "set cand \<subseteq> set (get_alerts_for_incident (in_id inc0) d3)"
    using sub add_alert_links_Inr(2,3) [OF ln] by (auto simp: set_get_alerts_for_incident)
  then have "get_alerts_for_incident (in_id inc0) d3 \<noteq> []" using ne by auto
  from refresh_incident_ok [OF this] obtain x1 x2 where rf: "refresh_incident st now (build_correlation_key u s) u s
      (get_alerts_for_incident (in_id inc0) d3) d3 inc0 = Inr (x1, x2)"
    by fastforce
  have "then_do (add_alert_links now (in_id inc0) (map al_id cand) (cs_db c2)) (\<lambda>d3.
      then_do (refresh_incident st now (build_correlation_key u s) u s (get_alerts_for_incident (in_id inc0) d3) d3 inc0)
        (\<lambda>(inc, d4). Inr (Some inc, c2\<lparr>cs_db := d4\<rparr>))) = correlate_compromise st now i a c"
    using ne cr assms(3,4)
    by (simp add: correlate_compromise_unfold Let_def py_min_def py_max_def cand_def [symmetric]
        u_def [symmetric] s_def [symmetric] f_def [symmetric] l_def [symmetric] del: then_do_Inr)
  then show ?thesis
    unfolding ln then_do_simps rf case_prod_conv by metis
qed

text \<open>
  with unique alert ids, the alert stored, and windows that begin within Python's calendar, the
  correlation of a non-cloud alert always returns (no exception, so no ingested event is rolled
  back for it), and the table of incident-alert links keeps its uniqueness constraint.
\<close>

theorem compromise_correlation_total:
  assumes "a \<in> set (db_alerts (cs_db c))" and "distinct (map al_id (db_alerts (cs_db c)))"
    and "distinct (alert_links (cs_db c))" and "lookback_ok st a" and "merge_window_ok st a"
  shows "\<exists>r c'. correlate_compromise st now i a c = Inr (r, c') \<and> distinct (alert_links (cs_db c')) \<and>
    db_alerts (cs_db c') = db_alerts (cs_db c)"
proof -
  obtain r c' where eq: "correlate_compromise st now i a c = Inr (r, c')"
    using correlate_compromise_total [OF assms(1,2,4,5)] by fastforce
  have "distinct (alert_links (cs_db c')) \<and> db_alerts (cs_db c') = db_alerts (cs_db c)"
  proof (cases r)
    case None
    with eq have "c' = c" by (simp add: correlate_compromise_None)
    then show ?thesis using assms(3) by simp
  next
    case (Some inc)
    show ?thesis using correlate_compromise_Some(4,6) [OF eq [unfolded Some] refl refl] assms(3) by simp
  qed
  with eq show ?thesis by blast
qed

section \<open>The severity of a confirmed compromise\<close>

lemma score_credential_compromise:
  assumes "0 \<le> risk_score_low_severity_weight st" "0 \<le> risk_score_medium_severity_weight st"
    "20 \<le> risk_score_high_severity_weight st" "20 \<le> risk_score_confidence_multiplier st"
    "15 \<le> risk_score_combo_bonus st" "0 \<le> risk_score_supporting_bonus st"
    and "x \<in> set as" "al_rule_id x \<in> {''rule_001_brute_force'', ''rule_002_password_spray''}" "al_severity x = ''high''"
    and "y \<in> set as" "al_rule_id y = ''rule_005_login_after_failures''" "al_severity y = ''high''"
    and "\<forall>a \<in> set as. 6 / 10 \<le> al_confidence a"
  shows "67 \<le> score st as"
proof -
  have nn: "\<forall>a \<in> set as. 0 \<le> severity_weight st (al_severity a)"
    using assms by (simp add: severity_weight_def)
  have "x \<noteq> y" using assms by auto
  from sum_list_two [OF assms(7) assms(10) this nn]
  have sev: "40 \<le> sum_list (map (\<lambda>a. severity_weight st (al_severity a)) as)"
    using assms(3,9,12) by (simp add: severity_weight_def)
  define q where "q = sum_list (map al_confidence as) / of_nat (length as)"
  have q: "6 / 10 \<le> q"
    unfolding q_def using assms(7,13) by (intro sum_list_confidence) auto
  have "(20 :: rat) \<le> of_int (risk_score_confidence_multiplier st)"
    using assms(4) by (metis of_int_le_iff of_int_numeral)
  then have "(6 / 10) * of_int 20 \<le> q * of_int (risk_score_confidence_multiplier st)"
    using q by (intro mult_mono) auto
  then have conf: "12 \<le> confidence_score st as"
    unfolding confidence_score_def q_def [symmetric] by (intro py_trunc_ge) simp_all
  have "15 \<le> combo_bonus st (al_rule_id ` set as)"
    using assms(5,6,7,8,10,11) by (auto simp: combo_bonus_def image_iff)
  with sev conf assms(7) show ?thesis by (auto simp: score_def Let_def)
qed

text \<open>
  under weights not below the defaults, the incident of a credential compromise whose
  brute-force, spray and login alerts are of high severity and whose linked alerts all have the confidence the rules
  give (at least 0.6) is of high or critical severity, with a score between 67 and 100.
\<close>

theorem compromise_is_severe:
  assumes "correlate_compromise st now i a c = Inr (Some inc, c')" and "a \<in> set (db_alerts (cs_db c))"
    and "0 \<le> risk_score_low_severity_weight st" "0 \<le> risk_score_medium_severity_weight st"
    "20 \<le> risk_score_high_severity_weight st" "20 \<le> risk_score_confidence_multiplier st"
    "15 \<le> risk_score_combo_bonus st" "0 \<le> risk_score_supporting_bonus st"
    and "\<forall>x \<in> set (db_alerts (cs_db c)). 6 / 10 \<le> al_confidence x \<and>
      (al_rule_id x \<in> {''rule_001_brute_force'', ''rule_002_password_spray'', ''rule_005_login_after_failures''}
       \<longrightarrow> al_severity x = ''high'')"
  shows "in_severity inc \<in> {''high'', ''critical''} \<and> 67 \<le> in_risk_score inc \<and> in_risk_score inc \<le> 100"
proof -
  define cand where "cand = credential_compromise_candidates (related_with st a (cs_db c))"
  define as where "as = get_alerts_for_incident (in_id inc) (cs_db c')"
  note S = correlate_compromise_Some [OF assms(1) cand_def as_def]
  have cand: "set cand \<subseteq> set (db_alerts (cs_db c))"
    using candidates_facts(1) [of "related_with st a (cs_db c)"] related_with_facts(1) [OF assms(2)] S(1)
    unfolding cand_def by blast
  then have sub: "set cand \<subseteq> set as" "set as \<subseteq> set (db_alerts (cs_db c))"
    unfolding as_def using S(4,5) by (auto simp: set_get_alerts_for_incident)
  obtain x y where "x \<in> set as" "al_rule_id x \<in> {''rule_001_brute_force'', ''rule_002_password_spray''}"
    and "y \<in> set as" "al_rule_id y = ''rule_005_login_after_failures''"
    using candidates_facts(2,3) S(1) sub(1) unfolding cand_def by blast
  moreover have "al_severity x = ''high''" "al_severity y = ''high''" "\<forall>a \<in> set as. 6 / 10 \<le> al_confidence a"
    using assms(9) calculation sub(2) by blast+
  ultimately have "67 \<le> score st as"
    by (intro score_credential_compromise [OF assms(3-8)])
  then show ?thesis
    using S(8,9) score_range [of st as] by (simp add: severity_from_score_def)
qed

section \<open>Timelines\<close>

lemma entry_fields [simp]:
  "entry_text (event_entry e) ''timestamp'' = isoformat (ev_timestamp e)"
  "entry_text (event_entry e) ''type'' = ''event''"
  "entry_text (event_entry e) ''event_id'' = ev_event_id e"
  "entry_text (alert_entry a x) ''timestamp'' = isoformat (al_last_seen a)"
  "entry_text (alert_entry a x) ''type'' = ''alert''"
  "entry_text (alert_entry a x) ''alert_id'' = uuid_str (al_id a)"
  by (simp_all add: entry_text_def event_entry_def alert_entry_def dict_get_def)

definition is_type :: "string \<Rightarrow> timeline_entry \<Rightarrow> bool" where
  "is_type t entry = (entry_text entry ''type'' = t)"

lemma is_type_simps [simp]:
  "is_type ''event'' (event_entry e)" "\<not> is_type ''alert'' (event_entry e)"
  "is_type ''alert'' (alert_entry a x)" "\<not> is_type ''event'' (alert_entry a x)"
  by (simp_all add: is_type_def)

definition timeline_event_ids :: "timeline_entry list \<Rightarrow> string list" where
  "timeline_event_ids entries = map (\<lambda>x. entry_text x ''event_id'') (filter (is_type ''event'') entries)"

definition timeline_alert_ids :: "timeline_entry list \<Rightarrow> string list" where
  "timeline_alert_ids entries = map (\<lambda>x. entry_text x ''alert_id'') (filter (is_type ''alert'') entries)"

lemma timeline_ids_simps [simp]:
  "timeline_event_ids [] = []" "timeline_alert_ids [] = []"
  "timeline_event_ids (event_entry e # es) = ev_event_id e # timeline_event_ids es"
  "timeline_event_ids (alert_entry a x # es) = timeline_event_ids es"
  "timeline_alert_ids (event_entry e # es) = timeline_alert_ids es"
  "timeline_alert_ids (alert_entry a x # es) = uuid_str (al_id a) # timeline_alert_ids es"
  by (simp_all add: timeline_event_ids_def timeline_alert_ids_def)

lemma timeline_alerts_listed:
  "timeline_alert_ids (timeline_entries as ebi seen) = map (\<lambda>a. uuid_str (al_id a)) as"
  by (induction as arbitrary: seen) (auto split: option.split)

text \<open>The ids of the events that the alerts refer to.\<close>

definition referred_events :: "alert list \<Rightarrow> (uuid \<times> event) list \<Rightarrow> string set" where
  "referred_events as ebi = {ev_event_id e | e a. a \<in> set as \<and> map_of ebi (al_event_id a) = Some e}"

lemma referred_events_Cons [simp]:
  "referred_events [] ebi = {}"
  "referred_events (a # as) ebi = (case map_of ebi (al_event_id a) of None \<Rightarrow> {} | Some e \<Rightarrow> {ev_event_id e})
     \<union> referred_events as ebi"
  by (auto simp: referred_events_def split: option.split)

lemma timeline_events_listed:
  "set (timeline_event_ids (timeline_entries as ebi seen)) = referred_events as ebi - set seen \<and>
   distinct (timeline_event_ids (timeline_entries as ebi seen))"
proof (induction as arbitrary: seen)
  case (Cons a as)
  show ?case
  proof (cases "map_of ebi (al_event_id a)")
    case None
    then show ?thesis using Cons.IH [of seen] by simp
  next
    case (Some e)
    show ?thesis
    proof (cases "ev_event_id e \<in> set seen")
      case True
      then show ?thesis using Some Cons.IH [of seen] by auto
    next
      case False
      then show ?thesis using Some Cons.IH [of "ev_event_id e # seen"] by auto
    qed
  qed
qed simp

lemma timeline_times:
  "\<exists>ts. map (\<lambda>x. entry_text x ''timestamp'') (timeline_entries as ebi seen) = map isoformat ts \<and>
    set ts \<subseteq> al_last_seen ` set as \<union> ev_timestamp ` snd ` set ebi"
proof (induction as arbitrary: seen)
  case (Cons a as)
  have m: "map_of ebi k = Some e \<Longrightarrow> ev_timestamp e \<in> ev_timestamp ` snd ` set ebi" for k e
    by (force dest: map_of_SomeD)
  obtain ts where ts: "map (\<lambda>x. entry_text x ''timestamp'') (timeline_entries as ebi seen) = map isoformat ts"
      "set ts \<subseteq> al_last_seen ` set as \<union> ev_timestamp ` snd ` set ebi"
    using Cons.IH by blast
  show ?case
  proof (cases "map_of ebi (al_event_id a)")
    case None
    with ts show ?thesis by (intro exI [of _ "al_last_seen a # ts"]) auto
  next
    case (Some e)
    obtain us where us: "map (\<lambda>x. entry_text x ''timestamp'') (timeline_entries as ebi (ev_event_id e # seen)) = map isoformat us"
        "set us \<subseteq> al_last_seen ` set as \<union> ev_timestamp ` snd ` set ebi"
      using Cons.IH by blast
    show ?thesis
    proof (cases "ev_event_id e \<in> set seen")
      case True
      with ts Some show ?thesis by (intro exI [of _ "al_last_seen a # ts"]) auto
    next
      case False
      with us Some m [OF Some] show ?thesis
        by (intro exI [of _ "ev_timestamp e # al_last_seen a # us"]) auto
    qed
  qed
qed simp

lemma mset_timeline_sort:
  "mset (timeline_event_ids (sort_key f es)) = mset (timeline_event_ids es)"
  "mset (timeline_alert_ids (sort_key f es)) = mset (timeline_alert_ids es)"
  by (simp_all add: timeline_event_ids_def timeline_alert_ids_def filter_sort)

lemma sorted_texts_sorted_times:
  assumes "sorted (map isoformat ts)" and "\<forall>t \<in> set ts. datetime_ok t"
  shows "sorted ts"
  using assms by (induction ts) (auto simp: isoformat_le_iff)

text \<open>
  the timeline of an incident is in chronological order (the sort on the ISO texts is a sort
  on the instants, for the years 1 to 9999), lists every alert once, and lists every event the
  alerts refer to exactly once.
\<close>

theorem timeline_chronological_and_complete:
  assumes "\<forall>a \<in> set alerts. datetime_ok (al_last_seen a)"
    and "\<forall>(i, e) \<in> set events_by_id. datetime_ok (ev_timestamp e)"
  shows "let es = build_incident_timeline alerts events_by_id
         in (\<exists>ts. map (\<lambda>x. entry_text x ''timestamp'') es = map isoformat ts \<and> sorted ts) \<and>
            mset (timeline_alert_ids es) = mset (map (\<lambda>a. uuid_str (al_id a)) alerts) \<and>
            set (timeline_event_ids es) = referred_events alerts events_by_id \<and>
            distinct (timeline_event_ids es)"
proof -
  define es where "es = timeline_entries (sort_key (\<lambda>a. (al_first_seen a, al_created_at a)) alerts) events_by_id []"
  define line where "line = build_incident_timeline alerts events_by_id"
  have line: "line = sort_key (\<lambda>entry. (entry_text entry ''timestamp'', entry_text entry ''type'')) es"
    by (simp add: line_def es_def build_incident_timeline_def)
  obtain ts where ts: "map (\<lambda>x. entry_text x ''timestamp'') es = map isoformat ts"
    "set ts \<subseteq> al_last_seen ` set alerts \<union> ev_timestamp ` snd ` set events_by_id"
    using timeline_times [of "sort_key (\<lambda>a. (al_first_seen a, al_created_at a)) alerts" events_by_id "[]"]
    unfolding es_def set_sort by blast
  have ok: "datetime_ok t" if "t \<in> set ts" for t
    using that ts(2) assms by fastforce
  have "set (map (\<lambda>x. entry_text x ''timestamp'') line) = isoformat ` set ts"
    using arg_cong [OF ts(1), of set] by (simp add: line)
  then have "\<forall>x \<in> set line. \<exists>t. t \<in> set ts \<and> entry_text x ''timestamp'' = isoformat t" by auto
  then obtain g where g: "\<forall>x \<in> set line. g x \<in> set ts \<and> entry_text x ''timestamp'' = isoformat (g x)" by metis
  have "sorted (map (\<lambda>entry. (entry_text entry ''timestamp'', entry_text entry ''type'')) line)"
    unfolding line by (rule sorted_sort_key)
  then have "sorted (map (\<lambda>x. entry_text x ''timestamp'') line)"
    unfolding sorted_map by (rule sorted_wrt_mono_rel [rotated]) (auto simp: less_eq_prod_def)
  moreover have eq: "map (\<lambda>x. entry_text x ''timestamp'') line = map isoformat (map g line)"
    using g by simp
  ultimately have "sorted (map g line)"
    using g ok by (intro sorted_texts_sorted_times) auto
  with eq have times: "\<exists>ts. map (\<lambda>x. entry_text x ''timestamp'') line = map isoformat ts \<and> sorted ts" by blast
  have am: "mset (timeline_alert_ids line) = mset (map (\<lambda>a. uuid_str (al_id a)) alerts)"
    unfolding line mset_timeline_sort es_def timeline_alerts_listed by simp
  have em: "mset (timeline_event_ids line) = mset (timeline_event_ids es)"
    unfolding line by (rule mset_timeline_sort)
  have "referred_events (sort_key (\<lambda>a. (al_first_seen a, al_created_at a)) alerts) events_by_id
      = referred_events alerts events_by_id"
    by (simp add: referred_events_def)
  then show ?thesis
    using times am timeline_events_listed [of "sort_key (\<lambda>a. (al_first_seen a, al_created_at a)) alerts" events_by_id "[]"]
      mset_eq_setD [OF em] mset_eq_imp_distinct_iff [OF em]
    unfolding Let_def line_def [symmetric] es_def [symmetric] by simp
qed

section \<open>A worked example\<close>

definition example_alert :: "uuid \<Rightarrow> string \<Rightarrow> datetime \<Rightarrow> alert" where
  "example_alert i rule t =
    \<lparr>al_id = i, al_rule_id = rule, al_event_id = i, al_title = ''t'', al_description = ''d'', al_severity = ''high'',
     al_confidence = 9 / 10, al_status = ''new'', al_source_ip = Some ''10.0.0.9'', al_username = Some ''eve'',
     al_evidence = [], al_first_seen = t, al_last_seen = t, al_created_at = t\<rparr>"

definition example_correlator :: correlator where
  "example_correlator =
    \<lparr>cs_db = empty_db\<lparr>db_alerts := [example_alert 1 ''rule_001_brute_force'' 10, example_alert 2 ''rule_005_login_after_failures'' 20]\<rparr>,
     cs_last_created_ids = [], cs_locks = []\<rparr>"

lemma example_windows: "lookback_ok (default_settings [] [] []) (example_alert 2 r 20)" "merge_window_ok (default_settings [] [] []) (example_alert 2 r 20)"
  by (simp_all add: lookback_ok_def merge_window_ok_def example_alert_def default_settings_simps seconds_def datetime_ok_def)

lemma example_correlates:
  obtains inc c' where "correlate_compromise (default_settings [] [] []) 30 7
     (example_alert 2 ''rule_005_login_after_failures'' 20) example_correlator = Inr (Some inc, c')"
proof -
  let ?a = "example_alert 2 ''rule_005_login_after_failures'' 20" and ?st = "default_settings [] [] []"
  have in_db: "?a \<in> set (db_alerts (cs_db example_correlator))"
    and dist: "distinct (map al_id (db_alerts (cs_db example_correlator)))"
    by (simp_all add: example_correlator_def example_alert_def)
  obtain r c' where eq: "correlate_compromise ?st 30 7 ?a example_correlator = Inr (r, c')"
    using correlate_compromise_total [OF in_db dist example_windows] by fastforce
  have "credential_compromise_candidates (related_with ?st ?a (cs_db example_correlator)) \<noteq> []"
    by (simp add: related_with_def related_alerts_def same_identity_def example_correlator_def example_alert_def
        credential_compromise_candidates_def allowed_rules_def default_settings_simps seconds_def)
  with eq have "r \<noteq> None"
    by (metis correlate_compromise_None)
  with eq that show ?thesis by auto
qed

theorem compromise_incident_sound_witness:
  "\<exists>inc c'. correlate_compromise (default_settings [] [] []) 30 7
     (example_alert 2 ''rule_005_login_after_failures'' 20) example_correlator = Inr (Some inc, c') \<and>
     get_incident (in_id inc) (cs_db c') = Some inc"
proof -
  obtain inc c' where eq: "correlate_compromise (default_settings [] [] []) 30 7
     (example_alert 2 ''rule_005_login_after_failures'' 20) example_correlator = Inr (Some inc, c')"
    by (rule example_correlates)
  with compromise_incident_sound [OF eq] show ?thesis
    by (auto simp: example_correlator_def Let_def)
qed

theorem compromise_correlation_total_witness:
  "\<exists>r c'. correlate_compromise (default_settings [] [] []) 30 7
     (example_alert 2 ''rule_005_login_after_failures'' 20) example_correlator = Inr (r, c') \<and>
     distinct (alert_links (cs_db c'))"
  using compromise_correlation_total [of "example_alert 2 ''rule_005_login_after_failures'' 20" example_correlator
      "default_settings [] [] []" 30 7] example_windows
  by (simp add: example_correlator_def example_alert_def alert_links_def empty_db_def) blast

theorem compromise_is_severe_witness:
  "\<exists>inc c'. correlate_compromise (default_settings [] [] []) 30 7
     (example_alert 2 ''rule_005_login_after_failures'' 20) example_correlator = Inr (Some inc, c') \<and>
     in_severity inc \<in> {''high'', ''critical''}"
proof -
  obtain inc c' where eq: "correlate_compromise (default_settings [] [] []) 30 7
     (example_alert 2 ''rule_005_login_after_failures'' 20) example_correlator = Inr (Some inc, c')"
    by (rule example_correlates)
  have "in_severity inc \<in> {''high'', ''critical''} \<and> 67 \<le> in_risk_score inc \<and> in_risk_score inc \<le> 100"
    by (rule compromise_is_severe [OF eq])
      (simp_all add: example_correlator_def example_alert_def default_settings_simps)
  with eq show ?thesis by blast
qed

theorem timeline_chronological_and_complete_witness:
  "set (timeline_event_ids (build_incident_timeline [example_alert 1 ''rule_001_brute_force'' 10]
      [(1, example_event 1 ''login_failure'' None None 5)])) = {''evt''}"
proof -
  have "datetime_ok 10" "datetime_ok 5" by (simp_all add: datetime_ok_def)
  then have "set (timeline_event_ids (build_incident_timeline [example_alert 1 ''rule_001_brute_force'' 10]
      [(1, example_event 1 ''login_failure'' None None 5)]))
    = referred_events [example_alert 1 ''rule_001_brute_force'' 10] [(1, example_event 1 ''login_failure'' None None 5)]"
    using timeline_chronological_and_complete [of "[example_alert 1 ''rule_001_brute_force'' 10]"
        "[(1, example_event 1 ''login_failure'' None None 5)]"]
    by (simp only: Let_def) (simp add: example_alert_def example_event_def)
  then show ?thesis by (simp add: example_alert_def example_event_def)
qed

end
