(* ===== verification/AuditTrail.thy ===== *)
theory AuditTrail
  imports Models
begin

text \<open>
  Audit logging and authorisation data: \<^verbatim>\<open>security/audit.py\<close>, \<^verbatim>\<open>services/audit_service.py\<close>,
  \<^verbatim>\<open>repositories/audit_repository.py\<close> and \<^verbatim>\<open>security/permissions.py\<close>. A request is the record of
  the parts of it the program reads. What a request draws from the outside (clock readings,
  UUIDs, secrets) is an environment, each drawn in the order of the code.
\<close>

section \<open>Requests and the environment\<close>

record request =
  rq_request_id :: "string option"
  rq_method :: string
  rq_path :: string
  rq_client :: "string option"
  rq_user_agent :: "string option"

record env =
  en_now :: "nat \<Rightarrow> datetime"
  en_uuid :: "nat \<Rightarrow> uuid"
  en_secret :: "nat \<Rightarrow> string"

definition user_agent_of :: "request \<Rightarrow> string option" where
  "user_agent_of r = none_if_empty (take 512 (case rq_user_agent r of None \<Rightarrow> [] | Some a \<Rightarrow> a))"

section \<open>Sanitising details\<close>

definition sensitive_keys :: "string list" where
  "sensitive_keys = [''authorization'', ''cookie'', ''password'', ''password_hash'', ''refresh_token'',
     ''access_token'', ''api_key'', ''secret'', ''raw_payload'']"

text \<open>\<^verbatim>\<open>d[k] = v\<close> and the dictionary built from pairs, where a later pair overrides.\<close>

fun dict_put :: "(string \<times> json) list \<Rightarrow> string \<Rightarrow> json \<Rightarrow> (string \<times> json) list" where
  "dict_put [] k v = [(k, v)]"
| "dict_put ((k', v') # d) k v = (if k' = k then (k, v) # d else (k', v') # dict_put d k v)"

definition dict_of :: "(string \<times> json) list \<Rightarrow> (string \<times> json) list" where
  "dict_of ps = fold (\<lambda>(k, v) d. dict_put d k v) ps []"

text \<open>The values json holds are those of the last branches, so the final \<^verbatim>\<open>str(value)\<close> is not reached.\<close>

fun sanitize_audit_details :: "nat \<Rightarrow> json \<Rightarrow> json"
  and sanitize_items :: "nat \<Rightarrow> (string \<times> json) list \<Rightarrow> (string \<times> json) list"
  and sanitize_list :: "nat \<Rightarrow> json list \<Rightarrow> json list" where
  "sanitize_audit_details depth v =
    (if 4 < depth then JStr ''[truncated]''
     else case v of
       JObj d \<Rightarrow> JObj (dict_of (map (\<lambda>(k, x). (take 128 k, x))
          (filter (\<lambda>(k, _). py_casefold k \<notin> set sensitive_keys) (take 50 (sanitize_items (Suc depth) d)))))
     | JList xs \<Rightarrow> JList (take 50 (sanitize_list (Suc depth) xs))
     | JStr s \<Rightarrow> JStr (take 512 s)
     | _ \<Rightarrow> v)"
| "sanitize_items depth [] = []"
| "sanitize_items depth ((k, x) # d) = (k, sanitize_audit_details depth x) # sanitize_items depth d"
| "sanitize_list depth [] = []"
| "sanitize_list depth (x # xs) = sanitize_audit_details depth x # sanitize_list depth xs"

declare sanitize_audit_details.simps [simp del]

section \<open>The audit trail\<close>

definition audit_record :: "request \<Rightarrow> uuid \<Rightarrow> datetime \<Rightarrow> string \<Rightarrow> string \<Rightarrow> string \<Rightarrow> uuid option \<Rightarrow>
    string option \<Rightarrow> string option \<Rightarrow> string option \<Rightarrow> (string \<times> json) list \<Rightarrow> db \<Rightarrow> db" where
  "audit_record req i now action outcome actor_type actor_id actor_label resource_type resource_id details d =
    d\<lparr>db_audit_logs := db_audit_logs d @
      [\<lparr>au_id = i, au_actor_type = actor_type, au_actor_id = actor_id, au_actor_label = actor_label,
        au_action = action, au_resource_type = resource_type, au_resource_id = resource_id,
        au_outcome = outcome, au_request_id = rq_request_id req, au_method = Some (rq_method req),
        au_path = Some (rq_path req), au_source_ip = rq_client req, au_user_agent = user_agent_of req,
        au_details = (case sanitize_audit_details 0 (JObj details) of JObj x \<Rightarrow> x | _ \<Rightarrow> []),
        au_created_at = now\<rparr>]\<rparr>"

record audit_filters =
  af_actor_type :: "string option"
  af_actor_id :: "uuid option"
  af_action :: "string option"
  af_outcome :: "string option"
  af_start_time :: "datetime option"
  af_end_time :: "datetime option"
  af_limit :: nat
  af_offset :: nat

text \<open>A text filter applies when it is truthy, so the empty text filters nothing.\<close>

definition audit_matches :: "audit_filters \<Rightarrow> audit_log \<Rightarrow> bool" where
  "audit_matches f a =
    ((truthy_str (af_actor_type f) \<longrightarrow> af_actor_type f = Some (au_actor_type a)) \<and>
     (af_actor_id f \<noteq> None \<longrightarrow> au_actor_id a = af_actor_id f) \<and>
     (truthy_str (af_action f) \<longrightarrow> af_action f = Some (au_action a)) \<and>
     (truthy_str (af_outcome f) \<longrightarrow> af_outcome f = Some (au_outcome a)) \<and>
     (case af_start_time f of None \<Rightarrow> True | Some t \<Rightarrow> t \<le> au_created_at a) \<and>
     (case af_end_time f of None \<Rightarrow> True | Some t \<Rightarrow> au_created_at a \<le> t))"

definition audit_list :: "audit_filters \<Rightarrow> db \<Rightarrow> audit_log list \<times> nat" where
  "audit_list f d =
    (let rows = filter (audit_matches f) (db_audit_logs d)
     in (take (af_limit f) (drop (af_offset f) (sort_key (\<lambda>a. - au_created_at a) rows)), length rows))"

lemma audit_record_simps [simp]:
  "db_users (audit_record req i now ac oc aty ai al rt ri det d) = db_users d"
  "db_roles (audit_record req i now ac oc aty ai al rt ri det d) = db_roles d"
  "db_auth_sessions (audit_record req i now ac oc aty ai al rt ri det d) = db_auth_sessions d"
  "db_api_keys (audit_record req i now ac oc aty ai al rt ri det d) = db_api_keys d"
  "db_response_actions (audit_record req i now ac oc aty ai al rt ri det d) = db_response_actions d"
  "db_incidents (audit_record req i now ac oc aty ai al rt ri det d) = db_incidents d"
  "db_investigations (audit_record req i now ac oc aty ai al rt ri det d) = db_investigations d"
  "db_notes (audit_record req i now ac oc aty ai al rt ri det d) = db_notes d"
  "db_incident_evidence (audit_record req i now ac oc aty ai al rt ri det d) = db_incident_evidence d"
  "db_events (audit_record req i now ac oc aty ai al rt ri det d) = db_events d"
  by (simp_all add: audit_record_def)

section \<open>Permissions\<close>

datatype permission =
    SOC_READ | INCIDENTS_WRITE | INVESTIGATIONS_CREATE | RESPONSES_PROPOSE | RESPONSES_APPROVE
  | RESPONSES_APPROVE_TIER2 | RESPONSES_EXECUTE | USERS_MANAGE | API_KEYS_MANAGE | AUDIT_READ | AUDIT_VERIFY

definition all_permissions :: "permission list" where
  "all_permissions = [SOC_READ, INCIDENTS_WRITE, INVESTIGATIONS_CREATE, RESPONSES_PROPOSE, RESPONSES_APPROVE,
     RESPONSES_APPROVE_TIER2, RESPONSES_EXECUTE, USERS_MANAGE, API_KEYS_MANAGE, AUDIT_READ, AUDIT_VERIFY]"

definition permission_value :: "permission \<Rightarrow> string" where
  "permission_value p = (case p of
      SOC_READ \<Rightarrow> ''soc:read'' | INCIDENTS_WRITE \<Rightarrow> ''incidents:write''
    | INVESTIGATIONS_CREATE \<Rightarrow> ''investigations:create'' | RESPONSES_PROPOSE \<Rightarrow> ''responses:propose''
    | RESPONSES_APPROVE \<Rightarrow> ''responses:approve'' | RESPONSES_APPROVE_TIER2 \<Rightarrow> ''responses:approve:tier2''
    | RESPONSES_EXECUTE \<Rightarrow> ''responses:execute'' | USERS_MANAGE \<Rightarrow> ''users:manage''
    | API_KEYS_MANAGE \<Rightarrow> ''api_keys:manage'' | AUDIT_READ \<Rightarrow> ''audit:read'' | AUDIT_VERIFY \<Rightarrow> ''audit:verify'')"

definition role_permissions :: "string \<Rightarrow> permission list option" where
  "role_permissions role =
    (if role = ''viewer'' then Some [SOC_READ]
     else if role = ''analyst'' then Some [SOC_READ, INCIDENTS_WRITE, INVESTIGATIONS_CREATE, RESPONSES_PROPOSE,
       RESPONSES_APPROVE, AUDIT_READ]
     else if role = ''admin'' then Some all_permissions
     else None)"

definition permissions_for_role :: "string \<Rightarrow> permission list" where
  "permissions_for_role role = (case role_permissions role of None \<Rightarrow> [] | Some ps \<Rightarrow> ps)"

lemma permission_value_inj: "permission_value p = permission_value q \<longleftrightarrow> p = q"
  by (cases p; cases q) (simp_all add: permission_value_def)

lemma set_all_permissions: "set all_permissions = UNIV"
proof -
  have "p \<in> set all_permissions" for p by (cases p) (simp_all add: all_permissions_def)
  then show ?thesis by blast
qed

text \<open>
  the roles form a chain (a viewer's permissions are an analyst's, an analyst's are an
  admin's), an unknown role has none, and only an admin may manage users or API keys, execute
  a response or approve at tier 2.
\<close>

theorem roles_are_ordered:
  "set (permissions_for_role ''viewer'') \<subseteq> set (permissions_for_role ''analyst'') \<and>
   set (permissions_for_role ''analyst'') \<subseteq> set (permissions_for_role ''admin'') \<and>
   set (permissions_for_role ''admin'') = UNIV \<and>
   {role. permissions_for_role role \<noteq> []} = {''viewer'', ''analyst'', ''admin''} \<and>
   {role. \<exists>p \<in> {USERS_MANAGE, API_KEYS_MANAGE, RESPONSES_EXECUTE, RESPONSES_APPROVE_TIER2, AUDIT_VERIFY}.
      p \<in> set (permissions_for_role role)} = {''admin''}"
proof -
  have "set (permissions_for_role ''admin'') = UNIV"
    by (simp add: permissions_for_role_def role_permissions_def set_all_permissions)
  moreover have "{role. permissions_for_role role \<noteq> []} = {''viewer'', ''analyst'', ''admin''}"
    by (auto simp: permissions_for_role_def role_permissions_def all_permissions_def split: if_splits)
  moreover have "{role. \<exists>p \<in> {USERS_MANAGE, API_KEYS_MANAGE, RESPONSES_EXECUTE, RESPONSES_APPROVE_TIER2, AUDIT_VERIFY}.
      p \<in> set (permissions_for_role role)} = {''admin''}"
    by (auto simp: permissions_for_role_def role_permissions_def all_permissions_def split: if_splits)
  ultimately show ?thesis
    by (simp add: permissions_for_role_def role_permissions_def)
qed

section \<open>Sanitised details are bounded and free of secrets\<close>

text \<open>
  At most \<open>n\<close> levels of containers, at most 50 entries each, texts of at most 512 and keys of
  at most 128 characters, and no sensitive key at any level.
\<close>

fun audit_safe :: "nat \<Rightarrow> json \<Rightarrow> bool" where
  "audit_safe n (JStr s) = (length s \<le> 512)"
| "audit_safe 0 (JList xs) = False"
| "audit_safe 0 (JObj d) = False"
| "audit_safe (Suc n) (JList xs) = (length xs \<le> 50 \<and> (\<forall>x \<in> set xs. audit_safe n x))"
| "audit_safe (Suc n) (JObj d) = (length d \<le> 50 \<and> distinct (map fst d) \<and>
     (\<forall>(k, x) \<in> set d. length k \<le> 128 \<and> py_casefold k \<notin> set sensitive_keys \<and> audit_safe n x))"
| "audit_safe n v = True"

lemma set_dict_put: "set (dict_put d k v) \<subseteq> insert (k, v) (set d)"
  by (induction d k v rule: dict_put.induct) auto

lemma length_dict_put: "length (dict_put d k v) \<le> Suc (length d)"
  by (induction d k v rule: dict_put.induct) auto

lemma keys_dict_put: "fst ` set (dict_put d k v) = insert k (fst ` set d)"
  by (induction d k v rule: dict_put.induct) auto

lemma distinct_dict_put: "distinct (map fst d) \<Longrightarrow> distinct (map fst (dict_put d k v))"
  by (induction d k v rule: dict_put.induct) (auto simp: keys_dict_put)

lemma dict_fold:
  "distinct (map fst d) \<Longrightarrow>
     set (fold (\<lambda>(k, v) d. dict_put d k v) ps d) \<subseteq> set ps \<union> set d \<and>
     length (fold (\<lambda>(k, v) d. dict_put d k v) ps d) \<le> length ps + length d \<and>
     distinct (map fst (fold (\<lambda>(k, v) d. dict_put d k v) ps d))"
proof (induction ps arbitrary: d)
  case (Cons p ps)
  obtain k v where p: "p = (k, v)" by (cases p)
  show ?case
    using Cons.IH [OF distinct_dict_put [OF Cons.prems], of k v] set_dict_put [of d k v] length_dict_put [of d k v]
    by (auto simp: p)
qed simp

lemma dict_of_facts:
  "set (dict_of ps) \<subseteq> set ps" "length (dict_of ps) \<le> length ps" "distinct (map fst (dict_of ps))"
  using dict_fold [of "[]" ps] by (simp_all add: dict_of_def)

lemma length_py_casefold: "length s \<le> length (py_casefold s)"
  by (induction s) (auto simp: py_casefold_def)

lemma long_key_not_sensitive: "128 \<le> length k \<Longrightarrow> py_casefold k \<notin> set sensitive_keys"
proof
  assume "128 \<le> length k" "py_casefold k \<in> set sensitive_keys"
  then have "128 \<le> length (py_casefold k)" using length_py_casefold le_trans by blast
  with \<open>py_casefold k \<in> set sensitive_keys\<close> show False by (auto simp: sensitive_keys_def)
qed

lemma truncated_key: "py_casefold k \<notin> set sensitive_keys \<Longrightarrow> py_casefold (take 128 k) \<notin> set sensitive_keys"
  by (cases "length k < 128") (auto intro!: long_key_not_sensitive)

lemma sanitize_safe:
  "depth \<le> 5 \<Longrightarrow> audit_safe (5 - depth) (sanitize_audit_details depth v)"
  "depth \<le> 5 \<Longrightarrow> \<forall>(k, x) \<in> set (sanitize_items depth d). audit_safe (5 - depth) x"
  "depth \<le> 5 \<Longrightarrow> \<forall>x \<in> set (sanitize_list depth xs). audit_safe (5 - depth) x"
proof (induction depth v and depth d and depth xs rule: sanitize_audit_details_sanitize_items_sanitize_list.induct)
  case (1 depth v)
  show ?case
  proof (cases "4 < depth")
    case True
    then show ?thesis by (simp add: sanitize_audit_details.simps)
  next
    case False
    then have n: "5 - depth = Suc (4 - depth)" "5 - Suc depth = 4 - depth" "Suc depth \<le> 5" by simp_all
    show ?thesis
    proof (cases v)
      case (JObj d)
      let ?ps = "map (\<lambda>(k, x). (take 128 k, x))
          (filter (\<lambda>(k, _). py_casefold k \<notin> set sensitive_keys) (take 50 (sanitize_items (Suc depth) d)))"
      have "\<forall>(k, x) \<in> set (sanitize_items (Suc depth) d). audit_safe (4 - depth) x"
        using 1(2) [OF False JObj] n by simp
      then have "\<forall>(k, x) \<in> set ?ps. length k \<le> 128 \<and> py_casefold k \<notin> set sensitive_keys \<and> audit_safe (4 - depth) x"
        using truncated_key by (fastforce dest: in_set_takeD)
      moreover have "length ?ps \<le> 50"
        using length_filter_le [of "\<lambda>(k, _). py_casefold k \<notin> set sensitive_keys" "take 50 (sanitize_items (Suc depth) d)"]
        by simp
      ultimately show ?thesis
        using dict_of_facts [of ?ps] False n(1) by (auto simp: JObj sanitize_audit_details.simps)
    next
      case (JList xs)
      have "\<forall>x \<in> set (sanitize_list (Suc depth) xs). audit_safe (4 - depth) x"
        using 1(1) [OF False JList] n by simp
      then show ?thesis using False n(1) by (auto simp: JList sanitize_audit_details.simps dest: in_set_takeD)
    qed (use False in \<open>simp_all add: sanitize_audit_details.simps\<close>)
  qed
qed auto

text \<open>
  whatever details a caller passes, the audit row written has details without a sensitive key
  (compared case-insensitively) at any level, at most five levels deep, with at most 50
  entries per container, keys of at most 128 and texts of at most 512 characters; the other
  rows of the trail are untouched.
\<close>

theorem audit_details_safe:
  "\<exists>row. db_audit_logs (audit_record req i now action outcome actor_type actor_id label rt ri details d)
       = db_audit_logs d @ [row] \<and>
     au_action row = action \<and> au_outcome row = outcome \<and> au_actor_id row = actor_id \<and>
     audit_safe 5 (JObj (au_details row))"
proof -
  obtain x where x: "sanitize_audit_details 0 (JObj details) = JObj x"
    by (simp add: sanitize_audit_details.simps)
  with sanitize_safe(1) [of 0 "JObj details"] show ?thesis
    by (auto simp: audit_record_def)
qed

end
