(* ===== verification/AuditChain.thy ===== *)
theory AuditChain
  imports PyFormat
begin

text \<open>
  The hash chain of audit records (\<^verbatim>\<open>response/audit_chain.py\<close>): canonical JSON, the hash of an entry and
  the verification of a chain. SHA-256 and the printing of floats are parameters. The model of
  \<^verbatim>\<open>json.dumps\<close> has sorted keys, no spaces and ASCII escapes; \<^verbatim>\<open>verify_chain\<close> gets \<open>show\<close> for the
  \<^verbatim>\<open>str\<close> of a record id in its messages.
\<close>

section \<open>Canonical JSON\<close>

definition json_escape :: "char \<Rightarrow> string" where
  "json_escape c = (let n = (of_char c :: nat); bs = CHR 0x5C
     in if c = bs \<or> c = CHR 0x22 then [bs, c]
        else if n = 8 then [bs, CHR ''b''] else if n = 9 then [bs, CHR ''t''] else if n = 10 then [bs, CHR ''n'']
        else if n = 12 then [bs, CHR ''f''] else if n = 13 then [bs, CHR ''r'']
        else if n < 32 \<or> 126 < n then [bs, CHR ''u''] @ hex_digits 4 n
        else [c])"

definition json_string :: "string \<Rightarrow> string" where
  "json_string s = [CHR 0x22] @ concat (map json_escape s) @ [CHR 0x22]"

fun canonical_json :: "(rat \<Rightarrow> string) \<Rightarrow> json \<Rightarrow> string" where
  "canonical_json ff JNull = ''null''"
| "canonical_json ff (JBool b) = (if b then ''true'' else ''false'')"
| "canonical_json ff (JInt i) = str_of_int i"
| "canonical_json ff (JFloat r) = ff r"
| "canonical_json ff (JStr s) = json_string s"
| "canonical_json ff (JList xs) = ''['' @ join '','' (map (canonical_json ff) xs) @ '']''"
| "canonical_json ff (JObj d) = ''{'' @ join '',''
     (map (\<lambda>(k, t). json_string k @ '':'' @ t) (sort_key fst (map (\<lambda>(k, v). (k, canonical_json ff v)) d))) @ ''}''"

definition compute_entry_hash :: "(string \<Rightarrow> string) \<Rightarrow> (rat \<Rightarrow> string) \<Rightarrow> string \<Rightarrow> (string \<times> json) list \<Rightarrow> string" where
  "compute_entry_hash sha ff prev_hash payload = sha (prev_hash @ canonical_json ff (JObj payload))"

section \<open>Verification\<close>

definition chain_payload :: "(string \<times> json) list \<Rightarrow> (string \<times> json) list" where
  "chain_payload record = filter (\<lambda>(k, _). k \<notin> {''record_hash'', ''id''}) record"

definition record_id :: "(json \<Rightarrow> string) \<Rightarrow> nat \<Rightarrow> (string \<times> json) list \<Rightarrow> string" where
  "record_id show index record = (case map_of record ''id'' of None \<Rightarrow> ''index_'' @ str_of_nat index | Some v \<Rightarrow> show v)"

fun verify_from :: "(string \<Rightarrow> string) \<Rightarrow> (rat \<Rightarrow> string) \<Rightarrow> (json \<Rightarrow> string) \<Rightarrow> nat \<Rightarrow> string \<Rightarrow>
    (string \<times> json) list list \<Rightarrow> bool \<times> string option" where
  "verify_from sha ff show index prev [] = (True, None)"
| "verify_from sha ff show index prev (r # rs) =
    (let record_prev_hash = dict_get r ''prev_hash''; record_hash = dict_get r ''record_hash'';
         i = record_id show index r
     in if \<not> truthy record_prev_hash \<or> \<not> truthy record_hash
        then (False, Some (''Missing hash pointers at record '' @ i))
        else if record_prev_hash \<noteq> JStr prev
        then (False, Some (''Broken chain linkage at record '' @ i @ '': expected prev_hash '' @ prev @ '', found '' @ show record_prev_hash))
        else (let expected_hash = compute_entry_hash sha ff prev (chain_payload r)
              in if record_hash \<noteq> JStr expected_hash
                 then (False, Some (''Hash mismatch at record '' @ i @ '': record payload was tampered with or recalculated incorrectly''))
                 else verify_from sha ff show (Suc index) expected_hash rs))"

definition verify_chain :: "(string \<Rightarrow> string) \<Rightarrow> (rat \<Rightarrow> string) \<Rightarrow> (json \<Rightarrow> string) \<Rightarrow> (string \<times> json) list list \<Rightarrow> string \<Rightarrow>
    bool \<times> string option" where
  "verify_chain sha ff show records initial_prev_hash = verify_from sha ff show 0 initial_prev_hash records"

definition genesis :: string where
  "genesis = replicate 64 CHR ''0''"

section \<open>A chain that is built verifies\<close>

text \<open>Appending entries as callers of \<^verbatim>\<open>compute_entry_hash\<close> do: each links to the hash before it.\<close>

definition link_entry :: "(string \<Rightarrow> string) \<Rightarrow> (rat \<Rightarrow> string) \<Rightarrow> string \<Rightarrow> (string \<times> json) list \<Rightarrow> (string \<times> json) list" where
  "link_entry sha ff prev entry = (let payload = entry @ [(''prev_hash'', JStr prev)]
     in payload @ [(''record_hash'', JStr (compute_entry_hash sha ff prev payload))])"

fun link_all :: "(string \<Rightarrow> string) \<Rightarrow> (rat \<Rightarrow> string) \<Rightarrow> string \<Rightarrow> (string \<times> json) list list \<Rightarrow> (string \<times> json) list list" where
  "link_all sha ff prev [] = []"
| "link_all sha ff prev (e # es) = link_entry sha ff prev e #
     link_all sha ff (compute_entry_hash sha ff prev (e @ [(''prev_hash'', JStr prev)])) es"

definition plain_entry :: "(string \<times> json) list \<Rightarrow> bool" where
  "plain_entry e = (fst ` set e \<inter> {''prev_hash'', ''record_hash'', ''id''} = {})"

lemma plain_entry_lookup:
  assumes "plain_entry e"
  shows "dict_get (link_entry sha ff prev e) ''prev_hash'' = JStr prev"
    and "dict_get (link_entry sha ff prev e) ''record_hash'' =
      JStr (compute_entry_hash sha ff prev (e @ [(''prev_hash'', JStr prev)]))"
    and "chain_payload (link_entry sha ff prev e) = e @ [(''prev_hash'', JStr prev)]"
proof -
  have "map_of e ''prev_hash'' = None" "map_of e ''record_hash'' = None"
    using assms by (auto simp: plain_entry_def map_of_eq_None_iff)
  then show "dict_get (link_entry sha ff prev e) ''prev_hash'' = JStr prev"
    "dict_get (link_entry sha ff prev e) ''record_hash'' =
      JStr (compute_entry_hash sha ff prev (e @ [(''prev_hash'', JStr prev)]))"
    by (simp_all add: dict_get_def link_entry_def Let_def map_add_def)
  have "\<forall>(k, v) \<in> set e. k \<notin> {''record_hash'', ''id''}"
    using assms by (force simp: plain_entry_def)
  then have "filter (\<lambda>(k, _). k \<notin> {''record_hash'', ''id''}) e = e"
    by (auto simp: filter_id_conv)
  then show "chain_payload (link_entry sha ff prev e) = e @ [(''prev_hash'', JStr prev)]"
    by (simp add: chain_payload_def link_entry_def Let_def)
qed

text \<open>
  a chain built by linking entries to the hash of their predecessor, from the zero hash on, verifies
  (hashes and the starting hash being non-empty).
\<close>

theorem linked_chain_verifies:
  assumes "\<forall>e \<in> set es. plain_entry e" and "\<forall>x. sha x \<noteq> []" and "prev \<noteq> []"
  shows "verify_chain sha ff show (link_all sha ff prev es) prev = (True, None)"
proof -
  have "verify_from sha ff show n prev (link_all sha ff prev es) = (True, None)" for n
    using assms
  proof (induction es arbitrary: n prev)
    case (Cons e es)
    have "compute_entry_hash sha ff prev (e @ [(''prev_hash'', JStr prev)]) \<noteq> []"
      using Cons.prems(2) by (simp add: compute_entry_hash_def)
    then show ?case
      using Cons by (simp add: plain_entry_lookup)
  qed simp
  then show ?thesis by (simp add: verify_chain_def)
qed

theorem linked_chain_verifies_witness:
  "verify_chain (\<lambda>s. ''h'' @ s) (\<lambda>_. []) (\<lambda>_. []) (link_all (\<lambda>s. ''h'' @ s) (\<lambda>_. []) genesis
     [[(''action'', JStr ''block_ip'')], [(''action'', JStr ''notify'')]]) genesis = (True, None)"
  by (rule linked_chain_verifies) (simp_all add: plain_entry_def genesis_def)

section \<open>Tampering is found, unless SHA-256 collides\<close>

definition chain_hash :: "(string \<times> json) list \<Rightarrow> json" where
  "chain_hash r = dict_get r ''record_hash''"

lemma verify_from_Cons:
  assumes "fst (verify_from sha ff show n prev (r # rs))"
  shows "dict_get r ''prev_hash'' = JStr prev"
    and "chain_hash r = JStr (compute_entry_hash sha ff prev (chain_payload r))"
    and "fst (verify_from sha ff show (Suc n) (compute_entry_hash sha ff prev (chain_payload r)) rs)"
  using assms by (auto simp: Let_def chain_hash_def split: if_splits)

text \<open>The text that is hashed for a record of a chain, as the record itself gives it.\<close>

definition hashed_text :: "(rat \<Rightarrow> string) \<Rightarrow> (string \<times> json) list \<Rightarrow> string" where
  "hashed_text ff r = (case dict_get r ''prev_hash'' of JStr p \<Rightarrow> p | _ \<Rightarrow> []) @ canonical_json ff (JObj (chain_payload r))"

definition collision_at :: "(string \<Rightarrow> string) \<Rightarrow> (rat \<Rightarrow> string) \<Rightarrow> (string \<times> json) list \<times> (string \<times> json) list \<Rightarrow> bool" where
  "collision_at sha ff rr = (hashed_text ff (fst rr) \<noteq> hashed_text ff (snd rr) \<and>
     sha (hashed_text ff (fst rr)) = sha (hashed_text ff (snd rr)))"

definition same_record :: "(rat \<Rightarrow> string) \<Rightarrow> (string \<times> json) list \<Rightarrow> (string \<times> json) list \<Rightarrow> bool" where
  "same_record ff r r' = (canonical_json ff (JObj (chain_payload r)) = canonical_json ff (JObj (chain_payload r')) \<and>
     chain_hash r = chain_hash r')"

lemma verify_from_hash_agree:
  assumes "fst (verify_from sha ff show n prev rs)" and "fst (verify_from sha ff show' n' prev' rs')"
    and "length rs = length rs'" and "rs \<noteq> []" and "chain_hash (last rs) = chain_hash (last rs')"
    and "length prev = 64" "length prev' = 64" and "\<forall>x. length (sha x) = 64"
  shows "(\<exists>rr \<in> set (zip rs rs'). collision_at sha ff rr) \<or> (prev = prev' \<and> list_all2 (same_record ff) rs rs')"
  using assms
proof (induction rs arbitrary: rs' prev prev' n n')
  case (Cons r rs)
  obtain r' rs1 where rs': "rs' = r' # rs1" using Cons.prems(3) by (cases rs') auto
  let ?h = "compute_entry_hash sha ff prev (chain_payload r)"
  let ?h' = "compute_entry_hash sha ff prev' (chain_payload r')"
  note v = verify_from_Cons [OF Cons.prems(1)] and v' = verify_from_Cons [OF Cons.prems(2) [unfolded rs']]
  have lens: "length ?h = 64" "length ?h' = 64" using Cons.prems(8) by (simp_all add: compute_entry_hash_def)
  have here: "collision_at sha ff (r, r') \<or> (prev = prev' \<and> same_record ff r r')" if "?h = ?h'"
  proof (cases "collision_at sha ff (r, r')")
    case False
    then have "prev @ canonical_json ff (JObj (chain_payload r)) = prev' @ canonical_json ff (JObj (chain_payload r'))"
      using that v(1) v'(1) by (simp add: compute_entry_hash_def collision_at_def hashed_text_def)
    then show ?thesis
      using Cons.prems(6,7) v(2) v'(2) that by (simp add: append_eq_append_conv same_record_def)
  qed simp
  show ?case
  proof (cases rs)
    case Nil
    then have "rs1 = []" using Cons.prems(3) rs' by simp
    then have "?h = ?h'" using Cons.prems(5) v(2) v'(2) Nil rs' by simp
    then show ?thesis using here Nil rs' \<open>rs1 = []\<close> by auto
  next
    case (Cons a list)
    then have ne: "rs \<noteq> []" "rs1 \<noteq> []" using Cons.prems(3) rs' by auto
    have "(\<exists>rr \<in> set (zip rs rs1). collision_at sha ff rr) \<or> (?h = ?h' \<and> list_all2 (same_record ff) rs rs1)"
      by (rule Cons.IH [OF v(3) v'(3)]) (use Cons.prems ne rs' lens in \<open>simp_all\<close>)
    then show ?thesis using here rs' by auto
  qed
qed simp

text \<open>
  the chain is tamper evident: if two logs of the same length both verify and end in the same record hash,
  then they agree in every record (in the canonical JSON of its payload and in its hash), or at some position
  the two logs exhibit a collision, two different hashed texts with the same SHA-256. So a change of any
  entry, if it passes verification, shows in the last hash.
\<close>

theorem chain_tamper_evident:
  assumes "fst (verify_chain sha ff show rs genesis)" and "fst (verify_chain sha ff show rs' genesis)"
    and "length rs = length rs'" and "rs \<noteq> []" and "chain_hash (last rs) = chain_hash (last rs')"
    and "\<forall>x. length (sha x) = 64"
  shows "(\<exists>rr \<in> set (zip rs rs'). collision_at sha ff rr) \<or> list_all2 (same_record ff) rs rs'"
  using verify_from_hash_agree [OF assms(1,2) [unfolded verify_chain_def] assms(3-5) _ _ assms(6)]
  by (simp add: genesis_def)

definition example_chain :: "(string \<times> json) list list" where
  "example_chain = link_all (\<lambda>_. genesis) (\<lambda>_. []) genesis [[(''action'', JStr ''block_ip'')]]"

theorem chain_tamper_evident_witness:
  "list_all2 (same_record (\<lambda>_. [])) example_chain example_chain"
proof -
  have ok: "fst (verify_chain (\<lambda>_. genesis) (\<lambda>_. []) (\<lambda>_. []) example_chain genesis)"
    by (simp add: example_chain_def verify_chain_def link_entry_def dict_get_def compute_entry_hash_def chain_payload_def
        genesis_def Let_def)
  have ne: "example_chain \<noteq> []" by (simp add: example_chain_def)
  have len: "\<forall>x :: string. length genesis = 64" by (simp add: genesis_def)
  have "\<not> collision_at (\<lambda>_. genesis) (\<lambda>_. []) rr" if "rr \<in> set (zip example_chain example_chain)" for rr
    using that by (auto simp: collision_at_def set_zip)
  then show ?thesis using chain_tamper_evident [OF ok ok refl ne refl len] by blast
qed

end
