(* ===== verification/InvContext.thy ===== *)
theory InvContext
  imports Mitre Correlation AuditTrail AuditChain
begin

text \<open>
  The context an investigation is given (\<^verbatim>\<open>investigation/context.py\<close>): collecting and cleaning the
  incident's alerts, events, techniques and evidence, and cutting the result down to the
  configured size. The incident classifier is a parameter (its model file is not part of the
  repository); \<open>ff\<close> prints floats and \<open>show\<close> is \<^verbatim>\<open>str\<close> of values that are not texts.
\<close>

type_synonym dict = "(string \<times> json) list"

section \<open>Cleaning\<close>

definition is_control :: "char \<Rightarrow> bool" where
  "is_control c = (let n = (of_char c :: nat) in n \<le> 8 \<or> n = 11 \<or> n = 12 \<or> (14 \<le> n \<and> n \<le> 31) \<or> n = 127)"

definition clean_string :: "string \<Rightarrow> nat \<Rightarrow> string" where
  "clean_string s limit = take limit (py_strip (filter (\<lambda>c. \<not> is_control c) s))"

definition clean_optional :: "string option \<Rightarrow> json" where
  "clean_optional v = (case v of None \<Rightarrow> JNull | Some s \<Rightarrow> JStr (clean_string s 500))"

definition opt_str :: "string option \<Rightarrow> json" where
  "opt_str v = (case v of None \<Rightarrow> JNull | Some s \<Rightarrow> JStr s)"

definition opt_int :: "int option \<Rightarrow> json" where
  "opt_int v = (case v of None \<Rightarrow> JNull | Some i \<Rightarrow> JInt i)"

fun sanitize :: "nat \<Rightarrow> json \<Rightarrow> json"
  and sanitize_pairs :: "nat \<Rightarrow> dict \<Rightarrow> dict"
  and sanitize_values :: "nat \<Rightarrow> json list \<Rightarrow> json list" where
  "sanitize depth v =
    (if 4 \<le> depth then JStr ''[truncated]''
     else case v of
       JObj d \<Rightarrow> JObj (dict_of (take 50 (sanitize_pairs (Suc depth) d)))
     | JList xs \<Rightarrow> JList (take 50 (sanitize_values (Suc depth) xs))
     | JStr s \<Rightarrow> JStr (clean_string s 1000)
     | _ \<Rightarrow> v)"
| "sanitize_pairs depth [] = []"
| "sanitize_pairs depth ((k, x) # d) = (clean_string k 100, sanitize depth x) # sanitize_pairs depth d"
| "sanitize_values depth [] = []"
| "sanitize_values depth (x # xs) = sanitize depth x # sanitize_values depth xs"

declare sanitize.simps [simp del]

section \<open>The context\<close>

record investigation_context =
  ic_incident :: dict
  ic_alerts :: "dict list"
  ic_events :: "dict list"
  ic_incident_evidence :: "dict list"
  ic_timeline :: "dict list"
  ic_techniques :: "dict list"
  ic_valid_evidence_refs :: "string list"

definition alert_context :: "alert \<Rightarrow> dict" where
  "alert_context a =
    [(''ref'', JStr (''alert:'' @ uuid_str (al_id a))), (''id'', JStr (uuid_str (al_id a))), (''rule_id'', JStr (al_rule_id a)),
     (''title'', JStr (clean_string (al_title a) 255)), (''description'', JStr (clean_string (al_description a) 1500)),
     (''severity'', JStr (al_severity a)), (''confidence'', JFloat (al_confidence a)),
     (''source_ip'', clean_optional (al_source_ip a)), (''username'', clean_optional (al_username a)),
     (''first_seen'', JStr (isoformat (al_first_seen a))), (''last_seen'', JStr (isoformat (al_last_seen a))),
     (''evidence'', sanitize 0 (JObj (al_evidence a)))]"

definition event_context :: "event \<Rightarrow> dict" where
  "event_context e =
    [(''ref'', JStr (''event:'' @ ev_event_id e)), (''event_id'', JStr (ev_event_id e)),
     (''timestamp'', JStr (isoformat (ev_timestamp e))), (''source'', JStr (clean_string (ev_source e) 255)),
     (''source_type'', JStr (ev_source_type e)), (''event_type'', JStr (ev_event_type e)), (''category'', JStr (ev_category e)),
     (''severity'', opt_str (ev_severity e)), (''username'', clean_optional (ev_username e)),
     (''source_ip'', clean_optional (ev_source_ip e)), (''destination_ip'', clean_optional (ev_destination_ip e)),
     (''hostname'', clean_optional (ev_hostname e)), (''action'', clean_optional (ev_action e)),
     (''status'', clean_optional (ev_status e)), (''resource'', clean_optional (ev_resource e)),
     (''bytes_sent'', opt_int (ev_bytes_sent e)), (''bytes_received'', opt_int (ev_bytes_received e))]"

definition technique_context :: "mitre_technique \<Rightarrow> dict" where
  "technique_context t =
    [(''technique_id'', JStr (mt_external_id t)), (''name'', JStr (mt_name t)), (''tactics'', JList (map JStr (mt_tactics t))),
     (''description'', JStr (clean_string (mt_description t) 1000))]"

definition evidence_context :: "incident_evidence \<Rightarrow> dict" where
  "evidence_context x =
    [(''ref'', JStr (''evidence:'' @ uuid_str (ie_id x))), (''kind'', JStr (ie_kind x)),
     (''source'', JStr (clean_string (ie_source x) 160)), (''summary'', JStr (clean_string (ie_summary x) 2000)),
     (''network'', case ie_network x of None \<Rightarrow> JNull | Some n \<Rightarrow> JObj n),
     (''observed_at'', case ie_observed_at x of None \<Rightarrow> JNull | Some t \<Rightarrow> JStr (isoformat t)),
     (''provenance'', JStr ''analyst_supplied_unverified'')]"

definition incident_context :: "incident \<Rightarrow> bool \<Rightarrow> bool \<Rightarrow> dict" where
  "incident_context i has_alerts has_evidence =
    [(''id'', JStr (uuid_str (in_id i))), (''title'', JStr (clean_string (in_title i) 255)),
     (''description'', JStr (clean_string (in_description i) 2000)), (''status'', JStr (in_status i)),
     (''severity'', JStr (in_severity i)), (''risk_score'', JInt (in_risk_score i)),
     (''primary_username'', clean_optional (in_primary_username i)), (''primary_source_ip'', clean_optional (in_primary_source_ip i)),
     (''first_seen'', JStr (isoformat (in_first_seen i))), (''last_seen'', JStr (isoformat (in_last_seen i))),
     (''evidence_quality'', JStr (if has_alerts then ''corroborated_telemetry''
        else if has_evidence then ''analyst_supplied'' else ''report_only''))]"

text \<open>The text under a key, where the code indexes a dictionary it built itself.\<close>

definition text_at :: "string \<Rightarrow> dict \<Rightarrow> string" where
  "text_at k d = (case dict_get d k of JStr s \<Rightarrow> s | _ \<Rightarrow> [])"

definition sorted_set :: "string list \<Rightarrow> string list" where
  "sorted_set xs = sort (remdups xs)"

section \<open>The size of a context\<close>

text \<open>\<^verbatim>\<open>json.dumps(value, separators=(",", ":"))\<close>, keys in order.\<close>

fun json_dumps :: "(rat \<Rightarrow> string) \<Rightarrow> json \<Rightarrow> string" where
  "json_dumps ff JNull = ''null''"
| "json_dumps ff (JBool b) = (if b then ''true'' else ''false'')"
| "json_dumps ff (JInt i) = str_of_int i"
| "json_dumps ff (JFloat r) = ff r"
| "json_dumps ff (JStr s) = json_string s"
| "json_dumps ff (JList xs) = ''['' @ join '','' (map (json_dumps ff) xs) @ '']''"
| "json_dumps ff (JObj d) = ''{'' @ join '','' (map (\<lambda>(k, v). json_string k @ '':'' @ json_dumps ff v) d) @ ''}''"

definition context_json :: "investigation_context \<Rightarrow> json" where
  "context_json c = JObj
    [(''incident'', JObj (ic_incident c)), (''alerts'', JList (map JObj (ic_alerts c))),
     (''events'', JList (map JObj (ic_events c))), (''incident_evidence'', JList (map JObj (ic_incident_evidence c))),
     (''timeline'', JList (map JObj (ic_timeline c))), (''techniques'', JList (map JObj (ic_techniques c))),
     (''valid_evidence_refs'', JList (map JStr (ic_valid_evidence_refs c)))]"

definition serialized_size :: "(rat \<Rightarrow> string) \<Rightarrow> investigation_context \<Rightarrow> int" where
  "serialized_size ff c = int (length (json_dumps ff (context_json c)))"

section \<open>Cutting a context down\<close>

definition py_str :: "(json \<Rightarrow> string) \<Rightarrow> json \<Rightarrow> string" where
  "py_str show v = (case v of JStr s \<Rightarrow> s | _ \<Rightarrow> show v)"

definition truncate_alert :: "dict \<Rightarrow> dict" where
  "truncate_alert a = dict_put (dict_put a ''description'' (JStr (take 500 (text_at ''description'' a))))
     ''evidence'' (sanitize 2 (dict_get a ''evidence''))"

definition truncate_entry :: "(json \<Rightarrow> string) \<Rightarrow> dict \<Rightarrow> dict" where
  "truncate_entry show e = dict_put (dict_put e ''description''
     (JStr (take 500 (case map_of e ''description'' of None \<Rightarrow> [] | Some v \<Rightarrow> py_str show v)))) ''metadata'' (JObj [])"

definition truncate_context :: "(json \<Rightarrow> string) \<Rightarrow> investigation_context \<Rightarrow> investigation_context" where
  "truncate_context show c = c\<lparr>
     ic_timeline := map (truncate_entry show) (last_n 50 (ic_timeline c)),
     ic_alerts := map truncate_alert (last_n 50 (ic_alerts c)),
     ic_events := last_n 50 (ic_events c),
     ic_incident_evidence := take 30 (ic_incident_evidence c),
     ic_incident := dict_put (ic_incident c) ''context_truncated'' (JBool True)\<rparr>"

text \<open>The loop: the oldest timeline entries go first, then events, then alerts, then the last evidence.\<close>

function shrink :: "(rat \<Rightarrow> string) \<Rightarrow> int \<Rightarrow> investigation_context \<Rightarrow> exn + investigation_context" where
  "shrink ff m c =
    (if serialized_size ff c \<le> m then Inr c
     else if 1 < length (ic_timeline c) then shrink ff m (c\<lparr>ic_timeline := tl (ic_timeline c)\<rparr>)
     else if 1 < length (ic_events c) then shrink ff m (c\<lparr>ic_events := tl (ic_events c)\<rparr>)
     else if 1 < length (ic_alerts c) then shrink ff m (c\<lparr>ic_alerts := tl (ic_alerts c)\<rparr>)
     else if 1 < length (ic_incident_evidence c) then shrink ff m (c\<lparr>ic_incident_evidence := butlast (ic_incident_evidence c)\<rparr>)
     else Inl InvestigationContextTooLargeError)"
  by pat_completeness auto

termination
  by (relation "measure (\<lambda>(ff, m, c). length (ic_timeline c) + length (ic_events c) + length (ic_alerts c) +
    length (ic_incident_evidence c))") auto

declare shrink.simps [simp del]

text \<open>The references of what is in the context.\<close>

definition context_refs :: "investigation_context \<Rightarrow> string list" where
  "context_refs c = map (text_at ''ref'') (ic_alerts c) @ map (text_at ''ref'') (ic_events c) @
     map (text_at ''ref'') (ic_incident_evidence c) @
     (if truthy (dict_get (ic_incident c) ''id'') then [''incident:'' @ text_at ''id'' (ic_incident c)] else []) @
     map (\<lambda>t. ''mitre:'' @ text_at ''technique_id'' t) (ic_techniques c)"

definition enforce_size :: "(rat \<Rightarrow> string) \<Rightarrow> (json \<Rightarrow> string) \<Rightarrow> int \<Rightarrow> investigation_context \<Rightarrow> exn + investigation_context" where
  "enforce_size ff show m c =
    (if serialized_size ff c \<le> m then Inr c
     else then_do (shrink ff m (truncate_context show c)) (\<lambda>c'.
       Inr (c'\<lparr>ic_valid_evidence_refs := sorted_set (context_refs c')\<rparr>)))"

section \<open>Building a context\<close>

definition attached_evidence :: "uuid \<Rightarrow> db \<Rightarrow> incident_evidence list" where
  "attached_evidence incident_id d =
    take 50 (sort_key (\<lambda>x. - ie_created_at x) (filter (\<lambda>x. ie_incident_id x = incident_id) (db_incident_evidence d)))"

fun dicts_of :: "json list \<Rightarrow> dict list option" where
  "dicts_of [] = Some []"
| "dicts_of (JObj d # xs) = map_option ((#) d) (dicts_of xs)"
| "dicts_of (_ # xs) = None"

definition catch_classifier :: "exn + json option \<Rightarrow> exn + json option" where
  "catch_classifier r = (case r of Inl FileNotFoundError \<Rightarrow> Inr None | Inl (ValueError m) \<Rightarrow> Inr None | _ \<Rightarrow> r)"

definition raw_context :: "incident \<Rightarrow> db \<Rightarrow> exn + investigation_context" where
  "raw_context i d =
    (let alerts = get_alerts_for_incident (in_id i) d;
         events_by_id = get_by_ids (map al_event_id alerts) d;
         techniques = get_for_rules (map al_rule_id alerts) d;
         attached = attached_evidence (in_id i) d;
         events = concat (map (\<lambda>a. case map_of events_by_id (al_event_id a) of None \<Rightarrow> [] | Some e \<Rightarrow> [event_context e]) alerts);
         technique_rows = map technique_context techniques;
         evidence_rows = map evidence_context attached;
         valid_refs = [''incident:'' @ uuid_str (in_id i)] @ map (\<lambda>a. ''alert:'' @ uuid_str (al_id a)) alerts @
           map (\<lambda>e. ''event:'' @ text_at ''event_id'' e) events @
           map (\<lambda>t. ''mitre:'' @ text_at ''technique_id'' t) technique_rows @ map (text_at ''ref'') evidence_rows;
         timeline = sanitize 0 (JList (in_timeline i))
     in case (case timeline of JList xs \<Rightarrow> dicts_of xs | _ \<Rightarrow> None) of
          None \<Rightarrow> Inl (ValueError ''validation'')
        | Some entries \<Rightarrow> Inr \<lparr>ic_incident = incident_context i (alerts \<noteq> []) (attached \<noteq> []),
            ic_alerts = map alert_context alerts, ic_events = events, ic_incident_evidence = evidence_rows,
            ic_timeline = entries, ic_techniques = technique_rows, ic_valid_evidence_refs = sorted_set valid_refs\<rparr>)"

definition build_context :: "(rat \<Rightarrow> string) \<Rightarrow> (json \<Rightarrow> string) \<Rightarrow> (dict list \<Rightarrow> db \<Rightarrow> exn + json option) \<Rightarrow> int \<Rightarrow> uuid \<Rightarrow> db \<Rightarrow>
    exn + investigation_context" where
  "build_context ff show classify m incident_id d =
    (case get_incident incident_id d of None \<Rightarrow> Inl (IncidentNotFoundError (uuid_str incident_id))
     | Some i \<Rightarrow> then_do (raw_context i d) (\<lambda>c.
         then_do (catch_classifier (classify (ic_events c) d)) (\<lambda>classification.
           enforce_size ff show m (case classification of None \<Rightarrow> c
             | Some v \<Rightarrow> c\<lparr>ic_incident := dict_put (ic_incident c) ''detector'' v\<rparr>))))"

section \<open>Facts about dictionaries and texts\<close>

lemma map_of_dict_put: "map_of (dict_put d k v) k' = (if k' = k then Some v else map_of d k')"
  by (induction d k v rule: dict_put.induct) auto

lemma dict_get_put: "dict_get (dict_put d k v) k' = (if k' = k then v else dict_get d k')"
  by (simp add: dict_get_def map_of_dict_put)

lemma text_at_put: "k' \<noteq> k \<Longrightarrow> text_at k' (dict_put d k v) = text_at k' d"
  by (simp add: text_at_def dict_get_put)

lemma set_sorted_set [simp]: "set (sorted_set xs) = set xs"
  by (simp add: sorted_set_def)

lemma distinct_sorted_set [simp]: "distinct (sorted_set xs)" "sorted (sorted_set xs)"
  by (simp_all add: sorted_set_def)

lemma length_join: "length (join sep xs) = sum_list (map length xs) + length sep * (length xs - 1)"
  by (induction sep xs rule: join.induct) auto

lemma sum_list_subset:
  fixes f :: "'a \<Rightarrow> nat"
  assumes "distinct xs" and "distinct ys" and "set xs \<subseteq> set ys"
  shows "sum_list (map f xs) \<le> sum_list (map f ys)" and "length xs \<le> length ys"
proof -
  have "sum_list (map f xs) = sum f (set xs)" "sum_list (map f ys) = sum f (set ys)"
    using assms by (simp_all add: sum_list_distinct_conv_sum_set)
  then show "sum_list (map f xs) \<le> sum_list (map f ys)"
    using assms(3) by (simp add: sum_mono2)
  show "length xs \<le> length ys"
    using assms by (metis card_mono distinct_card finite_set)
qed

lemma refs_text_mono:
  assumes "distinct xs" and "distinct ys" and "set xs \<subseteq> set ys"
  shows "length (json_dumps ff (JList (map JStr xs))) \<le> length (json_dumps ff (JList (map JStr ys)))"
  using sum_list_subset(1) [OF assms, of "\<lambda>s. length (json_string s)"] sum_list_subset(2) [OF assms] by (simp add: length_join comp_def)

text \<open>With fewer references the serialised context is no longer.\<close>

lemma serialized_size_refs:
  assumes "distinct xs" and "distinct (ic_valid_evidence_refs c)" and "set xs \<subseteq> set (ic_valid_evidence_refs c)"
  shows "serialized_size ff (c\<lparr>ic_valid_evidence_refs := xs\<rparr>) \<le> serialized_size ff c"
  using refs_text_mono [OF assms, of ff]
  by (simp add: serialized_size_def context_json_def del: json_dumps.simps(6))

section \<open>The result fits and is grounded\<close>

definition grounded :: "investigation_context \<Rightarrow> bool" where
  "grounded c = (distinct (ic_valid_evidence_refs c) \<and> sorted (ic_valid_evidence_refs c) \<and>
     set (ic_valid_evidence_refs c) = set (context_refs c))"

text \<open>One round of the loop drops an element, returns or raises.\<close>

definition shrink_step :: "investigation_context \<Rightarrow> investigation_context option" where
  "shrink_step c =
    (if 1 < length (ic_timeline c) then Some (c\<lparr>ic_timeline := tl (ic_timeline c)\<rparr>)
     else if 1 < length (ic_events c) then Some (c\<lparr>ic_events := tl (ic_events c)\<rparr>)
     else if 1 < length (ic_alerts c) then Some (c\<lparr>ic_alerts := tl (ic_alerts c)\<rparr>)
     else if 1 < length (ic_incident_evidence c) then Some (c\<lparr>ic_incident_evidence := butlast (ic_incident_evidence c)\<rparr>)
     else None)"

lemma shrink_by_step:
  "shrink ff m c = (if serialized_size ff c \<le> m then Inr c
     else case shrink_step c of None \<Rightarrow> Inl InvestigationContextTooLargeError | Some c' \<Rightarrow> shrink ff m c')"
  by (subst shrink.simps) (simp add: shrink_step_def)

lemma shrink_induct:
  assumes "\<And>c. (\<And>c'. \<not> serialized_size ff c \<le> m \<Longrightarrow> shrink_step c = Some c' \<Longrightarrow> P c') \<Longrightarrow> P c"
  shows "P c"
proof (induction "length (ic_timeline c) + length (ic_events c) + length (ic_alerts c) + length (ic_incident_evidence c)"
    arbitrary: c rule: less_induct)
  case less
  show ?case
    by (rule assms, rule less) (auto simp: shrink_step_def split: if_splits)
qed

definition minimal_context :: "investigation_context \<Rightarrow> investigation_context" where
  "minimal_context c = c\<lparr>ic_timeline := last_n 1 (ic_timeline c), ic_events := last_n 1 (ic_events c),
     ic_alerts := last_n 1 (ic_alerts c), ic_incident_evidence := take 1 (ic_incident_evidence c)\<rparr>"

lemma last_n_tl: "1 < length xs \<Longrightarrow> last_n 1 (tl xs) = last_n 1 xs"
  by (cases xs rule: rev_cases) (auto simp: last_n_def drop_Cons' tl_append split: list.split nat.split)

lemma take_butlast_one: "1 < length xs \<Longrightarrow> take 1 (butlast xs) = take 1 xs"
proof -
  assume "1 < length xs"
  then obtain a b ys where "xs = a # b # ys" by (cases xs rule: list.exhaust) (auto simp: neq_Nil_conv)
  then show ?thesis by simp
qed

lemma shrink_step_Some:
  assumes "shrink_step c = Some c'"
  shows "set (context_refs c') \<subseteq> set (context_refs c)" and "ic_valid_evidence_refs c' = ic_valid_evidence_refs c"
    and "minimal_context c' = minimal_context c"
proof -
  have tl: "f ` set (tl xs) \<subseteq> f ` set xs" for f :: "dict \<Rightarrow> string" and xs by (cases xs) auto
  have bl: "f ` set (butlast xs) \<subseteq> f ` set xs" for f :: "dict \<Rightarrow> string" and xs by (auto dest: in_set_butlastD)
  consider "c' = c\<lparr>ic_timeline := tl (ic_timeline c)\<rparr>" | "c' = c\<lparr>ic_events := tl (ic_events c)\<rparr>"
    | "c' = c\<lparr>ic_alerts := tl (ic_alerts c)\<rparr>" | "c' = c\<lparr>ic_incident_evidence := butlast (ic_incident_evidence c)\<rparr>"
    using assms by (auto simp: shrink_step_def split: if_splits)
  then show "set (context_refs c') \<subseteq> set (context_refs c)"
  proof cases
    case 1
    then show ?thesis by (simp add: context_refs_def)
  next
    case 2
    then show ?thesis unfolding context_refs_def set_append set_map by (intro Un_mono) (simp_all add: tl)
  next
    case 3
    then show ?thesis unfolding context_refs_def set_append set_map by (intro Un_mono) (simp_all add: tl)
  next
    case 4
    then show ?thesis unfolding context_refs_def set_append set_map by (intro Un_mono) (simp_all add: bl)
  qed
  show "ic_valid_evidence_refs c' = ic_valid_evidence_refs c"
    using assms by (auto simp: shrink_step_def split: if_splits)
  show "minimal_context c' = minimal_context c"
    using assms by (auto simp: shrink_step_def minimal_context_def last_n_tl take_butlast_one simp del: One_nat_def split: if_splits)
qed

lemma minimal_context_id: "shrink_step c = None \<Longrightarrow> minimal_context c = c"
  by (auto simp: shrink_step_def minimal_context_def last_n_all simp del: One_nat_def split: if_splits)

lemma shrink_Inr:
  "shrink ff m c = Inr c' \<Longrightarrow> serialized_size ff c' \<le> m \<and> set (context_refs c') \<subseteq> set (context_refs c) \<and>
     ic_valid_evidence_refs c' = ic_valid_evidence_refs c"
proof (induction c rule: shrink_induct [where ff = ff and m = m])
  case (1 c)
  then show ?case
    using shrink_step_Some by (subst (asm) (2) shrink_by_step) (fastforce split: if_splits option.splits)
qed

lemma shrink_Inl:
  "shrink ff m c = Inl x \<Longrightarrow> x = InvestigationContextTooLargeError \<and> m < serialized_size ff (minimal_context c)"
proof (induction c rule: shrink_induct [where ff = ff and m = m])
  case (1 c)
  show ?case
  proof (cases "shrink_step c")
    case None
    then show ?thesis using 1(2) minimal_context_id [OF None]
      by (subst (asm) shrink_by_step) (auto split: if_splits)
  next
    case (Some c')
    then show ?thesis using 1 shrink_step_Some(3) [OF Some]
      by (subst (asm) (2) shrink_by_step) (auto split: if_splits)
  qed
qed

text \<open>Truncating keeps the references of what it keeps.\<close>

lemma truncate_refs: "set (context_refs (truncate_context show c)) \<subseteq> set (context_refs c)"
proof -
  have "text_at ''ref'' (truncate_alert a) = text_at ''ref'' a" for a
    by (simp add: truncate_alert_def text_at_put)
  then show ?thesis
    using set_last_n [of 50 "ic_alerts c"] set_last_n [of 50 "ic_events c"] set_take_subset [of 30 "ic_incident_evidence c"]
    by (auto simp: context_refs_def truncate_context_def dict_get_put text_at_put)
qed

lemma enforce_size_ok:
  assumes "grounded c" and "enforce_size ff show m c = Inr c'"
  shows "serialized_size ff c' \<le> m \<and> grounded c'"
proof (cases "serialized_size ff c \<le> m")
  case True
  then show ?thesis using assms by (simp add: enforce_size_def)
next
  case False
  then obtain c1 where c1: "shrink ff m (truncate_context show c) = Inr c1"
    and c': "c' = c1\<lparr>ic_valid_evidence_refs := sorted_set (context_refs c1)\<rparr>"
    using assms(2) by (auto simp: enforce_size_def)
  have refs: "ic_valid_evidence_refs c1 = ic_valid_evidence_refs c"
    using shrink_Inr [OF c1] by (simp add: truncate_context_def)
  have "set (context_refs c1) \<subseteq> set (ic_valid_evidence_refs c)"
    using shrink_Inr [OF c1] truncate_refs [of "show" c] assms(1) by (auto simp: grounded_def)
  then have "serialized_size ff c' \<le> serialized_size ff c1"
    unfolding c' using assms(1) refs by (intro serialized_size_refs) (simp_all add: grounded_def)
  moreover have "context_refs c' = context_refs c1" by (simp add: c' context_refs_def)
  ultimately show ?thesis using shrink_Inr [OF c1] by (simp add: grounded_def c')
qed

lemma context_row_refs [simp]:
  "text_at ''ref'' (alert_context a) = ''alert:'' @ uuid_str (al_id a)"
  "text_at ''ref'' (event_context e) = ''event:'' @ ev_event_id e"
  "text_at ''event_id'' (event_context e) = ev_event_id e"
  "text_at ''id'' (incident_context i b b') = uuid_str (in_id i)"
  "truthy (dict_get (incident_context i b b') ''id'')"
  by (simp_all add: text_at_def dict_get_def alert_context_def event_context_def incident_context_def)

lemma raw_context_grounded: "raw_context i d = Inr c \<Longrightarrow> grounded c"
proof -
  assume raw: "raw_context i d = Inr c"
  let ?alerts = "get_alerts_for_incident (in_id i) d"
  let ?es = "\<lambda>a. case map_of (get_by_ids (map al_event_id ?alerts) d) (al_event_id a) of None \<Rightarrow> [] | Some e \<Rightarrow> [event_context e]"
  have es: "\<exists>x. e = event_context x" if "e \<in> set (?es a)" for e a
    using that by (auto split: option.splits)
  obtain entries where c: "c = \<lparr>ic_incident = incident_context i (?alerts \<noteq> []) (attached_evidence (in_id i) d \<noteq> []),
      ic_alerts = map alert_context ?alerts, ic_events = concat (map ?es ?alerts),
      ic_incident_evidence = map evidence_context (attached_evidence (in_id i) d), ic_timeline = entries,
      ic_techniques = map technique_context (get_for_rules (map al_rule_id ?alerts) d),
      ic_valid_evidence_refs = sorted_set ([''incident:'' @ uuid_str (in_id i)] @ map (\<lambda>a. ''alert:'' @ uuid_str (al_id a)) ?alerts @
           map (\<lambda>e. ''event:'' @ text_at ''event_id'' e) (concat (map ?es ?alerts)) @
           map (\<lambda>t. ''mitre:'' @ text_at ''technique_id'' t) (map technique_context (get_for_rules (map al_rule_id ?alerts) d)) @
           map (text_at ''ref'') (map evidence_context (attached_evidence (in_id i) d)))\<rparr>"
    using raw unfolding raw_context_def Let_def by (auto split: option.splits)
  have events: "map (\<lambda>e. ''event:'' @ text_at ''event_id'' e) (concat (map ?es ?alerts)) = map (text_at ''ref'') (concat (map ?es ?alerts))"
    by (rule map_cong [OF refl]) (use es in fastforce)
  have alerts: "map (\<lambda>a. ''alert:'' @ uuid_str (al_id a)) ?alerts = map (text_at ''ref'') (map alert_context ?alerts)"
    by simp
  have "set (ic_valid_evidence_refs c) = set (context_refs c)"
    unfolding c context_refs_def by (simp only: investigation_context.simps events alerts set_sorted_set set_append
        context_row_refs if_True) blast
  then show ?thesis by (simp add: grounded_def) (simp add: c)
qed

definition classified :: "json option \<Rightarrow> investigation_context \<Rightarrow> investigation_context" where
  "classified v c = (case v of None \<Rightarrow> c | Some v \<Rightarrow> c\<lparr>ic_incident := dict_put (ic_incident c) ''detector'' v\<rparr>)"

lemma classified_grounded: "grounded c \<Longrightarrow> grounded (classified v c)"
  by (cases v) (simp_all add: classified_def grounded_def context_refs_def dict_get_put text_at_put)

lemma build_context_Inr:
  assumes "build_context ff show classify m incident_id d = Inr c"
  shows "serialized_size ff c \<le> m \<and> grounded c"
proof (cases "get_incident incident_id d")
  case None
  then show ?thesis using assms by (simp add: build_context_def)
next
  case (Some i)
  then have "then_do (raw_context i d) (\<lambda>c. then_do (catch_classifier (classify (ic_events c) d)) (\<lambda>v.
      enforce_size ff show m (classified v c))) = Inr c"
    using assms by (simp add: build_context_def classified_def)
  then obtain c1 v where "raw_context i d = Inr c1" and c: "enforce_size ff show m (classified v c1) = Inr c"
    by (auto simp: then_do_Inr)
  then show ?thesis using enforce_size_ok [OF classified_grounded [OF raw_context_grounded] c] by simp
qed

text \<open>
  a context that is built always serialises to at most the configured number of characters, and
  its list of valid evidence references is sorted, without repetitions, and exactly the references of
  what it contains: the incident, its alerts, events and evidence, and the techniques. When cutting it
  down fails, even the context with one timeline entry, event, alert and piece of evidence is too long.
\<close>

theorem context_bounded_and_grounded:
  "(build_context ff show classify m incident_id d = Inr c \<longrightarrow>
      serialized_size ff c \<le> m \<and> sorted (ic_valid_evidence_refs c) \<and> distinct (ic_valid_evidence_refs c) \<and>
      set (ic_valid_evidence_refs c) = set (context_refs c)) \<and>
   (enforce_size ff show m c0 = Inl x \<longrightarrow>
      x = InvestigationContextTooLargeError \<and> m < serialized_size ff (minimal_context (truncate_context show c0)))"
proof -
  have "x = InvestigationContextTooLargeError \<and> m < serialized_size ff (minimal_context (truncate_context show c0))"
    if "enforce_size ff show m c0 = Inl x"
    using that shrink_Inl [of ff m "truncate_context show c0"]
    by (auto simp: enforce_size_def then_do_Inl split: if_splits)
  then show ?thesis using build_context_Inr [of ff "show" classify m incident_id d c] by (auto simp: grounded_def)
qed

definition example_context :: investigation_context where
  "example_context = \<lparr>ic_incident = [(''id'', JStr ''i'')], ic_alerts = [[(''ref'', JStr ''alert:a'')]],
     ic_events = [[(''ref'', JStr ''event:e'')], [(''ref'', JStr ''event:f'')]], ic_incident_evidence = [], ic_timeline = [],
     ic_techniques = [], ic_valid_evidence_refs = [''alert:a'', ''event:e'', ''event:f'', ''incident:i'']\<rparr>"

lemma example_context_too_long:
  "enforce_size (\<lambda>_. []) (\<lambda>_. []) 10 example_context = Inl InvestigationContextTooLargeError"
  by code_simp

theorem context_bounded_and_grounded_witness:
  "10 < serialized_size (\<lambda>_. []) (minimal_context (truncate_context (\<lambda>_. []) example_context))"
  using context_bounded_and_grounded [of "\<lambda>_. []" "\<lambda>_. []" "\<lambda>_ _. Inr None" 10 "0" empty_db example_context
      example_context InvestigationContextTooLargeError] example_context_too_long
  by blast

end
