(* ===== verification/InvSchema.thy ===== *)
theory InvSchema
  imports InvContext
begin

text \<open>
  What an investigation produces: the data of \<^verbatim>\<open>schemas/investigation.py\<close> with the constraints of
  its fields, \<^verbatim>\<open>investigation/network_assessment.py\<close> and \<^verbatim>\<open>investigation/validation.py\<close>.
  Constructing a model whose fields break a constraint raises pydantic's ValidationError, a
  subclass of ValueError, whose text is not modelled.
\<close>

section \<open>The data\<close>

definition ValidationError :: exn where
  "ValidationError = ValueError ''validation''"

definition analysis_severities :: "string list" where
  "analysis_severities = [''low'', ''medium'', ''high'', ''critical'']"

definition recommendation_priorities :: "string list" where
  "recommendation_priorities = [''low'', ''medium'', ''high'', ''urgent'']"

definition investigation_statuses :: "string list" where
  "investigation_statuses = [''queued'', ''running'', ''completed'', ''failed'', ''cancelled'', ''dead_letter'']"

definition text_within :: "nat \<Rightarrow> string \<Rightarrow> bool" where
  "text_within n s = (1 \<le> length s \<and> length s \<le> n)"

definition unit_interval :: "rat \<Rightarrow> bool" where
  "unit_interval r = (0 \<le> r \<and> r \<le> 1)"

record evidence_finding =
  ef_title :: string
  ef_summary :: string
  ef_severity :: string
  ef_confidence :: rat
  ef_evidence_refs :: "string list"

definition evidence_finding_valid :: "evidence_finding \<Rightarrow> bool" where
  "evidence_finding_valid f = (text_within 255 (ef_title f) \<and> text_within 2000 (ef_summary f) \<and>
     ef_severity f \<in> set analysis_severities \<and> unit_interval (ef_confidence f) \<and> length (ef_evidence_refs f) \<le> 20)"

record evidence_analysis =
  ea_findings :: "evidence_finding list"
  ea_gaps :: "string list"

definition evidence_analysis_valid :: "evidence_analysis \<Rightarrow> bool" where
  "evidence_analysis_valid a = (list_all evidence_finding_valid (ea_findings a) \<and> length (ea_findings a) \<le> 20 \<and>
     length (ea_gaps a) \<le> 20)"

record risk_analysis =
  rk_score :: int
  rk_severity :: string
  rk_rationale :: string
  rk_factors :: "string list"

definition risk_analysis_valid :: "risk_analysis \<Rightarrow> bool" where
  "risk_analysis_valid r = (0 \<le> rk_score r \<and> rk_score r \<le> 100 \<and> rk_severity r \<in> set analysis_severities \<and>
     text_within 3000 (rk_rationale r) \<and> length (rk_factors r) \<le> 20)"

record mitre_context_item =
  mi_technique_id :: string
  mi_name :: string
  mi_tactics :: "string list"
  mi_relevance :: string

record investigation_narrative =
  nv_executive_summary :: string
  nv_attack_story :: string
  nv_confidence :: rat

definition investigation_narrative_valid :: "investigation_narrative \<Rightarrow> bool" where
  "investigation_narrative_valid n = (text_within 4000 (nv_executive_summary n) \<and> text_within 6000 (nv_attack_story n) \<and>
     unit_interval (nv_confidence n))"

record remediation_plan =
  rp_verification_steps :: "string list"
  rp_change_steps :: "string list"
  rp_validation_steps :: "string list"
  rp_rollback_steps :: "string list"
  rp_impact :: string

definition remediation_steps_valid :: "string list \<Rightarrow> bool" where
  "remediation_steps_valid xs = (1 \<le> length xs \<and> length xs \<le> 5 \<and> list_all (text_within 600) xs)"

definition remediation_plan_valid :: "remediation_plan \<Rightarrow> bool" where
  "remediation_plan_valid p = (remediation_steps_valid (rp_verification_steps p) \<and> remediation_steps_valid (rp_change_steps p) \<and>
     remediation_steps_valid (rp_validation_steps p) \<and> remediation_steps_valid (rp_rollback_steps p) \<and>
     text_within 1000 (rp_impact p))"

record recommendation =
  rd_title :: string
  rd_priority :: string
  rd_rationale :: string
  rd_actions :: "string list"
  rd_evidence_refs :: "string list"
  rd_remediation_plan :: "remediation_plan option"

definition recommendation_valid :: "recommendation \<Rightarrow> bool" where
  "recommendation_valid r = (text_within 255 (rd_title r) \<and> rd_priority r \<in> set recommendation_priorities \<and>
     text_within 2000 (rd_rationale r) \<and> 1 \<le> length (rd_actions r) \<and> length (rd_actions r) \<le> 20 \<and>
     length (rd_evidence_refs r) \<le> 20 \<and> (case rd_remediation_plan r of None \<Rightarrow> True | Some p \<Rightarrow> remediation_plan_valid p))"

definition planned_recommendation_valid :: "recommendation \<Rightarrow> bool" where
  "planned_recommendation_valid r = (recommendation_valid r \<and> rd_remediation_plan r \<noteq> None)"

record recommendation_set =
  rs_recommendations :: "recommendation list"
  rs_action_plan :: "dict list"

definition planned_recommendation_set_valid :: "recommendation_set \<Rightarrow> bool" where
  "planned_recommendation_set_valid s = (list_all planned_recommendation_valid (rs_recommendations s) \<and>
     1 \<le> length (rs_recommendations s) \<and> length (rs_recommendations s) \<le> 5 \<and> length (rs_action_plan s) \<le> 10)"

definition recommendation_set_valid :: "recommendation_set \<Rightarrow> bool" where
  "recommendation_set_valid s = (list_all recommendation_valid (rs_recommendations s) \<and>
     1 \<le> length (rs_recommendations s) \<and> length (rs_recommendations s) \<le> 20 \<and> length (rs_action_plan s) \<le> 10)"

record investigation_result =
  ir_executive_summary :: string
  ir_attack_story :: string
  ir_confidence :: rat
  ir_findings :: "evidence_finding list"
  ir_evidence_gaps :: "string list"
  ir_risk_analysis :: risk_analysis
  ir_mitre_context :: "mitre_context_item list"
  ir_recommendations :: "recommendation list"
  ir_action_plan :: "dict list"

definition investigation_result_valid :: "investigation_result \<Rightarrow> bool" where
  "investigation_result_valid r = (unit_interval (ir_confidence r) \<and> list_all evidence_finding_valid (ir_findings r) \<and>
     risk_analysis_valid (ir_risk_analysis r) \<and> list_all recommendation_valid (ir_recommendations r))"

definition constructed :: "('a \<Rightarrow> bool) \<Rightarrow> 'a \<Rightarrow> exn + 'a" where
  "constructed ok x = (if ok x then Inr x else Inl ValidationError)"

section \<open>model\_dump\<close>

definition texts :: "string list \<Rightarrow> json" where
  "texts xs = JList (map JStr xs)"

definition dump_finding :: "evidence_finding \<Rightarrow> json" where
  "dump_finding f = JObj [(''title'', JStr (ef_title f)), (''summary'', JStr (ef_summary f)), (''severity'', JStr (ef_severity f)),
     (''confidence'', JFloat (ef_confidence f)), (''evidence_refs'', texts (ef_evidence_refs f))]"

definition dump_analysis :: "evidence_analysis \<Rightarrow> json" where
  "dump_analysis a = JObj [(''findings'', JList (map dump_finding (ea_findings a))), (''gaps'', texts (ea_gaps a))]"

definition dump_risk :: "risk_analysis \<Rightarrow> json" where
  "dump_risk r = JObj [(''score'', JInt (rk_score r)), (''severity'', JStr (rk_severity r)), (''rationale'', JStr (rk_rationale r)),
     (''factors'', texts (rk_factors r))]"

definition dump_mitre_item :: "mitre_context_item \<Rightarrow> json" where
  "dump_mitre_item m = JObj [(''technique_id'', JStr (mi_technique_id m)), (''name'', JStr (mi_name m)),
     (''tactics'', texts (mi_tactics m)), (''relevance'', JStr (mi_relevance m))]"

definition dump_narrative :: "investigation_narrative \<Rightarrow> json" where
  "dump_narrative n = JObj [(''executive_summary'', JStr (nv_executive_summary n)), (''attack_story'', JStr (nv_attack_story n)),
     (''confidence'', JFloat (nv_confidence n))]"

definition dump_plan :: "remediation_plan \<Rightarrow> json" where
  "dump_plan p = JObj [(''verification_steps'', texts (rp_verification_steps p)), (''change_steps'', texts (rp_change_steps p)),
     (''validation_steps'', texts (rp_validation_steps p)), (''rollback_steps'', texts (rp_rollback_steps p)),
     (''impact'', JStr (rp_impact p))]"

definition dump_recommendation :: "recommendation \<Rightarrow> json" where
  "dump_recommendation r = JObj [(''title'', JStr (rd_title r)), (''priority'', JStr (rd_priority r)),
     (''rationale'', JStr (rd_rationale r)), (''actions'', texts (rd_actions r)), (''evidence_refs'', texts (rd_evidence_refs r)),
     (''remediation_plan'', case rd_remediation_plan r of None \<Rightarrow> JNull | Some p \<Rightarrow> dump_plan p)]"

definition dump_result :: "investigation_result \<Rightarrow> dict" where
  "dump_result r = [(''executive_summary'', JStr (ir_executive_summary r)), (''attack_story'', JStr (ir_attack_story r)),
     (''confidence'', JFloat (ir_confidence r)), (''findings'', JList (map dump_finding (ir_findings r))),
     (''evidence_gaps'', texts (ir_evidence_gaps r)), (''risk_analysis'', dump_risk (ir_risk_analysis r)),
     (''mitre_context'', JList (map dump_mitre_item (ir_mitre_context r))),
     (''recommendations'', JList (map dump_recommendation (ir_recommendations r))),
     (''action_plan'', JList (map JObj (ir_action_plan r)))]"

definition dump_context :: "investigation_context \<Rightarrow> dict" where
  "dump_context c = (case context_json c of JObj d \<Rightarrow> d | _ \<Rightarrow> [])"

section \<open>The network assessment\<close>

definition sensitive_ports :: "int list" where
  "sensitive_ports = [22, 445, 1433, 3306, 3389, 5432, 5900, 6379, 9200, 27017]"

record network_assessment =
  na_findings :: "evidence_finding list"
  na_recommendations :: "recommendation list"
  na_gaps :: "string list"

text \<open>\<^verbatim>\<open>value in {...}\<close> for a set of texts; lists and dictionaries cannot be hashed.\<close>

definition in_text_set :: "json \<Rightarrow> string list \<Rightarrow> exn + bool" where
  "in_text_set v xs = (case v of JStr s \<Rightarrow> Inr (s \<in> set xs) | JList _ \<Rightarrow> Inl TypeError | JObj _ \<Rightarrow> Inl TypeError | _ \<Rightarrow> Inr False)"

text \<open>A \<^verbatim>\<open>bool\<close> is an \<^verbatim>\<open>int\<close>.\<close>

definition port_number :: "json \<Rightarrow> (int \<times> string) option" where
  "port_number v = (case v of JInt i \<Rightarrow> Some (i, str_of_int i)
     | JBool b \<Rightarrow> Some (if b then (1, ''True'') else (0, ''False'')) | _ \<Rightarrow> None)"

definition text_of :: "json \<Rightarrow> string" where
  "text_of v = (case v of JStr s \<Rightarrow> s | _ \<Rightarrow> [])"

text \<open>Whether an observation is risky: an internet path, and a sensitive port.\<close>

definition risky_path :: "dict \<Rightarrow> exn + (bool \<times> bool \<times> string) option" where
  "risky_path network =
    (if dict_get network ''disposition'' \<noteq> JStr ''allowed'' then Inr None
     else (case port_number (dict_get network ''destination_port'') of None \<Rightarrow> Inr None
     | Some (port, port_text) \<Rightarrow>
       (let source = dict_get network ''source_zone'';
            destination = dict_get network ''destination_zone'';
            sensitive = port \<in> set sensitive_ports
        in then_do (if source = JStr ''internet'' then in_text_set destination [''internal'', ''restricted''] else Inr False)
           (\<lambda>internet_to_private.
          then_do (in_text_set source [''dmz'', ''internal'']) (\<lambda>inside.
            Inr (if internet_to_private \<or> inside \<and> destination = JStr ''restricted'' \<and> sensitive
                 then Some (internet_to_private, sensitive, port_text) else None))))))"

definition protocol_of :: "dict \<Rightarrow> exn + string" where
  "protocol_of network = (case map_of network ''protocol'' of None \<Rightarrow> Inr (py_upper ''tcp'')
     | Some (JStr s) \<Rightarrow> Inr (py_upper s) | Some _ \<Rightarrow> Inl AttributeError)"

definition network_plan :: remediation_plan where
  "network_plan = \<lparr>
     rp_verification_steps = [''Confirm the affected assets and the reported path using firewall rules, flow logs, and the asset owner'' @ [CHR 0x27] @ ''s intended access policy.''],
     rp_change_steps = [''Save the current rule configuration and obtain the approved change window.'',
       ''Restrict the unauthorized path to the approved sources, destinations, and ports; retain a tested administrator access path.''],
     rp_validation_steps = [''Verify that an unauthorized source is blocked and required business traffic still succeeds.'',
       ''Review firewall and flow logs for continued access attempts after the change.''],
     rp_rollback_steps = [''If required traffic fails, restore the approved previous configuration or a narrower temporary rule while investigating the failure.'',
       ''Verify administrator access and document any remaining exposure with the incident owner.''],
     rp_impact = ''Restricting this path can interrupt legitimate remote administration or application connections; confirm dependencies with the asset owner.''\<rparr>"

definition network_finding :: "(json \<Rightarrow> string) \<Rightarrow> dict \<Rightarrow> dict \<Rightarrow> bool \<Rightarrow> bool \<Rightarrow> string \<Rightarrow> string \<Rightarrow> string \<Rightarrow> evidence_finding" where
  "network_finding show item network internet_to_private sensitive port protocol reference = \<lparr>
     ef_title = (if internet_to_private \<and> sensitive then ''Reported internet access to a sensitive service''
       else if internet_to_private then ''Reported internet path into a private zone''
       else ''Possible segmentation gap into a restricted zone''),
     ef_summary = ''Analyst-supplied '' @ (case map_of item ''source'' of None \<Rightarrow> ''network'' | Some v \<Rightarrow> py_str show v) @
       '' evidence reports an allowed '' @ protocol @ ''/'' @ port @ '' path from '' @ text_of (dict_get network ''source_zone'') @
       '' to '' @ text_of (dict_get network ''destination_zone'') @
       ''. This is a reported exposure, not an independently verified vulnerability.'',
     ef_severity = (if internet_to_private \<and> sensitive then ''high'' else ''medium''),
     ef_confidence = (if internet_to_private \<and> sensitive then 6 / 10 else 5 / 10),
     ef_evidence_refs = [reference]\<rparr>"

definition network_recommendation :: "bool \<Rightarrow> bool \<Rightarrow> string \<Rightarrow> string \<Rightarrow> string \<Rightarrow> recommendation" where
  "network_recommendation internet_to_private sensitive port protocol reference = \<lparr>
     rd_title = ''Review and restrict reported '' @ protocol @ ''/'' @ port @ '' access'',
     rd_priority = (if internet_to_private \<and> sensitive then ''high'' else ''medium''),
     rd_rationale = ''The supplied network observation suggests a path that may exceed intended access policy; verify before changing production rules.'',
     rd_actions = [''Verify the observation against firewall, flow, and asset-owner records.'',
       ''If unauthorized, limit the rule to approved sources and required destinations under change control.'',
       ''Test legitimate traffic after the change and monitor for repeat attempts.''],
     rd_evidence_refs = [reference], rd_remediation_plan = Some network_plan\<rparr>"

text \<open>One observation: None when it is not risky. (A reference is a text: the context builder makes it.)\<close>

definition assess_item :: "(json \<Rightarrow> string) \<Rightarrow> dict \<Rightarrow> dict \<Rightarrow> exn + (evidence_finding \<times> recommendation) option" where
  "assess_item show item network =
    then_do (risky_path network) (\<lambda>risk. case risk of None \<Rightarrow> Inr None
      | Some (internet_to_private, sensitive, port) \<Rightarrow>
        (case map_of item ''ref'' of None \<Rightarrow> Inl KeyError
         | Some (JStr reference) \<Rightarrow>
           then_do (protocol_of network) (\<lambda>protocol.
           then_do (constructed evidence_finding_valid
              (network_finding show item network internet_to_private sensitive port protocol reference)) (\<lambda>f.
           then_do (constructed recommendation_valid
              (network_recommendation internet_to_private sensitive port protocol reference)) (\<lambda>r.
             Inr (Some (f, r)))))
         | Some _ \<Rightarrow> Inl ValidationError))"

definition relevant_observations :: "dict list \<Rightarrow> (dict \<times> dict) list" where
  "relevant_observations items = concat (map (\<lambda>item.
     if dict_get item ''kind'' = JStr ''network_observation''
     then (case dict_get item ''network'' of JObj n \<Rightarrow> [(item, n)] | _ \<Rightarrow> []) else []) items)"

fun assess_items :: "(json \<Rightarrow> string) \<Rightarrow> (dict \<times> dict) list \<Rightarrow> exn + (evidence_finding \<times> recommendation) list" where
  "assess_items show [] = Inr []"
| "assess_items show ((item, network) # xs) =
    then_do (assess_item show item network) (\<lambda>y. then_do (assess_items show xs) (\<lambda>ys.
      Inr (case y of None \<Rightarrow> ys | Some z \<Rightarrow> z # ys)))"

definition assess_network_evidence :: "(json \<Rightarrow> string) \<Rightarrow> dict list \<Rightarrow> exn + network_assessment" where
  "assess_network_evidence show items =
    (let relevant = relevant_observations items
     in then_do (assess_items show relevant) (\<lambda>xs. Inr \<lparr>
       na_findings = take 10 (map fst xs), na_recommendations = take 10 (map snd xs),
       na_gaps = (if relevant = [] then [''No structured network observation was supplied; network exposure and segmentation cannot be assessed.'']
         else if xs = [] then [''No risky allowed path was identified in supplied observations; this does not prove the network is secure.'']
         else [])\<rparr>))"

section \<open>Validation of a result\<close>

definition severity_bucket :: "int \<Rightarrow> string" where
  "severity_bucket n = (if 85 \<le> n then ''critical'' else if 65 \<le> n then ''high''
     else if 35 \<le> n then ''medium'' else ''low'')"

definition validate_refs :: "string list \<Rightarrow> string list \<Rightarrow> string \<Rightarrow> string list" where
  "validate_refs references valid_references label =
    (let unknown = sorted_set (filter (\<lambda>r. r \<notin> set valid_references) references)
     in if unknown = [] then [] else [''Unknown evidence references in '' @ label @ '': '' @ join '', '' unknown])"

definition cited_errors :: "string \<Rightarrow> string \<Rightarrow> string \<Rightarrow> string list \<Rightarrow> string list \<Rightarrow> string list" where
  "cited_errors name label title references valid_references =
    (if references = [] then [name @ '' '' @ [CHR 0x27] @ title @ [CHR 0x27] @ '' has no evidence references.''] else []) @
    validate_refs references valid_references (label @ '' '' @ [CHR 0x27] @ title @ [CHR 0x27])"

definition validation_errors :: "investigation_result \<Rightarrow> string list \<Rightarrow> string list" where
  "validation_errors r valid_refs =
    (if rk_severity (ir_risk_analysis r) \<noteq> severity_bucket (rk_score (ir_risk_analysis r))
     then [''Risk severity does not match the deterministic score bucket: expected '' @
       severity_bucket (rk_score (ir_risk_analysis r)) @ ''.''] else []) @
    concat (map (\<lambda>f. cited_errors ''Finding'' ''finding'' (ef_title f) (ef_evidence_refs f) valid_refs) (ir_findings r)) @
    concat (map (\<lambda>x. cited_errors ''Recommendation'' ''recommendation'' (rd_title x) (rd_evidence_refs x) valid_refs)
      (ir_recommendations r))"

definition validate_investigation_result :: "investigation_result \<Rightarrow> string list \<Rightarrow> exn + unit" where
  "validate_investigation_result r valid_refs =
    (case validation_errors r valid_refs of [] \<Rightarrow> Inr () | errors \<Rightarrow> Inl (InvestigationValidationError errors))"

end
