(* ===== verification/Provider.thy ===== *)
theory Provider
  imports InvSchema
begin

text \<open>
  The language model providers of \<^verbatim>\<open>investigation/provider.py\<close>. The OpenAI client is not part of
  the repository: a call is a function from the request to the response or the exception, with
  its text. \<^verbatim>\<open>model_validate_json\<close> is a parameter too. The offline mock provider is modelled
  completely.
\<close>

section \<open>Results and providers\<close>

record 'a provider_result =
  pr_output :: 'a
  pr_response_id :: string
  pr_input_tokens :: int
  pr_output_tokens :: int

text \<open>\<^verbatim>\<open>generate_structured\<close>, one function for each response model the workflow asks for.\<close>

record llm_provider =
  lp_evidence_analysis :: "string \<Rightarrow> dict \<Rightarrow> exn + evidence_analysis provider_result"
  lp_risk_analysis :: "string \<Rightarrow> dict \<Rightarrow> exn + risk_analysis provider_result"
  lp_narrative :: "string \<Rightarrow> dict \<Rightarrow> exn + investigation_narrative provider_result"
  lp_recommendations :: "string \<Rightarrow> dict \<Rightarrow> exn + recommendation_set provider_result"

text \<open>What every provider guarantees, by pydantic: an output satisfies its response model.\<close>

definition sound_provider :: "llm_provider \<Rightarrow> bool" where
  "sound_provider P =
    ((\<forall>i p r. lp_evidence_analysis P i p = Inr r \<longrightarrow> evidence_analysis_valid (pr_output r)) \<and>
     (\<forall>i p r. lp_risk_analysis P i p = Inr r \<longrightarrow> risk_analysis_valid (pr_output r)) \<and>
     (\<forall>i p r. lp_narrative P i p = Inr r \<longrightarrow> investigation_narrative_valid (pr_output r)) \<and>
     (\<forall>i p r. lp_recommendations P i p = Inr r \<longrightarrow> planned_recommendation_set_valid (pr_output r)))"

section \<open>The schema Gemini accepts\<close>

definition google_supported_schema_keys :: "string list" where
  "google_supported_schema_keys =
    [''type'', ''enum'', ''items'', ''anyOf'', ''oneOf'', ''properties'', ''additionalProperties'', ''required'']"

definition ref_prefix :: string where
  "ref_prefix = ''#/'' @ [CHR 0x24] @ ''defs/''"

definition map_values_e :: "(json \<Rightarrow> exn + json) \<Rightarrow> dict \<Rightarrow> exn + dict" where
  "map_values_e f d = map_e (\<lambda>(k, v). map_sum id (Pair k) (f v)) d"

text \<open>
  The two functions recur without a bound on their depth; the number is how deep the
  interpreter's stack still allows them to go, and running out is Python's RecursionError.
\<close>

primrec resolve :: "nat \<Rightarrow> dict \<Rightarrow> json \<Rightarrow> exn + json" where
  "resolve 0 definitions v = Inl RecursionError"
| "resolve (Suc n) definitions v =
    (case v of
       JList xs \<Rightarrow> map_sum id JList (map_e (resolve n definitions) xs)
     | JObj d \<Rightarrow>
       (case (case dict_get d ([CHR 0x24] @ ''ref'') of JStr r \<Rightarrow> if startswith r ref_prefix then Some r else None | _ \<Rightarrow> None) of
          Some r \<Rightarrow>
            (case map_of definitions (drop (length ref_prefix) r) of
               None \<Rightarrow> Inl (ValueError (''Unknown local JSON Schema reference: '' @ r))
             | Some target \<Rightarrow> resolve n definitions target)
        | None \<Rightarrow> map_sum id JObj (map_values_e (resolve n definitions) (filter (\<lambda>(k, _). k \<noteq> [CHR 0x24] @ ''defs'') d)))
     | _ \<Rightarrow> Inr v)"

text \<open>(The definitions of a JSON schema are an object.)\<close>

definition inline_schema_refs :: "nat \<Rightarrow> dict \<Rightarrow> exn + json" where
  "inline_schema_refs n schema =
    resolve n (case dict_get schema ([CHR 0x24] @ ''defs'') of JObj d \<Rightarrow> d | _ \<Rightarrow> []) (JObj schema)"

definition is_dict :: "json \<Rightarrow> bool" where
  "is_dict v = (case v of JObj _ \<Rightarrow> True | _ \<Rightarrow> False)"

text \<open>What is asked of a value that is taken as a schema and is no dictionary raises.\<close>

definition schema_entry :: "(json \<Rightarrow> exn + json) \<Rightarrow> string \<Rightarrow> json \<Rightarrow> exn + json" where
  "schema_entry google key v =
    (if key = ''properties''
     then (case v of JObj d \<Rightarrow> map_sum id JObj (map_values_e google d) | _ \<Rightarrow> Inl AttributeError)
     else if key = ''items'' \<and> is_dict v then google v
     else if key \<in> set [''anyOf'', ''oneOf'']
     then (case v of JList xs \<Rightarrow> map_sum id JList (map_e (\<lambda>x. if is_dict x then google x else Inr x) xs) | _ \<Rightarrow> Inl TypeError)
     else if key = ''additionalProperties'' \<and> is_dict v then google v
     else Inr v)"

primrec google_json_schema :: "nat \<Rightarrow> json \<Rightarrow> exn + json" where
  "google_json_schema 0 schema = Inl RecursionError"
| "google_json_schema (Suc n) schema =
    (case schema of
       JObj d \<Rightarrow> then_do (inline_schema_refs n d) (\<lambda>inlined. case inlined of
         JObj d' \<Rightarrow> map_sum id JObj (map_e (\<lambda>(k, v). map_sum id (Pair k) (schema_entry (google_json_schema n) k v))
            (filter (\<lambda>(k, _). k \<in> set google_supported_schema_keys) d'))
       | _ \<Rightarrow> Inl AttributeError)
     | _ \<Rightarrow> Inl AttributeError)"

section \<open>OpenAI\<close>

record 'a openai_response =
  oa_output_parsed :: "'a option"
  oa_id :: string
  oa_usage :: "(int \<times> int) option"

definition used_tokens :: "(int \<times> int) option \<Rightarrow> int \<times> int" where
  "used_tokens usage = (case usage of None \<Rightarrow> (0, 0) | Some u \<Rightarrow> u)"

definition openai_request :: "(rat \<Rightarrow> string) \<Rightarrow> settings \<Rightarrow> string \<Rightarrow> dict \<Rightarrow> dict" where
  "openai_request ff s instructions payload =
    [(''model'', JStr (llm_model s)), (''instructions'', JStr instructions), (''input'', JStr (json_dumps ff (JObj payload))),
     (''max_output_tokens'', JInt (llm_max_output_tokens s)), (''store'', JBool False)]"

definition openai_generate :: "(rat \<Rightarrow> string) \<Rightarrow> settings \<Rightarrow> (dict \<Rightarrow> string + 'a openai_response) \<Rightarrow> string \<Rightarrow> dict \<Rightarrow>
    exn + 'a provider_result" where
  "openai_generate ff s client instructions payload =
    (case client (openai_request ff s instructions payload) of
       Inl err \<Rightarrow> Inl (LLMProviderError (''OpenAI response failed: '' @ err))
     | Inr response \<Rightarrow>
       (case oa_output_parsed response of
          None \<Rightarrow> Inl (LLMProviderError ''OpenAI returned no structured output'')
        | Some output \<Rightarrow> Inr \<lparr>pr_output = output, pr_response_id = oa_id response,
            pr_input_tokens = fst (used_tokens (oa_usage response)), pr_output_tokens = snd (used_tokens (oa_usage response))\<rparr>))"

section \<open>Google AI Studio\<close>

record google_response =
  gr_choices :: "string option list"
  gr_id :: string
  gr_usage :: "(int \<times> int) option"

text \<open>\<^verbatim>\<open>re.search\<close> for the number of seconds after which to retry.\<close>

definition is_separator :: "char \<Rightarrow> bool" where
  "is_separator c = (c = CHR 0x22 \<or> c = CHR 0x3A \<or> is_space c)"

definition separated_number :: "string \<Rightarrow> int option" where
  "separated_number s =
    (let t = dropWhile is_separator s; digits = takeWhile is_digit t
     in if t = s \<or> digits = [] then None else Some (int (nat_of_digits digits)))"

definition word_after :: "string \<Rightarrow> int option" where
  "word_after s = (if startswith (py_lower s) ''after'' then separated_number (drop 5 s) else None)"

definition retry_after_here :: "string \<Rightarrow> int option" where
  "retry_after_here s =
    (if startswith (py_lower s) ''retry''
     then (case drop 5 s of [] \<Rightarrow> None
       | c # t \<Rightarrow> (case (if c = CHR 0x0A then None else word_after t) of Some n \<Rightarrow> Some n | None \<Rightarrow> word_after (c # t)))
     else None)"

fun retry_after :: "string \<Rightarrow> int option" where
  "retry_after [] = None"
| "retry_after (c # s) = (case retry_after_here (c # s) of Some n \<Rightarrow> Some n | None \<Rightarrow> retry_after s)"

definition google_error :: "settings \<Rightarrow> string \<Rightarrow> exn" where
  "google_error s err =
    (if contains err ''429'' \<or> contains (py_lower err) ''quota'' \<or> contains (py_lower err) ''rate_limit''
     then LLMProviderQuotaError (''Google AI Studio quota/rate-limit: '' @ err)
       (case retry_after err of None \<Rightarrow> 60 | Some n \<Rightarrow> n)
     else if contains err ''404'' \<or> contains err ''NOT_FOUND''
     then LLMProviderError (''Google AI Studio 404 Error: Model '' @ [CHR 0x27] @ llm_model s @ [CHR 0x27] @
       '' or endpoint not found. Ensure LLM_MODEL is a valid Gemini model (e.g. gemini-3.5-flash-lite) and '' @
       ''LLM_API_KEY is a valid Google AI Studio key starting with '' @ [CHR 0x27] @ ''AIzaSy...'' @ [CHR 0x27] @
       ''. Error details: '' @ err)
     else if list_ex (\<lambda>code. contains err code) [''500'', ''502'', ''503'', ''504'']
     then LLMProviderTransientError (''Google AI Studio transient error: '' @ err)
     else LLMProviderError (''Google AI Studio response failed: '' @ err))"

fun rstrip_slashes :: "string \<Rightarrow> string" where
  "rstrip_slashes s = rev (dropWhile (\<lambda>c. c = CHR 0x2F) (rev s))"

definition google_base_url :: "settings \<Rightarrow> string" where
  "google_base_url s =
    (let base_url = rstrip_slashes (str_or (llm_base_url s) ''https://generativelanguage.googleapis.com/v1beta/openai'')
     in if endswith base_url ''/openai'' then base_url else base_url @ ''/openai'')"

definition google_request :: "(rat \<Rightarrow> string) \<Rightarrow> settings \<Rightarrow> string \<Rightarrow> json \<Rightarrow> string \<Rightarrow> dict \<Rightarrow> dict" where
  "google_request ff s model_name schema instructions payload =
    [(''model'', JStr (llm_model s)),
     (''messages'', JList [JObj [(''role'', JStr ''system''), (''content'', JStr instructions)],
        JObj [(''role'', JStr ''user''), (''content'', JStr (json_dumps ff (JObj payload)))]]),
     (''response_format'', JObj [(''type'', JStr ''json_schema''),
        (''json_schema'', JObj [(''name'', JStr (py_lower model_name)), (''schema'', schema)])]),
     (''max_tokens'', JInt (llm_max_output_tokens s)), (''reasoning_effort'', JStr ''low'')]"

text \<open>
  \<open>schema\<close> is the model's JSON schema, \<open>validate_json\<close> its validation of a text, both by pydantic.
  An exception of the schema reduction is caught like one of the call.
\<close>

definition google_generate :: "nat \<Rightarrow> (rat \<Rightarrow> string) \<Rightarrow> settings \<Rightarrow> (dict \<Rightarrow> string + google_response) \<Rightarrow> string \<Rightarrow> json \<Rightarrow>
    (string \<Rightarrow> 'a option) \<Rightarrow> string \<Rightarrow> dict \<Rightarrow> exn + 'a provider_result" where
  "google_generate n ff s client model_name schema validate_json instructions payload =
    (case (case google_json_schema n schema of Inl x \<Rightarrow> Inl (exn_text x)
           | Inr reduced \<Rightarrow> client (google_request ff s model_name reduced instructions payload)) of
       Inl err \<Rightarrow> Inl (google_error s err)
     | Inr response \<Rightarrow>
       (case (case gr_choices response of [] \<Rightarrow> None | c # _ \<Rightarrow> c) of
          None \<Rightarrow> Inl (LLMProviderError ''Google AI Studio returned no structured output'')
        | Some [] \<Rightarrow> Inl (LLMProviderError ''Google AI Studio returned no structured output'')
        | Some content \<Rightarrow>
          (case validate_json content of
             None \<Rightarrow> Inl (LLMProviderError ''Google AI Studio returned invalid structured output'')
           | Some output \<Rightarrow> Inr \<lparr>pr_output = output, pr_response_id = gr_id response,
               pr_input_tokens = fst (used_tokens (gr_usage response)), pr_output_tokens = snd (used_tokens (gr_usage response))\<rparr>)))"

section \<open>The mock provider\<close>

text \<open>The references of a payload (the workflow passes a list of texts, or none).\<close>

definition payload_refs :: "dict \<Rightarrow> string list" where
  "payload_refs payload = (case dict_get payload ''valid_evidence_refs'' of JList xs \<Rightarrow> map text_of xs | _ \<Rightarrow> [])"

definition mock_result :: "string \<Rightarrow> 'a \<Rightarrow> 'a provider_result" where
  "mock_result i output = \<lparr>pr_output = output, pr_response_id = ''mock-'' @ i, pr_input_tokens = 150, pr_output_tokens = 300\<rparr>"

definition mock_evidence_analysis :: "dict \<Rightarrow> evidence_analysis" where
  "mock_evidence_analysis payload = \<lparr>
     ea_findings = [\<lparr>ef_title = ''Rapid Login Failures (Brute-Force Pattern)'',
       ef_summary = ''Observed multiple sequential authentication failures from target source IP.'',
       ef_severity = ''high'', ef_confidence = 95 / 100, ef_evidence_refs = take 1 (payload_refs payload)\<rparr>],
     ea_gaps = [''No endpoint EDR memory telemetry provided.'']\<rparr>"

definition mock_risk_analysis :: risk_analysis where
  "mock_risk_analysis = \<lparr>rk_score = 85, rk_severity = ''critical'',
     rk_rationale = ''Authentication failure burst combined with elevated role escalation.'',
     rk_factors = [''Repeated login failure burst'', ''Privilege change event'']\<rparr>"

definition mock_narrative :: investigation_narrative where
  "mock_narrative = \<lparr>
     nv_executive_summary = ''Automated security investigation completed. Attack pattern aligns with credential access and privilege escalation.'',
     nv_attack_story = ''An external entity initiated multiple authentication attempts before gaining access and attempting role elevation.'',
     nv_confidence = 92 / 100\<rparr>"

text \<open>
  \<open>ids\<close> gives the eight hexadecimal digits of the fresh UUIDs. The workflow asks for a
  \<^verbatim>\<open>PlannedRecommendationSet\<close>, a name the mock has no data for: it validates the empty dictionary,
  which lacks the required recommendations.
\<close>

definition mock_provider :: "(nat \<Rightarrow> string) \<Rightarrow> llm_provider" where
  "mock_provider ids = \<lparr>
     lp_evidence_analysis = (\<lambda>_ payload. map_sum id (mock_result (ids 0))
       (constructed evidence_analysis_valid (mock_evidence_analysis payload))),
     lp_risk_analysis = (\<lambda>_ _. map_sum id (mock_result (ids 1)) (constructed risk_analysis_valid mock_risk_analysis)),
     lp_narrative = (\<lambda>_ _. map_sum id (mock_result (ids 2)) (constructed investigation_narrative_valid mock_narrative)),
     lp_recommendations = (\<lambda>_ _. Inl ValidationError)\<rparr>"

section \<open>Choosing a provider\<close>

datatype provider_kind = OpenAI | GoogleAIStudio | Mock

definition google_names :: "string list" where
  "google_names = [''google'', ''google_ai_studio'', ''gemini'']"

definition build_llm_provider :: "settings \<Rightarrow> exn + provider_kind" where
  "build_llm_provider s =
    (let name = py_lower (llm_provider s)
     in if \<not> llm_enabled s \<or> name = ''disabled'' then Inl (LLMProviderDisabledError ''AI investigation is disabled'')
        else if name = ''openai''
        then (if truthy_str (llm_api_key s) then Inr OpenAI else Inl (LLMProviderDisabledError ''LLM_API_KEY is required for OpenAI''))
        else if name \<in> set google_names
        then (if truthy_str (llm_api_key s) then Inr GoogleAIStudio
              else Inl (LLMProviderDisabledError ''LLM_API_KEY is required for Google AI Studio''))
        else if name = ''mock'' then Inr Mock
        else Inl (LLMProviderError (''Unsupported LLM provider: '' @ llm_provider s)))"

section \<open>Facts\<close>

lemma mock_outputs_valid:
  "evidence_analysis_valid (mock_evidence_analysis payload)" "risk_analysis_valid mock_risk_analysis"
  "investigation_narrative_valid mock_narrative"
  by (simp_all add: evidence_analysis_valid_def mock_evidence_analysis_def evidence_finding_valid_def text_within_def
      analysis_severities_def unit_interval_def risk_analysis_valid_def mock_risk_analysis_def
      investigation_narrative_valid_def mock_narrative_def)

lemma mock_provider_sound: "sound_provider (mock_provider ids)"
  by (auto simp: sound_provider_def mock_provider_def constructed_def mock_result_def split: if_splits)

end
