(* ===== verification/Redis.thy ===== *)
theory Redis
  imports PyBase
begin

text \<open>
  The Redis commands the program issues. The server is not part of the repository, so it is a
  parameter: a record of operations on an unknown state \<open>'r\<close>, with the documented behaviour
  of the commands as the assumptions of two locales. Times are those of the call; an expiry
  is reached when the clock is at or past it. A key is used with one type of value only (the
  program's key prefixes are disjoint), so a command on a key of another type, which the
  server refuses, does not occur.

  \<open>mem_redis\<close> is an implementation of the commands on maps; it shows that the laws can hold
  and serves the witnesses.
\<close>

section \<open>The commands\<close>

record 'r redis_api =
  r_get :: "datetime \<Rightarrow> string \<Rightarrow> 'r \<Rightarrow> string option"
  r_set :: "datetime \<Rightarrow> string \<Rightarrow> string \<Rightarrow> int option \<Rightarrow> 'r \<Rightarrow> 'r"
  r_set_nx :: "datetime \<Rightarrow> string \<Rightarrow> string \<Rightarrow> int \<Rightarrow> 'r \<Rightarrow> bool \<times> 'r"
  r_incr :: "datetime \<Rightarrow> string \<Rightarrow> 'r \<Rightarrow> int \<times> 'r"
  r_expire :: "datetime \<Rightarrow> string \<Rightarrow> int \<Rightarrow> 'r \<Rightarrow> 'r"
  r_delete :: "datetime \<Rightarrow> string \<Rightarrow> 'r \<Rightarrow> 'r"
  r_getdel :: "datetime \<Rightarrow> string \<Rightarrow> 'r \<Rightarrow> string option \<times> 'r"
  r_rpush :: "string \<Rightarrow> string \<Rightarrow> 'r \<Rightarrow> 'r"
  r_lpop :: "string \<Rightarrow> 'r \<Rightarrow> string option \<times> 'r"
  r_lrange :: "string \<Rightarrow> 'r \<Rightarrow> string list"
  r_lrem1 :: "string \<Rightarrow> string \<Rightarrow> 'r \<Rightarrow> 'r"
  r_zadd :: "string \<Rightarrow> string \<Rightarrow> int \<Rightarrow> 'r \<Rightarrow> 'r"
  r_zrangebyscore :: "string \<Rightarrow> int \<Rightarrow> int \<Rightarrow> 'r \<Rightarrow> string list"
  r_zrem :: "string \<Rightarrow> string \<Rightarrow> 'r \<Rightarrow> bool \<times> 'r"

text \<open>Python's \<^verbatim>\<open>int(text)\<close> on the decimal texts that INCR leaves; None where it raises.\<close>

definition py_int :: "string \<Rightarrow> int option" where
  "py_int s = (if s \<noteq> [] \<and> list_all is_digit s then Some (int (nat_of_digits s)) else None)"

lemma py_int_str_of_nat [simp]: "py_int (str_of_nat n) = Some (int n)"
  using str_of_nat_digits [of n] by (simp add: py_int_def list_all_iff)

section \<open>The documented behaviour\<close>

locale redis_strings =
  fixes R :: "'r redis_api"
  assumes get_set: "t \<le> t' \<Longrightarrow> r_get R t' k (r_set R t k v ttl s) =
      (case ttl of None \<Rightarrow> Some v | Some n \<Rightarrow> if t' < t + seconds n then Some v else None)"
    and get_set_other: "k' \<noteq> k \<Longrightarrow> r_get R t' k' (r_set R t k v ttl s) = r_get R t' k' s"
    and set_nx: "r_set_nx R t k v n s =
      (if r_get R t k s = None then (True, r_set R t k v (Some n) s) else (False, s))"
    and incr_absent: "r_get R t k s = None \<Longrightarrow> fst (r_incr R t k s) = 1 \<and>
      (t \<le> t' \<longrightarrow> r_get R t' k (snd (r_incr R t k s)) = Some (str_of_nat 1))"
    and incr_present: "r_get R t k s = Some (str_of_nat c) \<Longrightarrow> fst (r_incr R t k s) = int c + 1 \<and>
      (t \<le> t' \<longrightarrow> r_get R t' k (snd (r_incr R t k s)) =
        (if r_get R t' k s = None then None else Some (str_of_nat (Suc c))))"
    and incr_other: "k' \<noteq> k \<Longrightarrow> r_get R t' k' (snd (r_incr R t k s)) = r_get R t' k' s"
    and get_expire: "t \<le> t' \<Longrightarrow> r_get R t' k (r_expire R t k n s) =
      (if t' < t + seconds n then r_get R t k s else None)"
    and expire_other: "k' \<noteq> k \<Longrightarrow> r_get R t' k' (r_expire R t k n s) = r_get R t' k' s"
    and get_delete: "t \<le> t' \<Longrightarrow> r_get R t' k (r_delete R t k s) = None"
    and delete_other: "k' \<noteq> k \<Longrightarrow> r_get R t' k' (r_delete R t k s) = r_get R t' k' s"
    and getdel: "r_getdel R t k s = (r_get R t k s, r_delete R t k s)"
begin

lemma get_set_now: "0 < n \<Longrightarrow> r_get R t k (r_set R t k v (Some n) s) = Some v"
  using get_set [of t t k v "Some n" s] seconds_less [of 0 n] by (simp add: seconds_def)

lemma set_nx_twice: "0 < n \<Longrightarrow> fst (r_set_nx R t k v n (snd (r_set_nx R t k w n s))) = False"
proof -
  assume n: "0 < n"
  have "r_get R t k (snd (r_set_nx R t k w n s)) \<noteq> None"
    using get_set_now [OF n] by (auto simp: set_nx)
  then show ?thesis
    by (auto simp: set_nx)
qed

lemma getdel_once: "t \<le> t' \<Longrightarrow> fst (r_getdel R t' k (snd (r_getdel R t k s))) = None"
  by (simp add: getdel get_delete)

end

text \<open>Lists and sorted sets; \<open>r_lrange\<close> is LRANGE key 0 -1.\<close>

locale redis_queues = redis_strings +
  assumes lrange_rpush: "r_lrange R k' (r_rpush R k v s) = (if k' = k then r_lrange R k s @ [v] else r_lrange R k' s)"
    and lpop: "r_lrange R k' (snd (r_lpop R k s)) = (if k' = k then tl (r_lrange R k s) else r_lrange R k' s)"
    and lpop_item: "fst (r_lpop R k s) = (case r_lrange R k s of [] \<Rightarrow> None | x # _ \<Rightarrow> Some x)"
    and lrem1: "r_lrange R k' (r_lrem1 R k v s) = (if k' = k then remove1 v (r_lrange R k s) else r_lrange R k' s)"
    and lrange_zadd: "r_lrange R k' (r_zadd R k m w s) = r_lrange R k' s"
    and lrange_zrem: "r_lrange R k' (snd (r_zrem R k m s)) = r_lrange R k' s"
    and zrange_rpush: "r_zrangebyscore R k lo hi (r_rpush R q v s) = r_zrangebyscore R k lo hi s"
    and zrange_zadd: "m' \<in> set (r_zrangebyscore R k lo hi (r_zadd R k m w s)) \<longleftrightarrow>
      (if m' = m then lo \<le> w \<and> w \<le> hi else m' \<in> set (r_zrangebyscore R k lo hi s))"
    and zrange_distinct: "distinct (r_zrangebyscore R k lo hi s)"
    and zrem_found: "m \<in> set (r_zrangebyscore R k lo hi s) \<Longrightarrow> fst (r_zrem R k m s)"
    and zrange_zrem: "set (r_zrangebyscore R k lo hi (snd (r_zrem R k m s))) = set (r_zrangebyscore R k lo hi s) - {m}"
    and lrange_set: "q \<noteq> k \<Longrightarrow> r_lrange R q (r_set R t k v ttl s) = r_lrange R q s"
    and lrange_delete: "q \<noteq> k \<Longrightarrow> r_lrange R q (r_delete R t k s) = r_lrange R q s"
    and get_rpush: "k \<noteq> q \<Longrightarrow> r_get R t k (r_rpush R q v s) = r_get R t k s"
    and get_lpop: "k \<noteq> q \<Longrightarrow> r_get R t k (snd (r_lpop R q s)) = r_get R t k s"
begin

lemma lpop_rpush_empty:
  "r_lrange R k s = [] \<Longrightarrow> fst (r_lpop R k (r_rpush R k v s)) = Some v"
  by (simp add: lpop_item lrange_rpush)

lemma lrange_lpop_rpush:
  "r_lrange R k s \<noteq> [] \<Longrightarrow> r_lrange R k (snd (r_lpop R k (r_rpush R k v s))) = tl (r_lrange R k s) @ [v]"
  by (simp add: lpop lrange_rpush)

end

section \<open>An implementation on maps\<close>

record mem_state =
  ms_strings :: "string \<Rightarrow> (string \<times> datetime option) option"
  ms_lists :: "string \<Rightarrow> string list"
  ms_zsets :: "string \<Rightarrow> (string \<times> int) list"

definition mem_empty :: mem_state where
  "mem_empty = \<lparr>ms_strings = Map.empty, ms_lists = (\<lambda>_. []), ms_zsets = (\<lambda>_. [])\<rparr>"

definition live :: "datetime \<Rightarrow> (string \<times> datetime option) option \<Rightarrow> (string \<times> datetime option) option" where
  "live t e = (case e of None \<Rightarrow> None | Some (v, None) \<Rightarrow> Some (v, None)
     | Some (v, Some x) \<Rightarrow> if t < x then Some (v, Some x) else None)"

definition mem_get :: "datetime \<Rightarrow> string \<Rightarrow> mem_state \<Rightarrow> string option" where
  "mem_get t k s = map_option fst (live t (ms_strings s k))"

definition mem_put :: "string \<Rightarrow> (string \<times> datetime option) option \<Rightarrow> mem_state \<Rightarrow> mem_state" where
  "mem_put k e s = s\<lparr>ms_strings := (ms_strings s)(k := e)\<rparr>"

definition mem_set :: "datetime \<Rightarrow> string \<Rightarrow> string \<Rightarrow> int option \<Rightarrow> mem_state \<Rightarrow> mem_state" where
  "mem_set t k v ttl s = mem_put k (Some (v, map_option (\<lambda>n. t + seconds n) ttl)) s"

definition mem_incr :: "datetime \<Rightarrow> string \<Rightarrow> mem_state \<Rightarrow> int \<times> mem_state" where
  "mem_incr t k s = (case live t (ms_strings s k) of
      None \<Rightarrow> (1, mem_put k (Some (str_of_nat 1, None)) s)
    | Some (v, x) \<Rightarrow> (let n = Suc (nat_of_digits v) in (int n, mem_put k (Some (str_of_nat n, x)) s)))"

definition mem_expire :: "datetime \<Rightarrow> string \<Rightarrow> int \<Rightarrow> mem_state \<Rightarrow> mem_state" where
  "mem_expire t k n s = (case live t (ms_strings s k) of None \<Rightarrow> mem_put k None s
     | Some (v, _) \<Rightarrow> mem_put k (Some (v, Some (t + seconds n))) s)"

definition mem_redis :: "mem_state redis_api" where
  "mem_redis =
    \<lparr>r_get = mem_get,
     r_set = mem_set,
     r_set_nx = (\<lambda>t k v n s. if mem_get t k s = None then (True, mem_set t k v (Some n) s) else (False, s)),
     r_incr = mem_incr,
     r_expire = mem_expire,
     r_delete = (\<lambda>t k. mem_put k None),
     r_getdel = (\<lambda>t k s. (mem_get t k s, mem_put k None s)),
     r_rpush = (\<lambda>k v s. s\<lparr>ms_lists := (ms_lists s)(k := ms_lists s k @ [v])\<rparr>),
     r_lpop = (\<lambda>k s. (case ms_lists s k of [] \<Rightarrow> None | x # _ \<Rightarrow> Some x,
        s\<lparr>ms_lists := (ms_lists s)(k := tl (ms_lists s k))\<rparr>)),
     r_lrange = (\<lambda>k s. ms_lists s k),
     r_lrem1 = (\<lambda>k v s. s\<lparr>ms_lists := (ms_lists s)(k := remove1 v (ms_lists s k))\<rparr>),
     r_zadd = (\<lambda>k m w s. s\<lparr>ms_zsets := (ms_zsets s)(k := (m, w) # filter (\<lambda>(x, _). x \<noteq> m) (ms_zsets s k))\<rparr>),
     r_zrangebyscore = (\<lambda>k lo hi s. remdups (map fst (sort_key (\<lambda>(m, w). (w, m))
        (filter (\<lambda>(_, w). lo \<le> w \<and> w \<le> hi) (ms_zsets s k))))),
     r_zrem = (\<lambda>k m s. (m \<in> fst ` set (ms_zsets s k),
        s\<lparr>ms_zsets := (ms_zsets s)(k := filter (\<lambda>(x, _). x \<noteq> m) (ms_zsets s k))\<rparr>))\<rparr>"

lemma mem_get_put: "mem_get t k' (mem_put k e s) = (if k' = k then map_option fst (live t e) else mem_get t k' s)"
  by (simp add: mem_get_def mem_put_def)

lemma live_simps [simp]:
  "live t None = None" "live t (Some (v, None)) = Some (v, None)"
  "live t (Some (v, Some x)) = (if t < x then Some (v, Some x) else None)"
  by (simp_all add: live_def)

lemma mem_get_None: "mem_get t k s = None \<longleftrightarrow> live t (ms_strings s k) = None"
  by (simp add: mem_get_def)

lemma mem_set_get:
  "t \<le> t' \<Longrightarrow> mem_get t' k (mem_set t k v ttl s) =
    (case ttl of None \<Rightarrow> Some v | Some n \<Rightarrow> if t' < t + seconds n then Some v else None)"
  by (simp add: mem_set_def mem_get_put split: option.split)

lemma mem_incr_absent:
  "mem_get t k s = None \<Longrightarrow> fst (mem_incr t k s) = 1 \<and> mem_get t' k (snd (mem_incr t k s)) = Some (str_of_nat 1)"
  by (simp add: mem_incr_def mem_get_None mem_get_put)

lemma mem_incr_present:
  assumes "mem_get t k s = Some (str_of_nat n)" and "t \<le> t'"
  shows "fst (mem_incr t k s) = int n + 1 \<and> mem_get t' k (snd (mem_incr t k s)) =
    (if mem_get t' k s = None then None else Some (str_of_nat (Suc n)))"
proof -
  obtain x where l: "live t (ms_strings s k) = Some (str_of_nat n, x)"
    using assms(1) by (auto simp: mem_get_def)
  then have x: "ms_strings s k = Some (str_of_nat n, x)"
    by (auto simp: live_def split: option.splits prod.splits if_splits)
  from l have "mem_incr t k s = (int n + 1, mem_put k (Some (str_of_nat (Suc n), x)) s)"
    by (simp add: mem_incr_def)
  moreover have "mem_get t' k s = map_option fst (live t' (Some (str_of_nat n, x)))"
    by (simp add: mem_get_def x)
  ultimately show ?thesis
    by (cases x) (simp_all add: mem_get_put)
qed

lemma mem_expire_get:
  assumes "t \<le> t'"
  shows "mem_get t' k (mem_expire t k n s) = (if t' < t + seconds n then mem_get t k s else None)"
proof (cases "live t (ms_strings s k)")
  case None
  then have "mem_get t k s = None" by (simp add: mem_get_None)
  with None show ?thesis by (simp add: mem_expire_def mem_get_put)
next
  case (Some p)
  then have "mem_get t k s = Some (fst p)" by (simp add: mem_get_def)
  with Some show ?thesis by (cases p) (simp add: mem_expire_def mem_get_put)
qed

interpretation mem: redis_queues mem_redis
proof unfold_locales
  show "fst (r_incr mem_redis t k s) = int n + 1 \<and> (t \<le> t' \<longrightarrow> r_get mem_redis t' k (snd (r_incr mem_redis t k s)) =
      (if r_get mem_redis t' k s = None then None else Some (str_of_nat (Suc n))))"
    if "r_get mem_redis t k s = Some (str_of_nat n)" for t k s n t'
    using that mem_incr_present [of t k s n t'] mem_incr_present [of t k s n t] by (simp add: mem_redis_def)
  show "r_get mem_redis t' k' (snd (r_incr mem_redis t k s)) = r_get mem_redis t' k' s" if "k' \<noteq> k" for k' k t' t s
    using that by (simp add: mem_redis_def mem_incr_def mem_get_put Let_def split: option.split)
  show "fst (r_zrem mem_redis k m s)" if "m \<in> set (r_zrangebyscore mem_redis k lo hi s)" for m k lo hi s
    using that by (force simp: mem_redis_def)
  show "r_get mem_redis t' k' (r_expire mem_redis t k n s) = r_get mem_redis t' k' s" if "k' \<noteq> k" for k' k t' t n s
    using that by (simp add: mem_redis_def mem_expire_def mem_get_put split: option.split)
  show "r_get mem_redis t k (r_rpush mem_redis q v s) = r_get mem_redis t k s" for k q t v s
    by (simp add: mem_redis_def mem_get_def)
  show "r_get mem_redis t k (snd (r_lpop mem_redis q s)) = r_get mem_redis t k s" for k q t s
    by (simp add: mem_redis_def mem_get_def)
  show "r_lrange mem_redis q (r_set mem_redis t k v ttl s) = r_lrange mem_redis q s" for q k t v ttl s
    by (simp add: mem_redis_def mem_set_def mem_put_def)
  show "r_lrange mem_redis q (r_delete mem_redis t k s) = r_lrange mem_redis q s" for q k t s
    by (simp add: mem_redis_def mem_put_def)
qed (auto simp: mem_redis_def mem_set_get mem_get_put mem_incr_absent mem_expire_get mem_set_def image_iff
    split: list.splits option.split)

end
