(* ===== verification/Tokens.thy ===== *)
theory Tokens
  imports Models PyUuid Redis "HOL-Library.Countable"
begin

text \<open>
  Credentials: \<^verbatim>\<open>security/passwords.py\<close>, \<^verbatim>\<open>security/tokens.py\<close> and \<^verbatim>\<open>security/rate_limit.py\<close>.
  SHA-256, the password hash of pwdlib and PyJWT are third-party code and come as a record of
  functions; what the program relies on is in \<open>password_laws\<close> and \<open>jwt_laws\<close>.
\<close>

section \<open>Third-party cryptography\<close>

record crypto =
  cr_sha256 :: "string \<Rightarrow> string"
  cr_hash_password :: "string \<Rightarrow> string \<Rightarrow> string"
  cr_verify_password :: "string \<Rightarrow> string \<Rightarrow> bool"
  cr_jwt_encode :: "(string \<times> json) list \<Rightarrow> string \<Rightarrow> string"
  cr_jwt_decode :: "datetime \<Rightarrow> string \<Rightarrow> string \<Rightarrow> string \<Rightarrow> string \<Rightarrow> ((string \<times> json) list) option"

text \<open>\<^verbatim>\<open>verify(password, hash(password))\<close> holds for every salt.\<close>

definition password_laws :: "crypto \<Rightarrow> bool" where
  "password_laws cr = (\<forall>salt pw. cr_verify_password cr pw (cr_hash_password cr salt pw))"

definition required_claims :: "string list" where
  "required_claims = [''sub'', ''sid'', ''jti'', ''type'', ''iss'', ''aud'', ''iat'', ''nbf'', ''exp'']"

text \<open>
  \<^verbatim>\<open>jwt.decode\<close> of a token made with the same key: the claims, when all required ones are
  there, issuer and audience are the expected ones, and the time is within nbf, iat and exp.
\<close>

definition jwt_laws :: "crypto \<Rightarrow> bool" where
  "jwt_laws cr = (\<forall>claims key aud iss t iat nbf ex.
     (\<forall>k \<in> set required_claims. map_of claims k \<noteq> None) \<and>
     map_of claims ''aud'' = Some (JStr aud) \<and> map_of claims ''iss'' = Some (JStr iss) \<and>
     map_of claims ''iat'' = Some (JInt iat) \<and> map_of claims ''nbf'' = Some (JInt nbf) \<and>
     map_of claims ''exp'' = Some (JInt ex) \<and> seconds iat \<le> t \<and> seconds nbf \<le> t \<and> t < seconds ex
     \<longrightarrow> cr_jwt_decode cr t (cr_jwt_encode cr claims key) key aud iss = Some claims)"

section \<open>Passwords\<close>

definition normalize_email :: "string \<Rightarrow> string" where
  "normalize_email email = py_casefold (py_strip email)"

definition hash_password :: "crypto \<Rightarrow> string \<Rightarrow> string \<Rightarrow> string" where
  "hash_password cr salt password = cr_hash_password cr salt password"

definition verify_password :: "crypto \<Rightarrow> string \<Rightarrow> string \<Rightarrow> bool" where
  "verify_password cr password encoded = cr_verify_password cr password encoded"

section \<open>Access tokens\<close>

text \<open>A datetime claim is encoded as its whole seconds.\<close>

definition claim_time :: "datetime \<Rightarrow> json" where
  "claim_time t = JInt (t div 1000000)"

definition create_access_token :: "crypto \<Rightarrow> settings \<Rightarrow> uuid \<Rightarrow> datetime \<Rightarrow> uuid \<Rightarrow> uuid \<Rightarrow> string \<times> int" where
  "create_access_token cr st jti now user_id family_id =
    (let expires_in = auth_access_token_minutes st * 60;
         payload = [(''sub'', JStr (uuid_str user_id)), (''sid'', JStr (uuid_str family_id)),
           (''jti'', JStr (uuid_str jti)), (''type'', JStr ''access''), (''iss'', JStr (auth_jwt_issuer st)),
           (''aud'', JStr (auth_jwt_audience st)), (''iat'', claim_time now), (''nbf'', claim_time now),
           (''exp'', claim_time (now + seconds expires_in))]
     in (cr_jwt_encode cr payload (secret_key st), expires_in))"

record access_claims =
  ac_user_id :: uuid
  ac_family_id :: uuid
  ac_claims :: "(string \<times> json) list"

text \<open>
  \<^verbatim>\<open>uuid.UUID(value)\<close> of a claim: a text is parsed (ValueError becomes the token error), None
  is a TypeError, which is caught too, and any other value an AttributeError, which is not.
\<close>

definition claim_uuid :: "json \<Rightarrow> exn + uuid" where
  "claim_uuid v = (case v of JStr s \<Rightarrow> (case uuid_parse s of None \<Rightarrow> Inl InvalidAccessTokenError | Some u \<Rightarrow> Inr u)
     | JNull \<Rightarrow> Inl InvalidAccessTokenError | _ \<Rightarrow> Inl AttributeError)"

definition decode_access_token :: "crypto \<Rightarrow> settings \<Rightarrow> datetime \<Rightarrow> string \<Rightarrow> exn + access_claims" where
  "decode_access_token cr st now token =
    (case cr_jwt_decode cr now token (secret_key st) (auth_jwt_audience st) (auth_jwt_issuer st) of
       None \<Rightarrow> Inl InvalidAccessTokenError
     | Some claims \<Rightarrow>
         if dict_get claims ''type'' \<noteq> JStr ''access'' then Inl InvalidAccessTokenError
         else then_do (claim_uuid (dict_get claims ''sub'')) (\<lambda>u.
              then_do (claim_uuid (dict_get claims ''sid'')) (\<lambda>f.
              Inr \<lparr>ac_user_id = u, ac_family_id = f, ac_claims = claims\<rparr>)))"

section \<open>Refresh tokens and API keys\<close>

definition hash_secret :: "crypto \<Rightarrow> string \<Rightarrow> string" where
  "hash_secret cr secret = cr_sha256 cr secret"

definition generate_refresh_token :: "crypto \<Rightarrow> string \<Rightarrow> uuid \<Rightarrow> string \<times> string" where
  "generate_refresh_token cr secret session_id = (uuid_str session_id @ ''.'' @ secret, hash_secret cr secret)"

definition parse_refresh_token :: "string \<Rightarrow> (uuid \<times> string) option" where
  "parse_refresh_token token = (case split_once CHR ''.'' token of None \<Rightarrow> None
     | Some (raw_id, secret) \<Rightarrow> (case uuid_parse raw_id of None \<Rightarrow> None | Some u \<Rightarrow> Some (u, secret)))"

definition generate_api_key :: "crypto \<Rightarrow> string \<Rightarrow> string \<Rightarrow> string \<times> string \<times> string" where
  "generate_api_key cr pfx secret = (''aisoc_'' @ pfx @ ''_'' @ secret, pfx, hash_secret cr secret)"

definition parse_api_key :: "string \<Rightarrow> (string \<times> string) option" where
  "parse_api_key value = (case split_once CHR ''_'' value of None \<Rightarrow> None
     | Some (marker, rest) \<Rightarrow> (case split_once CHR ''_'' rest of None \<Rightarrow> None
       | Some (pfx, secret) \<Rightarrow>
           if marker \<noteq> ''aisoc'' \<or> pfx = [] \<or> secret = [] then None else Some (pfx, secret)))"

lemma parse_generated_refresh_token [simp]:
  "parse_refresh_token (fst (generate_refresh_token cr secret i)) = Some (i, secret)"
  using uuid_str_no_sep [of "CHR ''.''" i] by (simp add: parse_refresh_token_def generate_refresh_token_def)

lemma parse_generated_api_key:
  assumes "pfx \<noteq> []" "CHR ''_'' \<notin> set pfx" "secret \<noteq> []"
  shows "parse_api_key (fst (generate_api_key cr pfx secret)) = Some (pfx, secret)"
proof -
  have "split_once CHR ''_'' (''aisoc'' @ CHR ''_'' # pfx @ CHR ''_'' # secret) = Some (''aisoc'', pfx @ CHR ''_'' # secret)"
    by (rule split_once_append) simp
  then show ?thesis using assms by (simp add: parse_api_key_def generate_api_key_def)
qed

lemma dict_get_map_of: "map_of d k = Some v \<Longrightarrow> dict_get d k = v"
  by (simp add: dict_get_def)

lemma seconds_div: "seconds (t div 1000000) \<le> t"
  by (simp add: seconds_def)

lemma div_seconds_add: "(t + seconds n) div 1000000 = t div 1000000 + n"
  by (simp add: seconds_def)

text \<open>
  an access token made at some time decodes, at every later time before it expires, to the
  user and the session family it was made for; its lifetime is the configured number of
  minutes, counted from the start of the second it was issued in.
\<close>

theorem access_token_roundtrip:
  assumes "jwt_laws cr" and "now \<le> t" and "t < drop_micros now + seconds (auth_access_token_minutes st * 60)"
  shows "\<exists>claims. decode_access_token cr st t (fst (create_access_token cr st jti now user_id family_id))
     = Inr \<lparr>ac_user_id = user_id, ac_family_id = family_id, ac_claims = claims\<rparr> \<and>
     dict_get claims ''iat'' = JInt (now div 1000000)"
proof -
  define ex where "ex = (now + seconds (auth_access_token_minutes st * 60)) div 1000000"
  define payload where "payload = [(''sub'', JStr (uuid_str user_id)), (''sid'', JStr (uuid_str family_id)),
           (''jti'', JStr (uuid_str jti)), (''type'', JStr ''access''), (''iss'', JStr (auth_jwt_issuer st)),
           (''aud'', JStr (auth_jwt_audience st)), (''iat'', JInt (now div 1000000)), (''nbf'', JInt (now div 1000000)),
           (''exp'', JInt ex)]"
  have token: "fst (create_access_token cr st jti now user_id family_id) = cr_jwt_encode cr payload (secret_key st)"
    by (simp add: create_access_token_def payload_def claim_time_def ex_def Let_def)
  have iat: "seconds (now div 1000000) \<le> t" using seconds_div [of now] assms(2) by linarith
  have "seconds (now div 1000000) = drop_micros now"
    by (simp add: seconds_def drop_micros_def minus_mod_eq_div_mult)
  then have exp: "t < seconds ex"
    using assms(3) unfolding ex_def div_seconds_add by (simp add: seconds_def algebra_simps)
  have "cr_jwt_decode cr t (cr_jwt_encode cr payload (secret_key st)) (secret_key st) (auth_jwt_audience st)
      (auth_jwt_issuer st) = Some payload"
    by (rule assms(1) [unfolded jwt_laws_def, rule_format, of payload "auth_jwt_audience st" "auth_jwt_issuer st"
          "now div 1000000" "now div 1000000" ex])
      (use iat exp in \<open>simp add: payload_def required_claims_def\<close>)
  moreover have "dict_get payload ''type'' = JStr ''access''" "dict_get payload ''sub'' = JStr (uuid_str user_id)"
    "dict_get payload ''sid'' = JStr (uuid_str family_id)" "dict_get payload ''iat'' = JInt (now div 1000000)"
    by (simp_all add: payload_def dict_get_def)
  ultimately show ?thesis
    by (simp add: decode_access_token_def token claim_uuid_def)
qed

text \<open>A token format for which the laws hold: the claims' number in an enumeration, in decimal.\<close>

instance json :: countable
  by countable_datatype

definition enumerated_jwt :: crypto where
  "enumerated_jwt = \<lparr>cr_sha256 = (\<lambda>s. s), cr_hash_password = (\<lambda>salt pw. pw),
     cr_verify_password = (\<lambda>pw h. pw = h), cr_jwt_encode = (\<lambda>claims key. str_of_nat (to_nat claims)),
     cr_jwt_decode = (\<lambda>t token key aud iss. Some (from_nat (nat_of_digits token)))\<rparr>"

lemma enumerated_jwt_laws: "jwt_laws enumerated_jwt"
  by (simp add: jwt_laws_def enumerated_jwt_def)

theorem access_token_roundtrip_witness:
  "\<exists>claims. decode_access_token enumerated_jwt (default_settings [] [] []) (seconds 899)
     (fst (create_access_token enumerated_jwt (default_settings [] [] []) 3 999999 1 2))
     = Inr \<lparr>ac_user_id = 1, ac_family_id = 2, ac_claims = claims\<rparr>"
  using access_token_roundtrip [OF enumerated_jwt_laws, of 999999 "seconds 899" "default_settings [] [] []" 3 1 2]
  by (simp add: seconds_def drop_micros_def) blast

section \<open>Rate limits\<close>

definition account_key :: "crypto \<Rightarrow> string \<Rightarrow> string" where
  "account_key cr email = ''ai_soc:auth:account:'' @ cr_sha256 cr email"

definition ip_key :: "crypto \<Rightarrow> string \<Rightarrow> string" where
  "ip_key cr source_ip = ''ai_soc:auth:ip:'' @ cr_sha256 cr source_ip"

definition register_ip_key :: "crypto \<Rightarrow> string \<Rightarrow> string" where
  "register_ip_key cr source_ip = ''ai_soc:auth:register_ip:'' @ cr_sha256 cr source_ip"

text \<open>\<^verbatim>\<open>int(value or 0)\<close>.\<close>

definition counter_value :: "string option \<Rightarrow> exn + int" where
  "counter_value v = (if truthy_str v then (case py_int (the v) of None \<Rightarrow> Inl (ValueError ''int'') | Some n \<Rightarrow> Inr n)
     else Inr 0)"

definition is_limited :: "'r redis_api \<Rightarrow> crypto \<Rightarrow> settings \<Rightarrow> datetime \<Rightarrow> string \<Rightarrow> string \<Rightarrow> 'r \<Rightarrow> exn + bool" where
  "is_limited R cr st now email source_ip s =
    then_do (counter_value (r_get R now (account_key cr email) s)) (\<lambda>account.
      if auth_login_account_limit st \<le> account then Inr True
      else then_do (counter_value (r_get R now (ip_key cr source_ip) s)) (\<lambda>ip.
        Inr (auth_login_ip_limit st \<le> ip)))"

definition bump :: "'r redis_api \<Rightarrow> settings \<Rightarrow> datetime \<Rightarrow> string \<Rightarrow> 'r \<Rightarrow> 'r" where
  "bump R st now key s = (case r_incr R now key s of (count, s') \<Rightarrow>
     if count = 1 then r_expire R now key (auth_login_window_seconds st) s' else s')"

definition record_failure :: "'r redis_api \<Rightarrow> crypto \<Rightarrow> settings \<Rightarrow> datetime \<Rightarrow> string \<Rightarrow> string \<Rightarrow> 'r \<Rightarrow> 'r" where
  "record_failure R cr st now email source_ip s =
    bump R st now (ip_key cr source_ip) (bump R st now (account_key cr email) s)"

definition clear_account :: "'r redis_api \<Rightarrow> crypto \<Rightarrow> datetime \<Rightarrow> string \<Rightarrow> 'r \<Rightarrow> 'r" where
  "clear_account R cr now email s = r_delete R now (account_key cr email) s"

definition is_register_limited :: "'r redis_api \<Rightarrow> crypto \<Rightarrow> datetime \<Rightarrow> string \<Rightarrow> 'r \<Rightarrow> exn + bool" where
  "is_register_limited R cr now source_ip s =
    then_do (counter_value (r_get R now (register_ip_key cr source_ip) s)) (\<lambda>n. Inr (5 \<le> n))"

definition record_register_attempt :: "'r redis_api \<Rightarrow> crypto \<Rightarrow> settings \<Rightarrow> datetime \<Rightarrow> string \<Rightarrow> 'r \<Rightarrow> 'r" where
  "record_register_attempt R cr st now source_ip s = bump R st now (register_ip_key cr source_ip) s"

lemma keys_differ [simp]:
  "account_key cr e \<noteq> ip_key cr i" "ip_key cr i \<noteq> account_key cr e"
  "register_ip_key cr i \<noteq> account_key cr e" "register_ip_key cr i \<noteq> ip_key cr j"
  by (simp_all add: account_key_def ip_key_def register_ip_key_def)

text \<open>
  The state of one counter: \<open>n\<close> failures (\<open>0 < n\<close>), the first at \<open>t0\<close>, as seen at any time
  from \<open>t\<close> on.
\<close>

definition counter_state :: "'r redis_api \<Rightarrow> settings \<Rightarrow> string \<Rightarrow> datetime \<Rightarrow> nat \<Rightarrow> datetime \<Rightarrow> 'r \<Rightarrow> bool" where
  "counter_state R st key t0 n t s = (\<forall>t' \<ge> t. r_get R t' key s =
     (if t' < t0 + seconds (auth_login_window_seconds st) then Some (str_of_nat n) else None))"

context redis_strings
begin

lemma bump_other: "k \<noteq> key \<Longrightarrow> r_get R t' k (bump R st t key s) = r_get R t' k s"
  by (simp add: bump_def split_beta incr_other expire_other)

lemma bump_first:
  assumes "r_get R t key s = None"
  shows "counter_state R st key t 1 t (bump R st t key s)"
  using incr_absent [OF assms] by (simp add: bump_def counter_state_def split_beta get_expire)

lemma bump_next:
  assumes "counter_state R st key t0 n t s" and "0 < n" and "t \<le> t1"
    and "t1 < t0 + seconds (auth_login_window_seconds st)"
  shows "counter_state R st key t0 (Suc n) t1 (bump R st t1 key s)"
proof -
  have cur: "r_get R t1 key s = Some (str_of_nat n)"
    using assms by (simp add: counter_state_def)
  have "r_get R t' key (bump R st t1 key s) = (if t' < t0 + seconds (auth_login_window_seconds st)
      then Some (str_of_nat (Suc n)) else None)" if "t1 \<le> t'" for t'
    using incr_present [OF cur, of t'] that assms by (simp add: bump_def split_beta counter_state_def)
  then show ?thesis by (simp add: counter_state_def)
qed

lemma counter_state_later: "counter_state R st key t0 n t s \<Longrightarrow> t \<le> t' \<Longrightarrow> counter_state R st key t0 n t' s"
  by (simp add: counter_state_def)

lemma bumps:
  assumes "counter_state R st key t0 n t s" and "0 < n" and "sorted (t # ts)"
    and "\<forall>x \<in> set ts. x < t0 + seconds (auth_login_window_seconds st)"
  shows "counter_state R st key t0 (n + length ts) (last (t # ts)) (fold (\<lambda>x. bump R st x key) ts s)"
  using assms
proof (induction ts arbitrary: n t s)
  case (Cons x xs)
  then have "counter_state R st key t0 (Suc n) x (bump R st x key s)"
    by (intro bump_next) auto
  from Cons.IH [OF this] Cons.prems show ?case by simp
qed simp

end

lemma counter_value_nat [simp]: "counter_value (Some (str_of_nat n)) = Inr (int n)" "counter_value None = Inr 0"
  by (simp_all add: counter_value_def)

text \<open>Failed logins of one account at the given times, from addresses of their own.\<close>

definition failures_at :: "'r redis_api \<Rightarrow> crypto \<Rightarrow> settings \<Rightarrow> string \<Rightarrow> (datetime \<times> string) list \<Rightarrow> 'r \<Rightarrow> 'r" where
  "failures_at R cr st email fs s = fold (\<lambda>(t, ip). record_failure R cr st t email ip) fs s"

lemma counter_state_record_failure:
  assumes "redis_strings R"
  shows "counter_state R st (account_key cr email) t0 n t (record_failure R cr st x email ip s)
    = counter_state R st (account_key cr email) t0 n t (bump R st x (account_key cr email) s)"
  by (simp add: counter_state_def record_failure_def redis_strings.bump_other [OF assms])

lemma counter_state_failures:
  assumes R: "redis_strings R" and "counter_state R st (account_key cr email) t0 n t s" and "0 < n"
    and "sorted (t # map fst fs)" and "\<forall>(x, _) \<in> set fs. x < t0 + seconds (auth_login_window_seconds st)"
  shows "counter_state R st (account_key cr email) t0 (n + length fs) (last (t # map fst fs))
    (failures_at R cr st email fs s)"
  using assms(2-)
proof (induction fs arbitrary: n t s)
  case (Cons f fs)
  obtain x ip where f: "f = (x, ip)" by (cases f)
  have "counter_state R st (account_key cr email) t0 (Suc n) x (bump R st x (account_key cr email) s)"
    using Cons.prems by (intro redis_strings.bump_next [OF R, where t = t]) (auto simp: f)
  then have "counter_state R st (account_key cr email) t0 (Suc n) x (record_failure R cr st x email ip s)"
    by (simp add: counter_state_record_failure [OF R])
  from Cons.IH [OF this] Cons.prems show ?case by (simp add: f failures_at_def)
qed (simp add: failures_at_def)

text \<open>
  after \<open>n\<close> failed logins of an account in one window (from any addresses, the first when
  the account's counter was absent), further attempts are refused until the window that
  began with the first failure ends, exactly when \<open>n\<close> is at least the configured limit; when
  the window is over, the account is free again. (The address's own limit is the second test.)
\<close>

theorem login_lockout:
  assumes "redis_strings R" and "settings_valid st"
    and "r_get R t0 (account_key cr email) s = None"
    and "sorted (t0 # map fst fs)" and "\<forall>(x, _) \<in> set fs. x < t0 + seconds (auth_login_window_seconds st)"
    and "last (t0 # map fst fs) \<le> t"
    and "s' = failures_at R cr st email ((t0, ip0) # fs) s"
  shows "(t < t0 + seconds (auth_login_window_seconds st) \<and> auth_login_account_limit st \<le> int (Suc (length fs))
        \<longrightarrow> is_limited R cr st t email ip s' = Inr True) \<and>
     (r_get R t (ip_key cr ip) s' = None \<and>
        (t0 + seconds (auth_login_window_seconds st) \<le> t \<or> int (Suc (length fs)) < auth_login_account_limit st)
        \<longrightarrow> is_limited R cr st t email ip s' = Inr False)"
proof -
  have "counter_state R st (account_key cr email) t0 1 t0 (record_failure R cr st t0 email ip0 s)"
    unfolding counter_state_record_failure [OF assms(1)] by (rule redis_strings.bump_first [OF assms(1,3)])
  from counter_state_failures [OF assms(1) this _ assms(4,5)]
  have "counter_state R st (account_key cr email) t0 (Suc (length fs)) (last (t0 # map fst fs)) s'"
    by (simp add: assms(7) failures_at_def)
  then have acc: "r_get R t (account_key cr email) s' =
      (if t < t0 + seconds (auth_login_window_seconds st) then Some (str_of_nat (Suc (length fs))) else None)"
    using assms(6) by (simp add: counter_state_def)
  have "1 \<le> auth_login_account_limit st" "1 \<le> auth_login_ip_limit st"
    using assms(2) by (auto simp: settings_valid_def settings_bounds_def)
  then show ?thesis by (auto simp: is_limited_def acc)
qed

definition example_crypto :: crypto where
  "example_crypto = \<lparr>cr_sha256 = (\<lambda>s. s), cr_hash_password = (\<lambda>salt pw. pw),
     cr_verify_password = (\<lambda>pw h. pw = h), cr_jwt_encode = (\<lambda>claims key. []),
     cr_jwt_decode = (\<lambda>t token key aud iss. None)\<rparr>"

theorem login_lockout_witness:
  "is_limited mem_redis example_crypto (default_settings ''d'' ''r'' ''0123456789abcdef0123456789abcdef'')
     (seconds 60) ''eve'' ''10.0.0.9''
     (failures_at mem_redis example_crypto (default_settings ''d'' ''r'' ''0123456789abcdef0123456789abcdef'') ''eve''
       [(0, ''10.0.0.1''), (0, ''10.0.0.2''), (0, ''10.0.0.3''), (0, ''10.0.0.4''), (0, ''10.0.0.5'')] mem_empty) = Inr True"
proof -
  let ?st = "default_settings ''d'' ''r'' ''0123456789abcdef0123456789abcdef''"
  have valid: "settings_valid ?st" by (rule default_settings_valid)
  have "r_get mem_redis 0 (account_key example_crypto ''eve'') mem_empty = None"
    by (simp add: mem_redis_def mem_get_def mem_empty_def)
  from login_lockout [OF mem.redis_strings_axioms valid this,
      of "[(0, ''10.0.0.2''), (0, ''10.0.0.3''), (0, ''10.0.0.4''), (0, ''10.0.0.5'')]" "seconds 60" _ "''10.0.0.1''" "''10.0.0.9''", OF _ _ _ refl]
  show ?thesis by (simp add: default_settings_simps seconds_def)
qed

end
