(* ===== verification/Auth.thy ===== *)
theory Auth
  imports AuditTrail Tokens
begin

text \<open>
  Users, sessions and API keys: \<^verbatim>\<open>repositories/auth_repository.py\<close>, \<^verbatim>\<open>services/auth_service.py\<close>,
  \<^verbatim>\<open>services/user_service.py\<close>, \<^verbatim>\<open>services/api_key_service.py\<close>, \<^verbatim>\<open>services/bootstrap_service.py\<close>
  and \<^verbatim>\<open>security/dependencies.py\<close>. The world is the database and the Redis server; an operation
  returns its result or exception and the world it leaves, since several commit (the audit
  row) before they raise. The k-th clock reading, UUID and secret that an operation draws are
  those of its environment \<open>en\<close>, numbered in the order of the code. The row locked by \<^verbatim>\<open>FOR UPDATE\<close> makes an
  operation on a session one step.
\<close>

record 'r world =
  wd_db :: db
  wd_redis :: 'r

section \<open>Repositories\<close>

definition get_by_email :: "string \<Rightarrow> db \<Rightarrow> user option" where
  "get_by_email email d = find (\<lambda>u. us_email u = email) (db_users d)"

definition users_list :: "nat \<Rightarrow> nat \<Rightarrow> db \<Rightarrow> user list \<times> nat" where
  "users_list limit offset d =
    (take limit (drop offset (sort_key (\<lambda>u. - us_created_at u) (db_users d))), length (db_users d))"

definition role_exists :: "string \<Rightarrow> db \<Rightarrow> bool" where
  "role_exists role d = (role \<in> ro_name ` set (db_roles d))"

definition active_admin :: "user \<Rightarrow> bool" where
  "active_admin u = (us_role_name u = ''admin'' \<and> us_is_active u)"

definition active_admin_count :: "db \<Rightarrow> int" where
  "active_admin_count d = int (length (filter active_admin (db_users d)))"

definition family_is_active :: "uuid \<Rightarrow> datetime \<Rightarrow> db \<Rightarrow> bool" where
  "family_is_active family_id now d = (filter (\<lambda>s. as_family_id s = family_id \<and> as_revoked_at s = None \<and>
     now < as_expires_at s) (db_auth_sessions d) \<noteq> [])"

definition revoke_family :: "uuid \<Rightarrow> datetime \<Rightarrow> db \<Rightarrow> db" where
  "revoke_family family_id now d = d\<lparr>db_auth_sessions :=
     update_where (\<lambda>s. as_family_id s = family_id \<and> as_revoked_at s = None) (as_revoked_at_update (\<lambda>_. Some now))
       (db_auth_sessions d)\<rparr>"

definition revoke_user :: "uuid \<Rightarrow> datetime \<Rightarrow> db \<Rightarrow> db" where
  "revoke_user user_id now d = d\<lparr>db_auth_sessions :=
     update_where (\<lambda>s. as_user_id s = user_id \<and> as_revoked_at s = None) (as_revoked_at_update (\<lambda>_. Some now))
       (db_auth_sessions d)\<rparr>"

definition get_by_prefix :: "string \<Rightarrow> db \<Rightarrow> service_api_key option" where
  "get_by_prefix pfx d = find (\<lambda>k. ak_prefix k = pfx) (db_api_keys d)"

definition api_keys_list :: "nat \<Rightarrow> nat \<Rightarrow> db \<Rightarrow> service_api_key list \<times> nat" where
  "api_keys_list limit offset d =
    (take limit (drop offset (sort_key (\<lambda>k. - ak_created_at k) (db_api_keys d))), length (db_api_keys d))"

section \<open>Responses\<close>

record user_response =
  ur_id :: uuid
  ur_email :: string
  ur_full_name :: string
  ur_role_name :: string
  ur_is_active :: bool
  ur_last_login_at :: "datetime option"
  ur_created_at :: datetime
  ur_updated_at :: datetime

definition user_response_of :: "user \<Rightarrow> user_response" where
  "user_response_of u = \<lparr>ur_id = us_id u, ur_email = us_email u, ur_full_name = us_full_name u,
     ur_role_name = us_role_name u, ur_is_active = us_is_active u, ur_last_login_at = us_last_login_at u,
     ur_created_at = us_created_at u, ur_updated_at = us_updated_at u\<rparr>"

record authentication_result =
  rs_access_token :: string
  rs_expires_in :: int
  rs_user :: user_response
  rs_refresh_token :: string

section \<open>Login and registration\<close>

definition source_ip_of :: "request \<Rightarrow> string" where
  "source_ip_of req = (case rq_client req of None \<Rightarrow> ''unknown'' | Some h \<Rightarrow> h)"

definition session_row :: "crypto \<Rightarrow> settings \<Rightarrow> request \<Rightarrow> string \<Rightarrow> uuid \<Rightarrow> uuid \<Rightarrow> uuid \<Rightarrow> datetime \<Rightarrow> datetime \<Rightarrow> auth_session" where
  "session_row cr st req secret i family user_id t created =
    \<lparr>as_id = i, as_family_id = family, as_user_id = user_id,
     as_token_hash = snd (generate_refresh_token cr secret i),
     as_expires_at = t + seconds (auth_refresh_token_days st * 86400),
     as_revoked_at = None, as_replaced_by_id = None, as_source_ip = rq_client req,
     as_user_agent = user_agent_of req, as_created_at = created, as_last_used_at = None\<rparr>"

text \<open>\<^verbatim>\<open>_new_session\<close>: UUIDs \<open>k\<close> (session), \<open>k+1\<close> (family), \<open>k+2\<close> (token id); clock readings from \<open>n\<close>.\<close>

definition new_session :: "crypto \<Rightarrow> settings \<Rightarrow> env \<Rightarrow> nat \<Rightarrow> nat \<Rightarrow> request \<Rightarrow> user \<Rightarrow> db \<Rightarrow> authentication_result \<times> db" where
  "new_session cr st en k n req u d =
    (let session_id = en_uuid en k;
         family_id = en_uuid en (k + 1);
         raw_token = fst (generate_refresh_token cr (en_secret en 0) session_id);
         d' = add_auth_session (session_row cr st req (en_secret en 0) session_id family_id (us_id u)
                (en_now en n) (en_now en (n + 1))) d;
         (access_token, expires_in) = create_access_token cr st (en_uuid en (k + 2)) (en_now en (n + 2)) (us_id u) family_id
     in (\<lparr>rs_access_token = access_token, rs_expires_in = expires_in, rs_user = user_response_of u,
          rs_refresh_token = raw_token\<rparr>, d'))"

definition login :: "'r redis_api \<Rightarrow> crypto \<Rightarrow> settings \<Rightarrow> string \<Rightarrow> env \<Rightarrow> request \<Rightarrow> string \<Rightarrow> string \<Rightarrow> 'r world \<Rightarrow>
    (exn + authentication_result) \<times> 'r world" where
  "login R cr st dummy_hash en req email password w =
    (let email' = normalize_email email;
         source_ip = source_ip_of req;
         d = wd_db w; s = wd_redis w
     in case is_limited R cr st (en_now en 0) email' source_ip s of
       Inl x \<Rightarrow> (Inl x, w)
     | Inr True \<Rightarrow> (Inl LoginRateLimitedError,
         w\<lparr>wd_db := audit_record req (en_uuid en 0) (en_now en 1) ''auth.login'' ''rate_limited'' ''anonymous'' None
            (Some email') None None [] d\<rparr>)
     | Inr False \<Rightarrow>
         (let found = get_by_email email' d;
              valid = verify_password cr password (case found of None \<Rightarrow> dummy_hash | Some u \<Rightarrow> us_password_hash u)
          in case found of
            Some u \<Rightarrow>
              if \<not> valid \<or> \<not> us_is_active u
              then (Inl InvalidCredentialsError,
                w\<lparr>wd_redis := record_failure R cr st (en_now en 1) email' source_ip s,
                  wd_db := audit_record req (en_uuid en 0) (en_now en 2) ''auth.login'' ''failure'' ''anonymous''
                    (Some (us_id u)) (Some email') None None [] d\<rparr>)
              else
                (let (result, d1) = new_session cr st en 0 1 req u d;
                     u' = u\<lparr>us_last_login_at := Some (en_now en 4), us_updated_at := en_now en 5\<rparr>;
                     d2 = audit_record req (en_uuid en 3) (en_now en 6) ''auth.login'' ''success'' ''user''
                       (Some (us_id u)) (Some (us_email u)) None None [] (save_user u' d1)
                 in (Inr result, w\<lparr>wd_redis := clear_account R cr (en_now en 5) email' s, wd_db := d2\<rparr>))
          | None \<Rightarrow> (Inl InvalidCredentialsError,
              w\<lparr>wd_redis := record_failure R cr st (en_now en 1) email' source_ip s,
                wd_db := audit_record req (en_uuid en 0) (en_now en 2) ''auth.login'' ''failure'' ''anonymous''
                  None (Some email') None None [] d\<rparr>)))"

definition new_user :: "uuid \<Rightarrow> string \<Rightarrow> string \<Rightarrow> string \<Rightarrow> string \<Rightarrow> uuid option \<Rightarrow> datetime \<Rightarrow> user" where
  "new_user i email full_name pw_hash role creator t =
    \<lparr>us_id = i, us_email = email, us_full_name = full_name, us_password_hash = pw_hash, us_role_name = role,
     us_is_active = True, us_last_login_at = None, us_credentials_changed_at = t, us_created_by = creator,
     us_created_at = t, us_updated_at = t\<rparr>"

text \<open>The flush of a new user: the role must exist (foreign key).\<close>

definition create_user_row :: "user \<Rightarrow> db \<Rightarrow> exn + db" where
  "create_user_row u d =
    (if us_id u \<in> us_id ` set (db_users d) \<or> us_email u \<in> us_email ` set (db_users d) \<or> \<not> role_exists (us_role_name u) d
     then Inl IntegrityError else Inr (add_user u d))"

record user_register =
  rg_email :: string
  rg_full_name :: string
  rg_password :: string

definition register :: "'r redis_api \<Rightarrow> crypto \<Rightarrow> settings \<Rightarrow> env \<Rightarrow> request \<Rightarrow> user_register \<Rightarrow> 'r world \<Rightarrow>
    (exn + authentication_result) \<times> 'r world" where
  "register R cr st en req p w =
    (let email' = normalize_email (rg_email p);
         source_ip = source_ip_of req;
         d = wd_db w; s = wd_redis w
     in case is_register_limited R cr (en_now en 0) source_ip s of
       Inl x \<Rightarrow> (Inl x, w)
     | Inr True \<Rightarrow> (Inl LoginRateLimitedError,
         w\<lparr>wd_db := audit_record req (en_uuid en 0) (en_now en 1) ''auth.register'' ''rate_limited'' ''anonymous'' None
            (Some email') None None [] d\<rparr>)
     | Inr False \<Rightarrow>
         (let s1 = record_register_attempt R cr st (en_now en 1) source_ip s
          in if get_by_email email' d \<noteq> None
             then (Inl UserAlreadyExistsError,
               w\<lparr>wd_redis := s1,
                 wd_db := audit_record req (en_uuid en 0) (en_now en 2) ''auth.register'' ''failure'' ''anonymous'' None
                   (Some email') None None [] d\<rparr>)
             else
               (let u = new_user (en_uuid en 0) email' (py_strip (rg_full_name p))
                      (hash_password cr (en_secret en 1) (rg_password p)) ''analyst'' None (en_now en 2)
                in case create_user_row u d of
                  Inl x \<Rightarrow> (Inl x, w\<lparr>wd_redis := s1\<rparr>)
                | Inr d1 \<Rightarrow>
                    (let u' = u\<lparr>us_last_login_at := Some (en_now en 3), us_updated_at := en_now en 4\<rparr>;
                         (result, d2) = new_session cr st en 1 4 req u' (save_user u' d1);
                         d3 = audit_record req (en_uuid en 4) (en_now en 7) ''auth.register'' ''success'' ''user''
                           (Some (us_id u)) (Some (us_email u)) None None [] d2
                     in (Inr result, w\<lparr>wd_redis := s1, wd_db := d3\<rparr>)))))"

section \<open>Refresh, logout and password change\<close>

definition audit_refresh_failure :: "request \<Rightarrow> uuid \<Rightarrow> datetime \<Rightarrow> user option \<Rightarrow> db \<Rightarrow> db" where
  "audit_refresh_failure req i t u d =
    audit_record req i t ''auth.refresh'' ''failure'' (case u of None \<Rightarrow> ''anonymous'' | Some _ \<Rightarrow> ''user'')
      (map_option us_id u) (map_option us_email u) None None [] d"

definition refresh :: "crypto \<Rightarrow> settings \<Rightarrow> env \<Rightarrow> request \<Rightarrow> string option \<Rightarrow> db \<Rightarrow> (exn + authentication_result) \<times> db" where
  "refresh cr st en req token d =
    (case parse_refresh_token (str_or token []) of
       None \<Rightarrow> (Inl RefreshTokenError, audit_refresh_failure req (en_uuid en 0) (en_now en 0) None d)
     | Some (session_id, secret) \<Rightarrow>
     (case get_auth_session session_id d of
       None \<Rightarrow> (Inl RefreshTokenError, audit_refresh_failure req (en_uuid en 0) (en_now en 0) None d)
     | Some a \<Rightarrow>
       if as_token_hash a \<noteq> hash_secret cr secret
       then (Inl RefreshTokenError, audit_refresh_failure req (en_uuid en 0) (en_now en 0) None d)
       else if as_revoked_at a \<noteq> None
       then (Inl RefreshTokenError,
         audit_record req (en_uuid en 0) (en_now en 1) ''auth.refresh_reuse'' ''failure'' ''user'' (Some (as_user_id a))
           None None None [] (revoke_family (as_family_id a) (en_now en 0) d))
       else
         (let now = en_now en 0; found = get_user (as_user_id a) d;
              refused = (Inl RefreshTokenError, audit_refresh_failure req (en_uuid en 0) (en_now en 2) found
                (revoke_family (as_family_id a) (en_now en 1) d))
          in case found of
            None \<Rightarrow> refused
          | Some u \<Rightarrow>
            if as_expires_at a \<le> now \<or> \<not> us_is_active u then refused
            else
              (let replacement_id = en_uuid en 0;
                   raw_token = fst (generate_refresh_token cr (en_secret en 0) replacement_id);
                   replacement = session_row cr st req (en_secret en 0) replacement_id (as_family_id a) (us_id u) now (en_now en 1);
                   a' = a\<lparr>as_revoked_at := Some now, as_last_used_at := Some now, as_replaced_by_id := Some replacement_id\<rparr>;
                   d1 = add_auth_session replacement (save_auth_session a' d);
                   (access_token, expires_in) = create_access_token cr st (en_uuid en 1) (en_now en 2) (us_id u) (as_family_id a);
                   d2 = audit_record req (en_uuid en 2) (en_now en 3) ''auth.refresh'' ''success'' ''user''
                     (Some (us_id u)) (Some (us_email u)) None None [] d1
               in (Inr \<lparr>rs_access_token = access_token, rs_expires_in = expires_in, rs_user = user_response_of u,
                        rs_refresh_token = raw_token\<rparr>, d2)))))"

definition logout :: "crypto \<Rightarrow> env \<Rightarrow> request \<Rightarrow> string option \<Rightarrow> db \<Rightarrow> db" where
  "logout cr en req token d =
    (let (actor_id, d1) =
       (case parse_refresh_token (str_or token []) of None \<Rightarrow> (None, d)
        | Some (session_id, secret) \<Rightarrow>
          (case get_auth_session session_id d of None \<Rightarrow> (None, d)
           | Some a \<Rightarrow> if as_token_hash a = hash_secret cr secret
               then (Some (as_user_id a), revoke_family (as_family_id a) (en_now en 0) d) else (None, d)))
     in audit_record req (en_uuid en 0) (en_now en 1) ''auth.logout'' ''success''
          (if actor_id \<noteq> None then ''user'' else ''anonymous'') actor_id None None None [] d1)"

definition change_password_valid :: "string \<Rightarrow> string \<Rightarrow> bool" where
  "change_password_valid current_password new_password =
    (1 \<le> length current_password \<and> length current_password \<le> 128 \<and>
     12 \<le> length new_password \<and> length new_password \<le> 128 \<and> current_password \<noteq> new_password)"

definition change_password :: "crypto \<Rightarrow> env \<Rightarrow> request \<Rightarrow> user \<Rightarrow> string \<Rightarrow> string \<Rightarrow> db \<Rightarrow> (exn + unit) \<times> db" where
  "change_password cr en req u current_password new_password d =
    (if \<not> verify_password cr current_password (us_password_hash u)
     then (Inl InvalidCredentialsError,
       audit_record req (en_uuid en 0) (en_now en 0) ''auth.password_change'' ''failure'' ''user'' (Some (us_id u))
         (Some (us_email u)) None None [] d)
     else
       (let u' = u\<lparr>us_password_hash := hash_password cr (en_secret en 0) new_password,
                   us_credentials_changed_at := en_now en 0, us_updated_at := en_now en 1\<rparr>;
            d1 = revoke_user (us_id u) (en_now en 2) (save_user u' d)
        in (Inr (), audit_record req (en_uuid en 0) (en_now en 3) ''auth.password_change'' ''success'' ''user''
             (Some (us_id u)) (Some (us_email u)) None None [] d1)))"

section \<open>Dependencies of the endpoints\<close>

definition audit_denial :: "request \<Rightarrow> uuid \<Rightarrow> datetime \<Rightarrow> string \<Rightarrow> string \<Rightarrow> uuid option \<Rightarrow> string option \<Rightarrow>
    (string \<times> json) list \<Rightarrow> db \<Rightarrow> db" where
  "audit_denial req i t actor_type action actor_id label details d =
    d\<lparr>db_audit_logs := db_audit_logs d @
      [\<lparr>au_id = i, au_actor_type = actor_type, au_actor_id = actor_id, au_actor_label = label,
        au_action = action, au_resource_type = None, au_resource_id = None, au_outcome = ''denied'',
        au_request_id = rq_request_id req, au_method = Some (rq_method req), au_path = Some (rq_path req),
        au_source_ip = rq_client req, au_user_agent = user_agent_of req, au_details = details,
        au_created_at = t\<rparr>]\<rparr>"

definition unauthenticated :: exn where
  "unauthenticated = HTTPException 401 ''Not authenticated''"

text \<open>\<^verbatim>\<open>datetime.fromtimestamp(claims["iat"])\<close>; the issue times the program makes are integers.\<close>

definition claim_instant :: "json \<Rightarrow> exn + datetime" where
  "claim_instant v = (case v of JInt n \<Rightarrow> Inr (seconds n) | _ \<Rightarrow> Inl TypeError)"

definition get_current_user :: "crypto \<Rightarrow> settings \<Rightarrow> env \<Rightarrow> request \<Rightarrow> string option \<Rightarrow> db \<Rightarrow> (exn + user \<times> uuid) \<times> db" where
  "get_current_user cr st en req token d =
    (let denied = (Inl unauthenticated,
           audit_denial req (en_uuid en 0) (en_now en 2) ''anonymous'' ''authorization.authenticate'' None None [] d)
     in if \<not> truthy_str token then denied
        else case decode_access_token cr st (en_now en 0) (the token) of
          Inl InvalidAccessTokenError \<Rightarrow> denied
        | Inl x \<Rightarrow> (Inl x, d)
        | Inr claims \<Rightarrow>
          (case claim_instant (dict_get (ac_claims claims) ''iat'') of Inl x \<Rightarrow> (Inl x, d)
           | Inr issued_at \<Rightarrow>
             (case get_user (ac_user_id claims) d of None \<Rightarrow> denied
              | Some u \<Rightarrow>
                if \<not> us_is_active u \<or> \<not> family_is_active (ac_family_id claims) (en_now en 1) d \<or>
                   issued_at < drop_micros (us_credentials_changed_at u)
                then denied else (Inr (u, ac_family_id claims), d))))"

definition require_permission :: "permission \<Rightarrow> env \<Rightarrow> request \<Rightarrow> user \<Rightarrow> db \<Rightarrow> (exn + user) \<times> db" where
  "require_permission p en req u d =
    (if p \<notin> set (permissions_for_role (us_role_name u))
     then (Inl (HTTPException 403 ''Forbidden''),
       audit_denial req (en_uuid en 1) (en_now en 3) ''user'' ''authorization.denied'' (Some (us_id u)) (Some (us_email u))
         [(''permission'', JStr (permission_value p))] d)
     else (Inr u, d))"

record service_principal =
  sp_id :: uuid
  sp_name :: string
  sp_prefix :: string
  sp_scopes :: "string set"

definition api_key_usable :: "crypto \<Rightarrow> datetime \<Rightarrow> string \<Rightarrow> service_api_key \<Rightarrow> bool" where
  "api_key_usable cr now secret k =
    (ak_is_active k \<and> ak_revoked_at k = None \<and>
     (case ak_expires_at k of None \<Rightarrow> True | Some t \<Rightarrow> now < t) \<and>
     ''events:write'' \<in> set (ak_scopes k) \<and> ak_key_hash k = hash_secret cr secret)"

definition require_event_ingest_key :: "crypto \<Rightarrow> env \<Rightarrow> request \<Rightarrow> string option \<Rightarrow> db \<Rightarrow>
    (exn + service_principal) \<times> db" where
  "require_event_ingest_key cr en req value d =
    (let denied = (\<lambda>k. (Inl (HTTPException 401 ''Invalid API key''),
           audit_denial req (en_uuid en 0) (en_now en 1) (case k of None \<Rightarrow> ''anonymous'' | Some _ \<Rightarrow> ''api_key'')
             ''authorization.ingest_denied'' (map_option ak_id k) (map_option ak_name k) [] d))
     in if \<not> truthy_str value then denied None
        else case parse_api_key (the value) of None \<Rightarrow> denied None
        | Some (pfx, secret) \<Rightarrow>
          (case get_by_prefix pfx d of None \<Rightarrow> denied None
           | Some k \<Rightarrow>
             if \<not> api_key_usable cr (en_now en 0) secret k then denied (Some k)
             else (Inr \<lparr>sp_id = ak_id k, sp_name = ak_name k, sp_prefix = ak_prefix k, sp_scopes = set (ak_scopes k)\<rparr>,
               save_api_key (k\<lparr>ak_last_used_at := Some (en_now en 1)\<rparr>) d)))"

end
