(* ===== verification/Accounts.thy ===== *)
theory Accounts
  imports Auth
begin

text \<open>
  The administration of users and API keys (\<^verbatim>\<open>services/user_service.py\<close>,
  \<^verbatim>\<open>services/api_key_service.py\<close>, \<^verbatim>\<open>services/bootstrap_service.py\<close>), the step relation of all
  operations on accounts and sessions, and the invariants every reachable database has: one
  live session per family, and an active administrator.
\<close>

section \<open>Users\<close>

record user_create_schema =
  uc_email :: string
  uc_full_name :: string
  uc_password :: string
  uc_role_name :: string

record user_update_schema =
  up_full_name :: "string option"
  up_role_name :: "string option"
  up_is_active :: "bool option"

definition user_create_valid :: "user_create_schema \<Rightarrow> bool" where
  "user_create_valid p = (1 \<le> length (uc_full_name p) \<and> length (uc_full_name p) \<le> 255 \<and>
     12 \<le> length (uc_password p) \<and> length (uc_password p) \<le> 128 \<and>
     uc_role_name p \<in> {''admin'', ''analyst'', ''viewer''})"

definition user_update_valid :: "user_update_schema \<Rightarrow> bool" where
  "user_update_valid p =
    ((case up_full_name p of None \<Rightarrow> True | Some s \<Rightarrow> 1 \<le> length s \<and> length s \<le> 255) \<and>
     (case up_role_name p of None \<Rightarrow> True | Some r \<Rightarrow> r \<in> {''admin'', ''analyst'', ''viewer''}) \<and>
     \<not> (up_full_name p = None \<and> up_role_name p = None \<and> up_is_active p = None))"

definition user_create :: "crypto \<Rightarrow> env \<Rightarrow> request \<Rightarrow> user \<Rightarrow> user_create_schema \<Rightarrow> db \<Rightarrow> (exn + user_response) \<times> db" where
  "user_create cr en req actor p d =
    (let email = normalize_email (uc_email p)
     in if get_by_email email d \<noteq> None then (Inl UserConflictError, d)
        else
          (let u = new_user (en_uuid en 0) email (py_strip (uc_full_name p))
                 (hash_password cr (en_secret en 0) (uc_password p)) (uc_role_name p) (Some (us_id actor)) (en_now en 0)
           in case create_user_row u d of Inl x \<Rightarrow> (Inl x, d)
              | Inr d1 \<Rightarrow> (Inr (user_response_of u),
                  audit_record req (en_uuid en 1) (en_now en 1) ''user.create'' ''success'' ''user'' (Some (us_id actor))
                    (Some (us_email actor)) (Some ''user'') (Some (uuid_str (us_id u)))
                    [(''email'', JStr (us_email u)), (''role'', JStr (us_role_name u))] d1)))"

definition update_dump :: "user_update_schema \<Rightarrow> (string \<times> json) list" where
  "update_dump p =
    (case up_full_name p of None \<Rightarrow> [] | Some s \<Rightarrow> [(''full_name'', JStr s)]) @
    (case up_role_name p of None \<Rightarrow> [] | Some s \<Rightarrow> [(''role_name'', JStr s)]) @
    (case up_is_active p of None \<Rightarrow> [] | Some b \<Rightarrow> [(''is_active'', JBool b)])"

definition removes_admin :: "user \<Rightarrow> user_update_schema \<Rightarrow> bool" where
  "removes_admin u p = (us_role_name u = ''admin'' \<and>
     (up_role_name p \<notin> {None, Some ''admin''} \<or> up_is_active p = Some False))"

definition updated_user :: "user \<Rightarrow> user_update_schema \<Rightarrow> datetime \<Rightarrow> user" where
  "updated_user u p now = u\<lparr>
     us_full_name := (case up_full_name p of None \<Rightarrow> us_full_name u | Some s \<Rightarrow> py_strip s),
     us_role_name := (case up_role_name p of None \<Rightarrow> us_role_name u | Some r \<Rightarrow> r),
     us_is_active := (case up_is_active p of None \<Rightarrow> us_is_active u | Some b \<Rightarrow> b),
     us_updated_at := now\<rparr>"

definition user_update :: "env \<Rightarrow> request \<Rightarrow> user \<Rightarrow> uuid \<Rightarrow> user_update_schema \<Rightarrow> db \<Rightarrow> (exn + user_response option) \<times> db" where
  "user_update en req actor user_id p d =
    (case get_user user_id d of None \<Rightarrow> (Inr None, d)
     | Some u \<Rightarrow>
       if removes_admin u p \<and> active_admin_count d \<le> 1 then (Inl LastAdminError, d)
       else
         (let u' = updated_user u p (en_now en 0);
              d1 = save_user u' d;
              d2 = (if up_is_active p = Some False \<or> up_role_name p \<noteq> None
                    then revoke_user (us_id u) (en_now en 1) d1 else d1);
              d3 = audit_record req (en_uuid en 0) (en_now en 2) ''user.update'' ''success'' ''user'' (Some (us_id actor))
                (Some (us_email actor)) (Some ''user'') (Some (uuid_str (us_id u))) (update_dump p) d2
          in (Inr (Some (user_response_of u')), d3)))"

definition create_first_admin :: "crypto \<Rightarrow> env \<Rightarrow> string \<Rightarrow> string \<Rightarrow> string \<Rightarrow> db \<Rightarrow> (exn + bool) \<times> db" where
  "create_first_admin cr en email full_name password d =
    (let email' = normalize_email email
     in case get_by_email email' d of
       Some u \<Rightarrow> (if us_role_name u = ''admin'' \<and> us_is_active u then Inr False
                  else Inl (RuntimeError ''A non-active-admin user already uses this email''), d)
     | None \<Rightarrow> (case create_user_row (new_user (en_uuid en 0) email' (py_strip full_name)
           (hash_password cr (en_secret en 0) password) ''admin'' None (en_now en 0)) d of
         Inl x \<Rightarrow> (Inl x, d) | Inr d1 \<Rightarrow> (Inr True, d1)))"

section \<open>API keys\<close>

record api_key_create_schema =
  kc_name :: string
  kc_scopes :: "string list"
  kc_expires_at :: "datetime option"

text \<open>\<^verbatim>\<open>list(dict.fromkeys(scopes))\<close>: the first occurrences in order.\<close>

definition fromkeys :: "string list \<Rightarrow> string list" where
  "fromkeys xs = rev (remdups (rev xs))"

text \<open>Secret 0 is the hexadecimal prefix, secret 1 the key's secret.\<close>

definition api_key_row :: "crypto \<Rightarrow> env \<Rightarrow> user \<Rightarrow> api_key_create_schema \<Rightarrow> service_api_key" where
  "api_key_row cr en actor p =
    (let (raw_key, pfx, key_hash) = generate_api_key cr (en_secret en 0) (en_secret en 1)
     in \<lparr>ak_id = en_uuid en 0, ak_name = py_strip (kc_name p), ak_prefix = pfx, ak_key_hash = key_hash,
         ak_scopes = fromkeys (kc_scopes p), ak_is_active = True, ak_expires_at = kc_expires_at p,
         ak_created_by = us_id actor, ak_last_used_at = None, ak_revoked_at = None, ak_created_at = en_now en 0\<rparr>)"

definition api_key_create :: "crypto \<Rightarrow> env \<Rightarrow> request \<Rightarrow> user \<Rightarrow> api_key_create_schema \<Rightarrow> db \<Rightarrow>
    (exn + service_api_key \<times> string) \<times> db" where
  "api_key_create cr en req actor p d =
    (let k = api_key_row cr en actor p
     in if ak_id k \<in> ak_id ` set (db_api_keys d) \<or> ak_prefix k \<in> ak_prefix ` set (db_api_keys d) \<or>
           ak_key_hash k \<in> ak_key_hash ` set (db_api_keys d)
        then (Inl IntegrityError, d)
        else (Inr (k, fst (generate_api_key cr (en_secret en 0) (en_secret en 1))),
          audit_record req (en_uuid en 1) (en_now en 1) ''api_key.create'' ''success'' ''user'' (Some (us_id actor))
            (Some (us_email actor)) (Some ''api_key'') (Some (uuid_str (ak_id k)))
            [(''name'', JStr (ak_name k)), (''prefix'', JStr (ak_prefix k)), (''scopes'', JList (map JStr (ak_scopes k)))]
            (add_api_key k d)))"

definition api_key_revoke :: "env \<Rightarrow> request \<Rightarrow> user \<Rightarrow> uuid \<Rightarrow> db \<Rightarrow> service_api_key option \<times> db" where
  "api_key_revoke en req actor key_id d =
    (case get_api_key key_id d of None \<Rightarrow> (None, d)
     | Some k \<Rightarrow>
       (let k' = (if ak_revoked_at k = None then k\<lparr>ak_revoked_at := Some (en_now en 0), ak_is_active := False\<rparr> else k)
        in (Some k', audit_record req (en_uuid en 0) (en_now en 1) ''api_key.revoke'' ''success'' ''user''
              (Some (us_id actor)) (Some (us_email actor)) (Some ''api_key'') (Some (uuid_str (ak_id k))) []
              (save_api_key k' d))))"

section \<open>The step relation\<close>

text \<open>
  One committed operation of an endpoint. The UUIDs drawn for new rows are not in use
  (random 128-bit values), which is the hypothesis \<open>fresh\<close> (no operation draws more than eight); in a request that carries a user, the user is
  the current row of the database, as \<^verbatim>\<open>get_current_user\<close> loaded it.
\<close>

definition fresh :: "env \<Rightarrow> db \<Rightarrow> bool" where
  "fresh en d = (\<forall>k < 8. en_uuid en k \<notin> as_id ` set (db_auth_sessions d) \<and>
     en_uuid en k \<notin> as_family_id ` set (db_auth_sessions d))"

inductive account_step :: "'r redis_api \<Rightarrow> 'r world \<Rightarrow> 'r world \<Rightarrow> bool" for R where
  login: "fresh en (wd_db w) \<Longrightarrow> account_step R w (snd (login R cr st dh en req e pw w))"
| register: "fresh en (wd_db w) \<Longrightarrow> account_step R w (snd (register R cr st en req p w))"
| refresh: "fresh en (wd_db w) \<Longrightarrow> account_step R w (w\<lparr>wd_db := snd (refresh cr st en req tok (wd_db w))\<rparr>)"
| logout: "account_step R w (w\<lparr>wd_db := logout cr en req tok (wd_db w)\<rparr>)"
| change_password: "get_user (us_id u) (wd_db w) = Some u \<Longrightarrow>
    account_step R w (w\<lparr>wd_db := snd (change_password cr en req u old new (wd_db w))\<rparr>)"
| user_create: "account_step R w (w\<lparr>wd_db := snd (user_create cr en req actor uc (wd_db w))\<rparr>)"
| user_update: "account_step R w (w\<lparr>wd_db := snd (user_update en req actor i up (wd_db w))\<rparr>)"
| bootstrap: "account_step R w (w\<lparr>wd_db := snd (create_first_admin cr en e name pw (wd_db w))\<rparr>)"
| key_create: "account_step R w (w\<lparr>wd_db := snd (api_key_create cr en req actor kc (wd_db w))\<rparr>)"
| key_revoke: "account_step R w (w\<lparr>wd_db := snd (api_key_revoke en req actor i (wd_db w))\<rparr>)"
| authenticate: "account_step R w (w\<lparr>wd_db := snd (get_current_user cr st en req tok (wd_db w))\<rparr>)"
| authorize: "account_step R w (w\<lparr>wd_db := snd (require_permission p en req u (wd_db w))\<rparr>)"
| ingest: "account_step R w (w\<lparr>wd_db := snd (require_event_ingest_key cr en req v (wd_db w))\<rparr>)"

inductive account_reachable :: "'r redis_api \<Rightarrow> 'r world \<Rightarrow> 'r world \<Rightarrow> bool" for R w0 where
  start: "account_reachable R w0 w0"
| step: "account_reachable R w0 w \<Longrightarrow> account_step R w w' \<Longrightarrow> account_reachable R w0 w'"

section \<open>Session families\<close>

text \<open>
  Session ids are unique, a family belongs to one user, and a family has at most one session
  that is not revoked.
\<close>

definition live_sessions :: "uuid \<Rightarrow> db \<Rightarrow> auth_session list" where
  "live_sessions f d = filter (\<lambda>s. as_family_id s = f \<and> as_revoked_at s = None) (db_auth_sessions d)"

definition sessions_ok :: "db \<Rightarrow> bool" where
  "sessions_ok d = (distinct (map as_id (db_auth_sessions d)) \<and>
     (\<forall>s \<in> set (db_auth_sessions d). \<forall>s' \<in> set (db_auth_sessions d).
        as_family_id s = as_family_id s' \<longrightarrow> as_user_id s = as_user_id s') \<and>
     (\<forall>s \<in> set (db_auth_sessions d). \<forall>s' \<in> set (db_auth_sessions d).
        as_family_id s = as_family_id s' \<and> as_revoked_at s = None \<and> as_revoked_at s' = None \<longrightarrow> as_id s = as_id s'))"

lemma sessions_ok_cong: "db_auth_sessions d = db_auth_sessions d' \<Longrightarrow> sessions_ok d = sessions_ok d'"
  by (simp add: sessions_ok_def)

lemma audit_denial_simps [simp]:
  "db_auth_sessions (audit_denial req i t aty ac ai al det d) = db_auth_sessions d"
  "db_users (audit_denial req i t aty ac ai al det d) = db_users d"
  "db_roles (audit_denial req i t aty ac ai al det d) = db_roles d"
  by (simp_all add: audit_denial_def)

lemma audit_refresh_failure_simps [simp]:
  "db_auth_sessions (audit_refresh_failure req i t u d) = db_auth_sessions d"
  "db_users (audit_refresh_failure req i t u d) = db_users d"
  by (simp_all add: audit_refresh_failure_def)

lemma row_ops_sessions [simp]:
  "db_auth_sessions (save_user u d) = db_auth_sessions d"
  "db_auth_sessions (add_user u d) = db_auth_sessions d"
  "db_auth_sessions (add_api_key k d) = db_auth_sessions d"
  "db_auth_sessions (save_api_key k d) = db_auth_sessions d"
  "db_auth_sessions (add_auth_session a d) = db_auth_sessions d @ [a]"
  "db_users (add_auth_session a d) = db_users d"
  "db_users (save_auth_session a d) = db_users d"
  "db_users (add_api_key k d) = db_users d"
  "db_users (save_api_key k d) = db_users d"
  "db_users (add_user u d) = db_users d @ [u]"
  "db_users (revoke_family f t d) = db_users d"
  "db_users (revoke_user i t d) = db_users d"
  by (simp_all add: save_user_def add_user_def add_api_key_def save_api_key_def add_auth_session_def
      save_auth_session_def revoke_family_def revoke_user_def)

lemma create_user_row_sessions: "create_user_row u d = Inr d' \<Longrightarrow> db_auth_sessions d' = db_auth_sessions d"
  by (auto simp: create_user_row_def split: if_splits)

text \<open>A revocation keeps the invariant: it changes \<^verbatim>\<open>revoked_at\<close> from None only.\<close>

lemma freshD: "fresh en d \<Longrightarrow> k < 8 \<Longrightarrow> en_uuid en k \<notin> as_id ` set (db_auth_sessions d)"
  by (simp add: fresh_def)

lemma sessions_okD:
  assumes "sessions_ok d" and "s \<in> set (db_auth_sessions d)" and "s' \<in> set (db_auth_sessions d)"
    and "as_family_id s = as_family_id s'"
  shows "as_user_id s = as_user_id s'"
    and "as_revoked_at s = None \<Longrightarrow> as_revoked_at s' = None \<Longrightarrow> s = s'"
proof -
  show "as_user_id s = as_user_id s'" using assms unfolding sessions_ok_def by blast
  assume "as_revoked_at s = None" "as_revoked_at s' = None"
  then have "as_id s = as_id s'" using assms unfolding sessions_ok_def by blast
  moreover have "inj_on as_id (set (db_auth_sessions d))"
    using assms(1) by (simp add: sessions_ok_def distinct_map)
  ultimately show "s = s'" using assms(2,3) by (simp add: inj_on_def)
qed

lemma sessions_ok_distinct: "sessions_ok d \<Longrightarrow> distinct (map as_id (db_auth_sessions d))"
  by (simp add: sessions_ok_def)

lemma sessions_okI:
  assumes "distinct (map as_id (db_auth_sessions d))"
    and "\<And>s s'. s \<in> set (db_auth_sessions d) \<Longrightarrow> s' \<in> set (db_auth_sessions d) \<Longrightarrow>
      as_family_id s = as_family_id s' \<Longrightarrow> as_user_id s = as_user_id s'"
    and "\<And>s s'. s \<in> set (db_auth_sessions d) \<Longrightarrow> s' \<in> set (db_auth_sessions d) \<Longrightarrow>
      as_family_id s = as_family_id s' \<Longrightarrow> as_revoked_at s = None \<Longrightarrow> as_revoked_at s' = None \<Longrightarrow> as_id s = as_id s'"
  shows "sessions_ok d"
  unfolding sessions_ok_def using assms by blast

lemma sessions_ok_revoke:
  assumes ok: "sessions_ok d"
    and d': "db_auth_sessions d' = update_where p (as_revoked_at_update (\<lambda>_. Some t)) (db_auth_sessions d)"
  shows "sessions_ok d'"
proof -
  have ex: "\<exists>s0 \<in> set (db_auth_sessions d). as_id s = as_id s0 \<and> as_family_id s = as_family_id s0 \<and>
      as_user_id s = as_user_id s0 \<and> (as_revoked_at s = None \<longrightarrow> s = s0)" if "s \<in> set (db_auth_sessions d')" for s
    using that by (auto simp: d' set_update_where)
  show ?thesis
  proof (rule sessions_okI)
    show "distinct (map as_id (db_auth_sessions d'))"
      using ok by (simp add: d' update_where_map sessions_ok_def)
  next
    fix s s' assume "s \<in> set (db_auth_sessions d')" "s' \<in> set (db_auth_sessions d')" "as_family_id s = as_family_id s'"
    then show "as_user_id s = as_user_id s'"
      using ex [of s] ex [of s'] sessions_okD(1) [OF ok] by metis
  next
    fix s s' assume "s \<in> set (db_auth_sessions d')" "s' \<in> set (db_auth_sessions d')" "as_family_id s = as_family_id s'"
      "as_revoked_at s = None" "as_revoked_at s' = None"
    then show "as_id s = as_id s'"
      using ex [of s] ex [of s'] sessions_okD(2) [OF ok] by metis
  qed
qed

lemma sessions_ok_add:
  assumes ok: "sessions_ok d" and "as_id a \<notin> as_id ` set (db_auth_sessions d)"
    and fam: "as_family_id a \<notin> as_family_id ` set (db_auth_sessions d)" and d': "db_auth_sessions d' = db_auth_sessions d @ [a]"
  shows "sessions_ok d'"
proof (rule sessions_okI)
  show "distinct (map as_id (db_auth_sessions d'))"
    using ok assms(2) by (simp add: d' sessions_ok_def)
next
  have split: "s = s' \<or> (s \<in> set (db_auth_sessions d) \<and> s' \<in> set (db_auth_sessions d))"
    if "s \<in> set (db_auth_sessions d')" "s' \<in> set (db_auth_sessions d')" "as_family_id s = as_family_id s'" for s s'
    using that fam by (auto simp: d' image_iff)
  fix s s' assume "s \<in> set (db_auth_sessions d')" "s' \<in> set (db_auth_sessions d')" "as_family_id s = as_family_id s'"
  then show "as_user_id s = as_user_id s'" using split [of s s'] sessions_okD(1) [OF ok, of s s'] by blast
next
  have split: "s = s' \<or> (s \<in> set (db_auth_sessions d) \<and> s' \<in> set (db_auth_sessions d))"
    if "s \<in> set (db_auth_sessions d')" "s' \<in> set (db_auth_sessions d')" "as_family_id s = as_family_id s'" for s s'
    using that fam by (auto simp: d' image_iff)
  fix s s' assume "s \<in> set (db_auth_sessions d')" "s' \<in> set (db_auth_sessions d')" "as_family_id s = as_family_id s'"
    "as_revoked_at s = None" "as_revoked_at s' = None"
  then show "as_id s = as_id s'" using split [of s s'] sessions_okD(2) [OF ok, of s s'] by blast
qed

lemma sessions_new_session:
  "db_auth_sessions (snd (new_session cr st en k n req u d)) = db_auth_sessions d @
     [session_row cr st req (en_secret en 0) (en_uuid en k) (en_uuid en (k + 1)) (us_id u) (en_now en n) (en_now en (n + 1))]"
  "db_users (snd (new_session cr st en k n req u d)) = db_users d"
  by (simp_all add: new_session_def Let_def split_beta)

lemma session_row_simps [simp]:
  "as_id (session_row cr st req sec i f u t c) = i" "as_family_id (session_row cr st req sec i f u t c) = f"
  "as_user_id (session_row cr st req sec i f u t c) = u" "as_revoked_at (session_row cr st req sec i f u t c) = None"
  "as_token_hash (session_row cr st req sec i f u t c) = hash_secret cr sec"
  "as_expires_at (session_row cr st req sec i f u t c) = t + seconds (auth_refresh_token_days st * 86400)"
  by (simp_all add: session_row_def generate_refresh_token_def)

lemma login_sessions:
  "db_auth_sessions (wd_db (snd (login R cr st dh en req e pw w))) = db_auth_sessions (wd_db w) \<or>
   (\<exists>u t c. db_auth_sessions (wd_db (snd (login R cr st dh en req e pw w))) = db_auth_sessions (wd_db w) @
     [session_row cr st req (en_secret en 0) (en_uuid en 0) (en_uuid en 1) u t c])"
  unfolding login_def Let_def
  by (auto simp: split_beta sessions_new_session(1) split: sum.split bool.split option.split)

lemma register_sessions:
  "db_auth_sessions (wd_db (snd (register R cr st en req p w))) = db_auth_sessions (wd_db w) \<or>
   (\<exists>u t c. db_auth_sessions (wd_db (snd (register R cr st en req p w))) = db_auth_sessions (wd_db w) @
     [session_row cr st req (en_secret en 0) (en_uuid en 1) (en_uuid en 2) u t c])"
  unfolding register_def Let_def
  by (auto simp: split_beta sessions_new_session(1) create_user_row_sessions numeral_2_eq_2 split: sum.split bool.split)

lemma sessions_ok_grow:
  assumes "sessions_ok d" and "fresh en d" and "i < 8" and "j < 8"
    and "db_auth_sessions d' = db_auth_sessions d \<or>
      (\<exists>u t c. db_auth_sessions d' = db_auth_sessions d @ [session_row cr st req sec (en_uuid en i) (en_uuid en j) u t c])"
  shows "sessions_ok d'"
  using assms(5)
proof
  assume "db_auth_sessions d' = db_auth_sessions d"
  then show ?thesis using assms(1) sessions_ok_cong by blast
next
  assume "\<exists>u t c. db_auth_sessions d' = db_auth_sessions d @ [session_row cr st req sec (en_uuid en i) (en_uuid en j) u t c]"
  then obtain u t c where eq: "db_auth_sessions d' = db_auth_sessions d @ [session_row cr st req sec (en_uuid en i) (en_uuid en j) u t c]"
    by blast
  have "en_uuid en i \<notin> as_id ` set (db_auth_sessions d)" "en_uuid en j \<notin> as_family_id ` set (db_auth_sessions d)"
    using assms(2-4) unfolding fresh_def by blast+
  then show ?thesis by (intro sessions_ok_add [OF assms(1) _ _ eq]) simp_all
qed

text \<open>What the table of sessions is after a refresh, by the branch taken.\<close>

lemma refresh_sessions:
  obtains (same) "db_auth_sessions (snd (refresh cr st en req tok d)) = db_auth_sessions d"
      "\<exists>x. fst (refresh cr st en req tok d) = Inl x"
  | (revoked) a t where "a \<in> set (db_auth_sessions d)" "\<exists>x. fst (refresh cr st en req tok d) = Inl x"
      "db_auth_sessions (snd (refresh cr st en req tok d)) = db_auth_sessions (revoke_family (as_family_id a) t d)"
  | (rotated) a u where "get_auth_session (as_id a) d = Some a" "as_revoked_at a = None"
      "get_user (as_user_id a) d = Some u" "us_is_active u" "en_now en 0 < as_expires_at a"
      "parse_refresh_token (str_or tok []) = Some (as_id a, the (map_option snd (parse_refresh_token (str_or tok []))))"
      "as_token_hash a = hash_secret cr (snd (the (parse_refresh_token (str_or tok []))))"
      "db_auth_sessions (snd (refresh cr st en req tok d)) =
        table_save as_id (a\<lparr>as_revoked_at := Some (en_now en 0), as_last_used_at := Some (en_now en 0),
            as_replaced_by_id := Some (en_uuid en 0)\<rparr>) (db_auth_sessions d) @
        [session_row cr st req (en_secret en 0) (en_uuid en 0) (as_family_id a) (us_id u) (en_now en 0) (en_now en 1)]"
      "\<exists>r. fst (refresh cr st en req tok d) = Inr r \<and>
        rs_refresh_token r = fst (generate_refresh_token cr (en_secret en 0) (en_uuid en 0))"
proof -
  show thesis
  proof (cases "parse_refresh_token (str_or tok [])")
    case None
    then show thesis by (intro same) (simp_all add: refresh_def)
  next
    case (Some p)
    obtain i secret where p: "p = (i, secret)" by (cases p)
    show thesis
    proof (cases "get_auth_session i d")
      case None
      then show thesis by (intro same) (simp_all add: refresh_def Some p)
    next
      case (Some a)
      note a = Some \<open>parse_refresh_token (str_or tok []) = Some p\<close>
      have id: "as_id a = i" using Some auth_sessions.get_key by blast
      have mem: "a \<in> set (db_auth_sessions d)"
        using Some by (auto simp: get_auth_session_def dest: table_get_Some)
      show thesis
      proof (cases "as_token_hash a = hash_secret cr secret")
        case False
        then show thesis by (intro same) (simp_all add: refresh_def a p)
      next
        case hash: True
        show thesis
        proof (cases "as_revoked_at a = None")
          case False
          then show thesis
            using hash by (intro revoked [of a "en_now en 0"] mem) (simp_all add: refresh_def a p)
        next
          case live: True
          show thesis
          proof (cases "get_user (as_user_id a) d")
            case None
            then show thesis
              using hash live by (intro revoked [of a "en_now en 1"] mem) (simp_all add: refresh_def a p Let_def)
          next
            case (Some u)
            show thesis
            proof (cases "as_expires_at a \<le> en_now en 0 \<or> \<not> us_is_active u")
              case True
              then show thesis
                using hash live Some by (intro revoked [of a "en_now en 1"] mem) (simp_all add: refresh_def a p Let_def)
            next
              case False
              then show thesis
                using hash live Some
                by (intro rotated [of a u])
                  (simp_all add: refresh_def a p Let_def split_beta id, simp_all add: save_auth_session_def)
            qed
          qed
        qed
      qed
    qed
  qed
qed

lemma revoke_family_sessions: "db_auth_sessions (revoke_family f t d) =
  update_where (\<lambda>s. as_family_id s = f \<and> as_revoked_at s = None) (as_revoked_at_update (\<lambda>_. Some t)) (db_auth_sessions d)"
  by (simp add: revoke_family_def)

lemma revoke_user_sessions: "db_auth_sessions (revoke_user i t d) =
  update_where (\<lambda>s. as_user_id s = i \<and> as_revoked_at s = None) (as_revoked_at_update (\<lambda>_. Some t)) (db_auth_sessions d)"
  by (simp add: revoke_user_def)

lemma sessions_ok_revoke_family: "sessions_ok d \<Longrightarrow> db_auth_sessions d' = db_auth_sessions (revoke_family f t d) \<Longrightarrow> sessions_ok d'"
  unfolding revoke_family_sessions by (rule sessions_ok_revoke)

lemma sessions_ok_revoke_user: "sessions_ok d \<Longrightarrow> db_auth_sessions d' = db_auth_sessions (revoke_user f t d) \<Longrightarrow> sessions_ok d'"
  unfolding revoke_user_sessions by (rule sessions_ok_revoke)

lemma table_save_revoked:
  assumes "distinct (map as_id xs)" and "a \<in> set xs" and "as_id a' = as_id a"
  shows "set (table_save as_id a' xs) = insert a' (set xs - {a})"
proof -
  have "x = a" if "x \<in> set xs" "as_id x = as_id a" for x
    using that assms(1,2) by (auto simp: distinct_map inj_on_def)
  then show ?thesis using assms(2,3) by (auto simp: table_save_def image_iff)
qed

lemma sessions_ok_rotate:
  assumes ok: "sessions_ok d" and a: "a \<in> set (db_auth_sessions d)" "as_revoked_at a = None"
    and a': "as_id a' = as_id a" "as_family_id a' = as_family_id a" "as_user_id a' = as_user_id a" "as_revoked_at a' \<noteq> None"
    and r: "as_id r \<notin> as_id ` set (db_auth_sessions d)" "as_family_id r = as_family_id a" "as_user_id r = as_user_id a"
    and d': "db_auth_sessions d' = table_save as_id a' (db_auth_sessions d) @ [r]"
  shows "sessions_ok d'" and "as_revoked_at r = None \<Longrightarrow> live_sessions (as_family_id a) d' = [r]"
proof -
  have dist: "distinct (map as_id (db_auth_sessions d))" using ok by (simp add: sessions_ok_def)
  have rows: "set (db_auth_sessions d') = insert r (insert a' (set (db_auth_sessions d) - {a}))"
    using table_save_revoked [OF dist a(1) a'(1)] by (simp add: d')
  have other: "as_revoked_at s \<noteq> None" if "s \<in> set (db_auth_sessions d)" "s \<noteq> a" "as_family_id s = as_family_id a" for s
    using sessions_okD(2) [OF ok that(1) a(1)] that a(2) by blast
  have users: "as_user_id s = as_user_id a" if "s \<in> set (db_auth_sessions d')" "as_family_id s = as_family_id a" for s
    using that sessions_okD(1) [OF ok _ a(1)] a' r by (auto simp: rows)
  have live: "s = r" if "s \<in> set (db_auth_sessions d')" "as_family_id s = as_family_id a" "as_revoked_at s = None" for s
    using that other [of s] a'(4) unfolding rows by blast
  have old: "s \<in> set (db_auth_sessions d)" if "s \<in> set (db_auth_sessions d')" "as_family_id s \<noteq> as_family_id a" for s
    using that a' r by (auto simp: rows)
  have "distinct (map as_id (db_auth_sessions d'))"
    using dist r(1) by (simp add: d')
  moreover have "as_user_id s = as_user_id s'"
    if "s \<in> set (db_auth_sessions d')" "s' \<in> set (db_auth_sessions d')" "as_family_id s = as_family_id s'" for s s'
    using that users [of s] users [of s'] sessions_okD(1) [OF ok old old, of s s']
    by (cases "as_family_id s = as_family_id a") simp_all
  moreover have "as_id s = as_id s'"
    if "s \<in> set (db_auth_sessions d')" "s' \<in> set (db_auth_sessions d')" "as_family_id s = as_family_id s'"
      "as_revoked_at s = None" "as_revoked_at s' = None" for s s'
    using that live [of s] live [of s'] sessions_okD(2) [OF ok old old, of s s']
    by (cases "as_family_id s = as_family_id a") simp_all
  ultimately show "sessions_ok d'" by (rule sessions_okI)
  show "live_sessions (as_family_id a) d' = [r]" if "as_revoked_at r = None"
  proof -
    have "filter (\<lambda>s. as_family_id s = as_family_id a \<and> as_revoked_at s = None) (table_save as_id a' (db_auth_sessions d)) = []"
      using a'(4) other table_save_revoked [OF dist a(1) a'(1)] by (auto simp: filter_empty_conv)
    then show ?thesis using that r(2) by (simp add: live_sessions_def d')
  qed
qed

lemma refresh_sessions_ok:
  assumes "sessions_ok d" and "fresh en d"
  shows "sessions_ok (snd (refresh cr st en req tok d))"
proof (cases rule: refresh_sessions [of cr st en req tok d])
  case same
  then show ?thesis using assms(1) sessions_ok_cong by blast
next
  case (revoked a t)
  then show ?thesis using assms(1) sessions_ok_revoke_family by blast
next
  case (rotated a u)
  have "a \<in> set (db_auth_sessions d)"
    using rotated(1) by (auto simp: get_auth_session_def dest: table_get_Some)
  moreover have "en_uuid en 0 \<notin> as_id ` set (db_auth_sessions d)"
    using freshD [OF assms(2), of 0] by simp
  moreover have "us_id u = as_user_id a" using rotated(3) by (rule users.get_key)
  ultimately show ?thesis
    using rotated(2) by (intro sessions_ok_rotate(1) [OF assms(1) _ _ _ _ _ _ _ _ _ rotated(8)]) simp_all
qed

lemma logout_sessions:
  "db_auth_sessions (logout cr en req tok d) = db_auth_sessions d \<or>
   (\<exists>f t. db_auth_sessions (logout cr en req tok d) = db_auth_sessions (revoke_family f t d))"
  by (auto simp: logout_def Let_def split: option.split)

lemma change_password_sessions:
  "db_auth_sessions (snd (change_password cr en req u old new d)) = db_auth_sessions d \<or>
   (\<exists>t. db_auth_sessions (snd (change_password cr en req u old new d)) = db_auth_sessions (revoke_user (us_id u) t d))"
  by (auto simp: change_password_def Let_def revoke_user_sessions)

lemma user_update_sessions:
  "db_auth_sessions (snd (user_update en req actor i up d)) = db_auth_sessions d \<or>
   (\<exists>u t. db_auth_sessions (snd (user_update en req actor i up d)) = db_auth_sessions (revoke_user u t d))"
  by (auto simp: user_update_def Let_def revoke_user_sessions split: option.split)

lemma other_ops_sessions:
  "db_auth_sessions (snd (user_create cr en req actor uc d)) = db_auth_sessions d"
  "db_auth_sessions (snd (create_first_admin cr en e name pw d)) = db_auth_sessions d"
  "db_auth_sessions (snd (api_key_create cr en req actor kc d)) = db_auth_sessions d"
  "db_auth_sessions (snd (api_key_revoke en req actor i d)) = db_auth_sessions d"
  "db_auth_sessions (snd (get_current_user cr st en req tok d)) = db_auth_sessions d"
  "db_auth_sessions (snd (require_permission p en req u d)) = db_auth_sessions d"
  "db_auth_sessions (snd (require_event_ingest_key cr en req v d)) = db_auth_sessions d"
  by (auto simp: user_create_def create_first_admin_def api_key_create_def api_key_revoke_def get_current_user_def
      require_permission_def require_event_ingest_key_def Let_def create_user_row_sessions
      split: option.split sum.split exn.split)

lemma sessions_ok_step:
  assumes "sessions_ok d"
    and "db_auth_sessions d' = db_auth_sessions d \<or>
      (\<exists>f t. db_auth_sessions d' = db_auth_sessions (revoke_family f t d)) \<or>
      (\<exists>u t. db_auth_sessions d' = db_auth_sessions (revoke_user u t d))"
  shows "sessions_ok d'"
  using assms(2)
proof (elim disjE exE)
  show "db_auth_sessions d' = db_auth_sessions d \<Longrightarrow> sessions_ok d'"
    using assms(1) sessions_ok_cong by blast
qed (use assms(1) sessions_ok_revoke_family sessions_ok_revoke_user in blast)+

lemma account_step_sessions_ok:
  assumes "account_step R w w'" and "sessions_ok (wd_db w)"
  shows "sessions_ok (wd_db w')"
  using assms
proof (cases rule: account_step.cases)
  case (login en cr st dh req e pw)
  then show ?thesis 
    using sessions_ok_grow [OF assms(2) login(2) _ _ login_sessions [of R cr st dh en req e pw w]] by simp
next
  case (register en cr st req p)
  then show ?thesis 
    using sessions_ok_grow [OF assms(2) register(2) _ _ register_sessions [of R cr st en req p w]] by simp
next
  case (refresh en cr st req tok)
  then show ?thesis using assms(2) refresh_sessions_ok by simp
next
  case (logout cr en req tok)
  then show ?thesis
    using sessions_ok_step [OF assms(2)] logout_sessions [of cr en req tok "wd_db w"] by auto
next
  case (change_password u cr en req old new)
  have "sessions_ok (snd (change_password cr en req u old new (wd_db w)))"
    by (rule sessions_ok_step [OF assms(2)]) (use change_password_sessions [of cr en req u old new "wd_db w"] in blast)
  then show ?thesis using change_password(1) by simp
next
  case (user_update en req actor i up)
  have "sessions_ok (snd (user_update en req actor i up (wd_db w)))"
    by (rule sessions_ok_step [OF assms(2)]) (use user_update_sessions [of en req actor i up "wd_db w"] in blast)
  then show ?thesis using user_update(1) by simp
qed (simp, rule sessions_ok_step [OF assms(2)], simp add: other_ops_sessions)+

lemma reachable_sessions_ok: "account_reachable R w0 w \<Longrightarrow> sessions_ok (wd_db w0) \<Longrightarrow> sessions_ok (wd_db w)"
  by (induction rule: account_reachable.induct) (auto dest: account_step_sessions_ok)

lemma live_sessions_le_1: "sessions_ok d \<Longrightarrow> length (live_sessions f d) \<le> 1"
proof (rule ccontr)
  assume ok: "sessions_ok d" and "\<not> length (live_sessions f d) \<le> 1"
  then obtain a b rest where eq: "live_sessions f d = a # b # rest"
    by (metis One_nat_def length_0_conv length_Cons le0 le_refl list.exhaust)
  then have "a \<in> set (live_sessions f d)" "b \<in> set (live_sessions f d)" by simp_all
  then have "a = b" using sessions_okD(2) [OF ok] by (auto simp: live_sessions_def)
  moreover have "distinct (map as_id (live_sessions f d))"
    using ok by (simp add: live_sessions_def sessions_ok_def distinct_map_filter)
  ultimately show False by (simp add: eq)
qed

text \<open>
  C5: in every database reachable by the account operations from an empty session table, each
  session family (the chain of rotated refresh tokens of one login) has at most one session
  that is not revoked, and all its sessions belong to the same user.
\<close>

theorem one_live_session_per_family:
  assumes "account_reachable R w0 w" and "db_auth_sessions (wd_db w0) = []"
  shows "length (live_sessions f (wd_db w)) \<le> 1 \<and>
    (\<forall>s \<in> set (db_auth_sessions (wd_db w)). \<forall>s' \<in> set (db_auth_sessions (wd_db w)).
       as_family_id s = as_family_id s' \<longrightarrow> as_user_id s = as_user_id s')"
proof -
  have ok: "sessions_ok (wd_db w)"
    by (rule reachable_sessions_ok [OF assms(1)]) (simp add: sessions_ok_def assms(2))
  then show ?thesis using live_sessions_le_1 [OF ok] sessions_okD(1) [OF ok] by blast
qed

section \<open>Rotation and reuse of refresh tokens\<close>

lemma live_family_inactive: "live_sessions f d = [] \<Longrightarrow> \<not> family_is_active f t d"
  by (auto simp: live_sessions_def family_is_active_def filter_empty_conv)

lemma filter_update_where:
  "(\<And>x. p x \<Longrightarrow> \<not> q (f x)) \<Longrightarrow> (\<And>x. q x \<Longrightarrow> p x) \<Longrightarrow> filter q (update_where p f rows) = []"
  by (induction rows) auto

lemma live_after_revoke: "live_sessions f (revoke_family f t d) = []"
  unfolding live_sessions_def revoke_family_sessions by (rule filter_update_where) simp_all

lemma get_auth_session_mem:
  "sessions_ok d \<Longrightarrow> a \<in> set (db_auth_sessions d) \<Longrightarrow> get_auth_session (as_id a) d = Some a"
  by (simp add: get_auth_session_def sessions_ok_def table_get_distinct)

text \<open>Presenting a token of a session that is not live is refused, and kills the family it belongs to.\<close>

lemma refresh_not_live:
  assumes "parse_refresh_token tok = Some (i, secret)" and "get_auth_session i d = Some a"
    and "as_revoked_at a \<noteq> None"
  shows "fst (refresh cr st en req (Some tok) d) = Inl RefreshTokenError"
    and "as_token_hash a = hash_secret cr secret \<Longrightarrow>
      live_sessions (as_family_id a) (snd (refresh cr st en req (Some tok) d)) = []"
proof -
  have "tok \<noteq> []" using assms(1) by (auto simp: parse_refresh_token_def split_once_def)
  then show "fst (refresh cr st en req (Some tok) d) = Inl RefreshTokenError"
    using assms by (simp add: refresh_def)
  show "live_sessions (as_family_id a) (snd (refresh cr st en req (Some tok) d)) = []"
    if "as_token_hash a = hash_secret cr secret"
    using live_after_revoke [of "as_family_id a" "en_now en 0" d] assms that \<open>tok \<noteq> []\<close>
    by (simp add: refresh_def live_sessions_def)
qed

lemma refresh_success:
  assumes "sessions_ok d" and "fresh en d" and "refresh cr st en req (Some tok) d = (Inr r, d')"
  obtains a u new secret old where "get_auth_session (as_id a) d = Some a" "parse_refresh_token tok = Some (as_id a, secret)"
    "as_token_hash a = hash_secret cr secret" "as_revoked_at a = None" "en_now en 0 < as_expires_at a"
    "get_user (as_user_id a) d = Some u" "us_is_active u"
    "get_auth_session (as_id a) d' = Some old" "as_revoked_at old = Some (en_now en 0)"
    "as_token_hash old = as_token_hash a" "as_family_id old = as_family_id a"
    "live_sessions (as_family_id a) d' = [new]" "new \<in> set (db_auth_sessions d')" "as_family_id new = as_family_id a"
    "as_user_id new = as_user_id a" "as_expires_at new = en_now en 0 + seconds (auth_refresh_token_days st * 86400)"
    "parse_refresh_token (rs_refresh_token r) = Some (as_id new, en_secret en 0)"
    "as_token_hash new = hash_secret cr (en_secret en 0)"
proof (cases rule: refresh_sessions [of cr st en req "Some tok" d])
  case (rotated a u)
  let ?old = "a\<lparr>as_revoked_at := Some (en_now en 0), as_last_used_at := Some (en_now en 0),
            as_replaced_by_id := Some (en_uuid en 0)\<rparr>"
  let ?new = "session_row cr st req (en_secret en 0) (en_uuid en 0) (as_family_id a) (us_id u) (en_now en 0) (en_now en 1)"
  have a: "a \<in> set (db_auth_sessions d)"
    using rotated(1) by (auto simp: get_auth_session_def dest: table_get_Some)
  have id: "en_uuid en 0 \<notin> as_id ` set (db_auth_sessions d)"
    using freshD [OF assms(2), of 0] by simp
  have u: "us_id u = as_user_id a" using rotated(3) by (rule users.get_key)
  have d': "db_auth_sessions d' = table_save as_id ?old (db_auth_sessions d) @ [?new]"
    using rotated(8) assms(3) by simp
  have live: "live_sessions (as_family_id a) d' = [?new]"
    using rotated(2) a id u by (intro sessions_ok_rotate(2) [OF assms(1) a _ _ _ _ _ _ _ _ d']) simp_all
  have ok': "sessions_ok d'"
    using refresh_sessions_ok [OF assms(1,2), of cr st req "Some tok"] assms(3) by simp
  have "?old \<in> set (db_auth_sessions d')"
    using table_save_revoked [OF sessions_ok_distinct [OF assms(1)] a, of ?old] by (simp add: d')
  from get_auth_session_mem [OF ok' this] have old: "get_auth_session (as_id a) d' = Some ?old" by simp
  have tok: "tok \<noteq> []" using rotated(6) by (cases tok) (auto simp: parse_refresh_token_def split_once_def)
  have r: "rs_refresh_token r = fst (generate_refresh_token cr (en_secret en 0) (en_uuid en 0))"
    using rotated(9) assms(3) by auto
  obtain secret where secret: "parse_refresh_token tok = Some (as_id a, secret)"
    using rotated(6) tok by auto
  show ?thesis
    using that [of a secret u ?old ?new] rotated(1-5,7) tok secret old live u r by (simp add: d')
qed (use assms(3) in simp_all)

text \<open>
  C22: a successful refresh needs a token whose session is unrevoked and unexpired, of an active
  user, and whose secret matches the stored hash; afterwards the session it presented is
  revoked and the replacement is the family's only live session, for the same user, expiring
  the configured number of days later, and the new token names it with the right secret.
\<close>

theorem refresh_rotates:
  assumes "sessions_ok d" and "fresh en d" and "refresh cr st en req (Some tok) d = (Inr r, d')"
  shows "\<exists>a u new secret old. get_auth_session (as_id a) d = Some a \<and> parse_refresh_token tok = Some (as_id a, secret) \<and>
    as_token_hash a = hash_secret cr secret \<and> as_revoked_at a = None \<and> en_now en 0 < as_expires_at a \<and>
    get_user (as_user_id a) d = Some u \<and> us_is_active u \<and>
    get_auth_session (as_id a) d' = Some old \<and> as_revoked_at old = Some (en_now en 0) \<and>
    live_sessions (as_family_id a) d' = [new] \<and> as_user_id new = as_user_id a \<and>
    as_expires_at new = en_now en 0 + seconds (auth_refresh_token_days st * 86400) \<and>
    parse_refresh_token (rs_refresh_token r) = Some (as_id new, en_secret en 0) \<and>
    as_token_hash new = hash_secret cr (en_secret en 0)"
  by (rule refresh_success [OF assms]) blast

text \<open>
  C7: refresh tokens are single use, and reuse is answered by revoking the login: after a token was
  exchanged, presenting it again is refused, and from then on no session of its family is live, so
  that the token obtained in the exchange is refused as well.
\<close>

theorem refresh_reuse_revokes_family:
  assumes "sessions_ok d" and "fresh en d" and "refresh cr st en req (Some tok) d = (Inr r, d1)"
    and "fresh en1 d1" and "refresh cr st1 en1 req1 (Some tok) d1 = (x, d2)"
  shows "x = Inl RefreshTokenError \<and>
    (\<exists>a. get_auth_session (as_id a) d = Some a \<and> as_revoked_at a = None \<and>
       (\<forall>t. \<not> family_is_active (as_family_id a) t d2)) \<and>
    fst (refresh cr st2 en2 req2 (Some (rs_refresh_token r)) d2) = Inl RefreshTokenError"
proof -
  obtain a u new secret old where a: "get_auth_session (as_id a) d = Some a" "parse_refresh_token tok = Some (as_id a, secret)"
      "as_token_hash a = hash_secret cr secret" "as_revoked_at a = None"
    and old: "get_auth_session (as_id a) d1 = Some old" "as_revoked_at old = Some (en_now en 0)"
      "as_token_hash old = as_token_hash a" "as_family_id old = as_family_id a"
    and new: "new \<in> set (db_auth_sessions d1)" "as_family_id new = as_family_id a"
      "parse_refresh_token (rs_refresh_token r) = Some (as_id new, en_secret en 0)"
    by (rule refresh_success [OF assms(1-3)])
  have ok1: "sessions_ok d1" using refresh_sessions_ok [OF assms(1,2), of cr st req "Some tok"] assms(3) by simp
  have ok2: "sessions_ok d2" using refresh_sessions_ok [OF ok1 assms(4), of cr st1 req1 "Some tok"] assms(5) by simp
  have rev: "as_revoked_at old \<noteq> None" "as_token_hash old = hash_secret cr secret"
    using old a(3) by simp_all
  have x: "x = Inl RefreshTokenError"
    using refresh_not_live(1) [OF a(2) old(1) rev(1), of cr st1 en1 req1] assms(5) by simp
  have dead: "live_sessions (as_family_id a) d2 = []"
    using refresh_not_live(2) [OF a(2) old(1) rev(1,2), of st1 en1 req1] assms(5) old(4) by simp
  have "as_id new \<in> as_id ` set (db_auth_sessions d2)"
  proof (cases rule: refresh_sessions [of cr st1 en1 req1 "Some tok" d1])
    case (revoked b t)
    then have "map as_id (db_auth_sessions d2) = map as_id (db_auth_sessions d1)"
      using assms(5) by (simp add: revoke_family_sessions update_where_map)
    then have "as_id ` set (db_auth_sessions d2) = as_id ` set (db_auth_sessions d1)"
      by (metis list.set_map)
    then show ?thesis using new(1) by blast
  next
    case (rotated b v)
    then show ?thesis using x assms(5) by simp
  qed (use assms(5) new(1) in simp)
  then obtain n2 where n2: "n2 \<in> set (db_auth_sessions d2)" "as_id n2 = as_id new" by auto
  have "as_family_id n2 = as_family_id a"
  proof (cases rule: refresh_sessions [of cr st1 en1 req1 "Some tok" d1])
    case same
    then have "n2 \<in> set (db_auth_sessions d1)" using assms(5) n2(1) by simp
    then have "n2 = new" using get_auth_session_mem [OF ok1] new(1) n2(2) by (metis option.inject)
    then show ?thesis using new(2) by simp
  next
    case (revoked b t)
    then obtain n1 where n1: "n1 \<in> set (db_auth_sessions d1)" "as_id n2 = as_id n1" "as_family_id n2 = as_family_id n1"
      using n2(1) assms(5) by (auto simp: revoke_family_sessions set_update_where)
    then have "n1 = new" using get_auth_session_mem [OF ok1] new(1) n2(2) by (metis option.inject)
    then show ?thesis using new(2) n1(3) by simp
  next
    case (rotated b v)
    then show ?thesis using x assms(5) by simp
  qed
  then have "as_revoked_at n2 \<noteq> None"
    using dead n2(1) by (auto simp: live_sessions_def filter_empty_conv)
  then have "fst (refresh cr st2 en2 req2 (Some (rs_refresh_token r)) d2) = Inl RefreshTokenError"
    using get_auth_session_mem [OF ok2 n2(1)] n2(2) refresh_not_live(1) [OF new(3)] by simp
  then show ?thesis using x a live_family_inactive [OF dead] by blast
qed

section \<open>Revocation takes effect\<close>

lemma get_current_user_Inr:
  assumes "fst (get_current_user cr st en req tok d) = Inr (u, f)"
  shows "get_user (us_id u) d = Some u" "us_is_active u" "family_is_active f (en_now en 1) d"
    "\<exists>claims. decode_access_token cr st (en_now en 0) (the tok) = Inr claims \<and> ac_user_id claims = us_id u \<and>
       ac_family_id claims = f"
proof -
  have "\<exists>claims. decode_access_token cr st (en_now en 0) (the tok) = Inr claims \<and> ac_family_id claims = f \<and>
      get_user (ac_user_id claims) d = Some u \<and> us_is_active u \<and> family_is_active f (en_now en 1) d"
    using assms
    by (auto simp: get_current_user_def Let_def split: if_splits sum.splits exn.splits option.splits)
  then obtain claims where c: "decode_access_token cr st (en_now en 0) (the tok) = Inr claims" "ac_family_id claims = f"
      "get_user (ac_user_id claims) d = Some u" "us_is_active u" "family_is_active f (en_now en 1) d"
    by blast
  moreover have "us_id u = ac_user_id claims" using c(3) by (rule users.get_key)
  ultimately show "get_user (us_id u) d = Some u" "us_is_active u" "family_is_active f (en_now en 1) d"
    "\<exists>claims. decode_access_token cr st (en_now en 0) (the tok) = Inr claims \<and> ac_user_id claims = us_id u \<and>
       ac_family_id claims = f" by auto
qed

lemma family_inactive_after_revoke_user:
  assumes "sessions_ok d" and "s \<in> set (db_auth_sessions d)" and "as_user_id s = i"
    and "db_auth_sessions d' = db_auth_sessions (revoke_user i t d)"
  shows "\<not> family_is_active (as_family_id s) t' d'"
proof -
  have "filter (\<lambda>x. as_family_id x = as_family_id s \<and> as_revoked_at x = None \<and> t' < as_expires_at x)
      (db_auth_sessions d') = []"
  proof -
    have "as_revoked_at x \<noteq> None" if "x \<in> set (db_auth_sessions d')" "as_family_id x = as_family_id s" for x
    proof -
      have "x \<in> (\<lambda>y. if as_user_id y = i \<and> as_revoked_at y = None then y\<lparr>as_revoked_at := Some t\<rparr> else y)
          ` set (db_auth_sessions d)"
        using that(1) unfolding assms(4) revoke_user_sessions set_update_where by simp
      then obtain y where y: "x = (if as_user_id y = i \<and> as_revoked_at y = None then y\<lparr>as_revoked_at := Some t\<rparr> else y)"
        "y \<in> set (db_auth_sessions d)"
        by (rule imageE)
      then have "as_family_id y = as_family_id x" by simp
      then have "as_user_id y = i" using sessions_okD(1) [OF assms(1) y(2) assms(2)] that(2) assms(3) by simp
      then show ?thesis using y(1) by simp
    qed
    then show ?thesis by (auto simp: filter_empty_conv)
  qed
  then show ?thesis by (simp add: family_is_active_def)
qed

text \<open>
  C25: a successful password change ends every session: afterwards no refresh token and no access token
  whose family belongs to the user is accepted, whatever the token's remaining lifetime.
\<close>

theorem password_change_ends_sessions:
  assumes "sessions_ok d" and "change_password cr en req u old new d = (Inr (), d')"
    and "s \<in> set (db_auth_sessions d)" and "as_user_id s = us_id u"
  shows "fst (get_current_user cr st en1 req1 tok d') \<noteq> Inr (v, as_family_id s) \<and>
    (parse_refresh_token rtok = Some (as_id s, secret) \<longrightarrow>
       fst (refresh cr st en1 req1 (Some rtok) d') = Inl RefreshTokenError)"
proof -
  obtain t where d': "db_auth_sessions d' = db_auth_sessions (revoke_user (us_id u) t d)"
    using assms(2) by (auto simp: change_password_def Let_def revoke_user_sessions split: if_splits)
  have ok': "sessions_ok d'" using sessions_ok_revoke_user [OF assms(1) d'] .
  have inactive: "\<not> family_is_active (as_family_id s) t' d'" for t'
    using family_inactive_after_revoke_user [OF assms(1,3,4) d'] .
  have "\<exists>s'. s' \<in> set (db_auth_sessions d') \<and> as_id s' = as_id s \<and> as_revoked_at s' \<noteq> None"
  proof (intro exI conjI)
    let ?f = "\<lambda>x. if as_user_id x = us_id u \<and> as_revoked_at x = None then x\<lparr>as_revoked_at := Some t\<rparr> else x"
    show "?f s \<in> set (db_auth_sessions d')"
      unfolding d' revoke_user_sessions set_update_where by (rule imageI [OF assms(3)])
  qed (use assms(4) in simp_all)
  then obtain s' where s': "s' \<in> set (db_auth_sessions d')" "as_id s' = as_id s" "as_revoked_at s' \<noteq> None"
    by blast
  have "fst (refresh cr st en1 req1 (Some rtok) d') = Inl RefreshTokenError"
    if "parse_refresh_token rtok = Some (as_id s, secret)"
    using refresh_not_live(1) [OF that _ s'(3)] get_auth_session_mem [OF ok' s'(1)] s'(2) by simp
  then show ?thesis using inactive get_current_user_Inr(3) by blast
qed

section \<open>The last administrator\<close>

definition admins_ok :: "db \<Rightarrow> bool" where
  "admins_ok d = (distinct (map us_id (db_users d)) \<and> 0 < active_admin_count d)"

lemma admin_count_save:
  assumes "distinct (map us_id us)" and "u \<in> set us" and "us_id u' = us_id u"
  shows "int (length (filter active_admin (table_save us_id u' us)))
    = int (length (filter active_admin us)) - of_bool (active_admin u) + of_bool (active_admin u')"
  using assms
proof (induction us)
  case (Cons x xs)
  show ?case
  proof (cases "x = u")
    case True
    then have "table_save us_id u' xs = xs"
      using Cons.prems by (auto simp: table_save_def image_iff intro!: map_idI)
    then show ?thesis using True Cons.prems by (simp add: table_save_def)
  next
    case False
    then have "us_id x \<noteq> us_id u" using Cons.prems by auto
    moreover have "table_save us_id u' (x # xs) = x # table_save us_id u' xs"
      using calculation Cons.prems(3) by (simp add: table_save_def)
    ultimately show ?thesis using Cons False by simp
  qed
qed simp

lemma admins_ok_save:
  assumes "admins_ok d" and "u \<in> set (db_users d)" and "us_id u' = us_id u"
    and "db_users d' = table_save us_id u' (db_users d)"
    and "active_admin u \<Longrightarrow> active_admin u' \<or> 1 < active_admin_count d"
  shows "admins_ok d'"
proof -
  have "active_admin_count d' = active_admin_count d - of_bool (active_admin u) + of_bool (active_admin u')"
    using admin_count_save [of "db_users d" u u'] assms(1-4) by (simp add: active_admin_count_def admins_ok_def)
  then show ?thesis using assms by (auto simp: admins_ok_def)
qed

lemma admins_ok_add:
  assumes "admins_ok d" and "us_id u \<notin> us_id ` set (db_users d)" and "db_users d' = db_users d @ [u]"
  shows "admins_ok d'"
  using assms by (simp add: admins_ok_def active_admin_count_def)

lemma admins_ok_same: "admins_ok d \<Longrightarrow> db_users d' = db_users d \<Longrightarrow> admins_ok d'"
  by (simp add: admins_ok_def active_admin_count_def)

lemma get_user_mem: "get_user i d = Some u \<Longrightarrow> u \<in> set (db_users d) \<and> us_id u = i"
  by (auto simp: get_user_def dest: table_get_Some)

lemma get_by_email_mem: "get_by_email e d = Some u \<Longrightarrow> u \<in> set (db_users d)"
  by (auto simp: get_by_email_def find_Some_iff)

lemma create_user_row_users:
  "create_user_row u d = Inr d' \<Longrightarrow> us_id u \<notin> us_id ` set (db_users d) \<and> db_users d' = db_users d @ [u]"
  by (auto simp: create_user_row_def split: if_splits)

lemma login_users:
  "db_users (wd_db (snd (login R cr st dh en req e pw w))) = db_users (wd_db w) \<or>
   (\<exists>u t t'. u \<in> set (db_users (wd_db w)) \<and>
      db_users (wd_db (snd (login R cr st dh en req e pw w)))
        = table_save us_id (u\<lparr>us_last_login_at := Some t, us_updated_at := t'\<rparr>) (db_users (wd_db w)))"
proof (cases "is_limited R cr st (en_now en 0) (normalize_email e) (source_ip_of req) (wd_redis w)")
  case (Inr lim)
  show ?thesis
  proof (cases "lim \<or> get_by_email (normalize_email e) (wd_db w) = None")
    case True
    then show ?thesis using Inr by (cases lim) (simp_all add: login_def Let_def)
  next
    case False
    then obtain u where u: "get_by_email (normalize_email e) (wd_db w) = Some u" by auto
    show ?thesis
    proof (cases "verify_password cr pw (us_password_hash u) \<and> us_is_active u")
      case True
      have "db_users (wd_db (snd (login R cr st dh en req e pw w)))
          = table_save us_id (u\<lparr>us_last_login_at := Some (en_now en 4), us_updated_at := en_now en 5\<rparr>) (db_users (wd_db w))"
        using True False u Inr by (simp add: login_def Let_def split_beta save_user_def sessions_new_session(2))
      then show ?thesis using get_by_email_mem [OF u] by blast
    next
      case nok: False
      then show ?thesis using False u Inr by (auto simp: login_def Let_def)
    qed
  qed
qed (simp add: login_def Let_def)

lemma register_users:
  "db_users (wd_db (snd (register R cr st en req p w))) = db_users (wd_db w) \<or>
   (\<exists>u u'. us_id u \<notin> us_id ` set (db_users (wd_db w)) \<and> us_role_name u = ''analyst'' \<and> us_role_name u' = ''analyst'' \<and>
      us_id u' = us_id u \<and>
      db_users (wd_db (snd (register R cr st en req p w))) = table_save us_id u' (db_users (wd_db w) @ [u]))"
proof (cases "is_register_limited R cr (en_now en 0) (source_ip_of req) (wd_redis w)")
  case (Inr lim)
  let ?e = "normalize_email (rg_email p)"
  let ?u = "new_user (en_uuid en 0) ?e (py_strip (rg_full_name p))
                      (hash_password cr (en_secret en 1) (rg_password p)) ''analyst'' None (en_now en 2)"
  let ?u' = "?u\<lparr>us_last_login_at := Some (en_now en 3), us_updated_at := en_now en 4\<rparr>"
  show ?thesis
  proof (cases "lim \<or> get_by_email ?e (wd_db w) \<noteq> None")
    case True
    then show ?thesis using Inr by (cases lim) (simp_all add: register_def Let_def)
  next
    case False
    show ?thesis
    proof (cases "create_user_row ?u (wd_db w)")
      case (Inl x)
      then show ?thesis using False Inr by (simp add: register_def Let_def)
    next
      case (Inr d1)
      then have "db_users (wd_db (snd (register R cr st en req p w))) = table_save us_id ?u' (db_users d1)"
        using False \<open>is_register_limited _ _ _ _ _ = Inr lim\<close>
        by (simp add: register_def Let_def split_beta save_user_def sessions_new_session(2))
      with create_user_row_users [OF Inr] show ?thesis
        by (intro disjI2 exI [of _ ?u] exI [of _ ?u']) (simp add: new_user_def)
    qed
  qed
qed (simp add: register_def Let_def)

lemma refresh_users: "db_users (snd (refresh cr st en req tok d)) = db_users d"
  by (simp add: refresh_def Let_def split_beta split: option.split)

lemma logout_users: "db_users (logout cr en req tok d) = db_users d"
  by (simp add: logout_def Let_def split_beta split: option.split)

lemma other_ops_users:
  "db_users (snd (api_key_create cr en req actor kc d)) = db_users d"
  "db_users (snd (api_key_revoke en req actor i d)) = db_users d"
  "db_users (snd (get_current_user cr st en req tok d)) = db_users d"
  "db_users (snd (require_permission p en req u d)) = db_users d"
  "db_users (snd (require_event_ingest_key cr en req v d)) = db_users d"
  by (auto simp: api_key_create_def api_key_revoke_def get_current_user_def
      require_permission_def require_event_ingest_key_def Let_def split: option.split sum.split exn.split)

lemma creation_users:
  "db_users (snd (user_create cr en req actor uc d)) = db_users d \<or>
   (\<exists>u. us_id u \<notin> us_id ` set (db_users d) \<and> db_users (snd (user_create cr en req actor uc d)) = db_users d @ [u])"
  "db_users (snd (create_first_admin cr en e name pw d)) = db_users d \<or>
   (\<exists>u. us_id u \<notin> us_id ` set (db_users d) \<and> db_users (snd (create_first_admin cr en e name pw d)) = db_users d @ [u])"
  by (auto simp: user_create_def create_first_admin_def Let_def dest: create_user_row_users split: option.split sum.split)

lemma admins_ok_register:
  assumes "admins_ok d" and "us_id u \<notin> us_id ` set (db_users d)" and "us_role_name u = ''analyst''"
    and "us_role_name u' = ''analyst''" and "us_id u' = us_id u" and "db_users d' = table_save us_id u' (db_users d @ [u])"
  shows "admins_ok d'"
proof -
  have "admins_ok (add_user u d)" by (rule admins_ok_add [OF assms(1,2)]) simp
  then show ?thesis
    by (rule admins_ok_save [of _ u u']) (use assms in \<open>simp_all add: active_admin_def\<close>)
qed

lemma user_update_admins_ok:
  assumes "admins_ok d" shows "admins_ok (snd (user_update en req actor i p d))"
proof (cases "get_user i d")
  case (Some u)
  show ?thesis
  proof (cases "removes_admin u p \<and> active_admin_count d \<le> 1")
    case False
    let ?u' = "updated_user u p (en_now en 0)"
    have "db_users (snd (user_update en req actor i p d)) = table_save us_id ?u' (db_users d)"
      by (simp only: user_update_def Some option.case if_not_P [OF False]) (simp add: Let_def save_user_def)
    moreover have "active_admin ?u' \<or> 1 < active_admin_count d" if "active_admin u"
      using that False by (auto simp: active_admin_def removes_admin_def updated_user_def split: option.splits)
    ultimately show ?thesis
      using get_user_mem [OF Some] by (intro admins_ok_save [OF assms, of u ?u']) (simp_all add: updated_user_def)
  qed (simp add: user_update_def Some assms)
qed (simp add: user_update_def assms)

lemma account_step_admins_ok:
  assumes "account_step R w w'" and "admins_ok (wd_db w)"
  shows "admins_ok (wd_db w')"
  using assms(1)
proof (cases rule: account_step.cases)
  case (login en cr st dh req e pw)
  consider "db_users (wd_db w') = db_users (wd_db w)"
    | u t t' where "u \<in> set (db_users (wd_db w))" "db_users (wd_db w') =
        table_save us_id (u\<lparr>us_last_login_at := Some t, us_updated_at := t'\<rparr>) (db_users (wd_db w))"
    using login_users [of R cr st dh en req e pw w] login(1) by auto
  then show ?thesis
  proof cases
    case 1
    then show ?thesis by (rule admins_ok_same [OF assms(2)])
  next
    case 2
    show ?thesis by (rule admins_ok_save [OF assms(2) 2(1) _ 2(2)]) (simp_all add: active_admin_def)
  qed
next
  case (register en cr st req p)
  then show ?thesis
    using register_users [of R cr st en req p w] admins_ok_same [OF assms(2)] admins_ok_register [OF assms(2)] by blast
next
  case (change_password u cr en req old new)
  have "admins_ok (snd (change_password cr en req u old new (wd_db w)))"
  proof (cases "verify_password cr old (us_password_hash u)")
    case True
    show ?thesis
      by (rule admins_ok_save [OF assms(2), of u "u\<lparr>us_password_hash := hash_password cr (en_secret en 0) new,
            us_credentials_changed_at := en_now en 0, us_updated_at := en_now en 1\<rparr>"])
        (use True get_user_mem [OF change_password(2)] in
          \<open>simp_all add: change_password_def Let_def save_user_def active_admin_def\<close>)
  qed (simp add: change_password_def admins_ok_same [OF assms(2)])
  then show ?thesis using change_password(1) by simp
next
  case (user_create cr en req actor uc)
  then show ?thesis
    using creation_users(1) [of cr en req actor uc "wd_db w"] admins_ok_same [OF assms(2)] admins_ok_add [OF assms(2)]
    by fastforce
next
  case (bootstrap cr en e name pw)
  then show ?thesis
    using creation_users(2) [of cr en e name pw "wd_db w"] admins_ok_same [OF assms(2)] admins_ok_add [OF assms(2)]
    by fastforce
next
  case (user_update en req actor i up)
  then show ?thesis using user_update_admins_ok [OF assms(2)] by simp
qed (simp, rule admins_ok_same [OF assms(2)], simp add: refresh_users logout_users other_ops_users)+

lemma reachable_admins_ok: "account_reachable R w0 w \<Longrightarrow> admins_ok (wd_db w0) \<Longrightarrow> admins_ok (wd_db w)"
  by (induction rule: account_reachable.induct) (auto dest: account_step_admins_ok)

text \<open>
  C8: the account services keep an active administrator. Once the first administrator has been
  created in an empty user table, every database that the operations of the account services
  alone can reach (logins, registrations, user updates, password changes, keys and all the rest
  of \<open>account_step\<close>, one after the other in any order) has an active administrator. The response
  action that disables a user is not one of them: the executor writes users without this guard.
\<close>

theorem always_an_active_admin:
  assumes "create_first_admin cr en email name pw d0 = (Inr True, d1)" and "db_users d0 = []"
    and "account_reachable R \<lparr>wd_db = d1, wd_redis = s\<rparr> w"
  shows "\<exists>u \<in> set (db_users (wd_db w)). us_role_name u = ''admin'' \<and> us_is_active u"
proof -
  have "admins_ok d1"
    using assms(1,2) by (auto simp: create_first_admin_def Let_def get_by_email_def create_user_row_def admins_ok_def
        active_admin_count_def active_admin_def new_user_def split: if_splits)
  then have "admins_ok (wd_db w)" using reachable_admins_ok [OF assms(3)] by simp
  then have "filter active_admin (db_users (wd_db w)) \<noteq> []"
    by (auto simp: admins_ok_def active_admin_count_def)
  then show ?thesis by (auto simp: filter_empty_conv active_admin_def)
qed

section \<open>The life of an API key\<close>

lemma find_snoc: "(\<And>x. x \<in> set xs \<Longrightarrow> \<not> P x) \<Longrightarrow> P y \<Longrightarrow> find P (xs @ [y]) = Some y"
  by (induction xs) auto

text \<open>
  an API key that was just created is accepted for event ingestion until it expires (when it
  carries the ingestion scope), with the principal of its row; and after its revocation it is refused for ever.
\<close>

theorem api_key_lifecycle:
  assumes "api_key_create cr en req actor p d = (Inr (k, raw), d1)" and "''events:write'' \<in> set (kc_scopes p)"
    and "en_secret en 0 \<noteq> []" "CHR ''_'' \<notin> set (en_secret en 0)" "en_secret en 1 \<noteq> []"
  shows "((case kc_expires_at p of None \<Rightarrow> True | Some t \<Rightarrow> en_now en1 0 < t) \<longrightarrow>
      (\<exists>sp. fst (require_event_ingest_key cr en1 req1 (Some raw) d1) = Inr sp \<and> sp_id sp = ak_id k \<and>
         sp_scopes sp = set (kc_scopes p))) \<and>
    (\<forall>d2. api_key_revoke en2 req2 actor2 (ak_id k) d1 = (Some k2, d2) \<longrightarrow>
      fst (require_event_ingest_key cr en1 req1 (Some raw) d2) = Inl (HTTPException 401 ''Invalid API key''))"
proof -
  have k: "k = api_key_row cr en actor p" and raw: "raw = fst (generate_api_key cr (en_secret en 0) (en_secret en 1))"
    and fresh: "ak_id k \<notin> ak_id ` set (db_api_keys d)" "ak_prefix k \<notin> ak_prefix ` set (db_api_keys d)"
    and d1: "db_api_keys d1 = db_api_keys d @ [k]"
    using assms(1) by (auto simp: api_key_create_def Let_def add_api_key_def split: if_splits)
  have parse: "parse_api_key raw = Some (en_secret en 0, en_secret en 1)"
    unfolding raw by (rule parse_generated_api_key [OF assms(3-5)])
  have row: "ak_prefix k = en_secret en 0" "ak_key_hash k = hash_secret cr (en_secret en 1)" "ak_is_active k"
    "ak_revoked_at k = None" "ak_expires_at k = kc_expires_at p" "set (ak_scopes k) = set (kc_scopes p)"
    by (simp_all add: k api_key_row_def generate_api_key_def fromkeys_def)
  have "raw \<noteq> []" by (simp add: raw generate_api_key_def)
  have find1: "get_by_prefix (en_secret en 0) d1 = Some k"
    using fresh(2) row(1) unfolding get_by_prefix_def d1 by (intro find_snoc) (auto simp: image_iff)
  have "fst (require_event_ingest_key cr en1 req1 (Some raw) d2) = Inl (HTTPException 401 ''Invalid API key'')"
    if "api_key_revoke en2 req2 actor2 (ak_id k) d1 = (Some k2, d2)" for d2
  proof -
    let ?k2 = "k\<lparr>ak_revoked_at := Some (en_now en2 0), ak_is_active := False\<rparr>"
    have "get_api_key (ak_id k) d1 = Some k"
      using fresh(1) by (simp add: get_api_key_def d1 table_get_append table_get_None)
        (metis option.case_eq_if table_get_None)
    then have d2: "db_api_keys d2 = table_save ak_id ?k2 (db_api_keys d1)"
      using that row(4) by (auto simp: api_key_revoke_def Let_def save_api_key_def)
    have "\<not> api_key_usable cr t sec x" if "x \<in> set (db_api_keys d2)" "ak_prefix x = en_secret en 0" for x t sec
      using that fresh row(1) unfolding d2 d1 by (auto simp: table_save_def api_key_usable_def image_iff split: if_splits)
    then show ?thesis
      using parse \<open>raw \<noteq> []\<close>
      by (auto simp: require_event_ingest_key_def Let_def get_by_prefix_def find_Some_iff split: option.split)
  qed
  moreover have "\<exists>sp. fst (require_event_ingest_key cr en1 req1 (Some raw) d1) = Inr sp \<and> sp_id sp = ak_id k \<and>
         sp_scopes sp = set (kc_scopes p)" if "case kc_expires_at p of None \<Rightarrow> True | Some t \<Rightarrow> en_now en1 0 < t"
    using that find1 parse row assms(2) \<open>raw \<noteq> []\<close>
    by (simp add: require_event_ingest_key_def api_key_usable_def)
  ultimately show ?thesis by blast
qed

section \<open>A concrete account, for the witnesses\<close>

definition example_settings :: settings where
  "example_settings = default_settings ''d'' ''r'' ''0123456789abcdef0123456789abcdef''"

definition example_request :: request where
  "example_request = \<lparr>rq_request_id = None, rq_method = ''POST'', rq_path = ''/auth'', rq_client = None, rq_user_agent = None\<rparr>"

definition example_env :: "datetime \<Rightarrow> uuid \<Rightarrow> env" where
  "example_env t base = \<lparr>en_now = (\<lambda>_. t), en_uuid = (\<lambda>k. base + of_nat k), en_secret = (\<lambda>k. ''abc'')\<rparr>"

definition example_user :: user where
  "example_user = new_user 1 ''admin@example.org'' ''Admin'' ''old'' ''admin'' None 0"

definition example_session :: auth_session where
  "example_session = session_row enumerated_jwt example_settings example_request ''s'' 2 3 1 0 0"

definition example_accounts :: db where
  "example_accounts = empty_db\<lparr>db_users := [example_user], db_auth_sessions := [example_session]\<rparr>"

definition example_token :: string where
  "example_token = fst (generate_refresh_token enumerated_jwt ''s'' 2)"

lemma example_env_simps [simp]:
  "en_now (example_env t b) k = t" "en_uuid (example_env t b) k = b + of_nat k" "en_secret (example_env t b) k = ''abc''"
  by (simp_all add: example_env_def)

lemma example_session_simps [simp]:
  "as_id example_session = 2" "as_family_id example_session = 3" "as_user_id example_session = 1"
  "as_revoked_at example_session = None" "as_token_hash example_session = ''s''"
  "as_expires_at example_session = 604800000000"
  by (simp_all add: example_session_def example_settings_def hash_secret_def enumerated_jwt_def seconds_def)

lemma example_user_simps [simp]:
  "us_id example_user = 1" "us_is_active example_user" "us_password_hash example_user = ''old''"
  by (simp_all add: example_user_def new_user_def)

lemma example_accounts_rows [simp]:
  "db_users example_accounts = [example_user]" "db_auth_sessions example_accounts = [example_session]"
  by (simp_all add: example_accounts_def)

lemma example_sessions_ok: "sessions_ok example_accounts"
  by (simp add: sessions_ok_def)

lemma all_less_8: "(\<forall>k < 8. P k) \<longleftrightarrow> P 0 \<and> P 1 \<and> P 2 \<and> P 3 \<and> P 4 \<and> P 5 \<and> P 6 \<and> P (7 :: nat)"
  by (simp add: numeral_eq_Suc All_less_Suc conj_ac)

lemma example_fresh: "fresh (example_env t 100) example_accounts"
  by (simp add: fresh_def all_less_8)

lemma example_token_parses: "parse_refresh_token example_token = Some (2, ''s'')"
  by (simp add: example_token_def)

lemma example_token_nonempty: "example_token \<noteq> []"
  using example_token_parses by (auto simp: parse_refresh_token_def split_once_def)

definition example_refreshed :: "(exn + authentication_result) \<times> db" where
  "example_refreshed = refresh enumerated_jwt example_settings (example_env 7 100) example_request (Some example_token) example_accounts"

lemma example_lookups [simp]:
  "get_auth_session 2 example_accounts = Some example_session" "get_user 1 example_accounts = Some example_user"
  by (simp_all add: get_auth_session_def get_user_def table_get_def)

lemma example_refreshed_rows:
  "\<exists>r. fst example_refreshed = Inr r"
  "db_auth_sessions (snd example_refreshed) =
    [example_session\<lparr>as_revoked_at := Some 7, as_last_used_at := Some 7, as_replaced_by_id := Some 100\<rparr>,
     session_row enumerated_jwt example_settings example_request ''abc'' 100 3 1 7 7]"
  by (simp_all add: example_refreshed_def refresh_def example_token_parses example_token_nonempty Let_def split_beta
      hash_secret_def enumerated_jwt_def save_auth_session_def table_save_def)

lemma example_fresh_again: "fresh (example_env t 200) (snd example_refreshed)"
  by (simp add: fresh_def all_less_8 example_refreshed_rows)

theorem refresh_rotates_witness:
  "\<exists>new. live_sessions 3 (snd example_refreshed) = [new] \<and> as_user_id new = 1"
proof -
  obtain r where "example_refreshed = (Inr r, snd example_refreshed)"
    using example_refreshed_rows(1) by (metis prod.collapse)
  from refresh_rotates [OF example_sessions_ok example_fresh this [unfolded example_refreshed_def]]
  show ?thesis by (auto simp: example_token_parses example_refreshed_def)
qed

theorem refresh_reuse_revokes_family_witness:
  "fst (refresh enumerated_jwt example_settings (example_env 9 200) example_request (Some example_token)
     (snd example_refreshed)) = Inl RefreshTokenError"
proof -
  obtain r where "example_refreshed = (Inr r, snd example_refreshed)"
    using example_refreshed_rows(1) by (metis prod.collapse)
  from refresh_reuse_revokes_family [OF example_sessions_ok example_fresh this [unfolded example_refreshed_def]
      example_fresh_again [unfolded example_refreshed_def] prod.collapse [symmetric]]
  show ?thesis unfolding example_refreshed_def by blast
qed

theorem password_change_ends_sessions_witness:
  "fst (refresh enumerated_jwt example_settings (example_env 9 200) example_request (Some example_token)
     (snd (change_password enumerated_jwt (example_env 8 100) example_request example_user ''old'' ''new'' example_accounts)))
     = Inl RefreshTokenError"
proof -
  have "change_password enumerated_jwt (example_env 8 100) example_request example_user ''old'' ''new'' example_accounts =
    (Inr (), snd (change_password enumerated_jwt (example_env 8 100) example_request example_user ''old'' ''new'' example_accounts))"
    by (simp add: change_password_def verify_password_def enumerated_jwt_def Let_def)
  from password_change_ends_sessions [OF example_sessions_ok this, of example_session]
  show ?thesis by (simp add: example_token_parses)
qed

text \<open>A login, a rotation of its token, and the reuse of the rotated token, from an empty session table.\<close>

definition example_start :: "mem_state world" where
  "example_start = \<lparr>wd_db = empty_db\<lparr>db_users := [example_user]\<rparr>, wd_redis = mem_empty\<rparr>"

definition example_logged_in :: "mem_state world" where
  "example_logged_in = snd (login mem_redis enumerated_jwt example_settings ''x'' (example_env 7 100) example_request
     ''admin@example.org'' ''old'' example_start)"

definition example_cookie :: string where
  "example_cookie = fst (generate_refresh_token enumerated_jwt ''abc'' 100)"

definition example_rotated :: "mem_state world" where
  "example_rotated = example_logged_in\<lparr>wd_db := snd (refresh enumerated_jwt example_settings (example_env 9 200) example_request
     (Some example_cookie) (wd_db example_logged_in))\<rparr>"

definition example_reused :: "mem_state world" where
  "example_reused = example_rotated\<lparr>wd_db := snd (refresh enumerated_jwt example_settings (example_env 11 300) example_request
     (Some example_cookie) (wd_db example_rotated))\<rparr>"

lemma example_logged_in_rows:
  "db_auth_sessions (wd_db example_logged_in) = [session_row enumerated_jwt example_settings example_request ''abc'' 100 101 1 7 7]"
  "db_users (wd_db example_logged_in) = [example_user\<lparr>us_last_login_at := Some 7, us_updated_at := 7\<rparr>]"
proof -
  have email: "normalize_email ''admin@example.org'' = ''admin@example.org''" by code_simp
  have found: "get_by_email ''admin@example.org'' (wd_db example_start) = Some example_user"
    by (simp add: get_by_email_def example_start_def example_user_def new_user_def)
  have none: "r_get mem_redis 7 k mem_empty = None" for k by (simp add: mem_redis_def mem_get_def mem_empty_def)
  have limits: "auth_login_account_limit example_settings = 5" "auth_login_ip_limit example_settings = 20"
    by (simp_all add: example_settings_def default_settings_simps)
  have open_: "is_limited mem_redis enumerated_jwt example_settings 7 e ip mem_empty = Inr False" for e ip
    by (simp add: is_limited_def none counter_value_def limits)
  have pw: "verify_password enumerated_jwt ''old'' ''old''" by (simp add: verify_password_def enumerated_jwt_def)
  have redis: "wd_redis example_start = mem_empty" by (simp add: example_start_def)
  show "db_auth_sessions (wd_db example_logged_in) = [session_row enumerated_jwt example_settings example_request ''abc'' 100 101 1 7 7]"
    "db_users (wd_db example_logged_in) = [example_user\<lparr>us_last_login_at := Some 7, us_updated_at := 7\<rparr>]"
    by (simp_all add: example_logged_in_def login_def Let_def email found open_ pw split_beta redis)
      (simp_all add: example_start_def new_session_def add_auth_session_def empty_db_def save_user_def table_save_def audit_record_def Let_def split_beta)
qed

lemma example_cookie_parses: "parse_refresh_token example_cookie = Some (100, ''abc'')" "example_cookie \<noteq> []"
proof -
  show "parse_refresh_token example_cookie = Some (100, ''abc'')" by (simp add: example_cookie_def)
  then show "example_cookie \<noteq> []" by (auto simp: parse_refresh_token_def split_once_def)
qed

lemma example_rotated_rows:
  "db_auth_sessions (wd_db example_rotated) =
    [(session_row enumerated_jwt example_settings example_request ''abc'' 100 101 1 7 7)\<lparr>as_revoked_at := Some 9, as_last_used_at := Some 9, as_replaced_by_id := Some 200\<rparr>,
     session_row enumerated_jwt example_settings example_request ''abc'' 200 101 1 9 9]"
  by (simp add: example_rotated_def refresh_def example_cookie_parses Let_def split_beta get_auth_session_def table_get_def get_user_def
      example_logged_in_rows session_row_def generate_refresh_token_def hash_secret_def enumerated_jwt_def save_auth_session_def table_save_def
      example_settings_def default_settings_simps seconds_def)

lemma example_reused_rows:
  "\<forall>a \<in> set (db_auth_sessions (wd_db example_reused)). as_revoked_at a \<noteq> None"
  "map as_id (db_auth_sessions (wd_db example_reused)) = [100, 200]"
  by (simp_all add: example_reused_def refresh_def example_cookie_parses get_auth_session_def table_get_def revoke_family_sessions
      example_rotated_rows session_row_def generate_refresh_token_def hash_secret_def enumerated_jwt_def update_where_def)

lemma example_run:
  "account_reachable mem_redis example_start example_rotated" "account_reachable mem_redis example_start example_reused"
proof -
  have "fresh (example_env 7 100) (wd_db example_start)" by (simp add: fresh_def example_start_def empty_db_def)
  then have one: "account_reachable mem_redis example_start example_logged_in"
    unfolding example_logged_in_def by (intro account_reachable.step [OF account_reachable.start] account_step.login)
  have "fresh (example_env 9 200) (wd_db example_logged_in)"
    by (simp add: fresh_def example_logged_in_rows all_less_8)
  then show two: "account_reachable mem_redis example_start example_rotated"
    unfolding example_rotated_def by (intro account_reachable.step [OF one] account_step.refresh)
  have "fresh (example_env 11 300) (wd_db example_rotated)"
    by (simp add: fresh_def example_rotated_rows all_less_8)
  then show "account_reachable mem_redis example_start example_reused"
    unfolding example_reused_def by (intro account_reachable.step [OF two] account_step.refresh)
qed

theorem one_live_session_per_family_witness:
  "\<exists>old new. db_auth_sessions (wd_db example_rotated) = [old, new] \<and> as_family_id old = 101 \<and> as_family_id new = 101 \<and>
     as_user_id old = as_user_id new \<and> as_revoked_at old = Some 9 \<and> live_sessions 101 (wd_db example_rotated) = [new] \<and>
     live_sessions 101 (wd_db example_reused) = [] \<and> length (db_auth_sessions (wd_db example_reused)) = 2"
proof -
  have empty: "db_auth_sessions (wd_db example_start) = []" by (simp add: example_start_def empty_db_def)
  obtain old new where rows: "db_auth_sessions (wd_db example_rotated) = [old, new]"
    and old: "as_family_id old = 101" "as_revoked_at old = Some 9" and new: "as_family_id new = 101" "as_revoked_at new = None"
    by (simp add: example_rotated_rows)
  note rotated = one_live_session_per_family [OF example_run(1) empty, where f = 101]
  have "old \<in> set (db_auth_sessions (wd_db example_rotated))" "new \<in> set (db_auth_sessions (wd_db example_rotated))"
    "as_family_id old = as_family_id new"
    unfolding rows old(1) new(1) by simp_all
  with rotated [THEN conjunct2] have same: "as_user_id old = as_user_id new" by blast
  have "new \<in> set (live_sessions 101 (wd_db example_rotated))" by (simp add: live_sessions_def rows new)
  with rotated [THEN conjunct1] have "live_sessions 101 (wd_db example_rotated) = [new]"
    by (cases "live_sessions 101 (wd_db example_rotated)") auto
  moreover have "live_sessions 101 (wd_db example_reused) = []"
    using example_reused_rows(1) by (auto simp: live_sessions_def filter_empty_conv)
  ultimately show ?thesis
    using rows old new same arg_cong [OF example_reused_rows(2), of length] by simp
qed

text \<open>The bootstrapped administrator, refused to demote itself.\<close>

definition example_bootstrapped :: "(exn + bool) \<times> db" where
  "example_bootstrapped = create_first_admin enumerated_jwt (example_env 0 1) ''a'' ''b'' ''c''
     (empty_db\<lparr>db_roles := [\<lparr>ro_name = ''admin'', ro_description = [], ro_created_at = 0\<rparr>]\<rparr>)"

definition example_demotion :: user_update_schema where
  "example_demotion = \<lparr>up_full_name = None, up_role_name = Some ''viewer'', up_is_active = None\<rparr>"

theorem always_an_active_admin_witness:
  "fst (user_update (example_env 5 50) example_request example_user 1 example_demotion (snd example_bootstrapped)) = Inl LastAdminError \<and>
   (\<exists>u \<in> set (db_users (snd (user_update (example_env 5 50) example_request example_user 1 example_demotion (snd example_bootstrapped)))).
     us_role_name u = ''admin'' \<and> us_is_active u)"
proof -
  have run: "example_bootstrapped = (Inr True, snd example_bootstrapped)"
    by (simp add: example_bootstrapped_def create_first_admin_def get_by_email_def create_user_row_def role_exists_def new_user_def Let_def empty_db_def)
  have rows: "db_users (snd example_bootstrapped) = [new_user 1 (normalize_email ''a'') (py_strip ''b'') (hash_password enumerated_jwt ''abc'' ''c'') ''admin'' None 0]"
    by (simp add: example_bootstrapped_def create_first_admin_def get_by_email_def create_user_row_def role_exists_def Let_def empty_db_def new_user_def)
  have refused: "fst (user_update (example_env 5 50) example_request example_user 1 example_demotion (snd example_bootstrapped)) = Inl LastAdminError"
    by (simp add: user_update_def get_user_def table_get_def rows new_user_def removes_admin_def example_demotion_def active_admin_count_def active_admin_def)
  let ?w = "\<lparr>wd_db = snd example_bootstrapped, wd_redis = mem_empty\<rparr>"
  have "account_reachable mem_redis ?w (?w\<lparr>wd_db := snd (user_update (example_env 5 50) example_request example_user 1 example_demotion (wd_db ?w))\<rparr>)"
    by (intro account_reachable.step [OF account_reachable.start] account_step.user_update)
  from always_an_active_admin [OF run [unfolded example_bootstrapped_def] _ this [unfolded example_bootstrapped_def]]
  have "\<exists>u \<in> set (db_users (snd (user_update (example_env 5 50) example_request example_user 1 example_demotion (snd example_bootstrapped)))).
     us_role_name u = ''admin'' \<and> us_is_active u"
    unfolding example_bootstrapped_def world.simps by (simp only: empty_db_def db.simps)
  with refused show ?thesis by blast
qed

theorem api_key_lifecycle_witness:
  "\<exists>sp. fst (require_event_ingest_key enumerated_jwt (example_env 5 50) example_request
      (Some (fst (generate_api_key enumerated_jwt ''abc'' ''abc'')))
      (snd (api_key_create enumerated_jwt (example_env 4 40) example_request example_user
         \<lparr>kc_name = ''k'', kc_scopes = [''events:write''], kc_expires_at = None\<rparr> example_accounts))) = Inr sp"
proof -
  let ?p = "\<lparr>kc_name = ''k'', kc_scopes = [''events:write''], kc_expires_at = None\<rparr>"
  let ?r = "api_key_create enumerated_jwt (example_env 4 40) example_request example_user ?p example_accounts"
  have "?r = (Inr (api_key_row enumerated_jwt (example_env 4 40) example_user ?p,
      fst (generate_api_key enumerated_jwt ''abc'' ''abc'')), snd ?r)"
    by (simp add: api_key_create_def Let_def example_accounts_def empty_db_def)
  from api_key_lifecycle [OF this, THEN conjunct1, of "example_env 5 50" example_request] show ?thesis by auto
qed

end
