(* ===== verification/Realtime.thy ===== *)
theory Realtime
  imports Accounts "HOL-Library.AList"
begin

text \<open>
  The realtime channel: \<^verbatim>\<open>realtime/events.py\<close> (publishing), \<^verbatim>\<open>realtime/tickets.py\<close> (single-use
  tickets), \<^verbatim>\<open>realtime/manager.py\<close> (connections and their bounded queues) and the socket
  endpoint \<^verbatim>\<open>api/v1/endpoints/realtime.py\<close>. The dictionary of connections is an association
  list in insertion order; a websocket is its identity number; the queue of a connection is the
  list of payloads waiting to be sent.
\<close>

section \<open>Publishing\<close>

record realtime_envelope =
  rt_id :: uuid
  rt_type :: string
  rt_entity_id :: string
  rt_occurred_at :: datetime
  rt_version :: int
  rt_payload :: "(string \<times> json) list"

definition channels :: "string \<Rightarrow> string" where
  "channels g =
    (if g = ''event'' then ''events'' else if g = ''alert'' then ''alerts'' else if g = ''incident'' then ''incidents''
     else if g = ''investigation'' then ''investigations'' else if g = ''response'' then ''responses'' else ''system'')"

definition rstrip_colons :: "string \<Rightarrow> string" where
  "rstrip_colons s = rev (dropWhile (\<lambda>c. c = CHR '':'') (rev s))"

text \<open>The channel and the message of \<^verbatim>\<open>publish\<close>; the message is sent as the JSON text of the envelope.\<close>

definition publish :: "string \<Rightarrow> uuid \<Rightarrow> datetime \<Rightarrow> string \<Rightarrow> string \<Rightarrow> (string \<times> json) list \<Rightarrow> int \<Rightarrow>
    string \<times> realtime_envelope" where
  "publish channel_prefix i now event_type entity_id payload version =
    (rstrip_colons channel_prefix @ '':'' @ channels (hd (split_all CHR ''.'' event_type)),
     \<lparr>rt_id = i, rt_type = event_type, rt_entity_id = entity_id, rt_occurred_at = now,
      rt_version = version, rt_payload = payload\<rparr>)"

section \<open>Tickets\<close>

definition ticket_key :: "crypto \<Rightarrow> string \<Rightarrow> string \<Rightarrow> string" where
  "ticket_key cr key_prefix ticket = rstrip_colons key_prefix @ '':ticket:'' @ cr_sha256 cr ticket"

definition issue_ticket :: "'r redis_api \<Rightarrow> crypto \<Rightarrow> settings \<Rightarrow> datetime \<Rightarrow> string \<Rightarrow> uuid \<Rightarrow> uuid \<Rightarrow> 'r \<Rightarrow> string \<times> 'r" where
  "issue_ticket R cr st now secret user_id family_id s =
    (secret, r_set R now (ticket_key cr (realtime_redis_channel_prefix st) secret)
       (uuid_str user_id @ '':'' @ uuid_str family_id) (Some (realtime_ticket_ttl_seconds st)) s)"

definition consume_ticket :: "'r redis_api \<Rightarrow> crypto \<Rightarrow> settings \<Rightarrow> datetime \<Rightarrow> string \<Rightarrow> 'r \<Rightarrow> (uuid \<times> uuid) option \<times> 'r" where
  "consume_ticket R cr st now ticket s =
    (let (v, s') = r_getdel R now (ticket_key cr (realtime_redis_channel_prefix st) ticket) s
     in (if \<not> truthy_str v then None
         else (case split_once CHR '':'' (the v) of None \<Rightarrow> None
           | Some (user_id, family_id) \<Rightarrow>
             (case (uuid_parse user_id, uuid_parse family_id) of (Some u, Some f) \<Rightarrow> Some (u, f) | _ \<Rightarrow> None)), s'))"

text \<open>The identity test of the socket and of every heartbeat.\<close>

definition may_read :: "uuid \<Rightarrow> uuid \<Rightarrow> datetime \<Rightarrow> db \<Rightarrow> bool" where
  "may_read user_id family_id now d =
    (case get_user user_id d of None \<Rightarrow> False
     | Some u \<Rightarrow> us_is_active u \<and> SOC_READ \<in> set (permissions_for_role (us_role_name u)) \<and>
         family_is_active family_id now d)"

definition authenticate_ticket :: "'r redis_api \<Rightarrow> crypto \<Rightarrow> settings \<Rightarrow> datetime \<Rightarrow> string option \<Rightarrow> 'r world \<Rightarrow>
    (uuid \<times> uuid) option \<times> 'r world" where
  "authenticate_ticket R cr st now ticket w =
    (if \<not> truthy_str ticket then (None, w)
     else case consume_ticket R cr st now (the ticket) (wd_redis w) of
       (None, s) \<Rightarrow> (None, w\<lparr>wd_redis := s\<rparr>)
     | (Some (u, f), s) \<Rightarrow> (if may_read u f now (wd_db w) then Some (u, f) else None, w\<lparr>wd_redis := s\<rparr>))"

section \<open>Connections\<close>

record realtime_manager =
  rm_max_connections :: int
  rm_max_message_bytes :: int
  rm_connections :: "(nat \<times> string list) list"

definition queue_size :: nat where
  "queue_size = 100"

text \<open>The bytes of a text in UTF-8: a code point below 128 takes one, the others here two.\<close>

definition utf8_length :: "string \<Rightarrow> int" where
  "utf8_length s = sum_list (map (\<lambda>c. if (of_char c :: nat) < 128 then 1 else 2) s)"

definition manager_connect :: "nat \<Rightarrow> realtime_manager \<Rightarrow> bool \<times> realtime_manager" where
  "manager_connect ws m =
    (if rm_max_connections m \<le> int (length (rm_connections m)) then (False, m)
     else (True, m\<lparr>rm_connections := AList.update ws [] (rm_connections m)\<rparr>))"

definition manager_disconnect :: "nat \<Rightarrow> realtime_manager \<Rightarrow> realtime_manager" where
  "manager_disconnect ws m = m\<lparr>rm_connections := AList.delete ws (rm_connections m)\<rparr>"

text \<open>\<^verbatim>\<open>put_nowait\<close>, and on a full queue \<^verbatim>\<open>get_nowait\<close> before it.\<close>

definition enqueue :: "string \<Rightarrow> string list \<Rightarrow> string list" where
  "enqueue payload q = (if length q < queue_size then q @ [payload] else tl q @ [payload])"

definition fan_out :: "string \<Rightarrow> realtime_manager \<Rightarrow> realtime_manager" where
  "fan_out payload m =
    (if rm_max_message_bytes m < utf8_length payload then m
     else m\<lparr>rm_connections := map (\<lambda>(ws, q). (ws, enqueue payload q)) (rm_connections m)\<rparr>)"

text \<open>\<^verbatim>\<open>_send_messages\<close> takes the first payload of a connection and sends it.\<close>

definition send_next :: "nat \<Rightarrow> realtime_manager \<Rightarrow> string option \<times> realtime_manager" where
  "send_next ws m =
    (case map_of (rm_connections m) ws of
       Some (p # q) \<Rightarrow> (Some p, m\<lparr>rm_connections := AList.update ws q (rm_connections m)\<rparr>)
     | _ \<Rightarrow> (None, m))"

section \<open>The socket\<close>

datatype socket_result = Closed int string | Ready uuid uuid

definition realtime_socket :: "'r redis_api \<Rightarrow> crypto \<Rightarrow> settings \<Rightarrow> datetime \<Rightarrow> nat \<Rightarrow> string option \<Rightarrow> string option \<Rightarrow>
    'r world \<times> realtime_manager \<Rightarrow> socket_result \<times> 'r world \<times> realtime_manager" where
  "realtime_socket R cr st now ws origin ticket wm =
    (let (w, m) = wm
     in if origin \<noteq> None \<and> the origin \<notin> set (realtime_allowed_origins st)
        then (Closed 4403 ''Origin not allowed'', w, m)
        else (case authenticate_ticket R cr st now ticket w of
          (None, w') \<Rightarrow> (Closed 4401 ''Invalid realtime ticket'', w', m)
        | (Some (u, f), w') \<Rightarrow>
          (case manager_connect ws m of
             (False, m') \<Rightarrow> (Closed 1013 ''Realtime capacity reached'', w', m')
           | (True, m') \<Rightarrow> (Ready u f, w', m'))))"

text \<open>A received text either closes the connection or is ignored; a heartbeat ends a revoked session.\<close>

definition socket_receive :: "settings \<Rightarrow> string \<Rightarrow> (int \<times> string) option" where
  "socket_receive st raw =
    (if realtime_max_message_bytes st < utf8_length raw then Some (1009, ''Message too large'') else None)"

definition heartbeat :: "uuid \<Rightarrow> uuid \<Rightarrow> datetime \<Rightarrow> db \<Rightarrow> (int \<times> string) option" where
  "heartbeat user_id family_id now d =
    (if may_read user_id family_id now d then None else Some (4401, ''Session revoked''))"

section \<open>Runs of the manager\<close>

datatype manager_op = Connect nat | Disconnect nat | FanOut string | Send nat

text \<open>The manager, and the log of what was sent to whom.\<close>

fun manager_step :: "manager_op \<Rightarrow> realtime_manager \<times> (nat \<times> string) list \<Rightarrow> realtime_manager \<times> (nat \<times> string) list" where
  "manager_step (Connect ws) (m, sent) = (snd (manager_connect ws m), sent)"
| "manager_step (Disconnect ws) (m, sent) = (manager_disconnect ws m, sent)"
| "manager_step (FanOut p) (m, sent) = (fan_out p m, sent)"
| "manager_step (Send ws) (m, sent) =
    (case send_next ws m of (None, m') \<Rightarrow> (m', sent) | (Some p, m') \<Rightarrow> (m', sent @ [(ws, p)]))"

definition manager_run :: "manager_op list \<Rightarrow> realtime_manager \<Rightarrow> realtime_manager \<times> (nat \<times> string) list" where
  "manager_run ops m = fold manager_step ops (m, [])"

definition sent_to :: "nat \<Rightarrow> (nat \<times> string) list \<Rightarrow> string list" where
  "sent_to ws sent = map snd (filter (\<lambda>(w, _). w = ws) sent)"

definition accepted :: "int \<Rightarrow> manager_op list \<Rightarrow> string list" where
  "accepted bound ops = concat (map (\<lambda>x. case x of FanOut p \<Rightarrow> if bound < utf8_length p then [] else [p] | _ \<Rightarrow> []) ops)"

lemma manager_limits [simp]:
  "rm_max_connections (fst (manager_step x ms)) = rm_max_connections (fst ms)"
  "rm_max_message_bytes (fst (manager_step x ms)) = rm_max_message_bytes (fst ms)"
  by (cases ms; cases x; simp add: manager_connect_def manager_disconnect_def fan_out_def send_next_def
      split: option.split list.split)+

lemma length_enqueue: "length q \<le> queue_size \<Longrightarrow> length (enqueue p q) \<le> queue_size"
  by (auto simp: enqueue_def queue_size_def)

definition manager_ok :: "realtime_manager \<Rightarrow> bool" where
  "manager_ok m = (distinct (map fst (rm_connections m)) \<and> int (length (rm_connections m)) \<le> rm_max_connections m \<and>
     (\<forall>(ws, q) \<in> set (rm_connections m). length q \<le> queue_size))"

lemma length_AList_update: "length (AList.update k v xs) \<le> Suc (length xs)"
  "k \<in> fst ` set xs \<Longrightarrow> length (AList.update k v xs) = length xs"
  by (induction xs) auto

lemma set_AList_update: "set (AList.update k v xs) \<subseteq> insert (k, v) (set xs)"
  by (induction xs) auto

lemma manager_step_ok: "manager_ok (fst ms) \<Longrightarrow> manager_ok (fst (manager_step x ms))"
proof (cases ms)
  case (Pair m sent)
  assume "manager_ok (fst ms)"
  then have ok: "manager_ok m" by (simp add: Pair)
  show ?thesis
  proof (cases x)
    case (Connect ws)
    have "length (AList.update ws [] (rm_connections m)) \<le> Suc (length (rm_connections m))"
      by (rule length_AList_update)
    then show ?thesis
      using ok set_AList_update [of ws "[]" "rm_connections m"]
      by (auto simp: Pair Connect manager_connect_def manager_ok_def distinct_update)
  next
    case (Disconnect ws)
    have "length (AList.delete ws (rm_connections m)) \<le> length (rm_connections m)"
      by (rule length_delete_le)
    moreover have "set (AList.delete ws (rm_connections m)) \<subseteq> set (rm_connections m)"
      by (auto simp: AList.delete_eq)
    ultimately show ?thesis
      using ok by (auto simp: Pair Disconnect manager_disconnect_def manager_ok_def distinct_delete)
  next
    case (FanOut p)
    have "distinct (map (\<lambda>x. fst (case x of (ws, q) \<Rightarrow> (ws, enqueue p q))) (rm_connections m)) =
        distinct (map fst (rm_connections m))"
      by (simp add: case_prod_beta)
    then show ?thesis
      using ok by (auto simp: Pair FanOut fan_out_def manager_ok_def comp_def intro!: length_enqueue)
  next
    case (Send ws)
    show ?thesis
    proof (cases "map_of (rm_connections m) ws")
      case (Some q)
      have "ws \<in> fst ` set (rm_connections m)" using map_of_SomeD [OF Some] by force
      moreover have "length q \<le> queue_size" using ok map_of_SomeD [OF Some] by (auto simp: manager_ok_def)
      ultimately show ?thesis
        using ok set_AList_update [of ws "tl q" "rm_connections m"]
        by (auto simp: Pair Send send_next_def Some manager_ok_def distinct_update length_AList_update(2) split: list.split)
    qed (use ok in \<open>simp add: Pair Send send_next_def\<close>)
  qed
qed

text \<open>
  whatever connections come and go and whatever is broadcast, a manager started without
  connections never holds more connections than its maximum, and no connection has more than
  100 payloads waiting.
\<close>

theorem realtime_bounded:
  assumes "rm_connections m = []" and "0 \<le> rm_max_connections m" and "(m', sent) = manager_run ops m"
  shows "int (length (rm_connections m')) \<le> rm_max_connections m \<and>
    (\<forall>(ws, q) \<in> set (rm_connections m'). length q \<le> 100)"
proof -
  have "manager_ok (fst (fold manager_step ops ms)) \<and>
      rm_max_connections (fst (fold manager_step ops ms)) = rm_max_connections (fst ms)" if "manager_ok (fst ms)" for ms
    using that by (induction ops arbitrary: ms) (simp_all add: manager_step_ok)
  moreover have "manager_ok m" using assms(1,2) by (simp add: manager_ok_def)
  moreover have "m' = fst (fold manager_step ops (m, []))" using assms(3) by (metis fst_conv manager_run_def)
  ultimately have "manager_ok m'" "rm_max_connections m' = rm_max_connections m" by simp_all
  then show ?thesis by (auto simp: manager_ok_def queue_size_def)
qed

theorem realtime_bounded_witness:
  "length (rm_connections (fst (manager_run [Connect 1, Connect 2, FanOut ''x'']
      \<lparr>rm_max_connections = 1, rm_max_message_bytes = 10, rm_connections = []\<rparr>))) \<le> 1"
  using realtime_bounded [of "\<lparr>rm_max_connections = 1, rm_max_message_bytes = 10, rm_connections = []\<rparr>", OF _ _ prod.collapse]
  by simp

section \<open>What a connected client receives\<close>

definition client_view :: "nat \<Rightarrow> string list \<Rightarrow> realtime_manager \<times> (nat \<times> string) list \<Rightarrow> bool" where
  "client_view ws acc ms = (\<exists>q. map_of (rm_connections (fst ms)) ws = Some q \<and> length q \<le> queue_size \<and> suffix q acc \<and>
     subseq (sent_to ws (snd ms) @ q) acc \<and> (length acc \<le> queue_size \<longrightarrow> sent_to ws (snd ms) @ q = acc))"

lemma map_of_enqueue: "map_of (map (\<lambda>(ws, q). (ws, enqueue p q)) xs) ws = map_option (enqueue p) (map_of xs ws)"
  by (induction xs) auto

lemma client_view_fan_out:
  assumes "client_view ws acc (m, sent)"
  shows "client_view ws (if rm_max_message_bytes m < utf8_length p then acc else acc @ [p]) (fan_out p m, sent)"
proof (cases "rm_max_message_bytes m < utf8_length p")
  case False
  obtain q where q: "map_of (rm_connections m) ws = Some q" "length q \<le> queue_size" "suffix q acc"
      "subseq (sent_to ws sent @ q) acc" "length acc \<le> queue_size \<Longrightarrow> sent_to ws sent @ q = acc"
    using assms by (auto simp: client_view_def)
  have "suffix (tl q) q" by (simp add: suffix_tl)
  then have "suffix (tl q) acc" using q(3) suffix_order.trans by blast
  then have suf: "suffix (enqueue p q) (acc @ [p])" using q(3) by (auto simp: enqueue_def)
  have "subseq (sent_to ws sent @ tl q) (sent_to ws sent @ q)"
    using \<open>suffix (tl q) q\<close> suffix_imp_subseq by (auto intro: list_emb_append_mono)
  then have "subseq (sent_to ws sent @ tl q) acc" using q(4) subseq_order.trans by blast
  then have sub: "subseq (sent_to ws sent @ enqueue p q) (acc @ [p])"
    using q(4) subseq_append' [of _ "[p]" acc] by (auto simp: enqueue_def simp flip: append_assoc)
  have "sent_to ws sent @ enqueue p q = acc @ [p]" if "length (acc @ [p]) \<le> queue_size"
  proof -
    have acc: "sent_to ws sent @ q = acc" using q(5) that by simp
    then have "length q \<le> length acc" by (metis length_append le_add2)
    then show ?thesis using that acc by (auto simp: enqueue_def)
  qed
  then show ?thesis
    using False q(1,2) suf sub by (auto simp: client_view_def fan_out_def map_of_enqueue length_enqueue)
qed (use assms in \<open>simp add: fan_out_def\<close>)

lemma client_view_step:
  assumes "client_view ws acc ms" and "x \<notin> {Connect ws, Disconnect ws}" and "rm_max_message_bytes (fst ms) = bound"
  shows "client_view ws (acc @ accepted bound [x]) (manager_step x ms)"
proof -
  obtain m sent where ms: "ms = (m, sent)" by (cases ms)
  show ?thesis
  proof (cases x)
    case (FanOut p)
    then show ?thesis using client_view_fan_out [of ws acc m sent p] assms(1,3) by (auto simp: ms accepted_def)
  next
    case (Send w)
    show ?thesis
      using assms(1)
      by (auto simp: ms Send client_view_def accepted_def send_next_def sent_to_def update_conv
          dest: suffix_ConsD2 suffix_ConsD split: option.split list.split)
  qed (use assms in \<open>auto simp: ms client_view_def accepted_def manager_connect_def manager_disconnect_def update_conv delete_conv\<close>)
qed

lemma accepted_append: "accepted bound (xs @ ys) = accepted bound xs @ accepted bound ys"
  by (simp add: accepted_def)

text \<open>
  while a client stays connected, what it was sent followed by what is waiting for it is a
  subsequence, in order, of the payloads broadcast since it connected (those within the size
  limit); what is waiting are the most recent ones, so only the oldest unsent payloads are ever
  dropped; and nothing is dropped while at most 100 were broadcast.
\<close>

theorem realtime_delivery:
  assumes "map_of (rm_connections m) ws = Some []" and "set ops \<inter> {Connect ws, Disconnect ws} = {}"
    and "(m', sent) = manager_run ops m" and "acc = accepted (rm_max_message_bytes m) ops"
  shows "\<exists>q. map_of (rm_connections m') ws = Some q \<and> suffix q acc \<and> subseq (sent_to ws sent @ q) acc \<and>
    (length acc \<le> 100 \<longrightarrow> sent_to ws sent @ q = acc)"
proof -
  have "client_view ws acc (fold manager_step ops ms) \<and>
      rm_max_message_bytes (fst (fold manager_step ops ms)) = rm_max_message_bytes (fst ms)"
    if "ms = (m, [])" "set ops \<inter> {Connect ws, Disconnect ws} = {}" "acc = accepted (rm_max_message_bytes m) ops"
    for ms ops acc
    using that
  proof (induction ops arbitrary: acc rule: rev_induct)
    case Nil
    then show ?case using assms(1) by (simp add: client_view_def accepted_def sent_to_def)
  next
    case (snoc x xs)
    then show ?case
      using client_view_step [of ws "accepted (rm_max_message_bytes m) xs" "fold manager_step xs ms" x "rm_max_message_bytes m"]
      by (auto simp: accepted_append)
  qed
  from this [OF refl assms(2,4)] have "client_view ws acc (m', sent)"
    using assms(3) by (simp add: manager_run_def)
  then show ?thesis by (auto simp: client_view_def queue_size_def)
qed

theorem realtime_delivery_witness:
  "\<exists>q. sent_to 1 (snd (manager_run [FanOut ''a'', Send 1, FanOut ''b'']
      \<lparr>rm_max_connections = 1, rm_max_message_bytes = 10, rm_connections = [(1, [])]\<rparr>)) @ q = [''a'', ''b'']"
  using realtime_delivery [of "\<lparr>rm_max_connections = 1, rm_max_message_bytes = 10, rm_connections = [(1, [])]\<rparr>" 1
      "[FanOut ''a'', Send 1, FanOut ''b'']", OF _ _ prod.collapse refl]
  by (auto simp: accepted_def utf8_length_def)

section \<open>Tickets are single use\<close>

text \<open>
  a ticket opens one connection only, and only before it expires: presented within its lifetime it
  authenticates exactly the user and the session family it was issued for, if that user may still
  read and the family is live; presented a second time, or after its lifetime, it authenticates nobody.
\<close>

theorem ticket_single_use:
  assumes "redis_strings R" and "secret \<noteq> []" and "t0 \<le> t1" and "t1 \<le> t2"
    and "s = snd (issue_ticket R cr st t0 secret user_id family_id s0)"
    and "(r1, w1) = authenticate_ticket R cr st t1 (Some secret) \<lparr>wd_db = d, wd_redis = s\<rparr>"
    and "(r2, w2) = authenticate_ticket R cr st t2 (Some secret) w1"
  shows "r1 = (if t1 < t0 + seconds (realtime_ticket_ttl_seconds st) \<and> may_read user_id family_id t1 d
               then Some (user_id, family_id) else None) \<and> r2 = None"
proof -
  let ?k = "ticket_key cr (realtime_redis_channel_prefix st) secret"
  let ?v = "uuid_str user_id @ '':'' @ uuid_str family_id"
  have get: "r_get R t1 ?k s = (if t1 < t0 + seconds (realtime_ticket_ttl_seconds st) then Some ?v else None)"
    using redis_strings.get_set [OF assms(1,3), of ?k ?v "Some (realtime_ticket_ttl_seconds st)" s0] by (simp add: assms(5) issue_ticket_def)
  have split: "split_once CHR '':'' ?v = Some (uuid_str user_id, uuid_str family_id)"
    using split_once_append [OF uuid_str_no_sep [of "CHR '':''"], of user_id "uuid_str family_id"] by simp
  have consume: "consume_ticket R cr st t1 secret s =
      (if t1 < t0 + seconds (realtime_ticket_ttl_seconds st) then Some (user_id, family_id) else None, r_delete R t1 ?k s)"
    using split by (simp add: consume_ticket_def redis_strings.getdel [OF assms(1)] get)
  have r1: "r1 = (if t1 < t0 + seconds (realtime_ticket_ttl_seconds st) \<and> may_read user_id family_id t1 d
      then Some (user_id, family_id) else None)" and w1: "wd_redis w1 = r_delete R t1 ?k s"
    using assms(6) \<open>secret \<noteq> []\<close> consume by (auto simp: authenticate_ticket_def split: if_splits)
  have "r2 = None"
    using assms(7) \<open>secret \<noteq> []\<close> redis_strings.get_delete [OF assms(1,4), of ?k s]
    by (simp add: authenticate_ticket_def consume_ticket_def redis_strings.getdel [OF assms(1)] w1)
  then show ?thesis using r1 by simp
qed

theorem ticket_single_use_witness:
  "fst (authenticate_ticket mem_redis enumerated_jwt example_settings 9 (Some ''abc'')
     (snd (authenticate_ticket mem_redis enumerated_jwt example_settings 5 (Some ''abc'')
        \<lparr>wd_db = example_accounts, wd_redis = snd (issue_ticket mem_redis enumerated_jwt example_settings 0 ''abc'' 1 3 mem_empty)\<rparr>)))
     = None"
  using ticket_single_use [OF mem.redis_strings_axioms, of "''abc''" 0 5 9 _ enumerated_jwt example_settings 1 3 mem_empty,
      OF _ _ _ refl prod.collapse prod.collapse] by simp

end
