(* ===== verification/ResponseActions.thy ===== *)
theory ResponseActions
  imports Realtime Correlation
begin

text \<open>
  Response actions proposed and approved by analysts and run by a worker:
  \<^verbatim>\<open>schemas/response_action.py\<close>, \<^verbatim>\<open>services/response_actions.py\<close> and the endpoints
  \<^verbatim>\<open>api/v1/endpoints/response_actions.py\<close>. AWS is not part of the repository: its client is a record
  of calls on an unknown state, each of which may raise. The commit after the claim of an
  action splits its execution into two steps, \<open>claim_action\<close> and \<open>finish_action\<close>.
\<close>

section \<open>Calls that may raise\<close>

text \<open>\<open>x \<leftarrow> call; k x\<close> for a call that returns or raises and changes the state.\<close>

definition io_bind :: "('s \<Rightarrow> (exn + 'x) \<times> 's) \<Rightarrow> ('x \<Rightarrow> 's \<Rightarrow> (exn + 'y) \<times> 's) \<Rightarrow> 's \<Rightarrow> (exn + 'y) \<times> 's" where
  "io_bind call k s = (case call s of (Inl x, s') \<Rightarrow> (Inl x, s') | (Inr v, s') \<Rightarrow> k v s')"

lemma io_bind_Inr: "fst (io_bind call k s) = Inr y \<longleftrightarrow>
    (\<exists>v s'. call s = (Inr v, s') \<and> fst (k v s') = Inr y)"
  by (auto simp: io_bind_def split: prod.split sum.split)

record 'a aws_api =
  aws_caller_account :: "'a \<Rightarrow> (exn + string) \<times> 'a"
  aws_list_access_keys :: "string \<Rightarrow> 'a \<Rightarrow> (exn + (string \<times> string) list) \<times> 'a"
  aws_update_access_key :: "string \<Rightarrow> string \<Rightarrow> string \<Rightarrow> 'a \<Rightarrow> (exn + string) \<times> 'a"
  aws_head_bucket :: "string \<Rightarrow> string \<Rightarrow> 'a \<Rightarrow> (exn + unit) \<times> 'a"
  aws_put_public_access_block :: "string \<Rightarrow> (string \<times> json) list \<Rightarrow> string \<Rightarrow> 'a \<Rightarrow> (exn + string) \<times> 'a"
  aws_get_public_access_block :: "string \<Rightarrow> string \<Rightarrow> 'a \<Rightarrow> (exn + (string \<times> json) list) \<times> 'a"

definition bad_uuid :: exn where
  "bad_uuid = ValueError ''badly formed hexadecimal UUID string''"

section \<open>Proposals\<close>

record response_action_create =
  rc_action_type :: string
  rc_target :: string
  rc_account_id :: "string option"
  rc_rationale :: string
  rc_impact :: string
  rc_evidence_refs :: "string list"
  rc_idempotency_key :: string

definition response_action_create_valid :: "response_action_create \<Rightarrow> bool" where
  "response_action_create_valid p =
    (rc_action_type p \<in> {''revoke_app_sessions'', ''disable_aws_access_key'', ''block_s3_public_access''} \<and>
     1 \<le> length (rc_target p) \<and> length (rc_target p) \<le> 512 \<and>
     (case rc_account_id p of None \<Rightarrow> True | Some a \<Rightarrow> length a = 12 \<and> list_all is_digit a) \<and>
     10 \<le> length (rc_rationale p) \<and> length (rc_rationale p) \<le> 2000 \<and>
     10 \<le> length (rc_impact p) \<and> length (rc_impact p) \<le> 2000 \<and>
     1 \<le> length (rc_evidence_refs p) \<and> length (rc_evidence_refs p) \<le> 20 \<and>
     8 \<le> length (rc_idempotency_key p) \<and> length (rc_idempotency_key p) \<le> 128 \<and>
     (if rc_action_type p = ''revoke_app_sessions'' then uuid_parse (rc_target p) \<noteq> None \<and> rc_account_id p = None
      else rc_account_id p \<noteq> None))"

definition actions_of_incident :: "uuid \<Rightarrow> db \<Rightarrow> response_action list" where
  "actions_of_incident incident_id d =
    sort_key (\<lambda>a. - ra_created_at a) (filter (\<lambda>a. ra_incident_id a = incident_id) (db_response_actions d))"

definition incident_evidence_refs :: "uuid \<Rightarrow> db \<Rightarrow> string list" where
  "incident_evidence_refs incident_id d =
    (let alerts = get_alerts_for_incident incident_id d
     in [''incident:'' @ uuid_str incident_id] @
        map (\<lambda>a. ''alert:'' @ uuid_str (al_id a)) alerts @
        map (\<lambda>(_, e). ''event:'' @ ev_event_id e) (get_by_ids (map al_event_id alerts) d) @
        map (\<lambda>x. ''evidence:'' @ uuid_str (ie_id x))
          (filter (\<lambda>x. ie_incident_id x = incident_id) (db_incident_evidence d)))"

definition response_action_row :: "uuid \<Rightarrow> datetime \<Rightarrow> datetime \<Rightarrow> uuid \<Rightarrow> response_action_create \<Rightarrow> uuid \<Rightarrow> response_action" where
  "response_action_row i created updated incident_id p actor_id =
    \<lparr>ra_id = i, ra_incident_id = incident_id, ra_action_type = rc_action_type p, ra_target = rc_target p,
     ra_account_id = rc_account_id p, ra_status = ''proposed'', ra_rationale = rc_rationale p, ra_impact = rc_impact p,
     ra_evidence_refs = rc_evidence_refs p, ra_idempotency_key = rc_idempotency_key p, ra_proposed_by = actor_id,
     ra_approved_by = None, ra_result = None, ra_error = None, ra_created_at = created, ra_updated_at = updated\<rparr>"

definition check_target :: "response_action_create \<Rightarrow> db \<Rightarrow> exn + unit" where
  "check_target p d =
    (if rc_action_type p = ''revoke_app_sessions''
     then (case uuid_parse (rc_target p) of None \<Rightarrow> Inl bad_uuid
       | Some i \<Rightarrow> if get_user i d = None then Inl (ResponseActionError ''Target app user not found'') else Inr ())
     else Inr ())"

definition insert_action :: "response_action \<Rightarrow> db \<Rightarrow> exn + response_action \<times> db" where
  "insert_action a d =
    (if ra_id a \<in> ra_id ` set (db_response_actions d) \<or> ra_proposed_by a \<notin> us_id ` set (db_users d)
     then Inl IntegrityError else Inr (a, add_response_action a d))"

definition propose :: "env \<Rightarrow> uuid \<Rightarrow> response_action_create \<Rightarrow> uuid \<Rightarrow> db \<Rightarrow> exn + response_action \<times> db" where
  "propose en incident_id p actor_id d =
    (if get_incident incident_id d = None then Inl (ResponseActionError ''Incident not found'')
     else
     (case find (\<lambda>a. ra_incident_id a = incident_id \<and> ra_idempotency_key a = rc_idempotency_key p) (db_response_actions d) of
       Some existing \<Rightarrow>
         if ra_action_type existing \<noteq> rc_action_type p \<or> ra_target existing \<noteq> rc_target p
         then Inl (ResponseActionError ''Idempotency key is already used for another action'') else Inr (existing, d)
     | None \<Rightarrow>
       if \<not> set (rc_evidence_refs p) \<subseteq> set (incident_evidence_refs incident_id d)
       then Inl (ResponseActionError ''Action cites evidence outside this incident'')
       else then_do (check_target p d) (\<lambda>_.
         insert_action (response_action_row (en_uuid en 0) (en_now en 0) (en_now en 1) incident_id p actor_id) d)))"

section \<open>Decisions\<close>

definition decide :: "settings \<Rightarrow> env \<Rightarrow> uuid \<Rightarrow> uuid \<Rightarrow> bool \<Rightarrow> db \<Rightarrow> exn + response_action \<times> db" where
  "decide st en action_id actor_id approve d =
    (case get_response_action action_id d of None \<Rightarrow> Inl (ResponseActionError ''Response action not found'')
     | Some a \<Rightarrow>
       if ra_status a \<noteq> ''proposed'' then Inl (ResponseActionError ''Response action has already been decided'')
       else if ra_proposed_by a = actor_id then Inl (ResponseActionError ''Proposer cannot approve their own action'')
       else if approve \<and> ra_action_type a \<noteq> ''revoke_app_sessions'' \<and> \<not> aws_response_enabled st
       then Inl (ResponseActionError ''AWS response is disabled'')
       else (let a' = a\<lparr>ra_status := (if approve then ''approved'' else ''rejected''), ra_approved_by := Some actor_id,
                       ra_updated_at := en_now en 0\<rparr>
             in Inr (a', save_response_action a' d)))"

definition publish_action :: "settings \<Rightarrow> uuid \<Rightarrow> datetime \<Rightarrow> response_action \<Rightarrow> string \<times> realtime_envelope" where
  "publish_action st i now a =
    publish (realtime_redis_channel_prefix st) i now (''response.'' @ ra_status a) (uuid_str (ra_id a))
      [(''incident_id'', JStr (uuid_str (ra_incident_id a))), (''status'', JStr (ra_status a)),
       (''action_type'', JStr (ra_action_type a))] (ra_updated_at a)"

section \<open>The endpoints\<close>

definition response_queue_key :: string where
  "response_queue_key = ''ai_soc:response_actions''"

definition http_error :: "int \<Rightarrow> exn \<Rightarrow> exn" where
  "http_error code x = (case x of ResponseActionError m \<Rightarrow> HTTPException code m | _ \<Rightarrow> x)"

definition propose_action :: "settings \<Rightarrow> env \<Rightarrow> request \<Rightarrow> user \<Rightarrow> uuid \<Rightarrow> response_action_create \<Rightarrow> 'r world \<Rightarrow>
    (exn + response_action) \<times> 'r world \<times> (string \<times> realtime_envelope) list" where
  "propose_action st en req actor incident_id p w =
    (case propose en incident_id p (us_id actor) (wd_db w) of
       Inl x \<Rightarrow> (Inl (http_error 400 x), w, [])
     | Inr (a, d) \<Rightarrow>
         (Inr a,
          w\<lparr>wd_db := audit_record req (en_uuid en 1) (en_now en 2) ''response.propose'' ''success'' ''user'' (Some (us_id actor))
            (Some (us_email actor)) (Some ''response_action'') (Some (uuid_str (ra_id a)))
            [(''action_type'', JStr (ra_action_type a)), (''incident_id'', JStr (uuid_str incident_id))] d\<rparr>,
          [publish_action st (en_uuid en 2) (en_now en 3) a]))"

definition decide_action :: "'r redis_api \<Rightarrow> settings \<Rightarrow> env \<Rightarrow> request \<Rightarrow> user \<Rightarrow> uuid \<Rightarrow> string \<Rightarrow> 'r world \<Rightarrow>
    (exn + response_action) \<times> 'r world \<times> (string \<times> realtime_envelope) list" where
  "decide_action R st en req actor action_id decision w =
    (if decision \<notin> {''approve'', ''reject''} then (Inl (HTTPException 404 ''Unknown decision''), w, [])
     else
     (case decide st en action_id (us_id actor) (decision = ''approve'') (wd_db w) of
       Inl x \<Rightarrow> (Inl (http_error 409 x), w, [])
     | Inr (a, d) \<Rightarrow>
         (Inr a,
          w\<lparr>wd_db := audit_record req (en_uuid en 0) (en_now en 1) (''response.'' @ decision) ''success'' ''user''
              (Some (us_id actor)) (Some (us_email actor)) (Some ''response_action'') (Some (uuid_str (ra_id a)))
              [(''action_type'', JStr (ra_action_type a))] d,
            wd_redis := (if decision = ''approve'' then r_rpush R response_queue_key (uuid_str (ra_id a)) (wd_redis w)
                         else wd_redis w)\<rparr>,
          [publish_action st (en_uuid en 1) (en_now en 2) a])))"

section \<open>Execution\<close>

definition allowed_accounts :: "settings \<Rightarrow> string list" where
  "allowed_accounts st = filter (\<lambda>s. s \<noteq> []) (map py_strip (split_all CHR '','' (aws_allowed_account_ids st)))"

definition fail :: "string \<Rightarrow> 's \<Rightarrow> (exn + 'x) \<times> 's" where
  "fail m s = (Inl (ResponseActionError m), s)"

definition verified_outcome :: "string \<Rightarrow> (string \<times> json) list" where
  "verified_outcome request_id = [(''verified'', JBool True), (''aws_request_id'', JStr request_id)]"

definition disable_access_key :: "'a aws_api \<Rightarrow> response_action \<Rightarrow> 'a \<Rightarrow> (exn + (string \<times> json) list) \<times> 'a" where
  "disable_access_key A a =
    (case split_once CHR '':'' (ra_target a) of None \<Rightarrow> fail ''Target must be username:access_key_id''
     | Some (username, key_id) \<Rightarrow>
       if username = [] \<or> \<not> startswith key_id ''AKIA'' \<or> length key_id \<noteq> 20
       then fail ''Target must identify a long-term IAM user access key''
       else io_bind (aws_list_access_keys A username) (\<lambda>keys.
         if \<not> list_ex (\<lambda>(k, _). k = key_id) keys then fail ''IAM access key is no longer attached to target user''
         else io_bind (aws_update_access_key A username key_id ''Inactive'') (\<lambda>request_id.
           io_bind (aws_list_access_keys A username) (\<lambda>verified.
             if \<not> list_ex (\<lambda>(k, s). k = key_id \<and> s = ''Inactive'') verified
             then fail ''IAM access key deactivation could not be verified''
             else Pair (Inr (verified_outcome request_id))))))"

definition public_access_config :: "(string \<times> json) list" where
  "public_access_config = map (\<lambda>k. (k, JBool True))
     [''BlockPublicAcls'', ''IgnorePublicAcls'', ''BlockPublicPolicy'', ''RestrictPublicBuckets'']"

definition block_s3_public_access :: "settings \<Rightarrow> 'a aws_api \<Rightarrow> response_action \<Rightarrow> string \<Rightarrow> 'a \<Rightarrow>
    (exn + (string \<times> json) list) \<times> 'a" where
  "block_s3_public_access st A a account =
    (if aws_allowed_bucket_prefix st = [] \<or> \<not> startswith (ra_target a) (aws_allowed_bucket_prefix st)
     then fail ''S3 bucket is not allowlisted''
     else io_bind (aws_head_bucket A (ra_target a) account) (\<lambda>_.
       io_bind (aws_put_public_access_block A (ra_target a) public_access_config account) (\<lambda>request_id.
         io_bind (aws_get_public_access_block A (ra_target a) account) (\<lambda>current.
           if \<not> list_all (\<lambda>(k, _). dict_get current k = JBool True) public_access_config
           then fail ''S3 public access block could not be verified''
           else Pair (Inr (verified_outcome request_id))))))"

definition execute_aws_action :: "settings \<Rightarrow> 'a aws_api \<Rightarrow> response_action \<Rightarrow> 'a \<Rightarrow> (exn + (string \<times> json) list) \<times> 'a" where
  "execute_aws_action st A a =
    (if \<not> aws_response_enabled st then fail ''AWS response is disabled''
     else (case ra_account_id a of None \<Rightarrow> fail ''AWS account is not allowlisted''
       | Some account \<Rightarrow>
         if account \<notin> set (allowed_accounts st) then fail ''AWS account is not allowlisted''
         else io_bind (aws_caller_account A) (\<lambda>identity.
           if identity \<noteq> account then fail ''AWS credentials target a different account''
           else if ra_action_type a = ''disable_aws_access_key'' then disable_access_key A a
           else if ra_action_type a = ''block_s3_public_access'' then block_s3_public_access st A a account
           else fail ''Unsupported action type'')))"

text \<open>The conditional UPDATE that claims an approved action, with its commit.\<close>

definition claim_action :: "settings \<Rightarrow> env \<Rightarrow> uuid \<Rightarrow> db \<Rightarrow> (response_action \<times> string \<times> realtime_envelope) option \<times> db" where
  "claim_action st en action_id d =
    (case get_response_action action_id d of None \<Rightarrow> (None, d)
     | Some a \<Rightarrow>
       if ra_status a \<noteq> ''approved'' then (None, d)
       else (let a' = a\<lparr>ra_status := ''running'', ra_updated_at := en_now en 0\<rparr>
             in (Some (a', publish_action st (en_uuid en 0) (en_now en 1) a'), save_response_action a' d)))"

text \<open>The body of the second \<^verbatim>\<open>try\<close>: its outcome or exception, and the database it leaves.\<close>

definition run_action :: "settings \<Rightarrow> 'a aws_api \<Rightarrow> env \<Rightarrow> response_action \<Rightarrow> db \<Rightarrow> 'a \<Rightarrow>
    (exn + (string \<times> json) list \<times> db) \<times> 'a" where
  "run_action st A en a d s =
    (if ra_action_type a = ''revoke_app_sessions''
     then (case uuid_parse (ra_target a) of None \<Rightarrow> (Inl bad_uuid, s)
       | Some i \<Rightarrow>
         if get_user i d = None then (Inl (ResponseActionError ''Target app user no longer exists''), s)
         else (Inr ([(''verified'', JBool True), (''user_id'', JStr (uuid_str i))], revoke_user i (en_now en 0) d), s))
     else (case execute_aws_action st A a s of
         (Inl x, s') \<Rightarrow> (Inl x, s') | (Inr outcome, s') \<Rightarrow> (Inr (outcome, d), s')))"

definition worker_audit :: "uuid \<Rightarrow> datetime \<Rightarrow> response_action \<Rightarrow> db \<Rightarrow> db" where
  "worker_audit i now a d = d\<lparr>db_audit_logs := db_audit_logs d @
      [\<lparr>au_id = i, au_actor_type = ''system'', au_actor_id = ra_approved_by a, au_actor_label = Some ''response_worker'',
        au_action = ''response.execute'', au_resource_type = Some ''response_action'',
        au_resource_id = Some (uuid_str (ra_id a)), au_outcome = ra_status a, au_request_id = None, au_method = None,
        au_path = None, au_source_ip = None, au_user_agent = None,
        au_details = [(''action_type'', JStr (ra_action_type a)), (''target'', JStr (ra_target a))], au_created_at = now\<rparr>]\<rparr>"

definition finish_action :: "settings \<Rightarrow> 'a aws_api \<Rightarrow> env \<Rightarrow> response_action \<Rightarrow> db \<Rightarrow> 'a \<Rightarrow>
    (string \<times> realtime_envelope) \<times> db \<times> 'a" where
  "finish_action st A en a d s =
    (let (outcome, s') = run_action st A en a d s;
         (a', d') = (case outcome of
           Inr (result, d1) \<Rightarrow> (a\<lparr>ra_status := ''succeeded'', ra_result := Some result, ra_error := None\<rparr>, d1)
         | Inl x \<Rightarrow> (a\<lparr>ra_status := ''failed'', ra_error := Some (take 1000 (exn_text x))\<rparr>, d));
         a2 = a'\<lparr>ra_updated_at := en_now en 1\<rparr>
     in (publish_action st (en_uuid en 1) (en_now en 3) a2,
         worker_audit (en_uuid en 0) (en_now en 2) a2 (save_response_action a2 d'), s'))"

definition execute_action :: "settings \<Rightarrow> 'a aws_api \<Rightarrow> env \<Rightarrow> env \<Rightarrow> uuid \<Rightarrow> db \<Rightarrow> 'a \<Rightarrow>
    (string \<times> realtime_envelope) list \<times> db \<times> 'a" where
  "execute_action st A en en' action_id d s =
    (case claim_action st en action_id d of
       (None, d1) \<Rightarrow> ([], d1, s)
     | (Some (a, msg), d1) \<Rightarrow> (case finish_action st A en' a d1 s of (msg', d2, s') \<Rightarrow> ([msg, msg'], d2, s')))"

section \<open>The life of an action\<close>

text \<open>
  What happens to response actions: the two endpoints, a worker that claims an action, the worker
  that finishes the one it claimed, and any other operation of the program, none of which writes the
  table. The state also holds the claims made so far and the actions a worker has claimed and not finished.
\<close>

record 'r response_state =
  rs_world :: "'r world"
  rs_claims :: "uuid list"
  rs_pending :: "response_action list"

inductive response_step :: "'r redis_api \<Rightarrow> settings \<Rightarrow> 'a aws_api \<Rightarrow> 'r response_state \<Rightarrow> 'r response_state \<Rightarrow> bool" for R st A where
  propose: "propose_action st en req actor i p (rs_world s) = (x, w, msgs) \<Longrightarrow>
    response_step R st A s (s\<lparr>rs_world := w\<rparr>)"
| decide: "decide_action R st en req actor i dec (rs_world s) = (x, w, msgs) \<Longrightarrow>
    response_step R st A s (s\<lparr>rs_world := w\<rparr>)"
| claim: "claim_action st en i (wd_db (rs_world s)) = (Some (a, msg), d) \<Longrightarrow>
    response_step R st A s (s\<lparr>rs_world := rs_world s\<lparr>wd_db := d\<rparr>, rs_claims := rs_claims s @ [i], rs_pending := a # rs_pending s\<rparr>)"
| finish: "a \<in> set (rs_pending s) \<Longrightarrow> finish_action st A en a (wd_db (rs_world s)) aws = (msg, d, aws') \<Longrightarrow>
    response_step R st A s (s\<lparr>rs_world := rs_world s\<lparr>wd_db := d\<rparr>, rs_pending := filter (\<lambda>b. ra_id b \<noteq> ra_id a) (rs_pending s)\<rparr>)"
| other: "db_response_actions (wd_db w) = db_response_actions (wd_db (rs_world s)) \<Longrightarrow>
    response_step R st A s (s\<lparr>rs_world := w\<rparr>)"

inductive response_reachable :: "'r redis_api \<Rightarrow> settings \<Rightarrow> 'a aws_api \<Rightarrow> 'r response_state \<Rightarrow> bool" for R st A where
  start: "db_response_actions (wd_db w) = [] \<Longrightarrow>
    response_reachable R st A \<lparr>rs_world = w, rs_claims = [], rs_pending = []\<rparr>"
| step: "response_reachable R st A s \<Longrightarrow> response_step R st A s s' \<Longrightarrow> response_reachable R st A s'"

abbreviation action_rows :: "'r response_state \<Rightarrow> response_action list" where
  "action_rows s \<equiv> db_response_actions (wd_db (rs_world s))"

definition decided :: "response_action \<Rightarrow> bool" where
  "decided a = (\<exists>u. ra_approved_by a = Some u \<and> u \<noteq> ra_proposed_by a)"

definition response_ok :: "'r response_state \<Rightarrow> bool" where
  "response_ok s =
    (distinct (map ra_id (action_rows s)) \<and>
     (\<forall>a \<in> set (action_rows s). ra_status a \<noteq> ''proposed'' \<longrightarrow> decided a) \<and>
     distinct (rs_claims s) \<and> set (rs_claims s) \<subseteq> ra_id ` set (action_rows s) \<and>
     (\<forall>a \<in> set (action_rows s). ra_id a \<in> set (rs_claims s) \<longleftrightarrow> ra_status a \<in> {''running'', ''succeeded'', ''failed''}) \<and>
     (\<forall>a \<in> set (rs_pending s). a \<in> set (action_rows s) \<and> ra_status a = ''running''))"

lemma response_frames [simp]:
  "db_response_actions (revoke_user i t d) = db_response_actions d"
  "db_response_actions (worker_audit i t a d) = db_response_actions d"
  "db_response_actions (save_response_action a d) = table_save ra_id a (db_response_actions d)"
  "db_response_actions (add_response_action a d) = db_response_actions d @ [a]"
  by (simp_all add: revoke_user_def worker_audit_def save_response_action_def add_response_action_def)

text \<open>What each operation does to the table.\<close>

lemma propose_rows:
  assumes "propose en i p actor d = Inr (a, d')"
  obtains (existing) "d' = d" "a \<in> set (db_response_actions d)"
  | (inserted) "db_response_actions d' = db_response_actions d @ [a]" "ra_id a \<notin> ra_id ` set (db_response_actions d)"
      "a = response_action_row (en_uuid en 0) (en_now en 0) (en_now en 1) i p actor"
      "\<forall>b \<in> set (db_response_actions d). \<not> (ra_incident_id b = i \<and> ra_idempotency_key b = rc_idempotency_key p)"
proof -
  let ?P = "\<lambda>b. ra_incident_id b = i \<and> ra_idempotency_key b = rc_idempotency_key p"
  have inc: "get_incident i d \<noteq> None"
  proof
    assume "get_incident i d = None"
    then show False using assms by (simp add: propose_def)
  qed
  show thesis
  proof (cases "find ?P (db_response_actions d)")
    case (Some b)
    have "a = b \<and> d' = d"
      using assms inc unfolding propose_def Some by (simp split: if_splits)
    then show thesis using existing Some by (auto simp: find_Some_iff)
  next
    case None
    have "insert_action (response_action_row (en_uuid en 0) (en_now en 0) (en_now en 1) i p actor) d = Inr (a, d')"
      using assms inc unfolding propose_def None by (simp split: if_splits)
    moreover have "\<forall>b \<in> set (db_response_actions d). \<not> ?P b"
      using None unfolding find_None_iff by blast
    ultimately show thesis by (intro inserted) (auto simp: insert_action_def split: if_splits)
  qed
qed

lemma decide_rows:
  assumes "decide st en i actor approve d = Inr (a', d')"
  obtains a where "get_response_action i d = Some a" "ra_status a = ''proposed''" "ra_proposed_by a \<noteq> actor"
    "a' = a\<lparr>ra_status := (if approve then ''approved'' else ''rejected''), ra_approved_by := Some actor, ra_updated_at := en_now en 0\<rparr>"
    "d' = save_response_action a' d" "approve \<and> ra_action_type a \<noteq> ''revoke_app_sessions'' \<Longrightarrow> aws_response_enabled st"
  using assms by (auto simp: decide_def Let_def split: if_splits option.splits)

lemma claim_rows:
  assumes "claim_action st en i d = (Some (a', msg), d')"
  obtains a where "get_response_action i d = Some a" "ra_status a = ''approved''"
    "a' = a\<lparr>ra_status := ''running'', ra_updated_at := en_now en 0\<rparr>" "d' = save_response_action a' d"
  using assms by (auto simp: claim_action_def Let_def split: if_splits option.splits)

lemma run_action_frame: "run_action st A en a d s = (Inr (x, d'), s') \<Longrightarrow> db_response_actions d' = db_response_actions d"
  by (auto simp: run_action_def split: if_splits option.splits sum.splits prod.splits)

lemma finish_rows:
  assumes "finish_action st A en a d s = (msg, d', s')"
  obtains a' where "db_response_actions d' = table_save ra_id a' (db_response_actions d)"
    "ra_status a' \<in> {''succeeded'', ''failed''}" "ra_id a' = ra_id a" "ra_approved_by a' = ra_approved_by a"
    "ra_proposed_by a' = ra_proposed_by a" "ra_incident_id a' = ra_incident_id a" "ra_target a' = ra_target a"
    "ra_action_type a' = ra_action_type a" "ra_idempotency_key a' = ra_idempotency_key a"
proof -
  obtain r s1 where r: "run_action st A en a d s = (r, s1)" by (cases "run_action st A en a d s")
  show thesis
  proof (cases r)
    case (Inl x)
    show thesis
      by (rule that [of "a\<lparr>ra_status := ''failed'', ra_error := Some (take 1000 (exn_text x)), ra_updated_at := en_now en 1\<rparr>"])
        (use assms in \<open>auto simp: finish_action_def r Inl Let_def\<close>)
  next
    case (Inr v)
    obtain x d1 where v: "v = (x, d1)" by (cases v)
    show thesis
      by (rule that [of "a\<lparr>ra_status := ''succeeded'', ra_result := Some x, ra_error := None, ra_updated_at := en_now en 1\<rparr>"])
        (use assms run_action_frame [of st A en a d s x d1 s1] in \<open>auto simp: finish_action_def r Inr v Let_def\<close>)
  qed
qed

text \<open>Saving a row of the table changes that row only.\<close>

lemma table_save_mem:
  assumes "distinct (map key rows)" and "a \<in> set rows" and "key a' = key a"
  shows "set (table_save key a' rows) = insert a' (set rows - {a})"
proof -
  have "x = a" if "x \<in> set rows" "key x = key a" for x
    using that assms(1,2) by (auto simp: distinct_map inj_on_def)
  then show ?thesis using assms(2,3) by (auto simp: table_save_def image_iff)
qed

lemma get_response_action_mem: "get_response_action i d = Some a \<Longrightarrow> a \<in> set (db_response_actions d) \<and> ra_id a = i"
  by (auto simp: get_response_action_def dest: table_get_Some)

lemma response_ok_save:
  assumes ok: "response_ok s" and a: "a \<in> set (action_rows s)" "ra_id a' = ra_id a"
    and rows: "action_rows s' = table_save ra_id a' (action_rows s)"
    and status: "ra_status a' \<noteq> ''proposed''" "decided a'"
    and claims: "rs_claims s' = (if ra_status a' = ''running'' then rs_claims s @ [ra_id a] else rs_claims s)"
      "ra_status a' = ''running'' \<Longrightarrow> ra_id a \<notin> set (rs_claims s)"
      "ra_status a' \<in> {''succeeded'', ''failed''} \<longleftrightarrow> ra_id a \<in> set (rs_claims s)"
    and pending: "\<forall>b \<in> set (rs_pending s'). (b \<in> set (rs_pending s) \<and> b \<noteq> a) \<or> (b = a' \<and> ra_status a' = ''running'')"
  shows "response_ok s'"
proof -
  have set: "set (action_rows s') = insert a' (set (action_rows s) - {a})"
    unfolding rows by (rule table_save_mem) (use ok a in \<open>simp_all add: response_ok_def\<close>)
  have ids: "ra_id ` set (action_rows s') = ra_id ` set (action_rows s)"
    using a by (auto simp: set)
  have other: "ra_id b \<noteq> ra_id a" if "b \<in> set (action_rows s)" "b \<noteq> a" for b
    using that a ok by (auto simp: response_ok_def distinct_map inj_on_def)
  have "distinct (map ra_id (action_rows s'))" using ok by (simp add: rows response_ok_def)
  moreover have "\<forall>b \<in> set (action_rows s'). ra_status b \<noteq> ''proposed'' \<longrightarrow> decided b"
    using ok status by (auto simp: set response_ok_def)
  moreover have "distinct (rs_claims s') \<and> set (rs_claims s') \<subseteq> ra_id ` set (action_rows s')"
    using ok a claims unfolding ids by (auto simp: response_ok_def)
  moreover have "\<forall>b \<in> set (action_rows s'). ra_id b \<in> set (rs_claims s') \<longleftrightarrow> ra_status b \<in> {''running'', ''succeeded'', ''failed''}"
    using ok claims a(2) other by (auto simp: set response_ok_def)
  moreover have "\<forall>b \<in> set (rs_pending s'). b \<in> set (action_rows s') \<and> ra_status b = ''running''"
    using ok pending by (auto simp: set response_ok_def)
  ultimately show ?thesis by (simp add: response_ok_def)
qed

lemma response_step_ok:
  assumes "response_step R st A s s'" and ok: "response_ok s"
  shows "response_ok s'"
  using assms(1)
proof (cases rule: response_step.cases)
  case (propose en req actor i p x w msgs)
  have "action_rows s' = action_rows s \<or> (\<exists>a. action_rows s' = action_rows s @ [a] \<and>
      ra_id a \<notin> ra_id ` set (action_rows s) \<and> ra_status a = ''proposed'')"
  proof (cases "propose en i p (us_id actor) (wd_db (rs_world s))")
    case (Inl y)
    then show ?thesis using propose by (auto simp: propose_action_def)
  next
    case (Inr v)
    obtain a d where v: "v = (a, d)" by (cases v)
    have "action_rows s' = db_response_actions d"
      using propose by (auto simp: propose_action_def Inr v)
    then show ?thesis
      by (cases rule: propose_rows [OF Inr [unfolded v]]) (auto simp: response_action_row_def)
  qed
  moreover have "rs_claims s' = rs_claims s" "rs_pending s' = rs_pending s" using propose(1) by simp_all
  ultimately show ?thesis using ok by (auto simp: response_ok_def)
next
  case (decide en req actor i dec x w msgs)
  show ?thesis
  proof (cases "dec \<in> {''approve'', ''reject''} \<and> (\<exists>v. decide st en i (us_id actor) (dec = ''approve'') (wd_db (rs_world s)) = Inr v)")
    case False
    then have "action_rows s' = action_rows s"
      using decide by (auto simp: decide_action_def split: if_splits sum.splits)
    then show ?thesis using ok decide(1) by (simp add: response_ok_def)
  next
    case True
    then obtain a' d' where eq: "ResponseActions.decide st en i (us_id actor) (dec = ''approve'') (wd_db (rs_world s)) = Inr (a', d')"
      by (metis surj_pair)
    from decide_rows [OF this] obtain a where a: "get_response_action i (wd_db (rs_world s)) = Some a"
      "ra_status a = ''proposed''" "ra_proposed_by a \<noteq> us_id actor"
      "a' = a\<lparr>ra_status := (if dec = ''approve'' then ''approved'' else ''rejected''), ra_approved_by := Some (us_id actor),
        ra_updated_at := en_now en 0\<rparr>" "d' = save_response_action a' (wd_db (rs_world s))" by metis
    have mem: "a \<in> set (action_rows s)" using get_response_action_mem [OF a(1)] by simp
    have rows: "action_rows s' = table_save ra_id a' (action_rows s)"
      using decide True eq a(5) by (auto simp: decide_action_def)
    have unclaimed: "ra_id a \<notin> set (rs_claims s)" using ok mem a(2) by (auto simp: response_ok_def)
    have "a \<notin> set (rs_pending s)" using ok a(2) by (auto simp: response_ok_def)
    then show ?thesis
      using unclaimed a(2,3) decide(1)
      by (intro response_ok_save [OF ok mem _ rows]) (auto simp: a(4) decided_def)
  qed
next
  case (claim en i a' msg d)
  from claim_rows [OF claim(2)] obtain a where a: "get_response_action i (wd_db (rs_world s)) = Some a"
    "ra_status a = ''approved''" "a' = a\<lparr>ra_status := ''running'', ra_updated_at := en_now en 0\<rparr>"
    "d = save_response_action a' (wd_db (rs_world s))" by metis
  have mem: "a \<in> set (action_rows s)" "ra_id a = i" using get_response_action_mem [OF a(1)] by simp_all
  have "decided a" using ok mem a(2) by (auto simp: response_ok_def)
  moreover have "ra_id a \<notin> set (rs_claims s)" using ok mem(1) a(2) by (auto simp: response_ok_def)
  moreover have "a \<notin> set (rs_pending s)" using ok a(2) by (auto simp: response_ok_def)
  ultimately show ?thesis
    using mem(2) by (intro response_ok_save [OF ok mem(1), of a']) (auto simp: claim(1) a(3,4) decided_def)
next
  case (finish a en aws msg d aws')
  from finish_rows [OF finish(3)] obtain a' where a': "db_response_actions d = table_save ra_id a' (action_rows s)"
    "ra_status a' \<in> {''succeeded'', ''failed''}" "ra_id a' = ra_id a" "ra_approved_by a' = ra_approved_by a"
    "ra_proposed_by a' = ra_proposed_by a" by metis
  have a: "a \<in> set (action_rows s)" "ra_status a = ''running''" using ok finish(2) by (auto simp: response_ok_def)
  then have "decided a" "ra_id a \<in> set (rs_claims s)" using ok by (auto simp: response_ok_def)
  then show ?thesis
    using a' by (intro response_ok_save [OF ok a(1), of a']) (auto simp: finish(1) decided_def)
qed (use ok in \<open>simp add: response_ok_def\<close>)

lemma reachable_response_ok: "response_reachable R st A s \<Longrightarrow> response_ok s"
  by (induction rule: response_reachable.induct) (simp add: response_ok_def, rule response_step_ok)

lemma count_list_distinct: "distinct xs \<Longrightarrow> count_list xs x = (if x \<in> set xs then 1 else 0)"
  by (induction xs) auto

text \<open>
  C1: four eyes: in every reachable state an action that was approved, rejected, is running or has
  run was decided by somebody else than its proposer; and no action is ever claimed for execution twice,
  however many workers run, whereas one that is running, has succeeded or has failed was claimed.
\<close>

theorem four_eyes_and_at_most_once:
  assumes "response_reachable R st A s" and "a \<in> set (db_response_actions (wd_db (rs_world s)))"
  shows "(ra_status a \<noteq> ''proposed'' \<longrightarrow> (\<exists>u. ra_approved_by a = Some u \<and> u \<noteq> ra_proposed_by a)) \<and>
    count_list (rs_claims s) (ra_id a) = (if ra_status a \<in> {''running'', ''succeeded'', ''failed''} then 1 else 0)"
proof -
  have ok: "response_ok s" using reachable_response_ok [OF assms(1)] .
  have "count_list (rs_claims s) (ra_id a) = (if ra_id a \<in> set (rs_claims s) then 1 else 0)"
    using ok by (simp add: response_ok_def count_list_distinct)
  then show ?thesis using ok assms(2) by (auto simp: response_ok_def decided_def)
qed

section \<open>Refinement of the state machine\<close>

text \<open>The abstract life of one action, and what never changes in it.\<close>

definition response_transition :: "string \<Rightarrow> string \<Rightarrow> bool" where
  "response_transition x y \<longleftrightarrow> (x, y) \<in> {(''proposed'', ''approved''), (''proposed'', ''rejected''), (''approved'', ''running''),
     (''running'', ''succeeded''), (''running'', ''failed'')}"

definition same_action :: "response_action \<Rightarrow> response_action \<Rightarrow> bool" where
  "same_action a b \<longleftrightarrow> ra_id a = ra_id b \<and> ra_incident_id a = ra_incident_id b \<and> ra_action_type a = ra_action_type b \<and>
     ra_target a = ra_target b \<and> ra_account_id a = ra_account_id b \<and> ra_idempotency_key a = ra_idempotency_key b \<and>
     ra_proposed_by a = ra_proposed_by b"

definition evolves :: "response_action list \<Rightarrow> response_action list \<Rightarrow> bool" where
  "evolves rows rows' \<longleftrightarrow>
     (\<forall>a \<in> set rows. \<exists>b \<in> set rows'. same_action a b \<and> (b = a \<or> response_transition (ra_status a) (ra_status b))) \<and>
     (\<forall>b \<in> set rows'. ra_id b \<notin> ra_id ` set rows \<longrightarrow> ra_status b = ''proposed'')"

lemma evolves_refl: "evolves rows rows"
  by (auto simp: evolves_def same_action_def)

lemma evolves_save:
  assumes "distinct (map ra_id rows)" and "a \<in> set rows" and "same_action a a'"
    and "response_transition (ra_status a) (ra_status a')"
  shows "evolves rows (table_save ra_id a' rows)"
proof -
  have "set (table_save ra_id a' rows) = insert a' (set rows - {a})"
    by (rule table_save_mem) (use assms in \<open>simp_all add: same_action_def\<close>)
  moreover have "same_action b b" for b by (simp add: same_action_def)
  moreover have "ra_id a' = ra_id a" using assms(3) by (simp add: same_action_def)
  ultimately show ?thesis using assms(2-4) by (auto simp: evolves_def)
qed

lemma finish_same_action:
  assumes "finish_action st A en a d s = (msg, d', s')"
  obtains a' where "db_response_actions d' = table_save ra_id a' (db_response_actions d)"
    "ra_status a' \<in> {''succeeded'', ''failed''}" "same_action a a'"
proof -
  obtain r s1 where r: "run_action st A en a d s = (r, s1)" by (cases "run_action st A en a d s")
  show thesis
  proof (cases r)
    case (Inl x)
    show thesis
      by (rule that [of "a\<lparr>ra_status := ''failed'', ra_error := Some (take 1000 (exn_text x)), ra_updated_at := en_now en 1\<rparr>"])
        (use assms in \<open>auto simp: finish_action_def r Inl Let_def same_action_def\<close>)
  next
    case (Inr v)
    obtain x d1 where v: "v = (x, d1)" by (cases v)
    show thesis
      by (rule that [of "a\<lparr>ra_status := ''succeeded'', ra_result := Some x, ra_error := None, ra_updated_at := en_now en 1\<rparr>"])
        (use assms run_action_frame [of st A en a d s x d1 s1] in \<open>auto simp: finish_action_def r Inr v Let_def same_action_def\<close>)
  qed
qed

text \<open>
  C14: the detailed operations refine the life of an action: each step of the program keeps every
  response action with its incident, type, target, account, key and proposer, and changes its status
  only from proposed to approved or rejected, from approved to running, and from running to succeeded or
  failed; an action that appears is proposed.
\<close>

theorem response_step_refines:
  assumes "response_reachable R st A s" and "response_step R st A s s'"
  shows "evolves (db_response_actions (wd_db (rs_world s))) (db_response_actions (wd_db (rs_world s')))"
proof -
  have ok: "response_ok s" using reachable_response_ok [OF assms(1)] .
  have dist: "distinct (map ra_id (action_rows s))" using ok by (simp add: response_ok_def)
  show ?thesis
    using assms(2)
  proof (cases rule: response_step.cases)
    case (propose en req actor i p x w msgs)
    have "action_rows s' = action_rows s \<or> (\<exists>a. action_rows s' = action_rows s @ [a] \<and> ra_status a = ''proposed'')"
    proof (cases "propose en i p (us_id actor) (wd_db (rs_world s))")
      case (Inr v)
      obtain a d where v: "v = (a, d)" by (cases v)
      have "action_rows s' = db_response_actions d" using propose by (auto simp: propose_action_def Inr v)
      then show ?thesis by (cases rule: propose_rows [OF Inr [unfolded v]]) (auto simp: response_action_row_def)
    qed (use propose in \<open>auto simp: propose_action_def\<close>)
    then show ?thesis using evolves_refl [of "action_rows s"] by (auto simp: evolves_def)
  next
    case (decide en req actor i dec x w msgs)
    show ?thesis
    proof (cases "\<exists>v. decide st en i (us_id actor) (dec = ''approve'') (wd_db (rs_world s)) = Inr v \<and> dec \<in> {''approve'', ''reject''}")
      case True
      then obtain a' d' where eq: "ResponseActions.decide st en i (us_id actor) (dec = ''approve'') (wd_db (rs_world s)) = Inr (a', d')"
        and dec: "dec \<in> {''approve'', ''reject''}" by (metis surj_pair)
      from decide_rows [OF eq] obtain a where a: "get_response_action i (wd_db (rs_world s)) = Some a"
        "ra_status a = ''proposed''" "a' = a\<lparr>ra_status := (if dec = ''approve'' then ''approved'' else ''rejected''),
          ra_approved_by := Some (us_id actor), ra_updated_at := en_now en 0\<rparr>"
        "d' = save_response_action a' (wd_db (rs_world s))" by metis
      have rows: "action_rows s' = table_save ra_id a' (action_rows s)"
        using decide dec eq a(4) by (auto simp: decide_action_def)
      show ?thesis unfolding rows using get_response_action_mem [OF a(1)] a(2)
        by (intro evolves_save [OF dist, of a]) (auto simp: a(3) same_action_def response_transition_def)
    next
      case False
      then have "action_rows s' = action_rows s"
        using decide by (auto simp: decide_action_def split: if_splits sum.splits)
      then show ?thesis by (simp add: evolves_refl)
    qed
  next
    case (claim en i a' msg d)
    from claim_rows [OF claim(2)] obtain a where a: "get_response_action i (wd_db (rs_world s)) = Some a"
      "ra_status a = ''approved''" "a' = a\<lparr>ra_status := ''running'', ra_updated_at := en_now en 0\<rparr>"
      "d = save_response_action a' (wd_db (rs_world s))" by metis
    have rows: "action_rows s' = table_save ra_id a' (action_rows s)" by (simp add: claim(1) a(4))
    show ?thesis unfolding rows using get_response_action_mem [OF a(1)] a(2)
      by (intro evolves_save [OF dist, of a]) (auto simp: a(3) same_action_def response_transition_def)
  next
    case (finish a en aws msg d aws')
    from finish_same_action [OF finish(3)] obtain a' where a': "db_response_actions d = table_save ra_id a' (action_rows s)"
      "ra_status a' \<in> {''succeeded'', ''failed''}" "same_action a a'" by metis
    have "a \<in> set (action_rows s)" "ra_status a = ''running''" using ok finish(2) by (auto simp: response_ok_def)
    then show ?thesis using a' finish(1)
      by (auto intro!: evolves_save [OF dist, of a] simp: response_transition_def)
  qed (simp add: evolves_refl)
qed

section \<open>Proposing is idempotent\<close>

text \<open>
  proposing again with the same idempotency key returns the action of the first proposal and writes
  nothing when type and target agree, and is refused when they do not; a first proposal cites only
  evidence of its incident.
\<close>

theorem propose_is_idempotent:
  assumes "propose en i p actor d = Inr (a, d1)" and "rc_idempotency_key p' = rc_idempotency_key p"
    and "distinct (map (\<lambda>a. (ra_incident_id a, ra_idempotency_key a)) (db_response_actions d))"
  shows "propose en' i p' actor' d1 =
      (if ra_action_type a = rc_action_type p' \<and> ra_target a = rc_target p' then Inr (a, d1)
       else Inl (ResponseActionError ''Idempotency key is already used for another action'')) \<and>
    (d1 \<noteq> d \<longrightarrow> set (ra_evidence_refs a) \<subseteq> set (incident_evidence_refs i d)) \<and>
    distinct (map (\<lambda>a. (ra_incident_id a, ra_idempotency_key a)) (db_response_actions d1))"
proof -
  let ?P = "\<lambda>b. ra_incident_id b = i \<and> ra_idempotency_key b = rc_idempotency_key p"
  have inc: "get_incident i d \<noteq> None"
  proof
    assume "get_incident i d = None"
    then show False using assms(1) by (simp add: propose_def)
  qed
  have keep: "find ?P (db_response_actions d1) = Some a \<and> get_incident i d1 = get_incident i d \<and>
      (d1 \<noteq> d \<longrightarrow> set (ra_evidence_refs a) \<subseteq> set (incident_evidence_refs i d)) \<and>
      distinct (map (\<lambda>a. (ra_incident_id a, ra_idempotency_key a)) (db_response_actions d1))"
  proof (cases "find ?P (db_response_actions d)")
    case (Some b)
    have "a = b \<and> d1 = d" using assms(1) inc unfolding propose_def Some by (simp split: if_splits)
    then show ?thesis using Some assms(3) by simp
  next
    case None
    then have none: "\<forall>b \<in> set (db_response_actions d). \<not> ?P b" unfolding find_None_iff by blast
    have ins: "insert_action (response_action_row (en_uuid en 0) (en_now en 0) (en_now en 1) i p actor) d = Inr (a, d1)"
      and refs: "set (rc_evidence_refs p) \<subseteq> set (incident_evidence_refs i d)"
      using assms(1) inc unfolding propose_def None by (simp_all split: if_splits)
    then have a: "a = response_action_row (en_uuid en 0) (en_now en 0) (en_now en 1) i p actor" "d1 = add_response_action a d"
      by (auto simp: insert_action_def split: if_splits)
    have "find ?P (db_response_actions d1) = Some a"
      unfolding a(2) response_frames by (rule find_snoc) (use none in \<open>auto simp: a(1) response_action_row_def\<close>)
    then show ?thesis
      using refs assms(3) none by (auto simp: a(1,2) response_action_row_def get_incident_def add_response_action_def)
  qed
  then have found: "find ?P (db_response_actions d1) = Some a" and inc1: "get_incident i d1 \<noteq> None" using inc by simp_all
  have "propose en' i p' actor' d1 =
      (if ra_action_type a = rc_action_type p' \<and> ra_target a = rc_target p' then Inr (a, d1)
       else Inl (ResponseActionError ''Idempotency key is already used for another action''))"
    by (simp only: propose_def assms(2) found if_not_P [OF inc1] option.case) simp
  then show ?thesis using keep by blast
qed

section \<open>Execution\<close>

text \<open>
  an approved revocation of an existing user's sessions that a worker executes succeeds, and
  afterwards no access token of any session family of that user is accepted.
\<close>

theorem executed_revocation_takes_effect:
  assumes "sessions_ok d" and "get_response_action i d = Some a" and "ra_status a = ''approved''"
    and "ra_action_type a = ''revoke_app_sessions''" and "uuid_parse (ra_target a) = Some user_id"
    and "get_user user_id d \<noteq> None" and "execute_action st A en en' i d aws = (msgs, d', aws')"
  shows "(\<exists>b. get_response_action i d' = Some b \<and> ra_status b = ''succeeded'') \<and> aws' = aws \<and>
    (\<forall>s \<in> set (db_auth_sessions d). as_user_id s = user_id \<longrightarrow>
       (\<forall>cr st' en1 req tok u. fst (get_current_user cr st' en1 req tok d') \<noteq> Inr (u, as_family_id s)))"
proof -
  let ?r = "a\<lparr>ra_status := ''running'', ra_updated_at := en_now en 0\<rparr>"
  let ?d1 = "save_response_action ?r d"
  let ?f = "a\<lparr>ra_status := ''succeeded'', ra_result := Some [(''verified'', JBool True), (''user_id'', JStr (uuid_str user_id))],
    ra_error := None, ra_updated_at := en_now en' 1\<rparr>"
  have u: "get_user user_id ?d1 \<noteq> None" using assms(6) by (simp add: save_response_action_def get_user_def)
  have d': "d' = worker_audit (en_uuid en' 0) (en_now en' 2) ?f (save_response_action ?f (revoke_user user_id (en_now en' 0) ?d1))"
    using assms(2-7) u
    by (auto simp: execute_action_def claim_action_def finish_action_def run_action_def Let_def)
  have aws: "aws' = aws"
    using assms(2-7) u by (auto simp: execute_action_def claim_action_def finish_action_def run_action_def Let_def)
  have id: "ra_id a = i" using get_response_action_mem [OF assms(2)] by simp
  have "get_response_action i (save_response_action ?f (revoke_user user_id (en_now en' 0) ?d1)) = Some ?f"
  proof -
    have "get_response_action (ra_id ?f) (revoke_user user_id (en_now en' 0) ?d1) = Some ?r"
      using response_actions.get_save_same [of ?r d a] assms(2) id by (simp add: get_response_action_def)
    from response_actions.get_save_same [OF this] show ?thesis using id by simp
  qed
  then have status: "\<exists>b. get_response_action i d' = Some b \<and> ra_status b = ''succeeded''"
    by (simp add: d' get_response_action_def)
  have sess: "db_auth_sessions d' = db_auth_sessions (revoke_user user_id (en_now en' 0) d)"
    by (simp add: d' worker_audit_def save_response_action_def revoke_user_def)
  have "fst (get_current_user cr st' en1 req tok d') \<noteq> Inr (v, as_family_id s)"
    if "s \<in> set (db_auth_sessions d)" "as_user_id s = user_id" for cr st' en1 req tok v s
    using family_inactive_after_revoke_user [OF assms(1) that sess] get_current_user_Inr(3) by blast
  then show ?thesis using status aws by blast
qed

text \<open>
  an AWS action reports success only if AWS responses are enabled, the account is allowlisted and is the
  one of the credentials, and the effect was read back: the access key is listed as inactive, or the
  bucket, whose name has the allowed prefix, has all four public access blocks on.
\<close>

theorem aws_success_is_verified:
  assumes "execute_aws_action st A a s = (Inr outcome, s')"
  shows "aws_response_enabled st \<and>
    (\<exists>account s0 s1. ra_account_id a = Some account \<and> account \<in> set (allowed_accounts st) \<and>
       aws_caller_account A s = (Inr account, s0) \<and>
       (case ra_action_type a of action \<Rightarrow>
          (action = ''disable_aws_access_key'' \<and>
             (\<exists>username key_id keys. split_once CHR '':'' (ra_target a) = Some (username, key_id) \<and>
                aws_list_access_keys A username s1 = (Inr keys, s') \<and> (key_id, ''Inactive'') \<in> set keys)) \<or>
          (action = ''block_s3_public_access'' \<and> aws_allowed_bucket_prefix st \<noteq> [] \<and>
             prefix (aws_allowed_bucket_prefix st) (ra_target a) \<and>
             (\<exists>current. aws_get_public_access_block A (ra_target a) account s1 = (Inr current, s') \<and>
                (\<forall>k \<in> {''BlockPublicAcls'', ''IgnorePublicAcls'', ''BlockPublicPolicy'', ''RestrictPublicBuckets''}.
                   dict_get current k = JBool True)))))"
  using assms
  by (auto simp: execute_aws_action_def disable_access_key_def block_s3_public_access_def io_bind_def fail_def
      startswith_iff_prefix public_access_config_def list_ex_iff
      split: if_splits option.splits prod.splits sum.splits)

section \<open>Concrete actions, for the witnesses\<close>

definition example_incident :: incident where
  "example_incident = \<lparr>in_id = 5, in_title = ''t'', in_description = ''d'', in_status = ''open'', in_severity = ''high'',
     in_risk_score = 80, in_correlation_key = ''k'', in_primary_username = None, in_primary_source_ip = None,
     in_first_seen = 0, in_last_seen = 0, in_timeline = [], in_created_at = 0, in_updated_at = 0\<rparr>"

definition example_response_db :: db where
  "example_response_db = example_accounts\<lparr>db_incidents := [example_incident]\<rparr>"

definition example_proposal :: response_action_create where
  "example_proposal = \<lparr>rc_action_type = ''revoke_app_sessions'', rc_target = uuid_str 1, rc_account_id = None,
     rc_rationale = ''compromised account'', rc_impact = ''user logs in again'',
     rc_evidence_refs = [''incident:'' @ uuid_str 5], rc_idempotency_key = ''key-00001''\<rparr>"

definition example_proposed :: "(exn + response_action) \<times> mem_state world \<times> (string \<times> realtime_envelope) list" where
  "example_proposed = propose_action example_settings (example_env 7 100) example_request example_user 5 example_proposal
     \<lparr>wd_db = example_response_db, wd_redis = mem_empty\<rparr>"

definition example_decided :: "(exn + response_action) \<times> mem_state world \<times> (string \<times> realtime_envelope) list" where
  "example_decided = decide_action mem_redis example_settings (example_env 8 200) example_request
     (example_user\<lparr>us_id := 9\<rparr>) 100 ''approve'' (fst (snd example_proposed))"

definition silent_aws :: "unit aws_api" where
  "silent_aws = \<lparr>aws_caller_account = Pair (Inr ''123456789012''),
     aws_list_access_keys = (\<lambda>_. Pair (Inr [(''AKIA0123456789ABCDEF'', ''Inactive'')])),
     aws_update_access_key = (\<lambda>_ _ _. Pair (Inr ''r1'')), aws_head_bucket = (\<lambda>_ _. Pair (Inr ())),
     aws_put_public_access_block = (\<lambda>_ _ _. Pair (Inr ''r2'')), aws_get_public_access_block = (\<lambda>_ _. Pair (Inr public_access_config))\<rparr>"

definition example_row :: response_action where
  "example_row = response_action_row 100 7 7 5 example_proposal 1"

lemma example_response_db_simps [simp]:
  "db_response_actions example_response_db = []" "get_incident 5 example_response_db = Some example_incident"
  "get_user 1 example_response_db = Some example_user" "us_id ` set (db_users example_response_db) = {1}"
  by (simp_all add: example_response_db_def example_accounts_def empty_db_def get_incident_def get_user_def example_incident_def)

lemma example_propose: "propose (example_env 7 100) 5 example_proposal 1 example_response_db =
    Inr (example_row, add_response_action example_row example_response_db)"
  by (simp add: propose_def check_target_def insert_action_def example_row_def response_action_row_def
      example_proposal_def incident_evidence_refs_def Let_def)

lemma example_row_simps [simp]:
  "ra_id example_row = 100" "ra_status example_row = ''proposed''" "ra_proposed_by example_row = 1"
  "ra_action_type example_row = ''revoke_app_sessions''" "ra_target example_row = uuid_str 1"
  by (simp_all add: example_row_def response_action_row_def example_proposal_def)

lemma example_rows:
  "db_response_actions (wd_db (fst (snd example_proposed))) = [example_row]"
  "db_response_actions (wd_db (fst (snd example_decided))) =
     [example_row\<lparr>ra_status := ''approved'', ra_approved_by := Some 9, ra_updated_at := 8\<rparr>]"
proof -
  show one: "db_response_actions (wd_db (fst (snd example_proposed))) = [example_row]"
    using example_propose by (simp add: example_proposed_def propose_action_def)
  then show "db_response_actions (wd_db (fst (snd example_decided))) =
     [example_row\<lparr>ra_status := ''approved'', ra_approved_by := Some 9, ra_updated_at := 8\<rparr>]"
    by (simp add: example_decided_def decide_action_def decide_def get_response_action_def table_save_def Let_def)
qed

lemma triple_eta: "z = (fst z, fst (snd z), snd (snd z))"
  by simp

lemma example_steps:
  defines "s0 \<equiv> \<lparr>rs_world = \<lparr>wd_db = example_response_db, wd_redis = mem_empty\<rparr>, rs_claims = [], rs_pending = []\<rparr>"
  shows "response_reachable mem_redis example_settings silent_aws s0"
    and "response_step mem_redis example_settings silent_aws s0 (s0\<lparr>rs_world := fst (snd example_proposed)\<rparr>)"
    and "response_step mem_redis example_settings silent_aws (s0\<lparr>rs_world := fst (snd example_proposed)\<rparr>)
      (s0\<lparr>rs_world := fst (snd example_decided)\<rparr>)"
proof -
  show "response_reachable mem_redis example_settings silent_aws s0"
    unfolding s0_def by (rule response_reachable.start) simp
  show "response_step mem_redis example_settings silent_aws s0 (s0\<lparr>rs_world := fst (snd example_proposed)\<rparr>)"
    unfolding s0_def example_proposed_def
    using response_step.propose [OF triple_eta, of mem_redis example_settings silent_aws
        "\<lparr>rs_world = \<lparr>wd_db = example_response_db, wd_redis = mem_empty\<rparr>, rs_claims = [], rs_pending = []\<rparr>"
        "example_env 7 100" example_request example_user 5 example_proposal] by simp
  have "response_step mem_redis example_settings silent_aws (s0\<lparr>rs_world := fst (snd example_proposed)\<rparr>)
      ((s0\<lparr>rs_world := fst (snd example_proposed)\<rparr>)\<lparr>rs_world := fst (snd example_decided)\<rparr>)"
    unfolding example_decided_def
    using response_step.decide [OF triple_eta, of mem_redis example_settings silent_aws
        "s0\<lparr>rs_world := fst (snd example_proposed)\<rparr>" "example_env 8 200" example_request "example_user\<lparr>us_id := 9\<rparr>" 100 "''approve''"]
    by simp
  then show "response_step mem_redis example_settings silent_aws (s0\<lparr>rs_world := fst (snd example_proposed)\<rparr>)
      (s0\<lparr>rs_world := fst (snd example_decided)\<rparr>)" by simp
qed

theorem four_eyes_and_at_most_once_witness:
  "list_all (\<lambda>a. \<exists>u. ra_approved_by a = Some u \<and> u \<noteq> ra_proposed_by a)
     (db_response_actions (wd_db (fst (snd example_decided))))"
  unfolding list_all_iff
proof
  fix a assume a: "a \<in> set (db_response_actions (wd_db (fst (snd example_decided))))"
  note reach = response_reachable.step [OF response_reachable.step [OF example_steps(1,2)] example_steps(3)]
  show "\<exists>u. ra_approved_by a = Some u \<and> u \<noteq> ra_proposed_by a"
    using four_eyes_and_at_most_once [OF reach, of a] a by (simp add: example_rows)
qed

theorem response_step_refines_witness:
  "evolves [] (db_response_actions (wd_db (fst (snd example_proposed))))"
  using response_step_refines [OF example_steps(1,2)] by simp

theorem propose_is_idempotent_witness:
  "propose (example_env 9 900) 5 example_proposal 2 (add_response_action example_row example_response_db) =
     Inr (example_row, add_response_action example_row example_response_db)"
  using propose_is_idempotent [OF example_propose refl, of "example_env 9 900" 2]
  by (simp add: example_row_def response_action_row_def)

theorem executed_revocation_takes_effect_witness:
  "\<exists>b. get_response_action 100 (fst (snd (execute_action example_settings silent_aws (example_env 10 300) (example_env 11 400) 100
      (example_accounts\<lparr>db_response_actions := [example_row\<lparr>ra_status := ''approved''\<rparr>]\<rparr>) ()))) = Some b \<and> ra_status b = ''succeeded''"
proof -
  let ?d = "example_accounts\<lparr>db_response_actions := [example_row\<lparr>ra_status := ''approved''\<rparr>]\<rparr>"
  have ok: "sessions_ok ?d" using example_sessions_ok sessions_ok_cong [of ?d example_accounts] by simp
  have row: "get_response_action 100 ?d = Some (example_row\<lparr>ra_status := ''approved''\<rparr>)"
    by (simp add: get_response_action_def example_row_def response_action_row_def)
  have user: "get_user 1 ?d \<noteq> None" by (simp add: get_user_def)
  from executed_revocation_takes_effect [OF ok row _ _ _ user, of example_settings silent_aws "example_env 10 300" "example_env 11 400" "()",
      OF _ _ _ triple_eta]
  show ?thesis by (simp add: example_row_def response_action_row_def example_proposal_def)
qed

theorem aws_success_is_verified_witness:
  "aws_response_enabled (example_settings\<lparr>aws_response_enabled := True, aws_allowed_account_ids := ''123456789012''\<rparr>)"
proof -
  let ?a = "example_row\<lparr>ra_action_type := ''disable_aws_access_key'', ra_target := ''bob:AKIA0123456789ABCDEF'',
    ra_account_id := Some ''123456789012''\<rparr>"
  let ?st = "example_settings\<lparr>aws_response_enabled := True, aws_allowed_account_ids := ''123456789012''\<rparr>"
  have "execute_aws_action ?st silent_aws ?a () = (Inr (verified_outcome ''r1''), ())"
    by (simp add: execute_aws_action_def disable_access_key_def io_bind_def silent_aws_def allowed_accounts_def
        py_strip_def py_lstrip_def py_rstrip_def is_space_def split_once_def startswith_def)
  from aws_success_is_verified [OF this] show ?thesis by simp
qed

end
