(* ===== verification/Policy.thy ===== *)
theory Policy
  imports Models PyFormat
begin

text \<open>
  The deterministic gate in front of automated responses: \<^verbatim>\<open>response/actions.py\<close>,
  \<^verbatim>\<open>response/circuit_breaker.py\<close> (the in-memory breaker, which is the one the engine makes
  when it is given none) and \<^verbatim>\<open>response/policy.py\<close>. A set of texts is the list of its members.
\<close>

section \<open>Actions\<close>

datatype action_type =
    NOTIFY | ENRICH_THREAT_INTEL | SNAPSHOT_EVIDENCE | BLOCK_IP | REVOKE_SESSIONS
  | DISABLE_USER | REMOVE_ROLE | ISOLATE_HOST

definition action_value :: "action_type \<Rightarrow> string" where
  "action_value a = (case a of
      NOTIFY \<Rightarrow> ''notify'' | ENRICH_THREAT_INTEL \<Rightarrow> ''enrich_threat_intel'' | SNAPSHOT_EVIDENCE \<Rightarrow> ''snapshot_evidence''
    | BLOCK_IP \<Rightarrow> ''block_ip'' | REVOKE_SESSIONS \<Rightarrow> ''revoke_sessions'' | DISABLE_USER \<Rightarrow> ''disable_user''
    | REMOVE_ROLE \<Rightarrow> ''remove_role'' | ISOLATE_HOST \<Rightarrow> ''isolate_host'')"

datatype action_tier = TIER_0_AUTO | TIER_1_LOW | TIER_2_MEDIUM | TIER_3_HIGH

text \<open>\<^verbatim>\<open>IntEnum\<close>: tiers are ordered as their numbers are.\<close>

definition tier_value :: "action_tier \<Rightarrow> int" where
  "tier_value t = (case t of TIER_0_AUTO \<Rightarrow> 0 | TIER_1_LOW \<Rightarrow> 1 | TIER_2_MEDIUM \<Rightarrow> 2 | TIER_3_HIGH \<Rightarrow> 3)"

instantiation action_tier :: linorder
begin

definition less_eq_action_tier :: "action_tier \<Rightarrow> action_tier \<Rightarrow> bool" where
  "a \<le> b \<longleftrightarrow> tier_value a \<le> tier_value b"

definition less_action_tier :: "action_tier \<Rightarrow> action_tier \<Rightarrow> bool" where
  "a < b \<longleftrightarrow> tier_value a < tier_value b"

instance
  by standard (auto simp: less_eq_action_tier_def less_action_tier_def tier_value_def split: action_tier.splits)

end

definition action_tiers :: "action_type \<Rightarrow> action_tier" where
  "action_tiers a = (case a of
      NOTIFY \<Rightarrow> TIER_0_AUTO | ENRICH_THREAT_INTEL \<Rightarrow> TIER_0_AUTO | SNAPSHOT_EVIDENCE \<Rightarrow> TIER_0_AUTO
    | BLOCK_IP \<Rightarrow> TIER_1_LOW | REVOKE_SESSIONS \<Rightarrow> TIER_1_LOW
    | DISABLE_USER \<Rightarrow> TIER_2_MEDIUM | REMOVE_ROLE \<Rightarrow> TIER_2_MEDIUM | ISOLATE_HOST \<Rightarrow> TIER_3_HIGH)"

record proposed_action =
  pa_action_type :: action_type
  pa_target :: string
  pa_reason :: string
  pa_evidence_refs :: "string list"
  pa_confidence :: rat
  pa_ttl_seconds :: "int option"
  pa_parameters :: "(string \<times> json) list"

definition proposed_action_valid :: "proposed_action \<Rightarrow> bool" where
  "proposed_action_valid a =
    (1 \<le> length (pa_target a) \<and> length (pa_target a) \<le> 256 \<and>
     5 \<le> length (pa_reason a) \<and> length (pa_reason a) \<le> 500 \<and>
     1 \<le> length (pa_evidence_refs a) \<and> length (pa_evidence_refs a) \<le> 20 \<and>
     0 \<le> pa_confidence a \<and> pa_confidence a \<le> 1 \<and>
     (case pa_ttl_seconds a of None \<Rightarrow> True | Some n \<Rightarrow> 60 \<le> n \<and> n \<le> 2592000))"

record action_plan =
  ap_incident_id :: string
  ap_actions :: "proposed_action list"

definition action_plan_valid :: "action_plan \<Rightarrow> bool" where
  "action_plan_valid p = (length (ap_actions p) \<le> 10 \<and> list_all proposed_action_valid (ap_actions p))"

section \<open>The circuit breaker\<close>

record circuit_breaker =
  cb_max_actions_per_hour :: int
  cb_max_disruptive_actions_per_hour :: int
  cb_local_kill_switch :: bool
  cb_local_history :: "(datetime \<times> string) list"

definition new_circuit_breaker :: "int \<Rightarrow> int \<Rightarrow> circuit_breaker" where
  "new_circuit_breaker max_actions max_disruptive =
    \<lparr>cb_max_actions_per_hour = max_actions, cb_max_disruptive_actions_per_hour = max_disruptive,
     cb_local_kill_switch = False, cb_local_history = []\<rparr>"

definition default_circuit_breaker :: circuit_breaker where
  "default_circuit_breaker = new_circuit_breaker 10 3"

definition prune_history :: "datetime \<Rightarrow> circuit_breaker \<Rightarrow> circuit_breaker" where
  "prune_history now b = b\<lparr>cb_local_history := filter (\<lambda>(t, _). now - seconds 3600 \<le> t) (cb_local_history b)\<rparr>"

definition disruptive_count :: "(datetime \<times> string) list \<Rightarrow> int" where
  "disruptive_count h = int (length (filter (\<lambda>(_, kind). kind = ''disruptive'') h))"

definition is_tripped :: "datetime \<Rightarrow> circuit_breaker \<Rightarrow> (bool \<times> string) \<times> circuit_breaker" where
  "is_tripped now b =
    (if cb_local_kill_switch b then ((True, ''Global response kill switch is ACTIVE''), b)
     else
       (let b' = prune_history now b;
            total = int (length (cb_local_history b'));
            disruptive = disruptive_count (cb_local_history b')
        in if cb_max_actions_per_hour b \<le> total
           then ((True, ''Hourly total action cap reached ('' @ str_of_int total @ ''/'' @
                   str_of_int (cb_max_actions_per_hour b) @ '')''), b')
           else if cb_max_disruptive_actions_per_hour b \<le> disruptive
           then ((True, ''Hourly disruptive action cap reached ('' @ str_of_int disruptive @ ''/'' @
                   str_of_int (cb_max_disruptive_actions_per_hour b) @ '')''), b')
           else ((False, ''ok''), b')))"

definition record_execution :: "datetime \<Rightarrow> bool \<Rightarrow> circuit_breaker \<Rightarrow> circuit_breaker" where
  "record_execution now is_disruptive b = b\<lparr>cb_local_history := cb_local_history b @
     [(now, if is_disruptive then ''disruptive'' else ''normal'')]\<rparr>"

definition set_kill_switch :: "bool \<Rightarrow> circuit_breaker \<Rightarrow> circuit_breaker" where
  "set_kill_switch enabled b = b\<lparr>cb_local_kill_switch := enabled\<rparr>"

section \<open>The policy engine\<close>

definition default_protected_entities :: "string list" where
  "default_protected_entities = [''admin'', ''root'', ''administrator'', ''soc_admin'', ''break_glass'',
     ''emergency_admin'', ''127.0.0.1'', ''::1'', ''localhost'']"

text \<open>A network with the text Python prints for it.\<close>

definition default_protected_networks :: "(32 word \<times> nat \<times> string) list" where
  "default_protected_networks = [(0x7F000000, 8, ''127.0.0.0/8''), (0xA9FE0000, 16, ''169.254.0.0/16'')]"

record policy_context =
  pc_incident_id :: string
  pc_incident_entities :: "string list"
  pc_valid_evidence_refs :: "string list"
  pc_protected_entities :: "string list"
  pc_min_auto_confidence :: rat

record policy_decision =
  pd_allowed :: bool
  pd_requires_human_approval :: bool
  pd_reason :: string
  pd_action :: proposed_action

definition normalized_entity :: "string \<Rightarrow> string" where
  "normalized_entity s = py_lower (py_strip s)"

text \<open>
  The network of the first match. An IPv6 address is in no IPv4 network, and a text that is no
  address raises the ValueError that the code ignores, so only IPv4 texts matter.
\<close>

definition protected_network_of :: "string \<Rightarrow> string option" where
  "protected_network_of target =
    (case parse_ipv4 (py_strip target) of None \<Rightarrow> None
     | Some ip \<Rightarrow> map_option (\<lambda>(_, _, t). t) (find (\<lambda>(net, len, _). in_network ip net len) default_protected_networks))"

definition evaluate_tier :: "proposed_action \<Rightarrow> policy_context \<Rightarrow> policy_decision" where
  "evaluate_tier action c =
    (let decision = (\<lambda>human reason. \<lparr>pd_allowed = True, pd_requires_human_approval = human, pd_reason = reason, pd_action = action\<rparr>);
         tier = action_tiers (pa_action_type action)
     in if TIER_3_HIGH \<le> tier then decision True ''Tier 3 high-impact action requires explicit human SOC analyst authorization''
        else if TIER_2_MEDIUM \<le> tier then decision True ''Tier 2 disruptive action requires human analyst approval''
        else if tier = TIER_1_LOW then
          (if pa_confidence action < pc_min_auto_confidence c
           then decision True (''Confidence '' @ format2 (pa_confidence action) @ '' is below auto-execution threshold '' @
             format2 (pc_min_auto_confidence c) @ ''; deferred to human approval'')
           else decision False ''Tier 1 action validated and approved for automated execution'')
        else decision False ''Tier 0 non-disruptive action approved for automated execution'')"

definition evaluate :: "datetime \<Rightarrow> proposed_action \<Rightarrow> policy_context \<Rightarrow> circuit_breaker \<Rightarrow> policy_decision \<times> circuit_breaker" where
  "evaluate now action c b =
    (let refuse = (\<lambda>reason. \<lparr>pd_allowed = False, pd_requires_human_approval = False, pd_reason = reason, pd_action = action\<rparr>);
         ((tripped, cb_reason), b') = is_tripped now b;
         target = normalized_entity (pa_target action)
     in (if tripped then refuse (''Circuit breaker tripped: '' @ cb_reason)
         else if target \<notin> set (map normalized_entity (pc_incident_entities c))
         then refuse (''Ungrounded target '' @ [CHR 0x27] @ pa_target action @ [CHR 0x27] @ '' is not present in incident entities'')
         else if target \<in> set (map normalized_entity (pc_protected_entities c))
         then refuse (''Target '' @ [CHR 0x27] @ pa_target action @ [CHR 0x27] @
                '' is a protected entity (admin/service account/infrastructure)'')
         else (case protected_network_of (pa_target action) of
           Some net \<Rightarrow> refuse (''Target IP '' @ [CHR 0x27] @ pa_target action @ [CHR 0x27] @ '' is within protected network '' @ net)
         | None \<Rightarrow>
           (let invalid_refs = filter (\<lambda>r. r \<notin> set (pc_valid_evidence_refs c)) (pa_evidence_refs action)
            in if invalid_refs \<noteq> []
               then refuse (''Ungrounded evidence references cited: '' @ py_repr_list (sort (remdups invalid_refs)))
               else evaluate_tier action c)), b'))"

section \<open>What is executed without a human\<close>

text \<open>
  C15: the engine lets an action run without human approval exactly when the breaker is not tripped, the
  target is an entity of the incident and neither a protected entity nor an address of a protected
  network, every cited evidence reference is valid, and the action is of tier 0, or of tier 1 with at
  least the configured confidence. So no action of tier 2 or 3 ever runs without approval.
\<close>

theorem policy_auto_executes_iff:
  "(pd_allowed (fst (evaluate now action c b)) \<and> \<not> pd_requires_human_approval (fst (evaluate now action c b))) \<longleftrightarrow>
   (\<not> fst (fst (is_tripped now b)) \<and>
    normalized_entity (pa_target action) \<in> normalized_entity ` set (pc_incident_entities c) \<and>
    normalized_entity (pa_target action) \<notin> normalized_entity ` set (pc_protected_entities c) \<and>
    protected_network_of (pa_target action) = None \<and>
    set (pa_evidence_refs action) \<subseteq> set (pc_valid_evidence_refs c) \<and>
    (action_tiers (pa_action_type action) = TIER_0_AUTO \<or>
     action_tiers (pa_action_type action) = TIER_1_LOW \<and> pc_min_auto_confidence c \<le> pa_confidence action))"
proof -
  let ?refs = "filter (\<lambda>r. r \<notin> set (pc_valid_evidence_refs c)) (pa_evidence_refs action)"
  have refs: "?refs = [] \<longleftrightarrow> set (pa_evidence_refs action) \<subseteq> set (pc_valid_evidence_refs c)"
    by (auto simp: filter_empty_conv)
  have tier: "pd_allowed (evaluate_tier action c) \<and>
      (pd_requires_human_approval (evaluate_tier action c) \<longleftrightarrow>
       \<not> (action_tiers (pa_action_type action) = TIER_0_AUTO \<or>
          action_tiers (pa_action_type action) = TIER_1_LOW \<and> pc_min_auto_confidence c \<le> pa_confidence action))"
    by (cases "action_tiers (pa_action_type action)")
      (auto simp: evaluate_tier_def Let_def less_eq_action_tier_def tier_value_def)
  obtain tripped reason b' where t: "is_tripped now b = ((tripped, reason), b')"
    by (metis prod.collapse)
  show ?thesis
    using tier refs by (simp add: evaluate_def t Let_def split: option.split)
qed

text \<open>The octets of an address decide its membership in the protected networks.\<close>

lemma protected_network_of_text:
  assumes "a \<le> 255" "b \<le> 255" "c \<le> 255" "d \<le> 255" and "py_strip target = ipv4_text a b c d"
  shows "protected_network_of target \<noteq> None \<longleftrightarrow> a = 127 \<or> (a = 169 \<and> b = 254)"
proof -
  let ?n = "((a * 256 + b) * 256 + c) * 256 + d"
  note n = quad_less [OF assms(1-4)]
  have "?n div 2 ^ 24 = a" and d16: "?n div 2 ^ 16 = a * 256 + b"
    using assms(1-4) by simp_all
  then have lo: "in_network (of_nat ?n) 0x7F000000 8 \<longleftrightarrow> a = 127"
    by (subst in_network_of_nat [OF n, of 8 127]) simp_all
  have "in_network (of_nat ?n) 0xA9FE0000 16 \<longleftrightarrow> a * 256 + b = 169 * 256 + 254"
    using d16 by (subst in_network_of_nat [OF n, of 16 "169 * 256 + 254"]) simp_all
  also have "\<dots> \<longleftrightarrow> a = 169 \<and> b = 254" using assms(1,2) by presburger
  finally have link: "in_network (of_nat ?n) 0xA9FE0000 16 \<longleftrightarrow> a = 169 \<and> b = 254" .
  show ?thesis
    using lo link
    by (auto simp: protected_network_of_def assms(5) parse_ipv4_text [OF assms(1-4)] default_protected_networks_def)
qed

text \<open>
  no action on a loopback address (127.0.0.0/8) or on a link-local one (169.254.0.0/16, where cloud
  metadata is served) is ever allowed, with or without approval, whatever the incident's entities and
  evidence say and however the address is surrounded by white space; and the networks exclude no other
  address.
\<close>

theorem loopback_and_metadata_refused:
  assumes "o1 \<le> 255" "o2 \<le> 255" "o3 \<le> 255" "o4 \<le> 255" and "py_strip (pa_target action) = ipv4_text o1 o2 o3 o4"
  shows "(o1 = 127 \<or> o1 = 169 \<and> o2 = 254 \<longrightarrow>
      \<not> pd_allowed (fst (evaluate now action c b)) \<and> \<not> pd_requires_human_approval (fst (evaluate now action c b))) \<and>
    (\<not> (o1 = 127 \<or> o1 = 169 \<and> o2 = 254) \<longrightarrow> protected_network_of (pa_target action) = None)"
proof -
  obtain tripped reason b' where t: "is_tripped now b = ((tripped, reason), b')"
    by (metis prod.collapse)
  have net: "protected_network_of (pa_target action) \<noteq> None \<longleftrightarrow> o1 = 127 \<or> (o1 = 169 \<and> o2 = 254)"
    by (rule protected_network_of_text [OF assms])
  then show ?thesis by (auto simp: evaluate_def t Let_def)
qed

definition example_action :: "action_type \<Rightarrow> string \<Rightarrow> proposed_action" where
  "example_action k target = \<lparr>pa_action_type = k, pa_target = target, pa_reason = ''lateral movement'',
     pa_evidence_refs = [''alert:1''], pa_confidence = 9 / 10, pa_ttl_seconds = None, pa_parameters = []\<rparr>"

theorem loopback_and_metadata_refused_witness:
  "\<not> pd_allowed (fst (evaluate 0 (example_action BLOCK_IP '' 169.254.169.254'')
      \<lparr>pc_incident_id = [], pc_incident_entities = [''169.254.169.254''], pc_valid_evidence_refs = [''alert:1''],
       pc_protected_entities = default_protected_entities, pc_min_auto_confidence = 4 / 5\<rparr> default_circuit_breaker))"
proof -
  have "py_strip (pa_target (example_action BLOCK_IP '' 169.254.169.254'')) = ipv4_text 169 254 169 254"
    by code_simp
  from loopback_and_metadata_refused [OF _ _ _ _ this] show ?thesis by simp
qed

section \<open>The breaker is a sliding window over the whole past\<close>

datatype breaker_op = Check datetime | Executed datetime bool | KillSwitch bool

fun breaker_step :: "breaker_op \<Rightarrow> circuit_breaker \<Rightarrow> circuit_breaker" where
  "breaker_step (Check t) b = snd (is_tripped t b)"
| "breaker_step (Executed t disruptive) b = record_execution t disruptive b"
| "breaker_step (KillSwitch on) b = set_kill_switch on b"

definition breaker_run :: "breaker_op list \<Rightarrow> circuit_breaker \<Rightarrow> circuit_breaker" where
  "breaker_run ops b = fold breaker_step ops b"

text \<open>The specification: every execution ever recorded, and the last setting of the switch.\<close>

definition all_executions :: "breaker_op list \<Rightarrow> (datetime \<times> bool) list" where
  "all_executions ops = concat (map (\<lambda>x. case x of Executed t disruptive \<Rightarrow> [(t, disruptive)] | _ \<Rightarrow> []) ops)"

definition switched_on :: "breaker_op list \<Rightarrow> bool" where
  "switched_on ops = fold (\<lambda>x s. case x of KillSwitch on \<Rightarrow> on | _ \<Rightarrow> s) ops False"

definition executions_since :: "datetime \<Rightarrow> breaker_op list \<Rightarrow> (datetime \<times> bool) list" where
  "executions_since t ops = filter (\<lambda>(s, _). t \<le> s) (all_executions ops)"

definition tagged :: "datetime \<times> bool \<Rightarrow> datetime \<times> string" where
  "tagged x = (fst x, if snd x then ''disruptive'' else ''normal'')"

lemma breaker_run_invariant:
  assumes "\<forall>t' \<in> {t'. Check t' \<in> set ops}. t' \<le> t"
  shows "cb_local_kill_switch (breaker_run ops (new_circuit_breaker m k)) = switched_on ops \<and>
    cb_max_actions_per_hour (breaker_run ops (new_circuit_breaker m k)) = m \<and>
    cb_max_disruptive_actions_per_hour (breaker_run ops (new_circuit_breaker m k)) = k \<and>
    filter (\<lambda>(s, _). t - seconds 3600 \<le> s) (cb_local_history (breaker_run ops (new_circuit_breaker m k))) =
      map tagged (executions_since (t - seconds 3600) ops)"
  using assms
proof (induction ops rule: rev_induct)
  case Nil
  then show ?case
    by (simp add: breaker_run_def new_circuit_breaker_def switched_on_def executions_since_def all_executions_def)
next
  case (snoc x xs)
  note IH = snoc.IH
  have later: "\<forall>t' \<in> {t'. Check t' \<in> set xs}. t' \<le> t" using snoc.prems by auto
  have filters: "filter (\<lambda>x. (case x of (s, _) \<Rightarrow> t0 - seconds 3600 \<le> s) \<and> (case x of (s, _) \<Rightarrow> t - seconds 3600 \<le> s)) h =
      filter (\<lambda>(s, _). t - seconds 3600 \<le> s) h" if "t0 \<le> t" for t0 and h :: "(datetime \<times> string) list"
    using that by (auto intro!: filter_cong)
  show ?case
    using IH [OF later] snoc.prems
    by (cases x) (auto simp: breaker_run_def is_tripped_def prune_history_def record_execution_def set_kill_switch_def
        switched_on_def executions_since_def all_executions_def tagged_def Let_def filters)
qed

lemma disruptive_count_tagged: "disruptive_count (map tagged xs) = int (length (filter snd xs))"
  by (induction xs) (auto simp: disruptive_count_def tagged_def)

text \<open>
  although the breaker forgets executions as it goes, it answers as one that kept them all: after
  any sequence of checks, recorded executions and switchings, a check no earlier than the previous
  ones trips exactly when the switch is on, or the executions recorded in the last hour reach the cap,
  or the disruptive ones among them reach theirs.
\<close>

theorem breaker_is_sliding_window:
  assumes "\<forall>t' \<in> {t'. Check t' \<in> set ops}. t' \<le> t"
  shows "fst (fst (is_tripped t (breaker_run ops (new_circuit_breaker m k)))) \<longleftrightarrow>
    switched_on ops \<or> m \<le> int (length (executions_since (t - seconds 3600) ops)) \<or>
    k \<le> int (length (filter snd (executions_since (t - seconds 3600) ops)))"
  using breaker_run_invariant [OF assms, of m k]
  by (auto simp: is_tripped_def prune_history_def Let_def disruptive_count_tagged)

theorem breaker_is_sliding_window_witness:
  "fst (fst (is_tripped (seconds 100) (breaker_run [Executed 0 True, Check (seconds 50), Executed (seconds 60) False]
      (new_circuit_breaker 2 2)))) \<and>
   \<not> fst (fst (is_tripped (seconds 3601) (breaker_run [Executed 0 True, Check (seconds 50), Executed (seconds 60) False]
      (new_circuit_breaker 2 2))))"
  using breaker_is_sliding_window [of "[Executed 0 True, Check (seconds 50), Executed (seconds 60) False]" "seconds 100" 2 2]
    breaker_is_sliding_window [of "[Executed 0 True, Check (seconds 50), Executed (seconds 60) False]" "seconds 3601" 2 2]
  by (simp add: switched_on_def executions_since_def all_executions_def seconds_def)

end
