(* ===== verification/Executor.thy ===== *)
theory Executor
  imports ResponseActions Policy
begin

text \<open>
  Automated containment inside the application: \<^verbatim>\<open>response/executor.py\<close> (revoking sessions,
  disabling a user, blocking an address, and their rollback), the denylist that
  \<^verbatim>\<open>core/middleware.py\<close> enforces on every request, and the cloud connectors of
  \<^verbatim>\<open>response/cloud_connector.py\<close>. The executor's Redis client may be absent, so it is an option.
\<close>

section \<open>Results\<close>

record execution_result =
  er_action_id :: string
  er_action_type :: action_type
  er_target :: string
  er_status :: string
  er_pre_state :: "(string \<times> json) list"
  er_post_state :: "(string \<times> json) list"
  er_undo_available :: bool
  er_executed_at :: datetime
  er_error :: "string option"

definition executed :: "string \<Rightarrow> action_type \<Rightarrow> string \<Rightarrow> (string \<times> json) list \<Rightarrow> (string \<times> json) list \<Rightarrow> bool \<Rightarrow>
    datetime \<Rightarrow> execution_result" where
  "executed action_id action_type target pre post undo executed_at =
    \<lparr>er_action_id = action_id, er_action_type = action_type, er_target = target, er_status = ''executed'',
     er_pre_state = pre, er_post_state = post, er_undo_available = undo, er_executed_at = executed_at, er_error = None\<rparr>"

definition quoted :: "string \<Rightarrow> string" where
  "quoted s = [CHR 0x27] @ s @ [CHR 0x27]"

section \<open>The executor\<close>

definition find_user :: "string \<Rightarrow> db \<Rightarrow> user option" where
  "find_user target d =
    (case uuid_parse target of None \<Rightarrow> get_by_email target d
     | Some i \<Rightarrow> (case get_user i d of Some u \<Rightarrow> Some u | None \<Rightarrow> get_by_email target d))"

definition executor_audit :: "uuid \<Rightarrow> datetime \<Rightarrow> string \<Rightarrow> string \<Rightarrow> string \<Rightarrow> string \<Rightarrow> string \<Rightarrow> (string \<times> json) list \<Rightarrow> db \<Rightarrow> db" where
  "executor_audit i now action_id action_type target outcome actor_label details d =
    d\<lparr>db_audit_logs := db_audit_logs d @
      [\<lparr>au_id = i, au_actor_type = ''system'', au_actor_id = None, au_actor_label = Some actor_label,
        au_action = ''autonomous_response.'' @ action_type, au_resource_type = Some ''response_action'',
        au_resource_id = Some action_id, au_outcome = outcome, au_request_id = None, au_method = None,
        au_path = None, au_source_ip = None, au_user_agent = None,
        au_details = (''target'', JStr target) # details, au_created_at = now\<rparr>]\<rparr>"

definition execute_revoke_sessions :: "proposed_action \<Rightarrow> string \<Rightarrow> datetime \<Rightarrow> datetime \<Rightarrow> datetime \<Rightarrow> db \<Rightarrow> exn + execution_result \<times> db" where
  "execute_revoke_sessions action action_id executed_at t1 t2 d =
    (case find_user (pa_target action) d of
       None \<Rightarrow> Inl (TargetNotFoundError (''Target user '' @ quoted (pa_target action) @ '' not found''))
     | Some u \<Rightarrow>
       Inr (executed action_id (pa_action_type action) (pa_target action)
          [(''user_id'', JStr (uuid_str (us_id u))), (''email'', JStr (us_email u)),
           (''credentials_changed_at'', JStr (isoformat (us_credentials_changed_at u)))]
          [(''credentials_changed_at'', JStr (isoformat executed_at)), (''sessions_revoked'', JBool True)] False executed_at,
        save_user (u\<lparr>us_credentials_changed_at := executed_at, us_updated_at := t2\<rparr>) (revoke_user (us_id u) t1 d)))"

definition execute_disable_user :: "proposed_action \<Rightarrow> string \<Rightarrow> datetime \<Rightarrow> datetime \<Rightarrow> datetime \<Rightarrow> db \<Rightarrow> exn + execution_result \<times> db" where
  "execute_disable_user action action_id executed_at t1 t2 d =
    (case find_user (pa_target action) d of
       None \<Rightarrow> Inl (TargetNotFoundError (''Target user '' @ quoted (pa_target action) @ '' not found''))
     | Some u \<Rightarrow>
       Inr (executed action_id (pa_action_type action) (pa_target action)
          [(''user_id'', JStr (uuid_str (us_id u))), (''email'', JStr (us_email u)), (''is_active'', JBool (us_is_active u))]
          [(''is_active'', JBool False), (''sessions_revoked'', JBool True)] True executed_at,
        save_user (u\<lparr>us_is_active := False, us_credentials_changed_at := executed_at, us_updated_at := t2\<rparr>)
          (revoke_user (us_id u) t1 d)))"

definition denylist_key :: "string \<Rightarrow> string" where
  "denylist_key ip = ''ai_soc:denylist:ip:'' @ ip"

definition execute_block_ip :: "'r redis_api option \<Rightarrow> proposed_action \<Rightarrow> string \<Rightarrow> datetime \<Rightarrow> datetime \<Rightarrow> 'r \<Rightarrow> execution_result \<times> 'r" where
  "execute_block_ip R action action_id executed_at now s =
    (let target_ip = py_strip (pa_target action);
         ttl = (case pa_ttl_seconds action of None \<Rightarrow> 86400 | Some n \<Rightarrow> if n = 0 then 86400 else n)
     in (executed action_id (pa_action_type action) target_ip [(''blocked'', JBool False), (''ip'', JStr target_ip)]
           [(''blocked'', JBool True), (''ttl_seconds'', JInt ttl)] True executed_at,
         case R of None \<Rightarrow> s | Some R' \<Rightarrow> r_set R' now (denylist_key target_ip) ''blocked'' (Some ttl) s))"

text \<open>UUID 0 is the action id, clock reading 0 is \<^verbatim>\<open>executed_at\<close>.\<close>

definition execute :: "'r redis_api option \<Rightarrow> env \<Rightarrow> proposed_action \<Rightarrow> string \<Rightarrow> 'r world \<Rightarrow> (exn + execution_result) \<times> 'r world" where
  "execute R en action actor_label w =
    (let action_id = uuid_str (en_uuid en 0);
         executed_at = en_now en 0;
         outcome = (case pa_action_type action of
             REVOKE_SESSIONS \<Rightarrow> map_sum id (\<lambda>(r, d). (r, w\<lparr>wd_db := d\<rparr>))
               (execute_revoke_sessions action action_id executed_at (en_now en 1) (en_now en 2) (wd_db w))
           | DISABLE_USER \<Rightarrow> map_sum id (\<lambda>(r, d). (r, w\<lparr>wd_db := d\<rparr>))
               (execute_disable_user action action_id executed_at (en_now en 1) (en_now en 2) (wd_db w))
           | BLOCK_IP \<Rightarrow> (case execute_block_ip R action action_id executed_at (en_now en 1) (wd_redis w) of
               (r, s) \<Rightarrow> Inr (r, w\<lparr>wd_redis := s\<rparr>))
           | k \<Rightarrow> Inl (ExecutionError (''Unsupported in-app action type: '' @ action_value k)));
         audit = executor_audit (en_uuid en 1) (en_now en 3) action_id (action_value (pa_action_type action)) (pa_target action)
     in case outcome of
          Inr (r, w') \<Rightarrow> (Inr r, w'\<lparr>wd_db := audit ''succeeded'' actor_label
            [(''pre_state'', JObj (er_pre_state r)), (''post_state'', JObj (er_post_state r))] (wd_db w')\<rparr>)
        | Inl x \<Rightarrow> (Inl x, w\<lparr>wd_db := audit ''failed'' actor_label [(''error'', JStr (exn_text x))] (wd_db w)\<rparr>))"

text \<open>What a rollback does before it is recorded.\<close>

definition undo :: "'r redis_api option \<Rightarrow> env \<Rightarrow> execution_result \<Rightarrow> 'r world \<Rightarrow> exn + 'r world" where
  "undo R en r w =
    (case er_action_type r of
       DISABLE_USER \<Rightarrow>
         (case find_user (er_target r) (wd_db w) of
            None \<Rightarrow> Inl (TargetNotFoundError (''User '' @ quoted (er_target r) @ '' no longer exists''))
          | Some u \<Rightarrow>
            (case map_of (er_pre_state r) ''is_active'' of
               None \<Rightarrow> Inl KeyError
             | Some (JBool b) \<Rightarrow> Inr (w\<lparr>wd_db := save_user (u\<lparr>us_is_active := b, us_updated_at := en_now en 1\<rparr>) (wd_db w)\<rparr>)
             | Some _ \<Rightarrow> Inl TypeError))
     | BLOCK_IP \<Rightarrow> Inr (case R of None \<Rightarrow> w
         | Some R' \<Rightarrow> w\<lparr>wd_redis := r_delete R' (en_now en 1) (denylist_key (er_target r)) (wd_redis w)\<rparr>)
     | REVOKE_SESSIONS \<Rightarrow> Inl (ExecutionError ''Revoked sessions cannot be un-revoked for security safety'')
     | _ \<Rightarrow> Inr w)"

definition rollback :: "'r redis_api option \<Rightarrow> env \<Rightarrow> execution_result \<Rightarrow> string \<Rightarrow> 'r world \<Rightarrow> (exn + execution_result) \<times> 'r world" where
  "rollback R en r actor_label w =
    (if \<not> er_undo_available r
     then (Inl (ExecutionError (''Action '' @ action_value (er_action_type r) @ '' does not support rollback'')), w)
     else (case undo R en r w of Inl x \<Rightarrow> (Inl x, w)
       | Inr w' \<Rightarrow>
         (Inr (r\<lparr>er_status := ''reverted'', er_pre_state := er_post_state r, er_post_state := er_pre_state r,
                er_undo_available := False, er_executed_at := en_now en 0, er_error := None\<rparr>),
          w'\<lparr>wd_db := executor_audit (en_uuid en 0) (en_now en 2) (er_action_id r)
            (''rollback.'' @ action_value (er_action_type r)) (er_target r) ''reverted'' actor_label
            [(''restored_to'', JObj (er_pre_state r))] (wd_db w')\<rparr>)))"

section \<open>The middleware\<close>

datatype dispatch_result = Denied int string | Passed string

text \<open>The answer to a request, or the request id it goes on with. (Redis being unreachable lets requests pass.)\<close>

definition dispatch :: "'r redis_api \<Rightarrow> datetime \<Rightarrow> uuid \<Rightarrow> string option \<Rightarrow> string option \<Rightarrow> 'r \<Rightarrow> dispatch_result" where
  "dispatch R now i client_ip request_id_header s =
    (if truthy_str client_ip \<and> truthy_str (r_get R now (denylist_key (the client_ip)) s)
     then Denied 403 ''Access denied: IP is temporarily blocked by SOC containment policy.''
     else (let h = take 128 (case request_id_header of None \<Rightarrow> [] | Some t \<Rightarrow> t)
           in Passed (if h = [] then uuid_str i else h)))"

section \<open>Cloud connectors\<close>

text \<open>The boto3 clients are not part of the repository: a request id may be missing from a response.\<close>

record 'a boto_api =
  bt_list_access_keys :: "string \<Rightarrow> 'a \<Rightarrow> (exn + (string \<times> string) list) \<times> 'a"
  bt_update_access_key :: "string \<Rightarrow> string \<Rightarrow> string \<Rightarrow> 'a \<Rightarrow> (exn + string option) \<times> 'a"
  bt_get_public_access_block :: "string \<Rightarrow> 'a \<Rightarrow> (exn + (string \<times> json) list) \<times> 'a"
  bt_put_public_access_block :: "string \<Rightarrow> (string \<times> json) list \<Rightarrow> 'a \<Rightarrow> (exn + string option) \<times> 'a"
  bt_detach_user_policy :: "string \<Rightarrow> string \<Rightarrow> 'a \<Rightarrow> (exn + string option) \<times> 'a"

record cloud_action_outcome =
  co_action_type :: string
  co_target :: string
  co_success :: bool
  co_pre_state :: "(string \<times> json) list"
  co_post_state :: "(string \<times> json) list"
  co_request_id :: "string option"

definition cloud_outcome :: "string \<Rightarrow> string \<Rightarrow> (string \<times> json) list \<Rightarrow> (string \<times> json) list \<Rightarrow> string option \<Rightarrow> cloud_action_outcome" where
  "cloud_outcome action target pre post request_id =
    \<lparr>co_action_type = action, co_target = target, co_success = True, co_pre_state = pre, co_post_state = post,
     co_request_id = request_id\<rparr>"

definition moto_disable_access_key :: "'a boto_api \<Rightarrow> string \<Rightarrow> string \<Rightarrow> 'a \<Rightarrow> (exn + cloud_action_outcome) \<times> 'a" where
  "moto_disable_access_key B username key_id =
    io_bind (bt_list_access_keys B username) (\<lambda>keys.
      case find (\<lambda>(k, _). k = key_id) keys of
        None \<Rightarrow> Pair (Inl (RuntimeError (''Access key '' @ key_id @ '' not found on user '' @ username)))
      | Some (_, status) \<Rightarrow> io_bind (bt_update_access_key B username key_id ''Inactive'') (\<lambda>rid.
          Pair (Inr (cloud_outcome ''disable_aws_access_key'' (username @ '':'' @ key_id)
            [(''status'', JStr status), (''username'', JStr username), (''key_id'', JStr key_id)]
            [(''status'', JStr ''Inactive'')] rid))))"

definition enable_access_key :: "'a boto_api \<Rightarrow> string \<Rightarrow> string \<Rightarrow> 'a \<Rightarrow> (exn + cloud_action_outcome) \<times> 'a" where
  "enable_access_key B username key_id =
    io_bind (bt_update_access_key B username key_id ''Active'') (\<lambda>rid.
      Pair (Inr (cloud_outcome ''enable_aws_access_key'' (username @ '':'' @ key_id)
        [(''status'', JStr ''Inactive'')] [(''status'', JStr ''Active'')] rid)))"

definition no_public_access_config :: "(string \<times> json) list" where
  "no_public_access_config = map (\<lambda>k. (k, JBool False))
     [''BlockPublicAcls'', ''IgnorePublicAcls'', ''BlockPublicPolicy'', ''RestrictPublicBuckets'']"

definition moto_block_s3_public_access :: "'a boto_api \<Rightarrow> string \<Rightarrow> 'a \<Rightarrow> (exn + cloud_action_outcome) \<times> 'a" where
  "moto_block_s3_public_access B bucket s =
    (case bt_get_public_access_block B bucket s of (current, s') \<Rightarrow>
      io_bind (bt_put_public_access_block B bucket public_access_config) (\<lambda>rid.
        Pair (Inr (cloud_outcome ''block_s3_public_access'' bucket
          (case current of Inl _ \<Rightarrow> no_public_access_config | Inr c \<Rightarrow> c) public_access_config rid))) s')"

definition detach_user_policy :: "(string \<times> json) list \<Rightarrow> 'a boto_api \<Rightarrow> string \<Rightarrow> string \<Rightarrow> 'a \<Rightarrow> (exn + cloud_action_outcome) \<times> 'a" where
  "detach_user_policy pre B username arn =
    io_bind (bt_detach_user_policy B username arn) (\<lambda>rid.
      Pair (Inr (cloud_outcome ''detach_user_policy'' (username @ '':'' @ arn) pre [(''attached'', JBool False)] rid)))"

definition moto_detach_user_policy :: "'a boto_api \<Rightarrow> string \<Rightarrow> string \<Rightarrow> 'a \<Rightarrow> (exn + cloud_action_outcome) \<times> 'a" where
  "moto_detach_user_policy B username arn =
    detach_user_policy [(''attached'', JBool True), (''policy_arn'', JStr arn)] B username arn"

definition real_disable_access_key :: "'a boto_api \<Rightarrow> string \<Rightarrow> string \<Rightarrow> 'a \<Rightarrow> (exn + cloud_action_outcome) \<times> 'a" where
  "real_disable_access_key B username key_id =
    io_bind (bt_update_access_key B username key_id ''Inactive'') (\<lambda>rid.
      Pair (Inr (cloud_outcome ''disable_aws_access_key'' (username @ '':'' @ key_id)
        [(''status'', JStr ''Active'')] [(''status'', JStr ''Inactive'')] rid)))"

definition real_block_s3_public_access :: "'a boto_api \<Rightarrow> string \<Rightarrow> 'a \<Rightarrow> (exn + cloud_action_outcome) \<times> 'a" where
  "real_block_s3_public_access B bucket =
    io_bind (bt_put_public_access_block B bucket public_access_config) (\<lambda>rid.
      Pair (Inr (cloud_outcome ''block_s3_public_access'' bucket [] public_access_config rid)))"

definition real_detach_user_policy :: "'a boto_api \<Rightarrow> string \<Rightarrow> string \<Rightarrow> 'a \<Rightarrow> (exn + cloud_action_outcome) \<times> 'a" where
  "real_detach_user_policy B username arn = detach_user_policy [(''attached'', JBool True)] B username arn"

section \<open>Disabling a user and its rollback\<close>

lemma find_email_save:
  "find (\<lambda>u. us_email u = e) us = Some u \<Longrightarrow> us_id u' = us_id u \<Longrightarrow> us_email u' = us_email u \<Longrightarrow>
     find (\<lambda>u. us_email u = e) (table_save us_id u' us) = Some u'"
  by (induction us) (auto simp: table_save_def split: if_splits)

lemma find_user_save:
  assumes "find_user target d = Some u" and "us_id u' = us_id u" and "us_email u' = us_email u"
    and "db_users d' = table_save us_id u' (db_users d)"
  shows "find_user target d' = Some u'"
proof (cases "uuid_parse target")
  case None
  then show ?thesis using assms by (simp add: find_user_def get_by_email_def find_email_save)
next
  case (Some i)
  show ?thesis
  proof (cases "get_user i d")
    case None
    then have "get_user i d' = None" by (simp add: get_user_def assms(4) table_get_save)
    then show ?thesis using None Some assms by (simp add: find_user_def get_by_email_def find_email_save)
  next
    case (Some v)
    then have "v = u" using assms(1) \<open>uuid_parse target = Some i\<close> by (simp add: find_user_def)
    moreover have "us_id u = i" using Some \<open>v = u\<close> users.get_key by blast
    ultimately have "get_user i d' = Some u'" using Some assms(2) by (simp add: get_user_def assms(4) table_get_save)
    then show ?thesis by (simp add: find_user_def \<open>uuid_parse target = Some i\<close>)
  qed
qed

lemma find_user_mem: "find_user target d = Some u \<Longrightarrow> get_user (us_id u) d \<noteq> None"
proof -
  assume "find_user target d = Some u"
  then have "u \<in> set (db_users d)"
    by (auto simp: find_user_def get_by_email_def get_user_def find_Some_iff table_get_def split: option.splits)
  then show ?thesis by (auto simp: get_user_def table_get_None)
qed

text \<open>
  disabling a user through the executor takes effect at once (the user is inactive and none of the user's
  access tokens is accepted), its rollback succeeds and gives the account back the state it had, with its role,
  and cannot be repeated; the sessions stay revoked.
\<close>

theorem disable_user_rollback:
  assumes "sessions_ok (wd_db w)" and "find_user (pa_target action) (wd_db w) = Some u"
    and "pa_action_type action = DISABLE_USER" and "execute R en action label w = (Inr r, w1)"
    and "rollback R en' r label' w1 = (x, w2)"
  shows "(\<exists>v. get_user (us_id u) (wd_db w1) = Some v \<and> \<not> us_is_active v) \<and>
    (\<exists>r' v. x = Inr r' \<and> \<not> er_undo_available r' \<and> get_user (us_id u) (wd_db w2) = Some v \<and>
       us_is_active v = us_is_active u \<and> us_role_name v = us_role_name u) \<and>
    (\<forall>s \<in> set (db_auth_sessions (wd_db w)). as_user_id s = us_id u \<longrightarrow>
       (\<forall>cr st en1 req tok v d. d \<in> {wd_db w1, wd_db w2} \<longrightarrow>
          fst (get_current_user cr st en1 req tok d) \<noteq> Inr (v, as_family_id s)))"
proof -
  let ?d = "wd_db w"
  let ?u1 = "u\<lparr>us_is_active := False, us_credentials_changed_at := en_now en 0, us_updated_at := en_now en 2\<rparr>"
  let ?u2 = "?u1\<lparr>us_is_active := us_is_active u, us_updated_at := en_now en' 1\<rparr>"
  have r: "er_action_type r = DISABLE_USER" "er_target r = pa_target action" "er_undo_available r"
      "map_of (er_pre_state r) ''is_active'' = Some (JBool (us_is_active u))"
    and users1: "db_users (wd_db w1) = table_save us_id ?u1 (db_users ?d)"
    and sess1: "db_auth_sessions (wd_db w1) = db_auth_sessions (revoke_user (us_id u) (en_now en 1) ?d)"
    using assms(2-4)
    by (auto simp: execute_def execute_disable_user_def executed_def Let_def executor_audit_def save_user_def revoke_user_def)
  have found1: "find_user (er_target r) (wd_db w1) = Some ?u1"
    unfolding r(2) by (rule find_user_save [OF assms(2) _ _ users1]) simp_all
  have users2: "db_users (wd_db w2) = table_save us_id ?u2 (db_users (wd_db w1))"
    and sess2: "db_auth_sessions (wd_db w2) = db_auth_sessions (wd_db w1)"
    and x: "\<exists>r'. x = Inr r' \<and> \<not> er_undo_available r'"
    using assms(5) r found1
    by (auto simp: rollback_def undo_def executor_audit_def save_user_def)
  have get1: "get_user (us_id u) (wd_db w1) = Some ?u1"
    using find_user_mem [OF assms(2)] by (simp add: get_user_def users1 table_get_save)
  then have get2: "get_user (us_id u) (wd_db w2) = Some ?u2"
    by (simp add: get_user_def users2 table_get_save)
  have inactive: "\<not> family_is_active (as_family_id s) t d" if "s \<in> set (db_auth_sessions ?d)" "as_user_id s = us_id u"
    "d \<in> {wd_db w1, wd_db w2}" for s t d
    using family_inactive_after_revoke_user [OF assms(1) that(1,2)] that(3) sess1 sess2 by auto
  have "fst (get_current_user cr st en1 req tok d) \<noteq> Inr (v, as_family_id s)"
    if "s \<in> set (db_auth_sessions ?d)" "as_user_id s = us_id u" "d \<in> {wd_db w1, wd_db w2}" for cr st en1 req tok d v s
    using inactive [OF that] get_current_user_Inr(3) [of cr st en1 req tok d v "as_family_id s"] by (rule contrapos_nn)
  moreover have "\<exists>v. get_user (us_id u) (wd_db w1) = Some v \<and> \<not> us_is_active v"
    using get1 by (intro exI [of _ ?u1]) simp
  moreover obtain r' where "x = Inr r'" "\<not> er_undo_available r'" using x by blast
  moreover have "us_is_active ?u2 = us_is_active u" "us_role_name ?u2 = us_role_name u" by simp_all
  ultimately show ?thesis using get2 by blast
qed

theorem disable_user_rollback_witness:
  "\<exists>r'. fst (rollback (Some mem_redis) (example_env 9 500)
      (executed (uuid_str 400) DISABLE_USER ''admin@example.org''
         [(''user_id'', JStr (uuid_str 1)), (''email'', JStr ''admin@example.org''), (''is_active'', JBool True)]
         [(''is_active'', JBool False), (''sessions_revoked'', JBool True)] True 8) ''analyst''
      (snd (execute (Some mem_redis) (example_env 8 400) (example_action DISABLE_USER ''admin@example.org'') ''auto''
         \<lparr>wd_db = example_accounts, wd_redis = mem_empty\<rparr>))) = Inr r'"
proof -
  let ?w = "\<lparr>wd_db = example_accounts, wd_redis = mem_empty\<rparr>"
  let ?r = "executed (uuid_str 400) DISABLE_USER ''admin@example.org''
         [(''user_id'', JStr (uuid_str 1)), (''email'', JStr ''admin@example.org''), (''is_active'', JBool True)]
         [(''is_active'', JBool False), (''sessions_revoked'', JBool True)] True 8"
  have email: "us_email example_user = ''admin@example.org''" by (simp add: example_user_def new_user_def)
  have "uuid_parse ''admin@example.org'' = None" by code_simp
  then have found: "find_user ''admin@example.org'' example_accounts = Some example_user"
    by (simp add: find_user_def get_by_email_def email)
  have "execute (Some mem_redis) (example_env 8 400) (example_action DISABLE_USER ''admin@example.org'') ''auto'' ?w =
      (Inr ?r, snd (execute (Some mem_redis) (example_env 8 400) (example_action DISABLE_USER ''admin@example.org'') ''auto'' ?w))"
    by (simp add: execute_def execute_disable_user_def example_action_def found Let_def executed_def email)
  note rolled = disable_user_rollback [where u = example_user and en' = "example_env 9 500" and label' = "''analyst''",
      OF _ _ _ this prod.collapse [symmetric], THEN conjunct2, THEN conjunct1]
  have "pa_action_type (example_action DISABLE_USER ''admin@example.org'') = DISABLE_USER"
    "find_user (pa_target (example_action DISABLE_USER ''admin@example.org'')) (wd_db ?w) = Some example_user"
    "sessions_ok (wd_db ?w)"
    using found example_sessions_ok by (simp_all add: example_action_def)
  from rolled [OF this(3,2,1)] show ?thesis by blast
qed

section \<open>Blocking an address\<close>

text \<open>
  C37: blocking an address makes the middleware answer 403 to every request from it until the time to live
  (a day when none is given) is over, and to no other address; a rollback lets it in again at once.
\<close>

theorem block_ip_enforced:
  assumes "redis_strings R" and "pa_action_type action = BLOCK_IP" and "py_strip (pa_target action) = ip" and "ip \<noteq> []"
    and "execute (Some R) en action label w = (Inr r, w1)" and "rollback (Some R) en' r label' w1 = (x, w2)"
    and "ttl = (case pa_ttl_seconds action of None \<Rightarrow> 86400 | Some n \<Rightarrow> n)" and "0 < ttl"
  shows "(\<forall>t \<ge> en_now en 1. (\<exists>m. dispatch R t i (Some ip) h (wd_redis w1) = Denied 403 m) \<longleftrightarrow> t < en_now en 1 + seconds ttl) \<and>
    (\<forall>other t. other \<noteq> Some ip \<longrightarrow> dispatch R t i other h (wd_redis w1) = dispatch R t i other h (wd_redis w)) \<and>
    (\<forall>t \<ge> en_now en' 1. \<exists>request_id. dispatch R t i (Some ip) h (wd_redis w2) = Passed request_id)"
proof -
  have ttl: "ttl = (case pa_ttl_seconds action of None \<Rightarrow> 86400 | Some n \<Rightarrow> if n = 0 then 86400 else n)"
    using assms(7,8) by (auto split: option.splits)
  have r: "er_action_type r = BLOCK_IP" "er_target r = ip" "er_undo_available r"
    and w1: "wd_redis w1 = r_set R (en_now en 1) (denylist_key ip) ''blocked'' (Some ttl) (wd_redis w)"
    using assms(2,3,5) ttl by (auto simp: execute_def execute_block_ip_def executed_def Let_def)
  have w2: "wd_redis w2 = r_delete R (en_now en' 1) (denylist_key ip) (wd_redis w1)"
    using assms(6) r by (auto simp: rollback_def undo_def)
  have "r_get R t (denylist_key ip) (wd_redis w1) = (if t < en_now en 1 + seconds ttl then Some ''blocked'' else None)"
    if "en_now en 1 \<le> t" for t
    using redis_strings.get_set [OF assms(1) that] by (simp add: w1)
  moreover have "r_get R t (denylist_key ip') (wd_redis w1) = r_get R t (denylist_key ip') (wd_redis w)" if "ip' \<noteq> ip" for t ip'
    unfolding w1 by (rule redis_strings.get_set_other [OF assms(1)]) (use that in \<open>simp add: denylist_key_def\<close>)
  moreover have "r_get R t (denylist_key ip) (wd_redis w2) = None" if "en_now en' 1 \<le> t" for t
    unfolding w2 by (rule redis_strings.get_delete [OF assms(1) that])
  moreover have "dispatch R t i other h (wd_redis w1) = dispatch R t i other h (wd_redis w)" if "other \<noteq> Some ip" for other t
    using that calculation(2) by (cases other) (auto simp: dispatch_def)
  ultimately show ?thesis
    using assms(4) by (auto simp: dispatch_def Let_def)
qed

theorem block_ip_enforced_witness:
  "\<exists>m. dispatch mem_redis (seconds 100) 0 (Some ''10.0.0.9'') None
     (wd_redis (snd (execute (Some mem_redis) (example_env 8 400) (example_action BLOCK_IP '' 10.0.0.9'') ''auto''
        \<lparr>wd_db = example_accounts, wd_redis = mem_empty\<rparr>))) = Denied 403 m"
proof -
  let ?x = "execute (Some mem_redis) (example_env 8 400) (example_action BLOCK_IP '' 10.0.0.9'') ''auto''
        \<lparr>wd_db = example_accounts, wd_redis = mem_empty\<rparr>"
  have strip: "py_strip '' 10.0.0.9'' = ''10.0.0.9''" by code_simp
  obtain r where "?x = (Inr r, snd ?x)"
    by (simp add: execute_def execute_block_ip_def example_action_def Let_def)
  from block_ip_enforced [OF mem.redis_strings_axioms _ _ _ this prod.collapse [symmetric], of "''10.0.0.9''" 86400 0 None]
  show ?thesis using strip by (simp add: example_action_def seconds_def)
qed

section \<open>A difference to user administration\<close>

text \<open>
  The executor has no last-administrator guard: on a database whose only active administrator is the
  target, it leaves no active administrator, which \<^verbatim>\<open>UserService.update\<close> refuses to do.
\<close>

theorem executor_disables_last_admin:
  "active_admin_count example_accounts = 1 \<and>
   active_admin_count (wd_db (snd (execute None (example_env 8 400) (example_action DISABLE_USER ''admin@example.org'') ''auto''
     \<lparr>wd_db = example_accounts, wd_redis = mem_empty\<rparr>))) = 0"
proof -
  have u: "example_user = new_user 1 ''admin@example.org'' ''Admin'' ''old'' ''admin'' None 0" by (rule example_user_def)
  have "uuid_parse ''admin@example.org'' = None" by code_simp
  then have "find_user ''admin@example.org'' example_accounts = Some example_user"
    by (simp add: find_user_def get_by_email_def u new_user_def)
  then show ?thesis
    by (simp add: execute_def execute_disable_user_def example_action_def Let_def executor_audit_def save_user_def
        revoke_user_def active_admin_count_def active_admin_def table_save_def u new_user_def)
qed

end
