(* ===== verification/InvStore.thy ===== *)
theory InvStore
  imports Models PyUuid PyDatetime Redis InvSchema
begin

text \<open>
  The rows and queues of investigations: \<^verbatim>\<open>repositories/investigation_repository.py\<close> and
  \<^verbatim>\<open>investigation/queue.py\<close>. \<open>now\<close> is the clock reading of the call. The queue is the Redis
  list under the configured key; it holds the texts of investigation ids.
\<close>

section \<open>The repository\<close>

definition find_for_context :: "uuid \<Rightarrow> string \<Rightarrow> string \<Rightarrow> db \<Rightarrow> investigation option" where
  "find_for_context incident_id context_hash prompt_version d =
    find (\<lambda>v. iv_incident_id v = incident_id \<and> iv_context_hash v = context_hash \<and> iv_prompt_version v = prompt_version)
      (db_investigations d)"

definition context_lock_key :: "uuid \<Rightarrow> string \<Rightarrow> string \<Rightarrow> string" where
  "context_lock_key incident_id context_hash prompt_version =
    ''investigation:'' @ uuid_str incident_id @ '':'' @ context_hash @ '':'' @ prompt_version"

definition investigations_of_incident :: "uuid \<Rightarrow> db \<Rightarrow> investigation list" where
  "investigations_of_incident incident_id d =
    sort_key (\<lambda>v. - iv_created_at v) (filter (\<lambda>v. iv_incident_id v = incident_id) (db_investigations d))"

text \<open>A conditional UPDATE: only a queued investigation is claimed.\<close>

definition claimed :: "datetime \<Rightarrow> investigation \<Rightarrow> investigation" where
  "claimed now v = v\<lparr>iv_status := ''running'', iv_started_at := Some now, iv_completed_at := None, iv_error := None,
     iv_error_class := None, iv_next_retry_at := None, iv_attempt_count := iv_attempt_count v + 1, iv_updated_at := now\<rparr>"

definition claim_investigation :: "datetime \<Rightarrow> uuid \<Rightarrow> db \<Rightarrow> investigation option \<times> db" where
  "claim_investigation now i d =
    (case get_investigation i d of None \<Rightarrow> (None, d)
     | Some v \<Rightarrow> if iv_status v \<noteq> ''queued'' then (None, d)
       else (Some (claimed now v), save_investigation (claimed now v) d))"

definition requeue_investigation :: "datetime \<Rightarrow> bool \<Rightarrow> investigation \<Rightarrow> investigation" where
  "requeue_investigation now reset_attempts v = v\<lparr>iv_status := ''queued'', iv_queued_at := now, iv_started_at := None,
     iv_completed_at := None, iv_error := None, iv_error_class := None, iv_next_retry_at := None, iv_validation_errors := [],
     iv_attempt_count := (if reset_attempts then 0 else iv_attempt_count v), iv_updated_at := now\<rparr>"

definition schedule_retry :: "datetime \<Rightarrow> int \<Rightarrow> string \<Rightarrow> string \<Rightarrow> investigation \<Rightarrow> investigation" where
  "schedule_retry now delay_seconds err err_class v =
    v\<lparr>iv_status := ''queued'', iv_queued_at := now + seconds delay_seconds,
      iv_next_retry_at := Some (now + seconds delay_seconds), iv_error := Some (take 4000 err),
      iv_error_class := Some err_class, iv_started_at := None, iv_completed_at := None, iv_updated_at := now\<rparr>"

definition checkpoint_context :: "datetime \<Rightarrow> dict \<Rightarrow> investigation \<Rightarrow> investigation" where
  "checkpoint_context now snapshot v = v\<lparr>iv_context_snapshot := snapshot, iv_updated_at := now\<rparr>"

definition complete_investigation :: "datetime \<Rightarrow> dict \<Rightarrow> dict \<Rightarrow> string list \<Rightarrow> int \<Rightarrow> int \<Rightarrow> investigation \<Rightarrow> investigation" where
  "complete_investigation now snapshot result_dump response_ids input_tokens output_tokens v =
    v\<lparr>iv_status := ''completed'', iv_context_snapshot := snapshot, iv_result := Some result_dump,
      iv_provider_response_ids := response_ids, iv_input_tokens := input_tokens, iv_output_tokens := output_tokens,
      iv_validation_errors := [], iv_error := None, iv_error_class := None, iv_next_retry_at := None,
      iv_completed_at := Some now, iv_updated_at := now\<rparr>"

definition fail_investigation :: "datetime \<Rightarrow> string \<Rightarrow> string list \<Rightarrow> string option \<Rightarrow> string \<Rightarrow> investigation \<Rightarrow> investigation" where
  "fail_investigation now err errors err_class new_status v =
    v\<lparr>iv_status := new_status, iv_error := Some (take 4000 err), iv_error_class := err_class, iv_next_retry_at := None,
      iv_validation_errors := errors, iv_completed_at := Some now, iv_updated_at := now\<rparr>"

definition cancel_investigation :: "datetime \<Rightarrow> investigation \<Rightarrow> investigation" where
  "cancel_investigation now v =
    v\<lparr>iv_status := ''cancelled'', iv_error := Some ''Cancelled by analyst'', iv_error_class := Some ''cancelled'',
      iv_next_retry_at := None, iv_completed_at := Some now, iv_updated_at := now\<rparr>"

definition find_stuck :: "datetime \<Rightarrow> db \<Rightarrow> investigation list" where
  "find_stuck started_before d = filter (\<lambda>v. iv_status v = ''running'' \<and>
     (case iv_started_at v of None \<Rightarrow> False | Some t \<Rightarrow> t < started_before)) (db_investigations d)"

section \<open>The queue\<close>

definition delayed_key :: "string \<Rightarrow> string" where
  "delayed_key queue_key = queue_key @ '':delayed''"

definition dlq_key :: "string \<Rightarrow> string" where
  "dlq_key queue_key = queue_key @ '':dlq''"

definition enqueue_investigation :: "'r redis_api \<Rightarrow> string \<Rightarrow> uuid \<Rightarrow> 'r \<Rightarrow> 'r" where
  "enqueue_investigation R queue_key i s = r_rpush R queue_key (uuid_str i) s"

definition enqueue_delayed :: "'r redis_api \<Rightarrow> string \<Rightarrow> datetime \<Rightarrow> int \<Rightarrow> uuid \<Rightarrow> 'r \<Rightarrow> 'r" where
  "enqueue_delayed R queue_key now delay_seconds i s = r_zadd R (delayed_key queue_key) (uuid_str i) (now + seconds delay_seconds) s"

fun promote_items :: "'r redis_api \<Rightarrow> string \<Rightarrow> string list \<Rightarrow> 'r \<Rightarrow> nat \<times> 'r" where
  "promote_items R queue_key [] s = (0, s)"
| "promote_items R queue_key (x # xs) s =
    (case r_zrem R (delayed_key queue_key) x s of
       (removed, s') \<Rightarrow>
         if removed then (case promote_items R queue_key xs (r_rpush R queue_key x s') of (n, s'') \<Rightarrow> (Suc n, s''))
         else promote_items R queue_key xs s')"

definition promote_delayed :: "'r redis_api \<Rightarrow> string \<Rightarrow> datetime \<Rightarrow> 'r \<Rightarrow> nat \<times> 'r" where
  "promote_delayed R queue_key now s =
    promote_items R queue_key (r_zrangebyscore R (delayed_key queue_key) 0 now s) s"

text \<open>None when nothing arrives in time; a text that is no UUID raises.\<close>

definition dequeue_investigation :: "'r redis_api \<Rightarrow> string \<Rightarrow> 'r \<Rightarrow> (exn + uuid option) \<times> 'r" where
  "dequeue_investigation R queue_key s =
    (case r_lpop R queue_key s of
       (None, s') \<Rightarrow> (Inr None, s')
     | (Some raw_id, s') \<Rightarrow> (case uuid_parse raw_id of None \<Rightarrow> Inl (ValueError ''badly formed hexadecimal UUID string'')
         | Some i \<Rightarrow> Inr (Some i), s'))"

definition dlq_entry :: "(rat \<Rightarrow> string) \<Rightarrow> uuid \<Rightarrow> string \<Rightarrow> string \<Rightarrow> datetime \<Rightarrow> string" where
  "dlq_entry ff i reason err_class now =
    ''{'' @ join '', '' (map (\<lambda>(k, v). json_string k @ '': '' @ json_dumps ff v)
      [(''id'', JStr (uuid_str i)), (''reason'', JStr (take 2000 reason)), (''error_class'', JStr err_class),
       (''ts'', JStr (isoformat now))]) @ ''}''"

definition send_to_dlq :: "'r redis_api \<Rightarrow> (rat \<Rightarrow> string) \<Rightarrow> string \<Rightarrow> uuid \<Rightarrow> string \<Rightarrow> string \<Rightarrow> datetime \<Rightarrow> 'r \<Rightarrow> 'r" where
  "send_to_dlq R ff queue_key i reason err_class now s = r_rpush R (dlq_key queue_key) (dlq_entry ff i reason err_class now) s"

text \<open>\<open>parse\<close> is \<^verbatim>\<open>json.loads\<close>, None where it raises. (LRANGE 0 -1 is the whole list.)\<close>

definition list_dlq :: "'r redis_api \<Rightarrow> (string \<Rightarrow> json option) \<Rightarrow> string \<Rightarrow> nat \<Rightarrow> 'r \<Rightarrow> json list" where
  "list_dlq R parse queue_key limit s =
    map (\<lambda>raw. case parse raw of Some v \<Rightarrow> v | None \<Rightarrow> JObj [(''raw'', JStr raw)]) 
      (if limit = 0 then r_lrange R (dlq_key queue_key) s else take limit (r_lrange R (dlq_key queue_key) s))"

definition dlq_names :: "(string \<Rightarrow> json option) \<Rightarrow> uuid \<Rightarrow> string \<Rightarrow> bool" where
  "dlq_names parse i raw = (case parse raw of Some (JObj d) \<Rightarrow> dict_get d ''id'' = JStr (uuid_str i) | _ \<Rightarrow> False)"

definition replay_from_dlq :: "'r redis_api \<Rightarrow> (string \<Rightarrow> json option) \<Rightarrow> string \<Rightarrow> uuid \<Rightarrow> 'r \<Rightarrow> bool \<times> 'r" where
  "replay_from_dlq R parse queue_key i s =
    (case find (dlq_names parse i) (r_lrange R (dlq_key queue_key) s) of
       None \<Rightarrow> (False, s)
     | Some raw \<Rightarrow> (True, enqueue_investigation R queue_key i (r_lrem1 R (dlq_key queue_key) raw s)))"

definition cancel_key :: "uuid \<Rightarrow> string" where
  "cancel_key i = ''ai_soc:inv_cancel:'' @ uuid_str i"

definition request_cancel :: "'r redis_api \<Rightarrow> datetime \<Rightarrow> uuid \<Rightarrow> 'r \<Rightarrow> 'r" where
  "request_cancel R now i s = r_set R now (cancel_key i) ''1'' (Some 3600) s"

definition is_cancelled :: "'r redis_api \<Rightarrow> datetime \<Rightarrow> uuid \<Rightarrow> 'r \<Rightarrow> bool" where
  "is_cancelled R now i s = (r_get R now (cancel_key i) s \<noteq> None)"

definition clear_cancel :: "'r redis_api \<Rightarrow> datetime \<Rightarrow> uuid \<Rightarrow> 'r \<Rightarrow> 'r" where
  "clear_cancel R now i s = r_delete R now (cancel_key i) s"

section \<open>Delayed investigations\<close>

context redis_queues
begin

lemma promote_items_all:
  assumes "distinct xs" and "set xs \<subseteq> set (r_zrangebyscore R (delayed_key q) lo hi s)"
  shows "fst (promote_items R q xs s) = length xs \<and> r_lrange R q (snd (promote_items R q xs s)) = r_lrange R q s @ xs \<and>
    set (r_zrangebyscore R (delayed_key q) lo hi (snd (promote_items R q xs s))) =
      set (r_zrangebyscore R (delayed_key q) lo hi s) - set xs"
  using assms
proof (induction xs arbitrary: s)
  case (Cons x xs)
  obtain removed s1 where rem: "r_zrem R (delayed_key q) x s = (removed, s1)" by fastforce
  have removed: "removed" using zrem_found [of x "delayed_key q" lo hi s] Cons.prems(2) rem by simp
  let ?s = "r_rpush R q x s1"
  have s1: "set (r_zrangebyscore R (delayed_key q) lo hi ?s) = set (r_zrangebyscore R (delayed_key q) lo hi s) - {x}"
    "r_lrange R q ?s = r_lrange R q s @ [x]"
    using zrange_zrem [of "delayed_key q" lo hi x s] lrange_zrem [of q "delayed_key q" x s] rem
    by (simp_all add: zrange_rpush lrange_rpush)
  have "set xs \<subseteq> set (r_zrangebyscore R (delayed_key q) lo hi ?s)" using Cons.prems s1(1) by auto
  note rest = Cons.IH [OF _ this]
  obtain n s2 where "promote_items R q xs ?s = (n, s2)" by fastforce
  then have promote: "promote_items R q (x # xs) s = (Suc n, s2)" and tail: "promote_items R q xs ?s = (n, s2)"
    using rem removed by simp_all
  show ?case
    using rest Cons.prems(1) unfolding promote tail s1 by auto
qed simp

end

text \<open>
  promoting delayed investigations moves every one that is due to the end of the queue, once and in the order of
  the sorted set, and leaves none that is due behind.
\<close>

theorem promote_delayed_moves_all:
  assumes "redis_queues R" and "promote_delayed R q now s = (n, s')"
  shows "n = length (r_zrangebyscore R (delayed_key q) 0 now s) \<and>
    r_lrange R q s' = r_lrange R q s @ r_zrangebyscore R (delayed_key q) 0 now s \<and>
    r_zrangebyscore R (delayed_key q) 0 now s' = []"
  using redis_queues.promote_items_all [OF assms(1) redis_queues.zrange_distinct [OF assms(1)] order.refl, of q 0 now s] assms(2)
  by (simp add: promote_delayed_def)

theorem promote_delayed_moves_all_witness:
  "r_lrange mem_redis ''q'' (snd (promote_delayed mem_redis ''q'' 5 (enqueue_delayed mem_redis ''q'' 0 0 7 mem_empty))) = [uuid_str 7]"
  using promote_delayed_moves_all [OF mem.redis_queues_axioms, of "''q''" 5 "enqueue_delayed mem_redis ''q'' 0 0 7 mem_empty"]
  by (cases "promote_delayed mem_redis ''q'' 5 (enqueue_delayed mem_redis ''q'' 0 0 7 mem_empty)")
    (simp add: enqueue_delayed_def mem_redis_def mem_empty_def seconds_def delayed_key_def)

end
