(* ===== verification/Investigation.thy ===== *)
theory Investigation
  imports Workflow
begin

text \<open>
  Requesting and processing investigations: \<^verbatim>\<open>services/investigation_service.py\<close>,
  \<^verbatim>\<open>investigation/automation.py\<close>, \<^verbatim>\<open>api/v1/endpoints/investigations.py\<close> and the worker of
  \<^verbatim>\<open>workers/investigation.py\<close>. An operation returns its outcome, the world and, where it publishes,
  the realtime messages.
\<close>

section \<open>Requests\<close>

definition context_hash_text :: "incident \<Rightarrow> db \<Rightarrow> string" where
  "context_hash_text i d =
    join '':'' [''remediation-v2'', uuid_str (in_id i), isoformat (in_updated_at i), str_of_int (in_risk_score i),
      isoformat (in_last_seen i),
      join '','' (map uuid_str (sort (map ie_id (filter (\<lambda>x. ie_incident_id x = in_id i) (db_incident_evidence d)))))]"

definition context_hash :: "crypto \<Rightarrow> incident \<Rightarrow> db \<Rightarrow> string" where
  "context_hash cr i d = cr_sha256 cr (context_hash_text i d)"

definition provider_available :: "settings \<Rightarrow> exn + unit" where
  "provider_available st =
    (let name = py_lower (llm_provider st)
     in if \<not> llm_enabled st \<or> name = ''disabled'' then Inl (InvestigationDisabledError ''AI investigation is disabled'')
        else if name \<notin> {''openai'', ''google'', ''google_ai_studio'', ''gemini'', ''mock''}
        then Inl (InvestigationDisabledError (''Unsupported LLM provider: '' @ llm_provider st))
        else if name \<noteq> ''mock'' \<and> \<not> truthy_str (llm_api_key st)
        then Inl (InvestigationDisabledError ''LLM_API_KEY is required for AI investigations'')
        else Inr ())"

definition new_investigation :: "settings \<Rightarrow> env \<Rightarrow> uuid \<Rightarrow> string \<Rightarrow> investigation" where
  "new_investigation st en incident_id hash =
    \<lparr>iv_id = en_uuid en 0, iv_incident_id = incident_id, iv_status = ''queued'', iv_provider = llm_provider st,
     iv_model = llm_model st, iv_prompt_version = llm_prompt_version st, iv_context_hash = hash, iv_context_snapshot = [],
     iv_result = None, iv_validation_errors = [], iv_provider_response_ids = [], iv_error = None, iv_error_class = None,
     iv_input_tokens = 0, iv_output_tokens = 0, iv_attempt_count = 0, iv_next_retry_at = None, iv_queued_at = en_now en 0,
     iv_started_at = None, iv_completed_at = None, iv_created_at = en_now en 1, iv_updated_at = en_now en 2\<rparr>"

text \<open>The row of the request, whether it has to be enqueued, and the table: committed before it is enqueued.\<close>

definition investigation_for :: "settings \<Rightarrow> env \<Rightarrow> uuid \<Rightarrow> string \<Rightarrow> db \<Rightarrow> investigation \<times> bool \<times> db" where
  "investigation_for st en incident_id hash d =
    (case find_for_context incident_id hash (llm_prompt_version st) d of
       None \<Rightarrow> (let v = new_investigation st en incident_id hash in (v, True, add_investigation v d))
     | Some v \<Rightarrow>
       if iv_status v = ''failed''
       then (let v' = requeue_investigation (en_now en 0) False (v\<lparr>iv_provider := llm_provider st, iv_model := llm_model st\<rparr>)
             in (v', True, save_investigation v' d))
       else (v, False, d))"

text \<open>\<open>queue_error\<close> is the text of the exception when Redis cannot be reached.\<close>

definition request_investigation :: "'r redis_api \<Rightarrow> crypto \<Rightarrow> settings \<Rightarrow> env \<Rightarrow> string option \<Rightarrow> uuid \<Rightarrow> 'r world \<Rightarrow>
    (exn + investigation option) \<times> 'r world" where
  "request_investigation R cr st en queue_error incident_id w =
    (case provider_available st of Inl x \<Rightarrow> (Inl x, w)
     | Inr _ \<Rightarrow>
       (case get_incident incident_id (wd_db w) of None \<Rightarrow> (Inr None, w)
        | Some i \<Rightarrow>
          (case investigation_for st en incident_id (context_hash cr i (wd_db w)) (wd_db w) of
             (v, should_enqueue, d) \<Rightarrow>
               if \<not> should_enqueue then (Inr (Some v), w\<lparr>wd_db := d\<rparr>)
               else (case queue_error of
                 None \<Rightarrow> (Inr (Some v), w\<lparr>wd_db := d, wd_redis := enqueue_investigation R (investigation_queue_key st) (iv_id v) (wd_redis w)\<rparr>)
               | Some err \<Rightarrow> (Inl InvestigationQueueError, w\<lparr>wd_db := save_investigation (fail_investigation (en_now en 3)
                   (''Unable to enqueue investigation: '' @ err) [] None ''failed'' v) d\<rparr>)))))"

definition list_investigations :: "uuid \<Rightarrow> db \<Rightarrow> investigation list option" where
  "list_investigations incident_id d =
    (if get_incident incident_id d = None then None else Some (investigations_of_incident incident_id d))"

section \<open>Automatic requests\<close>

definition severity_rank :: "string \<Rightarrow> int option" where
  "severity_rank s = map_of [(''low'', 1), (''medium'', 2), (''high'', 3), (''critical'', 4)] s"

definition should_trigger :: "settings \<Rightarrow> incident \<Rightarrow> bool" where
  "should_trigger st i =
    (if \<not> automatic_investigations_enabled st then False
     else if in_status i \<notin> {''open'', ''investigating''} then False
     else (let minimum = (case severity_rank (py_lower (automatic_investigation_min_severity st)) of None \<Rightarrow> 4 | Some n \<Rightarrow> n)
           in minimum \<le> (case severity_rank (py_lower (in_severity i)) of None \<Rightarrow> 0 | Some n \<Rightarrow> n)))"

definition cooldown_key :: "settings \<Rightarrow> uuid \<Rightarrow> string" where
  "cooldown_key st incident_id = investigation_queue_key st @ '':automatic:'' @ uuid_str incident_id"

definition dispatch_incident :: "'r redis_api \<Rightarrow> crypto \<Rightarrow> settings \<Rightarrow> env \<Rightarrow> string option \<Rightarrow> incident \<Rightarrow> 'r world \<Rightarrow> 'r world" where
  "dispatch_incident R cr st en queue_error i w =
    (if \<not> should_trigger st i then w
     else (case r_set_nx R (en_now en 4) (cooldown_key st (in_id i)) ''1'' (automatic_investigation_cooldown_seconds st) (wd_redis w) of
       (claimed_it, s) \<Rightarrow>
         if \<not> claimed_it then w\<lparr>wd_redis := s\<rparr>
         else (case request_investigation R cr st en queue_error (in_id i) (w\<lparr>wd_redis := s\<rparr>) of
           (Inl _, w') \<Rightarrow> w'\<lparr>wd_redis := r_delete R (en_now en 5) (cooldown_key st (in_id i)) (wd_redis w')\<rparr>
         | (Inr _, w') \<Rightarrow> w')))"

fun dispatch_incidents :: "'r redis_api \<Rightarrow> crypto \<Rightarrow> settings \<Rightarrow> (nat \<Rightarrow> env) \<Rightarrow> (nat \<Rightarrow> string option) \<Rightarrow> nat \<Rightarrow> incident list \<Rightarrow>
    'r world \<Rightarrow> 'r world" where
  "dispatch_incidents R cr st ens errs n [] w = w"
| "dispatch_incidents R cr st ens errs n (i # is) w =
    dispatch_incidents R cr st ens errs (Suc n) is (dispatch_incident R cr st (ens n) (errs n) i w)"

section \<open>The endpoint\<close>

text \<open>Pydantic prints a UTC time with a Z.\<close>

definition utc_text :: "datetime \<Rightarrow> json" where
  "utc_text t = JStr (let s = isoformat t in take (length s - 6) s @ ''Z'')"

definition opt_json :: "('a \<Rightarrow> json) \<Rightarrow> 'a option \<Rightarrow> json" where
  "opt_json f v = (case v of None \<Rightarrow> JNull | Some x \<Rightarrow> f x)"

definition dump_investigation :: "investigation \<Rightarrow> dict" where
  "dump_investigation v =
    [(''id'', JStr (uuid_str (iv_id v))), (''incident_id'', JStr (uuid_str (iv_incident_id v))), (''status'', JStr (iv_status v)),
     (''provider'', JStr (iv_provider v)), (''model'', JStr (iv_model v)), (''prompt_version'', JStr (iv_prompt_version v)),
     (''context_hash'', JStr (iv_context_hash v)), (''context_snapshot'', JObj (iv_context_snapshot v)),
     (''result'', opt_json JObj (iv_result v)), (''validation_errors'', texts (iv_validation_errors v)),
     (''provider_response_ids'', texts (iv_provider_response_ids v)), (''error'', opt_json JStr (iv_error v)),
     (''error_class'', opt_json JStr (iv_error_class v)), (''input_tokens'', JInt (iv_input_tokens v)),
     (''output_tokens'', JInt (iv_output_tokens v)), (''attempt_count'', JInt (iv_attempt_count v)),
     (''next_retry_at'', opt_json utc_text (iv_next_retry_at v)), (''queued_at'', utc_text (iv_queued_at v)),
     (''started_at'', opt_json utc_text (iv_started_at v)), (''completed_at'', opt_json utc_text (iv_completed_at v)),
     (''created_at'', utc_text (iv_created_at v)), (''updated_at'', utc_text (iv_updated_at v))]"

definition post_investigation :: "'r redis_api \<Rightarrow> crypto \<Rightarrow> settings \<Rightarrow> env \<Rightarrow> request \<Rightarrow> user \<Rightarrow> string option \<Rightarrow> uuid \<Rightarrow> 'r world \<Rightarrow>
    (exn + investigation) \<times> 'r world \<times> (string \<times> realtime_envelope) list" where
  "post_investigation R cr st en req actor queue_error incident_id w =
    (case request_investigation R cr st en queue_error incident_id w of
       (Inl x, w') \<Rightarrow> (Inl (case x of InvestigationDisabledError _ \<Rightarrow> HTTPException 503 (exn_text x)
           | InvestigationQueueError \<Rightarrow> HTTPException 503 (exn_text x) | _ \<Rightarrow> x), w', [])
     | (Inr None, w') \<Rightarrow> (Inl (HTTPException 404 ''Incident not found''), w', [])
     | (Inr (Some v), w') \<Rightarrow>
         (Inr v,
          w'\<lparr>wd_db := audit_record req (en_uuid en 1) (en_now en 6) ''investigation.request'' ''success'' ''user'' (Some (us_id actor))
            (Some (us_email actor)) (Some ''investigation'') (Some (uuid_str (iv_id v)))
            [(''incident_id'', JStr (uuid_str incident_id))] (wd_db w')\<rparr>,
          [publish (realtime_redis_channel_prefix st) (en_uuid en 2) (en_now en 7) ''investigation.queued'' (uuid_str (iv_id v))
            (dump_investigation v) 1]))"

section \<open>The worker\<close>

definition publish_status :: "settings \<Rightarrow> env \<Rightarrow> nat \<Rightarrow> string \<Rightarrow> investigation \<Rightarrow> string \<times> realtime_envelope" where
  "publish_status st en k kind v =
    publish (realtime_redis_channel_prefix st) (en_uuid en k) (en_now en k) kind (uuid_str (iv_id v))
      [(''incident_id'', JStr (uuid_str (iv_incident_id v))), (''status'', JStr (iv_status v))] (iv_updated_at v)"

text \<open>What the worker is given: the workflow's parameters and the providers by kind.\<close>

record worker_env =
  wk_settings :: settings
  wk_workflow :: workflow_env
  wk_providers :: "provider_kind \<Rightarrow> llm_provider"

definition active_provider :: "worker_env \<Rightarrow> exn + llm_provider" where
  "active_provider W = map_sum id (wk_providers W) (build_llm_provider (wk_settings W))"

definition worker_workflow :: "worker_env \<Rightarrow> llm_provider \<Rightarrow> workflow_env" where
  "worker_workflow W P = (wk_workflow W)\<lparr>we_provider := P, we_max_chars := llm_context_max_chars (wk_settings W)\<rparr>"

text \<open>The body of the \<^verbatim>\<open>try\<close>. The worker gives the workflow no queue.\<close>

definition attempt :: "worker_env \<Rightarrow> 'r redis_api \<Rightarrow> run_env \<Rightarrow> investigation \<Rightarrow> 'r world \<Rightarrow> (exn + workflow_outcome) \<times> 'r world" where
  "attempt W R rn v w =
    (case active_provider W of Inl x \<Rightarrow> (Inl x, w)
     | Inr P \<Rightarrow> run_workflow (worker_workflow W P) R None rn (iv_id v) (iv_incident_id v) w)"

definition validation_errors_of :: "exn \<Rightarrow> string list" where
  "validation_errors_of x = (case x of InvestigationValidationError errors \<Rightarrow> errors | _ \<Rightarrow> [])"

definition process_investigation :: "worker_env \<Rightarrow> 'r redis_api \<Rightarrow> env \<Rightarrow> run_env \<Rightarrow> uuid \<Rightarrow> 'r world \<Rightarrow>
    bool \<times> 'r world \<times> (string \<times> realtime_envelope) list" where
  "process_investigation W R en rn i w =
    (case claim_investigation (en_now en 0) i (wd_db w) of
       (None, _) \<Rightarrow> (False, w, [])
     | (Some v, d) \<Rightarrow>
       (case attempt W R rn v (w\<lparr>wd_db := d\<rparr>) of
          (Inr _, w') \<Rightarrow> (True, w', publish_status (wk_settings W) en 1 ''investigation.running'' v #
            (case get_investigation i (wd_db w') of None \<Rightarrow> []
             | Some v' \<Rightarrow> [publish_status (wk_settings W) en 2 ''investigation.completed'' v']))
        | (Inl x, w') \<Rightarrow>
            (case get_investigation i (wd_db w') of
               None \<Rightarrow> (False, w', [publish_status (wk_settings W) en 1 ''investigation.running'' v])
             | Some v' \<Rightarrow>
               (let v'' = fail_investigation (en_now en 3) (exn_text x) (validation_errors_of x) None ''failed'' v'
                in (False, w'\<lparr>wd_db := save_investigation v'' (wd_db w')\<rparr>,
                    [publish_status (wk_settings W) en 1 ''investigation.running'' v,
                     publish_status (wk_settings W) en 2 ''investigation.failed'' v''])))))"

section \<open>The worker's loop\<close>

fun execute_all :: "settings \<Rightarrow> 'a aws_api \<Rightarrow> (nat \<Rightarrow> env \<times> env) \<Rightarrow> nat \<Rightarrow> uuid list \<Rightarrow> db \<Rightarrow> 'a \<Rightarrow> db \<times> 'a" where
  "execute_all st A ens n [] d a = (d, a)"
| "execute_all st A ens n (i # is) d a =
    (case execute_action st A (fst (ens n)) (snd (ens n)) i d a of (_, d', a') \<Rightarrow> execute_all st A ens (Suc n) is d' a')"

definition approved_ids :: "db \<Rightarrow> uuid list" where
  "approved_ids d = take 100 (map ra_id (filter (\<lambda>x. ra_status x = ''approved'') (db_response_actions d)))"

text \<open>The state of the loop: the world, AWS, and when approved actions were last recovered.\<close>

record ('r, 'a) loop_state =
  ls_world :: "'r world"
  ls_aws :: 'a
  ls_last_recovery :: datetime

record loop_env =
  le_now :: datetime
  le_recovery :: "nat \<Rightarrow> env \<times> env"
  le_response :: "env \<times> env"
  le_process :: env
  le_run :: run_env

definition recover_actions :: "settings \<Rightarrow> 'a aws_api \<Rightarrow> loop_env \<Rightarrow> ('r, 'a) loop_state \<Rightarrow> ('r, 'a) loop_state" where
  "recover_actions st A le s =
    (if le_now le - ls_last_recovery s < seconds 60 then s
     else (case execute_all st A (le_recovery le) 0 (approved_ids (wd_db (ls_world s))) (wd_db (ls_world s)) (ls_aws s) of
       (d, a) \<Rightarrow> s\<lparr>ls_world := (ls_world s)\<lparr>wd_db := d\<rparr>, ls_aws := a, ls_last_recovery := le_now le\<rparr>))"

text \<open>One iteration; an exception ends the worker. A wait that times out is an iteration that does nothing.\<close>

definition worker_iteration :: "worker_env \<Rightarrow> 'r redis_api \<Rightarrow> 'a aws_api \<Rightarrow> loop_env \<Rightarrow> ('r, 'a) loop_state \<Rightarrow>
    (exn + unit) \<times> ('r, 'a) loop_state" where
  "worker_iteration W R A le s0 =
    (let s = recover_actions (wk_settings W) A le s0; w = ls_world s
     in case r_lpop R response_queue_key (wd_redis w) of
          (Some item, redis) \<Rightarrow>
            (case uuid_parse item of
               None \<Rightarrow> (Inl (ValueError ''badly formed hexadecimal UUID string''), s\<lparr>ls_world := w\<lparr>wd_redis := redis\<rparr>\<rparr>)
             | Some i \<Rightarrow>
               (case execute_action (wk_settings W) A (fst (le_response le)) (snd (le_response le)) i (wd_db w) (ls_aws s) of
                  (_, d, a) \<Rightarrow> (Inr (), s\<lparr>ls_world := w\<lparr>wd_db := d, wd_redis := redis\<rparr>, ls_aws := a\<rparr>)))
        | (None, _) \<Rightarrow>
            (case dequeue_investigation R (investigation_queue_key (wk_settings W)) (wd_redis w) of
               (Inl x, redis) \<Rightarrow> (Inl x, s\<lparr>ls_world := w\<lparr>wd_redis := redis\<rparr>\<rparr>)
             | (Inr None, redis) \<Rightarrow> (Inr (), s)
             | (Inr (Some i), redis) \<Rightarrow>
                 (case process_investigation W R (le_process le) (le_run le) i (w\<lparr>wd_redis := redis\<rparr>) of
                    (_, w', _) \<Rightarrow> (Inr (), s\<lparr>ls_world := w'\<rparr>))))"

fun run_iterations :: "worker_env \<Rightarrow> 'r redis_api \<Rightarrow> 'a aws_api \<Rightarrow> loop_env list \<Rightarrow> ('r, 'a) loop_state \<Rightarrow>
    (exn + unit) \<times> ('r, 'a) loop_state" where
  "run_iterations W R A [] s = (Inr (), s)"
| "run_iterations W R A (le # les) s =
    (case worker_iteration W R A le s of (Inl x, s') \<Rightarrow> (Inl x, s') | (Inr _, s') \<Rightarrow> run_iterations W R A les s')"

section \<open>What happens to the rows\<close>

definition iv_key :: "investigation \<Rightarrow> uuid \<times> uuid \<times> string \<times> string" where
  "iv_key v = (iv_id v, iv_incident_id v, iv_context_hash v, iv_prompt_version v)"

text \<open>At most the row with this id changes, and no row changes what identifies it.\<close>

definition only_row :: "uuid \<Rightarrow> db \<Rightarrow> db \<Rightarrow> bool" where
  "only_row i d d' = (map iv_key (db_investigations d') = map iv_key (db_investigations d) \<and>
     (\<forall>j. j \<noteq> i \<longrightarrow> get_investigation j d' = get_investigation j d))"

lemma only_row_refl [intro, simp]: "only_row i d d"
  by (simp add: only_row_def)

lemma only_row_trans: "only_row i d d' \<Longrightarrow> only_row i d' d'' \<Longrightarrow> only_row i d d''"
  by (simp add: only_row_def)

lemma only_row_ids: "only_row i d d' \<Longrightarrow> map iv_id (db_investigations d') = map iv_id (db_investigations d)"
proof -
  assume "only_row i d d'"
  then have "map fst (map iv_key (db_investigations d')) = map fst (map iv_key (db_investigations d))"
    by (simp only: only_row_def)
  then show ?thesis by (simp add: comp_def iv_key_def)
qed

lemma only_row_same_table: "db_investigations d' = db_investigations d \<Longrightarrow> only_row i d d'"
  by (simp add: only_row_def get_investigation_def)

lemma only_row_save:
  assumes "distinct (map iv_id (db_investigations d))" and "get_investigation i d = Some v" and "iv_key v' = iv_key v"
  shows "only_row i d (save_investigation v' d)" and "get_investigation i (save_investigation v' d) = Some v'"
proof -
  have id: "iv_id v' = i" using investigation_row_id [OF assms(2)] assms(3) by (simp add: iv_key_def)
  have v: "v \<in> set (db_investigations d)" using assms(2) by (auto simp: get_investigation_def dest: table_get_Some)
  have "x = v" if "x \<in> set (db_investigations d)" "iv_id x = i" for x
    using that v investigation_row_id [OF assms(2)] assms(1) by (metis distinct_map inj_on_def)
  then have "map iv_key (table_save iv_id v' (db_investigations d)) = map iv_key (db_investigations d)"
    using assms(3) id by (auto simp: table_save_def)
  then show "only_row i d (save_investigation v' d)"
    using id by (auto simp: only_row_def save_investigation_def get_investigation_def table_get_save)
  show "get_investigation i (save_investigation v' d) = Some v'"
    by (rule save_investigation_get [OF assms(2) id])
qed

lemma row_update_keys [simp]:
  "iv_key (claimed now v) = iv_key v" "iv_key (checkpoint_context now x v) = iv_key v"
  "iv_key (complete_investigation now x y a b c v) = iv_key v" "iv_key (fail_investigation now err errs cls e v) = iv_key v"
  "iv_key (requeue_investigation now reset v) = iv_key v" "iv_key (v\<lparr>iv_provider := p, iv_model := m\<rparr>) = iv_key v"
  by (simp_all add: iv_key_def claimed_def checkpoint_context_def complete_investigation_def fail_investigation_def
      requeue_investigation_def)

lemma claimed_ids [simp]: "iv_id (claimed now v) = iv_id v" "iv_incident_id (claimed now v) = iv_incident_id v"
  by (simp_all add: claimed_def)

lemma row_update_status [simp]:
  "iv_status (claimed now v) = ''running''" "iv_status (checkpoint_context now x v) = iv_status v"
  "iv_status (complete_investigation now x y a b c v) = ''completed''" "iv_status (fail_investigation now err errs cls e v) = e"
  "iv_status (requeue_investigation now reset v) = ''queued''"
  by (simp_all add: claimed_def checkpoint_context_def complete_investigation_def fail_investigation_def
      requeue_investigation_def)

lemma claimed_rows:
  assumes "claim_investigation now i d = (Some v, d')" and "distinct (map iv_id (db_investigations d))"
  shows "only_row i d d' \<and> get_investigation i d' = Some v \<and> iv_status v = ''running'' \<and> iv_id v = i \<and>
    (\<exists>v0. get_investigation i d = Some v0 \<and> iv_status v0 = ''queued'' \<and> iv_incident_id v = iv_incident_id v0)"
proof -
  obtain v0 where v0: "get_investigation i d = Some v0" "iv_status v0 = ''queued''" "v = claimed now v0" "d' = save_investigation v d"
    using assms(1) by (auto simp: claim_investigation_def split: option.splits if_splits)
  then show ?thesis
    using only_row_save [OF assms(2) v0(1), of "claimed now v0"] investigation_row_id [OF v0(1)] by simp
qed

lemma load_incident_rows:
  assumes "load_incident_node E now i j d = Inr (c, d')" and "distinct (map iv_id (db_investigations d))"
  shows "only_row i d d' \<and> (\<exists>v v'. get_investigation i d = Some v \<and> get_investigation i d' = Some v' \<and> iv_status v' = iv_status v)"
proof -
  obtain v where "get_investigation i d = Some v" "d' = save_investigation (checkpoint_context now (dump_context c) v) d"
    using assms(1) by (auto simp: load_incident_node_def split: option.splits)
  then show ?thesis using only_row_save [OF assms(2), of i v "checkpoint_context now (dump_context c) v"] by simp
qed

lemma persistence_rows:
  assumes "persistence_node now i c r u d = Inr d'" and "distinct (map iv_id (db_investigations d))"
  shows "only_row i d d' \<and> (\<exists>v. get_investigation i d' = Some v \<and> iv_status v = ''completed'')"
proof -
  obtain v where "get_investigation i d = Some v" "d' = save_investigation (complete_investigation now (dump_context c)
      (dump_result r) (ug_response_ids u) (ug_input_tokens u) (ug_output_tokens u) v) d"
    using assms(1) by (auto simp: persistence_node_def split: option.splits)
  then show ?thesis using only_row_save [OF assms(2), of i v] by simp
qed

lemma run_workflow_rows:
  assumes "run_workflow E R queue rn i j w = (outcome, w')" and ids: "distinct (map iv_id (db_investigations (wd_db w)))"
    and row: "get_investigation i (wd_db w) = Some v"
  shows "only_row i (wd_db w) (wd_db w') \<and> wd_redis w' = wd_redis w \<and>
    (\<exists>v'. get_investigation i (wd_db w') = Some v' \<and> iv_status v' = (if isl outcome then iv_status v else ''completed''))"
proof (cases rule: run_workflow_cases [of E rn i j w R queue])
  case (early x)
  then show ?thesis using assms by auto
next
  case (refused c d x)
  then show ?thesis using assms load_incident_rows [OF refused(1) ids] by auto
next
  case (completed c d r s u d')
  note load = load_incident_rows [OF completed(1) ids]
  have "distinct (map iv_id (db_investigations d))" using ids only_row_ids [OF conjunct1 [OF load]] by simp
  from persistence_rows [OF completed(3) this] show ?thesis
    using assms(1) completed(4) load by (auto intro: only_row_trans)
qed

definition finished :: "investigation \<Rightarrow> bool" where
  "finished v = (iv_status v = ''completed'' \<or> iv_status v = ''failed'')"

text \<open>A queued row leaves the queue completed or failed; any other row, and all others, stay as they are.\<close>

lemma process_rows:
  assumes "process_investigation W R en rn i w = (ok, w', msgs)" and ids: "distinct (map iv_id (db_investigations (wd_db w)))"
  shows "only_row i (wd_db w) (wd_db w') \<and> wd_redis w' = wd_redis w \<and>
    (\<forall>v. get_investigation i (wd_db w) = Some v \<longrightarrow>
      (\<exists>v'. get_investigation i (wd_db w') = Some v' \<and> (if iv_status v = ''queued'' then finished v' else v' = v)))"
proof (cases "claim_investigation (en_now en 0) i (wd_db w)")
  case (Pair c d)
  show ?thesis
  proof (cases c)
    case None
    then have "iv_status v \<noteq> ''queued''" if "get_investigation i (wd_db w) = Some v" for v
      using that Pair by (auto simp: claim_investigation_def split: if_splits)
    then show ?thesis using assms(1) Pair None by (simp add: process_investigation_def)
  next
    case (Some v)
    note claim = claimed_rows [OF Pair [unfolded Some] ids]
    then have ids': "distinct (map iv_id (db_investigations d))" using ids only_row_ids [of i "wd_db w" d] by simp
    obtain outcome w1 where attempt: "attempt W R rn v (w\<lparr>wd_db := d\<rparr>) = (outcome, w1)" by fastforce
    have rows: "only_row i d (wd_db w1) \<and> wd_redis w1 = wd_redis w \<and>
        (\<exists>v'. get_investigation i (wd_db w1) = Some v' \<and> iv_status v' = (if isl outcome then ''running'' else ''completed''))"
    proof (cases "active_provider W")
      case (Inl x)
      then show ?thesis using attempt claim by (auto simp: attempt_def)
    next
      case (Inr P)
      then have "run_workflow (worker_workflow W P) R None rn i (iv_incident_id v) (w\<lparr>wd_db := d\<rparr>) = (outcome, w1)"
        using attempt claim by (simp add: attempt_def)
      from run_workflow_rows [OF this, of v] show ?thesis using ids' claim by auto
    qed
    then obtain v' where v': "get_investigation i (wd_db w1) = Some v'" by blast
    have ids1: "distinct (map iv_id (db_investigations (wd_db w1)))" using rows ids' only_row_ids [of i d "wd_db w1"] by simp
    show ?thesis
    proof (cases outcome)
      case (Inl x)
      let ?v = "fail_investigation (en_now en 3) (exn_text x) (validation_errors_of x) None ''failed'' v'"
      have "w' = w1\<lparr>wd_db := save_investigation ?v (wd_db w1)\<rparr>"
        using assms(1) Pair Some attempt Inl v' by (simp add: process_investigation_def Let_def)
      then show ?thesis
        using only_row_save [OF ids1 v', of ?v] rows claim by (auto simp: finished_def intro: only_row_trans)
    next
      case (Inr out)
      have "w' = w1" using assms(1) Pair Some attempt Inr by (simp add: process_investigation_def)
      then show ?thesis using rows claim Inr by (auto simp: finished_def intro: only_row_trans)
    qed
  qed
qed

lemma execute_action_investigations:
  "db_investigations (fst (snd (execute_action st A en en' i d a))) = db_investigations d"
proof -
  have claim: "db_investigations (snd (claim_action st en i d)) = db_investigations d"
    by (simp add: claim_action_def save_response_action_def Let_def split: option.split)
  have run: "case fst (run_action st A en' x d' a) of Inl _ \<Rightarrow> True | Inr (_, d1) \<Rightarrow> db_investigations d1 = db_investigations d'" for x d'
    by (auto simp: run_action_def revoke_user_def split: option.split sum.split prod.split)
  have finish: "db_investigations (fst (snd (finish_action st A en' x d' a))) = db_investigations d'" for x d'
    using run [where x = x and d' = d'] by (cases "run_action st A en' x d' a"; cases "fst (run_action st A en' x d' a)")
      (auto simp: finish_action_def worker_audit_def save_response_action_def Let_def)
  show ?thesis
    using claim finish by (auto simp: execute_action_def split: prod.split option.split) (metis fst_conv snd_conv)+
qed

lemma execute_all_investigations: "db_investigations (fst (execute_all st A ens n is d a)) = db_investigations d"
proof (induction "is" arbitrary: n d a)
  case (Cons i "is")
  then show ?case
    using execute_action_investigations [of st A "fst (ens n)" "snd (ens n)" i d a]
    by (simp split: prod.split) (metis fst_conv snd_conv)
qed simp

section \<open>No queued investigation is lost\<close>

definition queued :: "db \<Rightarrow> uuid \<Rightarrow> bool" where
  "queued d i = (case get_investigation i d of None \<Rightarrow> False | Some v \<Rightarrow> iv_status v = ''queued'')"

definition uuid_texts :: "string list \<Rightarrow> bool" where
  "uuid_texts xs = list_all (\<lambda>x. uuid_parse x \<noteq> None) xs"

text \<open>
  Ids identify rows, as does the incident with the context hash and the prompt version; every queued row is in the
  queue; and the queues hold UUIDs.
\<close>

definition queue_ok :: "'r redis_api \<Rightarrow> settings \<Rightarrow> 'r world \<Rightarrow> bool" where
  "queue_ok R st w =
    (distinct (map iv_id (db_investigations (wd_db w))) \<and> distinct (map (snd \<circ> iv_key) (db_investigations (wd_db w))) \<and>
     (\<forall>i. queued (wd_db w) i \<longrightarrow> uuid_str i \<in> set (r_lrange R (investigation_queue_key st) (wd_redis w))) \<and>
     uuid_texts (r_lrange R (investigation_queue_key st) (wd_redis w)) \<and>
     uuid_texts (r_lrange R response_queue_key (wd_redis w)))"

lemma only_row_queued: "only_row i d d' \<Longrightarrow> j \<noteq> i \<Longrightarrow> queued d' j = queued d j"
  by (simp add: only_row_def queued_def)

lemma queue_ok_only_row:
  assumes "queue_ok R st w" and "only_row i (wd_db w) (wd_db w')"
    and "queued (wd_db w') i \<longrightarrow> uuid_str i \<in> set (r_lrange R (investigation_queue_key st) (wd_redis w'))"
    and "\<And>j. j \<noteq> i \<Longrightarrow> uuid_str j \<in> set (r_lrange R (investigation_queue_key st) (wd_redis w)) \<Longrightarrow>
      uuid_str j \<in> set (r_lrange R (investigation_queue_key st) (wd_redis w'))"
    and "uuid_texts (r_lrange R (investigation_queue_key st) (wd_redis w'))"
    and "uuid_texts (r_lrange R response_queue_key (wd_redis w'))"
  shows "queue_ok R st w'"
proof -
  have "map (snd \<circ> iv_key) (db_investigations (wd_db w')) = map (snd \<circ> iv_key) (db_investigations (wd_db w))"
    using arg_cong [OF conjunct1 [OF assms(2) [unfolded only_row_def]], of "map snd"] by simp
  moreover have "uuid_str j \<in> set (r_lrange R (investigation_queue_key st) (wd_redis w'))" if "queued (wd_db w') j" for j
    using that assms(1,3,4) only_row_queued [OF assms(2), of j] by (cases "j = i") (auto simp: queue_ok_def)
  ultimately show ?thesis
    using assms(1,5,6) only_row_ids [OF assms(2)] by (simp add: queue_ok_def)
qed

lemma find_SomeD: "find P xs = Some x \<Longrightarrow> x \<in> set xs \<and> P x"
  by (induction xs) (auto split: if_splits)

lemma find_for_context_facts:
  "find_for_context i h p d = None \<Longrightarrow> (i, h, p) \<notin> (snd \<circ> iv_key) ` set (db_investigations d)"
  "find_for_context i h p d = Some v \<Longrightarrow> v \<in> set (db_investigations d) \<and> snd (iv_key v) = (i, h, p)"
proof -
  show "find_for_context i h p d = None \<Longrightarrow> (i, h, p) \<notin> (snd \<circ> iv_key) ` set (db_investigations d)"
    by (auto simp: find_for_context_def find_None_iff iv_key_def)
  show "find_for_context i h p d = Some v \<Longrightarrow> v \<in> set (db_investigations d) \<and> snd (iv_key v) = (i, h, p)"
    unfolding find_for_context_def by (drule find_SomeD) (simp add: iv_key_def)
qed

lemma queue_ok_add:
  assumes "queue_ok R st w" and "iv_id v \<notin> iv_id ` set (db_investigations (wd_db w))"
    and "snd (iv_key v) \<notin> (snd \<circ> iv_key) ` set (db_investigations (wd_db w))" and "wd_db w' = add_investigation v (wd_db w)"
    and "iv_status v = ''queued'' \<longrightarrow> uuid_str (iv_id v) \<in> set (r_lrange R (investigation_queue_key st) (wd_redis w'))"
    and "set (r_lrange R (investigation_queue_key st) (wd_redis w)) \<subseteq> set (r_lrange R (investigation_queue_key st) (wd_redis w'))"
    and "uuid_texts (r_lrange R (investigation_queue_key st) (wd_redis w'))"
    and "uuid_texts (r_lrange R response_queue_key (wd_redis w'))"
  shows "queue_ok R st w'"
proof -
  have "get_investigation (iv_id v) (wd_db w) = None"
    using assms(2) by (simp add: get_investigation_def table_get_None)
  then have "queued (wd_db w') j = (if j = iv_id v then iv_status v = ''queued'' else queued (wd_db w) j)" for j
    by (auto simp: assms(4) queued_def get_investigation_def add_investigation_def table_get_append split: option.split)
  then show ?thesis
    using assms(1-3,5-8) by (auto simp: queue_ok_def assms(4) add_investigation_def)
qed

lemma table_save_absent: "key r \<notin> key ` set rows \<Longrightarrow> table_save key r rows = rows"
  by (induction rows) (auto simp: table_save_def)

lemma save_added:
  "iv_id v' = iv_id v \<Longrightarrow> iv_id v \<notin> iv_id ` set (db_investigations d) \<Longrightarrow>
    save_investigation v' (add_investigation v d) = add_investigation v' d"
  using table_save_absent [of iv_id v' "db_investigations d"]
  by (simp add: save_investigation_def add_investigation_def) (simp add: table_save_def)

lemma only_row_None:
  assumes "only_row i d d'"
  shows "get_investigation j d' = None \<longleftrightarrow> get_investigation j d = None"
proof -
  have "set (map iv_id (db_investigations d')) = set (map iv_id (db_investigations d))" using only_row_ids [OF assms] by simp
  then show ?thesis by (simp add: get_investigation_def table_get_None)
qed

lemma length_uuid_str: "length (uuid_str i) = 36"
  by (simp add: uuid_str_def uuid_hex_def Let_def)

lemma uuid_text_other: "uuid_parse y = Some i \<Longrightarrow> y = uuid_str j \<Longrightarrow> j = i"
  by simp

locale investigation_system = redis_queues R for R :: "'r redis_api" +
  fixes st :: settings
  assumes key_distinct: "investigation_queue_key st \<noteq> response_queue_key"
begin

lemma enqueued:
  "r_lrange R (investigation_queue_key st) (enqueue_investigation R (investigation_queue_key st) i s) =
     r_lrange R (investigation_queue_key st) s @ [uuid_str i]"
  "r_lrange R response_queue_key (enqueue_investigation R (investigation_queue_key st) i s) = r_lrange R response_queue_key s"
  using key_distinct by (simp_all add: enqueue_investigation_def lrange_rpush)

lemma uuid_texts_enqueued: "queue_ok R st w \<Longrightarrow>
    uuid_texts (r_lrange R (investigation_queue_key st) (enqueue_investigation R (investigation_queue_key st) i (wd_redis w))) \<and>
    uuid_texts (r_lrange R response_queue_key (enqueue_investigation R (investigation_queue_key st) i (wd_redis w)))"
  by (simp add: enqueued queue_ok_def uuid_texts_def)

lemma request_ok:
  assumes ok: "queue_ok R st w" and fresh: "en_uuid en 0 \<notin> iv_id ` set (db_investigations (wd_db w))"
  shows "queue_ok R st (snd (request_investigation R cr st en err i w))"
proof (cases "provider_available st")
  case (Inr u)
  show ?thesis
  proof (cases "get_incident i (wd_db w)")
    case (Some inc)
    let ?h = "context_hash cr inc (wd_db w)" and ?p = "llm_prompt_version st"
    have req: "snd (request_investigation R cr st en err i w) =
        (case investigation_for st en i ?h (wd_db w) of (v, should_enqueue, d) \<Rightarrow>
          if \<not> should_enqueue then w\<lparr>wd_db := d\<rparr>
          else (case err of None \<Rightarrow> w\<lparr>wd_db := d, wd_redis := enqueue_investigation R (investigation_queue_key st) (iv_id v) (wd_redis w)\<rparr>
            | Some e \<Rightarrow> w\<lparr>wd_db := save_investigation (fail_investigation (en_now en 3)
                (''Unable to enqueue investigation: '' @ e) [] None ''failed'' v) d\<rparr>))"
      using Inr Some by (simp add: request_investigation_def split: prod.split option.split)
    have ids: "distinct (map iv_id (db_investigations (wd_db w)))" using ok by (simp add: queue_ok_def)
    show ?thesis
    proof (cases "find_for_context i ?h ?p (wd_db w)")
      case None
      let ?v = "new_investigation st en i ?h"
      have row: "iv_id ?v = en_uuid en 0" "snd (iv_key ?v) = (i, ?h, ?p)" "iv_status ?v = ''queued''"
        by (simp_all add: new_investigation_def iv_key_def)
      have add: "queue_ok R st (w\<lparr>wd_db := add_investigation ?v (wd_db w),
          wd_redis := enqueue_investigation R (investigation_queue_key st) (en_uuid en 0) (wd_redis w)\<rparr>)"
        by (rule queue_ok_add [OF ok, of ?v])
          (use fresh find_for_context_facts(1) [OF None] uuid_texts_enqueued [OF ok] in \<open>simp_all add: row enqueued subset_insertI\<close>)
      show ?thesis
      proof (cases err)
        case None
        then show ?thesis using add \<open>find_for_context i ?h ?p (wd_db w) = None\<close>
          unfolding req by (simp add: investigation_for_def Let_def row)
      next
        case (Some e)
        let ?f = "fail_investigation (en_now en 3) (''Unable to enqueue investigation: '' @ e) [] None ''failed'' ?v"
        have "save_investigation ?f (add_investigation ?v (wd_db w)) = add_investigation ?f (wd_db w)"
          by (rule save_added) (use fresh in \<open>simp_all add: row fail_investigation_def\<close>)
        moreover have "queue_ok R st (w\<lparr>wd_db := add_investigation ?f (wd_db w)\<rparr>)"
          by (rule queue_ok_add [OF ok, of ?f])
            (use fresh find_for_context_facts(1) [OF None] ok in \<open>simp_all add: row fail_investigation_def iv_key_def queue_ok_def new_investigation_def\<close>)
        ultimately show ?thesis using None Some unfolding req by (simp add: investigation_for_def Let_def)
      qed
    next
      case v: (Some v)
      have mem: "get_investigation (iv_id v) (wd_db w) = Some v"
        using find_for_context_facts(2) [OF v] table_get_distinct [OF ids] by (simp add: get_investigation_def)
      show ?thesis
      proof (cases "iv_status v = ''failed''")
        case False
        then show ?thesis using v ok unfolding req by (simp add: investigation_for_def)
      next
        case True
        let ?v = "requeue_investigation (en_now en 0) False (v\<lparr>iv_provider := llm_provider st, iv_model := llm_model st\<rparr>)"
        have key: "iv_key ?v = iv_key v" by simp
        have id: "iv_id ?v = iv_id v" by (simp add: requeue_investigation_def)
        note save = only_row_save [OF ids mem key]
        show ?thesis
        proof (cases err)
          case None
          have "queue_ok R st (w\<lparr>wd_db := save_investigation ?v (wd_db w),
              wd_redis := enqueue_investigation R (investigation_queue_key st) (iv_id v) (wd_redis w)\<rparr>)"
            by (rule queue_ok_only_row [OF ok, of "iv_id v"]) (use save uuid_texts_enqueued [OF ok] in \<open>simp_all add: enqueued\<close>)
          then show ?thesis using v True None unfolding req by (simp add: investigation_for_def Let_def id)
        next
          case (Some e)
          let ?f = "fail_investigation (en_now en 3) (''Unable to enqueue investigation: '' @ e) [] None ''failed'' ?v"
          let ?d = "save_investigation ?v (wd_db w)"
          have ids': "distinct (map iv_id (db_investigations ?d))" using ids only_row_ids [OF save(1)] by simp
          note failed = only_row_save [OF ids' save(2), of ?f]
          have "queue_ok R st (w\<lparr>wd_db := save_investigation ?f ?d\<rparr>)"
            by (rule queue_ok_only_row [OF ok, of "iv_id v"])
              (use failed save(1) ok in \<open>auto simp: queued_def queue_ok_def intro: only_row_trans\<close>)
          then show ?thesis using v True Some unfolding req by (simp add: investigation_for_def Let_def)
        qed
      qed
    qed
  qed (use ok Inr in \<open>simp add: request_investigation_def\<close>)
qed (use ok in \<open>simp add: request_investigation_def\<close>)

lemma cooldown_key_other:
  "investigation_queue_key st \<noteq> cooldown_key st i" "response_queue_key \<noteq> cooldown_key st i"
proof -
  show "response_queue_key \<noteq> cooldown_key st i"
    using length_uuid_str [of i] by (auto simp: cooldown_key_def response_queue_key_def dest!: arg_cong [of _ _ length])
qed (simp add: cooldown_key_def)

lemma queue_ok_cong:
  assumes "queue_ok R st w" and "wd_db w' = wd_db w"
    and "\<And>q. q \<in> {investigation_queue_key st, response_queue_key} \<Longrightarrow> r_lrange R q (wd_redis w') = r_lrange R q (wd_redis w)"
  shows "queue_ok R st w'"
  using assms by (simp add: queue_ok_def)

lemma dispatch_ok:
  assumes ok: "queue_ok R st w" and fresh: "en_uuid en 0 \<notin> iv_id ` set (db_investigations (wd_db w))"
  shows "queue_ok R st (dispatch_incident R cr st en err i w)"
proof (cases "should_trigger st i")
  case True
  obtain b s where set: "r_set_nx R (en_now en 4) (cooldown_key st (in_id i)) ''1'' (automatic_investigation_cooldown_seconds st) (wd_redis w) = (b, s)"
    by fastforce
  then have "r_lrange R q s = r_lrange R q (wd_redis w)" if "q \<in> {investigation_queue_key st, response_queue_key}" for q
    using that cooldown_key_other by (auto simp: set_nx lrange_set split: if_splits)
  then have ok': "queue_ok R st (w\<lparr>wd_redis := s\<rparr>)" by (intro queue_ok_cong [OF ok]) auto
  obtain x w' where req: "request_investigation R cr st en err (in_id i) (w\<lparr>wd_redis := s\<rparr>) = (x, w')" by fastforce
  then have ok_w': "queue_ok R st w'" using request_ok [OF ok', of en cr err "in_id i"] fresh by simp
  then have deleted: "queue_ok R st (w'\<lparr>wd_redis := r_delete R t (cooldown_key st (in_id i)) (wd_redis w')\<rparr>)" for t
    using cooldown_key_other by (intro queue_ok_cong [OF ok_w']) (auto simp: lrange_delete)
  show ?thesis
    unfolding dispatch_incident_def set prod.case req using True ok' ok_w' deleted by (cases x) simp_all
qed (use ok in \<open>simp add: dispatch_incident_def\<close>)

lemma post_ok:
  assumes "queue_ok R st w" and "en_uuid en 0 \<notin> iv_id ` set (db_investigations (wd_db w))"
    and "post_investigation R cr st en req actor err i w = (x, w', msgs)"
  shows "queue_ok R st w'"
proof -
  obtain y w1 where req: "request_investigation R cr st en err i w = (y, w1)" by fastforce
  then have ok: "queue_ok R st w1" using request_ok [OF assms(1,2), of cr err i] by simp
  have "queue_ok R st (w1\<lparr>wd_db := audit_record req j t a o1 k actor_id l rt ri ds (wd_db w1)\<rparr>)" for j t a o1 k actor_id l rt ri ds
    using ok by (simp add: queue_ok_def queued_def get_investigation_def audit_record_def)
  then show ?thesis using assms(3) req ok by (auto simp: post_investigation_def split: sum.splits option.splits)
qed

end

text \<open>A row that a worker may take through its processing; nothing else changes.\<close>

definition progress :: "db \<Rightarrow> db \<Rightarrow> bool" where
  "progress d d' = (\<forall>i v. get_investigation i d = Some v \<longrightarrow>
     (\<exists>v'. get_investigation i d' = Some v' \<and> (v' = v \<or> iv_status v = ''queued'' \<and> finished v')))"

lemma progress_same: "db_investigations d' = db_investigations d \<Longrightarrow> progress d d'"
  by (simp add: progress_def get_investigation_def)

lemma progress_trans: "progress d d' \<Longrightarrow> progress d' d'' \<Longrightarrow> progress d d''"
proof (unfold progress_def, intro allI impI)
  fix i v assume d: "\<forall>i v. get_investigation i d = Some v \<longrightarrow> (\<exists>v'. get_investigation i d' = Some v' \<and> (v' = v \<or> iv_status v = ''queued'' \<and> finished v'))"
    and d': "\<forall>i v. get_investigation i d' = Some v \<longrightarrow> (\<exists>v'. get_investigation i d'' = Some v' \<and> (v' = v \<or> iv_status v = ''queued'' \<and> finished v'))"
    and "get_investigation i d = Some v"
  then obtain v1 where v1: "get_investigation i d' = Some v1" "v1 = v \<or> iv_status v = ''queued'' \<and> finished v1" by blast
  then obtain v2 where v2: "get_investigation i d'' = Some v2" "v2 = v1 \<or> iv_status v1 = ''queued'' \<and> finished v2" using d' by blast
  have "iv_status v1 \<noteq> ''queued''" if "finished v1" using that by (auto simp: finished_def)
  then show "\<exists>v'. get_investigation i d'' = Some v' \<and> (v' = v \<or> iv_status v = ''queued'' \<and> finished v')"
    using v1 v2 by blast
qed

lemma process_progress:
  assumes "process_investigation W R en rn i w = (ok, w', msgs)" and "distinct (map iv_id (db_investigations (wd_db w)))"
  shows "progress (wd_db w) (wd_db w')"
  unfolding progress_def
proof (intro allI impI)
  fix j v assume v: "get_investigation j (wd_db w) = Some v"
  show "\<exists>v'. get_investigation j (wd_db w') = Some v' \<and> (v' = v \<or> iv_status v = ''queued'' \<and> finished v')"
    using process_rows [OF assms] v by (cases "j = i") (auto simp: only_row_def split: if_splits)
qed

lemma recover_frame:
  "db_investigations (wd_db (ls_world (recover_actions st A le s))) = db_investigations (wd_db (ls_world s))"
  "wd_redis (ls_world (recover_actions st A le s)) = wd_redis (ls_world s)"
  using execute_all_investigations [of st A "le_recovery le" 0 "approved_ids (wd_db (ls_world s))" "wd_db (ls_world s)" "ls_aws s"]
  by (auto simp: recover_actions_def split: prod.split)

definition backlog :: "'r redis_api \<Rightarrow> settings \<Rightarrow> 'r world \<Rightarrow> nat" where
  "backlog R st w = length (r_lrange R response_queue_key (wd_redis w)) +
     length (r_lrange R (investigation_queue_key st) (wd_redis w))"

context investigation_system
begin

lemma queue_ok_tables:
  "queue_ok R st w \<Longrightarrow> db_investigations d = db_investigations (wd_db w) \<Longrightarrow> queue_ok R st (w\<lparr>wd_db := d\<rparr>)"
  by (simp add: queue_ok_def queued_def get_investigation_def)

lemma iteration_ok:
  assumes "wk_settings W = st" and ok: "queue_ok R st (ls_world s)" and "worker_iteration W R A le s = (x, s')"
  shows "x = Inr () \<and> queue_ok R st (ls_world s') \<and> progress (wd_db (ls_world s)) (wd_db (ls_world s')) \<and>
    backlog R st (ls_world s') = backlog R st (ls_world s) - 1"
proof -
  let ?s = "recover_actions st A le s"
  let ?w = "ls_world ?s"
  let ?q = "investigation_queue_key st"
  have rows: "db_investigations (wd_db ?w) = db_investigations (wd_db (ls_world s))" by (rule recover_frame)
  have redis: "wd_redis ?w = wd_redis (ls_world s)" by (rule recover_frame)
  have ok_w: "queue_ok R st ?w"
    using ok by (simp add: queue_ok_def queued_def get_investigation_def rows redis)
  have start: "progress (wd_db (ls_world s)) (wd_db ?w)" by (rule progress_same) (rule rows)
  obtain item redis' where pop: "r_lpop R response_queue_key (wd_redis ?w) = (item, redis')" by fastforce
  show ?thesis
  proof (cases "r_lrange R response_queue_key (wd_redis ?w)")
    case (Cons y ys)
    then have y: "item = Some y" and tail: "r_lrange R response_queue_key redis' = ys" "r_lrange R ?q redis' = r_lrange R ?q (wd_redis ?w)"
      using lpop_item [of response_queue_key "wd_redis ?w"] lpop [of _ response_queue_key "wd_redis ?w"] key_distinct
      by (simp_all add: pop)
    obtain i where i: "uuid_parse y = Some i" using ok_w Cons by (auto simp: queue_ok_def uuid_texts_def)
    obtain msgs d a where ex: "execute_action st A (fst (le_response le)) (snd (le_response le)) i (wd_db ?w) (ls_aws ?s) = (msgs, d, a)"
      by (metis prod.exhaust)
    then have d: "db_investigations d = db_investigations (wd_db ?w)"
      using execute_action_investigations [of st A "fst (le_response le)" "snd (le_response le)" i "wd_db ?w" "ls_aws ?s"] by simp
    have s': "x = Inr ()" "s' = ?s\<lparr>ls_world := ?w\<lparr>wd_db := d, wd_redis := redis'\<rparr>, ls_aws := a\<rparr>"
      using assms(1,3) pop y i ex by (simp_all add: worker_iteration_def Let_def)
    have "queue_ok R st (?w\<lparr>wd_db := d, wd_redis := redis'\<rparr>)"
      using ok_w Cons by (auto simp: queue_ok_def queued_def get_investigation_def d tail uuid_texts_def)
    then show ?thesis
      using progress_trans [OF start progress_same [OF d]] Cons redis by (simp add: s' backlog_def tail)
  next
    case Nil
    then have "item = None" using lpop_item [of response_queue_key "wd_redis ?w"] by (simp add: pop)
    obtain entry redis2 where pop2: "r_lpop R ?q (wd_redis ?w) = (entry, redis2)" by fastforce
    have lists: "r_lrange R ?q redis2 = tl (r_lrange R ?q (wd_redis ?w))" "r_lrange R response_queue_key redis2 = []"
      using lpop [of _ ?q "wd_redis ?w"] key_distinct Nil by (simp_all add: pop2)
    show ?thesis
    proof (cases "r_lrange R ?q (wd_redis ?w)")
      case empty: Nil
      then have "entry = None" using lpop_item [of ?q "wd_redis ?w"] by (simp add: pop2)
      then have "x = Inr ()" "s' = ?s"
        using assms(1,3) pop \<open>item = None\<close> pop2 by (simp_all add: worker_iteration_def dequeue_investigation_def Let_def)
      then show ?thesis using ok_w start Nil empty redis by (simp add: backlog_def)
    next
      case (Cons y ys)
      then have y: "entry = Some y" using lpop_item [of ?q "wd_redis ?w"] by (simp add: pop2)
      obtain i where i: "uuid_parse y = Some i" using ok_w Cons by (auto simp: queue_ok_def uuid_texts_def)
      obtain b w' msgs where proc: "process_investigation W R (le_process le) (le_run le) i (?w\<lparr>wd_redis := redis2\<rparr>) = (b, w', msgs)"
        by (metis prod.exhaust)
      have s': "x = Inr ()" "s' = ?s\<lparr>ls_world := w'\<rparr>"
        using assms(1,3) pop \<open>item = None\<close> pop2 y i proc
        by (simp_all add: worker_iteration_def dequeue_investigation_def Let_def)
      have ids: "distinct (map iv_id (db_investigations (wd_db (?w\<lparr>wd_redis := redis2\<rparr>))))" using ok_w by (simp add: queue_ok_def)
      note rows' = process_rows [OF proc ids]
      have "\<not> queued (wd_db w') i"
      proof (cases "get_investigation i (wd_db ?w)")
        case None
        then show ?thesis using only_row_None [of i "wd_db ?w" "wd_db w'" i] rows' by (simp add: queued_def)
      next
        case (Some v)
        then show ?thesis using rows' by (auto simp: queued_def finished_def split: if_splits)
      qed
      then have "queue_ok R st w'"
        using ok_w rows' lists Cons
        by (intro queue_ok_only_row [OF ok_w, of i]) (auto simp: queue_ok_def uuid_texts_def dest: uuid_text_other [OF i])
      then show ?thesis
        using progress_trans [OF start] process_progress [OF proc ids] rows' Nil Cons redis by (simp add: s' backlog_def lists)
    qed
  qed
qed

lemma iterations_ok:
  assumes "wk_settings W = st" and "queue_ok R st (ls_world s)" and "run_iterations W R A les s = (x, s')"
  shows "x = Inr () \<and> queue_ok R st (ls_world s') \<and> progress (wd_db (ls_world s)) (wd_db (ls_world s')) \<and>
    backlog R st (ls_world s') = backlog R st (ls_world s) - length les"
  using assms(2,3)
proof (induction les arbitrary: s)
  case Nil
  then show ?case by (simp add: progress_same)
next
  case (Cons le les)
  obtain y s1 where step: "worker_iteration W R A le s = (y, s1)" by fastforce
  note one = iteration_ok [OF assms(1) Cons.prems(1) step]
  then have "run_iterations W R A les s1 = (x, s')" using Cons.prems(2) step by simp
  with Cons.IH [of s1] one show ?case by (auto intro: progress_trans)
qed

lemma drained:
  assumes "queue_ok R st w" and "backlog R st w = 0"
  shows "\<not> queued (wd_db w) i"
  using assms by (auto simp: queue_ok_def backlog_def)

end

interpretation mem_investigations: investigation_system mem_redis "default_settings a b c" for a b c
  by unfold_locales (simp add: default_settings_def response_queue_key_def)

section \<open>Outcomes of a request and of processing\<close>

lemma find_table_save:
  assumes "find P rows = Some r" and "distinct (map key rows)" and "P r'" and "key r' = key r"
  shows "find P (table_save key r' rows) = Some r'"
  using assms(1,2)
proof (induction rows)
  case (Cons x xs)
  show ?case
  proof (cases "P x")
    case True
    then show ?thesis using Cons.prems assms(3,4) by (simp add: table_save_def)
  next
    case False
    then have "r \<in> set xs" using Cons.prems(1) find_SomeD [of P xs r] by simp
    then have "key x \<noteq> key r'" using Cons.prems(2) assms(4) by auto
    then show ?thesis using Cons False by (simp add: table_save_def)
  qed
qed simp

lemma investigation_for_found:
  assumes "distinct (map iv_id (db_investigations d))" and "en_uuid en 0 \<notin> iv_id ` set (db_investigations d)"
    and "investigation_for st en i h d = (v, enq, d')"
  shows "find_for_context i h (llm_prompt_version st) d' = Some v \<and> iv_status v \<noteq> ''failed'' \<and>
    (\<exists>rows. d' = d\<lparr>db_investigations := rows\<rparr>)"
proof (cases "find_for_context i h (llm_prompt_version st) d")
  case None
  let ?v = "new_investigation st en i h"
  have "v = ?v" "d' = add_investigation ?v d" using assms(3) None by (auto simp: investigation_for_def Let_def)
  moreover have "find_for_context i h (llm_prompt_version st) (add_investigation ?v d) = Some ?v"
    using None unfolding find_for_context_def add_investigation_def
    by (simp, intro find_snoc) (auto simp: find_None_iff new_investigation_def)
  ultimately show ?thesis by (auto simp: new_investigation_def add_investigation_def)
next
  case (Some v0)
  note facts = find_for_context_facts(2) [OF Some]
  show ?thesis
  proof (cases "iv_status v0 = ''failed''")
    case True
    let ?v = "requeue_investigation (en_now en 0) False (v0\<lparr>iv_provider := llm_provider st, iv_model := llm_model st\<rparr>)"
    have "v = ?v" "d' = save_investigation ?v d" using assms(3) Some True by (auto simp: investigation_for_def Let_def)
    moreover have "find_for_context i h (llm_prompt_version st) (save_investigation ?v d) = Some ?v"
      using Some facts unfolding find_for_context_def save_investigation_def
      by (simp, intro find_table_save [of _ _ v0]) (auto simp: assms(1) requeue_investigation_def iv_key_def)
    ultimately show ?thesis by (auto simp: save_investigation_def)
  next
    case False
    then show ?thesis using assms(3) Some by (auto simp: investigation_for_def intro: exI [of _ "db_investigations d"])
  qed
qed

lemma process_not_completed:
  assumes "process_investigation W R en rn i w = (ok, w', msgs)" and "distinct (map iv_id (db_investigations (wd_db w)))"
    and "\<not> ok" and "get_investigation i (wd_db w) = Some v" and "iv_status v = ''queued''"
    and "get_investigation i (wd_db w') = Some v'"
  shows "iv_status v' = ''failed''"
proof -
  let ?v = "claimed (en_now en 0) v"
  have claim: "claim_investigation (en_now en 0) i (wd_db w) = (Some ?v, save_investigation ?v (wd_db w))"
    using assms(4,5) by (simp add: claim_investigation_def)
  obtain outcome w1 where attempt: "attempt W R rn ?v (w\<lparr>wd_db := save_investigation ?v (wd_db w)\<rparr>) = (outcome, w1)" by fastforce
  then obtain x where x: "outcome = Inl x"
    using assms(1,3) claim by (cases outcome) (auto simp: process_investigation_def)
  show ?thesis
  proof (cases "get_investigation i (wd_db w1)")
    case None
    then have "w' = w1" using assms(1) claim attempt x by (simp add: process_investigation_def)
    then show ?thesis using None assms(6) by simp
  next
    case (Some u)
    let ?f = "fail_investigation (en_now en 3) (exn_text x) (validation_errors_of x) None ''failed'' u"
    have "w' = w1\<lparr>wd_db := save_investigation ?f (wd_db w1)\<rparr>"
      using assms(1) claim attempt x Some by (simp add: process_investigation_def Let_def)
    moreover have "get_investigation i (save_investigation ?f (wd_db w1)) = Some ?f"
      by (rule save_investigation_get [OF Some]) (simp add: fail_investigation_def investigation_row_id [OF Some])
    ultimately have "v' = ?f" using assms(6) by simp
    then show ?thesis by (simp only: row_update_status)
  qed
qed

section \<open>The system\<close>

text \<open>
  What happens to investigations: analysts and the automation request them, the worker runs an iteration, and any
  other operation of the program, which writes neither the table nor the queue, and pushes only ids to the
  queue of approved actions. A fresh id is one that no row has.
\<close>

definition fresh_id :: "env \<Rightarrow> db \<Rightarrow> bool" where
  "fresh_id en d = (en_uuid en 0 \<notin> iv_id ` set (db_investigations d))"

inductive investigation_step :: "'r redis_api \<Rightarrow> crypto \<Rightarrow> worker_env \<Rightarrow> 'a aws_api \<Rightarrow> ('r, 'a) loop_state \<Rightarrow>
    ('r, 'a) loop_state \<Rightarrow> bool" for R cr W A where
  request: "fresh_id en (wd_db (ls_world s)) \<Longrightarrow>
    post_investigation R cr (wk_settings W) en req actor err i (ls_world s) = (x, w, msgs) \<Longrightarrow>
    investigation_step R cr W A s (s\<lparr>ls_world := w\<rparr>)"
| dispatch: "fresh_id en (wd_db (ls_world s)) \<Longrightarrow>
    investigation_step R cr W A s (s\<lparr>ls_world := dispatch_incident R cr (wk_settings W) en err inc (ls_world s)\<rparr>)"
| work: "worker_iteration W R A le s = (x, s') \<Longrightarrow> investigation_step R cr W A s s'"
| other: "db_investigations (wd_db w) = db_investigations (wd_db (ls_world s)) \<Longrightarrow>
    r_lrange R (investigation_queue_key (wk_settings W)) (wd_redis w) =
      r_lrange R (investigation_queue_key (wk_settings W)) (wd_redis (ls_world s)) \<Longrightarrow>
    uuid_texts (r_lrange R response_queue_key (wd_redis w)) \<Longrightarrow>
    investigation_step R cr W A s (s\<lparr>ls_world := w\<rparr>)"

inductive investigation_reachable :: "'r redis_api \<Rightarrow> crypto \<Rightarrow> worker_env \<Rightarrow> 'a aws_api \<Rightarrow> ('r, 'a) loop_state \<Rightarrow> bool"
  for R cr W A where
  start: "db_investigations (wd_db (ls_world s)) = [] \<Longrightarrow>
    r_lrange R (investigation_queue_key (wk_settings W)) (wd_redis (ls_world s)) = [] \<Longrightarrow>
    r_lrange R response_queue_key (wd_redis (ls_world s)) = [] \<Longrightarrow> investigation_reachable R cr W A s"
| step: "investigation_reachable R cr W A s \<Longrightarrow> investigation_step R cr W A s s' \<Longrightarrow> investigation_reachable R cr W A s'"

inductive_cases investigation_step_cases: "investigation_step R cr W A s s'"

context investigation_system
begin

lemma step_ok:
  assumes "wk_settings W = st" and "investigation_step R cr W A s s'" and ok: "queue_ok R st (ls_world s)"
  shows "queue_ok R st (ls_world s')"
  using assms(2)
proof (cases rule: investigation_step.cases)
  case (request en req actor err i x w msgs)
  then show ?thesis using post_ok [OF ok, of en cr req actor err i x w msgs] assms(1) by (simp add: fresh_id_def)
next
  case (dispatch en err inc)
  then show ?thesis using dispatch_ok [OF ok, of en cr err inc] assms(1) by (simp add: fresh_id_def)
next
  case (work le x)
  then show ?thesis using iteration_ok [OF assms(1) ok] by blast
next
  case (other w)
  then show ?thesis using ok assms(1) by (simp add: queue_ok_def queued_def get_investigation_def)
qed

lemma reachable_ok:
  assumes "wk_settings W = st" and "investigation_reachable R cr W A s"
  shows "queue_ok R st (ls_world s)"
  using assms(2)
proof (induction rule: investigation_reachable.induct)
  case (start s)
  then show ?case using assms(1) by (simp add: queue_ok_def queued_def get_investigation_def uuid_texts_def)
next
  case (step s s')
  then show ?case using step_ok [OF assms(1)] by blast
qed

end

text \<open>
  C9: in every reachable state, whatever requests, automatic dispatches, worker iterations, Redis outages and other
  operations came before: each queued investigation is in the Redis queue, so none is lost; ids are unique;
  and no two investigations share incident, context hash and prompt version.
\<close>

theorem no_investigation_is_lost:
  assumes "redis_queues R" and "investigation_queue_key (wk_settings W) \<noteq> response_queue_key"
    and "investigation_reachable R cr W A s"
  shows "(\<forall>v \<in> set (db_investigations (wd_db (ls_world s))). iv_status v = ''queued'' \<longrightarrow>
      uuid_str (iv_id v) \<in> set (r_lrange R (investigation_queue_key (wk_settings W)) (wd_redis (ls_world s)))) \<and>
    distinct (map iv_id (db_investigations (wd_db (ls_world s)))) \<and>
    distinct (map (\<lambda>v. (iv_incident_id v, iv_context_hash v, iv_prompt_version v)) (db_investigations (wd_db (ls_world s))))"
proof -
  have "investigation_system R (wk_settings W)"
    using assms(1,2) by (simp add: investigation_system_def investigation_system_axioms_def)
  from investigation_system.reachable_ok [OF this refl assms(3)]
  have ok: "queue_ok R (wk_settings W) (ls_world s)" .
  then have "queued (wd_db (ls_world s)) (iv_id v)"
    if "v \<in> set (db_investigations (wd_db (ls_world s)))" "iv_status v = ''queued''" for v
    using that table_get_distinct [of iv_id "db_investigations (wd_db (ls_world s))" v]
    by (simp add: queue_ok_def queued_def get_investigation_def)
  then show ?thesis using ok by (simp add: queue_ok_def iv_key_def comp_def)
qed

text \<open>
  C10: the worker drains its queues: from any reachable state, after as many iterations as there are queued approved
  actions and investigations, none of which ends the worker with an exception, no investigation is queued
  any more, and every one that was queued has completed or failed.
\<close>

theorem worker_drains_the_queue:
  assumes "redis_queues R" and "investigation_queue_key (wk_settings W) \<noteq> response_queue_key"
    and "investigation_reachable R cr W A s"
    and "length les = backlog R (wk_settings W) (ls_world s)" and "run_iterations W R A les s = (x, s')"
  shows "x = Inr () \<and> (\<forall>v \<in> set (db_investigations (wd_db (ls_world s'))). iv_status v \<noteq> ''queued'') \<and>
    (\<forall>i v. get_investigation i (wd_db (ls_world s)) = Some v \<and> iv_status v = ''queued'' \<longrightarrow>
       (\<exists>v'. get_investigation i (wd_db (ls_world s')) = Some v' \<and> iv_status v' \<in> {''completed'', ''failed''}))"
proof -
  have sys: "investigation_system R (wk_settings W)"
    using assms(1,2) by (simp add: investigation_system_def investigation_system_axioms_def)
  note ok = investigation_system.reachable_ok [OF sys refl assms(3)]
  note run = investigation_system.iterations_ok [OF sys refl ok assms(5)]
  then have idle: "\<not> queued (wd_db (ls_world s')) i" for i
    using investigation_system.drained [OF sys, of "ls_world s'"] assms(4) by simp
  have "iv_status v \<noteq> ''queued''" if "v \<in> set (db_investigations (wd_db (ls_world s')))" for v
    using idle [of "iv_id v"] that run table_get_distinct [of iv_id "db_investigations (wd_db (ls_world s'))" v]
    by (simp add: queue_ok_def queued_def get_investigation_def)
  moreover have "\<exists>v'. get_investigation i (wd_db (ls_world s')) = Some v' \<and> iv_status v' \<in> {''completed'', ''failed''}"
    if v: "get_investigation i (wd_db (ls_world s)) = Some v" "iv_status v = ''queued''" for i v
  proof -
    obtain v' where "get_investigation i (wd_db (ls_world s')) = Some v'" "v' = v \<or> finished v'"
      using run v(1) by (auto simp: progress_def)
    then show ?thesis using idle [of i] v(2) by (auto simp: queued_def finished_def)
  qed
  ultimately show ?thesis using run by blast
qed

text \<open>
  C38: a request repeated at once is harmless. When a request succeeds, the same request made again
  on the state it left, before anything else has changed it, returns the same investigation and
  changes neither the database nor Redis, whatever the clock, the draws and the queue say then. (It
  says nothing of a later repeat: once the investigation has failed, a request for the unchanged
  incident puts it in the queue again.)
\<close>

theorem request_is_idempotent:
  assumes "distinct (map iv_id (db_investigations (wd_db w)))"
    and "en_uuid en 0 \<notin> iv_id ` set (db_investigations (wd_db w))"
    and "request_investigation R cr st en err incident_id w = (Inr (Some v), w')"
  shows "request_investigation R cr st en' err' incident_id w' = (Inr (Some v), w')"
proof -
  obtain i where prov: "provider_available st = Inr ()" and i: "get_incident incident_id (wd_db w) = Some i"
    using assms(3) by (auto simp: request_investigation_def split: sum.splits option.splits)
  let ?h = "context_hash cr i (wd_db w)"
  obtain v0 enq d where for_v: "investigation_for st en incident_id ?h (wd_db w) = (v0, enq, d)" by (metis prod.exhaust)
  have v0: "v0 = v" and d: "wd_db w' = d"
    using assms(3) prov i for_v by (auto simp: request_investigation_def split: if_splits option.splits)
  have found: "find_for_context incident_id ?h (llm_prompt_version st) d = Some v" and active: "iv_status v \<noteq> ''failed''"
    and frame: "\<exists>rows. d = (wd_db w)\<lparr>db_investigations := rows\<rparr>"
    using investigation_for_found [OF assms(1,2) for_v] v0 by auto
  have "get_incident incident_id d = Some i" "context_hash cr i d = ?h"
    using frame i by (auto simp: get_incident_def context_hash_def context_hash_text_def)
  then show ?thesis
    using prov found active by (cases w') (simp add: request_investigation_def d investigation_for_def flip: d)
qed

text \<open>
  C39: an incident is investigated automatically at most once per cooldown: after a dispatch whose request succeeded,
  every dispatch of that incident before the cooldown has passed changes nothing.
\<close>

theorem automatic_cooldown:
  assumes "redis_queues R" and "should_trigger st i" and "r_get R (en_now en 4) (cooldown_key st (in_id i)) (wd_redis w) = None"
    and "\<not> isl (fst (request_investigation R cr st en err (in_id i)
      (w\<lparr>wd_redis := r_set R (en_now en 4) (cooldown_key st (in_id i)) ''1''
         (Some (automatic_investigation_cooldown_seconds st)) (wd_redis w)\<rparr>)))"
    and "en_now en 4 \<le> en_now en' 4"
    and "en_now en' 4 < en_now en 4 + seconds (automatic_investigation_cooldown_seconds st)" and "in_id i' = in_id i"
  shows "dispatch_incident R cr st en' err' i' (dispatch_incident R cr st en err i w) = dispatch_incident R cr st en err i w"
proof -
  have R: "redis_strings R" using assms(1) by (rule redis_queues.axioms(1))
  let ?k = "cooldown_key st (in_id i)" and ?t = "en_now en 4"
  let ?s = "r_set R ?t ?k ''1'' (Some (automatic_investigation_cooldown_seconds st)) (wd_redis w)"
  obtain y w' where run: "request_investigation R cr st en err (in_id i) (w\<lparr>wd_redis := ?s\<rparr>) = (y, w')" by fastforce
  with assms(4) obtain x where "y = Inr x" by (cases y) auto
  with run have req: "request_investigation R cr st en err (in_id i) (w\<lparr>wd_redis := ?s\<rparr>) = (Inr x, w')" by simp
  have first: "dispatch_incident R cr st en err i w = w'"
    using assms(2,3) req by (simp add: dispatch_incident_def redis_strings.set_nx [OF R])
  have "investigation_queue_key st \<noteq> ?k" by (simp add: cooldown_key_def)
  then have "r_get R t ?k (enqueue_investigation R (investigation_queue_key st) j s) = r_get R t ?k s" for t j s
    using redis_queues.get_rpush [OF assms(1)] by (metis enqueue_investigation_def)
  then have "r_get R (en_now en' 4) ?k (wd_redis w') = r_get R (en_now en' 4) ?k ?s"
    using req by (auto simp: request_investigation_def split: sum.splits option.splits prod.splits if_splits)
  also have "\<dots> = Some ''1''"
    using redis_strings.get_set [OF R assms(5)] assms(6) by simp
  finally show ?thesis
    unfolding first by (simp add: dispatch_incident_def redis_strings.set_nx [OF R] assms(7))
qed

text \<open>
  C40: with the offline mock provider no investigation ever completes: the mock has no answer for the set of planned
  recommendations the workflow asks for, so every queued investigation a worker takes ends as failed.
\<close>

theorem mock_investigations_fail:
  assumes "py_lower (llm_provider (wk_settings W)) = ''mock''" and "wk_providers W Mock = mock_provider ids"
    and "distinct (map iv_id (db_investigations (wd_db w)))"
    and "get_investigation i (wd_db w) = Some v" and "iv_status v = ''queued''"
    and "process_investigation W R en rn i w = (ok, w', msgs)"
  shows "\<not> ok \<and> (\<exists>v'. get_investigation i (wd_db w') = Some v' \<and> iv_status v' = ''failed'')"
proof -
  let ?v = "claimed (en_now en 0) v"
  have claim: "claim_investigation (en_now en 0) i (wd_db w) = (Some ?v, save_investigation ?v (wd_db w))"
    using assms(4,5) by (simp add: claim_investigation_def)
  obtain x w1 where attempt: "attempt W R rn ?v (w\<lparr>wd_db := save_investigation ?v (wd_db w)\<rparr>) = (Inl x, w1)"
  proof (cases "active_provider W")
    case (Inr P)
    then have "P = mock_provider ids"
      using assms(1,2) by (auto simp: active_provider_def build_llm_provider_def google_names_def Let_def split: if_splits)
    then show thesis using that mock_workflow_raises [of "worker_workflow W P" ids R None rn "iv_id ?v" "iv_incident_id ?v"] Inr
      by (fastforce simp: attempt_def worker_workflow_def)
  qed (simp add: attempt_def that)
  have "ok = False"
    using assms(6) claim attempt by (auto simp: process_investigation_def Let_def split: option.splits)
  moreover have "\<exists>v'. get_investigation i (wd_db w') = Some v' \<and> finished v'"
    using process_rows [OF assms(6,3)] assms(4,5) by auto
  moreover have "iv_status v' \<noteq> ''completed''" if "get_investigation i (wd_db w') = Some v'" for v'
    using process_not_completed [OF assms(6,3) _ assms(4,5) that] \<open>ok = False\<close> by simp
  ultimately show ?thesis by (auto simp: finished_def)
qed

section \<open>Examples\<close>

definition example_queue_settings :: settings where
  "example_queue_settings = example_settings\<lparr>llm_enabled := True, llm_provider := ''mock'',
     automatic_investigations_enabled := True, automatic_investigation_min_severity := ''high''\<rparr>"

definition example_worker :: worker_env where
  "example_worker = \<lparr>wk_settings = example_queue_settings, wk_workflow = example_workflow_env,
     wk_providers = (\<lambda>_. mock_provider (\<lambda>_. ''0''))\<rparr>"

definition example_empty_world :: "mem_state world" where
  "example_empty_world = \<lparr>wd_db = empty_db\<lparr>db_incidents := [example_incident]\<rparr>, wd_redis = mem_empty\<rparr>"

definition example_new_investigation :: investigation where
  "example_new_investigation = new_investigation example_queue_settings (example_env 0 7) 5
     (context_hash enumerated_jwt example_incident (wd_db example_empty_world))"

definition example_requested_world :: "mem_state world" where
  "example_requested_world = \<lparr>wd_db = add_investigation example_new_investigation (wd_db example_empty_world),
     wd_redis = enqueue_investigation mem_redis ''ai_soc:investigations'' 7 mem_empty\<rparr>"

definition example_loop :: "mem_state world \<Rightarrow> (mem_state, unit) loop_state" where
  "example_loop w = \<lparr>ls_world = w, ls_aws = (), ls_last_recovery = 0\<rparr>"

definition example_loop_env :: loop_env where
  "example_loop_env = \<lparr>le_now = 0, le_recovery = (\<lambda>_. (example_env 0 0, example_env 0 0)), le_response = (example_env 0 0, example_env 0 0),
     le_process = example_env 0 0, le_run = example_run_env\<rparr>"

lemma example_queue_settings_simps [simp]:
  "investigation_queue_key example_queue_settings = ''ai_soc:investigations''" "llm_enabled example_queue_settings"
  "llm_provider example_queue_settings = ''mock''" "automatic_investigations_enabled example_queue_settings"
  "automatic_investigation_min_severity example_queue_settings = ''high''"
  "automatic_investigation_cooldown_seconds example_queue_settings = 3600" "wk_settings example_worker = example_queue_settings"
  by (simp_all add: example_queue_settings_def example_settings_def example_worker_def)

lemma example_mock_name [simp]: "py_lower ''mock'' = ''mock''" "py_lower ''high'' = ''high''"
  by code_simp+

lemma example_available: "provider_available example_queue_settings = Inr ()"
  by (simp add: provider_available_def)

lemma example_new_simps [simp]: "iv_id example_new_investigation = 7" "iv_status example_new_investigation = ''queued''"
  by (simp_all add: example_new_investigation_def new_investigation_def example_env_def)

lemma example_request_runs:
  "request_investigation mem_redis enumerated_jwt example_queue_settings (example_env 0 7) None 5 example_empty_world =
     (Inr (Some example_new_investigation), example_requested_world)"
proof -
  have "get_incident 5 (wd_db example_empty_world) = Some example_incident" "db_investigations (wd_db example_empty_world) = []"
    by (simp_all add: example_empty_world_def get_incident_def example_incident_def empty_db_def)
  then show ?thesis
    by (simp add: request_investigation_def example_available investigation_for_def find_for_context_def Let_def
        flip: example_new_investigation_def)
      (simp add: example_requested_world_def example_empty_world_def)
qed

lemma example_rows_of_world [simp]:
  "db_investigations (wd_db example_empty_world) = []" "wd_redis example_empty_world = mem_empty"
  "db_investigations (wd_db example_requested_world) = [example_new_investigation]"
  by (simp_all add: example_empty_world_def empty_db_def example_requested_world_def add_investigation_def)

lemma example_queues [simp]:
  "r_lrange mem_redis q mem_empty = []"
  "r_lrange mem_redis q (wd_redis example_requested_world) = (if q = ''ai_soc:investigations'' then [uuid_str 7] else [])"
  by (simp_all add: mem_redis_def mem_empty_def example_requested_world_def enqueue_investigation_def)

lemma example_reachable:
  "\<exists>w. investigation_reachable mem_redis enumerated_jwt example_worker A (example_loop w) \<and>
     db_investigations (wd_db w) = [example_new_investigation] \<and> wd_redis w = wd_redis example_requested_world"
proof -
  have start: "investigation_reachable mem_redis enumerated_jwt example_worker A (example_loop example_empty_world)"
    by (rule investigation_reachable.start) (simp_all add: example_loop_def)
  obtain x w msgs where post: "post_investigation mem_redis enumerated_jwt example_queue_settings (example_env 0 7) example_request
      example_user None 5 example_empty_world = (x, w, msgs)" by (metis prod.exhaust)
  have "investigation_step mem_redis enumerated_jwt example_worker A (example_loop example_empty_world) (example_loop w)"
    using investigation_step.request [of "example_env 0 7" "example_loop example_empty_world" mem_redis enumerated_jwt example_worker
        example_request example_user None 5 x w msgs A] post
    by (simp add: example_loop_def fresh_id_def)
  then have "investigation_reachable mem_redis enumerated_jwt example_worker A (example_loop w)"
    using start investigation_reachable.step by blast
  moreover have "db_investigations (wd_db w) = [example_new_investigation]" "wd_redis w = wd_redis example_requested_world"
    using post example_request_runs by (auto simp: post_investigation_def audit_record_def)
  ultimately show ?thesis by blast
qed

definition example_aws_api :: "unit aws_api" where
  "example_aws_api = \<lparr>aws_caller_account = (\<lambda>s. (Inl KeyError, s)), aws_list_access_keys = (\<lambda>_ s. (Inl KeyError, s)),
     aws_update_access_key = (\<lambda>_ _ _ s. (Inl KeyError, s)), aws_head_bucket = (\<lambda>_ _ s. (Inl KeyError, s)),
     aws_put_public_access_block = (\<lambda>_ _ _ s. (Inl KeyError, s)), aws_get_public_access_block = (\<lambda>_ _ s. (Inl KeyError, s))\<rparr>"

theorem no_investigation_is_lost_witness:
  "\<exists>s. investigation_reachable mem_redis enumerated_jwt example_worker example_aws_api s \<and>
     uuid_str 7 \<in> set (r_lrange mem_redis ''ai_soc:investigations'' (wd_redis (ls_world s)))"
proof -
  obtain w where w: "investigation_reachable mem_redis enumerated_jwt example_worker example_aws_api (example_loop w)"
    "db_investigations (wd_db w) = [example_new_investigation]"
    using example_reachable by blast
  from no_investigation_is_lost [OF mem.redis_queues_axioms _ w(1)] w(2)
  have "uuid_str 7 \<in> set (r_lrange mem_redis ''ai_soc:investigations'' (wd_redis w))"
    by (simp add: response_queue_key_def example_loop_def)
  with w(1) show ?thesis by (intro exI [of _ "example_loop w"]) (simp add: example_loop_def)
qed

theorem worker_drains_the_queue_witness:
  "\<exists>s v s'. investigation_reachable mem_redis enumerated_jwt example_worker example_aws_api s \<and>
     run_iterations example_worker mem_redis example_aws_api [example_loop_env] s = (Inr (), s') \<and>
     get_investigation 7 (wd_db (ls_world s')) = Some v \<and> iv_status v \<in> {''completed'', ''failed''}"
proof -
  obtain w where w: "investigation_reachable mem_redis enumerated_jwt example_worker example_aws_api (example_loop w)"
    "db_investigations (wd_db w) = [example_new_investigation]" "wd_redis w = wd_redis example_requested_world"
    using example_reachable by blast
  obtain x s' where run: "run_iterations example_worker mem_redis example_aws_api [example_loop_env] (example_loop w) = (x, s')"
    by fastforce
  have "length [example_loop_env] = backlog mem_redis (wk_settings example_worker) (ls_world (example_loop w))"
    using w(3) by (simp add: backlog_def example_loop_def response_queue_key_def)
  from worker_drains_the_queue [OF mem.redis_queues_axioms _ w(1) this run]
  have "x = Inr () \<and> (\<exists>v'. get_investigation 7 (wd_db (ls_world s')) = Some v' \<and> iv_status v' \<in> {''completed'', ''failed''})"
    using w(2) by (simp add: response_queue_key_def example_loop_def get_investigation_def)
  then show ?thesis using w(1) run by blast
qed

theorem request_is_idempotent_witness:
  "request_investigation mem_redis enumerated_jwt example_queue_settings (example_env 9 8) None 5 example_requested_world =
     (Inr (Some example_new_investigation), example_requested_world)"
  by (rule request_is_idempotent [OF _ _ example_request_runs]) simp_all

theorem automatic_cooldown_witness:
  "\<exists>w. dispatch_incident mem_redis enumerated_jwt example_queue_settings (example_env 1000 9) None example_incident w = w \<and>
     w = dispatch_incident mem_redis enumerated_jwt example_queue_settings (example_env 0 7) None example_incident example_empty_world"
proof -
  have "should_trigger example_queue_settings example_incident"
    by (simp add: should_trigger_def severity_rank_def example_incident_def)
  moreover have "\<not> isl (fst (request_investigation mem_redis enumerated_jwt example_queue_settings (example_env 0 7) None 5
      (example_empty_world\<lparr>wd_redis := s\<rparr>)))" for s
    by (simp add: request_investigation_def example_available example_empty_world_def get_incident_def example_incident_def
        investigation_for_def find_for_context_def empty_db_def Let_def)
  ultimately show ?thesis
    using automatic_cooldown [OF mem.redis_queues_axioms, of example_queue_settings example_incident "example_env 0 7"
        example_empty_world enumerated_jwt None "example_env 1000 9" example_incident None]
    by (simp add: example_env_def mem_redis_def mem_get_def mem_empty_def seconds_def example_incident_def)
qed

theorem mock_investigations_fail_witness:
  "\<exists>w' msgs v. process_investigation example_worker mem_redis (example_env 0 0) example_run_env 7 example_requested_world =
     (False, w', msgs) \<and> get_investigation 7 (wd_db w') = Some v \<and> iv_status v = ''failed''"
proof -
  obtain ok w' msgs where run: "process_investigation example_worker mem_redis (example_env 0 0) example_run_env 7
      example_requested_world = (ok, w', msgs)" by (metis prod.exhaust)
  from mock_investigations_fail [OF _ _ _ _ _ this, of "\<lambda>_. ''0''" example_new_investigation] run show ?thesis
    by (auto simp: example_worker_def get_investigation_def)
qed

end
