(* ===== verification/Anomaly.thy ===== *)
theory Anomaly
  imports Detection PyDatetime
begin

text \<open>
  The anomaly model, \<^verbatim>\<open>backend/app/ml/\<close>: features of an event (\<^verbatim>\<open>features.py\<close>), its window
  (\<^verbatim>\<open>aggregation.py\<close>), the training set (\<^verbatim>\<open>dataset.py\<close>), the registry of models
  (\<^verbatim>\<open>repositories/model_registry_repository.py\<close>), training (\<^verbatim>\<open>training.py\<close>), scoring
  (\<^verbatim>\<open>inference.py\<close>) and evaluation (\<^verbatim>\<open>evaluation.py\<close>). scikit-learn's fit and decision
  function are parameters, and so is the outcome of writing a file; a joblib file is the
  value that was dumped.
\<close>

section \<open>Features\<close>

definition feature_columns :: "string list" where
  "feature_columns =
    [''event_type_count_window'', ''category_count_window'', ''source_ip_event_count_window'',
     ''username_event_count_window'', ''source_ip_distinct_usernames_window'', ''username_distinct_source_ips_window'',
     ''login_failure_count_window'', ''login_success_count_window'', ''privilege_change_count_window'',
     ''file_download_count_window'', ''api_error_count_window'', ''bytes_sent_sum_window'', ''bytes_received_sum_window'',
     ''is_authentication_event'', ''is_file_access_event'', ''is_privilege_change_event'', ''is_api_event'',
     ''is_failure_status'']"

definition anomaly_score_scale :: rat where
  "anomaly_score_scale = 8"

text \<open>\<^verbatim>\<open>sum(p(item) for item in events)\<close> of a Boolean, and the number of distinct present texts.\<close>

definition count_where :: "('a \<Rightarrow> bool) \<Rightarrow> 'a list \<Rightarrow> rat" where
  "count_where p xs = of_nat (length (filter p xs))"

definition distinct_present :: "string option list \<Rightarrow> rat" where
  "distinct_present vs = of_nat (card (set (filter truthy_str vs)))"

definition byte_sum :: "(event \<Rightarrow> int option) \<Rightarrow> event list \<Rightarrow> rat" where
  "byte_sum field es = of_int (sum_list (map (\<lambda>x. case field x of None \<Rightarrow> 0 | Some n \<Rightarrow> n) es))"

definition flag :: "bool \<Rightarrow> rat" where
  "flag b = (if b then 1 else 0)"

definition same_source :: "event \<Rightarrow> event list \<Rightarrow> event list" where
  "same_source e es = filter (\<lambda>x. truthy_str (ev_source_ip e) \<and> ev_source_ip x = ev_source_ip e) es"

definition same_user :: "event \<Rightarrow> event list \<Rightarrow> event list" where
  "same_user e es = filter (\<lambda>x. truthy_str (ev_username e) \<and> ev_username x = ev_username e) es"

definition feature_values :: "event \<Rightarrow> event list \<Rightarrow> (string \<times> rat) list" where
  "feature_values e es =
    [(''event_type_count_window'', count_where (\<lambda>x. ev_event_type x = ev_event_type e) es),
     (''category_count_window'', count_where (\<lambda>x. ev_category x = ev_category e) es),
     (''source_ip_event_count_window'', of_nat (length (same_source e es))),
     (''username_event_count_window'', of_nat (length (same_user e es))),
     (''source_ip_distinct_usernames_window'', distinct_present (map ev_username (same_source e es))),
     (''username_distinct_source_ips_window'', distinct_present (map ev_source_ip (same_user e es))),
     (''login_failure_count_window'', count_where (\<lambda>x. ev_event_type x = ''login_failure'') es),
     (''login_success_count_window'', count_where (\<lambda>x. ev_event_type x = ''login_success'') es),
     (''privilege_change_count_window'', count_where (\<lambda>x. ev_event_type x = ''privilege_change'') es),
     (''file_download_count_window'', count_where (\<lambda>x. ev_event_type x \<in> {''file_download'', ''resource_access''}) es),
     (''api_error_count_window'', count_where (\<lambda>x. ev_event_type x = ''api_error'') es),
     (''bytes_sent_sum_window'', byte_sum ev_bytes_sent es),
     (''bytes_received_sum_window'', byte_sum ev_bytes_received es),
     (''is_authentication_event'', flag (ev_category e = ''authentication'')),
     (''is_file_access_event'', flag (ev_category e = ''file_access'')),
     (''is_privilege_change_event'', flag (ev_event_type e = ''privilege_change'')),
     (''is_api_event'', flag (ev_category e = ''api'')),
     (''is_failure_status'', flag (py_lower (str_or (ev_status e) []) \<in> {''failed'', ''failure'', ''denied'', ''error''}))]"

definition build_feature_vector :: "event \<Rightarrow> event list \<Rightarrow> (string \<times> rat) list" where
  "build_feature_vector e es =
    map (\<lambda>column. (column, case map_of (feature_values e es) column of None \<Rightarrow> 0 | Some v \<Rightarrow> v)) feature_columns"

definition event_window :: "db \<Rightarrow> event \<Rightarrow> int \<Rightarrow> exn + event list" where
  "event_window d e window_seconds =
    then_do (checked_datetime (ev_timestamp e - seconds window_seconds)) (\<lambda>start_time.
      Inr (list_between start_time (ev_timestamp e) d))"

section \<open>The training set\<close>

text \<open>A pandas frame: its columns and its rows, each row in the order of the columns.\<close>

record frame =
  fr_columns :: "string list"
  fr_rows :: "rat list list"

text \<open>The inner \<^verbatim>\<open>while\<close>: the left end of the window moves up to the first event not before the cutoff.\<close>

function advance_left :: "event list \<Rightarrow> datetime \<Rightarrow> nat \<Rightarrow> nat \<Rightarrow> nat" where
  "advance_left ordered cutoff index left =
    (if left < index \<and> ev_timestamp (ordered ! left) < cutoff
     then advance_left ordered cutoff index (Suc left) else left)"
  by pat_completeness auto
termination
  by (relation "measure (\<lambda>(ordered, cutoff, index, left). index - left)") auto

declare advance_left.simps [simp del]

function dataset_rows :: "int \<Rightarrow> event list \<Rightarrow> nat \<Rightarrow> nat \<Rightarrow> exn + (string \<times> rat) list list" where
  "dataset_rows window_seconds ordered left index =
    (if index < length ordered
     then (let e = ordered ! index
           in then_do (checked_datetime (ev_timestamp e - seconds window_seconds)) (\<lambda>cutoff.
              let left' = advance_left ordered cutoff index left
              in then_do (dataset_rows window_seconds ordered left' (Suc index)) (\<lambda>rows.
                   Inr (build_feature_vector e (drop left' (take (Suc index) ordered)) # rows))))
     else Inr [])"
  by pat_completeness auto
termination
  by (relation "measure (\<lambda>(w, ordered, left, index). length ordered - index)") auto

declare dataset_rows.simps [simp del]

definition build_dataset :: "event list \<Rightarrow> int \<Rightarrow> exn + frame" where
  "build_dataset events window_seconds =
    then_do (dataset_rows window_seconds (sort_key (\<lambda>e. (ev_timestamp e, ev_created_at e)) events) 0 0) (\<lambda>rows.
      Inr \<lparr>fr_columns = feature_columns, fr_rows = map (map snd) rows\<rparr>)"

definition generate_dataset :: "db \<Rightarrow> datetime \<Rightarrow> int \<Rightarrow> int \<Rightarrow> exn + frame" where
  "generate_dataset d end_time lookback_days window_seconds =
    then_do (checked_datetime (end_time - seconds (86400 * lookback_days))) (\<lambda>start_time.
      build_dataset (list_between start_time end_time d) window_seconds)"

section \<open>The registry of models\<close>

text \<open>The flush raises IntegrityError when the id or the version is taken.\<close>

definition model_create :: "model_registry \<Rightarrow> db \<Rightarrow> exn + db" where
  "model_create m d =
    (if mr_id m \<in> mr_id ` set (db_model_registry d) \<or> mr_model_version m \<in> mr_model_version ` set (db_model_registry d)
     then Inl IntegrityError else Inr (add_model m d))"

text \<open>PostgreSQL puts NULL first in a descending order.\<close>

definition desc_time :: "datetime option \<Rightarrow> int \<times> int" where
  "desc_time t = (case t of None \<Rightarrow> (0, 0) | Some x \<Rightarrow> (1, - x))"

definition active_rows :: "string \<Rightarrow> db \<Rightarrow> model_registry list" where
  "active_rows name d = filter (\<lambda>m. mr_model_name m = name \<and> mr_status m = ''active'') (db_model_registry d)"

definition get_active :: "string \<Rightarrow> db \<Rightarrow> model_registry option" where
  "get_active name d =
    (case sort_key (\<lambda>m. (desc_time (mr_trained_at m), - mr_created_at m)) (active_rows name d) of
       [] \<Rightarrow> None | m # _ \<Rightarrow> Some m)"

definition activate :: "model_registry \<Rightarrow> datetime \<Rightarrow> db \<Rightarrow> model_registry \<times> db" where
  "activate m trained_at d =
    (let d1 = d\<lparr>db_model_registry :=
           update_where (\<lambda>x. mr_model_name x = mr_model_name m \<and> mr_status x = ''active'' \<and> mr_id x \<noteq> mr_id m)
             (mr_status_update (\<lambda>_. ''inactive'')) (db_model_registry d)\<rparr>;
         m' = m\<lparr>mr_status := ''active'', mr_trained_at := Some trained_at\<rparr>
     in (m', save_model m' d1))"

definition update_evaluation_metrics :: "model_registry \<Rightarrow> (string \<times> json) list \<Rightarrow> db \<Rightarrow> db" where
  "update_evaluation_metrics m metrics d = save_model (m\<lparr>mr_evaluation_metrics := metrics\<rparr>) d"

section \<open>Model files\<close>

text \<open>What joblib stores: a dictionary, or (None) anything else.\<close>

datatype 'm artifact_value = Fitted 'm | Texts "string list" | Text string | Numbers "rat list"

type_synonym 'm stored = "(string \<times> 'm artifact_value) list option"

record 'm ml_world =
  mw_db :: db
  mw_files :: "string \<Rightarrow> 'm stored option"

definition joblib_load :: "(string \<Rightarrow> 'm stored option) \<Rightarrow> string \<Rightarrow> exn + 'm stored" where
  "joblib_load files path = (case files path of None \<Rightarrow> Inl FileNotFoundError | Some a \<Rightarrow> Inr a)"

text \<open>\<^verbatim>\<open>str(Path(directory) / name)\<close> for a directory given in the normal form pathlib prints.\<close>

definition path_join :: "string \<Rightarrow> string \<Rightarrow> string" where
  "path_join directory name = directory @ ''/'' @ name"

section \<open>Training\<close>

text \<open>\<^verbatim>\<open>strftime("%Y%m%dT%H%M%S%fZ")\<close>.\<close>

definition compact_stamp :: "datetime \<Rightarrow> string" where
  "compact_stamp t =
    (let (y, m, d) = ord2ymd (t div 86400000000 + 719163);
         r = t mod 86400000000; us = r mod 1000000; s = r div 1000000
     in pad 4 (nat y) @ pad 2 (nat m) @ pad 2 (nat d) @ ''T''
        @ pad 2 (nat (s div 3600)) @ pad 2 (nat (s div 60 mod 60)) @ pad 2 (nat (s mod 60)) @ pad 6 (nat us) @ ''Z'')"

definition make_model_version :: "string \<Rightarrow> datetime \<Rightarrow> string" where
  "make_model_version model_name trained_at = model_name @ ''_'' @ compact_stamp trained_at"

text \<open>\<^verbatim>\<open>frame[FEATURE_COLUMNS]\<close>.\<close>

definition select_columns :: "string list \<Rightarrow> frame \<Rightarrow> rat list list" where
  "select_columns columns f =
    map (\<lambda>row. map (\<lambda>c. case map_of (zip (fr_columns f) row) c of None \<Rightarrow> 0 | Some v \<Rightarrow> v) columns) (fr_rows f)"

definition json_nats :: "string \<Rightarrow> nat \<Rightarrow> string \<times> json" where
  "json_nats k n = (k, JInt (int n))"

definition training_row :: "settings \<Rightarrow> uuid \<Rightarrow> datetime \<Rightarrow> string \<Rightarrow> string \<Rightarrow> nat \<Rightarrow> model_registry" where
  "training_row st i now version path rows =
    \<lparr>mr_id = i, mr_model_name = ml_model_name st, mr_model_version = version, mr_algorithm = ''IsolationForest'',
     mr_status = ''training'', mr_feature_version = ml_feature_version st, mr_artifact_path = path, mr_trained_at = None,
     mr_evaluation_metrics = [],
     mr_training_metadata = [json_nats ''row_count'' rows, (''feature_columns'', JList (map JStr feature_columns)),
       (''contamination'', JFloat (ml_isolation_forest_contamination st)),
       (''random_state'', JInt (ml_isolation_forest_random_state st)), (''anomaly_score_scale'', JFloat anomaly_score_scale)],
     mr_created_at = now\<rparr>"

definition anomaly_artifact :: "settings \<Rightarrow> string \<Rightarrow> 'm \<Rightarrow> 'm stored" where
  "anomaly_artifact st version model = Some [(''model'', Fitted model), (''feature_columns'', Texts feature_columns),
     (''feature_version'', Text (ml_feature_version st)), (''model_version'', Text version)]"

text \<open>
  \<^verbatim>\<open>train_model\<close>. The feature rows are given to \<open>fit\<close>; \<open>dump_error\<close> is the exception of writing
  the file. What it changes is only kept if its caller commits.
\<close>

definition missing_columns :: "frame \<Rightarrow> string list" where
  "missing_columns f = filter (\<lambda>c. c \<notin> set (fr_columns f)) feature_columns"

definition fit_and_store :: "(rat list list \<Rightarrow> exn + 'm) \<Rightarrow> exn option \<Rightarrow> settings \<Rightarrow> model_registry \<Rightarrow> rat list list \<Rightarrow>
    (string \<Rightarrow> 'm stored option) \<Rightarrow> exn + (string \<Rightarrow> 'm stored option)" where
  "fit_and_store fit dump_error st m rows files =
    then_do (fit rows) (\<lambda>model. case dump_error of
       Some x \<Rightarrow> Inl x
     | None \<Rightarrow> Inr (files(mr_artifact_path m \<mapsto> anomaly_artifact st (mr_model_version m) model)))"

definition train_model :: "(rat list list \<Rightarrow> exn + 'm) \<Rightarrow> exn option \<Rightarrow> settings \<Rightarrow> uuid \<Rightarrow> datetime \<Rightarrow> datetime option \<Rightarrow> datetime \<Rightarrow>
    frame \<Rightarrow> 'm ml_world \<Rightarrow> (exn + model_registry) \<times> 'm ml_world" where
  "train_model fit dump_error st i now trained_at now2 f w =
    (if int (length (fr_rows f)) < ml_min_training_rows st
     then (Inl (ValueError (''Training requires at least '' @ str_of_int (ml_min_training_rows st) @ '' rows; received ''
            @ str_of_nat (length (fr_rows f)))), w)
     else if missing_columns f \<noteq> []
     then (Inl (ValueError (''Training dataset is missing feature columns: '' @ join '', '' (missing_columns f))), w)
     else
       let trained = (case trained_at of None \<Rightarrow> now | Some t \<Rightarrow> t);
           version = make_model_version (ml_model_name st) trained;
           m = training_row st i now2 version (path_join (ml_artifact_dir st) (version @ ''.joblib'')) (length (fr_rows f))
       in case model_create m (mw_db w) of
         Inl x \<Rightarrow> (Inl x, w)
       | Inr d \<Rightarrow>
         (case fit_and_store fit dump_error st m (select_columns feature_columns f) (mw_files w) of
            Inl x \<Rightarrow> (Inl x, w\<lparr>mw_db := save_model (m\<lparr>mr_status := ''failed''\<rparr>) d\<rparr>)
          | Inr files \<Rightarrow> (case activate m trained d of (m', d') \<Rightarrow> (Inr m', w\<lparr>mw_db := d', mw_files := files\<rparr>))))"

text \<open>The command (\<^verbatim>\<open>scripts/train_isolation_forest.py\<close>): it commits on success; on an exception the session is left without.\<close>

definition run_training :: "(rat list list \<Rightarrow> exn + 'm) \<Rightarrow> exn option \<Rightarrow> settings \<Rightarrow> uuid \<Rightarrow> datetime \<Rightarrow> datetime \<Rightarrow>
    frame \<Rightarrow> 'm ml_world \<Rightarrow> (exn + string) \<times> 'm ml_world" where
  "run_training fit dump_error st i now now2 f w =
    (case train_model fit dump_error st i now None now2 f w of
       (Inl x, w') \<Rightarrow> (Inl x, w'\<lparr>mw_db := mw_db w\<rparr>)
     | (Inr m, w') \<Rightarrow> (Inr (mr_model_version m), w'))"

section \<open>Scoring\<close>

type_synonym 'm model_cache = "(uuid \<times> (string \<times> 'm artifact_value) list) option"

definition invalid_artifact :: exn where
  "invalid_artifact = ValueError ''Active ML artifact has an invalid format''"

definition read_artifact :: "(string \<Rightarrow> 'm stored option) \<Rightarrow> string \<Rightarrow> exn + (string \<times> 'm artifact_value) list" where
  "read_artifact files path = then_do (joblib_load files path) (\<lambda>s. case s of
     None \<Rightarrow> Inl invalid_artifact
   | Some a \<Rightarrow> if ''model'' \<in> fst ` set a then Inr a else Inl invalid_artifact)"

definition load_artifact :: "(string \<Rightarrow> 'm stored option) \<Rightarrow> uuid \<Rightarrow> string \<Rightarrow> 'm model_cache \<Rightarrow>
    exn + (string \<times> 'm artifact_value) list \<times> 'm model_cache" where
  "load_artifact files i path c =
    (case (case c of Some (j, a) \<Rightarrow> (if j = i then Some a else None) | None \<Rightarrow> None) of
       Some a \<Rightarrow> Inr (a, c)
     | None \<Rightarrow> then_do (read_artifact files path) (\<lambda>a. Inr (a, Some (i, a))))"

definition contract_error :: exn where
  "contract_error = ValueError ''Active ML artifact does not match the configured v1 feature contract''"

text \<open>\<open>decide\<close> is the fitted model's \<^verbatim>\<open>decision_function\<close> on one row.\<close>

definition score_event :: "('m \<Rightarrow> rat list \<Rightarrow> exn + rat) \<Rightarrow> settings \<Rightarrow> (string \<Rightarrow> 'm stored option) \<Rightarrow> db \<Rightarrow> 'm model_cache \<Rightarrow>
    event \<Rightarrow> exn + anomaly_score option \<times> 'm model_cache" where
  "score_event decide st files d c e =
    (if \<not> ml_enabled st then Inr (None, c)
     else (case get_active (ml_model_name st) d of None \<Rightarrow> Inr (None, c)
     | Some m \<Rightarrow>
       then_do (load_artifact files (mr_id m) (mr_artifact_path m) c) (\<lambda>(a, c').
         if map_of a ''feature_columns'' \<noteq> Some (Texts feature_columns)
            \<or> map_of a ''feature_version'' \<noteq> Some (Text (mr_feature_version m))
         then Inl contract_error
         else
           then_do (event_window d e (ml_aggregation_window_seconds st)) (\<lambda>events.
           let features = build_feature_vector e events
           in (case map_of a ''model'' of
                 Some (Fitted model) \<Rightarrow>
                   then_do (decide model (map snd features)) (\<lambda>s.
                     Inr (Some \<lparr>sc_score = s * anomaly_score_scale, sc_threshold = ml_anomaly_alert_threshold st,
                       sc_model_version = mr_model_version m, sc_feature_version = mr_feature_version m,
                       sc_features = features\<rparr>, c'))
               | _ \<Rightarrow> Inl AttributeError)))))"

text \<open>The service as the detection context sees it.\<close>

definition ml_inference :: "('m \<Rightarrow> rat list \<Rightarrow> exn + rat) \<Rightarrow> settings \<Rightarrow> (string \<Rightarrow> 'm stored option) \<Rightarrow> db \<Rightarrow>
    event \<Rightarrow> exn + anomaly_score option" where
  "ml_inference decide st files d e = map_sum id fst (score_event decide st files d None e)"

section \<open>Evaluation\<close>

definition mean :: "rat list \<Rightarrow> rat" where
  "mean xs = sum_list xs / of_nat (length xs)"

definition median :: "rat list \<Rightarrow> rat" where
  "median xs = (let s = sort xs; n = length s
     in if odd n then s ! (n div 2) else (s ! (n div 2 - 1) + s ! (n div 2)) / 2)"

record evaluation_metrics =
  em_normal_mean_score :: rat
  em_normal_median_score :: rat
  em_abnormal_mean_score :: rat
  em_abnormal_median_score :: rat
  em_normal_below_threshold_ratio :: rat
  em_abnormal_below_threshold_ratio :: rat
  em_threshold :: rat
  em_passed :: bool

text \<open>The scores of a frame; scikit-learn refuses an empty one.\<close>

fun scores_of :: "('m \<Rightarrow> rat list \<Rightarrow> exn + rat) \<Rightarrow> 'm \<Rightarrow> rat list list \<Rightarrow> exn + rat list" where
  "scores_of decide model [] = Inl (ValueError ''Found array with 0 sample(s)'')"
| "scores_of decide model [r] = then_do (decide model r) (\<lambda>s. Inr [s * anomaly_score_scale])"
| "scores_of decide model (r # r' # rs) = then_do (decide model r) (\<lambda>s.
     then_do (scores_of decide model (r' # rs)) (\<lambda>ss. Inr (s * anomaly_score_scale # ss)))"

definition evaluate_scores :: "rat \<Rightarrow> rat list \<Rightarrow> rat list \<Rightarrow> evaluation_metrics" where
  "evaluate_scores threshold normal abnormal =
    (let normal_ratio = mean (map (\<lambda>s. flag (s < threshold)) normal);
         abnormal_ratio = mean (map (\<lambda>s. flag (s < threshold)) abnormal)
     in \<lparr>em_normal_mean_score = mean normal, em_normal_median_score = median normal,
         em_abnormal_mean_score = mean abnormal, em_abnormal_median_score = median abnormal,
         em_normal_below_threshold_ratio = normal_ratio, em_abnormal_below_threshold_ratio = abnormal_ratio,
         em_threshold = threshold,
         em_passed = (mean abnormal < mean normal \<and> median abnormal < median normal \<and> 0 < abnormal_ratio \<and> normal_ratio < 1 / 2)\<rparr>)"

definition evaluate_frames :: "('m \<Rightarrow> rat list \<Rightarrow> exn + rat) \<Rightarrow> (string \<Rightarrow> 'm stored option) \<Rightarrow> string \<Rightarrow> frame \<Rightarrow> frame \<Rightarrow> rat \<Rightarrow>
    exn + evaluation_metrics" where
  "evaluate_frames decide files path normal abnormal threshold =
    then_do (joblib_load files path) (\<lambda>s. case s of None \<Rightarrow> Inl AttributeError | Some a \<Rightarrow>
      if map_of a ''feature_columns'' \<noteq> Some (Texts feature_columns)
      then Inl (ValueError ''Model artifact feature columns do not match v1'')
      else (case map_of a ''model'' of
          None \<Rightarrow> Inl KeyError
        | Some (Fitted model) \<Rightarrow>
            then_do (scores_of decide model (select_columns feature_columns normal)) (\<lambda>ns.
            then_do (scores_of decide model (select_columns feature_columns abnormal)) (\<lambda>abs.
              Inr (evaluate_scores threshold ns abs)))
        | _ \<Rightarrow> Inl AttributeError))"

definition metrics_dict :: "evaluation_metrics \<Rightarrow> (string \<times> json) list" where
  "metrics_dict m =
    [(''normal_mean_score'', JFloat (em_normal_mean_score m)), (''normal_median_score'', JFloat (em_normal_median_score m)),
     (''abnormal_mean_score'', JFloat (em_abnormal_mean_score m)), (''abnormal_median_score'', JFloat (em_abnormal_median_score m)),
     (''normal_below_threshold_ratio'', JFloat (em_normal_below_threshold_ratio m)),
     (''abnormal_below_threshold_ratio'', JFloat (em_abnormal_below_threshold_ratio m)),
     (''threshold'', JFloat (em_threshold m)), (''passed'', JBool (em_passed m))]"

definition persist_evaluation :: "model_registry \<Rightarrow> evaluation_metrics \<Rightarrow> db \<Rightarrow> db" where
  "persist_evaluation m metrics d = update_evaluation_metrics m (metrics_dict metrics) d"

text \<open>A row of the synthetic evaluation data (\<^verbatim>\<open>synthetic.py\<close>); the counts are drawn by numpy.\<close>

definition synthetic_row :: "int \<Rightarrow> int \<Rightarrow> int \<Rightarrow> int \<Rightarrow> int \<Rightarrow> int \<Rightarrow> int \<Rightarrow> int \<Rightarrow> (string \<times> rat) list" where
  "synthetic_row event_count identity_count distinct_users failures api_errors bytes_received privilege_changes downloads =
    [(''event_type_count_window'', of_int event_count), (''category_count_window'', of_int event_count),
     (''source_ip_event_count_window'', of_int identity_count),
     (''username_event_count_window'', of_int (max 1 (identity_count div max 1 distinct_users))),
     (''source_ip_distinct_usernames_window'', of_int distinct_users), (''username_distinct_source_ips_window'', 1),
     (''login_failure_count_window'', of_int failures),
     (''login_success_count_window'', of_int (max 0 (event_count - failures - api_errors))),
     (''privilege_change_count_window'', of_int privilege_changes), (''file_download_count_window'', of_int downloads),
     (''api_error_count_window'', of_int api_errors), (''bytes_sent_sum_window'', of_int (bytes_received div 10)),
     (''bytes_received_sum_window'', of_int bytes_received), (''is_authentication_event'', 1),
     (''is_file_access_event'', flag (0 < downloads)), (''is_privilege_change_event'', flag (0 < privilege_changes)),
     (''is_api_event'', flag (0 < api_errors)), (''is_failure_status'', flag (0 < failures \<or> 0 < api_errors))]"

section \<open>The training windows\<close>

lemma advance_left_window:
  assumes "left \<le> index" "\<forall>k < left. ev_timestamp (ordered ! k) < cutoff" "cutoff \<le> ev_timestamp (ordered ! index)"
  shows "advance_left ordered cutoff index left \<le> index \<and>
    (\<forall>k < advance_left ordered cutoff index left. ev_timestamp (ordered ! k) < cutoff) \<and>
    cutoff \<le> ev_timestamp (ordered ! advance_left ordered cutoff index left)"
  using assms
proof (induction ordered cutoff index left rule: advance_left.induct)
  case (1 ordered cutoff index left)
  show ?case
  proof (cases "left < index \<and> ev_timestamp (ordered ! left) < cutoff")
    case True
    then have "\<forall>k < Suc left. ev_timestamp (ordered ! k) < cutoff" using "1.prems"(2) by (auto simp: less_Suc_eq)
    then show ?thesis using "1.IH" [OF True] True "1.prems"(3) by (simp add: advance_left.simps [of ordered cutoff index left])
  next
    case False
    then have "advance_left ordered cutoff index left = left" by (simp add: advance_left.simps)
    then show ?thesis using False "1.prems" by (auto simp: le_less)
  qed
qed

lemma window_is_filter:
  assumes sorted: "sorted (map ev_timestamp xs)" and l: "l \<le> length xs"
    and before: "\<And>k. k < l \<Longrightarrow> ev_timestamp (xs ! k) < cutoff"
    and at: "l < length xs \<Longrightarrow> cutoff \<le> ev_timestamp (xs ! l)"
  shows "drop l xs = filter (\<lambda>x. cutoff \<le> ev_timestamp x) xs"
proof -
  have "filter (\<lambda>x. cutoff \<le> ev_timestamp x) (take l xs) = []"
    using before l by (auto simp: filter_empty_conv in_set_conv_nth not_le)
  moreover have after: "cutoff \<le> ev_timestamp x" if x: "x \<in> set (drop l xs)" for x
  proof -
    obtain j where j: "j < length xs - l" "x = xs ! (l + j)" using x by (auto simp: in_set_conv_nth)
    then have "ev_timestamp (xs ! l) \<le> ev_timestamp (xs ! (l + j))"
      using sorted_nth_mono [OF sorted, of l "l + j"] by simp
    moreover have "l < length xs" using j(1) by simp
    ultimately show ?thesis using at j(2) by simp
  qed
  then have "filter (\<lambda>x. cutoff \<le> ev_timestamp x) (drop l xs) = drop l xs"
    by simp
  ultimately show ?thesis
    by (metis append_take_drop_id filter_append append_Nil)
qed

lemma dataset_rows_windows:
  assumes "dataset_rows w ordered left index = Inr rows" "sorted (map ev_timestamp ordered)" "0 \<le> w" "left \<le> index"
    and "\<And>k. index < length ordered \<Longrightarrow> k < left \<Longrightarrow> ev_timestamp (ordered ! k) < ev_timestamp (ordered ! index) - seconds w"
  shows "rows = map (\<lambda>j. build_feature_vector (ordered ! j)
      (filter (\<lambda>x. ev_timestamp (ordered ! j) - seconds w \<le> ev_timestamp x) (take (Suc j) ordered))) [index..<length ordered]"
    and "\<forall>j \<in> {index..<length ordered}. datetime_ok (ev_timestamp (ordered ! j) - seconds w)"
proof -
  have "rows = map (\<lambda>j. build_feature_vector (ordered ! j)
      (filter (\<lambda>x. ev_timestamp (ordered ! j) - seconds w \<le> ev_timestamp x) (take (Suc j) ordered))) [index..<length ordered] \<and>
    (\<forall>j \<in> {index..<length ordered}. datetime_ok (ev_timestamp (ordered ! j) - seconds w))"
    using assms
  proof (induction w ordered left index arbitrary: rows rule: dataset_rows.induct)
    case (1 w ordered left index)
    show ?case
    proof (cases "index < length ordered")
      case False
      then show ?thesis using "1.prems"(1) by (subst (asm) dataset_rows.simps) simp
    next
      case True
      let ?e = "ordered ! index"
      let ?cut = "ev_timestamp ?e - seconds w"
      let ?l = "advance_left ordered ?cut index left"
      obtain rest where ok: "datetime_ok ?cut" and rest: "dataset_rows w ordered ?l (Suc index) = Inr rest"
        and rows: "rows = build_feature_vector ?e (drop ?l (take (Suc index) ordered)) # rest"
        using "1.prems"(1) True by (subst (asm) dataset_rows.simps) (auto simp: Let_def)
      have cut: "?cut \<le> ev_timestamp ?e" using "1.prems"(3) by simp
      have l: "?l \<le> index" and before: "\<And>k. k < ?l \<Longrightarrow> ev_timestamp (ordered ! k) < ?cut"
        and at: "?cut \<le> ev_timestamp (ordered ! ?l)"
        using advance_left_window [of left index ordered ?cut] "1.prems"(4,5) True cut by simp_all
      have "drop ?l (take (Suc index) ordered) = filter (\<lambda>x. ?cut \<le> ev_timestamp x) (take (Suc index) ordered)"
      proof (rule window_is_filter)
        show "sorted (map ev_timestamp (take (Suc index) ordered))"
          using "1.prems"(2) by (simp add: take_map [symmetric] sorted_wrt_take)
      qed (use at before l True in auto)
      moreover have "rest = map (\<lambda>j. build_feature_vector (ordered ! j)
        (filter (\<lambda>x. ev_timestamp (ordered ! j) - seconds w \<le> ev_timestamp x) (take (Suc j) ordered))) [Suc index..<length ordered] \<and>
        (\<forall>j \<in> {Suc index..<length ordered}. datetime_ok (ev_timestamp (ordered ! j) - seconds w))"
      proof (rule "1.IH" [OF True refl _ refl rest "1.prems"(2,3)])
        show "checked_datetime ?cut = Inr ?cut" using ok by simp
        show "?l \<le> Suc index" using l by simp
        fix k assume more: "Suc index < length ordered" and k: "k < ?l"
        have "ev_timestamp ?e \<le> ev_timestamp (ordered ! Suc index)"
          using sorted_nth_mono [OF "1.prems"(2), of index "Suc index"] more by simp
        then show "ev_timestamp (ordered ! k) < ev_timestamp (ordered ! Suc index) - seconds w"
          using before [OF k] by simp
      qed
      moreover have "j = index \<or> j \<in> {Suc index..<length ordered}" if "j \<in> {index..<length ordered}" for j
        using that by auto
      ultimately show ?thesis
        using True ok by (fastforce simp: rows upt_conv_Cons)
    qed
  qed
  then show "rows = map (\<lambda>j. build_feature_vector (ordered ! j)
      (filter (\<lambda>x. ev_timestamp (ordered ! j) - seconds w \<le> ev_timestamp x) (take (Suc j) ordered))) [index..<length ordered]"
    and "\<forall>j \<in> {index..<length ordered}. datetime_ok (ev_timestamp (ordered ! j) - seconds w)" by blast+
qed

lemma dataset_rows_total:
  "\<forall>e \<in> set ordered. datetime_ok (ev_timestamp e - seconds w) \<Longrightarrow> \<exists>rows. dataset_rows w ordered left index = Inr rows"
proof (induction w ordered left index rule: dataset_rows.induct)
  case (1 w ordered left index)
  show ?case
  proof (cases "index < length ordered")
    case True
    then have ok: "checked_datetime (ev_timestamp (ordered ! index) - seconds w) = Inr (ev_timestamp (ordered ! index) - seconds w)"
      using "1.prems" by simp
    from "1.IH" [OF True refl ok refl "1.prems"] True ok show ?thesis
      by (subst dataset_rows.simps) (auto simp: Let_def)
  qed (simp add: dataset_rows.simps)
qed

lemma map_e_map: "(\<And>x. x \<in> set xs \<Longrightarrow> f x = Inr (g x)) \<Longrightarrow> map_e f xs = Inr (map g xs)"
  by (induction xs) auto

lemma strict_prefix_filter:
  assumes "sorted_wrt (<) (map f xs)" "j < length xs"
  shows "filter (\<lambda>x. f x \<le> (f (xs ! j) :: 'k :: linorder)) xs = take (Suc j) xs"
  using assms
proof (induction xs arbitrary: j)
  case (Cons x xs)
  then show ?case
  proof (cases j)
    case 0
    then show ?thesis using Cons.prems by (auto simp: filter_empty_conv not_le)
  next
    case (Suc i)
    then have "f x \<le> f (xs ! i)" using Cons.prems by (auto simp: less_imp_le)
    then show ?thesis using Cons Suc by simp
  qed
qed simp

lemma sort_key_fst:
  "sorted (map f (sort_key (\<lambda>x. (f x, g x)) xs))"
  using sorted_sort_key [of "\<lambda>x. (f x, g x)" xs] unfolding sorted_map
  by (rule sorted_wrt_mono_rel [rotated]) (auto simp: less_eq_prod_def)

text \<open>
  C18: a model is trained on what it is later asked about. If no two stored events have the same
  time and the window is not negative, every row of a training set that is built holds the features
  scoring would compute for its event, over the events of the event's window that the lookback
  period includes; and scoring can open each of these windows (none begins outside the calendar).
  Events with the same time are the exception: the sliding window of training may leave out one
  that scoring includes.
\<close>

theorem training_matches_scoring:
  assumes "distinct (map ev_timestamp (db_events d))" and "0 \<le> window_seconds"
    and "generate_dataset d end_time lookback_days window_seconds = Inr f"
    and "start_time = end_time - seconds (86400 * lookback_days)"
  shows "\<exists>windows. map_e (\<lambda>e. event_window d e window_seconds) (list_between start_time end_time d) = Inr windows \<and>
    fr_rows f = map (\<lambda>(e, es). map snd (build_feature_vector e (filter (\<lambda>x. start_time \<le> ev_timestamp x) es)))
      (zip (list_between start_time end_time d) windows)"
proof -
  let ?key = "\<lambda>e. (ev_timestamp e, ev_created_at e)"
  define window where "window = (\<lambda>e :: event. list_between (ev_timestamp e - seconds window_seconds) (ev_timestamp e) d)"
  define L where "L = list_between start_time end_time d"
  have L: "L = filter (\<lambda>e. start_time \<le> ev_timestamp e \<and> ev_timestamp e \<le> end_time) (sort_key ?key (db_events d))"
    by (simp add: L_def list_between_def filter_sort)
  have sorted: "sorted (map ev_timestamp L)" unfolding L_def list_between_def by (rule sort_key_fst)
  moreover have "distinct (map ev_timestamp L)"
    using assms(1) by (auto simp: L_def list_between_def distinct_map intro: inj_on_subset)
  ultimately have strict: "sorted_wrt (<) (map ev_timestamp L)" by (simp add: strict_sorted_iff)
  have resort: "sort_key ?key L = L" by (simp add: L_def list_between_def sort_key_id_if_sorted)
  obtain rows where rows: "dataset_rows window_seconds L 0 0 = Inr rows" and f: "fr_rows f = map (map snd) rows"
    using assms(3) by (auto simp: generate_dataset_def build_dataset_def resort L_def [symmetric] simp flip: assms(4))
  note W = dataset_rows_windows [OF rows sorted assms(2) order.refl, simplified]
  have same: "filter (\<lambda>x. ev_timestamp (L ! j) - seconds window_seconds \<le> ev_timestamp x) (take (Suc j) L) =
      filter (\<lambda>x. start_time \<le> ev_timestamp x) (window (L ! j))" if j: "j < length L" for j
  proof -
    define t where "t = ev_timestamp (L ! j)"
    have t: "t \<le> end_time" using nth_mem [OF j] by (auto simp: L t_def)
    have "take (Suc j) L = filter (\<lambda>x. ev_timestamp x \<le> t) L"
      unfolding t_def by (rule strict_prefix_filter [OF strict j, symmetric])
    then have "filter (\<lambda>x. t - seconds window_seconds \<le> ev_timestamp x) (take (Suc j) L) =
        filter (\<lambda>x. start_time \<le> ev_timestamp x) (filter (\<lambda>x. t - seconds window_seconds \<le> ev_timestamp x \<and> ev_timestamp x \<le> t)
          (sort_key ?key (db_events d)))"
      using t by (simp only: L filter_filter) (auto intro!: filter_cong)
    then show ?thesis by (simp add: window_def list_between_def filter_sort flip: t_def)
  qed
  have "map_e (\<lambda>e. event_window d e window_seconds) L = Inr (map window L)"
    by (rule map_e_map) (use W(2) in \<open>auto simp: event_window_def window_def in_set_conv_nth\<close>)
  moreover have "fr_rows f = map (\<lambda>(e, es). map snd (build_feature_vector e (filter (\<lambda>x. start_time \<le> ev_timestamp x) es))) (zip L (map window L))"
    unfolding f W(1) by (rule nth_equalityI) (simp_all add: same)
  ultimately show ?thesis unfolding L_def by blast
qed

text \<open>Three events of one source within the window of the last.\<close>

definition example_window_db :: db where
  "example_window_db = empty_db\<lparr>db_events := map (\<lambda>n. example_event n ''login_failure'' (Some ''10.0.0.9'') (Some ''eve'') (seconds (uint n))) [3, 1, 2]\<rparr>"

theorem training_matches_scoring_witness:
  "\<exists>f windows. generate_dataset example_window_db (seconds 10) 1 300 = Inr f \<and>
     map_e (\<lambda>e. event_window example_window_db e 300) (list_between (seconds (- 86390)) (seconds 10) example_window_db) = Inr windows \<and>
     map length windows = [1, 2, 3] \<and> length (fr_rows f) = 3 \<and>
     fr_rows f = map (\<lambda>(e, es). map snd (build_feature_vector e (filter (\<lambda>x. seconds (- 86390) \<le> ev_timestamp x) es)))
       (zip (list_between (seconds (- 86390)) (seconds 10) example_window_db) windows)"
proof -
  let ?L = "list_between (seconds (- 86390)) (seconds 10) example_window_db"
  have distinct: "distinct (map ev_timestamp (db_events example_window_db))"
    by (simp add: example_window_db_def example_event_def seconds_def)
  have L: "map ev_timestamp ?L = [seconds 1, seconds 2, seconds 3]"
    by (simp add: list_between_def example_window_db_def example_event_def seconds_def)
  then have "\<forall>e \<in> set (sort_key (\<lambda>e. (ev_timestamp e, ev_created_at e)) ?L). datetime_ok (ev_timestamp e - seconds 300)"
    using arg_cong [OF L, of set] by (auto simp: seconds_def datetime_ok_def)
  then obtain rows where "dataset_rows 300 (sort_key (\<lambda>e. (ev_timestamp e, ev_created_at e)) ?L) 0 0 = Inr rows"
    using dataset_rows_total by blast
  then obtain f where f: "generate_dataset example_window_db (seconds 10) 1 300 = Inr f"
    by (simp add: generate_dataset_def build_dataset_def checked_datetime_def datetime_ok_def seconds_def)
  from training_matches_scoring [OF distinct _ f, of "seconds (- 86390)"]
  obtain windows where w: "map_e (\<lambda>e. event_window example_window_db e 300) ?L = Inr windows"
    and rows: "fr_rows f = map (\<lambda>(e, es). map snd (build_feature_vector e (filter (\<lambda>x. seconds (- 86390) \<le> ev_timestamp x) es))) (zip ?L windows)"
    by (auto simp: seconds_def)
  have lens: "map length windows = [1, 2, 3]"
    using w by (simp add: list_between_def example_window_db_def example_event_def seconds_def event_window_def checked_datetime_def datetime_ok_def)
      (auto)
  then have "length windows = 3" by (metis length_map length_Cons list.size(3) numeral_3_eq_3)
  then have "length (fr_rows f) = 3" using arg_cong [OF L, of length] by (simp add: rows)
  with lens f w rows show ?thesis by (intro exI [of _ f] exI [of _ windows]) (simp only: simp_thms)
qed

section \<open>The registry keeps one active model\<close>

definition registry_ok :: "db \<Rightarrow> bool" where
  "registry_ok d = (distinct (map mr_id (db_model_registry d)) \<and> (\<forall>name. length (active_rows name d) \<le> 1))"

lemma filter_map_same:
  "(\<And>x. x \<in> set xs \<Longrightarrow> p (f x) = p x) \<Longrightarrow> (\<And>x. x \<in> set xs \<Longrightarrow> p x \<Longrightarrow> f x = x) \<Longrightarrow> filter p (map f xs) = filter p xs"
  by (induction xs) auto

lemma active_rows_create:
  "model_create m d = Inr d' \<Longrightarrow> mr_status m \<noteq> ''active'' \<Longrightarrow> active_rows name d' = active_rows name d"
  by (auto simp: model_create_def active_rows_def add_model_def split: if_splits)

lemma registry_ok_create: "model_create m d = Inr d' \<Longrightarrow> mr_status m \<noteq> ''active'' \<Longrightarrow> registry_ok d \<Longrightarrow> registry_ok d'"
  using active_rows_create [of m d d'] by (auto simp: registry_ok_def model_create_def add_model_def split: if_splits)

definition activated_row :: "model_registry \<Rightarrow> model_registry \<Rightarrow> model_registry \<Rightarrow> model_registry" where
  "activated_row m m' x = (if mr_id x = mr_id m then m'
     else if mr_model_name x = mr_model_name m \<and> mr_status x = ''active'' then x\<lparr>mr_status := ''inactive''\<rparr> else x)"

lemma activate_rows:
  assumes "activate m t d = (m', d')"
  shows "m' = m\<lparr>mr_status := ''active'', mr_trained_at := Some t\<rparr>"
    "db_model_registry d' = map (activated_row m m') (db_model_registry d)"
    "map mr_id (db_model_registry d') = map mr_id (db_model_registry d)"
    "d' = d\<lparr>db_model_registry := db_model_registry d'\<rparr>"
proof -
  show m': "m' = m\<lparr>mr_status := ''active'', mr_trained_at := Some t\<rparr>" using assms by (simp add: activate_def Let_def)
  show rows: "db_model_registry d' = map (activated_row m m') (db_model_registry d)"
    using assms by (auto simp: activate_def Let_def save_model_def table_save_def update_where_def activated_row_def)
  show "map mr_id (db_model_registry d') = map mr_id (db_model_registry d)"
    unfolding rows by (simp add: activated_row_def m')
  show "d' = d\<lparr>db_model_registry := db_model_registry d'\<rparr>"
    using assms by (auto simp: activate_def Let_def save_model_def)
qed

lemma filter_key_single:
  "distinct (map key xs) \<Longrightarrow> x \<in> set xs \<Longrightarrow> filter (\<lambda>y. key y = key x) xs = [x]"
  by (induction xs) (auto simp: filter_empty_conv image_iff)

text \<open>After an activation the name has exactly the activated row as its active one.\<close>

lemma active_rows_activate:
  assumes d: "distinct (map mr_id (db_model_registry d))" "mr_id m \<in> mr_id ` set (db_model_registry d)"
    and a: "activate m t d = (m', d')"
  shows "active_rows (mr_model_name m) d' = [m']"
proof -
  obtain x where x: "x \<in> set (db_model_registry d)" "mr_id m = mr_id x" using d(2) by auto
  have "mr_model_name (activated_row m m' y) = mr_model_name m \<and> mr_status (activated_row m m' y) = ''active''
      \<longleftrightarrow> mr_id y = mr_id x" for y
    by (simp add: activated_row_def activate_rows(1) [OF a] x(2))
  then have "active_rows (mr_model_name m) d' = map (activated_row m m') (filter (\<lambda>y. mr_id y = mr_id x) (db_model_registry d))"
    by (simp add: active_rows_def activate_rows(2) [OF a] filter_map comp_def)
  then show ?thesis using filter_key_single [OF d(1) x(1)] by (simp add: activated_row_def x(2))
qed

lemma get_active_single: "active_rows name d = [m] \<Longrightarrow> get_active name d = Some m"
  by (simp add: get_active_def)

lemma registry_ok_activate:
  assumes ok: "registry_ok d" and m: "mr_id m \<in> mr_id ` set (db_model_registry d)"
    and same: "\<forall>x \<in> set (db_model_registry d). mr_id x = mr_id m \<longrightarrow> mr_model_name x = mr_model_name m"
    and a: "activate m t d = (m', d')"
  shows "registry_ok d'"
proof -
  have "length (active_rows name d') \<le> 1" for name
  proof (cases "name = mr_model_name m")
    case True
    then show ?thesis using active_rows_activate [OF _ m a] ok by (simp add: registry_ok_def)
  next
    case False
    have "active_rows name d' = active_rows name d"
      unfolding active_rows_def activate_rows(2) [OF a]
    proof (rule filter_map_same)
      fix x assume x: "x \<in> set (db_model_registry d)"
      show "(mr_model_name (activated_row m m' x) = name \<and> mr_status (activated_row m m' x) = ''active'') =
          (mr_model_name x = name \<and> mr_status x = ''active'')"
        using same x False by (simp add: activated_row_def activate_rows(1) [OF a])
      show "mr_model_name x = name \<and> mr_status x = ''active'' \<Longrightarrow> activated_row m m' x = x"
        using same x False by (auto simp: activated_row_def)
    qed
    then show ?thesis using ok by (simp add: registry_ok_def)
  qed
  then show ?thesis using activate_rows(3) [OF a] ok by (simp add: registry_ok_def)
qed

section \<open>From training to scoring\<close>

lemma model_create_facts:
  assumes "model_create m d = Inr d'"
  shows "db_model_registry d' = db_model_registry d @ [m]" "db_events d' = db_events d"
    "mr_id m \<notin> mr_id ` set (db_model_registry d)"
  using assms by (auto simp: model_create_def add_model_def split: if_splits)

lemma load_artifact_cached:
  assumes "\<forall>j b. c = Some (j, b) \<longrightarrow> j = i \<longrightarrow> read_artifact files path = Inr b"
  shows "map_sum id fst (load_artifact files i path c) = read_artifact files path"
  using assms by (cases "read_artifact files path") (auto simp: load_artifact_def split: option.splits if_splits)

lemma train_model_Inr:
  assumes "train_model fit dump_error st i now trained_at now2 f w = (Inr m', w')"
  obtains m d model where "model_create m (mw_db w) = Inr d" "fit (select_columns feature_columns f) = Inr model"
    "mr_status m = ''training''" "mr_model_name m = ml_model_name st" "mr_feature_version m = ml_feature_version st"
    "activate m (case trained_at of None \<Rightarrow> now | Some t \<Rightarrow> t) d = (m', mw_db w')"
    "mw_files w' (mr_artifact_path m) = Some (anomaly_artifact st (mr_model_version m) model)"
    "ml_min_training_rows st \<le> int (length (fr_rows f))"
  using assms
  by (auto simp: train_model_def Let_def fit_and_store_def training_row_def not_less split: if_splits sum.splits option.splits prod.splits)

text \<open>
  The service keeps the file it read last. As long as model files do not change, scoring with
  what was kept is scoring with a fresh service, and what is kept stays right.
\<close>

definition cache_ok :: "(string \<Rightarrow> 'm stored option) \<Rightarrow> db \<Rightarrow> 'm model_cache \<Rightarrow> bool" where
  "cache_ok files d c = (\<forall>j b. c = Some (j, b) \<longrightarrow>
     (\<forall>m \<in> set (db_model_registry d). mr_id m = j \<longrightarrow> read_artifact files (mr_artifact_path m) = Inr b))"

lemma get_active_mem:
  "get_active name d = Some m \<Longrightarrow> m \<in> set (db_model_registry d) \<and> mr_model_name m = name \<and> mr_status m = ''active''"
proof -
  assume "get_active name d = Some m"
  then have "m \<in> set (active_rows name d)"
    by (auto simp: get_active_def split: list.splits) (metis list.set_intros(1) set_sort)
  then show ?thesis by (simp add: active_rows_def)
qed

lemma cached_scores_agree:
  assumes ok: "cache_ok files d c" and ids: "distinct (map mr_id (db_model_registry d))"
  shows "map_sum id fst (score_event decide st files d c e) = ml_inference decide st files d e"
    "score_event decide st files d c e = Inr (r, c') \<Longrightarrow> cache_ok files d c'"
proof -
  show "map_sum id fst (score_event decide st files d c e) = ml_inference decide st files d e"
  proof (cases "get_active (ml_model_name st) d")
    case (Some m)
    have "\<forall>j b. c = Some (j, b) \<longrightarrow> j = mr_id m \<longrightarrow> read_artifact files (mr_artifact_path m) = Inr b"
      using ok get_active_mem [OF Some] by (auto simp: cache_ok_def)
    then have "map_sum id fst (load_artifact files (mr_id m) (mr_artifact_path m) c) =
        map_sum id fst (load_artifact files (mr_id m) (mr_artifact_path m) None)"
      by (simp add: load_artifact_cached)
    then show ?thesis
      by (cases "load_artifact files (mr_id m) (mr_artifact_path m) c"; cases "load_artifact files (mr_id m) (mr_artifact_path m) None")
         (auto simp: ml_inference_def score_event_def Some Let_def then_do_def split: sum.splits option.splits artifact_value.splits)
  qed (simp add: ml_inference_def score_event_def)
  have "cache_ok files d (Some (mr_id m, b))" if "get_active (ml_model_name st) d = Some m" "read_artifact files (mr_artifact_path m) = Inr b" for m b
    using that get_active_mem [OF that(1)] ids by (auto simp: cache_ok_def distinct_map inj_on_def)
  then show "score_event decide st files d c e = Inr (r, c') \<Longrightarrow> cache_ok files d c'"
    using ok by (auto simp: score_event_def Let_def load_artifact_def then_do_def
        split: if_splits option.splits sum.splits artifact_value.splits prod.splits)
qed

text \<open>
  once \<^verbatim>\<open>train_model\<close> has returned a model, scoring asks that very model, on the features of
  the event's window, and never finds the registry and the file in disagreement.
\<close>

theorem trained_model_scores:
  assumes "train_model fit dump_error st i now trained_at now2 f w = (Inr m, w')"
    and "ml_enabled st" and "distinct (map mr_id (db_model_registry (mw_db w)))"
  shows "\<exists>model. fit (select_columns feature_columns f) = Inr model \<and>
    (\<forall>decide e. ml_inference decide st (mw_files w') (mw_db w') e =
      then_do (event_window (mw_db w) e (ml_aggregation_window_seconds st)) (\<lambda>es.
      then_do (decide model (map snd (build_feature_vector e es))) (\<lambda>s.
        Inr (Some \<lparr>sc_score = s * anomaly_score_scale, sc_threshold = ml_anomaly_alert_threshold st,
          sc_model_version = mr_model_version m, sc_feature_version = ml_feature_version st,
          sc_features = build_feature_vector e es\<rparr>))))"
proof -
  obtain m0 d model where create: "model_create m0 (mw_db w) = Inr d" and fit: "fit (select_columns feature_columns f) = Inr model"
    and row: "mr_model_name m0 = ml_model_name st" "mr_feature_version m0 = ml_feature_version st"
    and act: "activate m0 (case trained_at of None \<Rightarrow> now | Some t \<Rightarrow> t) d = (m, mw_db w')"
    and stored: "mw_files w' (mr_artifact_path m0) = Some (anomaly_artifact st (mr_model_version m0) model)"
    by (rule train_model_Inr [OF assms(1)])
  note d = model_create_facts [OF create]
  have m: "m = m0\<lparr>mr_status := ''active'', mr_trained_at := Some (case trained_at of None \<Rightarrow> now | Some t \<Rightarrow> t)\<rparr>"
    using activate_rows(1) [OF act] .
  have "distinct (map mr_id (db_model_registry d))" "mr_id m0 \<in> mr_id ` set (db_model_registry d)"
    using d(1,3) assms(3) by auto
  then have active: "get_active (ml_model_name st) (mw_db w') = Some m"
    using get_active_single [OF active_rows_activate [OF _ _ act]] row(1) by simp
  have "db_events (mw_db w') = db_events (mw_db w)"
    using arg_cong [OF activate_rows(4) [OF act], of db_events] d(2) by simp
  then have window: "event_window (mw_db w') e n = event_window (mw_db w) e n" for e n
    by (simp add: event_window_def list_between_def)
  have "load_artifact (mw_files w') (mr_id m) (mr_artifact_path m) None =
      Inr (the (anomaly_artifact st (mr_model_version m) model), Some (mr_id m, the (anomaly_artifact st (mr_model_version m) model)))"
    by (simp add: load_artifact_def read_artifact_def joblib_load_def m stored anomaly_artifact_def)
  then have "ml_inference decide st (mw_files w') (mw_db w') e =
      then_do (event_window (mw_db w) e (ml_aggregation_window_seconds st)) (\<lambda>es.
      then_do (decide model (map snd (build_feature_vector e es))) (\<lambda>s.
        Inr (Some \<lparr>sc_score = s * anomaly_score_scale, sc_threshold = ml_anomaly_alert_threshold st,
          sc_model_version = mr_model_version m, sc_feature_version = ml_feature_version st,
          sc_features = build_feature_vector e es\<rparr>)))" for decide e
    using assms(2) by (simp add: ml_inference_def score_event_def active window anomaly_artifact_def m row(2) Let_def then_do_def
        split: sum.split)
  with fit show ?thesis by blast
qed

text \<open>A training run whose model scores every event with the number of rows it was given.\<close>

definition example_ml_settings :: settings where
  "example_ml_settings = (default_settings [] [] [])\<lparr>ml_min_training_rows := 3\<rparr>"

definition example_trained :: "(exn + model_registry) \<times> rat ml_world" where
  "example_trained = train_model (\<lambda>rows. Inr (of_nat (length rows))) None example_ml_settings 7 0 None 0
     \<lparr>fr_columns = feature_columns, fr_rows = replicate 3 (replicate 18 0)\<rparr>
     \<lparr>mw_db = example_window_db, mw_files = (\<lambda>_. None)\<rparr>"

lemma example_trained_ok: "\<exists>m w. example_trained = (Inr m, w)"
  by (simp add: example_trained_def train_model_def example_ml_settings_def default_settings_def missing_columns_def Let_def model_create_def
      example_window_db_def empty_db_def fit_and_store_def split: prod.split)

lemma trained_model_scores_witness:
  "\<exists>m w. example_trained = (Inr m, w) \<and>
    (case ml_inference (\<lambda>model row. Inr model) example_ml_settings (mw_files w) (mw_db w)
        (example_event 3 ''login_failure'' None None 3000000) of
       Inr (Some a) \<Rightarrow> sc_score a = 24 \<and> sc_feature_version a = ''v1''
     | _ \<Rightarrow> False)"
proof -
  obtain m w where t: "example_trained = (Inr m, w)" using example_trained_ok by blast
  have "ml_enabled example_ml_settings" "ml_feature_version example_ml_settings = ''v1''"
    "distinct (map mr_id (db_model_registry example_window_db))"
    and window: "ml_aggregation_window_seconds example_ml_settings = 300"
    by (simp_all add: example_ml_settings_def default_settings_def example_window_db_def empty_db_def)
  then show ?thesis
    using trained_model_scores [OF t [unfolded example_trained_def]] t
    by (intro exI [of _ m] exI [of _ w]) (auto simp: select_columns_def anomaly_score_scale_def
      event_window_def checked_datetime_def datetime_ok_def seconds_def example_event_def window)
qed

end
