(* ===== verification/Classifier.thy ===== *)
theory Classifier
  imports Anomaly InvContext Tokens
begin

text \<open>
  The incident classifier: \<^verbatim>\<open>ml/incident_classifier.py\<close>, the training-only examples of
  \<^verbatim>\<open>ml/training_examples.py\<close>, the S3 input of \<^verbatim>\<open>ml/aws_dataset.py\<close> and the command
  \<^verbatim>\<open>scripts/train_incident_classifier.py\<close>. scikit-learn's forest and its precision and recall,
  JSON parsing with pydantic's validation, uuid5 and the AWS client are parameters.
\<close>

section \<open>Features of a list of event summaries\<close>

definition classifier_labels :: "string list" where
  "classifier_labels = [''credential_compromise'', ''privilege_abuse'', ''data_exfiltration'', ''cloud_exposure'', ''exposed_credentials'']"

definition counted_kinds :: "string list" where
  "counted_kinds = [''login_failure'', ''login_success'', ''privilege_change'', ''file_download'', ''api_error'', ''network_scan'',
     ''cloud_finding'', ''access_key_used'', ''s3_public_exposure'', ''secret_exposure'', ''data_exfiltration'']"

definition classifier_features :: "string list" where
  "classifier_features = counted_kinds @ [''critical_findings'', ''high_findings'', ''distinct_users'', ''distinct_ips'', ''bytes_sent'', ''bytes_received'']"

definition classifier_name :: string where
  "classifier_name = ''incident_multilabel_v1''"

record labeled_case =
  lc_incident_id :: string
  lc_account_id :: string
  lc_observed_at :: datetime
  lc_labels :: "string list"
  lc_events :: "dict list"
  lc_source_kind :: string
  lc_review_status :: string

text \<open>What a JSON value is as an element of a set: numbers are equal across types, a container raises.\<close>

definition hashable :: "json \<Rightarrow> (rat + string) option" where
  "hashable v = (case v of JStr s \<Rightarrow> Some (Inr s) | JInt i \<Rightarrow> Some (Inl (of_int i)) | JFloat r \<Rightarrow> Some (Inl r)
     | JBool b \<Rightarrow> Some (Inl (flag b)) | _ \<Rightarrow> None)"

fun distinct_values :: "json list \<Rightarrow> exn + (rat + string) list" where
  "distinct_values [] = Inr []"
| "distinct_values (v # vs) = (case hashable v of None \<Rightarrow> Inl TypeError
     | Some x \<Rightarrow> then_do (distinct_values vs) (\<lambda>xs. Inr (List.insert x xs)))"

definition distinct_of :: "string \<Rightarrow> dict list \<Rightarrow> exn + rat" where
  "distinct_of key events = then_do (distinct_values (filter truthy (map (\<lambda>e. dict_get e key) events))) (\<lambda>xs. Inr (of_nat (length xs)))"

text \<open>\<^verbatim>\<open>max(0, value or 0)\<close>.\<close>

definition byte_count :: "json \<Rightarrow> exn + rat" where
  "byte_count v = (if \<not> truthy v then Inr 0 else case v of JInt i \<Rightarrow> Inr (max 0 (of_int i)) | JFloat r \<Rightarrow> Inr (max 0 r)
     | JBool b \<Rightarrow> Inr (flag b) | _ \<Rightarrow> Inl TypeError)"

fun sum_e :: "(exn + rat) list \<Rightarrow> exn + rat" where
  "sum_e [] = Inr 0"
| "sum_e (x # xs) = then_do x (\<lambda>a. then_do (sum_e xs) (\<lambda>b. Inr (a + b)))"

definition features_for_events :: "(json \<Rightarrow> string) \<Rightarrow> dict list \<Rightarrow> exn + (string \<times> rat) list" where
  "features_for_events show events =
    (let kinds = map (\<lambda>e. str_or_json show (dict_get e ''event_type'') []) events
     in then_do (distinct_of ''username'' events) (\<lambda>users.
        then_do (distinct_of ''source_ip'' events) (\<lambda>ips.
        then_do (sum_e (map (\<lambda>e. byte_count (dict_get e ''bytes_sent'')) events)) (\<lambda>sent.
        then_do (sum_e (map (\<lambda>e. byte_count (dict_get e ''bytes_received'')) events)) (\<lambda>received.
          Inr (map (\<lambda>name. (name, of_nat (count_list kinds name))) counted_kinds @
            [(''critical_findings'', count_where (\<lambda>e. dict_get e ''severity'' = JStr ''critical'') events),
             (''high_findings'', count_where (\<lambda>e. dict_get e ''severity'' = JStr ''high'') events),
             (''distinct_users'', users), (''distinct_ips'', ips), (''bytes_sent'', sent), (''bytes_received'', received)]))))))"

definition feature_row :: "(string \<times> rat) list \<Rightarrow> rat list" where
  "feature_row values = map (\<lambda>name. case map_of values name of None \<Rightarrow> 0 | Some v \<Rightarrow> v) classifier_features"

section \<open>Reading cases\<close>

definition is_line_break :: "char \<Rightarrow> bool" where
  "is_line_break c = (let n = (of_char c :: nat) in (10 \<le> n \<and> n \<le> 13) \<or> (28 \<le> n \<and> n \<le> 30) \<or> n = 133)"

text \<open>The lines of a text that are not blank (a CR LF pair only adds a blank line).\<close>

fun split_lines :: "string \<Rightarrow> string list" where
  "split_lines [] = [[]]"
| "split_lines (c # cs) = (if is_line_break c then [] # split_lines cs
     else (case split_lines cs of [] \<Rightarrow> [[c]] | l # ls \<Rightarrow> (c # l) # ls))"

definition text_lines :: "string \<Rightarrow> string list" where
  "text_lines content = filter (\<lambda>l. py_strip l \<noteq> []) (split_lines content)"

definition by_time :: "labeled_case list \<Rightarrow> labeled_case list" where
  "by_time cases = sort_key lc_observed_at cases"

definition known_labels :: "labeled_case list \<Rightarrow> bool" where
  "known_labels cases = list_all (\<lambda>c. set (lc_labels c) \<subseteq> set classifier_labels) cases"

text \<open>\<open>parse\<close> is \<^verbatim>\<open>json.loads\<close> followed by the validation of the case.\<close>

definition parse_cases :: "(string \<Rightarrow> exn + labeled_case) \<Rightarrow> string \<Rightarrow> exn + labeled_case list" where
  "parse_cases parse content =
    then_do (map_e parse (text_lines content)) (\<lambda>cases.
      if \<not> distinct (map lc_incident_id cases) then Inl (ValueError ''Dataset contains repeated incident IDs'')
      else if \<not> known_labels cases then Inl (ValueError ''Dataset contains an unknown label'')
      else if length cases < 100 then Inl (ValueError ''At least 100 labeled incidents are required'')
      else Inr (by_time cases))"

definition load_cases :: "(string \<Rightarrow> exn + labeled_case) \<Rightarrow> (string \<Rightarrow> exn + string) \<Rightarrow> string \<Rightarrow> exn + labeled_case list" where
  "load_cases parse read_text path = then_do (read_text path) (parse_cases parse)"

section \<open>Training\<close>

text \<open>
  The forest: fitting it to the rows and the label columns, the probability the i-th of its
  estimators gives a row, and precision and recall of a prediction against the truth.
\<close>

record 'm forest_api =
  fo_fit :: "rat list list \<Rightarrow> bool list list \<Rightarrow> exn + 'm"
  fo_proba :: "'m \<Rightarrow> nat \<Rightarrow> rat list \<Rightarrow> rat"
  fo_precision :: "bool list \<Rightarrow> bool list \<Rightarrow> rat"
  fo_recall :: "bool list \<Rightarrow> bool list \<Rightarrow> rat"

definition case_targets :: "labeled_case \<Rightarrow> bool list" where
  "case_targets c = map (\<lambda>l. l \<in> set (lc_labels c)) classifier_labels"

definition matrix :: "(json \<Rightarrow> string) \<Rightarrow> labeled_case list \<Rightarrow> exn + rat list list \<times> bool list list" where
  "matrix show cases = then_do (map_e (\<lambda>c. map_sum id feature_row (features_for_events show (lc_events c))) cases)
     (\<lambda>x. Inr (x, map case_targets cases))"

definition column :: "nat \<Rightarrow> 'a list list \<Rightarrow> 'a list" where
  "column i rows = map (\<lambda>r. r ! i) rows"

definition label_indices :: "nat list" where
  "label_indices = [0..<length classifier_labels]"

definition threshold_candidates :: "rat list" where
  "threshold_candidates = map (\<lambda>k. 1 / 5 + of_nat k / 20) [0..<13]"

text \<open>The candidate with the greatest sum of precision and recall; of equals the greatest.\<close>

definition best_threshold :: "'m forest_api \<Rightarrow> bool list \<Rightarrow> rat list \<Rightarrow> rat" where
  "best_threshold F truth probabilities =
    snd (Max (set (map (\<lambda>t. (fo_precision F truth (map (\<lambda>p. t \<le> p) probabilities) + fo_recall F truth (map (\<lambda>p. t \<le> p) probabilities), t))
      threshold_candidates)))"

definition select_thresholds :: "'m forest_api \<Rightarrow> 'm \<Rightarrow> rat list list \<Rightarrow> bool list list \<Rightarrow> rat list" where
  "select_thresholds F model x y = map (\<lambda>i. best_threshold F (column i y) (map (fo_proba F model i) x)) label_indices"

record label_metrics =
  lm_precision :: rat
  lm_recall :: rat
  lm_false_positive_rate :: rat
  lm_threshold :: rat
  lm_support :: nat

definition measure_label :: "'m forest_api \<Rightarrow> 'm \<Rightarrow> rat list \<Rightarrow> rat list list \<Rightarrow> bool list list \<Rightarrow> nat \<Rightarrow> label_metrics" where
  "measure_label F model thresholds x y i =
    (let truth = column i y;
         predicted = map (\<lambda>r. thresholds ! i \<le> fo_proba F model i r) x;
         negatives = map snd (filter (\<lambda>(t, p). \<not> t) (zip truth predicted))
     in \<lparr>lm_precision = fo_precision F truth predicted, lm_recall = fo_recall F truth predicted,
         lm_false_positive_rate = (if negatives = [] then 1 else count_where id negatives / of_nat (length negatives)),
         lm_threshold = thresholds ! i, lm_support = length (filter id truth)\<rparr>)"

definition label_passes :: "label_metrics \<Rightarrow> bool" where
  "label_passes m = (3 \<le> lm_support m \<and> 8 / 10 \<le> lm_precision m \<and> 8 / 10 \<le> lm_recall m \<and> lm_false_positive_rate m \<le> 5 / 100)"

definition label_metrics_json :: "label_metrics \<Rightarrow> json" where
  "label_metrics_json m = JObj [(''precision'', JFloat (lm_precision m)), (''recall'', JFloat (lm_recall m)),
     (''false_positive_rate'', JFloat (lm_false_positive_rate m)), (''threshold'', JFloat (lm_threshold m)),
     json_nats ''support'' (lm_support m)]"

definition reviewed_kinds :: "string list" where
  "reviewed_kinds = [''reviewed_internal'', ''reviewed_public_telemetry'']"

definition may_activate :: "labeled_case list \<Rightarrow> bool" where
  "may_activate cases = list_all (\<lambda>c. lc_review_status c = ''approved'' \<and> lc_source_kind c \<in> set reviewed_kinds \<and> lc_events c \<noteq> []) cases"

text \<open>The three slices, oldest first: \<^verbatim>\<open>int(n * 0.6)\<close> and \<^verbatim>\<open>int(n * 0.8)\<close> of exact products.\<close>

definition split_cases :: "labeled_case list \<Rightarrow> labeled_case list \<times> labeled_case list \<times> labeled_case list" where
  "split_cases cases = (let a = length cases * 6 div 10; b = length cases * 8 div 10
     in (take a cases, take (b - a) (drop a cases), drop b cases))"

definition classifier_artifact :: "'m \<Rightarrow> rat list \<Rightarrow> string \<Rightarrow> 'm stored" where
  "classifier_artifact model thresholds version = Some [(''model'', Fitted model), (''features'', Texts classifier_features),
     (''labels'', Texts classifier_labels), (''thresholds'', Numbers thresholds), (''version'', Text version)]"

definition classifier_row :: "uuid \<Rightarrow> datetime \<Rightarrow> datetime \<Rightarrow> string \<Rightarrow> string \<Rightarrow> label_metrics list \<Rightarrow> labeled_case list \<Rightarrow> dict \<Rightarrow> model_registry" where
  "classifier_row i now now2 version path metrics cases provenance =
    \<lparr>mr_id = i, mr_model_name = classifier_name, mr_model_version = version, mr_algorithm = ''MultiOutputRandomForest'',
     mr_status = ''shadow'', mr_feature_version = ''incident-v1'', mr_artifact_path = path, mr_trained_at = Some now,
     mr_evaluation_metrics = [(''test'', JObj (zip classifier_labels (map label_metrics_json metrics))), (''passed'', JBool (list_all label_passes metrics))],
     mr_training_metadata = (case split_cases cases of (train, validation, test) \<Rightarrow>
       [json_nats ''rows'' (length cases), json_nats ''train'' (length train), json_nats ''validation'' (length validation),
        json_nats ''test'' (length test), (''source_kinds'', JList (map JStr (sorted_set (map lc_source_kind cases)))),
        (''review_statuses'', JList (map JStr (sorted_set (map lc_review_status cases)))), (''dataset_provenance'', JObj provenance)]),
     mr_created_at = now2\<rparr>"

text \<open>What fitting and measuring give: the model, its thresholds, the metrics of the test slice.\<close>

definition both_values :: "bool list \<Rightarrow> bool" where
  "both_values ys = (True \<in> set ys \<and> False \<in> set ys)"

definition fit_classifier :: "'m forest_api \<Rightarrow> (json \<Rightarrow> string) \<Rightarrow> labeled_case list \<Rightarrow> exn + 'm \<times> rat list \<times> label_metrics list" where
  "fit_classifier F show cases =
    (case split_cases cases of (train, validation, test) \<Rightarrow>
      then_do (matrix show train) (\<lambda>(x_train, y_train).
      then_do (matrix show validation) (\<lambda>(x_validation, y_validation).
      then_do (matrix show test) (\<lambda>(x_test, y_test).
        if \<not> list_all (\<lambda>i. both_values (column i y_train)) label_indices
        then Inl (ValueError ''Training split needs positive and negative examples for every label'')
        else then_do (fo_fit F x_train y_train) (\<lambda>model.
          let thresholds = select_thresholds F model x_validation y_validation
          in Inr (model, thresholds, map (measure_label F model thresholds x_test y_test) label_indices))))))"

definition check_cases :: "bool \<Rightarrow> labeled_case list \<Rightarrow> exn + unit" where
  "check_cases activating cases =
    (if length cases < 100 \<or> \<not> distinct (map lc_incident_id cases) then Inl (ValueError ''At least 100 distinct incidents are required'')
     else if \<not> known_labels cases then Inl (ValueError ''Dataset contains an unknown label'')
     else if activating \<and> \<not> may_activate cases
     then Inl (ValueError ''Activation requires approved, non-synthetic incident evidence for every case'')
     else Inr ())"

definition gate_error :: exn where
  "gate_error = ValueError ''Evaluation gates failed; model remains in shadow mode''"

definition train_incident_classifier :: "'m forest_api \<Rightarrow> (json \<Rightarrow> string) \<Rightarrow> settings \<Rightarrow> uuid \<Rightarrow> datetime \<Rightarrow> datetime \<Rightarrow> bool \<Rightarrow> dict \<Rightarrow>
    labeled_case list \<Rightarrow> 'm ml_world \<Rightarrow> (exn + model_registry) \<times> 'm ml_world" where
  "train_incident_classifier F show st i now now2 activating provenance unsorted w =
    (let cases = by_time unsorted
     in case check_cases activating cases of Inl x \<Rightarrow> (Inl x, w)
     | Inr _ \<Rightarrow>
       (case fit_classifier F show cases of Inl x \<Rightarrow> (Inl x, w)
        | Inr (model, thresholds, metrics) \<Rightarrow>
          let version = make_model_version classifier_name now;
              path = path_join (ml_artifact_dir st) (version @ ''.joblib'');
              m = classifier_row i now now2 version path metrics cases provenance;
              w1 = w\<lparr>mw_files := (mw_files w)(path \<mapsto> classifier_artifact model thresholds version)\<rparr>
          in case model_create m (mw_db w) of Inl x \<Rightarrow> (Inl x, w1)
             | Inr d \<Rightarrow>
               if \<not> activating then (Inr m, w1\<lparr>mw_db := d\<rparr>)
               else if \<not> list_all label_passes metrics then (Inl gate_error, w1\<lparr>mw_db := d\<rparr>)
               else (case activate m now d of (m', d') \<Rightarrow> (Inr m', w1\<lparr>mw_db := d'\<rparr>))))"

section \<open>Classifying an incident\<close>

text \<open>\<^verbatim>\<open>zip\<close> stops at the shortest of the three lists. The estimators are those of the five labels.\<close>

definition classify_incident :: "'m forest_api \<Rightarrow> (json \<Rightarrow> string) \<Rightarrow> (string \<Rightarrow> 'm stored option) \<Rightarrow> dict list \<Rightarrow> db \<Rightarrow> exn + json option" where
  "classify_incident F show files events d =
    (if events = [] then Inr None
     else (case get_active classifier_name d of None \<Rightarrow> Inr None
     | Some m \<Rightarrow>
       then_do (joblib_load files (mr_artifact_path m)) (\<lambda>s. case s of None \<Rightarrow> Inl AttributeError | Some a \<Rightarrow>
         if map_of a ''features'' \<noteq> Some (Texts classifier_features) \<or> map_of a ''labels'' \<noteq> Some (Texts classifier_labels)
         then Inl (ValueError ''Incident classifier artifact contract mismatch'')
         else then_do (features_for_events show events) (\<lambda>values.
           (case (map_of a ''model'', map_of a ''thresholds'') of
              (Some (Fitted model), Some (Numbers thresholds)) \<Rightarrow>
                let probabilities = map (\<lambda>i. fo_proba F model i (feature_row values)) label_indices
                in Inr (Some (JObj
                  [(''model_version'', JStr (mr_model_version m)),
                   (''labels'', JList (map (\<lambda>(l, _). JStr l) (filter (\<lambda>(_, p, t). t \<le> p) (zip classifier_labels (zip probabilities thresholds))))),
                   (''probabilities'', JObj (zip classifier_labels (map JFloat probabilities)))]))
            | (None, _) \<Rightarrow> Inl KeyError
            | (Some (Fitted _), None) \<Rightarrow> Inl KeyError
            | (Some (Fitted _), Some _) \<Rightarrow> Inl TypeError
            | _ \<Rightarrow> Inl AttributeError)))))"

section \<open>Training-only examples\<close>

definition lab_classes :: "(string \<times> string option) list" where
  "lab_classes = [(''benign'', None), (''credential_compromise'', Some ''credential_compromise''), (''privilege_abuse'', Some ''privilege_abuse''),
     (''data_exfiltration'', Some ''data_exfiltration''), (''cloud_exposure'', Some ''cloud_exposure''),
     (''exposed_credentials'', Some ''exposed_credentials'')]"

text \<open>2024-01-01 in UTC.\<close>

definition lab_start :: datetime where
  "lab_start = seconds 1704067200"

definition lab_event :: "string \<Rightarrow> string \<Rightarrow> dict \<Rightarrow> nat \<Rightarrow> dict" where
  "lab_event event_type severity extra n = [(''event_type'', JStr event_type), (''severity'', JStr severity)] @ extra @
     [(''username'', JStr (''lab-user-'' @ str_of_nat (n mod 11))), (''source_ip'', JStr (''192.0.2.'' @ str_of_nat (1 + n mod 200)))]"

definition lab_events :: "string \<Rightarrow> nat \<Rightarrow> exn + dict list" where
  "lab_events kind n =
    (if kind = ''benign'' then Inr [lab_event ''login_success'' ''low'' [] n, lab_event ''api_request'' ''low'' [] n]
     else if kind = ''credential_compromise''
     then Inr (replicate (3 + n mod 4) (lab_event ''login_failure'' ''medium'' [] n) @ [lab_event ''login_success'' ''high'' [] n])
     else if kind = ''privilege_abuse'' then Inr [lab_event ''login_success'' ''medium'' [] n, lab_event ''privilege_change'' ''high'' [] n]
     else if kind = ''data_exfiltration''
     then Inr [lab_event ''file_download'' ''medium'' [(''bytes_received'', JInt (100000 + int n * 1000))] n,
               lab_event ''data_exfiltration'' ''critical'' [(''bytes_sent'', JInt (2000000 + int n * 10000))] n]
     else if kind = ''cloud_exposure'' then Inr [lab_event ''s3_public_exposure'' ''high'' [] n, lab_event ''cloud_finding'' ''high'' [] n]
     else if kind = ''exposed_credentials'' then Inr [lab_event ''secret_exposure'' ''critical'' [] n, lab_event ''cloud_finding'' ''medium'' [] n]
     else Inl (ValueError (''Unknown lab class: '' @ kind)))"

text \<open>\<^verbatim>\<open>f"{n:04d}"\<close>.\<close>

definition pad4 :: "nat \<Rightarrow> string" where
  "pad4 n = (let s = str_of_nat n in replicate (4 - length s) CHR ''0'' @ s)"

definition lab_row :: "(string \<Rightarrow> uuid) \<Rightarrow> datetime \<Rightarrow> nat \<Rightarrow> string \<times> string option \<Rightarrow> exn + training_incident" where
  "lab_row uuid5 now ordinal = (\<lambda>(kind, label).
    (let scenario_id = ''lab-v1-'' @ pad4 ordinal
     in then_do (lab_events kind ordinal) (\<lambda>events. Inr
       \<lparr>ti_id = uuid5 (''ai-soc/'' @ scenario_id), ti_scenario_id = scenario_id,
        ti_title = ''Synthetic lab example: '' @ map (\<lambda>c. if c = CHR ''_'' then CHR '' '' else c) kind, ti_account_id = ''lab-local'',
        ti_observed_at = Some (lab_start + seconds (60 * int ordinal)), ti_source_kind = ''lab_synthetic'', ti_review_status = ''synthetic'',
        ti_labels = (case label of None \<Rightarrow> [] | Some l \<Rightarrow> [l]), ti_events = map JObj events, ti_source_ref = None, ti_created_at = now\<rparr>)))"

definition make_lab_incidents :: "(string \<Rightarrow> uuid) \<Rightarrow> datetime \<Rightarrow> int \<Rightarrow> exn + training_incident list" where
  "make_lab_incidents uuid5 now per_class =
    (if \<not> (20 \<le> per_class \<and> per_class \<le> 100) then Inl (ValueError ''Lab examples per class must be 20..100'')
     else map_e (\<lambda>n. lab_row uuid5 now n (lab_classes ! (n mod 6))) [0..<nat per_class * 6])"

text \<open>
  The public references: \<open>parse\<close> reads a line as a dictionary. The scenario id goes through
  \<^verbatim>\<open>format\<close>, the title is sliced, and the URL is stored as it is (a text in both cases).
\<close>

definition item_at :: "dict \<Rightarrow> string \<Rightarrow> exn + json" where
  "item_at d k = (case map_of d k of None \<Rightarrow> Inl KeyError | Some v \<Rightarrow> Inr v)"

definition text_item :: "dict \<Rightarrow> string \<Rightarrow> exn + string" where
  "text_item d k = then_do (item_at d k) (\<lambda>v. case v of JStr s \<Rightarrow> Inr s | _ \<Rightarrow> Inl TypeError)"

definition public_row :: "(string \<Rightarrow> uuid) \<Rightarrow> (json \<Rightarrow> string) \<Rightarrow> datetime \<Rightarrow> dict \<Rightarrow> exn + training_incident" where
  "public_row uuid5 show now r =
    (if dict_get r ''train_ready'' \<noteq> JBool False \<or> dict_get r ''review_status'' \<noteq> JStr ''unreviewed''
     then Inl (ValueError ''Public research corpus must be unreviewed and not train-ready'')
     else then_do (item_at r ''scenario_id'') (\<lambda>i.
          then_do (text_item r ''title'') (\<lambda>title.
          then_do (text_item r ''source_url'') (\<lambda>url.
            let scenario_id = ''otrf:'' @ InvContext.py_str show i
            in Inr \<lparr>ti_id = uuid5 (''ai-soc/'' @ scenario_id), ti_scenario_id = scenario_id, ti_title = take 255 title,
                 ti_account_id = ''public-reference'', ti_observed_at = None, ti_source_kind = ''public_simulation_metadata'',
                 ti_review_status = ''unreviewed'', ti_labels = [], ti_events = [], ti_source_ref = Some url, ti_created_at = now\<rparr>))))"

definition load_public_references :: "(string \<Rightarrow> exn + dict) \<Rightarrow> (string \<Rightarrow> uuid) \<Rightarrow> (json \<Rightarrow> string) \<Rightarrow> datetime \<Rightarrow> string \<Rightarrow>
    exn + training_incident list" where
  "load_public_references parse uuid5 show now content =
    then_do (map_e parse (text_lines content)) (map_e (public_row uuid5 show now))"

text \<open>The flush raises when an id or a scenario id is taken, by the table or within the batch.\<close>

definition add_training_incidents :: "training_incident list \<Rightarrow> db \<Rightarrow> exn + db" where
  "add_training_incidents rows d =
    (let all = db_training_incidents d @ rows
     in if distinct (map ti_id all) \<and> distinct (map ti_scenario_id all)
        then Inr (d\<lparr>db_training_incidents := all\<rparr>) else Inl IntegrityError)"

definition new_examples :: "training_incident list \<Rightarrow> db \<Rightarrow> training_incident list" where
  "new_examples candidates d = filter (\<lambda>r. ti_scenario_id r \<notin> ti_scenario_id ` set (db_training_incidents d)) candidates"

text \<open>The counts by source kind, and the table.\<close>

definition seed_training_incidents :: "(string \<Rightarrow> exn + dict) \<Rightarrow> (string \<Rightarrow> uuid) \<Rightarrow> (json \<Rightarrow> string) \<Rightarrow> datetime \<Rightarrow> string \<Rightarrow> int \<Rightarrow> db \<Rightarrow>
    exn + (nat \<times> nat) \<times> db" where
  "seed_training_incidents parse uuid5 show now content per_class d =
    then_do (load_public_references parse uuid5 show now content) (\<lambda>public.
    then_do (make_lab_incidents uuid5 now per_class) (\<lambda>lab.
      let rows = new_examples (public @ lab) d
      in then_do (add_training_incidents rows d) (\<lambda>d'.
        Inr ((length (filter (\<lambda>r. ti_source_kind r = ''public_simulation_metadata'') rows),
              length (filter (\<lambda>r. ti_source_kind r = ''lab_synthetic'') rows)), d'))))"

text \<open>PostgreSQL puts NULL last in an ascending order.\<close>

definition asc_time :: "datetime option \<Rightarrow> int \<times> int" where
  "asc_time t = (case t of None \<Rightarrow> (1, 0) | Some x \<Rightarrow> (0, x))"

definition case_of_row :: "training_incident \<Rightarrow> labeled_case option" where
  "case_of_row r = (case (ti_observed_at r, dicts_of (ti_events r)) of
     (Some t, Some events) \<Rightarrow> Some \<lparr>lc_incident_id = ti_scenario_id r, lc_account_id = ti_account_id r, lc_observed_at = t,
       lc_labels = ti_labels r, lc_events = events, lc_source_kind = ti_source_kind r, lc_review_status = ti_review_status r\<rparr>
   | _ \<Rightarrow> None)"

text \<open>A row whose events are no dictionaries does not validate.\<close>

definition load_training_cases :: "bool \<Rightarrow> db \<Rightarrow> exn + labeled_case list" where
  "load_training_cases lab_shadow d =
    (let allowed = (if lab_shadow then [''lab_synthetic''] else reviewed_kinds);
         rows = sort_key (\<lambda>r. asc_time (ti_observed_at r)) (filter (\<lambda>r. ti_source_kind r \<in> set allowed) (db_training_incidents d))
     in map_e (\<lambda>r. case case_of_row r of None \<Rightarrow> Inl (ValueError ''validation'') | Some c \<Rightarrow> Inr c)
          (filter (\<lambda>r. ti_observed_at r \<noteq> None \<and> ti_events r \<noteq> [] \<and> (lab_shadow \<or> ti_review_status r = ''approved'')) rows))"

section \<open>The S3 input\<close>

record s3_dataset_plan =
  sd_bucket :: string
  sd_key :: string
  sd_account_id :: string
  sd_max_bytes :: int

text \<open>\<^verbatim>\<open>urlsplit\<close>: scheme, authority, path, query and fragment; None where it raises ValueError.\<close>

definition scheme_char :: "char \<Rightarrow> bool" where
  "scheme_char c = (let n = (of_char c :: nat) in (97 \<le> n \<and> n \<le> 122) \<or> (65 \<le> n \<and> n \<le> 90) \<or> is_digit c \<or> c \<in> set ''+-.'')"

definition split_at :: "(char \<Rightarrow> bool) \<Rightarrow> string \<Rightarrow> string \<times> string" where
  "split_at p s = (takeWhile (\<lambda>c. \<not> p c) s, dropWhile (\<lambda>c. \<not> p c) s)"

definition urlsplit :: "string \<Rightarrow> (string \<times> string \<times> string \<times> string \<times> string) option" where
  "urlsplit url =
    (let clean = filter (\<lambda>c. (of_char c :: nat) \<notin> {9, 10, 13}) (dropWhile (\<lambda>c. (of_char c :: nat) \<le> 32) url);
         (sch, rest) = (case split_once CHR '':'' clean of
            Some (a, b) \<Rightarrow> if a \<noteq> [] \<and> \<not> is_digit (hd a) \<and> hd a \<notin> set ''+-.'' \<and> list_all scheme_char a then (py_lower a, b) else ([], clean)
          | None \<Rightarrow> ([], clean));
         (netloc, rest2) = (if startswith rest ''//'' then split_at (\<lambda>c. c \<in> set ''/?#'') (drop 2 rest) else ([], rest));
         (rest3, frag) = split_at (\<lambda>c. c = CHR ''#'') rest2;
         (path, query) = split_at (\<lambda>c. c = CHR ''?'') rest3
     in if (CHR ''['' \<in> set netloc) \<noteq> (CHR '']'' \<in> set netloc) then None
        else Some (sch, netloc, path, drop 1 query, drop 1 frag))"

definition lower_or_digit :: "char \<Rightarrow> bool" where
  "lower_or_digit c = (let n = (of_char c :: nat) in (97 \<le> n \<and> n \<le> 122) \<or> is_digit c)"

definition bucket_name :: "string \<Rightarrow> bool" where
  "bucket_name s = (3 \<le> length s \<and> length s \<le> 63 \<and> lower_or_digit (hd s) \<and> lower_or_digit (last s) \<and>
     list_all (\<lambda>c. lower_or_digit c \<or> c = CHR ''.'' \<or> c = CHR ''-'') s)"

definition strip_slashes :: "string \<Rightarrow> string" where
  "strip_slashes s = rev (dropWhile (\<lambda>c. c = CHR ''/'') (rev (dropWhile (\<lambda>c. c = CHR ''/'') s)))"

definition unsafe_parts :: "string \<Rightarrow> bool" where
  "unsafe_parts s = (\<not> list_all (\<lambda>part. part \<notin> set [[], ''.'', ''..'']) (split_all CHR ''/'' s))"

definition max_allowed_bytes :: int where
  "max_allowed_bytes = 20 * 1024 * 1024"

definition plan_s3_dataset :: "string \<Rightarrow> string \<Rightarrow> string \<Rightarrow> string \<Rightarrow> int \<Rightarrow> exn + s3_dataset_plan" where
  "plan_s3_dataset uri account_id allowed_bucket allowed_prefix max_bytes =
    (case urlsplit uri of None \<Rightarrow> Inl (ValueError ''Invalid IPv6 URL'')
     | Some (scheme, bucket, path, query, fragment) \<Rightarrow>
       if scheme \<noteq> ''s3'' \<or> query \<noteq> [] \<or> fragment \<noteq> [] \<or> bucket = []
       then Inl (ValueError ''Expected an exact s3://bucket/key.jsonl URI without query or fragment'')
       else let key = dropWhile (\<lambda>c. c = CHR ''/'') path; pfx = strip_slashes allowed_prefix in
       if \<not> bucket_name bucket \<or> contains bucket ''..'' \<or> bucket \<noteq> allowed_bucket
       then Inl (ValueError ''S3 bucket is invalid or outside the explicit allowlist'')
       else if \<not> (length account_id = 12 \<and> list_all is_digit account_id)
       then Inl (ValueError ''An exact 12-digit AWS account ID is required'')
       else if pfx = [] \<or> unsafe_parts pfx then Inl (ValueError ''A non-empty, safe S3 prefix is required'')
       else if \<not> startswith key (pfx @ ''/'') \<or> \<not> endswith key ''.jsonl''
       then Inl (ValueError ''Dataset must be a JSONL object below the allowlisted prefix'')
       else if unsafe_parts key \<or> CHR ''%'' \<in> set key
       then Inl (ValueError ''Dataset key must not contain ambiguous path segments or encoding'')
       else if \<not> (1 \<le> max_bytes \<and> max_bytes \<le> max_allowed_bytes)
       then Inl (ValueError (''AWS dataset cap must be between 1 and '' @ str_of_int max_allowed_bytes @ '' bytes''))
       else Inr \<lparr>sd_bucket = bucket, sd_key = key, sd_account_id = account_id, sd_max_bytes = max_bytes\<rparr>)"

text \<open>
  The AWS session: the caller's account, the head of an object (with the expected owner), and
  the first bytes of an object that still has the given ETag.
\<close>

record s3_api =
  s3_account :: json
  s3_head :: "string \<Rightarrow> string \<Rightarrow> string \<Rightarrow> exn + dict"
  s3_get :: "string \<Rightarrow> string \<Rightarrow> string \<Rightarrow> string \<Rightarrow> nat \<Rightarrow> exn + string"

definition load_s3_cases :: "crypto \<Rightarrow> (string \<Rightarrow> exn + string) \<Rightarrow> (string \<Rightarrow> exn + labeled_case) \<Rightarrow> s3_api \<Rightarrow> s3_dataset_plan \<Rightarrow>
    exn + labeled_case list \<times> string" where
  "load_s3_cases cr decode parse S p =
    (if s3_account S \<noteq> JStr (sd_account_id p) then Inl (ValueError ''AWS credentials do not target the allowlisted account'')
     else then_do (s3_head S (sd_bucket p) (sd_key p) (sd_account_id p)) (\<lambda>head.
       case dict_get head ''ContentLength'' of
         JInt n \<Rightarrow>
           if n < 1 \<or> sd_max_bytes p < n then Inl (ValueError ''S3 dataset is empty, too large, or has unknown size'')
           else if (case map_of head ''StorageClass'' of None \<Rightarrow> False | Some v \<Rightarrow> v \<noteq> JStr ''STANDARD'')
           then Inl (ValueError ''Only S3 Standard objects are accepted to avoid retrieval surprises'')
           else (case dict_get head ''ETag'' of
             JStr etag \<Rightarrow>
               if etag = [] then Inl (ValueError ''S3 dataset must have an ETag to guard against changes during download'')
               else then_do (s3_get S (sd_bucket p) (sd_key p) (sd_account_id p) etag (nat (sd_max_bytes p + 1))) (\<lambda>body.
                 if int (length body) \<noteq> n then Inl (ValueError ''S3 dataset changed or exceeded the configured size cap'')
                 else then_do (decode body) (\<lambda>content. then_do (parse_cases parse content) (\<lambda>cases. Inr (cases, cr_sha256 cr body))))
           | _ \<Rightarrow> Inl (ValueError ''S3 dataset must have an ETag to guard against changes during download''))
       | _ \<Rightarrow> Inl (ValueError ''S3 dataset is empty, too large, or has unknown size'')))"

section \<open>The command\<close>

datatype training_source = Supplied "labeled_case list" | From_db | From_file "exn + labeled_case list" | No_source

text \<open>An exception leaves the database as it was (the session closes without a commit); a file written stays.\<close>

definition run_classifier_training :: "'m forest_api \<Rightarrow> (json \<Rightarrow> string) \<Rightarrow> settings \<Rightarrow> uuid \<Rightarrow> datetime \<Rightarrow> datetime \<Rightarrow>
    training_source \<Rightarrow> bool \<Rightarrow> bool \<Rightarrow> dict \<Rightarrow> 'm ml_world \<Rightarrow> (exn + model_registry) \<times> 'm ml_world" where
  "run_classifier_training F show st i now now2 src activating lab_shadow provenance w =
    (if lab_shadow \<and> activating then (Inl (ValueError ''Synthetic lab cases cannot be activated''), w)
     else (case (case src of Supplied cases \<Rightarrow> Inr cases | From_db \<Rightarrow> load_training_cases lab_shadow (mw_db w)
                 | From_file r \<Rightarrow> r | No_source \<Rightarrow> Inl (ValueError ''A training dataset is required'')) of
       Inl x \<Rightarrow> (Inl x, w)
     | Inr cases \<Rightarrow>
       (case train_incident_classifier F show st i now now2 activating provenance cases w of
          (Inl x, w') \<Rightarrow> (Inl x, w'\<lparr>mw_db := mw_db w\<rparr>)
        | (Inr m, w') \<Rightarrow> (Inr m, w'))))"

section \<open>What training may do\<close>

lemma length_by_time [simp]: "length (by_time cases) = length cases"
  by (simp add: by_time_def)

lemma may_activate_by_time [simp]: "may_activate (by_time cases) = may_activate cases"
  by (simp add: may_activate_def by_time_def list_all_iff)

lemma train_classifier_Inr:
  assumes "train_incident_classifier F show st i now now2 activating provenance cases w = (Inr m', w')"
  obtains model thresholds metrics m d where
    "100 \<le> length cases" "activating \<Longrightarrow> may_activate cases"
    "fit_classifier F show (by_time cases) = Inr (model, thresholds, metrics)"
    "m = classifier_row i now now2 (make_model_version classifier_name now)
      (path_join (ml_artifact_dir st) (make_model_version classifier_name now @ ''.joblib'')) metrics (by_time cases) provenance"
    "model_create m (mw_db w) = Inr d"
    "mw_files w' = (mw_files w)(mr_artifact_path m \<mapsto> classifier_artifact model thresholds (mr_model_version m))"
    "activating \<Longrightarrow> list_all label_passes metrics \<and> activate m now d = (m', mw_db w')"
    "\<not> activating \<Longrightarrow> m' = m \<and> mw_db w' = d"
proof -
  let ?cs = "by_time cases" and ?version = "make_model_version classifier_name now"
  obtain u where check: "check_cases activating ?cs = Inr u"
    using assms by (cases "check_cases activating ?cs") (simp_all add: train_incident_classifier_def)
  obtain model thresholds metrics where fit: "fit_classifier F show ?cs = Inr (model, thresholds, metrics)"
    using assms check by (cases "fit_classifier F show ?cs") (auto simp: train_incident_classifier_def)
  define m where "m = classifier_row i now now2 ?version (path_join (ml_artifact_dir st) (?version @ ''.joblib'')) metrics ?cs provenance"
  obtain d where create: "model_create m (mw_db w) = Inr d"
    using assms check fit by (cases "model_create m (mw_db w)") (simp_all add: train_incident_classifier_def Let_def m_def)
  have path: "mr_artifact_path m = path_join (ml_artifact_dir st) (?version @ ''.joblib'')" "mr_model_version m = ?version"
    by (simp_all add: m_def classifier_row_def)
  have final: "(let w1 = w\<lparr>mw_files := (mw_files w)(mr_artifact_path m \<mapsto> classifier_artifact model thresholds (mr_model_version m))\<rparr>
      in if \<not> activating then (Inr m, w1\<lparr>mw_db := d\<rparr>)
         else if \<not> list_all label_passes metrics then (Inl gate_error, w1\<lparr>mw_db := d\<rparr>)
         else (case activate m now d of (m', d') \<Rightarrow> (Inr m', w1\<lparr>mw_db := d'\<rparr>))) = (Inr m', w')"
    using assms check fit create by (simp add: train_incident_classifier_def Let_def m_def path [unfolded m_def] split del: if_split cong: if_cong)
  have "100 \<le> length cases" "activating \<Longrightarrow> may_activate cases"
    using check by (simp_all add: check_cases_def split: if_splits)
  moreover have "mw_files w' = (mw_files w)(mr_artifact_path m \<mapsto> classifier_artifact model thresholds (mr_model_version m))"
    using final by (auto simp: Let_def split: if_splits prod.splits)
  moreover have "activating \<Longrightarrow> list_all label_passes metrics \<and> activate m now d = (m', mw_db w')"
    "\<not> activating \<Longrightarrow> m' = m \<and> mw_db w' = d"
    using final by (auto simp: Let_def split: if_splits prod.splits)
  ultimately show ?thesis using that fit m_def create by blast
qed

lemma classifier_row_simps [simp]:
  "mr_id (classifier_row i now now2 version path metrics cases provenance) = i"
  "mr_model_name (classifier_row i now now2 version path metrics cases provenance) = classifier_name"
  "mr_status (classifier_row i now now2 version path metrics cases provenance) = ''shadow''"
  "mr_artifact_path (classifier_row i now now2 version path metrics cases provenance) = path"
  "mr_model_version (classifier_row i now now2 version path metrics cases provenance) = version"
  "dict_get (mr_evaluation_metrics (classifier_row i now now2 version path metrics cases provenance)) ''passed'' = JBool (list_all label_passes metrics)"
  by (simp_all add: classifier_row_def dict_get_def)

text \<open>
  C23: a classifier that training activates was trained on approved, reviewed cases with evidence
  only, passed every gate on its test slice, and is then the one model that classifies
  incidents, with its own thresholds.
\<close>

theorem activated_classifier_is_reviewed:
  assumes "train_incident_classifier F show st i now now2 True provenance cases w = (Inr m, w')"
    and "distinct (map mr_id (db_model_registry (mw_db w)))"
  shows "100 \<le> length cases \<and> may_activate cases \<and> get_active classifier_name (mw_db w') = Some m \<and>
    (\<exists>model thresholds metrics. fit_classifier F show (by_time cases) = Inr (model, thresholds, metrics) \<and>
      list_all label_passes metrics \<and>
      mw_files w' (mr_artifact_path m) = Some (classifier_artifact model thresholds (mr_model_version m)))"
proof -
  obtain model thresholds metrics m0 d where c: "100 \<le> length cases" "may_activate cases"
    and fit: "fit_classifier F show (by_time cases) = Inr (model, thresholds, metrics)"
    and m0: "m0 = classifier_row i now now2 (make_model_version classifier_name now)
      (path_join (ml_artifact_dir st) (make_model_version classifier_name now @ ''.joblib'')) metrics (by_time cases) provenance"
    and create: "model_create m0 (mw_db w) = Inr d"
    and stored: "mw_files w' = (mw_files w)(mr_artifact_path m0 \<mapsto> classifier_artifact model thresholds (mr_model_version m0))"
    and act: "list_all label_passes metrics" "activate m0 now d = (m, mw_db w')"
    by (rule train_classifier_Inr [OF assms(1)]) auto
  have "distinct (map mr_id (db_model_registry d))" "mr_id m0 \<in> mr_id ` set (db_model_registry d)"
    using model_create_facts [OF create] assms(2) by auto
  then have "get_active classifier_name (mw_db w') = Some m"
    using get_active_single [OF active_rows_activate [OF _ _ act(2)]] m0 by simp
  moreover have "mr_artifact_path m = mr_artifact_path m0" "mr_model_version m = mr_model_version m0"
    using activate_rows(1) [OF act(2)] by simp_all
  ultimately show ?thesis using c fit act(1) stored by auto
qed

text \<open>
  the test slice, the latest fifth of the cases, has no influence on the model and its
  thresholds: two sets of cases that agree on the rest train the same classifier.
\<close>

theorem test_slice_is_held_out:
  assumes "length cases = length cases'" and "take (length cases * 8 div 10) cases = take (length cases * 8 div 10) cases'"
    and "fit_classifier F show cases = Inr (model, thresholds, metrics)"
    and "fit_classifier F show cases' = Inr (model', thresholds', metrics')"
  shows "model = model' \<and> thresholds = thresholds'"
proof -
  let ?n = "length cases"
  have le: "?n * 6 div 10 \<le> ?n * 8 div 10" by (rule div_le_mono) simp
  have train: "take (?n * 6 div 10) cases = take (?n * 6 div 10) cases'"
    using arg_cong [OF assms(2), of "take (?n * 6 div 10)"] le by (simp add: min_def)
  have "take (?n * 8 div 10 - ?n * 6 div 10) (drop (?n * 6 div 10) cases) = take (?n * 8 div 10 - ?n * 6 div 10) (drop (?n * 6 div 10) cases')"
    using arg_cong [OF assms(2), of "drop (?n * 6 div 10)"] by (simp add: drop_take)
  then show ?thesis
    using assms(1,3,4) train
    by (auto simp: fit_classifier_def split_cases_def Let_def split: if_splits prod.splits)
qed

lemma map_e_key:
  "(\<And>x. map_sum id key (f x) = map_sum id key (g x)) \<Longrightarrow> map_sum id (map key) (map_e f xs) = map_sum id (map key) (map_e g xs)"
proof (induction xs)
  case (Cons x xs)
  have "map_sum id key (f x) = map_sum id key (g x)" using Cons.prems .
  with Cons show ?case by (cases "f x"; cases "g x"; cases "map_e f xs"; cases "map_e g xs") auto
qed simp

lemma map_e_set: "map_e f xs = Inr ys \<Longrightarrow> y \<in> set ys \<Longrightarrow> \<exists>x \<in> set xs. f x = Inr y"
  by (induction xs arbitrary: ys) auto

lemma row_kinds:
  "public_row uuid5 show now x = Inr r \<Longrightarrow> ti_source_kind r \<notin> set reviewed_kinds"
  "lab_row uuid5 now k c = Inr r \<Longrightarrow> ti_source_kind r \<notin> set reviewed_kinds"
  by (auto simp: public_row_def lab_row_def reviewed_kinds_def Let_def split: if_splits prod.splits)

definition candidates :: "(string \<Rightarrow> exn + dict) \<Rightarrow> (string \<Rightarrow> uuid) \<Rightarrow> (json \<Rightarrow> string) \<Rightarrow> datetime \<Rightarrow> string \<Rightarrow> int \<Rightarrow> exn + training_incident list" where
  "candidates parse uuid5 show now content per_class =
    then_do (load_public_references parse uuid5 show now content) (\<lambda>public.
    then_do (make_lab_incidents uuid5 now per_class) (\<lambda>lab. Inr (public @ lab)))"

lemma seed_Inr:
  "seed_training_incidents parse uuid5 show now content per_class d = Inr (n, d') \<longleftrightarrow>
    (\<exists>cs. candidates parse uuid5 show now content per_class = Inr cs \<and> add_training_incidents (new_examples cs d) d = Inr d' \<and>
      n = (length (filter (\<lambda>r. ti_source_kind r = ''public_simulation_metadata'') (new_examples cs d)),
           length (filter (\<lambda>r. ti_source_kind r = ''lab_synthetic'') (new_examples cs d))))"
  by (auto simp: seed_training_incidents_def candidates_def Let_def)

lemma candidate_ids:
  "map_sum id (map ti_scenario_id) (candidates parse uuid5 show now content per_class) =
   map_sum id (map ti_scenario_id) (candidates parse uuid5 show now' content per_class)"
proof -
  have pub: "map_sum id (map ti_scenario_id) (load_public_references parse uuid5 show now content) =
      map_sum id (map ti_scenario_id) (load_public_references parse uuid5 show now' content)"
    unfolding load_public_references_def
    by (cases "map_e parse (text_lines content)")
       (auto intro!: map_e_key simp: public_row_def Let_def then_do_def split: sum.split)
  have lab: "map_sum id (map ti_scenario_id) (make_lab_incidents uuid5 now per_class) =
      map_sum id (map ti_scenario_id) (make_lab_incidents uuid5 now' per_class)"
    by (auto simp: make_lab_incidents_def lab_row_def Let_def then_do_def intro!: map_e_key split: sum.split prod.split)
  show ?thesis using pub lab
    by (cases "load_public_references parse uuid5 show now content"; cases "load_public_references parse uuid5 show now' content";
        cases "make_lab_incidents uuid5 now per_class"; cases "make_lab_incidents uuid5 now' per_class") (auto simp: candidates_def)
qed

text \<open>seeding the training examples again, at any later time, adds nothing and changes nothing.\<close>

theorem seeding_is_idempotent:
  assumes "seed_training_incidents parse uuid5 show now content per_class d = Inr (n, d')"
  shows "seed_training_incidents parse uuid5 show now' content per_class d' = Inr ((0, 0), d')"
proof -
  obtain cs where cs: "candidates parse uuid5 show now content per_class = Inr cs"
    and add: "add_training_incidents (new_examples cs d) d = Inr d'"
    using assms by (auto simp: seed_Inr)
  then obtain cs' where cs': "candidates parse uuid5 show now' content per_class = Inr cs'" "map ti_scenario_id cs' = map ti_scenario_id cs"
    using candidate_ids [of parse uuid5 "show" now content per_class now']
    by (cases "candidates parse uuid5 show now' content per_class") auto
  have d': "db_training_incidents d' = db_training_incidents d @ new_examples cs d"
    "distinct (map ti_id (db_training_incidents d'))" "distinct (map ti_scenario_id (db_training_incidents d'))"
    using add by (auto simp: add_training_incidents_def Let_def split: if_splits)
  have "set (map ti_scenario_id cs) \<subseteq> ti_scenario_id ` set (db_training_incidents d')"
    unfolding d'(1) by (auto simp: new_examples_def)
  then have "new_examples cs' d' = []"
    unfolding cs'(2) [symmetric] by (auto simp: new_examples_def filter_empty_conv)
  then show ?thesis
    using cs'(1) d'(2,3) by (auto simp: seed_Inr add_training_incidents_def)
qed

definition only_unreviewed :: "db \<Rightarrow> bool" where
  "only_unreviewed d = list_all (\<lambda>r. ti_source_kind r \<notin> set reviewed_kinds) (db_training_incidents d)"

lemma seed_unreviewed:
  assumes "seed_training_incidents parse uuid5 show now content per_class d = Inr (n, d')" and "only_unreviewed d"
  shows "only_unreviewed d'"
proof -
  obtain cs where cs: "candidates parse uuid5 show now content per_class = Inr cs"
    and add: "add_training_incidents (new_examples cs d) d = Inr d'"
    using assms(1) by (auto simp: seed_Inr)
  have "ti_source_kind r \<notin> set reviewed_kinds" if "r \<in> set cs" for r
  proof -
    obtain public lab where p: "load_public_references parse uuid5 show now content = Inr public"
      "make_lab_incidents uuid5 now per_class = Inr lab" "cs = public @ lab"
      using cs by (auto simp: candidates_def)
    have "\<forall>x \<in> set public. ti_source_kind x \<notin> set reviewed_kinds"
      using p(1) row_kinds(1) by (auto simp: load_public_references_def dest!: map_e_set)
    moreover have "\<forall>x \<in> set lab. ti_source_kind x \<notin> set reviewed_kinds"
      using p(2) by (auto simp: make_lab_incidents_def split: if_splits dest!: map_e_set row_kinds(2))
    ultimately show ?thesis using that p(3) by auto
  qed
  then show ?thesis
    using add assms(2) by (auto simp: only_unreviewed_def add_training_incidents_def Let_def new_examples_def list_all_iff split: if_splits)
qed

text \<open>
  the seeded examples can never be made the active classifier: with nothing but unreviewed
  rows in the table before, the command asked to activate from the seeded database fails
  whatever its other arguments, and leaves the database as it was.
\<close>

theorem seeded_examples_never_activate:
  assumes "seed_training_incidents parse uuid5 show t content per_class d = Inr (n, mw_db w)" and "only_unreviewed d"
  shows "\<exists>x. run_classifier_training F show st i now now2 From_db True lab_shadow provenance w = (Inl x, w)"
proof -
  have "load_training_cases False (mw_db w) = Inr []"
  proof -
    have "filter (\<lambda>r. ti_source_kind r \<in> set reviewed_kinds) (db_training_incidents (mw_db w)) = []"
      using seed_unreviewed [OF assms] by (auto simp: only_unreviewed_def list_all_iff filter_empty_conv)
    then show ?thesis by (simp add: load_training_cases_def)
  qed
  then show ?thesis
    by (simp add: run_classifier_training_def train_incident_classifier_def check_cases_def Let_def)
qed

section \<open>The registry over time\<close>

text \<open>The commands that change the registry, with every outcome: the two training commands and the evaluation.\<close>

inductive registry_step :: "'m ml_world \<Rightarrow> 'm ml_world \<Rightarrow> bool" where
  Train_anomaly: "run_training fit dump_error st i now now2 f w = (r, w') \<Longrightarrow> registry_step w w'"
| Train_classifier: "run_classifier_training F show st i now now2 src activating lab_shadow provenance w = (r, w') \<Longrightarrow> registry_step w w'"
| Evaluate: "get_active name (mw_db w) = Some m \<Longrightarrow> registry_step w (w\<lparr>mw_db := persist_evaluation m metrics (mw_db w)\<rparr>)"

inductive registry_reachable :: "'m ml_world \<Rightarrow> 'm ml_world \<Rightarrow> bool" where
  Start: "registry_reachable w w"
| Step: "registry_reachable w v \<Longrightarrow> registry_step v u \<Longrightarrow> registry_reachable w u"

lemma registry_ok_created:
  assumes "registry_ok d" "model_create m d = Inr d'" "mr_status m \<noteq> ''active''"
  shows "registry_ok d'" "activate m t d' = (m', d'') \<Longrightarrow> registry_ok d''"
proof -
  show ok: "registry_ok d'" using registry_ok_create assms by blast
  assume a: "activate m t d' = (m', d'')"
  show "registry_ok d''"
    using model_create_facts [OF assms(2)] by (intro registry_ok_activate [OF ok _ _ a]) (auto simp: image_iff)
qed

lemma registry_ok_same: "db_model_registry d' = db_model_registry d \<Longrightarrow> registry_ok d' = registry_ok d"
  by (simp add: registry_ok_def active_rows_def)

lemma registry_ok_saved:
  assumes ok: "registry_ok d" and m: "m \<in> set (db_model_registry d)"
    and same: "mr_id m' = mr_id m" "mr_status m' = mr_status m" "mr_model_name m' = mr_model_name m"
  shows "registry_ok (save_model m' d)"
proof -
  have eq: "x = m" if "x \<in> set (db_model_registry d)" "mr_id x = mr_id m" for x
    using ok m that by (auto simp: registry_ok_def distinct_map dest: inj_onD)
  have "length (active_rows name (save_model m' d)) = length (active_rows name d)" for name
    using eq same by (auto simp: active_rows_def save_model_def table_save_def filter_map comp_def intro!: arg_cong [where f = length] filter_cong)
  then show ?thesis using ok by (simp add: registry_ok_def save_model_def)
qed

lemma registry_step_ok: "registry_step w w' \<Longrightarrow> registry_ok (mw_db w) \<Longrightarrow> registry_ok (mw_db w')"
proof (induction rule: registry_step.induct)
  case (Train_anomaly fit dump_error st i now now2 f w r w')
  show ?case
  proof (cases "train_model fit dump_error st i now None now2 f w")
    case (Pair res v)
    show ?thesis
    proof (cases res)
      case Inl
      then show ?thesis using Train_anomaly Pair by (auto simp: run_training_def)
    next
      case (Inr m)
      then have "w' = v" using Train_anomaly Pair by (simp add: run_training_def)
      show ?thesis
      proof (rule train_model_Inr [OF Pair [unfolded Inr]])
        fix m0 d
        assume "model_create m0 (mw_db w) = Inr d" "mr_status m0 = ''training''"
          "activate m0 (case None of None \<Rightarrow> now | Some t \<Rightarrow> t) d = (m, mw_db v)"
        then show ?thesis using registry_ok_created(2) [OF Train_anomaly.prems] \<open>w' = v\<close> by simp
      qed
    qed
  qed
next
  case (Train_classifier F "show" st i now now2 src activating lab_shadow provenance w r w')
  show ?case
  proof (cases r)
    case Inl
    then show ?thesis using Train_classifier
      by (auto simp: run_classifier_training_def split: if_splits sum.splits prod.splits)
  next
    case (Inr m)
    then obtain cases where t: "train_incident_classifier F show st i now now2 activating provenance cases w = (Inr m, w')"
      using Train_classifier.hyps by (auto simp: run_classifier_training_def split: if_splits sum.splits prod.splits)
    show ?thesis
    proof (rule train_classifier_Inr [OF t])
      fix model thresholds metrics m0 d
      assume m0: "m0 = classifier_row i now now2 (make_model_version classifier_name now)
          (path_join (ml_artifact_dir st) (make_model_version classifier_name now @ ''.joblib'')) metrics (by_time cases) provenance"
        and create: "model_create m0 (mw_db w) = Inr d"
        and yes: "activating \<Longrightarrow> list_all label_passes metrics \<and> activate m0 now d = (m, mw_db w')"
        and no: "\<not> activating \<Longrightarrow> m = m0 \<and> mw_db w' = d"
      have "mr_status m0 \<noteq> ''active''" by (simp add: m0)
      note created = registry_ok_created [OF Train_classifier.prems create this]
      show ?thesis using created yes no by (cases activating) auto
    qed
  qed
next
  case (Evaluate name w m metrics)
  then show ?case
    using registry_ok_saved [of "mw_db w" m] get_active_mem [of name "mw_db w" m]
    by (simp add: persist_evaluation_def update_evaluation_metrics_def)
qed

lemma registry_reachable_ok: "registry_reachable w w' \<Longrightarrow> registry_ok (mw_db w) \<Longrightarrow> registry_ok (mw_db w')"
  by (induction rule: registry_reachable.induct) (auto intro: registry_step_ok)

text \<open>
  C26: whatever sequence of trainings, successful or failed, and evaluations is run, each model
  name has at most one active row, and ids stay unique.
\<close>

theorem one_active_model_per_name:
  assumes "registry_reachable w w'" and "registry_ok (mw_db w)"
  shows "length (active_rows name (mw_db w')) \<le> 1 \<and> distinct (map mr_id (db_model_registry (mw_db w')))"
  using registry_reachable_ok [OF assms] by (simp add: registry_ok_def)

section \<open>Examples\<close>

definition example_training :: "(exn + string) \<times> rat ml_world" where
  "example_training = run_training (\<lambda>rows. Inr (of_nat (length rows))) None example_ml_settings 7 0 0
     \<lparr>fr_columns = feature_columns, fr_rows = replicate 3 (replicate 18 0)\<rparr>
     \<lparr>mw_db = empty_db, mw_files = (\<lambda>_. None)\<rparr>"

lemma one_active_model_per_name_witness:
  "registry_reachable \<lparr>mw_db = empty_db, mw_files = (\<lambda>_. None)\<rparr> (snd example_training) \<and>
   length (active_rows ''isolation_forest_v1'' (mw_db (snd example_training))) \<le> 1"
proof -
  have r: "registry_reachable \<lparr>mw_db = empty_db, mw_files = (\<lambda>_. None)\<rparr> (snd example_training)"
    by (rule registry_reachable.Step [OF registry_reachable.Start registry_step.Train_anomaly])
       (simp add: example_training_def prod_eq_iff)
  show ?thesis using r one_active_model_per_name [OF r] by (simp add: registry_ok_def empty_db_def active_rows_def)
qed

text \<open>Cases whose even members show every label and a failed login, and a forest that tells them apart.\<close>

definition example_case :: "nat \<Rightarrow> labeled_case" where
  "example_case n = \<lparr>lc_incident_id = str_of_nat n, lc_account_id = ''1'', lc_observed_at = int n,
     lc_labels = (if even n then classifier_labels else []),
     lc_events = [[(''event_type'', JStr (if even n then ''login_failure'' else ''login_success''))]],
     lc_source_kind = ''reviewed_internal'', lc_review_status = ''approved''\<rparr>"

definition example_forest :: "unit forest_api" where
  "example_forest = \<lparr>fo_fit = (\<lambda>x y. Inr ()), fo_proba = (\<lambda>m i row. hd row),
     fo_precision = (\<lambda>truth predicted. flag (truth = predicted)), fo_recall = (\<lambda>truth predicted. flag (truth = predicted))\<rparr>"

definition example_row :: "nat \<Rightarrow> rat list" where
  "example_row n = feature_row (projr (features_for_events (\<lambda>_. []) (lc_events (example_case n))))"

lemma example_reviewed_simps:
  "map_sum id feature_row (features_for_events (\<lambda>_. []) (lc_events (example_case n))) = Inr (example_row n)"
  "hd (example_row n) = flag (even n)"
  by (simp_all add: example_row_def features_for_events_def example_case_def distinct_of_def dict_get_def byte_count_def
      counted_kinds_def Let_def feature_row_def classifier_features_def str_or_json_def Detection.py_str_def flag_def)

lemma length_classifier_labels: "length classifier_labels = 5"
  by (simp add: classifier_labels_def)

lemma example_column:
  "i < 5 \<Longrightarrow> column i (map case_targets (map example_case ns)) = map even ns"
  using nth_mem [of i classifier_labels]
  by (auto simp: column_def case_targets_def example_case_def length_classifier_labels)

lemma example_thresholds:
  "t \<in> set (select_thresholds F m x y) \<Longrightarrow> 0 < t \<and> t \<le> 1"
proof -
  assume "t \<in> set (select_thresholds F m x y)"
  then obtain truth ps where "t = best_threshold F truth ps" by (auto simp: select_thresholds_def)
  moreover have "best_threshold F truth ps \<in> set threshold_candidates"
  proof -
    let ?S = "set (map (\<lambda>t. (fo_precision F truth (map (\<lambda>p. t \<le> p) ps) + fo_recall F truth (map (\<lambda>p. t \<le> p) ps), t)) threshold_candidates)"
    have "Max ?S \<in> ?S" by (rule Max_in) (simp_all add: threshold_candidates_def)
    then show ?thesis by (auto simp: best_threshold_def)
  qed
  ultimately show ?thesis by (auto simp: threshold_candidates_def upt_rec)
qed

lemma example_measure:
  assumes i: "i < 5" and t: "0 < ts ! i \<and> ts ! i \<le> 1" and pos: "3 \<le> length (filter even ns)" and neg: "filter odd ns \<noteq> []"
  shows "label_passes (measure_label example_forest () ts (map example_row ns) (map case_targets (map example_case ns)) i)"
proof -
  have predicted: "map (\<lambda>r. ts ! i \<le> fo_proba example_forest () i r) (map example_row ns) = map even ns"
    using t by (auto simp: example_forest_def example_reviewed_simps flag_def)
  have "map snd (filter (\<lambda>(t, p). \<not> t) (zip (map even ns) (map even ns))) = map (\<lambda>_. False) (filter odd ns)"
    by (induction ns) auto
  moreover have "count_where id (map (\<lambda>_. False) xs) = 0" for xs :: "nat list"
    by (simp add: count_where_def)
  moreover have "length (filter id (map even ns)) = length (filter even ns)" by (simp add: filter_map comp_def)
  ultimately show ?thesis
    unfolding measure_label_def predicted example_column [OF i] Let_def
    using pos neg by (simp add: label_passes_def example_forest_def flag_def)
qed

lemma example_matrix:
  "matrix (\<lambda>_. []) (map example_case ns) = Inr (map example_row ns, map case_targets (map example_case ns))"
proof -
  have "map_e (\<lambda>c. map_sum id feature_row (features_for_events (\<lambda>_. []) (lc_events c))) (map example_case ns) = Inr (map example_row ns)"
    using example_reviewed_simps(1) by (induction ns) auto
  then show ?thesis by (simp add: matrix_def)
qed

text \<open>A hundred numbers whose first sixty and last twenty hold both parities train the classifier.\<close>

definition example_numbers :: "nat list \<Rightarrow> bool" where
  "example_numbers ns = (length ns = 100 \<and> both_values (map even (take 60 ns)) \<and> 3 \<le> length (filter even (drop 80 ns)) \<and>
     filter odd (drop 80 ns) \<noteq> [])"

lemma example_fit:
  assumes "example_numbers ns"
  shows "\<exists>thresholds metrics. fit_classifier example_forest (\<lambda>_. []) (map example_case ns) = Inr ((), thresholds, metrics) \<and> list_all label_passes metrics"
proof -
  let ?train = "take 60 ns" and ?val = "take 20 (drop 60 ns)" and ?test = "drop 80 ns"
  have split: "split_cases (map example_case ns) = (map example_case ?train, map example_case ?val, map example_case ?test)"
    using assms by (simp add: split_cases_def Let_def example_numbers_def take_map drop_map)
  let ?th = "select_thresholds example_forest () (map example_row ?val) (map case_targets (map example_case ?val))"
  have "list_all (\<lambda>i. both_values (column i (map case_targets (map example_case ?train)))) label_indices"
    using assms example_column by (auto simp: list_all_iff label_indices_def length_classifier_labels example_numbers_def)
  moreover have "label_passes (measure_label example_forest () ?th (map example_row ?test) (map case_targets (map example_case ?test)) i)"
    if "i < 5" for i
  proof (rule example_measure [OF that])
    have "?th ! i \<in> set ?th" using that by (simp add: select_thresholds_def label_indices_def length_classifier_labels)
    then show "0 < ?th ! i \<and> ?th ! i \<le> 1" by (rule example_thresholds)
  qed (use assms in \<open>simp_all add: example_numbers_def\<close>)
  moreover have "fo_fit example_forest x y = Inr ()" for x y by (simp add: example_forest_def)
  ultimately show ?thesis
    unfolding fit_classifier_def split prod.case example_matrix then_do_simps
    by (auto simp: Let_def list_all_iff label_indices_def length_classifier_labels)
qed

lemma example_numbers_ok: "example_numbers [0..<100]" "example_numbers ([0..<80] @ [100..<120])"
  by (simp_all add: example_numbers_def both_values_def upt_rec)

lemma test_slice_is_held_out_witness:
  "\<exists>thresholds metrics thresholds' metrics'.
    fit_classifier example_forest (\<lambda>_. []) (map example_case [0..<100]) = Inr ((), thresholds, metrics) \<and>
    fit_classifier example_forest (\<lambda>_. []) (map example_case ([0..<80] @ [100..<120])) = Inr ((), thresholds', metrics') \<and>
    thresholds = thresholds'"
proof -
  obtain th ms where a: "fit_classifier example_forest (\<lambda>_. []) (map example_case [0..<100]) = Inr ((), th, ms)"
    using example_fit [OF example_numbers_ok(1)] by blast
  obtain th' ms' where b: "fit_classifier example_forest (\<lambda>_. []) (map example_case ([0..<80] @ [100..<120])) = Inr ((), th', ms')"
    using example_fit [OF example_numbers_ok(2)] by blast
  have "th = th'"
    using test_slice_is_held_out [OF _ _ a b] by (simp add: take_map)
  then show ?thesis using a b by blast
qed

definition example_activation :: "(exn + model_registry) \<times> unit ml_world" where
  "example_activation = train_incident_classifier example_forest (\<lambda>_. []) example_ml_settings 9 0 0 True []
     (map example_case [0..<100]) \<lparr>mw_db = empty_db, mw_files = (\<lambda>_. None)\<rparr>"

lemma example_activation_ok: "\<exists>m w. example_activation = (Inr m, w)"
proof -
  have sorted: "by_time (map example_case [0..<100]) = map example_case [0..<100]"
    unfolding by_time_def by (rule sort_key_id_if_sorted) (simp add: comp_def example_case_def sorted_map)
  have check: "check_cases True (map example_case [0..<100]) = Inr ()"
    by (auto simp: check_cases_def comp_def example_case_def distinct_map inj_on_def known_labels_def may_activate_def reviewed_kinds_def list_all_iff)
  obtain th ms where "fit_classifier example_forest (\<lambda>_. []) (map example_case [0..<100]) = Inr ((), th, ms)" "list_all label_passes ms"
    using example_fit [OF example_numbers_ok(1)] by blast
  then show ?thesis
    by (simp add: example_activation_def train_incident_classifier_def sorted check Let_def model_create_def empty_db_def split: prod.split)
qed

lemma activated_classifier_is_reviewed_witness:
  "\<exists>m w. example_activation = (Inr m, w) \<and> get_active classifier_name (mw_db w) = Some m"
proof -
  obtain m w where a: "example_activation = (Inr m, w)" using example_activation_ok by blast
  show ?thesis
    using activated_classifier_is_reviewed [OF a [unfolded example_activation_def]] a by (auto simp: empty_db_def)
qed

text \<open>Seeding an empty table: no public references, twenty lab cases per class.\<close>

lemma nat_of_zeros: "nat_of_digits (replicate k CHR ''0'' @ s) = nat_of_digits s"
  by (induction k) (simp_all add: nat_of_digits_def digit_val_def)

lemma nat_of_pad4 [simp]: "nat_of_digits (pad4 n) = n"
  by (simp add: pad4_def Let_def nat_of_zeros)

definition example_uuid5 :: "string \<Rightarrow> uuid" where
  "example_uuid5 s = of_nat (nat_of_digits (drop 14 s))"

lemma lab_row_ok:
  "c \<in> set lab_classes \<Longrightarrow> \<exists>r. lab_row example_uuid5 now n c = Inr r \<and> ti_scenario_id r = ''lab-v1-'' @ pad4 n \<and> ti_id r = of_nat n"
  by (auto simp: lab_classes_def lab_row_def lab_events_def example_uuid5_def Let_def)

definition example_seed :: "datetime \<Rightarrow> db \<Rightarrow> exn + (nat \<times> nat) \<times> db" where
  "example_seed now d = seed_training_incidents (\<lambda>_. Inl TypeError) example_uuid5 (\<lambda>_. []) now [] 20 d"

lemma example_seed_ok: "\<exists>n d. example_seed 0 empty_db = Inr (n, d)"
proof -
  define g where "g = (\<lambda>n. projr (lab_row example_uuid5 0 n (lab_classes ! (n mod 6))))"
  have row: "lab_row example_uuid5 0 n (lab_classes ! (n mod 6)) = Inr (g n) \<and> ti_scenario_id (g n) = ''lab-v1-'' @ pad4 n \<and> ti_id (g n) = of_nat n" for n
  proof -
    have "lab_classes ! (n mod 6) \<in> set lab_classes" by (rule nth_mem) (simp add: lab_classes_def)
    then obtain r where "lab_row example_uuid5 0 n (lab_classes ! (n mod 6)) = Inr r"
      "ti_scenario_id r = ''lab-v1-'' @ pad4 n" "ti_id r = of_nat n"
      using lab_row_ok by blast
    then show ?thesis by (simp add: g_def)
  qed
  have "make_lab_incidents example_uuid5 0 20 = Inr (map g [0..<120])"
    using row by (simp add: make_lab_incidents_def map_e_map)
  then have cs: "candidates (\<lambda>_. Inl TypeError) example_uuid5 (\<lambda>_. []) 0 [] 20 = Inr (map g [0..<120])"
    by (simp add: candidates_def load_public_references_def text_lines_def py_strip_def py_lstrip_def py_rstrip_def)
  have "inj_on (\<lambda>n. of_nat n :: uuid) {0..<120}"
    by (rule inj_onI) (simp add: of_nat_eq_iff word_of_nat_eq_iff take_bit_nat_eq_self)
  moreover have "map ti_id (map g [0..<120]) = map of_nat [0..<120]" using row by simp
  ultimately have ids: "distinct (map ti_id (map g [0..<120]))" by (simp only:) (simp add: distinct_map)
  have "inj_on (\<lambda>n. ''lab-v1-'' @ pad4 n) {0..<120}"
    by (rule inj_onI) (metis nat_of_pad4 same_append_eq)
  moreover have "map ti_scenario_id (map g [0..<120]) = map (\<lambda>n. ''lab-v1-'' @ pad4 n) [0..<120]" using row by simp
  ultimately have scenarios: "distinct (map ti_scenario_id (map g [0..<120]))" by (simp only:) (simp add: distinct_map)
  have e: "db_training_incidents empty_db = []" by (simp add: empty_db_def)
  have "new_examples (map g [0..<120]) empty_db = map g [0..<120]" by (simp add: new_examples_def e)
  then have "add_training_incidents (new_examples (map g [0..<120]) empty_db) empty_db = Inr (empty_db\<lparr>db_training_incidents := map g [0..<120]\<rparr>)"
    unfolding add_training_incidents_def Let_def by (simp only: e append_Nil ids scenarios simp_thms if_True)
  then show ?thesis
    using cs by (auto simp: example_seed_def seed_Inr)
qed

lemma seeding_is_idempotent_witness:
  "\<exists>n d. example_seed 0 empty_db = Inr (n, d) \<and> example_seed 5 d = Inr ((0, 0), d)"
proof -
  obtain n d where d: "example_seed 0 empty_db = Inr (n, d)" using example_seed_ok by blast
  show ?thesis using seeding_is_idempotent [OF d [unfolded example_seed_def]] d by (auto simp: example_seed_def)
qed

lemma seeded_examples_never_activate_witness:
  "\<exists>n d x. example_seed 0 empty_db = Inr (n, d) \<and>
    run_classifier_training example_forest (\<lambda>_. []) example_ml_settings 9 0 0 From_db True False [] \<lparr>mw_db = d, mw_files = (\<lambda>_. None)\<rparr>
      = (Inl x, \<lparr>mw_db = d, mw_files = (\<lambda>_. None)\<rparr>)"
proof -
  obtain n d where d: "example_seed 0 empty_db = Inr (n, d)" using example_seed_ok by blast
  have e: "only_unreviewed empty_db" by (simp add: only_unreviewed_def empty_db_def)
  have s: "seed_training_incidents (\<lambda>_. Inl TypeError) example_uuid5 (\<lambda>_. []) 0 [] 20 empty_db =
      Inr (n, mw_db \<lparr>mw_db = d, mw_files = (\<lambda>_. None)\<rparr>)"
    using d by (simp add: example_seed_def)
  show ?thesis using seeded_examples_never_activate [OF s e] d by blast
qed

end
