(* ===== verification/Ingest.thy ===== *)
theory Ingest
  imports Investigation Classifier
begin

text \<open>
  Ingestion: \<^verbatim>\<open>services/event_service.py\<close>, \<^verbatim>\<open>api/v1/endpoints/events.py\<close>, the adapter of AWS
  findings (\<^verbatim>\<open>services/aws_finding_adapter.py\<close>) and its endpoint
  (\<^verbatim>\<open>api/v1/endpoints/aws_findings.py\<close>). An event is normalized and stored, the rules run on
  it, their alerts are stored and correlated, and one commit makes all of it durable; then
  automatic investigations are requested and the changes are published. An exception before
  the commit leaves the world as it was.
\<close>

section \<open>Parameters\<close>

text \<open>
  The settings, the secrets, the texts Python gives to JSON containers, pydantic's dump of an
  event, and the model's score of an event against the database.
\<close>

record ingest_config =
  ig_settings :: settings
  ig_crypto :: crypto
  ig_show :: "json \<Rightarrow> string"
  ig_dump :: "event_create \<Rightarrow> (string \<times> json) list"
  ig_score :: "db \<Rightarrow> event \<Rightarrow> exn + anomaly_score option"

text \<open>What one event draws: ids and clock readings.\<close>

record event_draws =
  ed_row :: uuid
  ed_event :: uuid
  ed_received :: datetime
  ed_created :: datetime
  ed_alert :: "nat \<Rightarrow> uuid"
  ed_alert_created :: datetime
  ed_incident :: "nat \<Rightarrow> uuid"
  ed_correlated :: datetime

section \<open>One event\<close>

definition ingest_context :: "ingest_config \<Rightarrow> db \<Rightarrow> detection_context" where
  "ingest_context G d = \<lparr>dc_event_repository = event_repository_of d, dc_settings = ig_settings G,
     dc_ml_inference_service = Some (ig_score G d)\<rparr>"

definition run_detection :: "ingest_config \<Rightarrow> event_draws \<Rightarrow> event \<Rightarrow> db \<Rightarrow> exn + alert list \<times> db" where
  "run_detection G w e d =
    then_do (build_rule_registry (ig_show G)) (\<lambda>engine.
    then_do (evaluate_event engine (ingest_context G d) e) (\<lambda>matches.
      let alerts = build_alerts e matches (ed_alert w) (ed_alert_created w)
      in if alerts = [] then Inr ([], d) else then_do (alerts_create_many alerts d) (\<lambda>d'. Inr (alerts, d'))))"

record ingested =
  it_event :: event
  it_alerts :: "alert list"
  it_incidents :: "incident list"
  it_created_ids :: "uuid list"

definition normalize_event :: "ingest_config \<Rightarrow> event_draws \<Rightarrow> event_create \<Rightarrow> exn + event" where
  "normalize_event G w p = normalize (ig_dump G) (ed_row w) (ed_event w) (ed_received w) (ed_created w) p"

text \<open>The row it gives, when the time of the event can be expressed in UTC.\<close>

definition normalized_event :: "ingest_config \<Rightarrow> event_draws \<Rightarrow> event_create \<Rightarrow> event" where
  "normalized_event G w p = event_row (ig_dump G) (ed_row w) (ed_event w) (ed_received w) (ed_created w) p (instant (ec_timestamp p))"

lemma normalize_event_Inr: "normalize_event G w p = Inr e \<Longrightarrow> e = normalized_event G w p"
  by (auto simp: normalize_event_def normalize_def normalized_event_def dest: normalize_timestamp_Inr)

lemma normalize_event_ok: "datetime_ok (instant (ec_timestamp p)) \<Longrightarrow> normalize_event G w p = Inr (normalized_event G w p)"
  by (simp add: normalize_event_def normalize_def normalized_event_def normalize_timestamp_ok)

definition ingest_event :: "ingest_config \<Rightarrow> event_draws \<Rightarrow> event_create \<Rightarrow> correlator \<Rightarrow> exn + ingested \<times> correlator" where
  "ingest_event G w p c =
    then_do (normalize_event G w p) (\<lambda>e.
        then_do (event_create_row e (cs_db c)) (\<lambda>d.
        then_do (run_detection G w e d) (\<lambda>(alerts, d').
          if alerts = []
          then Inr (\<lparr>it_event = e, it_alerts = [], it_incidents = [], it_created_ids = cs_last_created_ids c\<rparr>, c\<lparr>cs_db := d'\<rparr>)
          else then_do (correlate (ig_settings G) (ig_show G) (ed_correlated w)
                 (zip alerts (map (ed_incident w) [0..<length alerts])) (c\<lparr>cs_db := d'\<rparr>)) (\<lambda>(incidents, c').
            Inr (\<lparr>it_event = e, it_alerts = alerts, it_incidents = incidents, it_created_ids = cs_last_created_ids c'\<rparr>, c')))))"

fun ingest_events :: "ingest_config \<Rightarrow> (event_create \<times> event_draws) list \<Rightarrow> correlator \<Rightarrow> exn + ingested list \<times> correlator" where
  "ingest_events G [] c = Inr ([], c)"
| "ingest_events G ((p, w) # rest) c =
     then_do (ingest_event G w p c) (\<lambda>(item, c').
     then_do (ingest_events G rest c') (\<lambda>(items, c''). Inr (item # items, c'')))"

definition fresh_correlator :: "db \<Rightarrow> correlator" where
  "fresh_correlator d = \<lparr>cs_db = d, cs_last_created_ids = [], cs_locks = []\<rparr>"

section \<open>After the commit\<close>

text \<open>
  The incidents of the session are shared objects: what is dispatched and published is their
  last state.
\<close>

definition session_incident :: "db \<Rightarrow> incident \<Rightarrow> incident" where
  "session_incident d i = (case get_incident (in_id i) d of None \<Rightarrow> i | Some r \<Rightarrow> r)"

text \<open>The messages of one item, as (type, entity, payload, version); an exception ends the publication after some of them.\<close>

definition realtime_messages :: "db \<Rightarrow> ingested \<Rightarrow> (string \<times> string \<times> dict \<times> int) list" where
  "realtime_messages d x =
    (''event.created'', ev_event_id (it_event x), [(''event_id'', JStr (ev_event_id (it_event x)))], 1) #
    map (\<lambda>a. (''alert.created'', uuid_str (al_id a), [(''incident_id'', JNull)], 1)) (it_alerts x) @
    map (\<lambda>i. (if in_id i \<in> set (it_created_ids x) then ''incident.created'' else ''incident.updated'', uuid_str (in_id i),
        [(''incident_id'', JStr (uuid_str (in_id i))), (''severity'', JStr (in_severity i))], in_updated_at i))
      (map (session_incident d) (it_incidents x))"

definition publish_realtime :: "settings \<Rightarrow> env \<Rightarrow> nat option \<Rightarrow> db \<Rightarrow> ingested \<Rightarrow> (string \<times> realtime_envelope) list" where
  "publish_realtime st en fails_at d x =
    (let sent = (case fails_at of None \<Rightarrow> realtime_messages d x | Some n \<Rightarrow> take n (realtime_messages d x))
     in map (\<lambda>(k, kind, entity, payload, version). publish (realtime_redis_channel_prefix st) (en_uuid en k) (en_now en k) kind entity payload version)
          (enumerate 0 sent))"

record event_ingest_response =
  er_id :: uuid
  er_event_id :: string
  er_accepted :: bool

definition ingest_response :: "ingested \<Rightarrow> event_ingest_response" where
  "ingest_response x = \<lparr>er_id = ev_id (it_event x), er_event_id = ev_event_id (it_event x), er_accepted = True\<rparr>"

text \<open>What the requests to come draw: per dispatched incident, and per item for its messages.\<close>

record after_draws =
  ad_dispatch :: "nat \<Rightarrow> env"
  ad_queue_errors :: "nat \<Rightarrow> string option"
  ad_publish :: "nat \<Rightarrow> env"
  ad_publish_fails :: "nat \<Rightarrow> nat option"

definition create_event :: "ingest_config \<Rightarrow> 'r redis_api \<Rightarrow> event_draws \<Rightarrow> after_draws \<Rightarrow> event_create \<Rightarrow> 'r world \<Rightarrow>
    (exn + event_ingest_response) \<times> 'r world \<times> (string \<times> realtime_envelope) list" where
  "create_event G R w a p v =
    (case ingest_event G w p (fresh_correlator (wd_db v)) of
       Inl x \<Rightarrow> (Inl x, v, [])
     | Inr (item, c) \<Rightarrow>
         (Inr (ingest_response item),
          dispatch_incidents R (ig_crypto G) (ig_settings G) (ad_dispatch a) (ad_queue_errors a) 0 (it_incidents item) (v\<lparr>wd_db := cs_db c\<rparr>),
          publish_realtime (ig_settings G) (ad_publish a 0) (ad_publish_fails a 0) (cs_db c) item))"

record bulk_response =
  br_accepted :: bool
  br_count :: nat
  br_events :: "event_ingest_response list"

text \<open>
  The bulk service normalizes all events before it stores the first. (\<open>ingest_event\<close> normalizes
  its event again, with the same draws and so with the same result.)
\<close>

definition ingest_batch :: "ingest_config \<Rightarrow> (event_create \<times> event_draws) list \<Rightarrow> correlator \<Rightarrow> exn + ingested list \<times> correlator" where
  "ingest_batch G ps c = then_do (map_e (\<lambda>(p, w). normalize_event G w p) ps) (\<lambda>_. ingest_events G ps c)"

text \<open>The dictionary of all incidents by id: in the order of their first occurrence.\<close>

definition all_incidents :: "db \<Rightarrow> ingested list \<Rightarrow> incident list" where
  "all_incidents d items = map (session_incident d)
     (rev (fold (\<lambda>i acc. if in_id i \<in> in_id ` set acc then acc else i # acc) (concat (map it_incidents items)) []))"

definition create_events_bulk :: "ingest_config \<Rightarrow> 'r redis_api \<Rightarrow> (event_create \<times> event_draws) list \<Rightarrow> after_draws \<Rightarrow> 'r world \<Rightarrow>
    (exn + bulk_response) \<times> 'r world \<times> (string \<times> realtime_envelope) list" where
  "create_events_bulk G R ps a v =
    (case ingest_batch G ps (fresh_correlator (wd_db v)) of
       Inl x \<Rightarrow> (Inl x, v, [])
     | Inr (items, c) \<Rightarrow>
         (Inr \<lparr>br_accepted = True, br_count = length items, br_events = map ingest_response items\<rparr>,
          dispatch_incidents R (ig_crypto G) (ig_settings G) (ad_dispatch a) (ad_queue_errors a) 0 (all_incidents (cs_db c) items) (v\<lparr>wd_db := cs_db c\<rparr>),
          concat (map (\<lambda>(n, x). publish_realtime (ig_settings G) (ad_publish a n) (ad_publish_fails a n) (cs_db c) x) (enumerate 0 items))))"

record event_list_response =
  el_total :: nat
  el_limit :: nat
  el_offset :: nat
  el_items :: "event list"

definition list_events_response :: "event_query_filters \<Rightarrow> db \<Rightarrow> event_list_response" where
  "list_events_response f d = (case list_events f d of (rows, n) \<Rightarrow>
     \<lparr>el_total = n, el_limit = qf_limit f, el_offset = qf_offset f, el_items = rows\<rparr>)"

section \<open>The endpoints\<close>

text \<open>\<^verbatim>\<open>require_event_ingest_key\<close> comes first; what it writes is committed in any case.\<close>

definition post_event :: "ingest_config \<Rightarrow> 'r redis_api \<Rightarrow> env \<Rightarrow> request \<Rightarrow> string option \<Rightarrow> event_draws \<Rightarrow> after_draws \<Rightarrow> event_create \<Rightarrow>
    'r world \<Rightarrow> (exn + event_ingest_response) \<times> 'r world \<times> (string \<times> realtime_envelope) list" where
  "post_event G R en req key w a p v =
    (case require_event_ingest_key (ig_crypto G) en req key (wd_db v) of
       (Inl x, d) \<Rightarrow> (Inl x, v\<lparr>wd_db := d\<rparr>, [])
     | (Inr key_owner, d) \<Rightarrow>
       (case create_event G R w a p (v\<lparr>wd_db := d\<rparr>) of
          (Inl x, v', ms) \<Rightarrow> (Inl x, v', ms)
        | (Inr r, v', ms) \<Rightarrow>
            (Inr r, v'\<lparr>wd_db := audit_record req (en_uuid en 1) (en_now en 2) ''events.ingest'' ''success'' ''api_key''
               (Some (sp_id key_owner)) (Some (sp_name key_owner)) (Some ''event'') (Some (er_event_id r)) [(''count'', JInt 1)] (wd_db v')\<rparr>, ms)))"

definition post_events_bulk :: "ingest_config \<Rightarrow> 'r redis_api \<Rightarrow> env \<Rightarrow> request \<Rightarrow> string option \<Rightarrow> (event_create \<times> event_draws) list \<Rightarrow> after_draws \<Rightarrow>
    'r world \<Rightarrow> (exn + bulk_response) \<times> 'r world \<times> (string \<times> realtime_envelope) list" where
  "post_events_bulk G R en req key ps a v =
    (case require_event_ingest_key (ig_crypto G) en req key (wd_db v) of
       (Inl x, d) \<Rightarrow> (Inl x, v\<lparr>wd_db := d\<rparr>, [])
     | (Inr key_owner, d) \<Rightarrow>
       (case create_events_bulk G R ps a (v\<lparr>wd_db := d\<rparr>) of
          (Inl x, v', ms) \<Rightarrow> (Inl x, v', ms)
        | (Inr r, v', ms) \<Rightarrow>
            (Inr r, v'\<lparr>wd_db := audit_record req (en_uuid en 1) (en_now en 2) ''events.ingest_bulk'' ''success'' ''api_key''
               (Some (sp_id key_owner)) (Some (sp_name key_owner)) (Some ''event'') None [(''count'', JInt (int (br_count r)))] (wd_db v')\<rparr>, ms)))"

definition get_event :: "string \<Rightarrow> db \<Rightarrow> exn + event" where
  "get_event event_id d = (case get_by_event_id event_id d of None \<Rightarrow> Inl (HTTPException 404 ''Event not found'') | Some e \<Rightarrow> Inr e)"

section \<open>AWS findings\<close>

text \<open>\<^verbatim>\<open>str.isdigit\<close> on the first 256 code points: the superscripts count.\<close>

definition digit_like :: "char \<Rightarrow> bool" where
  "digit_like c = (is_digit c \<or> (of_char c :: nat) \<in> {178, 179, 185})"

text \<open>\<^verbatim>\<open>text.replace("Z", "+00:00")\<close>, and \<^verbatim>\<open>finding.get(key) or default\<close>.\<close>

definition utc_offset :: "string \<Rightarrow> string" where
  "utc_offset s = concat (map (\<lambda>c. if c = CHR ''Z'' then ''+00:00'' else [c]) s)"

definition get_or :: "dict \<Rightarrow> string \<Rightarrow> json \<Rightarrow> json" where
  "get_or d k v = (if truthy (dict_get d k) then dict_get d k else v)"

definition finding_identity :: "dict \<Rightarrow> exn + string \<times> string" where
  "finding_identity f =
    (case (dict_get f ''Id'', dict_get f ''AwsAccountId'') of
       (JStr i, JStr account) \<Rightarrow>
         if i = [] \<or> length account \<noteq> 12 \<or> \<not> list_all digit_like account
         then Inl (ValueError ''Finding requires Id and AwsAccountId'') else Inr (i, account)
     | _ \<Rightarrow> Inl (ValueError ''Finding requires Id and AwsAccountId''))"

definition finding_updated :: "dict \<Rightarrow> exn + string" where
  "finding_updated f =
    (case get_or f ''UpdatedAt'' (dict_get f ''CreatedAt'') of JStr t \<Rightarrow> Inr t
     | _ \<Rightarrow> Inl (ValueError ''Finding requires UpdatedAt or CreatedAt''))"

definition finding_resource :: "dict \<Rightarrow> exn + dict" where
  "finding_resource f =
    (case get_or f ''Resources'' (JList []) of JList (JObj d # _) \<Rightarrow> Inr d | JList _ \<Rightarrow> Inr []
     | _ \<Rightarrow> Inl (ValueError ''Finding Resources must be a list''))"

definition finding_kind :: "dict \<Rightarrow> exn + string" where
  "finding_kind f =
    (case get_or f ''Types'' (JList [JStr ''cloud_finding'']) of JList (JStr t # _) \<Rightarrow> Inr (take 128 t)
     | _ \<Rightarrow> Inl (ValueError ''Finding Types must be a non-empty list of strings''))"

definition finding_severity :: "(json \<Rightarrow> string) \<Rightarrow> dict \<Rightarrow> exn + string" where
  "finding_severity show f =
    (case get_or f ''Severity'' (JObj []) of
       JObj d \<Rightarrow> (let label = py_lower (str_or_json show (dict_get d ''Label'') ''MEDIUM'')
         in Inr (if label \<in> set event_severities then label else ''medium''))
     | _ \<Rightarrow> Inl (ValueError ''Finding Severity must be an object''))"

definition finding_event_id :: "crypto \<Rightarrow> string \<Rightarrow> string \<Rightarrow> string \<Rightarrow> string" where
  "finding_event_id cr account i updated = ''asff_'' @ cr_sha256 cr (account @ '':'' @ i @ '':'' @ updated)"

text \<open>\<open>fromisoformat\<close> is \<^verbatim>\<open>datetime.fromisoformat\<close>. Building the event validates it.\<close>

definition asff_to_event :: "(string \<Rightarrow> exn + py_datetime) \<Rightarrow> crypto \<Rightarrow> (json \<Rightarrow> string) \<Rightarrow> dict \<Rightarrow> exn + event_create" where
  "asff_to_event fromisoformat cr show f =
    then_do (finding_identity f) (\<lambda>(i, account).
    then_do (finding_updated f) (\<lambda>updated.
    then_do (fromisoformat (utc_offset updated)) (\<lambda>timestamp.
    then_do (finding_resource f) (\<lambda>res.
    then_do (finding_kind f) (\<lambda>kind.
    then_do (finding_severity show f) (\<lambda>severity.
      build_event_create
        \<lparr>ec_timestamp = ensure_timestamp_has_timezone timestamp, ec_source = ''aws_security_hub'', ec_source_type = ''aws_security_hub'',
         ec_event_type = (if contains (py_lower kind) ''s3'' \<and> contains (py_lower kind) ''public'' then ''s3_public_exposure'' else ''cloud_finding''),
         ec_category = ''security_finding'', ec_severity = Some severity, ec_event_id = Some (finding_event_id cr account i updated),
         ec_user_id = None, ec_username = None, ec_source_ip = None, ec_destination_ip = None, ec_source_port = None,
         ec_destination_port = None, ec_hostname = None, ec_device_id = None, ec_action = None, ec_status = None,
         ec_resource = none_if_empty (take 255 (str_or_json show (dict_get res ''Id'') [])),
         ec_resource_type = none_if_empty (take 128 (str_or_json show (dict_get res ''Type'') [])),
         ec_country = None, ec_user_agent = None, ec_bytes_sent = None, ec_bytes_received = None, ec_raw_payload = Some [],
         ec_metadata = [(''account_id'', JStr (take 64 account)), (''provider_finding_id'', JStr (take 512 i)), (''finding_type'', JStr kind),
           (''title'', JStr (take 255 (str_or_json show (dict_get f ''Title'') kind))),
           (''region'', JStr (take 64 (str_or_json show (dict_get f ''Region'') [])))]\<rparr>))))))"

definition is_active_finding :: "(json \<Rightarrow> string) \<Rightarrow> dict \<Rightarrow> exn + bool" where
  "is_active_finding show f =
    (case get_or f ''Workflow'' (JObj []) of
       JObj workflow \<Rightarrow> Inr (py_upper (str_or_json show (dict_get f ''RecordState'') ''ACTIVE'') = ''ACTIVE'' \<and>
         py_upper (str_or_json show (dict_get workflow ''Status'') ''NEW'') \<notin> {''RESOLVED'', ''SUPPRESSED''})
     | _ \<Rightarrow> Inl (ValueError ''Finding Workflow must be an object''))"

text \<open>The active findings, and the events of them; ValueError and TypeError become 422.\<close>

definition active_findings :: "(json \<Rightarrow> string) \<Rightarrow> dict list \<Rightarrow> exn + dict list" where
  "active_findings show fs = map_sum id (\<lambda>flags. map fst (filter snd (zip fs flags))) (map_e (is_active_finding show) fs)"

definition finding_events :: "(string \<Rightarrow> exn + py_datetime) \<Rightarrow> crypto \<Rightarrow> (json \<Rightarrow> string) \<Rightarrow> dict list \<Rightarrow> exn + event_create list" where
  "finding_events fromisoformat cr show fs = then_do (active_findings show fs) (map_e (asff_to_event fromisoformat cr show))"

definition unprocessable :: "exn \<Rightarrow> exn" where
  "unprocessable x = (case x of ValueError m \<Rightarrow> HTTPException 422 m | TypeError \<Rightarrow> HTTPException 422 (exn_text TypeError) | _ \<Rightarrow> x)"

text \<open>The events that are new: the first of each id in the batch whose id is not stored.\<close>

fun unseen_events :: "db \<Rightarrow> string option list \<Rightarrow> event_create list \<Rightarrow> event_create list" where
  "unseen_events d seen [] = []"
| "unseen_events d seen (p # ps) =
     (if ec_event_id p \<in> set seen then unseen_events d seen ps
      else (if get_by_event_id (str_or (ec_event_id p) []) d = None then [p] else []) @ unseen_events d (ec_event_id p # seen) ps)"

definition asff_batch_valid :: "dict list \<Rightarrow> bool" where
  "asff_batch_valid fs = (1 \<le> length fs \<and> length fs \<le> 100)"

definition ingest_asff :: "ingest_config \<Rightarrow> 'r redis_api \<Rightarrow> (string \<Rightarrow> exn + py_datetime) \<Rightarrow> env \<Rightarrow> request \<Rightarrow> service_principal \<Rightarrow> (nat \<Rightarrow> event_draws) \<Rightarrow>
    after_draws \<Rightarrow> dict list \<Rightarrow> 'r world \<Rightarrow> (exn + bulk_response) \<times> 'r world \<times> (string \<times> realtime_envelope) list" where
  "ingest_asff G R fromisoformat en req key_owner ws a fs v =
    (case finding_events fromisoformat (ig_crypto G) (ig_show G) fs of
       Inl x \<Rightarrow> (Inl (unprocessable x), v, [])
     | Inr events \<Rightarrow>
       let unseen = unseen_events (wd_db v) [] events;
           audited = (\<lambda>r v'. v'\<lparr>wd_db := audit_record req (en_uuid en 1) (en_now en 2) ''aws.findings.ingest'' ''success'' ''api_key''
             (Some (sp_id key_owner)) (Some (sp_name key_owner)) (Some ''aws_finding'') None
             [(''accepted'', JInt (int (br_count r))), (''duplicates'', JInt (int (length events) - int (br_count r))),
              (''inactive_skipped'', JInt (int (length fs) - int (length events)))] (wd_db v')\<rparr>)
       in if unseen = [] then (let r = \<lparr>br_accepted = True, br_count = 0, br_events = []\<rparr> in (Inr r, audited r v, []))
          else (case create_events_bulk G R (map (\<lambda>(n, p). (p, ws n)) (enumerate 0 unseen)) a v of
              (Inl x, v', ms) \<Rightarrow> (Inl x, v', ms)
            | (Inr r, v', ms) \<Rightarrow> (Inr r, audited r v', ms)))"

definition post_findings :: "ingest_config \<Rightarrow> 'r redis_api \<Rightarrow> (string \<Rightarrow> exn + py_datetime) \<Rightarrow> env \<Rightarrow> request \<Rightarrow> string option \<Rightarrow> (nat \<Rightarrow> event_draws) \<Rightarrow>
    after_draws \<Rightarrow> dict list \<Rightarrow> 'r world \<Rightarrow> (exn + bulk_response) \<times> 'r world \<times> (string \<times> realtime_envelope) list" where
  "post_findings G R fromisoformat en req key ws a fs v =
    (case require_event_ingest_key (ig_crypto G) en req key (wd_db v) of
       (Inl x, d) \<Rightarrow> (Inl x, v\<lparr>wd_db := d\<rparr>, [])
     | (Inr key_owner, d) \<Rightarrow> ingest_asff G R fromisoformat en req key_owner ws a fs (v\<lparr>wd_db := d\<rparr>))"

end
