(* ===== verification/Pipeline.thy ===== *)
theory Pipeline
  imports Ingest
begin

text \<open>
  The event pipeline as a whole: what correlation and detection leave alone, the invariant of
  the database they work on, and what ingestion promises of a batch of events and of a batch of
  AWS findings.
\<close>

section \<open>What correlation leaves alone\<close>

lemma find_or_create_frame:
  "find_or_create found row c = (inc, c') \<Longrightarrow> db_events (cs_db c') = db_events (cs_db c) \<and> db_alerts (cs_db c') = db_alerts (cs_db c) \<and>
     alert_links (cs_db c') = alert_links (cs_db c) \<and> in_id ` set (db_incidents (cs_db c)) \<subseteq> in_id ` set (db_incidents (cs_db c'))"
  by (auto simp: find_or_create_def add_incident_def alert_links_def split: option.splits)

lemma incident_update_ids:
  assumes "incident_update now r d = (r', d')"
  shows "in_id ` set (db_incidents d') = in_id ` set (db_incidents d)"
proof -
  have "map in_id (db_incidents d') = map in_id (db_incidents d)"
    using assms by (auto simp: incident_update_def Let_def save_incident_def split: option.splits)
  then show ?thesis by (metis image_set)
qed

text \<open>
  What one correlation may change: incidents are only added, an open one stays open, and links are
  only added, to stored alerts and incidents.
\<close>

definition opened :: "uuid \<Rightarrow> db \<Rightarrow> bool" where
  "opened i d = (\<exists>x. get_incident i d = Some x \<and> in_status x = ''open'')"

lemma incident_update_opened:
  assumes "incident_update now r d = (r', d')" and "in_status r = ''open''" and "opened i d"
  shows "opened i d'"
proof -
  have "d' = d \<or> (d' = save_incident r' d \<and> in_status r' = ''open'')"
    using assms(1,2) by (auto simp: incident_update_def Let_def split: option.splits if_splits)
  then show ?thesis
    using assms(3) by (auto simp: opened_def incidents.get_save)
qed

lemma find_or_create_opened: "find_or_create found row c = (inc, c') \<Longrightarrow> opened i (cs_db c) \<Longrightarrow> opened i (cs_db c')"
  by (auto simp: find_or_create_def opened_def get_incident_def add_incident_def table_get_append split: option.splits)

definition correlated :: "db \<Rightarrow> db \<Rightarrow> bool" where
  "correlated d d' = (db_events d' = db_events d \<and> db_alerts d' = db_alerts d \<and>
     in_id ` set (db_incidents d) \<subseteq> in_id ` set (db_incidents d') \<and> set (alert_links d) \<subseteq> set (alert_links d') \<and>
     (\<forall>i. opened i d \<longrightarrow> opened i d') \<and>
     (distinct (alert_links d) \<longrightarrow> distinct (alert_links d')) \<and>
     set (alert_links d') - set (alert_links d) \<subseteq> in_id ` set (db_incidents d') \<times> al_id ` set (db_alerts d))"

lemma correlated_refl: "correlated d d"
  by (simp add: correlated_def)

lemma correlated_trans: "correlated d1 d2 \<Longrightarrow> correlated d2 d3 \<Longrightarrow> correlated d1 d3"
proof -
  assume a: "correlated d1 d2" and b: "correlated d2 d3"
  have "set (alert_links d3) - set (alert_links d1) \<subseteq> (set (alert_links d3) - set (alert_links d2)) \<union> (set (alert_links d2) - set (alert_links d1))"
    by blast
  also have "\<dots> \<subseteq> in_id ` set (db_incidents d3) \<times> al_id ` set (db_alerts d1)"
    using a b unfolding correlated_def by (intro Un_least) (metis, meson Sigma_mono order_trans subset_refl)
  finally have "set (alert_links d3) - set (alert_links d1) \<subseteq> in_id ` set (db_incidents d3) \<times> al_id ` set (db_alerts d1)" .
  moreover have "in_id ` set (db_incidents d1) \<subseteq> in_id ` set (db_incidents d3)" "set (alert_links d1) \<subseteq> set (alert_links d3)"
    using a b unfolding correlated_def by (meson order_trans)+
  ultimately show ?thesis using a b unfolding correlated_def by simp
qed

lemma get_incident_id: "get_incident i d \<noteq> None \<Longrightarrow> i \<in> in_id ` set (db_incidents d)"
  by (auto simp: get_incident_def dest: table_get_Some)

lemma correlated_steps:
  assumes create: "find_or_create found row c = (inc, c2)" and inc: "in_id inc \<in> in_id ` set (db_incidents (cs_db c2))"
    and link: "add_alert_links now (in_id inc) ids (cs_db c2) = Inr d3" and ids: "set ids \<subseteq> al_id ` set (db_alerts (cs_db c))"
    and update: "incident_update now r d3 = (r', d4)" and still_open: "in_status r = ''open''"
  shows "correlated (cs_db c) d4"
proof -
  note C = find_or_create_frame [OF create] and L = add_alert_links_Inr [OF link] and U = incident_update_facts [OF update]
  have "in_id ` set (db_incidents d4) = in_id ` set (db_incidents (cs_db c2))"
    using incident_update_ids [OF update] L(4) by simp
  moreover have "opened i d4" if "opened i (cs_db c)" for i
  proof (rule incident_update_opened [OF update still_open])
    show "opened i d3" using find_or_create_opened [OF create that] L(4) by (simp add: opened_def get_incident_def)
  qed
  ultimately show ?thesis using C L(2,3,5,6) U(1,2,3) ids inc by (auto simp: correlated_def)
qed

lemma open_incident_stored:
  assumes "find_or_create (find_open_related_incident k u s t1 t2 (cs_db c)) row c = (inc, c2)"
  shows "in_id inc \<in> in_id ` set (db_incidents (cs_db c2))"
  using assms find_open_in_table [of k u s t1 t2 "cs_db c"]
  by (auto simp: find_or_create_def add_incident_def split: option.splits)

lemma compromise_correlated:
  assumes "correlate_compromise st now i a c = Inr (r, c')" and "a \<in> set (db_alerts (cs_db c))"
  shows "correlated (cs_db c) (cs_db c')"
proof (cases "credential_compromise_candidates (related_with st a (cs_db c)) = []")
  case True
  then show ?thesis using assms(1) by (simp add: correlate_compromise_unfold correlated_refl split: if_splits)
next
  case False
  define cand where "cand = credential_compromise_candidates (related_with st a (cs_db c))"
  define u where "u = select_primary_username cand"
  define s where "s = select_primary_source_ip cand"
  let ?key = "build_correlation_key u s"
  let ?c1 = "c\<lparr>cs_locks := cs_locks c @ build_identity_lock_keys u s\<rparr>"
  let ?new = "new_compromise_incident i now ?key u s (Min (al_first_seen ` set cand)) (Max (al_last_seen ` set cand))"
  have ne: "cand \<noteq> []" using False by (simp add: cand_def)
  have times: "lookback_ok st a" "merge_window_ok st a" using correlate_compromise_times [OF assms(1)] False by simp_all
  obtain inc c2 where cr: "find_or_create (find_open_related_incident ?key u s
      (al_last_seen a - seconds (incident_merge_window_seconds st)) (al_last_seen a) (cs_db ?c1)) ?new ?c1 = (inc, c2)"
    by fastforce
  have "then_do (add_alert_links now (in_id inc) (map al_id cand) (cs_db c2)) (\<lambda>d3.
      then_do (refresh_incident st now ?key u s (get_alerts_for_incident (in_id inc) d3) d3 inc)
        (\<lambda>(inc, d4). Inr (Some inc, c2\<lparr>cs_db := d4\<rparr>))) = Inr (r, c')"
    using assms(1) ne cr times
    by (simp add: correlate_compromise_unfold Let_def py_min_def py_max_def cand_def [symmetric]
        u_def [symmetric] s_def [symmetric] del: then_do_Inr)
  then obtain d3 inc' d4 where ln: "add_alert_links now (in_id inc) (map al_id cand) (cs_db c2) = Inr d3"
    and rf: "refresh_incident st now ?key u s (get_alerts_for_incident (in_id inc) d3) d3 inc = Inr (inc', d4)"
    and c': "c' = c2\<lparr>cs_db := d4\<rparr>"
    by auto
  have "set cand \<subseteq> set (db_alerts (cs_db c))"
    using candidates_facts(1) [OF False] related_with_facts(1) [OF assms(2)] unfolding cand_def by blast
  then have ids: "set (map al_id cand) \<subseteq> al_id ` set (db_alerts (cs_db ?c1))" by auto
  have "in_status ?new = ''open''" by (simp add: new_compromise_incident_def)
  from find_or_create_facts(2) [OF cr this] have "in_status inc = ''open''" .
  with rf obtain x where "incident_update now x d3 = (inc', d4)" "in_status x = ''open''"
    by (auto simp: refresh_incident_def Let_def)
  then have "correlated (cs_db ?c1) d4"
    by (rule correlated_steps [OF cr open_incident_stored [OF cr] ln ids])
  then show ?thesis by (simp add: c')
qed

lemma finding_create:
  assumes "find_or_create_finding i now key a c = Inr (inc, c2)"
  shows "\<exists>risk. find_or_create (find_open_related_incident key None None (al_first_seen a - seconds (90 * 86400)) (al_last_seen a + seconds 1) (cs_db c))
    (new_finding_incident i now key a risk) c = (inc, c2)"
  using assms by (auto simp: find_or_create_finding_def find_or_create_def split: option.splits)

text \<open>The times the correlation of a finding computes.\<close>

definition finding_window_ok :: "alert \<Rightarrow> bool" where
  "finding_window_ok a = (datetime_ok (al_first_seen a - seconds (90 * 86400)) \<and> datetime_ok (al_last_seen a + seconds 1))"

lemma all_scores_Inr: "all_scores as = Inr ss \<Longrightarrow> a \<in> set as \<Longrightarrow> \<exists>s \<in> set ss. finding_score (al_severity a) = Inr s"
  by (induction as arbitrary: ss) auto

text \<open>A finding is correlated with an open, stored incident that it is linked to and whose risk is at least its own.\<close>

lemma cloud_correlated:
  assumes "correlate_cloud_finding st other now i a c = Inr (inc, c')" and "a \<in> set (db_alerts (cs_db c))"
  shows "correlated (cs_db c) (cs_db c')"
    "get_incident (in_id inc) (cs_db c') = Some inc" "in_status inc = ''open''"
    "(in_id inc, al_id a) \<in> set (alert_links (cs_db c'))"
    "finding_score (al_severity a) = Inr s \<Longrightarrow> s \<le> in_risk_score inc"
    "in_severity inc = severity_from_score (in_risk_score inc)"
proof -
  obtain e where e: "map_of (get_by_ids [al_event_id a] (cs_db c)) (al_event_id a) = Some e"
    using assms(1) by (auto simp: correlate_cloud_finding_def split: option.splits)
  let ?key = "finding_key other e"
  let ?c1 = "acquire_correlation_lock ?key c"
  obtain inc0 c2 d3 where cr: "find_or_create_finding i now ?key a ?c1 = Inr (inc0, c2)"
    and ln: "add_alert_links now (in_id inc0) [al_id a] (cs_db c2) = Inr d3"
    using assms(1) e by (auto simp: correlate_cloud_finding_def Let_def)
  let ?all = "get_alerts_for_incident (in_id inc0) d3"
  obtain ss worst latest where ss: "all_scores ?all = Inr ss" and worst: "py_max ss empty_seq = Inr worst"
    and latest: "py_max (map al_last_seen ?all) empty_seq = Inr latest"
    using assms(1) e cr ln by (auto simp: correlate_cloud_finding_def Let_def)
  define r where "r = inc0\<lparr>in_timeline := map JObj (build_incident_timeline ?all (get_by_ids (map al_event_id ?all) d3)),
      in_risk_score := max (score st ?all) worst, in_severity := severity_from_score (max (score st ?all) worst), in_last_seen := latest\<rparr>"
  have up: "incident_update now r d3 = (inc, cs_db c')"
    using assms(1) e cr ln ss worst latest by (auto simp: correlate_cloud_finding_def Let_def r_def split: prod.splits)
  obtain risk where cr': "find_or_create (find_open_related_incident ?key None None (al_first_seen a - seconds (90 * 86400))
      (al_last_seen a + seconds 1) (cs_db ?c1)) (new_finding_incident i now ?key a risk) ?c1 = (inc0, c2)"
    using finding_create [OF cr] by blast
  have stored: "in_id inc0 \<in> in_id ` set (db_incidents (cs_db c2))" by (rule open_incident_stored [OF cr'])
  have "in_status (new_finding_incident i now ?key a risk) = ''open''" by (simp add: new_finding_incident_def)
  from find_or_create_facts(2) [OF cr' this] have still_open: "in_status r = ''open''" by (simp add: r_def)
  have "correlated (cs_db ?c1) (cs_db c')"
    by (rule correlated_steps [OF cr' stored ln _ up still_open]) (use assms(2) in \<open>simp add: acquire_correlation_lock_def\<close>)
  then show "correlated (cs_db c) (cs_db c')" by (simp add: acquire_correlation_lock_def)
  note L = add_alert_links_Inr [OF ln] and U = incident_update_facts [OF up]
  have id: "in_id inc = in_id inc0" using U(4) by (simp add: r_def)
  have "get_incident (in_id r) d3 \<noteq> None"
    using stored L(4) by (auto simp: get_incident_def r_def table_get_None)
  then show "get_incident (in_id inc) (cs_db c') = Some inc"
    using incident_update_get [OF up] U(4) by simp
  show "in_status inc = ''open''" using U(10) still_open by simp
  show link: "(in_id inc, al_id a) \<in> set (alert_links (cs_db c'))" using U(2) L(2) id by simp
  have "db_alerts d3 = db_alerts (cs_db c)"
    using L(3) find_or_create_frame [OF cr'] by (simp add: acquire_correlation_lock_def)
  then have "a \<in> set ?all" using assms(2) L(2) by (auto simp: set_get_alerts_for_incident)
  then show "finding_score (al_severity a) = Inr s \<Longrightarrow> s \<le> in_risk_score inc"
    using all_scores_Inr [OF ss] worst U(5) by (force simp: py_max_Inr r_def le_max_iff_disj)
  show "in_severity inc = severity_from_score (in_risk_score inc)" using U(5,6) by (simp add: r_def)
qed

lemma correlate_alert_correlated:
  "correlate_alert st other now i a c = Inr (r, c') \<Longrightarrow> a \<in> set (db_alerts (cs_db c)) \<Longrightarrow> correlated (cs_db c) (cs_db c')"
  by (auto simp: correlate_alert_def correlated_refl dest: compromise_correlated cloud_correlated(1) split: if_splits)

lemma correlate_all_correlated:
  "correlate_all st other now xs incs c = Inr (r, c') \<Longrightarrow> set (map fst xs) \<subseteq> set (db_alerts (cs_db c)) \<Longrightarrow> correlated (cs_db c) (cs_db c')"
proof (induction st other now xs incs c rule: correlate_all.induct)
  case (2 st other now a i rest incs c)
  obtain found c1 where step: "correlate_alert st other now i a c = Inr (found, c1)"
    using "2.prems"(1) by auto
  have c1: "correlated (cs_db c) (cs_db c1)" using correlate_alert_correlated [OF step] "2.prems"(2) by simp
  then have "correlated (cs_db c1) (cs_db c')"
    using "2.IH" [OF step refl] "2.prems" step by (simp add: correlated_def)
  then show ?case using correlated_trans [OF c1] by blast
qed (simp add: correlated_refl)

text \<open>The database a pipeline works on: unique ids, and references that lead somewhere.\<close>

definition pipeline_ok :: "db \<Rightarrow> bool" where
  "pipeline_ok d =
    (distinct (map ev_id (db_events d)) \<and> distinct (map ev_event_id (db_events d)) \<and> distinct (map al_id (db_alerts d)) \<and>
     (\<forall>a \<in> set (db_alerts d). al_event_id a \<in> ev_id ` set (db_events d) \<and> al_severity a \<in> set event_severities) \<and>
     distinct (alert_links d) \<and> set (alert_links d) \<subseteq> in_id ` set (db_incidents d) \<times> al_id ` set (db_alerts d))"

lemma pipeline_ok_correlated: "pipeline_ok d \<Longrightarrow> correlated d d' \<Longrightarrow> pipeline_ok d'"
proof -
  assume ok: "pipeline_ok d" and cor: "correlated d d'"
  have "set (alert_links d') \<subseteq> (set (alert_links d') - set (alert_links d)) \<union> set (alert_links d)" by blast
  also have "\<dots> \<subseteq> in_id ` set (db_incidents d') \<times> al_id ` set (db_alerts d)"
    using ok cor unfolding pipeline_ok_def correlated_def by (intro Un_least) (blast, meson Sigma_mono order_trans subset_refl)
  finally show ?thesis using ok cor unfolding pipeline_ok_def correlated_def by simp
qed

lemma finding_score_total: "s \<in> set event_severities \<Longrightarrow> \<exists>n. finding_score s = Inr n"
  by (auto simp: event_severities_def finding_score_def)

lemma all_scores_total: "\<forall>a \<in> set as. al_severity a \<in> set event_severities \<Longrightarrow> \<exists>ss. all_scores as = Inr ss \<and> length ss = length as"
proof (induction as)
  case (Cons a as)
  then obtain n ss where "finding_score (al_severity a) = Inr n" "all_scores as = Inr ss" "length ss = length as"
    using finding_score_total by fastforce
  then show ?case by simp
qed simp

lemma cloud_total:
  assumes ok: "pipeline_ok (cs_db c)" and a: "a \<in> set (db_alerts (cs_db c))" and times: "finding_window_ok a"
  shows "\<exists>r. correlate_cloud_finding st other now i a c = Inr r"
proof -
  obtain e where ev: "e \<in> set (db_events (cs_db c))" "ev_id e = al_event_id a"
    using ok a by (auto simp: pipeline_ok_def image_iff)
  then have "map_of (get_by_ids [al_event_id a] (cs_db c)) (al_event_id a) \<noteq> None"
    by (auto simp: get_by_ids_def map_of_eq_None_iff image_iff)
  then obtain e' where e: "map_of (get_by_ids [al_event_id a] (cs_db c)) (al_event_id a) = Some e'" by blast
  let ?key = "finding_key other e'"
  let ?c1 = "acquire_correlation_lock ?key c"
  have "al_severity a \<in> set event_severities" using ok a by (simp add: pipeline_ok_def)
  then obtain n where "finding_score (al_severity a) = Inr n" using finding_score_total by blast
  then obtain inc c2 where cr: "find_or_create_finding i now ?key a ?c1 = Inr (inc, c2)"
    by (cases "find_open_related_incident ?key None None (al_first_seen a - seconds (90 * 86400)) (al_last_seen a + seconds 1) (cs_db ?c1)")
       (use times in \<open>auto simp: find_or_create_finding_def find_or_create_def finding_window_ok_def checked_datetime_def\<close>)
  obtain d3 where ln: "add_alert_links now (in_id inc) [al_id a] (cs_db c2) = Inr d3"
    using add_alert_links_ok [of "[al_id a]" now "in_id inc" "cs_db c2"] by auto
  have alerts: "db_alerts d3 = db_alerts (cs_db c)"
    using add_alert_links_Inr(3) [OF ln] finding_create [OF cr] find_or_create_frame by (fastforce simp: acquire_correlation_lock_def)
  let ?all = "get_alerts_for_incident (in_id inc) d3"
  have "a \<in> set ?all" using a alerts add_alert_links_Inr(2) [OF ln] by (auto simp: set_get_alerts_for_incident)
  moreover obtain ss where "all_scores ?all = Inr ss" "length ss = length ?all"
    using all_scores_total [of ?all] ok alerts by (auto simp: pipeline_ok_def set_get_alerts_for_incident)
  ultimately show ?thesis
    using e cr ln by (auto simp: correlate_cloud_finding_def Let_def py_max_def split: prod.split)
qed

text \<open>An alert whose correlation stays within the calendar.\<close>

definition alert_times_ok :: "settings \<Rightarrow> alert \<Rightarrow> bool" where
  "alert_times_ok st a = (lookback_ok st a \<and> merge_window_ok st a \<and> (al_rule_id a = ''rule_006_cloud_finding'' \<longrightarrow> finding_window_ok a))"

lemma correlate_alert_total:
  "pipeline_ok (cs_db c) \<Longrightarrow> a \<in> set (db_alerts (cs_db c)) \<Longrightarrow> alert_times_ok st a \<Longrightarrow> \<exists>r c'. correlate_alert st other now i a c = Inr (r, c')"
  using cloud_total [of c a st other now i] correlate_compromise_total [of a c st now i]
  by (auto simp: correlate_alert_def pipeline_ok_def alert_times_ok_def)

lemma correlate_all_total:
  "pipeline_ok (cs_db c) \<Longrightarrow> set (map fst xs) \<subseteq> set (db_alerts (cs_db c)) \<Longrightarrow> \<forall>a \<in> set (map fst xs). alert_times_ok st a \<Longrightarrow> \<exists>r c'. correlate_all st other now xs incs c = Inr (r, c')"
proof (induction xs arbitrary: incs c)
  case (Cons x xs)
  obtain a i where x: "x = (a, i)" by fastforce
  obtain found c1 where step: "correlate_alert st other now i a c = Inr (found, c1)"
    using correlate_alert_total [of c a st] Cons.prems x by fastforce
  have c1: "correlated (cs_db c) (cs_db c1)" using correlate_alert_correlated [OF step] Cons.prems(2) x by simp
  then have "set (map fst xs) \<subseteq> set (db_alerts (cs_db c1))" using Cons.prems(2) by (simp add: correlated_def)
  then show ?case using Cons.IH [OF pipeline_ok_correlated [OF Cons.prems(1) c1]] Cons.prems(3) step x by simp
qed simp

section \<open>What detection adds\<close>

lemma privilege_change_match:
  assumes "suspicious_privilege_change_evaluate c e = Inr (Some m)"
  shows "dr_severity m = ''high''" "dr_last_seen m = Some (ev_timestamp e)" "dr_rule_id m = ''rule_003_suspicious_privilege_change''"
proof -
  obtain failures where "ev_event_type e = ''privilege_change''" "er_context_for_privilege_change (dc_event_repository c) (ev_username e) (ev_source_ip e)
      (privilege_change_lookback_seconds (dc_settings c)) (ev_timestamp e) = Inr failures"
    using assms by (auto simp: suspicious_privilege_change_evaluate_def Let_def split: if_splits)
  then show "dr_severity m = ''high''" "dr_last_seen m = Some (ev_timestamp e)" "dr_rule_id m = ''rule_003_suspicious_privilege_change''"
    using assms by (cases failures; auto simp: suspicious_privilege_change_evaluate_def Let_def)+
qed

lemma fixed_severity:
  "brute_force_evaluate c e = Inr (Some m) \<Longrightarrow> dr_severity m \<in> set event_severities"
  "password_spray_evaluate c e = Inr (Some m) \<Longrightarrow> dr_severity m \<in> set event_severities"
  "suspicious_privilege_change_evaluate c e = Inr (Some m) \<Longrightarrow> dr_severity m \<in> set event_severities"
  "large_download_evaluate c e = Inr (Some m) \<Longrightarrow> dr_severity m \<in> set event_severities"
  "login_after_failures_evaluate c e = Inr (Some m) \<Longrightarrow> dr_severity m \<in> set event_severities"
  "ml_anomaly_evaluate c e = Inr (Some m) \<Longrightarrow> dr_severity m \<in> set event_severities"
proof -
  have known: "''high'' \<in> set event_severities" "''medium'' \<in> set event_severities" "''critical'' \<in> set event_severities"
    by (simp_all add: event_severities_def)
  show "brute_force_evaluate c e = Inr (Some m) \<Longrightarrow> dr_severity m \<in> set event_severities"
    by (auto simp: brute_force_evaluate_def Let_def known split: if_splits sum.splits list.splits)
  show "password_spray_evaluate c e = Inr (Some m) \<Longrightarrow> dr_severity m \<in> set event_severities"
    by (auto simp: password_spray_evaluate_def Let_def known split: if_splits sum.splits list.splits)
  show "suspicious_privilege_change_evaluate c e = Inr (Some m) \<Longrightarrow> dr_severity m \<in> set event_severities"
    using privilege_change_match(1) known by simp
  show "large_download_evaluate c e = Inr (Some m) \<Longrightarrow> dr_severity m \<in> set event_severities"
    by (auto simp: large_download_evaluate_def Let_def known split: if_splits option.splits)
  show "login_after_failures_evaluate c e = Inr (Some m) \<Longrightarrow> dr_severity m \<in> set event_severities"
    by (auto simp: login_after_failures_evaluate_def Let_def known split: if_splits sum.splits list.splits)
  show "ml_anomaly_evaluate c e = Inr (Some m) \<Longrightarrow> dr_severity m \<in> set event_severities"
    by (auto simp: ml_anomaly_evaluate_def Let_def known split: if_splits sum.splits option.splits)
qed

lemma cloud_severity:
  assumes "cloud_finding_evaluate other c e = Inr (Some m)"
    and "case ev_severity e of None \<Rightarrow> True | Some s \<Rightarrow> s \<in> set event_severities"
  shows "dr_severity m \<in> set event_severities"
  using assms by (auto simp: cloud_finding_evaluate_def Let_def str_or_def event_severities_def split: if_splits option.splits)

lemma builtin_severity:
  assumes "r \<in> set (builtin_rules other)" "ru_evaluate r c e = Inr (Some m)"
    and "case ev_severity e of None \<Rightarrow> True | Some s \<Rightarrow> s \<in> set event_severities"
  shows "dr_severity m \<in> set event_severities"
  using assms(1,2) fixed_severity [of c e m] cloud_severity [OF _ assms(3), of other c m] by (auto simp: builtin_rules_def)

lemma evaluate_rules_from:
  "evaluate_rules rs c e = Inr ms \<Longrightarrow> length ms \<le> length rs \<and> (\<forall>m \<in> set ms. \<exists>r \<in> set rs. ru_evaluate r c e = Inr (Some m))"
  by (induction rs arbitrary: ms) (auto split: sum.splits option.splits)

lemma registry_rules: "build_rule_registry other = Inr g \<Longrightarrow> rg_rules g = builtin_rules other"
  by (auto simp: build_rule_registry_def make_registry_def split: sum.splits)

lemma registry_exists: "\<exists>g. build_rule_registry other = Inr g"
  by (auto simp: build_rule_registry_def make_registry_def builtin_rules_def)

lemma build_alerts_simps:
  "map al_id (build_alerts e ms ids now) = map ids [0..<length ms]"
  "length (build_alerts e ms ids now) = length ms"
  "a \<in> set (build_alerts e ms ids now) \<Longrightarrow> al_event_id a = ev_id e \<and> (\<exists>m \<in> set ms. al_severity a = dr_severity m \<and> al_rule_id a = dr_rule_id m)"
  by (auto simp: build_alerts_def build_alert_def enumerate_eq_zip comp_def split_beta map_fst_zip_take
      dest: set_zip_rightD intro!: nth_equalityI)

lemma build_alerts_origin: "a \<in> set (build_alerts e ms ids now) \<Longrightarrow> \<exists>m \<in> set ms. \<exists>i. a = build_alert e m i now"
  by (auto simp: build_alerts_def enumerate_eq_zip dest: set_zip_rightD)

text \<open>Every alert was last seen at its event, and the alert of a finding was first seen there too.\<close>

lemma builtin_seen:
  assumes d: "dc_event_repository c = event_repository_of d" and e: "e \<in> set (db_events d)"
    and r: "r \<in> set (builtin_rules other)" "ru_evaluate r c e = Inr (Some m)"
  shows "dr_last_seen m = Some (ev_timestamp e) \<and>
    (dr_rule_id m = ''rule_006_cloud_finding'' \<longrightarrow> dr_first_seen m = Some (ev_timestamp e))"
proof -
  define P where "P = (dr_last_seen m = Some (ev_timestamp e) \<and>
    (dr_rule_id m = ''rule_006_cloud_finding'' \<longrightarrow> dr_first_seen m = Some (ev_timestamp e)))"
  have "dr_rule_id m = ''rule_001_brute_force''" if "brute_force_evaluate c e = Inr (Some m)"
    using that by (auto simp: brute_force_evaluate_def Let_def split: if_splits sum.splits)
  then have "brute_force_evaluate c e = Inr (Some m) \<Longrightarrow> P" using brute_force_last_seen [OF d e] by (simp add: P_def)
  moreover have "password_spray_evaluate c e = Inr (Some m) \<Longrightarrow> P"
    by (auto simp: P_def password_spray_evaluate_def Let_def split: if_splits)
  moreover have "suspicious_privilege_change_evaluate c e = Inr (Some m) \<Longrightarrow> P"
    using privilege_change_match(2,3) [of c e m] by (simp add: P_def)
  moreover have "large_download_evaluate c e = Inr (Some m) \<Longrightarrow> P"
    by (auto simp: P_def large_download_evaluate_def Let_def split: if_splits option.splits)
  moreover have "login_after_failures_evaluate c e = Inr (Some m) \<Longrightarrow> P"
    by (auto simp: P_def login_after_failures_evaluate_def Let_def split: if_splits sum.splits)
  moreover have "ml_anomaly_evaluate c e = Inr (Some m) \<Longrightarrow> P"
    by (auto simp: P_def ml_anomaly_evaluate_def Let_def split: if_splits option.splits sum.splits)
  moreover have "cloud_finding_evaluate other c e = Inr (Some m) \<Longrightarrow> P"
    by (auto simp: P_def cloud_finding_evaluate_def Let_def split: if_splits)
  ultimately have P using r by (auto simp: builtin_rules_def)
  then show ?thesis unfolding P_def .
qed

definition valid_severity :: "event \<Rightarrow> bool" where
  "valid_severity e = (case ev_severity e of None \<Rightarrow> True | Some s \<Rightarrow> s \<in> set event_severities)"

lemma run_detection_Inr:
  assumes "run_detection G w e d = Inr (alerts, d')"
  shows "d' = d\<lparr>db_alerts := db_alerts d @ alerts\<rparr>" "length alerts \<le> 7"
    "map al_id alerts = map (ed_alert w) [0..<length alerts]" "\<forall>a \<in> set alerts. al_event_id a = ev_id e"
    "valid_severity e \<Longrightarrow> \<forall>a \<in> set alerts. al_severity a \<in> set event_severities"
    "distinct (map al_id alerts)" "al_id ` set alerts \<inter> al_id ` set (db_alerts d) = {}"
    "e \<in> set (db_events d) \<Longrightarrow> \<forall>a \<in> set alerts. al_last_seen a = ev_timestamp e \<and>
       (al_rule_id a = ''rule_006_cloud_finding'' \<longrightarrow> al_first_seen a = ev_timestamp e)"
proof -
  obtain g ms where g: "build_rule_registry (ig_show G) = Inr g" and ms: "evaluate_event g (ingest_context G d) e = Inr ms"
    and alerts: "alerts = build_alerts e ms (ed_alert w) (ed_alert_created w)"
    and store: "if alerts = [] then d' = d else alerts_create_many alerts d = Inr d'"
    using assms by (auto simp: run_detection_def Let_def split: if_splits)
  show "d' = d\<lparr>db_alerts := db_alerts d @ alerts\<rparr>" using store by (auto simp: alerts_create_many_def split: if_splits)
  note origin = evaluate_rules_from [OF ms [unfolded evaluate_event_def registry_rules [OF g]]]
  show "length alerts \<le> 7" using origin by (simp add: alerts build_alerts_simps builtin_rules_def)
  show "map al_id alerts = map (ed_alert w) [0..<length alerts]" by (simp add: alerts build_alerts_simps)
  show "\<forall>a \<in> set alerts. al_event_id a = ev_id e" using build_alerts_simps(3) by (auto simp: alerts)
  show "\<forall>a \<in> set alerts. al_severity a \<in> set event_severities" if "valid_severity e"
    using origin build_alerts_simps(3) builtin_severity that unfolding alerts valid_severity_def by metis
  show "distinct (map al_id alerts)" "al_id ` set alerts \<inter> al_id ` set (db_alerts d) = {}"
    using store by (auto simp: alerts_create_many_def split: if_splits)
  show "\<forall>a \<in> set alerts. al_last_seen a = ev_timestamp e \<and>
       (al_rule_id a = ''rule_006_cloud_finding'' \<longrightarrow> al_first_seen a = ev_timestamp e)" if e: "e \<in> set (db_events d)"
  proof
    fix a assume "a \<in> set alerts"
    then obtain m i where m: "m \<in> set ms" and a: "a = build_alert e m i (ed_alert_created w)"
      using build_alerts_origin unfolding alerts by blast
    then obtain r where "r \<in> set (builtin_rules (ig_show G))" "ru_evaluate r (ingest_context G d) e = Inr (Some m)"
      using origin by blast
    from builtin_seen [OF _ e this] show "al_last_seen a = ev_timestamp e \<and>
       (al_rule_id a = ''rule_006_cloud_finding'' \<longrightarrow> al_first_seen a = ev_timestamp e)"
      by (simp add: ingest_context_def a build_alert_def)
  qed
qed

lemma run_detection_total:
  assumes "0 < brute_force_threshold (ig_settings G)" "0 < login_after_failures_threshold (ig_settings G)"
    and "\<exists>r. ig_score G d e = Inr r" and "rule_windows_ok (ig_settings G) (ev_timestamp e)" and "inj_on (ed_alert w) {..<7}" "ed_alert w ` {..<7} \<inter> al_id ` set (db_alerts d) = {}"
  shows "\<exists>alerts d'. run_detection G w e d = Inr (alerts, d')"
proof -
  obtain g where g: "build_rule_registry (ig_show G) = Inr g" using registry_exists by blast
  have "\<exists>ms. evaluate_rules (builtin_rules (ig_show G)) (ingest_context G d) e = Inr ms"
    by (rule evaluate_rules_total, intro ballI, rule builtin_rules_total)
       (use assms(1-4) event_history.failure_history_axioms in \<open>simp_all add: ingest_context_def model_answers_def\<close>)
  then obtain ms where ms: "evaluate_event g (ingest_context G d) e = Inr ms"
    by (auto simp: evaluate_event_def registry_rules [OF g])
  have len: "length ms \<le> 7"
    using evaluate_rules_from [OF ms [unfolded evaluate_event_def registry_rules [OF g]]] by (simp add: builtin_rules_def)
  let ?as = "build_alerts e ms (ed_alert w) (ed_alert_created w)"
  have ids: "set (map al_id ?as) \<subseteq> ed_alert w ` {..<7}" using len by (auto simp: build_alerts_simps(1))
  have "distinct (map al_id ?as)"
    unfolding build_alerts_simps(1) using len assms(5) by (auto simp: distinct_map intro: inj_on_subset)
  then have "alerts_create_many ?as d = Inr (d\<lparr>db_alerts := db_alerts d @ ?as\<rparr>)"
    using ids assms(6) by (auto simp: alerts_create_many_def)
  then show ?thesis using g ms by (auto simp: run_detection_def Let_def)
qed


section \<open>What follows the commit\<close>

lemma investigation_for_frame:
  "investigation_for st en i h d = (x, q, d') \<Longrightarrow> db_events d' = db_events d \<and> db_alerts d' = db_alerts d \<and> correlated d d' \<and>
     db_audit_logs d' = db_audit_logs d"
  by (auto simp: investigation_for_def Let_def add_investigation_def save_investigation_def correlated_def alert_links_def opened_def get_incident_def
      split: option.splits if_splits)

text \<open>What requests of investigations leave alone: everything but the investigations.\<close>

definition same_pipeline :: "db \<Rightarrow> db \<Rightarrow> bool" where
  "same_pipeline d d' = (db_events d' = db_events d \<and> db_alerts d' = db_alerts d \<and> db_incidents d' = db_incidents d \<and>
     db_incident_alerts d' = db_incident_alerts d \<and> db_audit_logs d' = db_audit_logs d)"

lemma same_pipeline_refl: "same_pipeline d d"
  by (simp add: same_pipeline_def)

lemma same_pipeline_trans: "same_pipeline d1 d2 \<Longrightarrow> same_pipeline d2 d3 \<Longrightarrow> same_pipeline d1 d3"
  by (simp add: same_pipeline_def)

lemma same_pipeline_ok: "same_pipeline d d' \<Longrightarrow> pipeline_ok d \<Longrightarrow> pipeline_ok d'"
  by (simp add: same_pipeline_def pipeline_ok_def alert_links_def)

lemma investigation_for_same: "investigation_for st en i h d = (x, q, d') \<Longrightarrow> same_pipeline d d'"
  by (auto simp: investigation_for_def Let_def add_investigation_def save_investigation_def same_pipeline_def
      split: option.splits if_splits)

lemma request_same: "same_pipeline (wd_db w) (wd_db (snd (request_investigation R cr st en err i w)))"
  by (auto simp: request_investigation_def save_investigation_def same_pipeline_def
      dest: investigation_for_same split: sum.split option.split prod.split)

lemma dispatch_same: "same_pipeline (wd_db w) (wd_db (dispatch_incident R cr st en err i w))"
proof -
  obtain taken s where claim: "r_set_nx R (en_now en 4) (cooldown_key st (in_id i)) ''1''
      (automatic_investigation_cooldown_seconds st) (wd_redis w) = (taken, s)" by fastforce
  show ?thesis
    using request_same [of "w\<lparr>wd_redis := s\<rparr>" R cr st en err "in_id i"]
    by (auto simp: dispatch_incident_def claim same_pipeline_refl split: sum.split prod.split)
qed

lemma dispatch_all_same: "same_pipeline (wd_db w) (wd_db (dispatch_incidents R cr st ens errs n is w))"
  by (induction R cr st ens errs n "is" w rule: dispatch_incidents.induct)
     (simp_all add: same_pipeline_refl, metis dispatch_same same_pipeline_trans)

section \<open>A batch of events\<close>

text \<open>The ids a batch draws are new: the database and the generator of UUIDs guarantee it.\<close>

definition drawn_alert_ids :: "event_draws \<Rightarrow> uuid list" where
  "drawn_alert_ids w = map (ed_alert w) [0..<7]"

definition new_ids :: "(event_create \<times> event_draws) list \<Rightarrow> db \<Rightarrow> bool" where
  "new_ids ps d = (distinct (map (\<lambda>(p, w). ed_row w) ps) \<and> (\<forall>(p, w) \<in> set ps. ed_row w \<notin> ev_id ` set (db_events d)) \<and>
     distinct (concat (map (\<lambda>(p, w). drawn_alert_ids w) ps)) \<and>
     (\<forall>(p, w) \<in> set ps. set (drawn_alert_ids w) \<inter> al_id ` set (db_alerts d) = {}))"

text \<open>The event ids of a batch: the client's, or generated ones.\<close>

definition batch_event_ids :: "ingest_config \<Rightarrow> (event_create \<times> event_draws) list \<Rightarrow> string list" where
  "batch_event_ids G ps = map (\<lambda>(p, w). ev_event_id (normalized_event G w p)) ps"

text \<open>
  The times of events for which nothing of the pipeline leaves Python's calendar: neither the
  windows of the rules and of the model, nor those of the correlation.
\<close>

definition times_ok :: "settings \<Rightarrow> datetime \<Rightarrow> bool" where
  "times_ok st t = (datetime_ok t \<and> rule_windows_ok st t \<and> datetime_ok (t - seconds (ml_aggregation_window_seconds st)) \<and>
     datetime_ok (t - seconds (credential_compromise_lookback_seconds st)) \<and> datetime_ok (t - seconds (incident_merge_window_seconds st)) \<and>
     datetime_ok (t - seconds (90 * 86400)) \<and> datetime_ok (t + seconds 1))"

lemma times_ok_between: "times_ok st a \<Longrightarrow> times_ok st b \<Longrightarrow> a \<le> t \<Longrightarrow> t \<le> b \<Longrightarrow> times_ok st t"
proof -
  assume a: "times_ok st a" and b: "times_ok st b" and le: "a \<le> t" "t \<le> b"
  have before: "datetime_ok (t - n)" if "datetime_ok (a - n)" "datetime_ok (b - n)" for n
    by (rule datetime_ok_between [OF that]) (use le in simp_all)
  have after: "datetime_ok (t + n)" if "datetime_ok (a + n)" "datetime_ok (b + n)" for n
    by (rule datetime_ok_between [OF that]) (use le in simp_all)
  have "rule_windows_ok st t"
    using a b by (auto simp: times_ok_def rule_windows_ok_def list_all_iff intro!: before)
  then show "times_ok st t"
    using a b before after datetime_ok_between [OF _ _ le] unfolding times_ok_def by blast
qed

lemma times_ok_alert:
  assumes "times_ok st (al_last_seen a)" and "al_rule_id a = ''rule_006_cloud_finding'' \<longrightarrow> al_first_seen a = al_last_seen a"
  shows "alert_times_ok st a"
  using assms by (simp add: times_ok_def alert_times_ok_def lookback_ok_def merge_window_ok_def finding_window_ok_def)

definition config_ok :: "ingest_config \<Rightarrow> bool" where
  "config_ok G = (0 < brute_force_threshold (ig_settings G) \<and> 0 < login_after_failures_threshold (ig_settings G) \<and>
     (\<forall>d e. times_ok (ig_settings G) (ev_timestamp e) \<longrightarrow> (\<exists>r. ig_score G d e = Inr r)))"

lemma normalized_fields:
  "ev_id (normalized_event G w p) = ed_row w" "ev_severity (normalized_event G w p) = ec_severity p"
  "ev_timestamp (normalized_event G w p) = instant (ec_timestamp p)"
  by (simp_all add: normalized_event_def event_row_def)

lemma valid_normalized: "event_create_valid p \<Longrightarrow> valid_severity (normalized_event G w p)"
  by (auto simp: valid_severity_def normalized_fields event_create_valid_def split: option.splits)

lemma alert_links_frame:
  "alert_links (d\<lparr>db_events := es\<rparr>) = alert_links d" "alert_links (d\<lparr>db_alerts := as\<rparr>) = alert_links d"
  by (simp_all add: alert_links_def)

lemma event_stored_ok:
  assumes "pipeline_ok d" and "event_create_row e d = Inr d'"
  shows "pipeline_ok d'" "db_events d' = db_events d @ [e]" "db_alerts d' = db_alerts d"
  using assms by (auto simp: event_create_row_def pipeline_ok_def alert_links_frame split: if_splits)

lemma alerts_stored_ok:
  assumes ok: "pipeline_ok d" and run: "run_detection G w e d = Inr (alerts, d')"
    and e: "e \<in> set (db_events d)" "valid_severity e"
  shows "pipeline_ok d'"
proof -
  note D = run_detection_Inr [OF run]
  have "set (alert_links d) \<subseteq> in_id ` set (db_incidents d) \<times> al_id ` set (db_alerts d')"
    using ok D(1) by (auto simp: pipeline_ok_def)
  moreover have "distinct (map al_id (db_alerts d'))" using ok D(1,6,7) by (auto simp: pipeline_ok_def)
  moreover have "\<forall>a \<in> set (db_alerts d'). al_event_id a \<in> ev_id ` set (db_events d') \<and> al_severity a \<in> set event_severities"
    using ok D(1,4) D(5) [OF e(2)] e(1) by (auto simp: pipeline_ok_def)
  ultimately show ?thesis using ok D(1) by (simp add: pipeline_ok_def alert_links_frame)
qed

lemma ingest_event_normalized: "ingest_event G w p c = Inr x \<Longrightarrow> normalize_event G w p = Inr (normalized_event G w p)"
  by (auto simp: ingest_event_def dest: normalize_event_Inr)

text \<open>One event: it is stored, the invariant is kept, and its alerts have the ids it drew.\<close>

lemma ingest_event_Inr:
  assumes run: "ingest_event G w p c = Inr (item, c')" and ok: "pipeline_ok (cs_db c)" and p: "event_create_valid p"
  shows "pipeline_ok (cs_db c')" "db_events (cs_db c') = db_events (cs_db c) @ [normalized_event G w p]"
    "set (db_alerts (cs_db c)) \<subseteq> set (db_alerts (cs_db c'))"
    "al_id ` set (db_alerts (cs_db c')) \<subseteq> al_id ` set (db_alerts (cs_db c)) \<union> set (drawn_alert_ids w)"
    "it_event item = normalized_event G w p" "set (it_alerts item) \<subseteq> set (db_alerts (cs_db c'))"
    "set (alert_links (cs_db c)) \<subseteq> set (alert_links (cs_db c'))" "opened i (cs_db c) \<Longrightarrow> opened i (cs_db c')"
proof -
  let ?e = "normalized_event G w p"
  note e = ingest_event_normalized [OF run]
  obtain d alerts d' where store: "event_create_row ?e (cs_db c) = Inr d" and det: "run_detection G w ?e d = Inr (alerts, d')"
    using run by (auto simp: ingest_event_def e split: prod.splits)
  note E = event_stored_ok [OF ok store] and D = run_detection_Inr [OF det]
  have "?e \<in> set (db_events d)" using E(2) by simp
  then have okd: "pipeline_ok d'" by (rule alerts_stored_ok [OF E(1) det _ valid_normalized [OF p]])
  have ids: "al_id ` set (db_alerts d') \<subseteq> al_id ` set (db_alerts (cs_db c)) \<union> set (drawn_alert_ids w)"
  proof -
    have "al_id ` set alerts = ed_alert w ` {..<length alerts}"
      using arg_cong [OF D(3), of set] by (simp add: lessThan_atLeast0)
    moreover have "{..<length alerts} \<subseteq> {..<7}" using D(2) by auto
    ultimately have "al_id ` set alerts \<subseteq> set (drawn_alert_ids w)"
      by (auto simp: drawn_alert_ids_def lessThan_atLeast0)
    then show ?thesis using D(1) E(3) by auto
  qed
  have step: "correlated d' (cs_db c')" and item: "it_event item = ?e" "it_alerts item = alerts"
  proof -
    have "\<exists>incs. correlate (ig_settings G) (ig_show G) (ed_correlated w) (zip alerts (map (ed_incident w) [0..<length alerts]))
        (c\<lparr>cs_db := d'\<rparr>) = Inr (incs, c')" if "alerts \<noteq> []"
      using run store det that by (auto simp: ingest_event_def e)
    moreover have "cs_db c' = d'" if "alerts = []"
      using run store det that by (auto simp: ingest_event_def e)
    moreover have "set (map fst (zip alerts (map (ed_incident w) [0..<length alerts]))) \<subseteq> set (db_alerts d')"
      using D(1) by simp
    ultimately show "correlated d' (cs_db c')"
      by (cases "alerts = []") (auto simp: correlated_refl correlate_def dest!: correlate_all_correlated)
    show "it_event item = ?e" "it_alerts item = alerts"
      using run store det by (auto simp: ingest_event_def e split: if_splits prod.splits)
  qed
  show "pipeline_ok (cs_db c')" by (rule pipeline_ok_correlated [OF okd step])
  have same: "db_alerts (cs_db c') = db_alerts d'" "db_events (cs_db c') = db_events d'"
    using step by (simp_all add: correlated_def)
  show "db_events (cs_db c') = db_events (cs_db c) @ [?e]" using same E(2) D(1) by simp
  show "set (db_alerts (cs_db c)) \<subseteq> set (db_alerts (cs_db c'))" using same E(3) D(1) by simp
  show "al_id ` set (db_alerts (cs_db c')) \<subseteq> al_id ` set (db_alerts (cs_db c)) \<union> set (drawn_alert_ids w)"
    using same ids by simp
  show "it_event item = ?e" by (rule item)
  show "set (it_alerts item) \<subseteq> set (db_alerts (cs_db c'))" using same item D(1) by simp
  have rows: "db_incidents d' = db_incidents (cs_db c)" "db_incident_alerts d' = db_incident_alerts (cs_db c)"
    using D(1) store by (auto simp: event_create_row_def split: if_splits)
  then show "set (alert_links (cs_db c)) \<subseteq> set (alert_links (cs_db c'))" using step by (simp add: correlated_def alert_links_def)
  show "opened i (cs_db c')" if "opened i (cs_db c)"
    using step that rows by (simp add: correlated_def opened_def get_incident_def)
qed

lemma ingest_event_total:
  assumes G: "config_ok G" and ok: "pipeline_ok (cs_db c)" and p: "event_create_valid p"
    and row: "ed_row w \<notin> ev_id ` set (db_events (cs_db c))"
    and ids: "ev_event_id (normalized_event G w p) \<notin> ev_event_id ` set (db_events (cs_db c))"
    and fits: "event_row_fits (normalized_event G w p)"
    and alerts: "distinct (drawn_alert_ids w)" "set (drawn_alert_ids w) \<inter> al_id ` set (db_alerts (cs_db c)) = {}"
    and times: "times_ok (ig_settings G) (instant (ec_timestamp p))"
  shows "\<exists>item c'. ingest_event G w p c = Inr (item, c')"
proof -
  let ?e = "normalized_event G w p"
  obtain d where store: "event_create_row ?e (cs_db c) = Inr d"
    using row ids fits by (auto simp: event_create_row_def normalized_fields)
  note E = event_stored_ok [OF ok store]
  have "inj_on (ed_alert w) {..<7}" "ed_alert w ` {..<7} \<inter> al_id ` set (db_alerts d) = {}"
    using alerts E(3) by (auto simp: drawn_alert_ids_def distinct_map lessThan_atLeast0)
  then obtain as d' where det: "run_detection G w ?e d = Inr (as, d')"
    using run_detection_total [of G d ?e w] G times by (auto simp: config_ok_def normalized_fields times_ok_def)
  have "?e \<in> set (db_events d)" using E(2) by simp
  then have okd: "pipeline_ok d'" by (rule alerts_stored_ok [OF E(1) det _ valid_normalized [OF p]])
  have "\<exists>incs c'. correlate (ig_settings G) (ig_show G) (ed_correlated w) (zip as (map (ed_incident w) [0..<length as]))
      (c\<lparr>cs_db := d'\<rparr>) = Inr (incs, c')"
    unfolding correlate_def
  proof (rule correlate_all_total)
    show "\<forall>a \<in> set (map fst (zip as (map (ed_incident w) [0..<length as]))). alert_times_ok (ig_settings G) a"
      using run_detection_Inr(8) [OF det \<open>?e \<in> set (db_events d)\<close>] times by (auto simp: normalized_fields intro!: times_ok_alert)
  qed (use okd run_detection_Inr(1) [OF det] in simp_all)
  moreover have "normalize_event G w p = Inr ?e"
    using times by (intro normalize_event_ok) (simp add: times_ok_def)
  ultimately show ?thesis using store det by (auto simp: ingest_event_def)
qed

lemma ingest_events_Inr:
  assumes "ingest_events G ps c = Inr (items, c')" "pipeline_ok (cs_db c)" "\<forall>(p, w) \<in> set ps. event_create_valid p"
  shows "pipeline_ok (cs_db c')" "db_events (cs_db c') = db_events (cs_db c) @ map (\<lambda>(p, w). normalized_event G w p) ps"
    "map it_event items = map (\<lambda>(p, w). normalized_event G w p) ps"
  using assms
proof (induction G ps c arbitrary: items rule: ingest_events.induct)
  case (2 G p w rest c)
  { case 1
    then obtain item c1 items1 where s: "ingest_event G w p c = Inr (item, c1)" "ingest_events G rest c1 = Inr (items1, c')"
      by auto
    show ?case using "2.IH"(1) [OF s(1) refl s(2)] ingest_event_Inr(1) [OF s(1)] 1 by simp
  next
    case 2
    then obtain item c1 items1 where s: "ingest_event G w p c = Inr (item, c1)" "ingest_events G rest c1 = Inr (items1, c')"
      by auto
    show ?case using "2.IH"(2) [OF s(1) refl s(2)] ingest_event_Inr(1,2) [OF s(1)] 2 by simp
  next
    case 3
    then obtain item c1 items1 where s: "ingest_event G w p c = Inr (item, c1)" "ingest_events G rest c1 = Inr (items1, c')"
      "items = item # items1" by auto
    show ?case using "2.IH"(3) [OF s(1) refl s(2)] ingest_event_Inr(1,5) [OF s(1)] 3 s(3) by simp
  }
qed simp_all

lemma new_ids_Cons:
  "new_ids ((p, w) # rest) d =
    (ed_row w \<notin> ev_id ` set (db_events d) \<and> distinct (drawn_alert_ids w) \<and> set (drawn_alert_ids w) \<inter> al_id ` set (db_alerts d) = {} \<and>
     (\<forall>x \<in> set rest. ed_row (snd x) \<noteq> ed_row w \<and> set (drawn_alert_ids w) \<inter> set (drawn_alert_ids (snd x)) = {}) \<and> new_ids rest d)"
  unfolding new_ids_def by (auto simp: case_prod_unfold rev_image_eqI)

lemma new_ids_rest:
  "new_ids ps d \<Longrightarrow> x \<in> set ps \<Longrightarrow>
     ed_row (snd x) \<notin> ev_id ` set (db_events d) \<and> set (drawn_alert_ids (snd x)) \<inter> al_id ` set (db_alerts d) = {}"
  unfolding new_ids_def by (simp add: case_prod_unfold)

lemma new_ids_step:
  assumes run: "ingest_event G w p c = Inr (item, c')" and ok: "pipeline_ok (cs_db c)" and p: "event_create_valid p"
    and new: "new_ids ((p, w) # rest) (cs_db c)"
  shows "new_ids rest (cs_db c')"
proof -
  note F = ingest_event_Inr(2,4) [OF run ok p]
  have rows: "ev_id ` set (db_events (cs_db c')) = insert (ed_row w) (ev_id ` set (db_events (cs_db c)))"
    using F(1) by (simp add: normalized_fields)
  have "set (drawn_alert_ids (snd x)) \<inter> al_id ` set (db_alerts (cs_db c')) = {}" "ed_row (snd x) \<notin> ev_id ` set (db_events (cs_db c'))"
    if x: "x \<in> set rest" for x
  proof -
    have old: "new_ids rest (cs_db c)" "ed_row (snd x) \<noteq> ed_row w" "set (drawn_alert_ids w) \<inter> set (drawn_alert_ids (snd x)) = {}"
      using new x unfolding new_ids_Cons by simp_all
    show "set (drawn_alert_ids (snd x)) \<inter> al_id ` set (db_alerts (cs_db c')) = {}" "ed_row (snd x) \<notin> ev_id ` set (db_events (cs_db c'))"
      using F(2) rows new_ids_rest [OF old(1) x] old(2,3) by blast+
  qed
  then show ?thesis using new unfolding new_ids_Cons by (simp add: new_ids_def case_prod_unfold)
qed

definition batch_storable :: "ingest_config \<Rightarrow> (event_create \<times> event_draws) list \<Rightarrow> db \<Rightarrow> bool" where
  "batch_storable G ps d = (distinct (batch_event_ids G ps @ map ev_event_id (db_events d)) \<and>
     (\<forall>(p, w) \<in> set ps. event_row_fits (normalized_event G w p)))"

lemma batch_storable_Cons:
  assumes "ingest_event G w p c = Inr (item, c')" "pipeline_ok (cs_db c)" "event_create_valid p"
  shows "batch_storable G ((p, w) # rest) (cs_db c) = batch_storable G rest (cs_db c')"
proof -
  let ?e = "normalized_event G w p"
  obtain d where "event_create_row ?e (cs_db c) = Inr d"
    using assms(1) by (auto simp: ingest_event_def ingest_event_normalized [OF assms(1)])
  then have "event_row_fits ?e" "ev_event_id ?e \<notin> ev_event_id ` set (db_events (cs_db c))"
    by (auto simp: event_create_row_def split: if_splits)
  then show ?thesis using ingest_event_Inr(2) [OF assms] by (auto simp: batch_storable_def batch_event_ids_def)
qed

lemma ingest_events_storable:
  "ingest_events G ps c = Inr (items, c') \<Longrightarrow> pipeline_ok (cs_db c) \<Longrightarrow> \<forall>(p, w) \<in> set ps. event_create_valid p \<Longrightarrow>
   batch_storable G ps (cs_db c)"
proof (induction G ps c arbitrary: items rule: ingest_events.induct)
  case (2 G p w rest c)
  then obtain item c1 items1 where s: "ingest_event G w p c = Inr (item, c1)" "ingest_events G rest c1 = Inr (items1, c')"
    by auto
  have p: "event_create_valid p" using "2.prems"(3) by simp
  show ?case
    using "2.IH" [OF s(1) refl s(2) ingest_event_Inr(1) [OF s(1) "2.prems"(2) p]] "2.prems"(3) batch_storable_Cons [OF s(1) "2.prems"(2) p]
    by simp
qed (simp add: pipeline_ok_def batch_event_ids_def batch_storable_def)

lemma ingest_events_total:
  "config_ok G \<Longrightarrow> pipeline_ok (cs_db c) \<Longrightarrow> \<forall>(p, w) \<in> set ps. event_create_valid p \<and> times_ok (ig_settings G) (instant (ec_timestamp p)) \<Longrightarrow>
   new_ids ps (cs_db c) \<Longrightarrow>
   if batch_storable G ps (cs_db c) then \<exists>items c'. ingest_events G ps c = Inr (items, c')
   else \<exists>x \<in> {IntegrityError, DBAPIError}. ingest_events G ps c = Inl x"
proof (induction ps arbitrary: c)
  case (Cons x rest)
  obtain p w where x: "x = (p, w)" by fastforce
  let ?e = "normalized_event G w p"
  have p: "event_create_valid p" and t: "times_ok (ig_settings G) (instant (ec_timestamp p))" using Cons.prems(3) x by simp_all
  have e: "normalize_event G w p = Inr ?e" using t by (intro normalize_event_ok) (simp add: times_ok_def)
  show ?case
  proof (cases "event_row_fits ?e \<and> ev_event_id ?e \<notin> ev_event_id ` set (db_events (cs_db c))")
    case False
    then have "\<exists>x \<in> {IntegrityError, DBAPIError}. ingest_event G w p c = Inl x"
      by (auto simp: ingest_event_def e event_create_row_def)
    moreover have "\<not> batch_storable G (x # rest) (cs_db c)" using False x by (auto simp: batch_storable_def batch_event_ids_def)
    ultimately show ?thesis using x by auto
  next
    case True
    have new: "ed_row w \<notin> ev_id ` set (db_events (cs_db c))" "distinct (drawn_alert_ids w)"
      "set (drawn_alert_ids w) \<inter> al_id ` set (db_alerts (cs_db c)) = {}"
      using Cons.prems(4) unfolding x new_ids_Cons by simp_all
    obtain item c1 where s: "ingest_event G w p c = Inr (item, c1)"
      using ingest_event_total [OF Cons.prems(1,2) p new(1) _ _ new(2,3) t] True by auto
    note F = ingest_event_Inr(1) [OF s Cons.prems(2) p]
    have "if batch_storable G rest (cs_db c1) then \<exists>items c'. ingest_events G rest c1 = Inr (items, c')
      else \<exists>x \<in> {IntegrityError, DBAPIError}. ingest_events G rest c1 = Inl x"
      by (rule Cons.IH [OF Cons.prems(1) F _ new_ids_step [OF s Cons.prems(2) p]]) (use Cons.prems(3,4) x in auto)
    then show ?thesis using s x batch_storable_Cons [OF s Cons.prems(2) p] by (auto split: if_splits)
  qed
qed (simp add: pipeline_ok_def batch_event_ids_def batch_storable_def)

lemma ingest_batch_Inr: "ingest_batch G ps c = Inr x \<Longrightarrow> ingest_events G ps c = Inr x"
  by (auto simp: ingest_batch_def)

lemma ingest_batch_ok:
  "\<forall>(p, w) \<in> set ps. times_ok (ig_settings G) (instant (ec_timestamp p)) \<Longrightarrow> ingest_batch G ps c = ingest_events G ps c"
  using map_e_map [of ps "\<lambda>(p, w). normalize_event G w p" "\<lambda>(p, w). normalized_event G w p"]
  by (fastforce simp: ingest_batch_def times_ok_def intro: normalize_event_ok)

text \<open>What an accepted batch leaves.\<close>

lemma create_events_bulk_Inr:
  assumes "create_events_bulk G R ps a v = (Inr r, v', ms)" "pipeline_ok (wd_db v)" "\<forall>(p, w) \<in> set ps. event_create_valid p"
  shows "db_events (wd_db v') = db_events (wd_db v) @ map (\<lambda>(p, w). normalized_event G w p) ps" "br_count r = length ps"
    "pipeline_ok (wd_db v')" "map er_event_id (br_events r) = batch_event_ids G ps" "batch_storable G ps (wd_db v)"
proof -
  let ?c = "fresh_correlator (wd_db v)"
  obtain items c' where run: "ingest_events G ps ?c = Inr (items, c')"
    and r: "r = \<lparr>br_accepted = True, br_count = length items, br_events = map ingest_response items\<rparr>"
    and v': "v' = dispatch_incidents R (ig_crypto G) (ig_settings G) (ad_dispatch a) (ad_queue_errors a) 0
      (all_incidents (cs_db c') items) (v\<lparr>wd_db := cs_db c'\<rparr>)"
    using assms(1) by (auto simp: create_events_bulk_def dest: ingest_batch_Inr split: sum.splits)
  have c: "pipeline_ok (cs_db ?c)" "cs_db ?c = wd_db v" using assms(2) by (simp_all add: fresh_correlator_def)
  note F = ingest_events_Inr [OF run c(1) assms(3)]
  have same: "same_pipeline (cs_db c') (wd_db v')"
    using dispatch_all_same [of "v\<lparr>wd_db := cs_db c'\<rparr>"] by (simp add: v')
  show "br_count r = length ps" using arg_cong [OF F(3), of length] by (simp add: r)
  show "map er_event_id (br_events r) = batch_event_ids G ps"
    using arg_cong [OF F(3), of "map ev_event_id"] by (simp add: r batch_event_ids_def ingest_response_def comp_def split_beta)
  show "pipeline_ok (wd_db v')" using same_pipeline_ok [OF same F(1)] .
  show "db_events (wd_db v') = db_events (wd_db v) @ map (\<lambda>(p, w). normalized_event G w p) ps"
    using same F(2) by (simp add: same_pipeline_def fresh_correlator_def)
  show "batch_storable G ps (wd_db v)" using ingest_events_storable [OF run c(1) assms(3)] by (simp add: c(2))
qed

text \<open>
  C3: a batch of valid events is stored whole or not at all. Take a database with unique ids and no
  dangling reference, ids the generator draws afresh, positive thresholds, and a model that answers
  for the times below. Either the batch is accepted: then its event ids are distinct and none was
  stored yet, all its port numbers and byte counts fit 32 bits, every event of it is stored in order,
  one response per event is given, and the database is again free of dangling references (each
  alert's event, each link's incident and alert exist). Or it is refused, the world is what it was,
  and the reason is one of three: an event id is repeated or stored already, a number does not fit
  32 bits, or a timestamp is so close to year 1 or to the end of year 9999 that a window of the
  pipeline around it leaves Python's calendar.
\<close>

theorem batch_is_all_or_nothing:
  assumes "config_ok G" and "pipeline_ok (wd_db v)" and "event_bulk_valid (map fst ps)" and "new_ids ps (wd_db v)"
  shows "(\<exists>r v' ms. create_events_bulk G R ps a v = (Inr r, v', ms) \<and>
      distinct (batch_event_ids G ps @ map ev_event_id (db_events (wd_db v))) \<and>
      list_all (\<lambda>(p, w). event_row_fits (normalized_event G w p)) ps \<and>
      br_count r = length ps \<and> map er_event_id (br_events r) = batch_event_ids G ps \<and> pipeline_ok (wd_db v') \<and>
      db_events (wd_db v') = db_events (wd_db v) @ map (\<lambda>(p, w). normalized_event G w p) ps) \<or>
    (\<exists>x. create_events_bulk G R ps a v = (Inl x, v, []) \<and>
      \<not> (distinct (batch_event_ids G ps @ map ev_event_id (db_events (wd_db v))) \<and>
         list_all (\<lambda>(p, w). event_row_fits (normalized_event G w p)) ps \<and>
         list_all (\<lambda>(p, w). times_ok (ig_settings G) (instant (ec_timestamp p))) ps))"
proof -
  let ?c = "fresh_correlator (wd_db v)"
  have storable: "(distinct (batch_event_ids G ps @ map ev_event_id (db_events (wd_db v))) \<and>
      list_all (\<lambda>(p, w). event_row_fits (normalized_event G w p)) ps) = batch_storable G ps (wd_db v)"
    by (simp add: batch_storable_def list_all_iff)
  have valid: "\<forall>(p, w) \<in> set ps. event_create_valid p" using assms(3) by (auto simp: event_bulk_valid_def)
  have c: "pipeline_ok (cs_db ?c)" "new_ids ps (cs_db ?c)" "cs_db ?c = wd_db v" using assms(2,4) by (simp_all add: fresh_correlator_def)
  show ?thesis
  proof (cases "ingest_batch G ps ?c")
    case (Inr x)
    then obtain r v' ms where run: "create_events_bulk G R ps a v = (Inr r, v', ms)"
      by (cases x) (auto simp: create_events_bulk_def)
    note F = create_events_bulk_Inr [OF run assms(2) valid]
    from F(5) have "distinct (batch_event_ids G ps @ map ev_event_id (db_events (wd_db v))) \<and>
      list_all (\<lambda>(p, w). event_row_fits (normalized_event G w p)) ps" by (simp only: storable)
    with run F(1-4) show ?thesis by blast
  next
    case (Inl x)
    have "\<not> (batch_storable G ps (wd_db v) \<and> list_all (\<lambda>(p, w). times_ok (ig_settings G) (instant (ec_timestamp p))) ps)"
    proof
      assume ok: "batch_storable G ps (wd_db v) \<and> list_all (\<lambda>(p, w). times_ok (ig_settings G) (instant (ec_timestamp p))) ps"
      then have times: "\<forall>(p, w) \<in> set ps. event_create_valid p \<and> times_ok (ig_settings G) (instant (ec_timestamp p))"
        using valid by (auto simp: list_all_iff)
      then have "ingest_batch G ps ?c = ingest_events G ps ?c" by (intro ingest_batch_ok) auto
      with ingest_events_total [OF assms(1) c(1) times c(2)] ok Inl show False by (simp add: c(3))
    qed
    then show ?thesis
      using Inl unfolding storable [symmetric] by (intro disjI2 exI [of _ x]) (simp add: create_events_bulk_def)
  qed
qed

section \<open>A finding reaches an incident\<close>

lemma evaluate_rules_last:
  "evaluate_rules (rs @ [r]) c e = Inr ms \<Longrightarrow> ru_evaluate r c e = Inr (Some m) \<Longrightarrow> \<exists>ms0. ms = ms0 @ [m]"
  by (induction rs arbitrary: ms) (auto split: sum.splits option.splits)

lemma builtin_rules_last: "\<exists>rs. builtin_rules other = rs @ [\<lparr>ru_id = ''rule_006_cloud_finding'',
    ru_name = ''Cloud or identity security finding'', ru_severity = ''high'', ru_evaluate = cloud_finding_evaluate other\<rparr>]"
  by (rule exI [of _ "take 6 (builtin_rules other)"]) (simp add: builtin_rules_def)

definition noted :: "incident option \<Rightarrow> incident list \<Rightarrow> incident list" where
  "noted found incidents = (case found of None \<Rightarrow> incidents
     | Some inc \<Rightarrow> (if in_id inc \<in> in_id ` set incidents then table_save in_id inc incidents else incidents @ [inc]))"

lemma correlate_all_Cons:
  "correlate_all st other now (x # rest) incs c =
     then_do (correlate_alert st other now (snd x) (fst x) c) (\<lambda>(found, c'). correlate_all st other now rest (noted found incs) c')"
  by (cases x) (simp add: noted_def)

lemma correlate_all_append:
  "correlate_all st other now (xs @ ys) incs c =
     then_do (correlate_all st other now xs incs c) (\<lambda>(incs', c'). correlate_all st other now ys incs' c')"
proof (induction xs arbitrary: incs c)
  case (Cons x xs)
  show ?case
    by (cases "correlate_alert st other now (snd x) (fst x) c")
       (simp_all only: append_Cons correlate_all_Cons then_do_simps case_prod_unfold Cons.IH)
qed simp

text \<open>The finding's alert is the last one detection raises.\<close>

lemma cloud_alert_last:
  assumes run: "run_detection G w e d = Inr (alerts, d')" and type: "ev_event_type e \<in> set cloud_event_types"
  shows "\<exists>as a. alerts = as @ [a] \<and> al_rule_id a = ''rule_006_cloud_finding'' \<and> al_severity a = str_or (ev_severity e) ''medium'' \<and>
    al_event_id a = ev_id e"
proof -
  obtain g ms where g: "build_rule_registry (ig_show G) = Inr g" and ms: "evaluate_event g (ingest_context G d) e = Inr ms"
    and alerts: "alerts = build_alerts e ms (ed_alert w) (ed_alert_created w)"
    using run by (auto simp: run_detection_def Let_def split: if_splits)
  obtain m where m: "cloud_finding_evaluate (ig_show G) (ingest_context G d) e = Inr (Some m)"
    "dr_rule_id m = ''rule_006_cloud_finding''" "dr_severity m = str_or (ev_severity e) ''medium''"
    using type by (auto simp: cloud_finding_evaluate_def Let_def)
  obtain rs where "builtin_rules (ig_show G) = rs @ [\<lparr>ru_id = ''rule_006_cloud_finding'',
    ru_name = ''Cloud or identity security finding'', ru_severity = ''high'', ru_evaluate = cloud_finding_evaluate (ig_show G)\<rparr>]"
    using builtin_rules_last by blast
  then have "evaluate_rules (rs @ [\<lparr>ru_id = ''rule_006_cloud_finding'', ru_name = ''Cloud or identity security finding'',
      ru_severity = ''high'', ru_evaluate = cloud_finding_evaluate (ig_show G)\<rparr>]) (ingest_context G d) e = Inr ms"
    using ms by (simp add: evaluate_event_def registry_rules [OF g])
  from evaluate_rules_last [OF this] m(1) obtain ms0 where "ms = ms0 @ [m]" by auto
  then have "alerts = build_alerts e ms0 (ed_alert w) (ed_alert_created w) @ [build_alert e m (ed_alert w (length ms0)) (ed_alert_created w)]"
    by (simp add: alerts build_alerts_def enumerate_append_eq)
  then show ?thesis using m(2,3) by (auto simp: build_alert_def)
qed

lemma incidents_kept:
  "in_id inc \<in> in_id ` set (if in_id inc \<in> in_id ` set incs then table_save in_id inc incs else incs @ [inc])"
  by (auto simp: table_save_def image_iff)

lemma cloud_event_correlated:
  assumes run: "ingest_event G w p c = Inr (item, c')" and ok: "pipeline_ok (cs_db c)" and p: "event_create_valid p"
    and type: "ec_event_type p \<in> set cloud_event_types" and score: "finding_score (str_or (ec_severity p) ''medium'') = Inr s"
  shows "\<exists>a inc. a \<in> set (db_alerts (cs_db c')) \<and> al_rule_id a = ''rule_006_cloud_finding'' \<and> al_event_id a = ed_row w \<and>
    get_incident (in_id inc) (cs_db c') = Some inc \<and> in_status inc = ''open'' \<and> in_id inc \<in> in_id ` set (it_incidents item) \<and>
    (in_id inc, al_id a) \<in> set (alert_links (cs_db c')) \<and> s \<le> in_risk_score inc \<and> in_severity inc = severity_from_score (in_risk_score inc)"
proof -
  let ?e = "normalized_event G w p"
  note n = ingest_event_normalized [OF run]
  have e: "ev_event_type ?e = ec_event_type p" "ev_severity ?e = ec_severity p" "ev_id ?e = ed_row w"
    by (simp_all add: normalized_event_def event_row_def)
  obtain d alerts d' where store: "event_create_row ?e (cs_db c) = Inr d" and det: "run_detection G w ?e d = Inr (alerts, d')"
    using run by (auto simp: ingest_event_def n split: prod.splits)
  obtain as a where alerts: "alerts = as @ [a]" and a: "al_rule_id a = ''rule_006_cloud_finding''" "al_event_id a = ed_row w"
    "al_severity a = str_or (ec_severity p) ''medium''"
    using cloud_alert_last [OF det] type e by auto
  let ?n = "length as" and ?st = "ig_settings G" and ?now = "ed_correlated w"
  obtain incs where cor: "correlate ?st (ig_show G) ?now (zip alerts (map (ed_incident w) [0..<length alerts])) (c\<lparr>cs_db := d'\<rparr>) = Inr (incs, c')"
    and item: "it_incidents item = incs"
    using run store det alerts by (auto simp: ingest_event_def n split: prod.splits)
  have zip: "zip alerts (map (ed_incident w) [0..<length alerts]) = zip as (map (ed_incident w) [0..<?n]) @ [(a, ed_incident w ?n)]"
    by (simp add: alerts)
  obtain incs1 c1 where first: "correlate_all ?st (ig_show G) ?now (zip as (map (ed_incident w) [0..<?n])) []
      (c\<lparr>cs_db := d', cs_last_created_ids := []\<rparr>) = Inr (incs1, c1)"
    and last: "correlate_all ?st (ig_show G) ?now [(a, ed_incident w ?n)] incs1 c1 = Inr (incs, c')"
    using cor unfolding zip correlate_def correlate_all_append by auto
  obtain inc where cloud: "correlate_cloud_finding ?st (ig_show G) ?now (ed_incident w ?n) a c1 = Inr (inc, c')"
    and incs: "incs = (if in_id inc \<in> in_id ` set incs1 then table_save in_id inc incs1 else incs1 @ [inc])"
    using last a(1) by (auto simp: correlate_alert_def split del: if_split)
  have "set as \<subseteq> set (db_alerts d')" "a \<in> set (db_alerts d')" using run_detection_Inr(1) [OF det] alerts by auto
  then have "correlated d' (cs_db c1)" using correlate_all_correlated [OF first] by simp
  then have stored: "a \<in> set (db_alerts (cs_db c1))" using \<open>a \<in> set (db_alerts d')\<close> by (simp add: correlated_def)
  note C = cloud_correlated [OF cloud stored]
  have "a \<in> set (db_alerts (cs_db c'))" using C(1) stored by (simp add: correlated_def)
  moreover have "in_id inc \<in> in_id ` set (it_incidents item)" unfolding item incs by (rule incidents_kept)
  moreover have "s \<le> in_risk_score inc" using C(5) a(3) score by simp
  ultimately show ?thesis using C(2,3,4,6) a(1,2) by blast
qed

text \<open>What the rest of a batch leaves of an event's alert, incident and link.\<close>

definition reached :: "uuid \<Rightarrow> db \<Rightarrow> bool" where
  "reached row d = (\<exists>alert inc. alert \<in> set (db_alerts d) \<and> al_rule_id alert = ''rule_006_cloud_finding'' \<and> al_event_id alert = row \<and>
     get_incident (in_id inc) d = Some inc \<and> in_status inc = ''open'' \<and> (in_id inc, al_id alert) \<in> set (alert_links d))"

lemma reached_kept:
  assumes run: "ingest_event G w p c = Inr (item, c')" and ok: "pipeline_ok (cs_db c)" and p: "event_create_valid p"
    and r: "reached row (cs_db c)"
  shows "reached row (cs_db c')"
proof -
  obtain alert inc where a: "alert \<in> set (db_alerts (cs_db c))" "al_rule_id alert = ''rule_006_cloud_finding''" "al_event_id alert = row"
    "get_incident (in_id inc) (cs_db c) = Some inc" "in_status inc = ''open''" "(in_id inc, al_id alert) \<in> set (alert_links (cs_db c))"
    using r unfolding reached_def by blast
  then have still_open: "opened (in_id inc) (cs_db c)" by (simp add: opened_def)
  note F = ingest_event_Inr(3,7,8) [OF run ok p]
  have mem: "alert \<in> set (db_alerts (cs_db c'))" "(in_id inc, al_id alert) \<in> set (alert_links (cs_db c'))"
    using F(1,2) a(1,6) by blast+
  obtain x where "get_incident (in_id inc) (cs_db c') = Some x" "in_status x = ''open''"
    using F(3) [OF still_open] by (auto simp: opened_def)
  moreover from this have "in_id x = in_id inc" by (auto dest: incidents.get_key)
  ultimately show ?thesis using mem a(2,3) unfolding reached_def by metis
qed

lemma severity_scored: "event_create_valid p \<Longrightarrow> \<exists>s. finding_score (str_or (ec_severity p) ''medium'') = Inr s"
  by (cases "ec_severity p") (auto simp: event_create_valid_def event_severities_def finding_score_def)

lemma batch_reached:
  "ingest_events G ps c = Inr (items, c') \<Longrightarrow> pipeline_ok (cs_db c) \<Longrightarrow> \<forall>(p, w) \<in> set ps. event_create_valid p \<Longrightarrow>
     row \<in> ed_row ` snd ` {x \<in> set ps. ec_event_type (fst x) \<in> set cloud_event_types} \<or> reached row (cs_db c) \<Longrightarrow> reached row (cs_db c')"
proof (induction G ps c arbitrary: items rule: ingest_events.induct)
  case (2 G p w rest c)
  then obtain item c1 items1 where s: "ingest_event G w p c = Inr (item, c1)" "ingest_events G rest c1 = Inr (items1, c')"
    by auto
  have p: "event_create_valid p" using "2.prems"(3) by simp
  have "reached row (cs_db c1)" if "ec_event_type p \<in> set cloud_event_types" "row = ed_row w"
    using cloud_event_correlated [OF s(1) "2.prems"(2) p that(1)] severity_scored [OF p] unfolding reached_def that(2) by blast
  moreover have "reached row (cs_db c1)" if "reached row (cs_db c)"
    using reached_kept [OF s(1) "2.prems"(2) p that] .
  ultimately have "row \<in> ed_row ` snd ` {x \<in> set rest. ec_event_type (fst x) \<in> set cloud_event_types} \<or> reached row (cs_db c1)"
    using "2.prems"(4) by auto
  then show ?case
    using "2.IH" [OF s(1) refl s(2) ingest_event_Inr(1) [OF s(1) "2.prems"(2) p]] "2.prems"(3) by simp
qed simp

lemma reached_same: "same_pipeline d d' \<Longrightarrow> reached row d = reached row d'"
  by (simp add: reached_def same_pipeline_def get_incident_def alert_links_def)

text \<open>
  C2: no security finding is lost. When an event of a cloud or identity finding type is accepted,
  alone or in a batch (the bulk route is also the one AWS findings take), the database that answers
  the client holds an alert of the finding rule for the event, linked to a stored, open incident;
  this holds whatever the other rules, the other events of the batch, the automatic investigations
  and the publications do. After a single post the risk of the incident is besides at least the
  score of the finding's severity, and its severity is the band of its risk. (In a batch a later
  correlation may extend the same incident and rescore it, so nothing is claimed of its risk there.)
\<close>

theorem findings_reach_an_incident:
  assumes "pipeline_ok (wd_db v)"
  shows "(create_event G R w a p v = (Inr r, v', ms) \<and> event_create_valid p \<and> ec_event_type p \<in> set cloud_event_types \<longrightarrow>
      (\<exists>alert inc s. alert \<in> set (db_alerts (wd_db v')) \<and> al_rule_id alert = ''rule_006_cloud_finding'' \<and> al_event_id alert = er_id r \<and>
        get_incident (in_id inc) (wd_db v') = Some inc \<and> in_status inc = ''open'' \<and> (in_id inc, al_id alert) \<in> set (alert_links (wd_db v')) \<and>
        finding_score (str_or (ec_severity p) ''medium'') = Inr s \<and> s \<le> in_risk_score inc \<and>
        in_severity inc = severity_from_score (in_risk_score inc))) \<and>
    (create_events_bulk G R ps a v = (Inr rs, vs, mss) \<and> (\<forall>(p, w) \<in> set ps. event_create_valid p) \<longrightarrow>
      (\<forall>(p, w) \<in> set ps. ec_event_type p \<in> set cloud_event_types \<longrightarrow>
        (\<exists>alert inc. alert \<in> set (db_alerts (wd_db vs)) \<and> al_rule_id alert = ''rule_006_cloud_finding'' \<and> al_event_id alert = ed_row w \<and>
          get_incident (in_id inc) (wd_db vs) = Some inc \<and> in_status inc = ''open'' \<and> (in_id inc, al_id alert) \<in> set (alert_links (wd_db vs)))))"
proof (intro conjI impI)
  let ?c = "fresh_correlator (wd_db v)"
  have ok: "pipeline_ok (cs_db ?c)" using assms by (simp add: fresh_correlator_def)
  { assume h: "create_event G R w a p v = (Inr r, v', ms) \<and> event_create_valid p \<and> ec_event_type p \<in> set cloud_event_types"
    then obtain item c' where run: "ingest_event G w p ?c = Inr (item, c')" and r: "r = ingest_response item"
      and v': "v' = dispatch_incidents R (ig_crypto G) (ig_settings G) (ad_dispatch a) (ad_queue_errors a) 0 (it_incidents item) (v\<lparr>wd_db := cs_db c'\<rparr>)"
      by (auto simp: create_event_def split: sum.splits)
    have same: "same_pipeline (cs_db c') (wd_db v')"
      using dispatch_all_same [of "v\<lparr>wd_db := cs_db c'\<rparr>"] by (simp add: v')
    have id: "er_id r = ed_row w"
      using ingest_event_Inr(5) [OF run ok] h by (simp add: r ingest_response_def normalized_fields)
    obtain s where s: "finding_score (str_or (ec_severity p) ''medium'') = Inr s" using severity_scored h by blast
    show "\<exists>alert inc s. alert \<in> set (db_alerts (wd_db v')) \<and> al_rule_id alert = ''rule_006_cloud_finding'' \<and> al_event_id alert = er_id r \<and>
        get_incident (in_id inc) (wd_db v') = Some inc \<and> in_status inc = ''open'' \<and> (in_id inc, al_id alert) \<in> set (alert_links (wd_db v')) \<and>
        finding_score (str_or (ec_severity p) ''medium'') = Inr s \<and> s \<le> in_risk_score inc \<and>
        in_severity inc = severity_from_score (in_risk_score inc)"
      using cloud_event_correlated [OF run ok _ _ s] h same s unfolding id
      by (auto simp: same_pipeline_def get_incident_def alert_links_def)
  next
    assume h: "create_events_bulk G R ps a v = (Inr rs, vs, mss) \<and> (\<forall>(p, w) \<in> set ps. event_create_valid p)"
    then obtain items c' where run: "ingest_events G ps ?c = Inr (items, c')"
      and vs: "vs = dispatch_incidents R (ig_crypto G) (ig_settings G) (ad_dispatch a) (ad_queue_errors a) 0
        (all_incidents (cs_db c') items) (v\<lparr>wd_db := cs_db c'\<rparr>)"
      by (auto simp: create_events_bulk_def dest: ingest_batch_Inr split: sum.splits)
    have same: "same_pipeline (cs_db c') (wd_db vs)"
      using dispatch_all_same [of "v\<lparr>wd_db := cs_db c'\<rparr>"] by (simp add: vs)
    have "reached (ed_row w) (wd_db vs)" if "(p, w) \<in> set ps" "ec_event_type p \<in> set cloud_event_types" for p w
    proof -
      have "ed_row w \<in> ed_row ` snd ` {x \<in> set ps. ec_event_type (fst x) \<in> set cloud_event_types}" using that by force
      then show ?thesis using batch_reached [OF run ok] h reached_same [OF same] by blast
    qed
    then show "\<forall>(p, w) \<in> set ps. ec_event_type p \<in> set cloud_event_types \<longrightarrow>
        (\<exists>alert inc. alert \<in> set (db_alerts (wd_db vs)) \<and> al_rule_id alert = ''rule_006_cloud_finding'' \<and> al_event_id alert = ed_row w \<and>
          get_incident (in_id inc) (wd_db vs) = Some inc \<and> in_status inc = ''open'' \<and> (in_id inc, al_id alert) \<in> set (alert_links (wd_db vs)))"
      unfolding reached_def by blast }
qed

section \<open>A batch of AWS findings\<close>

lemma build_event_create_Inr:
  "build_event_create q = Inr p \<Longrightarrow>
     event_create_valid p \<and> ec_event_id p = ec_event_id q \<and> ec_event_type p = ec_event_type q \<and> ec_severity p = ec_severity q"
  by (simp add: build_event_create_def event_create_valid_def split: if_splits) (erule subst, simp)

lemma asff_to_event_Inr:
  assumes "asff_to_event fromiso cr show f = Inr p"
  shows "event_create_valid p" "\<exists>i. ec_event_id p = Some i \<and> i \<noteq> []"
    "ec_event_type p \<in> set cloud_event_types"
  using assms
  by (auto simp: asff_to_event_def cloud_event_types_def finding_event_id_def Let_def dest!: build_event_create_Inr split: if_splits)

lemma finding_events_Inr:
  "finding_events fromiso cr show fs = Inr ps \<Longrightarrow> p \<in> set ps \<Longrightarrow> \<exists>f. asff_to_event fromiso cr show f = Inr p"
  by (auto simp: finding_events_def dest: map_e_set)

lemma unseen_subset: "set (unseen_events d seen ps) \<subseteq> set ps"
  by (induction d seen ps rule: unseen_events.induct) auto

lemma unseen_empty:
  "\<forall>p \<in> set ps. get_by_event_id (str_or (ec_event_id p) []) d \<noteq> None \<Longrightarrow> unseen_events d seen ps = []"
  by (induction d seen ps rule: unseen_events.induct) auto

lemma unseen_cover:
  "p \<in> set ps \<Longrightarrow> ec_event_id p \<notin> set seen \<Longrightarrow> get_by_event_id (str_or (ec_event_id p) []) d = None \<Longrightarrow>
     ec_event_id p \<in> ec_event_id ` set (unseen_events d seen ps)"
proof (induction d seen ps rule: unseen_events.induct)
  case (2 d seen q ps)
  then show ?case by (cases "ec_event_id p = ec_event_id q") auto
qed simp

lemma unseen_facts:
  "p \<in> set (unseen_events d seen ps) \<Longrightarrow> ec_event_id p \<notin> set seen \<and> get_by_event_id (str_or (ec_event_id p) []) d = None"
  by (induction d seen ps rule: unseen_events.induct) (auto split: if_splits)

lemma unseen_distinct: "distinct (map ec_event_id (unseen_events d seen ps))"
  by (induction d seen ps rule: unseen_events.induct) (auto dest: unseen_facts)

lemma get_by_event_id_None: "get_by_event_id i d = None \<longleftrightarrow> i \<notin> ev_event_id ` set (db_events d)"
  by (auto simp: get_by_event_id_def find_None_iff image_iff)

lemma drawn_findings: "fst ` set (map (\<lambda>(n, p). (p, ws n)) (enumerate k ps)) = set ps"
  by (induction ps arbitrary: k) simp_all

lemma asff_event_id:
  assumes "finding_events fromiso cr show fs = Inr events" and "p \<in> set events"
  shows "Some (ev_event_id (normalized_event G w p)) = ec_event_id p" "Some (str_or (ec_event_id p) []) = ec_event_id p"
  using finding_events_Inr [OF assms] asff_to_event_Inr(2) by (fastforce simp: normalized_event_def event_row_def str_or_def)+

text \<open>What an accepted batch of findings stored.\<close>

lemma ingest_asff_stored:
  assumes run: "ingest_asff G R fromiso en req key_owner ws a fs v = (Inr r, v', ms)" and ok: "pipeline_ok (wd_db v)"
    and events: "finding_events fromiso (ig_crypto G) (ig_show G) fs = Inr events"
  shows "Some ` ev_event_id ` set (db_events (wd_db v')) =
      Some ` ev_event_id ` set (db_events (wd_db v)) \<union> ec_event_id ` set (unseen_events (wd_db v) [] events)"
    "br_count r = length (unseen_events (wd_db v) [] events)"
proof (atomize (full), cases "unseen_events (wd_db v) [] events = []")
  case True
  then show "Some ` ev_event_id ` set (db_events (wd_db v')) =
      Some ` ev_event_id ` set (db_events (wd_db v)) \<union> ec_event_id ` set (unseen_events (wd_db v) [] events) \<and>
      br_count r = length (unseen_events (wd_db v) [] events)"
    using run events by (auto simp: ingest_asff_def Let_def audit_record_def)
next
  case False
  let ?new = "unseen_events (wd_db v) [] events"
  let ?ps = "map (\<lambda>(n, p). (p, ws n)) (enumerate 0 ?new)"
  obtain r1 v1 ms1 where bulk: "create_events_bulk G R ?ps a v = (Inr r1, v1, ms1)" and r1: "br_count r = br_count r1"
    "db_events (wd_db v') = db_events (wd_db v1)"
    using False run events by (auto simp: ingest_asff_def Let_def audit_record_def split: prod.splits sum.splits)
  have mem: "fst x \<in> set events" if "x \<in> set ?ps" for x
    using imageI [OF that, of fst] unseen_subset [of "wd_db v" "[]" events] unfolding drawn_findings by blast
  have valid: "event_create_valid (fst x)" if "x \<in> set ?ps" for x
    using finding_events_Inr [OF events mem [OF that]] asff_to_event_Inr(1) by blast
  have "\<forall>(p, w) \<in> set ?ps. event_create_valid p" using valid by (auto simp del: set_map)
  note B = create_events_bulk_Inr [OF bulk ok this]
  have "(\<lambda>x. Some (ev_event_id (normalized_event G (snd x) (fst x)))) ` set ?ps = (\<lambda>x. ec_event_id (fst x)) ` set ?ps"
    by (rule image_cong [OF refl]) (rule asff_event_id [OF events mem])
  also have "\<dots> = ec_event_id ` set ?new" unfolding image_image [symmetric, of ec_event_id fst] drawn_findings ..
  finally have "Some ` ev_event_id ` set (map (\<lambda>(p, w). normalized_event G w p) ?ps) = ec_event_id ` set ?new"
    by (simp add: image_image case_prod_unfold)
  then show "Some ` ev_event_id ` set (db_events (wd_db v')) =
      Some ` ev_event_id ` set (db_events (wd_db v)) \<union> ec_event_id ` set ?new \<and> br_count r = length ?new"
    using r1 unfolding B(1,2) r1 set_append image_Un by simp
qed

text \<open>
  C24: sending the same findings again adds nothing. After a batch of findings was accepted, the
  number it reported is the number of distinct event ids it had that were not stored, and the
  same batch, sent again at any later time, is accepted with count 0: no event, alert, incident,
  investigation or message, only the audit row of the request.
\<close>

theorem findings_are_idempotent:
  assumes "ingest_asff G R fromiso en req key_owner ws a fs v = (Inr r, v', ms)" and "pipeline_ok (wd_db v)"
  shows "\<exists>events. finding_events fromiso (ig_crypto G) (ig_show G) fs = Inr events \<and>
    br_count r = card (ec_event_id ` set events - Some ` ev_event_id ` set (db_events (wd_db v))) \<and>
    ingest_asff G R fromiso en2 req2 key_owner2 ws2 a2 fs v' =
      (Inr \<lparr>br_accepted = True, br_count = 0, br_events = []\<rparr>,
       v'\<lparr>wd_db := audit_record req2 (en_uuid en2 1) (en_now en2 2) ''aws.findings.ingest'' ''success'' ''api_key''
         (Some (sp_id key_owner2)) (Some (sp_name key_owner2)) (Some ''aws_finding'') None
         [(''accepted'', JInt 0), (''duplicates'', JInt (int (length events))),
          (''inactive_skipped'', JInt (int (length fs) - int (length events)))] (wd_db v')\<rparr>, [])"
proof -
  obtain events where events: "finding_events fromiso (ig_crypto G) (ig_show G) fs = Inr events"
    using assms(1) by (auto simp: ingest_asff_def split: sum.splits)
  let ?new = "unseen_events (wd_db v) [] events" and ?stored = "ev_event_id ` set (db_events (wd_db v))"
  note id = asff_event_id(2) [OF events] and stored = ingest_asff_stored [OF assms events]
  have known: "get_by_event_id (str_or (ec_event_id p) []) d = None \<longleftrightarrow> ec_event_id p \<notin> Some ` ev_event_id ` set (db_events d)"
    if "p \<in> set events" for p d
    using id [OF that] by (metis get_by_event_id_None image_iff option.inject)
  have cover: "ec_event_id ` set ?new = ec_event_id ` set events - Some ` ?stored"
  proof (intro equalityI subsetI)
    fix x assume "x \<in> ec_event_id ` set ?new"
    then obtain p where p: "p \<in> set ?new" "x = ec_event_id p" by blast
    then have "p \<in> set events" using unseen_subset by blast
    then show "x \<in> ec_event_id ` set events - Some ` ?stored" using unseen_facts [OF p(1)] known p(2) by simp
  next
    fix x assume "x \<in> ec_event_id ` set events - Some ` ?stored"
    then obtain p where "p \<in> set events" "x = ec_event_id p" "x \<notin> Some ` ?stored" by blast
    then show "x \<in> ec_event_id ` set ?new" using known unseen_cover [of p events "[]" "wd_db v"] by simp
  qed
  have "length ?new = card (ec_event_id ` set ?new)"
    using distinct_card [OF unseen_distinct [of "wd_db v" "[]" events]] by simp
  then have count: "br_count r = card (ec_event_id ` set events - Some ` ?stored)" unfolding stored(2) cover .
  have "ec_event_id p \<in> Some ` ev_event_id ` set (db_events (wd_db v'))" if "p \<in> set events" for p
    unfolding stored(1) cover using that by blast
  then have "unseen_events (wd_db v') [] events = []" using known by (intro unseen_empty ballI) simp
  then show ?thesis using events count by (simp add: ingest_asff_def Let_def)
qed

section \<open>Examples\<close>

definition example_ingest_config :: ingest_config where
  "example_ingest_config = \<lparr>ig_settings = default_settings [] [] [], ig_crypto = enumerated_jwt, ig_show = (\<lambda>_. []),
     ig_dump = (\<lambda>_. []), ig_score = (\<lambda>_ _. Inr None)\<rparr>"

definition example_draws :: "nat \<Rightarrow> event_draws" where
  "example_draws n = \<lparr>ed_row = of_nat n, ed_event = of_nat n, ed_received = 0, ed_created = 0, ed_alert = (\<lambda>k. of_nat (100 * n + k)), ed_alert_created = 0,
     ed_incident = of_nat, ed_correlated = 0\<rparr>"

definition example_after :: after_draws where
  "example_after = \<lparr>ad_dispatch = (\<lambda>_. example_env 0 0), ad_queue_errors = (\<lambda>_. None), ad_publish = (\<lambda>_. example_env 0 0),
     ad_publish_fails = (\<lambda>_. None)\<rparr>"

definition example_pipeline_world :: "mem_state world" where
  "example_pipeline_world = \<lparr>wd_db = empty_db, wd_redis = mem_empty\<rparr>"

definition example_finding_event :: event_create where
  "example_finding_event = \<lparr>ec_timestamp = Aware 0 0, ec_source = ''aws'', ec_source_type = ''aws_security_hub'',
     ec_event_type = ''cloud_finding'', ec_category = ''security_finding'', ec_severity = Some ''high'', ec_event_id = Some ''f1'',
     ec_user_id = None, ec_username = None, ec_source_ip = None, ec_destination_ip = None, ec_source_port = None,
     ec_destination_port = None, ec_hostname = None, ec_device_id = None, ec_action = None, ec_status = None, ec_resource = None,
     ec_resource_type = None, ec_country = None, ec_user_agent = None, ec_bytes_sent = None, ec_bytes_received = None,
     ec_raw_payload = Some [], ec_metadata = []\<rparr>"

definition example_finding :: dict where
  "example_finding = [(''Id'', JStr ''finding''), (''AwsAccountId'', JStr ''123456789012''), (''UpdatedAt'', JStr ''2026-08-01'')]"

lemma example_ingest_facts:
  "config_ok example_ingest_config" "pipeline_ok (wd_db example_pipeline_world)" "pipeline_ok (cs_db (fresh_correlator (wd_db example_pipeline_world)))"
  "event_create_valid example_finding_event"
  "distinct (drawn_alert_ids (example_draws n))" "set (drawn_alert_ids w) \<inter> al_id ` set (db_alerts (wd_db example_pipeline_world)) = {}"
  "db_events (wd_db example_pipeline_world) = []"
  by (simp_all add: config_ok_def example_ingest_config_def pipeline_ok_def example_pipeline_world_def empty_db_def alert_links_def
      fresh_correlator_def event_create_valid_def example_finding_event_def event_types_def event_categories_def event_severities_def
      max_len_def int_range_def non_negative_def drawn_alert_ids_def example_draws_def upt_rec)

lemma example_times_ok:
  "- seconds 1000000 \<le> t \<Longrightarrow> t \<le> seconds 1000000 \<Longrightarrow> times_ok (default_settings db redis key) t"
proof -
  have "ml_aggregation_window_seconds (default_settings db redis key) = 300" by (simp add: default_settings_def)
  then show "- seconds 1000000 \<le> t \<Longrightarrow> t \<le> seconds 1000000 \<Longrightarrow> times_ok (default_settings db redis key) t"
    by (simp add: times_ok_def rule_windows_ok_def rule_windows_def seconds_def datetime_ok_def)
qed

lemma example_finding_instant [simp]: "instant (ec_timestamp example_finding_event) = 0"
  by (simp add: example_finding_event_def)

lemma example_epoch [simp]: "times_ok (default_settings db redis key) 0"
  by (simp add: example_times_ok seconds_def)

lemma example_config_epoch [simp]: "times_ok (ig_settings example_ingest_config) 0"
  by (simp add: example_ingest_config_def)

lemma example_finding_times: "times_ok (ig_settings example_ingest_config) (instant (ec_timestamp example_finding_event))"
  by simp

lemma fits_None: "fits_integer None"
  by (simp add: fits_integer_def)

lemma asff_row_fits: "asff_to_event fromiso cr show f = Inr p \<Longrightarrow> event_row_fits (normalized_event G w p)"
  by (auto simp: asff_to_event_def build_event_create_def event_row_fits_def normalized_event_def event_row_def fits_None Let_def
      split: if_splits)

lemma example_fits: "event_row_fits (normalized_event G w example_finding_event)"
  by (simp add: event_row_fits_def normalized_event_def event_row_def fits_None example_finding_event_def)

lemma example_new_ids:
  "new_ids [(p, example_draws 1)] (wd_db example_pipeline_world)" "new_ids [(p, example_draws 1), (q, example_draws 2)] (wd_db example_pipeline_world)"
  using example_ingest_facts(6,7) by (simp_all add: new_ids_def drawn_alert_ids_def example_draws_def upt_rec)

text \<open>An accepted batch, a batch with a repeated id, and one whose time cannot be expressed in UTC.\<close>

definition example_first_day :: event_create where
  "example_first_day = example_finding_event\<lparr>ec_timestamp := Aware (- 62135596800000000) 3600000000\<rparr>"

theorem batch_is_all_or_nothing_witness:
  "(\<exists>r v' ms. create_events_bulk example_ingest_config mem_redis [(example_finding_event, example_draws 1)] example_after example_pipeline_world =
     (Inr r, v', ms) \<and> br_count r = 1 \<and> pipeline_ok (wd_db v')) \<and>
   (\<exists>x. create_events_bulk example_ingest_config mem_redis [(example_finding_event, example_draws 1), (example_finding_event, example_draws 2)]
     example_after example_pipeline_world = (Inl x, example_pipeline_world, [])) \<and>
   create_events_bulk example_ingest_config mem_redis [(example_first_day, example_draws 1)] example_after example_pipeline_world =
     (Inl OverflowError, example_pipeline_world, [])"
proof -
  have id: "ev_event_id (normalized_event example_ingest_config w example_finding_event) = ''f1''" for w
    by (simp add: normalized_event_def event_row_def str_or_def example_finding_event_def)
  note batch = batch_is_all_or_nothing [OF example_ingest_facts(1,2), where R = mem_redis and a = example_after]
  from batch [OF _ example_new_ids(1), of example_finding_event]
  have "\<exists>r v' ms. create_events_bulk example_ingest_config mem_redis [(example_finding_event, example_draws 1)] example_after example_pipeline_world =
     (Inr r, v', ms) \<and> br_count r = 1 \<and> pipeline_ok (wd_db v')"
    by (auto simp: event_bulk_valid_def example_ingest_facts batch_event_ids_def id example_fits)
  moreover from batch [OF _ example_new_ids(2), of example_finding_event example_finding_event]
  have "\<exists>x. create_events_bulk example_ingest_config mem_redis [(example_finding_event, example_draws 1), (example_finding_event, example_draws 2)]
     example_after example_pipeline_world = (Inl x, example_pipeline_world, [])"
    by (auto simp: event_bulk_valid_def example_ingest_facts batch_event_ids_def id)
  moreover have "create_events_bulk example_ingest_config mem_redis [(example_first_day, example_draws 1)] example_after example_pipeline_world =
     (Inl OverflowError, example_pipeline_world, [])"
    by (simp add: create_events_bulk_def ingest_batch_def normalize_event_def normalize_def normalize_timestamp_def checked_datetime_def
        datetime_ok_def example_first_day_def)
  ultimately show ?thesis by blast
qed

text \<open>A finding posted alone, and two posted together.\<close>

theorem findings_reach_an_incident_witness:
  "(\<exists>r v' ms inc. create_event example_ingest_config mem_redis (example_draws 1) example_after example_finding_event example_pipeline_world =
     (Inr r, v', ms) \<and> inc \<in> set (db_incidents (wd_db v')) \<and> 75 \<le> in_risk_score inc) \<and>
   (\<exists>r v' ms a b. create_events_bulk example_ingest_config mem_redis
       [(example_finding_event, example_draws 1), (example_finding_event\<lparr>ec_event_id := Some ''f2''\<rparr>, example_draws 2)] example_after example_pipeline_world =
     (Inr r, v', ms) \<and> a \<in> set (db_alerts (wd_db v')) \<and> b \<in> set (db_alerts (wd_db v')) \<and> al_event_id a = 1 \<and> al_event_id b = 2 \<and>
     al_id a \<in> snd ` set (alert_links (wd_db v')) \<and> al_id b \<in> snd ` set (alert_links (wd_db v')))"
proof -
  let ?c = "fresh_correlator (wd_db example_pipeline_world)" and ?two = "example_finding_event\<lparr>ec_event_id := Some ''f2''\<rparr>"
  let ?ps = "[(example_finding_event, example_draws 1), (?two, example_draws 2)]"
  have new: "ed_row (example_draws 1) \<notin> ev_id ` set (db_events (cs_db ?c))"
    "ev_event_id (normalized_event example_ingest_config (example_draws 1) example_finding_event) \<notin> ev_event_id ` set (db_events (cs_db ?c))"
    "distinct (drawn_alert_ids (example_draws 1))" "set (drawn_alert_ids (example_draws 1)) \<inter> al_id ` set (db_alerts (cs_db ?c)) = {}"
    using example_ingest_facts(5-7) by (simp_all add: fresh_correlator_def)
  obtain item c' where "ingest_event example_ingest_config (example_draws 1) example_finding_event ?c = Inr (item, c')"
    using ingest_event_total [OF example_ingest_facts(1,3,4) new(1,2) example_fits new(3,4) example_finding_times] by blast
  then obtain r v' ms where run: "create_event example_ingest_config mem_redis (example_draws 1) example_after example_finding_event example_pipeline_world =
      (Inr r, v', ms)" by (simp add: create_event_def)
  have cloud: "ec_event_type example_finding_event \<in> set cloud_event_types"
    "finding_score (str_or (ec_severity example_finding_event) ''medium'') = Inr 75"
    by (simp_all add: example_finding_event_def cloud_event_types_def finding_score_def str_or_def)
  have two: "event_create_valid ?two" "event_row_fits (normalized_event example_ingest_config w ?two)" "ec_event_type ?two \<in> set cloud_event_types"
    "ev_event_id (normalized_event example_ingest_config w ?two) = ''f2''" for w
    using example_ingest_facts(4) example_fits [of example_ingest_config w] cloud(1)
    by (simp_all add: event_create_valid_def max_len_def normalized_event_def event_row_def event_row_fits_def str_or_def)
  have "ev_event_id (normalized_event example_ingest_config w example_finding_event) = ''f1''" for w
    by (simp add: normalized_event_def event_row_def str_or_def example_finding_event_def)
  then have storable: "batch_storable example_ingest_config ?ps (cs_db ?c)"
    using two example_fits by (simp add: batch_storable_def batch_event_ids_def fresh_correlator_def example_ingest_facts(7))
  have valid: "\<forall>(p, w) \<in> set ?ps. event_create_valid p" using two(1) example_ingest_facts(4) by simp
  have times: "\<forall>(p, w) \<in> set ?ps. event_create_valid p \<and> times_ok (ig_settings example_ingest_config) (instant (ec_timestamp p))"
    using valid example_finding_times by simp
  have fresh: "new_ids ?ps (cs_db ?c)" using example_new_ids(2) by (simp add: fresh_correlator_def)
  obtain items c2 where "ingest_events example_ingest_config ?ps ?c = Inr (items, c2)"
    using ingest_events_total [OF example_ingest_facts(1,3) times fresh] storable by auto
  then have "ingest_batch example_ingest_config ?ps ?c = Inr (items, c2)"
    using ingest_batch_ok [of ?ps example_ingest_config ?c] times by (simp add: case_prod_unfold)
  then obtain rs vs mss where bulk: "create_events_bulk example_ingest_config mem_redis ?ps example_after example_pipeline_world = (Inr rs, vs, mss)"
    by (simp add: create_events_bulk_def)
  note C = findings_reach_an_incident [OF example_ingest_facts(2)]
  have "\<exists>inc. inc \<in> set (db_incidents (wd_db v')) \<and> 75 \<le> in_risk_score inc"
    using C [THEN conjunct1, rule_format, OF conjI [OF run conjI [OF example_ingest_facts(4) cloud(1)]]] cloud(2)
    by (auto simp: get_incident_def dest: table_get_Some)
  moreover have "\<exists>a. a \<in> set (db_alerts (wd_db vs)) \<and> al_event_id a = ed_row (snd x) \<and> al_id a \<in> snd ` set (alert_links (wd_db vs))"
    if "x \<in> set ?ps" for x
    using C [THEN conjunct2, rule_format, OF conjI [OF bulk valid], of x] that two(3) cloud(1) by (auto simp: image_iff) force+
  from this [of "(example_finding_event, example_draws 1)"] this [of "(?two, example_draws 2)"]
  have "\<exists>a b. a \<in> set (db_alerts (wd_db vs)) \<and> b \<in> set (db_alerts (wd_db vs)) \<and> al_event_id a = 1 \<and> al_event_id b = 2 \<and>
     al_id a \<in> snd ` set (alert_links (wd_db vs)) \<and> al_id b \<in> snd ` set (alert_links (wd_db vs))"
    by (simp add: example_draws_def) blast
  ultimately show ?thesis using run bulk by blast
qed

lemma create_events_bulk_runs:
  "ingest_batch G ps (fresh_correlator (wd_db v)) = Inr (items, c) \<Longrightarrow> \<exists>r v' ms. create_events_bulk G R ps a v = (Inr r, v', ms) \<and> br_count r = length items"
  by (simp add: create_events_bulk_def)

lemma example_finding_texts:
  "py_lower ''cloud_finding'' = ''cloud_finding''" "py_lower ''MEDIUM'' = ''medium''" "py_upper ''ACTIVE'' = ''ACTIVE''" "py_upper ''NEW'' = ''NEW''"
  "list_all digit_like ''123456789012''" "\<not> contains ''cloud_finding'' ''s3''"
  by code_simp+

lemma example_finding_converts:
  "\<exists>p. finding_events (\<lambda>_. Inr (Naive 0)) enumerated_jwt (\<lambda>_. []) [example_finding] = Inr [p] \<and> ec_event_id p = Some ''asff_123456789012:finding:2026-08-01''"
proof -
  have "is_active_finding (\<lambda>_. []) example_finding = Inr True" "finding_identity example_finding = Inr (''finding'', ''123456789012'')"
    "finding_updated example_finding = Inr ''2026-08-01''" "finding_resource example_finding = Inr []"
    "finding_kind example_finding = Inr ''cloud_finding''" "finding_severity (\<lambda>_. []) example_finding = Inr ''medium''"
    using example_finding_texts
    by (simp_all add: is_active_finding_def finding_identity_def finding_updated_def finding_resource_def finding_kind_def finding_severity_def
        example_finding_def get_or_def dict_get_def str_or_json_def event_severities_def)
  then show ?thesis
    using example_finding_texts
    by (simp add: finding_events_def active_findings_def asff_to_event_def finding_event_id_def enumerated_jwt_def build_event_create_def
        event_create_valid_def max_len_def int_range_def non_negative_def none_if_empty_def str_or_json_def dict_get_def example_finding_def
        event_types_def event_categories_def event_severities_def)
qed

definition example_key_owner :: service_principal where
  "example_key_owner = \<lparr>sp_id = 1, sp_name = ''k'', sp_prefix = [], sp_scopes = {}\<rparr>"

lemma example_findings_accepted:
  "\<exists>r v' ms. ingest_asff example_ingest_config mem_redis (\<lambda>_. Inr (Naive 0)) (example_env 0 0) example_request example_key_owner
     (\<lambda>_. example_draws 1) example_after [example_finding] example_pipeline_world = (Inr r, v', ms) \<and> br_count r = 1"
proof -
  obtain p where events: "finding_events (\<lambda>_. Inr (Naive 0)) enumerated_jwt (\<lambda>_. []) [example_finding] = Inr [p]"
    and p: "ec_event_id p = Some ''asff_123456789012:finding:2026-08-01''" using example_finding_converts by blast
  obtain f where asff: "asff_to_event (\<lambda>_. Inr (Naive 0)) enumerated_jwt (\<lambda>_. []) f = Inr p" using finding_events_Inr [OF events] by auto
  then have valid: "event_create_valid p" and fits: "event_row_fits (normalized_event G w p)" and time: "instant (ec_timestamp p) = 0" for G w
    by (rule asff_to_event_Inr, rule asff_row_fits) (use asff in \<open>auto simp: asff_to_event_def build_event_create_def ensure_timestamp_has_timezone_def Let_def split: if_splits\<close>)
  have "unseen_events (wd_db example_pipeline_world) [] [p] = [p]" by (simp add: get_by_event_id_def example_ingest_facts)
  moreover have "\<exists>r v' ms. create_events_bulk example_ingest_config mem_redis [(p, example_draws 1)] example_after example_pipeline_world = (Inr r, v', ms) \<and>
      br_count r = 1"
  proof -
    have "new_ids [(p, example_draws 1)] (cs_db (fresh_correlator (wd_db example_pipeline_world)))"
      using example_new_ids(1) by (simp add: fresh_correlator_def)
    moreover have times: "\<forall>(q, w) \<in> set [(p, example_draws 1)]. event_create_valid q \<and>
        times_ok (ig_settings example_ingest_config) (instant (ec_timestamp q))"
      using valid by (simp add: time example_ingest_config_def example_times_ok seconds_def)
    ultimately obtain items c' where run: "ingest_events example_ingest_config [(p, example_draws 1)] (fresh_correlator (wd_db example_pipeline_world)) = Inr (items, c')"
      using ingest_events_total [OF example_ingest_facts(1,3) times]
      by (auto simp: batch_storable_def batch_event_ids_def fresh_correlator_def example_ingest_facts fits)
    have batch: "ingest_batch example_ingest_config [(p, example_draws 1)] (fresh_correlator (wd_db example_pipeline_world)) = Inr (items, c')"
      using ingest_batch_ok [of "[(p, example_draws 1)]" example_ingest_config] times run by (simp add: case_prod_unfold)
    from create_events_bulk_runs [OF batch, of mem_redis example_after] ingest_events_Inr(3) [OF run example_ingest_facts(3)] valid
    show ?thesis by (auto dest: map_eq_imp_length_eq)
  qed
  ultimately show ?thesis using events by (auto simp: ingest_asff_def Let_def example_ingest_config_def [THEN arg_cong, of ig_crypto]
      example_ingest_config_def [THEN arg_cong, of ig_show])
qed

theorem findings_are_idempotent_witness:
  "\<exists>r v' ms r2 v2. ingest_asff example_ingest_config mem_redis (\<lambda>_. Inr (Naive 0)) (example_env 0 0) example_request example_key_owner
     (\<lambda>_. example_draws 1) example_after [example_finding] example_pipeline_world = (Inr r, v', ms) \<and> br_count r = 1 \<and>
     ingest_asff example_ingest_config mem_redis (\<lambda>_. Inr (Naive 0)) (example_env 0 0) example_request example_key_owner
     (\<lambda>_. example_draws 1) example_after [example_finding] v' = (Inr r2, v2, []) \<and> br_count r2 = 0"
proof -
  obtain r v' ms where run: "ingest_asff example_ingest_config mem_redis (\<lambda>_. Inr (Naive 0)) (example_env 0 0) example_request example_key_owner
     (\<lambda>_. example_draws 1) example_after [example_finding] example_pipeline_world = (Inr r, v', ms)" "br_count r = 1"
    using example_findings_accepted by blast
  from findings_are_idempotent [OF run(1) example_ingest_facts(2), of "example_env 0 0" example_request example_key_owner "\<lambda>_. example_draws 1" example_after]
  obtain r2 v2 where "ingest_asff example_ingest_config mem_redis (\<lambda>_. Inr (Naive 0)) (example_env 0 0) example_request example_key_owner
     (\<lambda>_. example_draws 1) example_after [example_finding] v' = (Inr r2, v2, [])" "br_count r2 = 0" by fastforce
  with run show ?thesis by blast
qed


section \<open>A missing model artifact\<close>

lemma evaluate_rules_error:
  "\<forall>r \<in> set rs. \<exists>x. ru_evaluate r c e = Inr x \<Longrightarrow> ru_evaluate r c e = Inl err \<Longrightarrow> evaluate_rules (rs @ r # rs') c e = Inl err"
  by (induction rs) auto

lemma get_active_events: "get_active name (d\<lparr>db_events := es\<rparr>) = get_active name d"
  by (simp add: get_active_def active_rows_def)

lemma missing_artifact:
  assumes "ml_enabled st" and "get_active (ml_model_name st) d = Some m" and "files (mr_artifact_path m) = None"
  shows "ml_inference predict st files d e = Inl FileNotFoundError"
  using assms by (simp add: ml_inference_def score_event_def load_artifact_def read_artifact_def joblib_load_def)

text \<open>
  the anomaly model is not optional for ingestion. If scoring is enabled and the artifact of
  the active model is missing, every event that could be stored (at a time the rules can look back
  from) is refused with FileNotFoundError,
  although only one of the seven rules uses the model, and the world stays what it was: no event
  is stored, no alert raised, no message published.
\<close>

theorem missing_model_blocks_ingestion:
  assumes "ig_score G = ml_inference predict (ig_settings G) files" and "ml_enabled (ig_settings G)"
    and "get_active (ml_model_name (ig_settings G)) (wd_db v) = Some m" and "files (mr_artifact_path m) = None"
    and "0 < brute_force_threshold (ig_settings G)" "0 < login_after_failures_threshold (ig_settings G)"
    and "ed_row w \<notin> ev_id ` set (db_events (wd_db v))"
    and "ev_event_id (normalized_event G w p) \<notin> ev_event_id ` set (db_events (wd_db v))"
    and "event_row_fits (normalized_event G w p)" and "times_ok (ig_settings G) (instant (ec_timestamp p))"
  shows "create_event G R w a p v = (Inl FileNotFoundError, v, [])"
proof -
  let ?e = "normalized_event G w p"
  define d where "d = (wd_db v)\<lparr>db_events := db_events (wd_db v) @ [?e]\<rparr>"
  let ?c = "ingest_context G d"
  define rs where "rs = take 5 (builtin_rules (ig_show G))"
  define ml where "ml = builtin_rules (ig_show G) ! 5"
  have rules: "builtin_rules (ig_show G) = rs @ ml # drop 6 (builtin_rules (ig_show G))" "ru_evaluate ml = ml_anomaly_evaluate"
    by (simp_all add: rs_def ml_def builtin_rules_def)
  have "\<exists>x. ru_evaluate r ?c ?e = Inr x" if "r \<in> set rs" for r
  proof -
    let ?quiet = "?c\<lparr>dc_ml_inference_service := None\<rparr>"
    have "\<exists>x. ru_evaluate r ?quiet ?e = Inr x"
      by (rule builtin_rules_total [where other = "ig_show G"])
         (use assms(5,6,10) that event_history.failure_history_axioms in
           \<open>auto simp: ingest_context_def model_answers_def rs_def normalized_fields times_ok_def dest: in_set_takeD\<close>)
    moreover have "ru_evaluate r ?quiet ?e = ru_evaluate r ?c ?e"
      using that by (auto simp: rs_def builtin_rules_def brute_force_evaluate_def password_spray_evaluate_def
          suspicious_privilege_change_evaluate_def large_download_evaluate_def login_after_failures_evaluate_def ingest_context_def Let_def cong: if_cong option.case_cong list.case_cong)
    ultimately show ?thesis by simp
  qed
  moreover have "ml_anomaly_evaluate ?c ?e = Inl FileNotFoundError"
    using missing_artifact [where st = "ig_settings G" and d = d and files = files and m = m and predict = predict and e = ?e] assms(1-4)
    by (simp add: ml_anomaly_evaluate_def ingest_context_def d_def get_active_events)
  ultimately have "evaluate_rules (builtin_rules (ig_show G)) ?c ?e = Inl FileNotFoundError"
    using evaluate_rules_error [of rs ?c ?e ml] rules by metis
  moreover obtain g where g: "build_rule_registry (ig_show G) = Inr g" using registry_exists by blast
  ultimately have "run_detection G w ?e d = Inl FileNotFoundError"
    by (simp add: run_detection_def evaluate_event_def registry_rules [OF g])
  moreover have "event_create_row ?e (wd_db v) = Inr d"
    using assms(7-9) by (simp add: event_create_row_def normalized_fields d_def)
  moreover have "normalize_event G w p = Inr ?e" using assms(10) by (intro normalize_event_ok) (simp add: times_ok_def)
  ultimately show ?thesis by (simp add: create_event_def ingest_event_def fresh_correlator_def)
qed

definition example_missing_model :: model_registry where
  "example_missing_model = (training_row (default_settings [] [] []) 7 0 ''v1'' ''artifacts/v1.joblib'' 500)\<lparr>mr_status := ''active''\<rparr>"

theorem missing_model_blocks_ingestion_witness:
  "create_event (example_ingest_config\<lparr>ig_score := ml_inference (\<lambda>m row. Inr 0) (default_settings [] [] []) (\<lambda>_. None)\<rparr>) mem_redis
     (example_draws 1) example_after example_finding_event
     (example_pipeline_world\<lparr>wd_db := empty_db\<lparr>db_model_registry := [example_missing_model]\<rparr>\<rparr>) =
   (Inl FileNotFoundError, example_pipeline_world\<lparr>wd_db := empty_db\<lparr>db_model_registry := [example_missing_model]\<rparr>\<rparr>, [])"
  by (rule missing_model_blocks_ingestion [where predict = "\<lambda>m row. Inr 0" and files = "\<lambda>_. None" and m = example_missing_model])
     (simp_all add: example_ingest_config_def get_active_def active_rows_def example_missing_model_def training_row_def
        empty_db_def example_fits)

end
