(* ===== verification/Redaction.thy ===== *)
theory Redaction
  imports PyBase
begin

text \<open>
  The redaction of secrets in analysts' texts (\<^verbatim>\<open>redact_secrets\<close> of
  \<^verbatim>\<open>services/incident_evidence.py\<close>): four regular expressions, each replacing its
  non-overlapping matches from left to right. A pattern is modelled by the length of its match
  at a position, 0 when it does not match there; every match of the four patterns is determined
  by its start. The lemmas show what a redacted text can no longer contain, and what it still
  can.
\<close>

section \<open>Substitution\<close>

text \<open>\<^verbatim>\<open>re.sub\<close>: a matcher sees the character before the position, for the word boundaries.\<close>

type_synonym matcher = "char option \<Rightarrow> string \<Rightarrow> nat"

fun regex_sub :: "matcher \<Rightarrow> string \<Rightarrow> nat \<Rightarrow> char option \<Rightarrow> string \<Rightarrow> string" where
  "regex_sub m r k prev [] = []"
| "regex_sub m r k prev (c # cs) =
    (if 0 < k then regex_sub m r (k - 1) (Some c) cs
     else (case m prev (c # cs) of
             0 \<Rightarrow> c # regex_sub m r 0 (Some c) cs
           | Suc n \<Rightarrow> r @ regex_sub m r n (Some c) cs))"

text \<open>\<^verbatim>\<open>\w\<close> on the first 256 code points, and the word boundary on either side of a word character.\<close>

definition word_char :: "char \<Rightarrow> bool" where
  "word_char c = (let n = (of_char c :: nat) in
     (48 \<le> n \<and> n \<le> 57) \<or> (65 \<le> n \<and> n \<le> 90) \<or> n = 95 \<or> (97 \<le> n \<and> n \<le> 122) \<or>
     n \<in> {170, 178, 179, 181, 185, 186, 188, 189, 190} \<or> (192 \<le> n \<and> n \<noteq> 215 \<and> n \<noteq> 247))"

definition starts_word :: "char option \<Rightarrow> bool" where
  "starts_word prev = (case prev of None \<Rightarrow> True | Some c \<Rightarrow> \<not> word_char c)"

definition ends_word :: "string \<Rightarrow> bool" where
  "ends_word s = (case s of [] \<Rightarrow> True | c # _ \<Rightarrow> \<not> word_char c)"

section \<open>The patterns\<close>

definition upper_char_or :: "char set \<Rightarrow> char \<Rightarrow> bool" where
  "upper_char_or others c = ((let n = (of_char c :: nat) in 65 \<le> n \<and> n \<le> 90) \<or> c \<in> others)"

definition key_char :: "char \<Rightarrow> bool" where
  "key_char c = (upper_char_or {} c \<or> is_digit c)"

text \<open>An access key id: AKIA or ASIA and sixteen letters or digits, a word of its own.\<close>

definition access_key_match :: matcher where
  "access_key_match prev s =
    (if starts_word prev \<and> (startswith s ''AKIA'' \<or> startswith s ''ASIA'') \<and> 20 \<le> length s \<and>
        list_all key_char (take 16 (drop 4 s)) \<and> ends_word (drop 20 s) then 20 else 0)"

text \<open>The label of an assignment, ignoring case.\<close>

definition label_length :: "string \<Rightarrow> nat" where
  "label_length s =
    (let t = py_lower s
     in if startswith t ''password'' then 8 else if startswith t ''secret'' then 6 else if startswith t ''token'' then 5
        else if startswith t ''apikey'' then 6 else if startswith t ''api_key'' \<or> startswith t ''api-key'' then 7 else 0)"

definition value_char :: "char \<Rightarrow> bool" where
  "value_char c = (\<not> is_space c \<and> c \<noteq> CHR '','' \<and> c \<noteq> CHR '';'')"

definition assignment_match :: matcher where
  "assignment_match prev s =
    (if \<not> starts_word prev \<or> label_length s = 0 then 0
     else (case dropWhile is_space (drop (label_length s) s) of
        [] \<Rightarrow> 0
      | c # rest \<Rightarrow>
          let v = dropWhile is_space rest
          in if c \<notin> {CHR '':'', CHR ''=''} \<or> takeWhile value_char v = [] then 0
             else length s - length (dropWhile value_char v)))"

definition bearer_char :: "char \<Rightarrow> bool" where
  "bearer_char c = ((let n = (of_char c :: nat) in (65 \<le> n \<and> n \<le> 90) \<or> (97 \<le> n \<and> n \<le> 122)) \<or> is_digit c \<or>
     c \<in> set ''._~+/-'')"

definition bearer_match :: matcher where
  "bearer_match prev s =
    (if \<not> starts_word prev \<or> \<not> startswith (py_lower s) ''bearer'' then 0
     else (let v = dropWhile is_space (drop 6 s)
           in if v = drop 6 s \<or> takeWhile bearer_char v = [] then 0 else length s - length (dropWhile bearer_char v)))"

text \<open>A marker line of a private key block: the run of capitals and blanks ends with PRIVATE KEY.\<close>

definition marker_length :: "string \<Rightarrow> string \<Rightarrow> nat" where
  "marker_length tag s =
    (if \<not> startswith s (''-----'' @ tag @ '' '') then 0
     else (let rest = drop (length tag + 6) s; words = takeWhile (upper_char_or {CHR '' ''}) rest
           in if endswith words ''PRIVATE KEY'' \<and> startswith (drop (length words) rest) ''-----''
              then length tag + 6 + length words + 5 else 0))"

text \<open>The end of the first closing marker in a text.\<close>

fun block_end :: "string \<Rightarrow> nat option" where
  "block_end [] = None"
| "block_end (c # cs) =
    (if 0 < marker_length ''END'' (c # cs) then Some (marker_length ''END'' (c # cs)) else map_option Suc (block_end cs))"

definition key_block_match :: matcher where
  "key_block_match prev s =
    (let b = marker_length ''BEGIN'' s
     in if b = 0 then 0 else (case block_end (drop b s) of None \<Rightarrow> 0 | Some n \<Rightarrow> b + n))"

definition redacted_text :: string where
  "redacted_text = ''[REDACTED]''"

definition secret_patterns :: "matcher list" where
  "secret_patterns = [access_key_match, assignment_match, bearer_match, key_block_match]"

definition redact_secrets :: "string \<Rightarrow> string \<times> bool" where
  "redact_secrets s = (let t = fold (\<lambda>m t. regex_sub m redacted_text 0 None t) secret_patterns s in (t, t \<noteq> s))"

section \<open>What a redacted text no longer contains\<close>

text \<open>A matcher that matches somewhere in a text.\<close>

fun any_match :: "matcher \<Rightarrow> char option \<Rightarrow> string \<Rightarrow> bool" where
  "any_match m prev [] = False"
| "any_match m prev (c # cs) = (0 < m prev (c # cs) \<or> any_match m (Some c) cs)"

lemma regex_sub_id: "\<not> any_match m prev s \<Longrightarrow> regex_sub m r 0 prev s = s"
  by (induction m prev s rule: any_match.induct) auto

lemma key_char_facts: "key_char c \<Longrightarrow> word_char c \<and> c \<noteq> CHR ''[''"
  by (auto simp: key_char_def upper_char_or_def word_char_def is_digit_def Let_def)

lemma access_key_at:
  "0 < access_key_match prev s \<longleftrightarrow>
     starts_word prev \<and> (\<exists>w post. s = w @ post \<and> length w = 20 \<and> list_all key_char w \<and> (startswith w ''AKIA'' \<or> startswith w ''ASIA'') \<and> ends_word post)"
proof
  assume a: "0 < access_key_match prev s"
  then have s: "starts_word prev" "startswith s ''AKIA'' \<or> startswith s ''ASIA''" "20 \<le> length s"
    "list_all key_char (take 16 (drop 4 s))" "ends_word (drop 20 s)"
    by (auto simp: access_key_match_def split: if_splits)
  have "take 20 s = take 4 s @ take 16 (drop 4 s)" using take_add [of 4 16 s] by simp
  moreover have "take 4 s = ''AKIA'' \<or> take 4 s = ''ASIA''" using s(2) by (simp add: startswith_def numeral_nat)
  moreover have "list_all key_char ''AKIA''" "list_all key_char ''ASIA''"
    by (simp_all add: key_char_def upper_char_or_def)
  ultimately have "list_all key_char (take 20 s)" using s(4) by auto
  moreover have "startswith (take 20 s) ''AKIA'' \<or> startswith (take 20 s) ''ASIA''"
    using s(2) by (simp add: startswith_def)
  ultimately show "starts_word prev \<and> (\<exists>w post. s = w @ post \<and> length w = 20 \<and> list_all key_char w \<and>
      (startswith w ''AKIA'' \<or> startswith w ''ASIA'') \<and> ends_word post)"
    using s(1,3,5) by (intro conjI exI [of _ "take 20 s"] exI [of _ "drop 20 s"]) simp_all
next
  assume "starts_word prev \<and> (\<exists>w post. s = w @ post \<and> length w = 20 \<and> list_all key_char w \<and>
      (startswith w ''AKIA'' \<or> startswith w ''ASIA'') \<and> ends_word post)"
  then obtain w post where w: "starts_word prev" "s = w @ post" "length w = 20" "list_all key_char w"
    "startswith w ''AKIA'' \<or> startswith w ''ASIA''" "ends_word post" by blast
  have "list_all key_char (take 16 (drop 4 w))" using w(4) by (auto simp: list_all_iff dest!: in_set_takeD in_set_dropD)
  moreover have "take 16 (drop 4 s) = take 16 (drop 4 w)" "drop 20 s = post" "20 \<le> length s" using w(2,3) by simp_all
  moreover have "startswith s ''AKIA'' \<or> startswith s ''ASIA''" using w(2,5) by (auto simp: startswith_iff_prefix)
  ultimately show "0 < access_key_match prev s" using w(1,6) by (simp add: access_key_match_def)
qed

text \<open>
  What the matchers share: a match does not begin inside a word, and is not followed by a
  capital A that would begin a new word only through the replacement.
\<close>

definition follow_ok :: "char option \<Rightarrow> string \<Rightarrow> bool" where
  "follow_ok prev s = (startswith s ''A'' \<longrightarrow> starts_word prev)"

locale secret_matcher =
  fixes m :: matcher
  assumes begins: "0 < m prev s \<Longrightarrow> starts_word prev \<or> ends_word s"
    and ends: "0 < m prev s \<Longrightarrow> m prev s \<le> length s \<and> follow_ok (Some (s ! (m prev s - 1))) (drop (m prev s) s)"
begin

lemma copied_prefix:
  "list_all key_char w \<Longrightarrow> regex_sub m redacted_text 0 prev s = w @ post \<Longrightarrow>
     \<exists>post0. s = w @ post0 \<and> post = regex_sub m redacted_text 0 (if w = [] then prev else Some (last w)) post0"
proof (induction w arbitrary: prev s)
  case (Cons x w)
  then obtain c cs where s: "s = c # cs" by (cases s) auto
  have "m prev s = 0"
    using Cons.prems key_char_facts [of x] s by (auto simp: redacted_text_def split: nat.splits)
  then have "c = x" "regex_sub m redacted_text 0 (Some x) cs = w @ post" using Cons.prems(2) s by auto
  with Cons.IH [of "Some x" cs] Cons.prems(1) s show ?case by auto
qed simp

lemma word_end: "ends_word (regex_sub m redacted_text 0 prev s) \<Longrightarrow> \<not> starts_word prev \<Longrightarrow> ends_word s"
  using begins [of prev s] by (cases s) (auto simp: ends_word_def split: nat.splits)

lemma key_in_source:
  assumes "0 < access_key_match prev' (regex_sub m redacted_text 0 prev s)" and "prev' = prev \<or> follow_ok prev s"
  shows "0 < access_key_match prev s"
proof -
  obtain w post where w: "starts_word prev'" "regex_sub m redacted_text 0 prev s = w @ post" "length w = 20" "list_all key_char w"
    "startswith w ''AKIA'' \<or> startswith w ''ASIA''" "ends_word post" using assms(1) unfolding access_key_at by blast
  obtain post0 where s: "s = w @ post0" and post: "post = regex_sub m redacted_text 0 (Some (last w)) post0"
    using copied_prefix [OF w(4,2)] w(3) by (cases w) auto
  have "w \<noteq> []" using w(3) by auto
  then have "\<not> starts_word (Some (last w))"
    using w(4) key_char_facts by (auto simp: starts_word_def list_all_iff)
  then have "ends_word post0" using word_end w(6) post by blast
  moreover have "startswith s ''A''" using w(5) s by (cases w) (auto simp: startswith_def)
  then have "starts_word prev" using assms(2) w(1) by (auto simp: follow_ok_def)
  ultimately show ?thesis unfolding access_key_at using w s by blast
qed

lemma replacement_clean: "any_match access_key_match prev (redacted_text @ t) \<longleftrightarrow> any_match access_key_match (Some CHR '']'') t"
  by (simp add: redacted_text_def access_key_match_def startswith_def)

lemma clean_after:
  assumes "\<not> any_match access_key_match prev s \<or> m = access_key_match"
    and "if k = 0 then prev' = prev \<or> (prev' = Some CHR '']'' \<and> follow_ok prev s)
      else prev' = Some CHR '']'' \<and> k \<le> length s \<and> follow_ok (Some (s ! (k - 1))) (drop k s)"
  shows "\<not> any_match access_key_match prev' (regex_sub m redacted_text k prev s)"
  using assms
proof (induction s arbitrary: k prev prev')
  case (Cons c cs)
  show ?case
  proof (cases "k = 0")
    case False
    then obtain j where k: "k = Suc j" by (cases k) auto
    then show ?thesis
      using Cons.IH [of "Some c" j prev'] Cons.prems by (cases j) auto
  next
    case True
    show ?thesis
    proof (cases "m prev (c # cs)")
      case 0
      have src: "access_key_match prev (c # cs) = 0" and rel: "prev' = prev \<or> follow_ok prev (c # cs)"
        using Cons.prems True 0 by auto
      have "access_key_match prev' (regex_sub m redacted_text 0 prev (c # cs)) = 0"
      proof (rule ccontr)
        assume "access_key_match prev' (regex_sub m redacted_text 0 prev (c # cs)) \<noteq> 0"
        then have "0 < access_key_match prev (c # cs)" by (intro key_in_source [OF _ rel]) simp
        then show False using src by simp
      qed
      then show ?thesis using Cons.IH [of "Some c" 0 "Some c"] Cons.prems True 0 by auto
    next
      case (Suc n)
      then show ?thesis
        using Cons.IH [of "Some c" n "Some CHR '']''"] Cons.prems True ends [of prev "c # cs"]
        by (auto simp: replacement_clean nth_Cons' split: if_splits)
    qed
  qed
qed simp

lemma clean_kept:
  "\<not> any_match access_key_match None s \<or> m = access_key_match \<Longrightarrow> \<not> any_match access_key_match None (regex_sub m redacted_text 0 None s)"
  by (rule clean_after) simp_all

end
lemma suffix_cut: "suffix u s \<Longrightarrow> drop (length s - length u) s = u"
  by (auto simp: suffix_def)

lemma suffix_dropWhiles: "suffix (dropWhile f (dropWhile g (drop n s))) s"
  by (meson suffix_drop suffix_dropWhile suffix_order.trans)

lemma dropWhile_follow: "f (CHR ''A'') \<Longrightarrow> follow_ok prev (dropWhile f s)"
  by (induction s) (auto simp: follow_ok_def startswith_def)

lemma marker_facts:
  assumes "0 < marker_length tag s"
  shows "ends_word s" "marker_length tag s \<le> length s" "s ! (marker_length tag s - 1) = CHR ''-''"
proof -
  define rest where "rest = drop (length tag + 6) s"
  define words where "words = takeWhile (upper_char_or {CHR '' ''}) rest"
  have s: "startswith s (''-----'' @ tag @ '' '')" "startswith (drop (length words) rest) ''-----''"
    and n: "marker_length tag s = length tag + 6 + length words + 5"
    using assms by (auto simp: marker_length_def rest_def words_def Let_def split: if_splits)
  obtain u where u: "s = (''-----'' @ tag @ '' '') @ u" using s(1) by (auto simp: startswith_iff_prefix prefix_def)
  moreover have "length (''-----'' @ tag @ '' '') = length tag + 6" by simp
  ultimately have rest: "rest = u" unfolding rest_def by (metis append_eq_conv_conj)
  obtain v where v: "u = words @ ''-----'' @ v"
  proof -
    have "u = words @ drop (length words) rest" unfolding rest [symmetric] words_def by (metis takeWhile_eq_take append_take_drop_id)
    moreover obtain v where "drop (length words) rest = ''-----'' @ v" using s(2) by (auto simp: startswith_iff_prefix prefix_def)
    ultimately show thesis using that by metis
  qed
  show "ends_word s" using u by (simp add: ends_word_def word_char_def)
  show "marker_length tag s \<le> length s" using u v n by simp
  have "s = (''-----'' @ tag @ '' '' @ words @ ''----'') @ CHR ''-'' # v" using u v by simp
  moreover have "length (''-----'' @ tag @ '' '' @ words @ ''----'') = marker_length tag s - 1" using n by simp
  ultimately show "s ! (marker_length tag s - 1) = CHR ''-''" by (metis nth_append_length)
qed

lemma block_end_facts: "block_end s = Some n \<Longrightarrow> 0 < n \<and> n \<le> length s \<and> s ! (n - 1) = CHR ''-''"
proof (induction s arbitrary: n)
  case (Cons c cs)
  show ?case
  proof (cases "0 < marker_length ''END'' (c # cs)")
    case True
    then show ?thesis using marker_facts [OF True] Cons.prems by auto
  next
    case False
    then obtain j where "block_end cs = Some j" "n = Suc j" using Cons.prems by auto
    then show ?thesis using Cons.IH [of j] by (cases j) auto
  qed
qed simp

interpretation access_keys: secret_matcher access_key_match
proof unfold_locales
  fix prev s assume a: "0 < access_key_match prev s"
  then show "starts_word prev \<or> ends_word s" unfolding access_key_at by blast
  have "ends_word (drop 20 s)" "20 \<le> length s" "access_key_match prev s = 20"
    using a by (auto simp: access_key_match_def split: if_splits)
  moreover have "follow_ok p t" if "ends_word t" for p t
    using that by (cases t) (auto simp: follow_ok_def ends_word_def startswith_def word_char_def)
  ultimately show "access_key_match prev s \<le> length s \<and>
      follow_ok (Some (s ! (access_key_match prev s - 1))) (drop (access_key_match prev s) s)" by simp
qed

interpretation assignments: secret_matcher assignment_match
proof unfold_locales
  fix prev s assume a: "0 < assignment_match prev s"
  then show "starts_word prev \<or> ends_word s" by (auto simp: assignment_match_def split: if_splits)
  obtain c rest where after: "dropWhile is_space (drop (label_length s) s) = c # rest"
    and n: "assignment_match prev s = length s - length (dropWhile value_char (dropWhile is_space rest))"
    using a by (auto simp: assignment_match_def Let_def split: if_splits list.splits)
  have "suffix (c # rest) s" unfolding after [symmetric] by (meson suffix_drop suffix_dropWhile suffix_order.trans)
  then have "suffix (dropWhile value_char (dropWhile is_space rest)) s"
    by (meson suffix_ConsD suffix_dropWhile suffix_order.trans)
  then show "assignment_match prev s \<le> length s \<and>
      follow_ok (Some (s ! (assignment_match prev s - 1))) (drop (assignment_match prev s) s)"
    unfolding n by (simp add: suffix_cut dropWhile_follow value_char_def is_space_def)
qed

interpretation bearers: secret_matcher bearer_match
proof unfold_locales
  fix prev s assume a: "0 < bearer_match prev s"
  then show "starts_word prev \<or> ends_word s" by (auto simp: bearer_match_def split: if_splits)
  have n: "bearer_match prev s = length s - length (dropWhile bearer_char (dropWhile is_space (drop 6 s)))"
    using a by (auto simp: bearer_match_def Let_def split: if_splits)
  show "bearer_match prev s \<le> length s \<and> follow_ok (Some (s ! (bearer_match prev s - 1))) (drop (bearer_match prev s) s)"
    unfolding n by (simp add: suffix_cut [OF suffix_dropWhiles] dropWhile_follow bearer_char_def)
qed

interpretation key_blocks: secret_matcher key_block_match
proof unfold_locales
  fix prev s assume a: "0 < key_block_match prev s"
  let ?b = "marker_length ''BEGIN'' s"
  obtain n where b: "0 < ?b" and n: "block_end (drop ?b s) = Some n" "key_block_match prev s = ?b + n"
    using a by (auto simp: key_block_match_def Let_def split: if_splits option.splits)
  show "starts_word prev \<or> ends_word s" using marker_facts(1) [OF b] by simp
  have "key_block_match prev s \<le> length s" "s ! (key_block_match prev s - 1) = CHR ''-''"
    using block_end_facts [OF n(1)] marker_facts(2) [OF b] n(2) by auto
  then show "key_block_match prev s \<le> length s \<and> follow_ok (Some (s ! (key_block_match prev s - 1))) (drop (key_block_match prev s) s)"
    by (simp add: follow_ok_def starts_word_def word_char_def)
qed

text \<open>
  No AWS access key id survives redaction: the text redaction gives holds no AKIA or ASIA key as
  a word of its own, whatever the other three patterns replace after the first has run.
\<close>

lemma redacted_clean: "\<not> any_match access_key_match None (fst (redact_secrets s))"
  unfolding redact_secrets_def secret_patterns_def
  by (simp add: Let_def access_keys.clean_kept assignments.clean_kept bearers.clean_kept key_blocks.clean_kept)

section \<open>What a redacted text still contains\<close>

definition hex_token :: "string \<Rightarrow> bool" where
  "hex_token t = list_all (\<lambda>c. c \<in> set ''0123456789abcdef'') t"

lemma hex_token_chars: "hex_token t \<Longrightarrow> c \<in> set t \<Longrightarrow> c \<notin> set ''AKSrkos-'' \<and> lower_char c = c"
proof -
  have "list_all (\<lambda>c. c \<notin> set ''AKSrkos-'' \<and> lower_char c = c) ''0123456789abcdef''" by code_simp
  then show "hex_token t \<Longrightarrow> c \<in> set t \<Longrightarrow> c \<notin> set ''AKSrkos-'' \<and> lower_char c = c"
    unfolding hex_token_def list_all_iff by blast
qed

lemma py_lower_hex: "hex_token t \<Longrightarrow> py_lower t = t"
  by (simp add: py_lower_def hex_token_chars map_idI)

lemma startswith_set: "startswith s w \<Longrightarrow> c \<in> set w \<Longrightarrow> c \<in> set s"
  by (auto simp: startswith_iff_prefix prefix_def)

lemma quiet_text:
  "CHR ''A'' \<notin> set s \<Longrightarrow> access_key_match p s = 0"
  "CHR ''k'' \<notin> set (py_lower s) \<Longrightarrow> CHR ''s'' \<notin> set (py_lower s) \<Longrightarrow> assignment_match p s = 0"
  "CHR ''r'' \<notin> set (py_lower s) \<Longrightarrow> bearer_match p s = 0"
  "CHR ''-'' \<notin> set s \<Longrightarrow> key_block_match p s = 0"
proof -
  show "access_key_match p s = 0" if "CHR ''A'' \<notin> set s"
    using that startswith_set [of s "''AKIA''" "CHR ''A''"] startswith_set [of s "''ASIA''" "CHR ''A''"]
    by (auto simp: access_key_match_def)
  show "assignment_match p s = 0" if "CHR ''k'' \<notin> set (py_lower s)" "CHR ''s'' \<notin> set (py_lower s)"
  proof -
    have "label_length s = 0"
      using that startswith_set [of "py_lower s" _ "CHR ''k''"] startswith_set [of "py_lower s" _ "CHR ''s''"]
      by (fastforce simp: label_length_def Let_def)
    then show ?thesis by (simp add: assignment_match_def)
  qed
  show "bearer_match p s = 0" if "CHR ''r'' \<notin> set (py_lower s)"
    using that startswith_set [of "py_lower s" "''bearer''" "CHR ''r''"] by (auto simp: bearer_match_def)
  show "key_block_match p s = 0" if "CHR ''-'' \<notin> set s"
    using that startswith_set [of s "''-----'' @ ''BEGIN'' @ '' ''" "CHR ''-''"]
    by (auto simp: key_block_match_def marker_length_def)
qed

lemma bearer_first: "lower_char c \<noteq> CHR ''b'' \<Longrightarrow> bearer_match p (c # cs) = 0"
  by (simp add: bearer_match_def startswith_def py_lower_def)

lemma bearer_skips:
  "list_all (\<lambda>c. lower_char c \<noteq> CHR ''b'') w \<Longrightarrow> \<exists>q. regex_sub bearer_match r 0 p (w @ t) = w @ regex_sub bearer_match r 0 q t"
  by (induction w arbitrary: p) (auto simp: bearer_first)

lemma never_matches: "(\<And>p u. suffix u s \<Longrightarrow> m p u = 0) \<Longrightarrow> \<not> any_match m p s"
proof (induction s arbitrary: p)
  case (Cons c cs)
  then show ?case by (simp add: suffix_Cons)
qed simp

lemma quiet_everywhere:
  "CHR ''A'' \<notin> set s \<Longrightarrow> \<not> any_match access_key_match p s"
  "CHR ''k'' \<notin> set (py_lower s) \<Longrightarrow> CHR ''s'' \<notin> set (py_lower s) \<Longrightarrow> \<not> any_match assignment_match p s"
  "CHR ''r'' \<notin> set (py_lower s) \<Longrightarrow> \<not> any_match bearer_match p s"
  "CHR ''-'' \<notin> set s \<Longrightarrow> \<not> any_match key_block_match p s"
  by (rule never_matches, rule quiet_text; auto simp: py_lower_def dest: set_mono_suffix)+

text \<open>
  C27: the text \<^verbatim>\<open>token: Bearer\<close> followed by a blank and any hexadecimal token keeps the token. The
  assignment pattern takes the word Bearer for the value of the label and replaces both, and then
  the pattern for bearer tokens finds no Bearer any more: what is stored is the mark of a
  redaction and, after it, the token in clear. (Only this label, this spacing and tokens of the
  hexadecimal digits are claimed; a token of another shape may be caught by another pattern.)
\<close>

theorem labelled_bearer_survives:
  assumes "hex_token t"
  shows "redact_secrets (''token: Bearer '' @ t) = (''[REDACTED] '' @ t, True)"
proof -
  let ?s = "''token: Bearer '' @ t" and ?r = "''[REDACTED] '' @ t"
  note t = hex_token_chars [OF assms] and low = py_lower_hex [OF assms]
  have none: "c \<notin> set t" if "c \<in> set ''AKSrkos-''" for c using t that by blast
  have one: "regex_sub access_key_match redacted_text 0 None ?s = ?s"
    by (rule regex_sub_id, rule quiet_everywhere) (use none in auto)
  have rest: "regex_sub assignment_match redacted_text 0 p (CHR '' '' # t) = CHR '' '' # t" for p
    by (rule regex_sub_id, rule quiet_everywhere) (use none low in \<open>auto simp: py_lower_def lower_char_def\<close>)
  have "label_length ?s = 5"
    by (simp add: label_length_def py_lower_def lower_char_def startswith_def Let_def)
  then have "assignment_match None ?s = 13"
    by (simp add: assignment_match_def starts_word_def is_space_def value_char_def Let_def)
  then have two: "regex_sub assignment_match redacted_text 0 None ?s = ?r"
    using rest by (simp add: redacted_text_def numeral_nat)
  have "regex_sub bearer_match redacted_text 0 p t = t" for p
    by (rule regex_sub_id, rule quiet_everywhere) (use none low in auto)
  moreover have "list_all (\<lambda>c. lower_char c \<noteq> CHR ''b'') ''[REDACTED] ''" by code_simp
  ultimately have three: "regex_sub bearer_match redacted_text 0 None ?r = ?r"
    using bearer_skips [of "''[REDACTED] ''" redacted_text None t] by (auto simp del: append.simps)
  have four: "regex_sub key_block_match redacted_text 0 None ?r = ?r"
    by (rule regex_sub_id, rule quiet_everywhere) (use none in auto)
  show ?thesis unfolding redact_secrets_def secret_patterns_def by (simp only: fold_simps id_apply comp_def one two three four Let_def) simp
qed

theorem labelled_bearer_survives_witness:
  "redact_secrets ''token: Bearer 0123abcd'' = (''[REDACTED] 0123abcd'', True)"
  using labelled_bearer_survives [of "''0123abcd''"] by (simp add: hex_token_def)

end
