(* ===== verification/Api.thy ===== *)
theory Api
  imports Realtime
begin

text \<open>
  The endpoints of accounts: \<^verbatim>\<open>api/v1/endpoints/auth.py\<close>, \<^verbatim>\<open>users.py\<close>, \<^verbatim>\<open>api_keys.py\<close> and
  \<^verbatim>\<open>audit.py\<close> over the services of the theory Auth and Accounts. An answer is the body or the
  HTTP error, with the cookies the response sets: an endpoint sets them on the response the
  framework makes for its return value, so the response of an exception has none. The
  dependencies of an endpoint draw from \<open>dn\<close>, its body from \<open>en\<close>. What a service commits before it
  raises is kept.
\<close>

section \<open>The refresh cookie\<close>

text \<open>Both headers are \<^verbatim>\<open>HttpOnly\<close> and \<^verbatim>\<open>SameSite=lax\<close>: key, value, lifetime, secure and path.\<close>

datatype cookie_header =
    SetCookie string string int bool string
  | DeleteCookie string bool string

definition cookie_path :: "settings \<Rightarrow> string" where
  "cookie_path st = api_v1_prefix st @ ''/auth''"

definition set_refresh_cookie :: "settings \<Rightarrow> string \<Rightarrow> cookie_header" where
  "set_refresh_cookie st token =
    SetCookie (auth_refresh_cookie_name st) token (auth_refresh_token_days st * 86400) (auth_cookie_secure st) (cookie_path st)"

definition clear_refresh_cookie :: "settings \<Rightarrow> cookie_header" where
  "clear_refresh_cookie st = DeleteCookie (auth_refresh_cookie_name st) (auth_cookie_secure st) (cookie_path st)"

text \<open>What a client keeps of the headers of a response, as the value it holds for the refresh cookie.\<close>

fun cookie_after :: "string option \<Rightarrow> cookie_header list \<Rightarrow> string option" where
  "cookie_after jar [] = jar"
| "cookie_after jar (SetCookie _ v _ _ _ # hs) = cookie_after (Some v) hs"
| "cookie_after jar (DeleteCookie _ _ _ # hs) = cookie_after None hs"

section \<open>Authentication\<close>

record token_response =
  to_access_token :: string
  to_token_type :: string
  to_expires_in :: int
  to_user :: user_response

definition token_response_of :: "authentication_result \<Rightarrow> token_response" where
  "token_response_of r = \<lparr>to_access_token = rs_access_token r, to_token_type = ''bearer'', to_expires_in = rs_expires_in r, to_user = rs_user r\<rparr>"

type_synonym 'a answer = "(exn + 'a) \<times> cookie_header list"

definition signed_in :: "settings \<Rightarrow> authentication_result \<Rightarrow> token_response answer" where
  "signed_in st r = (Inr (token_response_of r), [set_refresh_cookie st (rs_refresh_token r)])"

definition post_login :: "'r redis_api \<Rightarrow> crypto \<Rightarrow> settings \<Rightarrow> string \<Rightarrow> env \<Rightarrow> request \<Rightarrow> string \<Rightarrow> string \<Rightarrow> 'r world \<Rightarrow>
    token_response answer \<times> 'r world" where
  "post_login R cr st dummy_hash en req username password w =
    (case login R cr st dummy_hash en req username password w of
       (Inl InvalidCredentialsError, w') \<Rightarrow> ((Inl (HTTPException 401 ''Invalid email or password''), []), w')
     | (Inl LoginRateLimitedError, w') \<Rightarrow> ((Inl (HTTPException 429 ''Too many authentication attempts''), []), w')
     | (Inl x, w') \<Rightarrow> ((Inl x, []), w')
     | (Inr r, w') \<Rightarrow> (signed_in st r, w'))"

definition post_register :: "'r redis_api \<Rightarrow> crypto \<Rightarrow> settings \<Rightarrow> env \<Rightarrow> request \<Rightarrow> user_register \<Rightarrow> 'r world \<Rightarrow>
    token_response answer \<times> 'r world" where
  "post_register R cr st en req p w =
    (case register R cr st en req p w of
       (Inl UserAlreadyExistsError, w') \<Rightarrow> ((Inl (HTTPException 409 ''An account with this email address already exists''), []), w')
     | (Inl LoginRateLimitedError, w') \<Rightarrow> ((Inl (HTTPException 429 ''Too many registration attempts''), []), w')
     | (Inl x, w') \<Rightarrow> ((Inl x, []), w')
     | (Inr r, w') \<Rightarrow> (signed_in st r, w'))"

text \<open>\<open>cookie\<close> is what the request carries for the refresh cookie. (The endpoint clears the cookie on its own response before it raises.)\<close>

definition post_refresh :: "crypto \<Rightarrow> settings \<Rightarrow> env \<Rightarrow> request \<Rightarrow> string option \<Rightarrow> db \<Rightarrow> token_response answer \<times> db" where
  "post_refresh cr st en req cookie d =
    (case refresh cr st en req cookie d of
       (Inl RefreshTokenError, d') \<Rightarrow> ((Inl (HTTPException 401 ''Invalid refresh token''), []), d')
     | (Inl x, d') \<Rightarrow> ((Inl x, []), d')
     | (Inr r, d') \<Rightarrow> (signed_in st r, d'))"

definition post_logout :: "crypto \<Rightarrow> settings \<Rightarrow> env \<Rightarrow> request \<Rightarrow> string option \<Rightarrow> db \<Rightarrow> string answer \<times> db" where
  "post_logout cr st en req cookie d = ((Inr ''Logged out'', [clear_refresh_cookie st]), logout cr en req cookie d)"

definition get_me :: "crypto \<Rightarrow> settings \<Rightarrow> env \<Rightarrow> request \<Rightarrow> string option \<Rightarrow> db \<Rightarrow> (exn + user_response) \<times> db" where
  "get_me cr st dn req token d =
    (case get_current_user cr st dn req token d of
       (Inl x, d') \<Rightarrow> (Inl x, d') | (Inr (u, _), d') \<Rightarrow> (Inr (user_response_of u), d'))"

text \<open>The ticket (a fresh secret) and its lifetime.\<close>

definition realtime_ticket :: "'r redis_api \<Rightarrow> crypto \<Rightarrow> settings \<Rightarrow> env \<Rightarrow> env \<Rightarrow> request \<Rightarrow> string option \<Rightarrow> 'r world \<Rightarrow>
    (exn + string \<times> int) \<times> 'r world" where
  "realtime_ticket R cr st dn en req token w =
    (case get_current_user cr st dn req token (wd_db w) of
       (Inl x, d') \<Rightarrow> (Inl x, w\<lparr>wd_db := d'\<rparr>)
     | (Inr (u, family), d') \<Rightarrow>
         (case issue_ticket R cr st (en_now en 0) (en_secret en 0) (us_id u) family (wd_redis w) of
            (ticket, s) \<Rightarrow> (Inr (ticket, realtime_ticket_ttl_seconds st), w\<lparr>wd_db := d', wd_redis := s\<rparr>)))"

definition post_change_password :: "crypto \<Rightarrow> settings \<Rightarrow> env \<Rightarrow> env \<Rightarrow> request \<Rightarrow> string option \<Rightarrow> string \<Rightarrow> string \<Rightarrow> db \<Rightarrow>
    string answer \<times> db" where
  "post_change_password cr st dn en req token current_password new_password d =
    (case get_current_user cr st dn req token d of
       (Inl x, d') \<Rightarrow> ((Inl x, []), d')
     | (Inr (u, _), d') \<Rightarrow>
       (case change_password cr en req u current_password new_password d' of
          (Inl InvalidCredentialsError, d'') \<Rightarrow> ((Inl (HTTPException 400 ''Current password is incorrect''), []), d'')
        | (Inl x, d'') \<Rightarrow> ((Inl x, []), d'')
        | (Inr _, d'') \<Rightarrow> ((Inr ''Password changed; all sessions revoked'', [clear_refresh_cookie st]), d'')))"

section \<open>Administration\<close>

text \<open>\<^verbatim>\<open>require_permission\<close> as a dependency: the user of the token, then the user's permission.\<close>

definition authorized :: "permission \<Rightarrow> crypto \<Rightarrow> settings \<Rightarrow> env \<Rightarrow> request \<Rightarrow> string option \<Rightarrow> db \<Rightarrow> (exn + user) \<times> db" where
  "authorized p cr st dn req token d =
    (case get_current_user cr st dn req token d of
       (Inl x, d') \<Rightarrow> (Inl x, d') | (Inr (u, _), d') \<Rightarrow> require_permission p dn req u d')"

definition guarded :: "permission \<Rightarrow> crypto \<Rightarrow> settings \<Rightarrow> env \<Rightarrow> request \<Rightarrow> string option \<Rightarrow>
    (user \<Rightarrow> db \<Rightarrow> (exn + 'a) \<times> db) \<Rightarrow> db \<Rightarrow> (exn + 'a) \<times> db" where
  "guarded p cr st dn req token body d =
    (case authorized p cr st dn req token d of (Inl x, d') \<Rightarrow> (Inl x, d') | (Inr actor, d') \<Rightarrow> body actor d')"

record 'a page =
  pg_total :: nat
  pg_limit :: nat
  pg_offset :: nat
  pg_items :: "'a list"

definition create_user_endpoint :: "crypto \<Rightarrow> env \<Rightarrow> request \<Rightarrow> user_create_schema \<Rightarrow> user \<Rightarrow> db \<Rightarrow> (exn + user_response) \<times> db" where
  "create_user_endpoint cr en req p actor d =
    (case user_create cr en req actor p d of
       (Inl UserConflictError, d') \<Rightarrow> (Inl (HTTPException 409 ''A user with this email already exists''), d')
     | r \<Rightarrow> r)"

definition list_users :: "nat \<Rightarrow> nat \<Rightarrow> user \<Rightarrow> db \<Rightarrow> (exn + user_response page) \<times> db" where
  "list_users limit offset actor d =
    (case users_list limit offset d of (rows, n) \<Rightarrow>
       (Inr \<lparr>pg_total = n, pg_limit = limit, pg_offset = offset, pg_items = map user_response_of rows\<rparr>, d))"

definition get_user_endpoint :: "uuid \<Rightarrow> user \<Rightarrow> db \<Rightarrow> (exn + user_response) \<times> db" where
  "get_user_endpoint user_id actor d =
    (case get_user user_id d of None \<Rightarrow> (Inl (HTTPException 404 ''User not found''), d) | Some u \<Rightarrow> (Inr (user_response_of u), d))"

definition update_user_endpoint :: "env \<Rightarrow> request \<Rightarrow> uuid \<Rightarrow> user_update_schema \<Rightarrow> user \<Rightarrow> db \<Rightarrow> (exn + user_response) \<times> db" where
  "update_user_endpoint en req user_id p actor d =
    (case user_update en req actor user_id p d of
       (Inl LastAdminError, d') \<Rightarrow> (Inl (HTTPException 409 ''The last active administrator cannot be removed''), d')
     | (Inl x, d') \<Rightarrow> (Inl x, d')
     | (Inr None, d') \<Rightarrow> (Inl (HTTPException 404 ''User not found''), d')
     | (Inr (Some r), d') \<Rightarrow> (Inr r, d'))"

text \<open>A response about a key has no hash; the one to its creation has the raw key besides.\<close>

record api_key_response =
  ap_id :: uuid
  ap_name :: string
  ap_prefix :: string
  ap_scopes :: "string list"
  ap_is_active :: bool
  ap_expires_at :: "datetime option"
  ap_created_by :: uuid
  ap_last_used_at :: "datetime option"
  ap_revoked_at :: "datetime option"
  ap_created_at :: datetime

definition api_key_response_of :: "service_api_key \<Rightarrow> api_key_response" where
  "api_key_response_of k = \<lparr>ap_id = ak_id k, ap_name = ak_name k, ap_prefix = ak_prefix k, ap_scopes = ak_scopes k,
     ap_is_active = ak_is_active k, ap_expires_at = ak_expires_at k, ap_created_by = ak_created_by k,
     ap_last_used_at = ak_last_used_at k, ap_revoked_at = ak_revoked_at k, ap_created_at = ak_created_at k\<rparr>"

definition create_api_key :: "crypto \<Rightarrow> env \<Rightarrow> request \<Rightarrow> api_key_create_schema \<Rightarrow> user \<Rightarrow> db \<Rightarrow> (exn + api_key_response \<times> string) \<times> db" where
  "create_api_key cr en req p actor d =
    (case api_key_create cr en req actor p d of
       (Inl x, d') \<Rightarrow> (Inl x, d') | (Inr (k, raw), d') \<Rightarrow> (Inr (api_key_response_of k, raw), d'))"

definition list_api_keys :: "nat \<Rightarrow> nat \<Rightarrow> user \<Rightarrow> db \<Rightarrow> (exn + api_key_response page) \<times> db" where
  "list_api_keys limit offset actor d =
    (case api_keys_list limit offset d of (rows, n) \<Rightarrow>
       (Inr \<lparr>pg_total = n, pg_limit = limit, pg_offset = offset, pg_items = map api_key_response_of rows\<rparr>, d))"

definition revoke_api_key :: "env \<Rightarrow> request \<Rightarrow> uuid \<Rightarrow> user \<Rightarrow> db \<Rightarrow> (exn + api_key_response) \<times> db" where
  "revoke_api_key en req key_id actor d =
    (case api_key_revoke en req actor key_id d of
       (None, d') \<Rightarrow> (Inl (HTTPException 404 ''API key not found''), d') | (Some k, d') \<Rightarrow> (Inr (api_key_response_of k), d'))"

definition list_audit_logs :: "audit_filters \<Rightarrow> user \<Rightarrow> db \<Rightarrow> (exn + audit_log page) \<times> db" where
  "list_audit_logs f actor d =
    (case audit_list f d of (rows, n) \<Rightarrow>
       (Inr \<lparr>pg_total = n, pg_limit = af_limit f, pg_offset = af_offset f, pg_items = rows\<rparr>, d))"

text \<open>The routes of the three routers, with the permission each names.\<close>

datatype admin_request =
    CreateUser user_create_schema | ListUsers nat nat | GetUser uuid | UpdateUser uuid user_update_schema
  | CreateApiKey api_key_create_schema | ListApiKeys nat nat | RevokeApiKey uuid
  | ListAuditLogs audit_filters

datatype admin_response =
    UserBody user_response | UsersBody "user_response page" | KeyBody api_key_response
  | NewKeyBody api_key_response string | KeysBody "api_key_response page" | AuditBody "audit_log page"

definition permission_of :: "admin_request \<Rightarrow> permission" where
  "permission_of rq = (case rq of
      CreateUser _ \<Rightarrow> USERS_MANAGE | ListUsers _ _ \<Rightarrow> USERS_MANAGE | GetUser _ \<Rightarrow> USERS_MANAGE | UpdateUser _ _ \<Rightarrow> USERS_MANAGE
    | CreateApiKey _ \<Rightarrow> API_KEYS_MANAGE | ListApiKeys _ _ \<Rightarrow> API_KEYS_MANAGE | RevokeApiKey _ \<Rightarrow> API_KEYS_MANAGE
    | ListAuditLogs _ \<Rightarrow> AUDIT_READ)"

definition admin_body :: "crypto \<Rightarrow> env \<Rightarrow> request \<Rightarrow> admin_request \<Rightarrow> user \<Rightarrow> db \<Rightarrow> (exn + admin_response) \<times> db" where
  "admin_body cr en req rq actor d =
    (case rq of
       CreateUser p \<Rightarrow> apfst (map_sum id UserBody) (create_user_endpoint cr en req p actor d)
     | ListUsers limit offset \<Rightarrow> apfst (map_sum id UsersBody) (list_users limit offset actor d)
     | GetUser i \<Rightarrow> apfst (map_sum id UserBody) (get_user_endpoint i actor d)
     | UpdateUser i p \<Rightarrow> apfst (map_sum id UserBody) (update_user_endpoint en req i p actor d)
     | CreateApiKey p \<Rightarrow> apfst (map_sum id (\<lambda>(k, raw). NewKeyBody k raw)) (create_api_key cr en req p actor d)
     | ListApiKeys limit offset \<Rightarrow> apfst (map_sum id KeysBody) (list_api_keys limit offset actor d)
     | RevokeApiKey i \<Rightarrow> apfst (map_sum id KeyBody) (revoke_api_key en req i actor d)
     | ListAuditLogs f \<Rightarrow> apfst (map_sum id AuditBody) (list_audit_logs f actor d))"

definition admin_endpoint :: "crypto \<Rightarrow> settings \<Rightarrow> env \<Rightarrow> env \<Rightarrow> request \<Rightarrow> string option \<Rightarrow> admin_request \<Rightarrow> db \<Rightarrow>
    (exn + admin_response) \<times> db" where
  "admin_endpoint cr st dn en req token rq d = guarded (permission_of rq) cr st dn req token (admin_body cr en req rq) d"

section \<open>Accounts need an administrator\<close>

lemma admin_only:
  "p \<in> set (permissions_for_role role) \<Longrightarrow> p \<in> {USERS_MANAGE, API_KEYS_MANAGE} \<Longrightarrow> role = ''admin''"
  by (auto simp: permissions_for_role_def role_permissions_def split: if_splits)

text \<open>What the administration of accounts may change.\<close>

definition same_accounts :: "db \<Rightarrow> db \<Rightarrow> bool" where
  "same_accounts d d' = (db_users d' = db_users d \<and> db_auth_sessions d' = db_auth_sessions d \<and> db_api_keys d' = db_api_keys d)"

lemma audit_denial_accounts: "same_accounts d (audit_denial req i t aty ac ai al det d)"
  by (simp add: same_accounts_def audit_denial_def)

lemma same_accounts_refl: "same_accounts d d"
  by (simp add: same_accounts_def)

lemma get_current_user_accounts: "same_accounts d (snd (get_current_user cr st en req tok d))"
  by (simp add: get_current_user_def Let_def audit_denial_accounts same_accounts_refl split: sum.split option.split exn.split)

lemma get_current_user_same: "get_current_user cr st en req tok d = (Inr r, d') \<Longrightarrow> d' = d"
  by (auto simp: get_current_user_def Let_def split: if_splits sum.splits option.splits exn.splits)

lemma require_permission_Inr:
  "require_permission p en req u d = (Inr actor, d') \<Longrightarrow> d' = d \<and> actor = u \<and> p \<in> set (permissions_for_role (us_role_name u))"
  by (auto simp: require_permission_def split: if_splits)

lemma require_permission_accounts: "same_accounts d (snd (require_permission p en req u d))"
  by (simp add: require_permission_def audit_denial_accounts same_accounts_refl)

lemma authorized_Inr:
  assumes "authorized p cr st dn req token d = (Inr actor, d')"
  obtains f where "fst (get_current_user cr st dn req token d) = Inr (actor, f)" "d' = d"
    "p \<in> set (permissions_for_role (us_role_name actor))"
proof -
  obtain u f d1 where user: "get_current_user cr st dn req token d = (Inr (u, f), d1)"
    and perm: "require_permission p dn req u d1 = (Inr actor, d')"
    using assms by (auto simp: authorized_def split: prod.splits sum.splits)
  show ?thesis using that user perm get_current_user_same [OF user] require_permission_Inr [OF perm] by simp
qed

lemma authorized_accounts: "same_accounts d (snd (authorized p cr st dn req token d))"
proof -
  obtain r d1 where user: "get_current_user cr st dn req token d = (r, d1)" by fastforce
  have d1: "same_accounts d d1" using get_current_user_accounts [of d cr st dn req token] by (simp add: user)
  show ?thesis
    using d1 require_permission_accounts [of d1 p dn req] by (auto simp: authorized_def user same_accounts_def split: sum.split)
qed

text \<open>An operation that changes accounts writes the actor's audit row.\<close>

definition audited :: "user \<Rightarrow> db \<Rightarrow> db \<Rightarrow> bool" where
  "audited actor d d' = (same_accounts d d' \<or>
     (\<exists>row. db_audit_logs d' = db_audit_logs d @ [row] \<and> au_outcome row = ''success'' \<and> au_actor_id row = Some (us_id actor)))"

lemma audited_refl: "audited actor d d"
  by (simp add: audited_def same_accounts_refl)

lemma audited_record:
  "db_audit_logs d1 = db_audit_logs d \<Longrightarrow> audited actor d (audit_record req i t ac ''success'' aty (Some (us_id actor)) al rt ri det d1)"
  by (simp add: audited_def audit_record_def)

lemma row_ops_logs [simp]:
  "db_audit_logs (save_user u d) = db_audit_logs d" "db_audit_logs (add_user u d) = db_audit_logs d"
  "db_audit_logs (revoke_user i t d) = db_audit_logs d" "db_audit_logs (add_api_key k d) = db_audit_logs d"
  "db_audit_logs (save_api_key k d) = db_audit_logs d"
  by (simp_all add: save_user_def add_user_def revoke_user_def add_api_key_def save_api_key_def)

lemma create_user_row_logs: "create_user_row u d = Inr d' \<Longrightarrow> db_audit_logs d' = db_audit_logs d"
  by (auto simp: create_user_row_def split: if_splits)

lemma services_audited:
  "audited actor d (snd (user_create cr en req actor uc d))" "audited actor d (snd (user_update en req actor i up d))"
  "audited actor d (snd (api_key_create cr en req actor kc d))" "audited actor d (snd (api_key_revoke en req actor i d))"
  by (auto simp: user_create_def user_update_def api_key_create_def api_key_revoke_def Let_def audited_refl
      intro!: audited_record dest: create_user_row_logs split: option.split sum.split)

lemma endpoints_keep:
  "snd (create_user_endpoint cr en req uc actor d) = snd (user_create cr en req actor uc d)"
  "snd (update_user_endpoint en req i up actor d) = snd (user_update en req actor i up d)"
  "snd (create_api_key cr en req kc actor d) = snd (api_key_create cr en req actor kc d)"
  "snd (revoke_api_key en req i actor d) = snd (api_key_revoke en req actor i d)"
  "snd (list_users l k actor d) = d" "snd (get_user_endpoint i actor d) = d" "snd (list_api_keys l k actor d) = d"
  "snd (list_audit_logs f actor d) = d"
  by (simp_all add: create_user_endpoint_def update_user_endpoint_def create_api_key_def revoke_api_key_def list_users_def
      get_user_endpoint_def list_api_keys_def list_audit_logs_def split_beta split: prod.split sum.split option.split exn.split)

lemma admin_body_audited: "audited actor d (snd (admin_body cr en req rq actor d))"
  by (cases rq) (simp_all add: admin_body_def endpoints_keep services_audited audited_refl)

lemma reads_change_nothing:
  "permission_of rq = AUDIT_READ \<Longrightarrow> snd (admin_body cr en req rq actor d) = d"
  by (cases rq) (simp_all add: permission_of_def admin_body_def endpoints_keep)

text \<open>
  C6: accounts change only on an administrator's word, and never silently. Whatever request
  reaches the endpoints that manage users and API keys or read the audit trail, the users, the
  sessions and the keys stay as they are unless the token authenticated a stored, active user
  whose role is administrator and whose session family is active; then exactly one audit row, a
  success with that user as its actor, is written beside the change.
\<close>

theorem accounts_need_an_administrator:
  assumes "admin_endpoint cr st dn en req token rq d = (r, d')"
  shows "same_accounts d d' \<or>
    (\<exists>actor f row. fst (get_current_user cr st dn req token d) = Inr (actor, f) \<and> get_user (us_id actor) d = Some actor \<and>
       us_is_active actor \<and> us_role_name actor = ''admin'' \<and> family_is_active f (en_now dn 1) d \<and>
       db_audit_logs d' = db_audit_logs d @ [row] \<and> au_outcome row = ''success'' \<and> au_actor_id row = Some (us_id actor))"
proof -
  obtain x d1 where auth: "authorized (permission_of rq) cr st dn req token d = (x, d1)" by fastforce
  show ?thesis
  proof (cases x)
    case (Inl e)
    then have "d' = d1" using assms auth by (simp add: admin_endpoint_def guarded_def)
    then show ?thesis using authorized_accounts [of d "permission_of rq" cr st dn req token] auth by simp
  next
    case (Inr actor)
    obtain f where user: "fst (get_current_user cr st dn req token d) = Inr (actor, f)" and d1: "d1 = d"
      and perm: "permission_of rq \<in> set (permissions_for_role (us_role_name actor))"
      using authorized_Inr [OF auth [unfolded Inr]] by blast
    have body: "d' = snd (admin_body cr en req rq actor d)" using assms auth Inr d1 by (simp add: admin_endpoint_def guarded_def)
    show ?thesis
    proof (cases "permission_of rq = AUDIT_READ")
      case True
      then show ?thesis using reads_change_nothing body same_accounts_refl by metis
    next
      case False
      then have "permission_of rq \<in> {USERS_MANAGE, API_KEYS_MANAGE}" by (cases rq) (simp_all add: permission_of_def)
      then have "us_role_name actor = ''admin''" by (rule admin_only [OF perm])
      then show ?thesis
        using admin_body_audited [of actor d cr en req rq] get_current_user_Inr(1-3) [OF user] user unfolding body audited_def by blast
    qed
  qed
qed

section \<open>The session in the browser\<close>

text \<open>What a refresh needs of the cookie the client holds.\<close>

definition cookie_live :: "crypto \<Rightarrow> datetime \<Rightarrow> db \<Rightarrow> string option \<Rightarrow> bool" where
  "cookie_live cr t d jar =
    (case parse_refresh_token (str_or jar []) of None \<Rightarrow> False
     | Some (session_id, secret) \<Rightarrow>
       (case get_auth_session session_id d of None \<Rightarrow> False
        | Some a \<Rightarrow> as_token_hash a = hash_secret cr secret \<and> as_revoked_at a = None \<and> t < as_expires_at a \<and>
            (case get_user (as_user_id a) d of None \<Rightarrow> False | Some u \<Rightarrow> us_is_active u)))"

lemma table_get_update_where:
  "(\<And>x. key (f x) = key x) \<Longrightarrow> table_get key k (update_where p f rows) = map_option (\<lambda>x. if p x then f x else x) (table_get key k rows)"
  by (induction rows) (auto simp: update_where_def)

lemma get_after_revoke:
  "get_auth_session i (revoke_family f t d) = map_option (\<lambda>a. if as_family_id a = f \<and> as_revoked_at a = None then a\<lparr>as_revoked_at := Some t\<rparr> else a)
     (get_auth_session i d)"
  unfolding get_auth_session_def revoke_family_sessions by (rule table_get_update_where) simp

lemma get_session_same: "db_auth_sessions d' = db_auth_sessions d \<Longrightarrow> get_auth_session i d' = get_auth_session i d"
  by (simp add: get_auth_session_def)

lemma refused_cookie:
  assumes "\<not> cookie_live cr (en_now en 0) d jar"
  shows "\<exists>d'. post_refresh cr st en req jar d = ((Inl (HTTPException 401 ''Invalid refresh token''), []), d') \<and> (\<forall>t. \<not> cookie_live cr t d' jar)"
proof (cases "parse_refresh_token (str_or jar [])")
  case None
  then show ?thesis by (simp add: post_refresh_def refresh_def cookie_live_def)
next
  case (Some p)
  obtain i secret where p: "p = (i, secret)" by fastforce
  show ?thesis
  proof (cases "get_auth_session i d")
    case None
    then show ?thesis using Some p
      by (simp add: post_refresh_def refresh_def cookie_live_def get_session_same [OF audit_refresh_failure_simps(1)])
  next
    case a: (Some a)
    consider (hash) "as_token_hash a \<noteq> hash_secret cr secret"
      | (revoked) "as_token_hash a = hash_secret cr secret" "as_revoked_at a \<noteq> None"
      | (lapsed) "as_token_hash a = hash_secret cr secret" "as_revoked_at a = None"
          "\<not> (en_now en 0 < as_expires_at a \<and> (case get_user (as_user_id a) d of None \<Rightarrow> False | Some u \<Rightarrow> us_is_active u))"
      using assms Some p a by (auto simp: cookie_live_def)
    then show ?thesis
    proof cases
      case hash
      then show ?thesis using Some p a
        by (simp add: post_refresh_def refresh_def cookie_live_def get_session_same [OF audit_refresh_failure_simps(1)])
    next
      case revoked
      then show ?thesis using Some p a
        by (simp add: post_refresh_def refresh_def cookie_live_def get_session_same [OF audit_record_simps(3)] get_after_revoke)
    next
      case lapsed
      then have "fst (refresh cr st en req jar d) = Inl RefreshTokenError \<and>
          snd (refresh cr st en req jar d) = audit_refresh_failure req (en_uuid en 0) (en_now en 2) (get_user (as_user_id a) d)
            (revoke_family (as_family_id a) (en_now en 1) d)"
        using Some p a by (auto simp: refresh_def Let_def split: option.splits)
      then have run: "refresh cr st en req jar d = (Inl RefreshTokenError, audit_refresh_failure req (en_uuid en 0) (en_now en 2)
          (get_user (as_user_id a) d) (revoke_family (as_family_id a) (en_now en 1) d))" by (simp add: prod_eq_iff)
      show ?thesis using Some p a
        by (simp add: post_refresh_def run cookie_live_def get_session_same [OF audit_refresh_failure_simps(1)] get_after_revoke)
    qed
  qed
qed

lemma new_session_live:
  assumes "get_auth_session i d' = Some a" and "as_token_hash a = hash_secret cr secret" and "as_revoked_at a = None"
    and "get_user (as_user_id a) d' = Some u" and "us_is_active u" and "t < as_expires_at a"
    and "parse_refresh_token token = Some (i, secret)"
  shows "cookie_live cr t d' (Some token)"
proof -
  have "token \<noteq> []" using assms(7) by (auto simp: parse_refresh_token_def split_once_def)
  then show ?thesis using assms by (simp add: cookie_live_def)
qed

lemma cookie_liveE:
  assumes "cookie_live cr t d jar"
  obtains i secret a u where "parse_refresh_token (str_or jar []) = Some (i, secret)" "get_auth_session i d = Some a"
    "as_token_hash a = hash_secret cr secret" "as_revoked_at a = None" "t < as_expires_at a"
    "get_user (as_user_id a) d = Some u" "us_is_active u"
proof -
  obtain i secret where p: "parse_refresh_token (str_or jar []) = Some (i, secret)"
    using assms unfolding cookie_live_def by (cases "parse_refresh_token (str_or jar [])") (simp, fastforce)
  obtain a where a: "get_auth_session i d = Some a" using assms p by (cases "get_auth_session i d") (simp_all add: cookie_live_def)
  obtain u where u: "get_user (as_user_id a) d = Some u" using assms p a by (cases "get_user (as_user_id a) d") (simp_all add: cookie_live_def)
  show ?thesis using that [OF p a _ _ _ u] assms by (simp add: cookie_live_def p a u)
qed

lemma accepted_cookie:
  assumes ok: "sessions_ok d" "fresh en d" and live: "cookie_live cr (en_now en 0) d jar"
  shows "\<exists>r h d'. post_refresh cr st en req jar d = ((Inr r, [h]), d') \<and>
    (\<forall>t < en_now en 0 + seconds (auth_refresh_token_days st * 86400). cookie_live cr t d' (cookie_after jar [h]))"
proof -
  obtain i secret a u where parse: "parse_refresh_token (str_or jar []) = Some (i, secret)" and a: "get_auth_session i d = Some a"
    "as_token_hash a = hash_secret cr secret" "as_revoked_at a = None" "en_now en 0 < as_expires_at a"
    and u: "get_user (as_user_id a) d = Some u" "us_is_active u"
    by (rule cookie_liveE [OF live])
  obtain tok where jar: "jar = Some tok" using parse by (cases jar) (auto simp: parse_refresh_token_def split_once_def)
  obtain r d' where run: "refresh cr st en req (Some tok) d = (Inr r, d')"
    using parse a u jar by (simp add: refresh_def Let_def split_beta)
  obtain a1 u1 new where "get_auth_session (as_id a1) d = Some a1" "get_user (as_user_id a1) d = Some u1" "us_is_active u1"
    and new: "live_sessions (as_family_id a1) d' = [new]" "new \<in> set (db_auth_sessions d')" "as_user_id new = as_user_id a1"
    "as_expires_at new = en_now en 0 + seconds (auth_refresh_token_days st * 86400)"
    "parse_refresh_token (rs_refresh_token r) = Some (as_id new, en_secret en 0)" "as_token_hash new = hash_secret cr (en_secret en 0)"
    by (rule refresh_success [OF ok run]) blast
  have ok': "sessions_ok d'" using refresh_sessions_ok [OF ok, of cr st req "Some tok"] run by simp
  have "get_user (as_user_id new) d' = Some u1"
    using \<open>get_user (as_user_id a1) d = Some u1\<close> new(3) refresh_users [of cr st en req "Some tok" d] run by (simp add: get_user_def)
  moreover have "as_revoked_at new = None" using new(1) by (auto simp: live_sessions_def filter_eq_Cons_iff)
  ultimately have "cookie_live cr t d' (Some (rs_refresh_token r))" if "t < en_now en 0 + seconds (auth_refresh_token_days st * 86400)" for t
    using new_session_live [OF get_auth_session_mem [OF ok' new(2)]] new(4-6) \<open>us_is_active u1\<close> that by simp
  then show ?thesis using run by (simp add: post_refresh_def jar signed_in_def set_refresh_cookie_def)
qed

text \<open>
  C19: the cookie decides. A request to refresh succeeds exactly if the cookie names a stored,
  unrevoked and unexpired session of an active user with the right secret; the answer then
  carries one new cookie, with which the next refresh succeeds at any time before it expires.
  Otherwise the answer is 401 and carries no cookie, so the client keeps the one it has, and with
  the database as it is then this cookie is refused at every time, past or future. (The session it
  names need not have ended: a cookie with the id of a live session and a wrong secret is refused
  and leaves that session to the cookie with the right one.)
\<close>

theorem refresh_follows_the_cookie:
  assumes "sessions_ok d" and "fresh en d"
  shows "if cookie_live cr (en_now en 0) d jar
    then \<exists>r h d'. post_refresh cr st en req jar d = ((Inr r, [h]), d') \<and>
      (\<forall>t < en_now en 0 + seconds (auth_refresh_token_days st * 86400). cookie_live cr t d' (cookie_after jar [h]))
    else \<exists>d'. post_refresh cr st en req jar d = ((Inl (HTTPException 401 ''Invalid refresh token''), []), d') \<and>
      (\<forall>t. \<not> cookie_live cr t d' jar)"
  using accepted_cookie [OF assms] refused_cookie by simp

text \<open>
  C20: signing in gives a session. When a login is accepted, the account exists, is active and has
  the password given, and the cookie of the answer refreshes the session at any time before it
  expires.
\<close>

theorem login_opens_a_session:
  assumes "post_login R cr st dummy_hash en req email password w = ((Inr r, hs), w')" and "sessions_ok (wd_db w)" and "fresh en (wd_db w)"
    and "distinct (map us_id (db_users (wd_db w)))"
  shows "\<exists>u. get_by_email (normalize_email email) (wd_db w) = Some u \<and> us_is_active u \<and> verify_password cr password (us_password_hash u) \<and>
    ur_id (to_user r) = us_id u \<and>
    (\<forall>t < en_now en 1 + seconds (auth_refresh_token_days st * 86400). cookie_live cr t (wd_db w') (cookie_after jar hs))"
proof -
  let ?d = "wd_db w"
  obtain x where run: "login R cr st dummy_hash en req email password w = (Inr x, w')" and r: "r = token_response_of x"
    and hs: "hs = [set_refresh_cookie st (rs_refresh_token x)]"
    using assms(1) by (auto simp: post_login_def signed_in_def split: prod.splits sum.splits exn.splits)
  obtain u where u: "get_by_email (normalize_email email) ?d = Some u" "us_is_active u" "verify_password cr password (us_password_hash u)"
    and x: "x = fst (new_session cr st en 0 1 req u ?d)"
    and w': "wd_db w' = audit_record req (en_uuid en 3) (en_now en 6) ''auth.login'' ''success'' ''user'' (Some (us_id u)) (Some (us_email u)) None None []
      (save_user (u\<lparr>us_last_login_at := Some (en_now en 4), us_updated_at := en_now en 5\<rparr>) (snd (new_session cr st en 0 1 req u ?d)))"
    using run by (auto simp: login_def Let_def split_beta split: sum.splits bool.splits option.splits if_splits)
  let ?row = "session_row cr st req (en_secret en 0) (en_uuid en 0) (en_uuid en (0 + 1)) (us_id u) (en_now en 1) (en_now en (1 + 1))"
  have rows: "db_auth_sessions (wd_db w') = db_auth_sessions ?d @ [?row]"
    by (simp add: w' sessions_new_session(1))
  have "get_auth_session (en_uuid en 0) (wd_db w') = Some ?row"
    using freshD [OF assms(3), of 0] table_get_None [of as_id "en_uuid en 0" "db_auth_sessions ?d"]
    by (simp add: get_auth_session_def rows table_get_append)
  moreover have "\<exists>u'. get_user (as_user_id ?row) (wd_db w') = Some u' \<and> us_is_active u'"
  proof -
    have "get_user (us_id u) ?d = Some u"
      using table_get_distinct [OF assms(4)] get_by_email_mem [OF u(1)] by (simp add: get_user_def)
    then show ?thesis using u(2) by (simp add: get_user_def w' save_user_def sessions_new_session(2) table_get_save)
  qed
  moreover have "rs_refresh_token x = fst (generate_refresh_token cr (en_secret en 0) (en_uuid en 0))" "ur_id (rs_user x) = us_id u"
    by (simp_all add: x new_session_def Let_def split_beta user_response_of_def)
  ultimately show ?thesis
    using u new_session_live [of "en_uuid en 0" "wd_db w'" ?row cr "en_secret en 0"]
    by (auto simp: r hs token_response_of_def set_refresh_cookie_def)
qed

section \<open>Examples\<close>

definition example_access_token :: string where
  "example_access_token = fst (create_access_token enumerated_jwt example_settings 9 6 1 3)"

lemma example_signed_in:
  "get_current_user enumerated_jwt example_settings (example_env 7 50) example_request (Some example_access_token) example_accounts =
     (Inr (example_user, 3), example_accounts)"
proof -
  have "auth_access_token_minutes example_settings = 15" by (simp add: example_settings_def default_settings_simps)
  then obtain claims where c: "decode_access_token enumerated_jwt example_settings 7 example_access_token =
      Inr \<lparr>ac_user_id = 1, ac_family_id = 3, ac_claims = claims\<rparr>" "dict_get claims ''iat'' = JInt 0"
    using access_token_roundtrip [OF enumerated_jwt_laws, of 6 7 example_settings 9 1 3]
    by (auto simp: example_access_token_def drop_micros_def seconds_def)
  have "example_access_token \<noteq> []" by (simp add: example_access_token_def create_access_token_def enumerated_jwt_def Let_def)
  then show ?thesis using c
    by (simp add: get_current_user_def Let_def claim_instant_def seconds_def family_is_active_def drop_micros_def example_user_def new_user_def)
qed

definition example_key_request :: admin_request where
  "example_key_request = CreateApiKey \<lparr>kc_name = ''k'', kc_scopes = [''events:write''], kc_expires_at = None\<rparr>"

theorem accounts_need_an_administrator_witness:
  "\<exists>k raw d'. admin_endpoint enumerated_jwt example_settings (example_env 7 50) (example_env 8 60) example_request (Some example_access_token)
     example_key_request example_accounts = (Inr (NewKeyBody k raw), d') \<and> length (db_api_keys d') = 1 \<and>
     (\<exists>row. db_audit_logs d' = db_audit_logs example_accounts @ [row] \<and> au_actor_id row = Some 1)"
proof -
  have role: "us_role_name example_user = ''admin''" by (simp add: example_user_def new_user_def)
  have none: "db_api_keys example_accounts = []" by (simp add: example_accounts_def empty_db_def)
  obtain k raw d' where run: "admin_endpoint enumerated_jwt example_settings (example_env 7 50) (example_env 8 60) example_request
      (Some example_access_token) example_key_request example_accounts = (Inr (NewKeyBody k raw), d')" and keys: "length (db_api_keys d') = 1"
    by (simp add: admin_endpoint_def guarded_def authorized_def example_signed_in require_permission_def permissions_for_role_def
        role_permissions_def role set_all_permissions example_key_request_def permission_of_def admin_body_def create_api_key_def
        api_key_create_def Let_def none add_api_key_def)
  have "\<not> same_accounts example_accounts d'" using keys none by (auto simp: same_accounts_def)
  with accounts_need_an_administrator [OF run]
  obtain actor f row where "fst (get_current_user enumerated_jwt example_settings (example_env 7 50) example_request (Some example_access_token)
      example_accounts) = Inr (actor, f)" "db_audit_logs d' = db_audit_logs example_accounts @ [row]" "au_actor_id row = Some (us_id actor)"
    by blast
  then have "\<exists>row. db_audit_logs d' = db_audit_logs example_accounts @ [row] \<and> au_actor_id row = Some 1"
    by (simp add: example_signed_in)
  then show ?thesis using run keys by blast
qed

theorem refresh_follows_the_cookie_witness:
  "\<exists>r h d'. post_refresh enumerated_jwt example_settings (example_env 7 100) example_request (Some example_token) example_accounts = ((Inr r, [h]), d') \<and>
     cookie_live enumerated_jwt 9 d' (cookie_after (Some example_token) [h])"
proof -
  have "auth_refresh_token_days example_settings = 7" by (simp add: example_settings_def default_settings_simps)
  moreover have "cookie_live enumerated_jwt 7 example_accounts (Some example_token)"
    using example_token_nonempty by (simp add: cookie_live_def example_token_parses hash_secret_def enumerated_jwt_def)
  ultimately show ?thesis
    using refresh_follows_the_cookie [OF example_sessions_ok example_fresh [of 7], of enumerated_jwt "Some example_token" example_settings example_request]
    by (auto simp: seconds_def)
qed

theorem login_opens_a_session_witness:
  "\<exists>r hs w'. post_login mem_redis enumerated_jwt example_settings ''x'' (example_env 7 100) example_request ''admin@example.org'' ''old''
     \<lparr>wd_db = example_accounts, wd_redis = mem_empty\<rparr> = ((Inr r, hs), w') \<and> cookie_live enumerated_jwt 9 (wd_db w') (cookie_after None hs)"
proof -
  let ?w = "\<lparr>wd_db = example_accounts, wd_redis = mem_empty\<rparr>"
  have email: "normalize_email ''admin@example.org'' = ''admin@example.org''" by code_simp
  have found: "get_by_email ''admin@example.org'' example_accounts = Some example_user"
    by (simp add: get_by_email_def example_user_def new_user_def)
  have none: "r_get mem_redis 7 k mem_empty = None" for k by (simp add: mem_redis_def mem_get_def mem_empty_def)
  have limits: "auth_login_account_limit example_settings = 5" "auth_login_ip_limit example_settings = 20"
    by (simp_all add: example_settings_def default_settings_simps)
  have open_: "is_limited mem_redis enumerated_jwt example_settings 7 e ip mem_empty = Inr False" for e ip
    by (simp add: is_limited_def none counter_value_def limits)
  have pw: "verify_password enumerated_jwt ''old'' ''old''" by (simp add: verify_password_def enumerated_jwt_def)
  obtain r hs w' where run: "post_login mem_redis enumerated_jwt example_settings ''x'' (example_env 7 100) example_request ''admin@example.org'' ''old'' ?w =
      ((Inr r, hs), w')"
    by (simp add: post_login_def login_def Let_def email found open_ pw signed_in_def split_beta)
  have "auth_refresh_token_days example_settings = 7" by (simp add: example_settings_def default_settings_simps)
  with login_opens_a_session [OF run, of None] example_sessions_ok example_fresh [of 7] run show ?thesis by (auto simp: seconds_def)
qed

end
