(* ===== verification/Listings.thy ===== *)
theory Listings
  imports Incidents Api Ingest "HOL-Library.Multiset"
begin

text \<open>
  The read side of the API: the endpoints that list and show events, incidents, investigations
  and techniques (\<^verbatim>\<open>api/v1/endpoints/events.py\<close>, \<^verbatim>\<open>incidents.py\<close>, \<^verbatim>\<open>investigations.py\<close>, \<^verbatim>\<open>mitre.py\<close>,
  \<^verbatim>\<open>dashboard.py\<close>), each behind the permission it names. The locale \<open>paged_listing\<close> is the
  contract of every listing with a limit and an offset; it is interpreted on the queries of the
  repositories. Rows with equal sort keys keep the order of the table here; PostgreSQL leaves
  their order open.
\<close>

section \<open>Investigations\<close>

text \<open>
  \<^verbatim>\<open>InvestigationResponse.model_validate\<close> reads the stored result as an \<^verbatim>\<open>InvestigationResult\<close>;
  \<open>parses\<close> tells whether pydantic takes it. The other columns are of the response's types.
\<close>

definition investigation_response :: "(dict \<Rightarrow> bool) \<Rightarrow> investigation \<Rightarrow> exn + investigation" where
  "investigation_response parses v =
    (case iv_result v of None \<Rightarrow> Inr v | Some r \<Rightarrow> if parses r then Inr v else Inl (ValueError ''validation''))"

definition service_get_investigation :: "(dict \<Rightarrow> bool) \<Rightarrow> uuid \<Rightarrow> db \<Rightarrow> exn + investigation option" where
  "service_get_investigation parses i d =
    (case get_investigation i d of None \<Rightarrow> Inr None | Some v \<Rightarrow> map_sum id Some (investigation_response parses v))"

definition service_list_investigations :: "(dict \<Rightarrow> bool) \<Rightarrow> uuid \<Rightarrow> db \<Rightarrow> exn + investigation list option" where
  "service_list_investigations parses incident_id d =
    (if get_incident incident_id d = None then Inr None
     else map_sum id Some (map_e (investigation_response parses) (investigations_of_incident incident_id d)))"

definition get_investigation_endpoint :: "(dict \<Rightarrow> bool) \<Rightarrow> uuid \<Rightarrow> db \<Rightarrow> exn + investigation" where
  "get_investigation_endpoint parses i d = then_do (service_get_investigation parses i d) (\<lambda>r. case r of
     None \<Rightarrow> Inl (HTTPException 404 ''Investigation not found'') | Some v \<Rightarrow> Inr v)"

definition list_incident_investigations :: "(dict \<Rightarrow> bool) \<Rightarrow> uuid \<Rightarrow> db \<Rightarrow> exn + investigation list" where
  "list_incident_investigations parses incident_id d = then_do (service_list_investigations parses incident_id d) (\<lambda>r. case r of
     None \<Rightarrow> Inl (HTTPException 404 ''Incident not found'') | Some vs \<Rightarrow> Inr vs)"

section \<open>The routes\<close>

text \<open>
  \<^verbatim>\<open>Query(ge=1, le=1000)\<close> and the \<^verbatim>\<open>Literal\<close> types of the parameters: a request outside them is
  answered 422, after the dependencies have run.
\<close>

definition page_valid :: "nat \<Rightarrow> bool" where
  "page_valid limit = (1 \<le> limit \<and> limit \<le> 1000)"

definition one_of :: "string list \<Rightarrow> string option \<Rightarrow> bool" where
  "one_of values v = (case v of None \<Rightarrow> True | Some s \<Rightarrow> s \<in> set values)"

definition unprocessable_query :: exn where
  "unprocessable_query = HTTPException 422 ''Unprocessable Entity''"

definition list_events_endpoint :: "event_query_filters \<Rightarrow> db \<Rightarrow> exn + event_list_response" where
  "list_events_endpoint f d =
    (if page_valid (qf_limit f) \<and> one_of event_types (qf_event_type f) \<and> one_of event_categories (qf_category f) \<and>
        one_of event_severities (qf_severity f)
     then Inr (list_events_response f d) else Inl unprocessable_query)"

definition incident_statuses :: "string list" where
  "incident_statuses = [''open'', ''investigating'', ''contained'', ''resolved'']"

definition incident_severities :: "string list" where
  "incident_severities = [''low'', ''medium'', ''high'', ''critical'']"

definition list_incidents_endpoint :: "incident_query_filters \<Rightarrow> db \<Rightarrow> exn + incident_list_response" where
  "list_incidents_endpoint f d =
    (if page_valid (if_limit f) \<and> one_of incident_statuses (if_status f) \<and> one_of incident_severities (if_severity f)
     then Inr (list_incidents_response f d) else Inl unprocessable_query)"

definition list_techniques_endpoint :: "string option \<Rightarrow> string option \<Rightarrow> nat \<Rightarrow> nat \<Rightarrow> db \<Rightarrow> exn + mitre_technique page" where
  "list_techniques_endpoint tactic search limit offset d =
    (if page_valid limit then (case list_techniques tactic search limit offset d of (rows, n) \<Rightarrow>
       Inr \<lparr>pg_total = n, pg_limit = limit, pg_offset = offset, pg_items = rows\<rparr>)
     else Inl unprocessable_query)"

datatype read_request =
    ReadEvents event_query_filters | ReadEvent string | ReadIncidents incident_query_filters | ReadIncident uuid
  | ReadInvestigations uuid | ReadInvestigation uuid
  | ReadTechniques "string option" "string option" nat nat | ReadTechnique string | ReadRule string | ReadDashboard

datatype read_response =
    EventsBody event_list_response | EventBody event | IncidentsBody incident_list_response | IncidentBody incident_detail
  | InvestigationsBody "investigation list" | InvestigationBody investigation
  | TechniquesBody "mitre_technique page" | TechniqueBody mitre_technique | RuleBody "string \<times> mitre_technique list"
  | DashboardBody dashboard_summary

text \<open>What the responses ask of pydantic and of the rules: times of a timeline, results, the texts of the rules.\<close>

record read_parsers =
  rp_time :: "json \<Rightarrow> bool"
  rp_result :: "dict \<Rightarrow> bool"
  rp_show :: "json \<Rightarrow> string"

definition read_body :: "read_parsers \<Rightarrow> datetime \<Rightarrow> read_request \<Rightarrow> db \<Rightarrow> exn + read_response" where
  "read_body rp now rq d =
    (case rq of
       ReadEvents f \<Rightarrow> map_sum id EventsBody (list_events_endpoint f d)
     | ReadEvent i \<Rightarrow> map_sum id EventBody (get_event i d)
     | ReadIncidents f \<Rightarrow> map_sum id IncidentsBody (list_incidents_endpoint f d)
     | ReadIncident i \<Rightarrow> map_sum id IncidentBody (get_incident_endpoint (rp_time rp) i d)
     | ReadInvestigations i \<Rightarrow> map_sum id InvestigationsBody (list_incident_investigations (rp_result rp) i d)
     | ReadInvestigation i \<Rightarrow> map_sum id InvestigationBody (get_investigation_endpoint (rp_result rp) i d)
     | ReadTechniques tactic search limit offset \<Rightarrow> map_sum id TechniquesBody (list_techniques_endpoint tactic search limit offset d)
     | ReadTechnique i \<Rightarrow> map_sum id TechniqueBody (get_technique_endpoint i d)
     | ReadRule i \<Rightarrow> map_sum id RuleBody (get_rule_techniques_endpoint (rp_show rp) i d)
     | ReadDashboard \<Rightarrow> Inr (DashboardBody (summary now d)))"

definition read_endpoint :: "read_parsers \<Rightarrow> crypto \<Rightarrow> settings \<Rightarrow> env \<Rightarrow> datetime \<Rightarrow> request \<Rightarrow> string option \<Rightarrow> read_request \<Rightarrow> db \<Rightarrow>
    (exn + read_response) \<times> db" where
  "read_endpoint rp cr st dn now req token rq d =
    guarded SOC_READ cr st dn req token (\<lambda>actor d. (read_body rp now rq d, d)) d"

section \<open>Pages\<close>

text \<open>A listing hands out \<open>limit\<close> rows from \<open>offset\<close> on, of rows in a fixed order, and tells their number.\<close>

locale paged_listing =
  fixes fetch :: "nat \<Rightarrow> nat \<Rightarrow> 'd \<Rightarrow> 'a list \<times> nat" and rows :: "'d \<Rightarrow> 'a list"
  assumes fetch: "fetch limit offset d = (take limit (drop offset (rows d)), length (rows d))"
begin

lemma pages_prefix: "concat (map (\<lambda>i. fst (fetch limit (i * limit) d)) [0..<n]) = take (n * limit) (rows d)"
proof (induction n)
  case (Suc n)
  have "take (n * limit) (rows d) @ take limit (drop (n * limit) (rows d)) = take (Suc n * limit) (rows d)"
    by (simp add: take_add [symmetric] add.commute)
  then show ?case using Suc by (simp add: fetch)
qed simp

lemma pages_cover: "snd (fetch limit 0 d) \<le> n * limit \<Longrightarrow> concat (map (\<lambda>i. fst (fetch limit (i * limit) d)) [0..<n]) = rows d"
  by (simp add: pages_prefix) (simp add: fetch)

lemma total_any_page: "snd (fetch limit offset d) = length (rows d)"
  by (simp add: fetch)

end

definition matching_events :: "event_query_filters \<Rightarrow> db \<Rightarrow> event list" where
  "matching_events f d = sort_key (\<lambda>e. - ev_timestamp e) (filter (event_matches f) (db_events d))"

definition matching_incidents :: "incident_query_filters \<Rightarrow> db \<Rightarrow> incident list" where
  "matching_incidents f d = sort_key (\<lambda>i. - in_last_seen i) (filter (incident_matches f) (db_incidents d))"

definition matching_audit_logs :: "audit_filters \<Rightarrow> db \<Rightarrow> audit_log list" where
  "matching_audit_logs f d = sort_key (\<lambda>a. - au_created_at a) (filter (audit_matches f) (db_audit_logs d))"

lemma page_filters [simp]:
  "event_matches (f\<lparr>qf_limit := l, qf_offset := k\<rparr>) = event_matches f"
  "incident_matches (g\<lparr>if_limit := l, if_offset := k\<rparr>) = incident_matches g"
  "audit_matches (h\<lparr>af_limit := l, af_offset := k\<rparr>) = audit_matches h"
  by (rule ext, simp add: event_matches_def incident_matches_def audit_matches_def)+

interpretation event_pages: paged_listing "\<lambda>l k. list_events (f\<lparr>qf_limit := l, qf_offset := k\<rparr>)" "matching_events f" for f
  by unfold_locales (simp add: list_events_def matching_events_def Let_def)

interpretation incident_pages: paged_listing "\<lambda>l k. list_incidents (f\<lparr>if_limit := l, if_offset := k\<rparr>)" "matching_incidents f" for f
  by unfold_locales (simp add: list_incidents_def matching_incidents_def Let_def)

interpretation audit_pages: paged_listing "\<lambda>l k. audit_list (f\<lparr>af_limit := l, af_offset := k\<rparr>)" "matching_audit_logs f" for f
  by unfold_locales (simp add: audit_list_def matching_audit_logs_def Let_def)

interpretation user_pages: paged_listing users_list "\<lambda>d. sort_key (\<lambda>u. - us_created_at u) (db_users d)"
  by unfold_locales (simp add: users_list_def)

interpretation key_pages: paged_listing api_keys_list "\<lambda>d. sort_key (\<lambda>k. - ak_created_at k) (db_api_keys d)"
  by unfold_locales (simp add: api_keys_list_def)

interpretation technique_pages: paged_listing "list_techniques wanted text_sought"
    "\<lambda>d. sort_key mt_external_id (filter (technique_matches wanted text_sought) (db_techniques d))" for wanted text_sought
  by unfold_locales (simp add: list_techniques_def Let_def)

lemma sort_key_facts:
  "mset (sort_key k xs) = mset xs" "sorted_wrt (\<lambda>a b. k a \<le> k b) (sort_key k xs)"
  by (simp, metis sorted_map sorted_sort_key)

text \<open>
  An \<^verbatim>\<open>ORDER BY\<close> whose keys are all different has one answer, so the stable sort of the model is
  what the database returns; with equal keys it may return another order, and another one for
  each page.
\<close>

lemma order_by_unique:
  fixes k :: "'a \<Rightarrow> int"
  assumes "distinct (map k xs)" "mset ys = mset xs" "sorted_wrt (\<lambda>a b. k a \<le> k b) ys"
  shows "ys = sort_key k xs"
proof (rule properties_for_sort_key [symmetric])
  have inj: "inj_on k (set xs)" and d: "distinct xs" "distinct ys"
    using assms(1) mset_eq_imp_distinct_iff [OF assms(2)] by (simp_all add: distinct_map)
  have set: "set ys = set xs" using assms(2) by (metis set_mset_mset)
  show "mset ys = mset xs" "sorted (map k ys)" using assms(2,3) by (simp_all add: sorted_map)
  fix x assume x: "x \<in> set ys"
  have same: "filter (\<lambda>y. k x = k y) zs = filter (\<lambda>y. y = x) zs" if "set zs = set xs" for zs
    using inj x set that by (intro filter_cong refl) (auto dest: inj_onD)
  have one: "filter (\<lambda>y. y = x) zs = [x]" if "distinct zs" "x \<in> set zs" for zs
    using that by (induction zs) (auto simp: filter_empty_conv)
  show "filter (\<lambda>y. k x = k y) ys = filter (\<lambda>y. k x = k y) xs"
    using one d x set by (simp add: same)
qed

lemma descending_sort:
  fixes k :: "'a \<Rightarrow> int"
  assumes "distinct (map k xs)"
  shows "sorted_wrt (\<lambda>a b. k b < k a) (sort_key (\<lambda>x. - k x) xs)"
proof -
  have "distinct (map (\<lambda>x. - k x) (sort_key (\<lambda>x. - k x) xs))"
    using assms by (auto simp: distinct_map inj_on_def)
  then have "sorted_wrt (<) (map (\<lambda>x. - k x) (sort_key (\<lambda>x. - k x) xs))" by (simp add: strict_sorted_iff)
  then show ?thesis by (simp add: sorted_wrt_map)
qed

lemmas listing_simps = list_events_response_def list_incidents_response_def list_audit_logs_def split_beta

text \<open>
  C28: paging through a listing shows every row once, if the rows that match have different
  times. Asking for pages of any size until the reported total is reached gives then, for events,
  incidents and audit rows alike, exactly the rows that match the filters, each as often as it is
  stored, in the order of their times with the newest first. Nothing is claimed of rows with equal
  times: the queries order by the time alone, so the database may order such rows differently from
  page to page, and a page may repeat or miss one.
\<close>

theorem listings_page_through:
  "(el_total (list_events_response (f\<lparr>qf_limit := l, qf_offset := 0\<rparr>) d) \<le> n * l \<and>
      distinct (map ev_timestamp (filter (event_matches f) (db_events d))) \<longrightarrow>
     (let es = concat (map (\<lambda>i. el_items (list_events_response (f\<lparr>qf_limit := l, qf_offset := i * l\<rparr>) d)) [0..<n])
      in mset es = mset (filter (event_matches f) (db_events d)) \<and> sorted_wrt (\<lambda>a b. ev_timestamp b < ev_timestamp a) es)) \<and>
   (il_total (list_incidents_response (g\<lparr>if_limit := l, if_offset := 0\<rparr>) d) \<le> n * l \<and>
      distinct (map in_last_seen (filter (incident_matches g) (db_incidents d))) \<longrightarrow>
     (let is = concat (map (\<lambda>i. il_items (list_incidents_response (g\<lparr>if_limit := l, if_offset := i * l\<rparr>) d)) [0..<n])
      in mset is = mset (filter (incident_matches g) (db_incidents d)) \<and> sorted_wrt (\<lambda>a b. in_last_seen b < in_last_seen a) is)) \<and>
   (snd (audit_list (h\<lparr>af_limit := l, af_offset := 0\<rparr>) d) \<le> n * l \<and>
      distinct (map au_created_at (filter (audit_matches h) (db_audit_logs d))) \<longrightarrow>
     (let rs = concat (map (\<lambda>i. fst (audit_list (h\<lparr>af_limit := l, af_offset := i * l\<rparr>) d)) [0..<n])
      in mset rs = mset (filter (audit_matches h) (db_audit_logs d)) \<and> sorted_wrt (\<lambda>a b. au_created_at b < au_created_at a) rs))"
proof (intro conjI impI)
  assume a: "el_total (list_events_response (f\<lparr>qf_limit := l, qf_offset := 0\<rparr>) d) \<le> n * l \<and>
    distinct (map ev_timestamp (filter (event_matches f) (db_events d)))"
  then have "snd (list_events (f\<lparr>qf_limit := l, qf_offset := 0\<rparr>) d) \<le> n * l" by (simp add: listing_simps)
  from event_pages.pages_cover [OF this]
  show "let es = concat (map (\<lambda>i. el_items (list_events_response (f\<lparr>qf_limit := l, qf_offset := i * l\<rparr>) d)) [0..<n])
      in mset es = mset (filter (event_matches f) (db_events d)) \<and> sorted_wrt (\<lambda>a b. ev_timestamp b < ev_timestamp a) es"
    using descending_sort [OF conjunct2 [OF a]] by (simp add: listing_simps matching_events_def)
next
  assume a: "il_total (list_incidents_response (g\<lparr>if_limit := l, if_offset := 0\<rparr>) d) \<le> n * l \<and>
    distinct (map in_last_seen (filter (incident_matches g) (db_incidents d)))"
  then have "snd (list_incidents (g\<lparr>if_limit := l, if_offset := 0\<rparr>) d) \<le> n * l" by (simp add: listing_simps)
  from incident_pages.pages_cover [OF this]
  show "let is = concat (map (\<lambda>i. il_items (list_incidents_response (g\<lparr>if_limit := l, if_offset := i * l\<rparr>) d)) [0..<n])
      in mset is = mset (filter (incident_matches g) (db_incidents d)) \<and> sorted_wrt (\<lambda>a b. in_last_seen b < in_last_seen a) is"
    using descending_sort [OF conjunct2 [OF a]] by (simp add: listing_simps matching_incidents_def)
next
  assume a: "snd (audit_list (h\<lparr>af_limit := l, af_offset := 0\<rparr>) d) \<le> n * l \<and>
    distinct (map au_created_at (filter (audit_matches h) (db_audit_logs d)))"
  from audit_pages.pages_cover [OF conjunct1 [OF a]]
  show "let rs = concat (map (\<lambda>i. fst (audit_list (h\<lparr>af_limit := l, af_offset := i * l\<rparr>) d)) [0..<n])
      in mset rs = mset (filter (audit_matches h) (db_audit_logs d)) \<and> sorted_wrt (\<lambda>a b. au_created_at b < au_created_at a) rs"
    using descending_sort [OF conjunct2 [OF a]] by (simp add: matching_audit_logs_def)
qed

definition example_listing_db :: db where
  "example_listing_db = empty_db\<lparr>db_events := [example_event 1 ''login_failure'' None None 10, example_event 2 ''login_failure'' None None 20,
     example_event 3 ''login_failure'' None None 15]\<rparr>"

definition no_filters :: event_query_filters where
  "no_filters = \<lparr>qf_start_time = None, qf_end_time = None, qf_event_type = None, qf_category = None, qf_source_ip = None,
     qf_username = None, qf_severity = None, qf_limit = 100, qf_offset = 0\<rparr>"

text \<open>Two pages of at most two, of three events.\<close>

theorem listings_page_through_witness:
  "let es = concat (map (\<lambda>i. el_items (list_events_response (no_filters\<lparr>qf_limit := 2, qf_offset := i * 2\<rparr>) example_listing_db)) [0..<2])
   in mset es = mset (db_events example_listing_db) \<and> sorted_wrt (\<lambda>a b. ev_timestamp b < ev_timestamp a) es \<and> length es = 3"
proof -
  have all: "filter (event_matches no_filters) (db_events example_listing_db) = db_events example_listing_db"
    by (simp add: event_matches_def [abs_def] no_filters_def)
  have rows: "distinct (map ev_timestamp (db_events example_listing_db))" "length (db_events example_listing_db) = 3"
    by (simp_all add: example_listing_db_def example_event_def)
  have "el_total (list_events_response (no_filters\<lparr>qf_limit := 2, qf_offset := 0\<rparr>) example_listing_db) \<le> 2 * 2"
    by (simp add: listing_simps event_pages.total_any_page matching_events_def all rows)
  then have "el_total (list_events_response (no_filters\<lparr>qf_limit := 2, qf_offset := 0\<rparr>) example_listing_db) \<le> 2 * 2 \<and>
      distinct (map ev_timestamp (filter (event_matches no_filters) (db_events example_listing_db)))"
    using rows(1) by (simp add: all)
  from mp [OF conjunct1 [OF listings_page_through] this] rows(2) all show ?thesis
    by (auto simp: Let_def simp flip: size_mset)
qed

section \<open>Reading needs a permission and changes nothing\<close>

text \<open>
  C33: whatever is read, an answer is that of the stored data, given to an authenticated and active user
  whose role may read, and leaves the database as it is; a refusal leaves the accounts as they are.
\<close>

theorem reads_need_permission:
  assumes "read_endpoint rp cr st dn now req token rq d = (r, d')"
  shows "(case r of Inl _ \<Rightarrow> same_accounts d d' | Inr x \<Rightarrow> d' = d \<and> read_body rp now rq d = Inr x) \<and>
    ((\<exists>x. r = Inr x) \<longrightarrow> (\<exists>actor f. fst (get_current_user cr st dn req token d) = Inr (actor, f) \<and> us_is_active actor \<and>
       SOC_READ \<in> set (permissions_for_role (us_role_name actor))))"
proof (cases "authorized SOC_READ cr st dn req token d")
  case (Pair x d1)
  show ?thesis
  proof (cases x)
    case (Inl e)
    then show ?thesis
      using assms Pair authorized_accounts [of d SOC_READ cr st dn req token] by (auto simp: read_endpoint_def guarded_def)
  next
    case (Inr actor)
    obtain f where "fst (get_current_user cr st dn req token d) = Inr (actor, f)" "d1 = d"
      "SOC_READ \<in> set (permissions_for_role (us_role_name actor))"
      using authorized_Inr [OF Pair [unfolded Inr]] by blast
    moreover have "r = read_body rp now rq d" "d' = d" using assms Pair Inr \<open>d1 = d\<close> by (auto simp: read_endpoint_def guarded_def)
    ultimately show ?thesis
      using get_current_user_Inr(2) [of cr st dn req token d actor f] same_accounts_refl by (cases r) (auto split: sum.split)
  qed
qed

definition accept_all :: read_parsers where
  "accept_all = \<lparr>rp_time = (\<lambda>_. True), rp_result = (\<lambda>_. True), rp_show = (\<lambda>_. [])\<rparr>"

theorem reads_need_permission_witness:
  "fst (read_endpoint accept_all enumerated_jwt example_settings (example_env 7 50) 8 example_request (Some example_access_token) ReadDashboard example_accounts)
     = Inr (DashboardBody (summary 8 example_accounts)) \<and> SOC_READ \<in> set (permissions_for_role (us_role_name example_user))"
proof -
  have role: "us_role_name example_user = ''admin''" by (simp add: example_user_def new_user_def)
  obtain d' where run: "read_endpoint accept_all enumerated_jwt example_settings (example_env 7 50) 8 example_request (Some example_access_token)
      ReadDashboard example_accounts = (Inr (DashboardBody (summary 8 example_accounts)), d')"
    by (simp add: read_endpoint_def guarded_def authorized_def example_signed_in require_permission_def permissions_for_role_def
        role_permissions_def role set_all_permissions read_body_def)
  from reads_need_permission [OF run] run show ?thesis by (auto simp: example_signed_in)
qed

end
