(* ===== verification/Operations.thy ===== *)
theory Operations
  imports Simulator Listings
begin

text \<open>
  What is run beside the API: the health check (\<^verbatim>\<open>services/health.py\<close>), the command that creates the
  first administrator (\<^verbatim>\<open>scripts/create_admin.py\<close>), the evaluation of the active anomaly model on
  synthetic telemetry (\<^verbatim>\<open>scripts/evaluate_isolation_forest.py\<close>, \<^verbatim>\<open>ml/synthetic.py\<close>), the training
  set (\<^verbatim>\<open>scripts/generate_ml_dataset.py\<close>) and the demonstration data
  (\<^verbatim>\<open>scripts/seed_demo_incident.py\<close>).
\<close>

section \<open>Health\<close>

record health_response =
  hr_status :: string
  hr_database :: string
  hr_redis :: string

text \<open>A ping that raises counts as one that fails.\<close>

definition safe_check :: "exn + bool \<Rightarrow> bool" where
  "safe_check r = (case r of Inl _ \<Rightarrow> False | Inr b \<Rightarrow> b)"

definition connection_text :: "bool \<Rightarrow> string" where
  "connection_text ok = (if ok then ''connected'' else ''disconnected'')"

definition check_health :: "exn + bool \<Rightarrow> exn + bool \<Rightarrow> health_response" where
  "check_health ping_database ping_redis =
    \<lparr>hr_status = (if safe_check ping_database \<and> safe_check ping_redis then ''healthy'' else ''degraded''),
     hr_database = connection_text (safe_check ping_database), hr_redis = connection_text (safe_check ping_redis)\<rparr>"

text \<open>The status code with the body, which is the same either way.\<close>

definition health_check :: "exn + bool \<Rightarrow> exn + bool \<Rightarrow> int \<times> health_response" where
  "health_check ping_database ping_redis =
    (let h = check_health ping_database ping_redis in (if hr_status h \<noteq> ''healthy'' then 503 else 200, h))"

lemma health_check_ok: "fst (health_check db redis) = 200 \<longleftrightarrow> db = Inr True \<and> redis = Inr True"
  by (cases db; cases redis) (simp_all add: health_check_def check_health_def safe_check_def)

section \<open>The first administrator\<close>

text \<open>The command, with what the two prompts return.\<close>

definition create_admin_main :: "crypto \<Rightarrow> env \<Rightarrow> string \<Rightarrow> string \<Rightarrow> string \<Rightarrow> string \<Rightarrow> db \<Rightarrow> (exn + bool) \<times> db" where
  "create_admin_main cr en email full_name password confirmation d =
    (if password \<noteq> confirmation then (Inl (RuntimeError ''Passwords do not match''), d)
     else if length password < 12 \<or> 128 < length password
     then (Inl (RuntimeError ''Password must contain between 12 and 128 characters''), d)
     else create_first_admin cr en email full_name password d)"

section \<open>Synthetic telemetry\<close>

text \<open>\<open>rng k lo hi\<close> is the \<open>k\<close>-th draw of the generator, \<^verbatim>\<open>integers(lo, hi)\<close>; a row of each set takes thirteen.\<close>

definition normal_row :: "(nat \<Rightarrow> int \<Rightarrow> int \<Rightarrow> int) \<Rightarrow> nat \<Rightarrow> (string \<times> rat) list" where
  "normal_row rng k = synthetic_row (rng k 1 5) (rng (k + 1) 1 4) 1 (rng (k + 2) 0 2) (rng (k + 3) 0 2) (rng (k + 4) 500 25000) 0 0"

definition abnormal_row :: "(nat \<Rightarrow> int \<Rightarrow> int \<Rightarrow> int) \<Rightarrow> nat \<Rightarrow> (string \<times> rat) list" where
  "abnormal_row rng k = synthetic_row (rng k 45 90) (rng (k + 1) 35 80) (rng (k + 2) 10 30) (rng (k + 3) 15 40) (rng (k + 4) 20 60)
     (rng (k + 5) 5000000 30000000) (rng (k + 6) 2 8) (rng (k + 7) 5 20)"

definition synthetic_feature_sets :: "(nat \<Rightarrow> int \<Rightarrow> int \<Rightarrow> int) \<Rightarrow> nat \<Rightarrow> frame \<times> frame" where
  "synthetic_feature_sets rng rows =
    (\<lparr>fr_columns = feature_columns, fr_rows = map (\<lambda>i. map snd (normal_row rng (13 * i))) [0..<rows]\<rparr>,
     \<lparr>fr_columns = feature_columns, fr_rows = map (\<lambda>i. map snd (abnormal_row rng (13 * i + 5))) [0..<rows]\<rparr>)"

text \<open>The command commits the metrics before it looks at them.\<close>

definition run_evaluation :: "('m \<Rightarrow> rat list \<Rightarrow> exn + rat) \<Rightarrow> settings \<Rightarrow> (string \<Rightarrow> 'm stored option) \<Rightarrow> (nat \<Rightarrow> int \<Rightarrow> int \<Rightarrow> int) \<Rightarrow> nat \<Rightarrow> db \<Rightarrow>
    (exn + dict) \<times> db" where
  "run_evaluation predict st files rng rows d =
    (case get_active (ml_model_name st) d of
       None \<Rightarrow> (Inl (RuntimeError (''No active model named '' @ ml_model_name st)), d)
     | Some m \<Rightarrow>
       (case synthetic_feature_sets rng rows of (normal, abnormal) \<Rightarrow>
         (case evaluate_frames predict files (mr_artifact_path m) normal abnormal (ml_anomaly_alert_threshold st) of
            Inl x \<Rightarrow> (Inl x, d)
          | Inr metrics \<Rightarrow>
              (if em_passed metrics then Inr (metrics_dict metrics)
               else Inl (RuntimeError ''ML evaluation did not meet the Sprint 5 acceptance criteria''),
               persist_evaluation m metrics d))))"

definition run_dataset :: "settings \<Rightarrow> datetime \<Rightarrow> db \<Rightarrow> exn + frame \<times> nat" where
  "run_dataset st now d =
    then_do (generate_dataset d now (ml_training_lookback_days st) (ml_aggregation_window_seconds st)) (\<lambda>f.
      Inr (f, length (fr_rows f)))"

section \<open>The demonstration\<close>

definition demo_event :: "datetime \<Rightarrow> string \<Rightarrow> string \<Rightarrow> string \<Rightarrow> string \<Rightarrow> string \<Rightarrow> string \<Rightarrow> uuid \<Rightarrow> string \<Rightarrow> dict \<Rightarrow> event_create" where
  "demo_event t name source source_type event_type category severity u status metadata =
    (synthetic_event t source source_type event_type category severity ''victim-admin'' ''198.51.100.60'' status)
      \<lparr>ec_event_id := Some (''demo_evt_'' @ name @ ''_'' @ take 6 (uuid_hex u)), ec_metadata := metadata\<rparr>"

definition demo_failure :: "datetime \<Rightarrow> (nat \<Rightarrow> uuid) \<Rightarrow> nat \<Rightarrow> event_create" where
  "demo_failure now u i = demo_event (now - seconds (60 - int i * 2)) (''fail_'' @ str_of_nat i) ''auth-service'' ''application''
     ''login_failure'' ''authentication'' ''medium'' (u i) ''failed'' [(''attempt'', JInt (int i))]"

definition demo_events :: "datetime \<Rightarrow> (nat \<Rightarrow> uuid) \<Rightarrow> event_create list" where
  "demo_events now u =
    map (demo_failure now u) [0..<12] @
    [demo_event (now - seconds 35) ''success'' ''auth-service'' ''application'' ''login_success'' ''authentication'' ''low'' (u 12) ''success''
       [(''mfa_bypassed'', JBool True)],
     (demo_event (now - seconds 20) ''priv_escalation'' ''iam-cloud'' ''cloud'' ''privilege_change'' ''privilege_change'' ''high'' (u 13) ''success''
       [(''granted_role'', JStr ''GlobalAdmin'')])\<lparr>ec_action := Some ''role_escalation''\<rparr>,
     (demo_event (now - seconds 5) ''exfiltration'' ''dlp-storage'' ''application'' ''file_download'' ''file_access'' ''high'' (u 14) ''success''
       [(''classification'', JStr ''CONFIDENTIAL'')])
       \<lparr>ec_resource := Some ''/sensitive/customer_database_export.dmp'', ec_bytes_received := Some 5000000\<rparr>]"

definition seed_demo_data :: "ingest_config \<Rightarrow> 'r redis_api \<Rightarrow> datetime \<Rightarrow> (nat \<Rightarrow> uuid) \<Rightarrow> event_draws list \<Rightarrow> after_draws \<Rightarrow> 'r world \<Rightarrow>
    (exn + bulk_response) \<times> 'r world \<times> (string \<times> realtime_envelope) list" where
  "seed_demo_data G R now u ws a v = create_events_bulk G R (zip (demo_events now u) ws) a v"

section \<open>The metrics are recorded\<close>

text \<open>
  the evaluation command records what it measured, good or bad. Either nothing was measured
  and nothing is stored, and the command fails, or the metrics of the active model on the
  synthetic sets are in its row, and the command succeeds exactly when they pass.
\<close>

theorem evaluation_is_recorded:
  assumes "run_evaluation predict st files rng rows d = (r, d')"
  shows "(\<exists>x. r = Inl x \<and> d' = d) \<or>
    (\<exists>m metrics. get_active (ml_model_name st) d = Some m \<and>
       evaluate_frames predict files (mr_artifact_path m) (fst (synthetic_feature_sets rng rows)) (snd (synthetic_feature_sets rng rows))
         (ml_anomaly_alert_threshold st) = Inr metrics \<and>
       d' = persist_evaluation m metrics d \<and> (r = Inr (metrics_dict metrics) \<longleftrightarrow> em_passed metrics))"
  using assms by (auto simp: run_evaluation_def split: option.splits prod.splits sum.splits if_splits)

section \<open>The demonstration is detected\<close>

lemma ingest_events_alerts:
  assumes "ingest_events G ps c = Inr (items, c')" "pipeline_ok (cs_db c)" "\<forall>(p, w) \<in> set ps. event_create_valid p"
  shows "set (db_alerts (cs_db c)) \<subseteq> set (db_alerts (cs_db c'))"
  using assms
proof (induction G ps c arbitrary: items rule: ingest_events.induct)
  case (2 G p w rest c)
  then obtain item c1 items1 where s: "ingest_event G w p c = Inr (item, c1)" "ingest_events G rest c1 = Inr (items1, c')"
    by auto
  have p: "event_create_valid p" using "2.prems"(3) by simp
  note I = ingest_event_Inr [OF s(1) "2.prems"(2) p]
  have "set (db_alerts (cs_db c1)) \<subseteq> set (db_alerts (cs_db c'))"
    using "2.IH" [OF s(1) refl s(2) I(1)] "2.prems"(3) by simp
  with I(3) show ?case by blast
qed simp

lemmas demo_defs = demo_event_def demo_failure_def synthetic_event_def

lemma length_demo: "length (demo_events now u) = 15"
  by (simp add: demo_events_def)

lemma demo_event_ok:
  assumes "event_type \<in> set event_types" "category \<in> set event_categories" "severity \<in> set event_severities"
    "1 \<le> length source" "length source \<le> 255" "1 \<le> length source_type" "length source_type \<le> 64"
    "length name \<le> 112" "length status \<le> 64"
  shows "synthetic_ok (demo_event t name source source_type event_type category severity u status metadata)"
  using assms by (simp add: demo_event_def synthetic_event_def synthetic_ok_def event_create_valid_def max_len_def int_range_def non_negative_def fits_None)

lemma demo_ok: "p \<in> set (demo_events now u) \<Longrightarrow> synthetic_ok p"
proof -
  have bytes: "fits_integer (Some 5000000)" by (rule fits_integer_small) simp_all
  have n: "length (str_of_nat i) \<le> 107" if "i < 12" for i using short_number [of i 107] that by simp
  have plain: "synthetic_ok q \<Longrightarrow> synthetic_ok (q\<lparr>ec_action := Some ''role_escalation''\<rparr>)"
    "synthetic_ok q \<Longrightarrow> synthetic_ok (q\<lparr>ec_resource := Some ''/sensitive/customer_database_export.dmp'', ec_bytes_received := Some 5000000\<rparr>)" for q
    using bytes by (simp_all add: synthetic_ok_def event_create_valid_def max_len_def non_negative_def int_range_def)
  have members: "''login_failure'' \<in> set event_types" "''login_success'' \<in> set event_types" "''privilege_change'' \<in> set event_types"
    "''file_download'' \<in> set event_types" "''authentication'' \<in> set event_categories" "''privilege_change'' \<in> set event_categories"
    "''file_access'' \<in> set event_categories" "''low'' \<in> set event_severities" "''medium'' \<in> set event_severities" "''high'' \<in> set event_severities"
    by (simp_all add: event_types_def event_categories_def event_severities_def)
  show "p \<in> set (demo_events now u) \<Longrightarrow> synthetic_ok p"
    by (auto simp: demo_events_def demo_failure_def members n intro!: plain demo_event_ok)
qed

lemma demo_failures:
  assumes "i < 12"
  shows "ev_event_type (normalized_event G w (demo_events now u ! i)) = ''login_failure''"
    "ev_source_ip (normalized_event G w (demo_events now u ! i)) = Some ''198.51.100.60''"
    "ev_timestamp (normalized_event G w (demo_events now u ! i)) = now - seconds (60 - int i * 2)"
  using assms by (simp_all add: demo_events_def nth_append demo_defs normalized_event_def event_row_def)

text \<open>
  the demonstration shows what it promises. Seeding it, on a database without dangling
  references and with a brute-force threshold from 1 to 12 and a window of at least 22 seconds,
  leaves the brute-force alert on the twelfth of its failed logins.
\<close>

theorem demo_raises_alert:
  assumes "seed_demo_data G R now u ws a v = (Inr r, v', ms)" and "pipeline_ok (wd_db v)" and "length ws = 15"
    and "0 < brute_force_threshold (ig_settings G)" and "brute_force_threshold (ig_settings G) \<le> 12"
    and "22 \<le> brute_force_window_seconds (ig_settings G)"
  shows "\<exists>alert \<in> set (db_alerts (wd_db v')). al_rule_id alert = ''rule_001_brute_force'' \<and> al_event_id alert = ed_row (ws ! 11)"
proof -
  let ?b = "demo_events now u" and ?c = "fresh_correlator (wd_db v)"
  have len: "length ?b = 15" "11 < length (zip ?b ws)" using assms(3) by (simp_all add: length_demo)
  have valid: "event_create_valid p" if "p \<in> set ?b" for p using demo_ok [OF that] by (simp add: synthetic_ok_def)
  obtain items c' where run: "ingest_events G (zip ?b ws) ?c = Inr (items, c')"
    and v': "v' = dispatch_incidents R (ig_crypto G) (ig_settings G) (ad_dispatch a) (ad_queue_errors a) 0
      (all_incidents (cs_db c') items) (v\<lparr>wd_db := cs_db c'\<rparr>)"
    using assms(1) by (auto simp: seed_demo_data_def create_events_bulk_def dest: ingest_batch_Inr split: sum.splits)
  define early where "early = zip (take 11 ?b) (take 11 ws)"
  have zip: "zip ?b ws = early @ [(?b ! 11, ws ! 11)] @ zip (drop 12 ?b) (drop 12 ws)"
    using id_take_nth_drop [OF len(2)] len assms(3) by (simp add: take_zip drop_zip early_def)
  obtain items1 c1 items2 where first: "ingest_events G early ?c = Inr (items1, c1)"
    and later: "ingest_events G ([(?b ! 11, ws ! 11)] @ zip (drop 12 ?b) (drop 12 ws)) c1 = Inr (items2, c')"
    using ingest_events_append [OF run [unfolded zip]] by blast
  obtain item c2 items3 where last: "ingest_event G (ws ! 11) (?b ! 11) c1 = Inr (item, c2)"
    and rest: "ingest_events G (zip (drop 12 ?b) (drop 12 ws)) c2 = Inr (items3, c')"
    using later by auto
  have vfirst: "\<forall>(p, w) \<in> set early. event_create_valid p" and vrest: "\<forall>(p, w) \<in> set (zip (drop 12 ?b) (drop 12 ws)). event_create_valid p"
    using valid by (auto simp: early_def dest!: set_zip_leftD in_set_takeD in_set_dropD)
  have okv: "pipeline_ok (cs_db ?c)" using assms(2) by (simp add: fresh_correlator_def)
  note F = ingest_events_Inr [OF first okv vfirst]
  have v11: "event_create_valid (?b ! 11)" using valid len by simp
  define e where "e = normalized_event G (ws ! 11) (?b ! 11)"
  define rows where "rows = map (\<lambda>(p, w). normalized_event G w p) early @ [e]"
  have rows: "db_events (cs_db c1) @ [e] = db_events (wd_db v) @ rows" using F(2) by (simp add: rows_def fresh_correlator_def)
  have e: "ev_event_type e = ''login_failure''" "ev_source_ip e = Some ''198.51.100.60''" "ev_timestamp e = now - seconds 38"
    using demo_failures [of 11] by (simp_all add: e_def)
  let ?P = "ip_failure ''198.51.100.60'' (ev_timestamp e - seconds (brute_force_window_seconds (ig_settings G))) (ev_timestamp e)"
  have nth: "rows ! i = normalized_event G (ws ! i) (?b ! i)" "length rows = 12" if "i < 12" for i
    using that len assms(3) by (cases "i = 11"; simp add: rows_def early_def e_def nth_append)+
  have "?P (rows ! i)" if "i < 12" for i
    using demo_failures [OF that] that assms(6) by (simp add: nth ip_failure_def e(3) seconds_def)
  moreover have twelve: "length rows = 12" using nth(2) [of 0] by simp
  ultimately have "list_all ?P rows" by (simp add: list_all_length)
  from failures_counted [OF this] have "12 \<le> length (filter ?P (db_events (cs_db c1) @ [e]))"
    unfolding rows using twelve by simp
  with assms(5) have many: "brute_force_threshold (ig_settings G) \<le> int (length (filter ?P (db_events (cs_db c1) @ [e])))" by linarith
  have "\<exists>alert \<in> set (db_alerts (cs_db c2)). al_rule_id alert = ''rule_001_brute_force'' \<and> al_event_id alert = ed_row (ws ! 11)"
    using brute_force_alert [OF last F(1) v11 e_def e(1,2) _ assms(4) many] by simp
  moreover have "set (db_alerts (cs_db c2)) \<subseteq> set (db_alerts (cs_db c'))"
    by (rule ingest_events_alerts [OF rest ingest_event_Inr(1) [OF last F(1) v11] vrest])
  moreover have "same_pipeline (cs_db c') (wd_db v')"
    using dispatch_all_same [of "v\<lparr>wd_db := cs_db c'\<rparr>"] by (simp add: v')
  ultimately show ?thesis by (auto simp: same_pipeline_def)
qed

section \<open>Examples\<close>

definition example_demo_draws :: "event_draws list" where
  "example_demo_draws = map (\<lambda>n. example_draws (Suc n)) [0..<15]"

lemma demo_event_ids: "batch_event_ids G (zip (demo_events now u) ws) = map (\<lambda>p. the (ec_event_id p)) (take (length ws) (demo_events now u))"
proof (rule nth_equalityI)
  have id: "\<exists>s. ec_event_id p = Some s \<and> s \<noteq> []" if "p \<in> set (demo_events now u)" for p
    using that by (auto simp: demo_events_def demo_defs)
  fix i assume "i < length (batch_event_ids G (zip (demo_events now u) ws))"
  then have "i < length ws" "i < length (demo_events now u)" by (simp_all add: batch_event_ids_def)
  moreover from this id obtain s where "ec_event_id (demo_events now u ! i) = Some s" "s \<noteq> []" using nth_mem by blast
  ultimately show "batch_event_ids G (zip (demo_events now u) ws) ! i = map (\<lambda>p. the (ec_event_id p)) (take (length ws) (demo_events now u)) ! i"
    by (simp add: batch_event_ids_def normalized_event_def event_row_def str_or_def)
qed (simp add: batch_event_ids_def)

lemma demo_ids_distinct: "distinct (map (\<lambda>p. the (ec_event_id p)) (demo_events 0 (\<lambda>_. 0)))"
proof -
  have "map str_of_nat [0..<12] = [''0'', ''1'', ''2'', ''3'', ''4'', ''5'', ''6'', ''7'', ''8'', ''9'', ''10'', ''11'']"
    by code_simp
  then show ?thesis by (simp add: demo_events_def demo_defs upt_rec)
qed

lemma of_nat_small_inj: "inj_on (of_nat :: nat \<Rightarrow> uuid) {..<10000}"
proof (rule inj_onI)
  fix a b :: nat
  assume "a \<in> {..<10000}" "b \<in> {..<10000}" "(of_nat a :: uuid) = of_nat b"
  moreover have "unat (of_nat k :: uuid) = k" if "k < 10000" for k
    using that by (simp add: unsigned_of_nat take_bit_nat_eq_self)
  ultimately show "a = b" by (metis lessThan_iff)
qed

lemma distinct_small_ids: "distinct ns \<Longrightarrow> set ns \<subseteq> {..<10000} \<Longrightarrow> distinct (map (of_nat :: nat \<Rightarrow> uuid) ns)"
  using inj_on_subset [OF of_nat_small_inj] by (simp add: distinct_map)

lemma demo_draws_distinct:
  "distinct (map ed_row example_demo_draws)" "distinct (concat (map drawn_alert_ids example_demo_draws))"
proof -
  have "map ed_row example_demo_draws = map of_nat (map Suc [0..<15])"
    by (simp add: example_demo_draws_def example_draws_def comp_def)
  then show "distinct (map ed_row example_demo_draws)"
    using distinct_small_ids [of "map Suc [0..<15]"] by (simp add: upt_rec)
  let ?ns = "concat (map (\<lambda>n. map (\<lambda>k. 100 * Suc n + k) [0..<7]) [0..<15])"
  have "concat (map drawn_alert_ids example_demo_draws) = map of_nat ?ns"
    by (simp add: example_demo_draws_def drawn_alert_ids_def example_draws_def comp_def map_concat)
  moreover have "distinct ?ns" "set ?ns \<subseteq> {..<10000}" by (simp_all add: upt_rec)
  ultimately show "distinct (concat (map drawn_alert_ids example_demo_draws))" using distinct_small_ids by metis
qed

lemma map_zip_right: "length xs = length ys \<Longrightarrow> map (\<lambda>(x, y). f y) (zip xs ys) = map f ys"
  by (induction xs ys rule: list_induct2) simp_all

lemma demo_new_ids:
  "length es = 15 \<Longrightarrow> new_ids (zip es example_demo_draws) (wd_db example_pipeline_world)"
proof -
  assume es: "length es = 15"
  then have len: "length es = length example_demo_draws" by (simp add: example_demo_draws_def)
  show ?thesis
    using demo_draws_distinct example_ingest_facts(6,7) unfolding new_ids_def map_zip_right [OF len] by auto
qed

theorem demo_raises_alert_witness:
  "\<exists>r v' ms. seed_demo_data strict_ingest_config mem_redis 0 (\<lambda>_. 0) example_demo_draws example_after example_pipeline_world = (Inr r, v', ms) \<and>
     (\<exists>alert \<in> set (db_alerts (wd_db v')). al_rule_id alert = ''rule_001_brute_force'' \<and> al_event_id alert = 12)"
proof -
  let ?G = strict_ingest_config and ?b = "demo_events 0 (\<lambda>_. 0)"
  note G = strict_config_facts
  have len: "length example_demo_draws = length ?b" by (simp add: example_demo_draws_def length_demo)
  have ids: "distinct (batch_event_ids ?G (zip ?b example_demo_draws) @ map ev_event_id (db_events (wd_db example_pipeline_world)))"
    using demo_ids_distinct by (simp add: demo_event_ids len example_ingest_facts(7))
  have demo: "\<forall>p \<in> set ?b. synthetic_ok p" using demo_ok by blast
  have times: "\<forall>p \<in> set ?b. times_ok (ig_settings ?G) (instant (ec_timestamp p))"
    by (auto simp: demo_events_def demo_defs seconds_def intro!: strict_times)
  from synthetic_batch [OF G(1) example_ingest_facts(2) demo len demo_new_ids [OF length_demo] ids times]
  obtain r v' ms where run: "seed_demo_data ?G mem_redis 0 (\<lambda>_. 0) example_demo_draws example_after example_pipeline_world = (Inr r, v', ms)"
    unfolding seed_demo_data_def by blast
  from demo_raises_alert [OF run example_ingest_facts(2)] G(2,3) len
  have "\<exists>alert \<in> set (db_alerts (wd_db v')). al_rule_id alert = ''rule_001_brute_force'' \<and> al_event_id alert = ed_row (example_demo_draws ! 11)"
    by (simp add: length_demo)
  with run show ?thesis by (simp add: example_demo_draws_def example_draws_def)
qed

theorem evaluation_is_recorded_witness:
  "\<exists>x. run_evaluation (\<lambda>(m::nat) r. Inr 0) (default_settings [] [] []) (\<lambda>_. None) (\<lambda>k lo hi. lo) 1 empty_db = (Inl x, empty_db)"
proof -
  obtain r d' where run: "run_evaluation (\<lambda>(m::nat) r. Inr 0) (default_settings [] [] []) (\<lambda>_. None) (\<lambda>k lo hi. lo) 1 empty_db = (r, d')" by fastforce
  have "get_active name empty_db = None" for name by (simp add: get_active_def active_rows_def empty_db_def)
  with evaluation_is_recorded [OF run] have "\<exists>x. r = Inl x \<and> d' = empty_db" by auto
  with run show ?thesis by blast
qed

end
