(* ===== verification/GoogleSchema.thy ===== *)
theory GoogleSchema
  imports Provider
begin

text \<open>
  The schema reduction for Gemini (\<^verbatim>\<open>_google_json_schema\<close> and \<^verbatim>\<open>_inline_schema_refs\<close> of
  \<^verbatim>\<open>investigation/provider.py\<close>) returns: neither function bounds its recursion, and whether the
  interpreter's stack suffices depends on the references between the schema's definitions. A
  ranking of the definitions rules cycles out; then some depth is enough, and no greater one
  changes the answer.
\<close>

section \<open>Recursion with a bound\<close>

definition runs_out :: "exn + 'b \<Rightarrow> bool" where
  "runs_out r = (r = Inl RecursionError)"

lemma runs_out_simps [simp]:
  "runs_out (Inl x) = (x = RecursionError)" "\<not> runs_out (Inr y)" "runs_out (map_sum id f r) = runs_out r"
  by (cases r; auto simp: runs_out_def)+

lemma runs_out_then_do: "runs_out (then_do r f) \<longleftrightarrow> runs_out r \<or> (\<exists>y. r = Inr y \<and> runs_out (f y))"
  by (cases r) simp_all

lemma map_e_deeper:
  "\<not> runs_out (map_e f xs) \<Longrightarrow> (\<And>x. \<not> runs_out (f x) \<Longrightarrow> g x = f x) \<Longrightarrow> map_e g xs = map_e f xs"
proof (induction xs)
  case (Cons x xs)
  then show ?case by (cases "f x") (auto simp: runs_out_then_do)
qed simp

text \<open>A function that may go \<open>n\<close> calls deep: what it answers without running out, it answers at the next bound.\<close>

locale bounded_recursion =
  fixes run :: "nat \<Rightarrow> 'a \<Rightarrow> exn + 'b"
  assumes deeper: "\<not> runs_out (run n x) \<Longrightarrow> run (Suc n) x = run n x"
begin

lemma settled: "\<not> runs_out (run n x) \<Longrightarrow> n \<le> m \<Longrightarrow> run m x = run n x"
proof -
  assume x: "\<not> runs_out (run n x)" and "n \<le> m"
  from \<open>n \<le> m\<close> show ?thesis by (induction m rule: dec_induct) (use x in \<open>auto simp: deeper\<close>)
qed

lemma list_deeper: "\<not> runs_out (map_e (run n) xs) \<Longrightarrow> map_e (run (Suc n)) xs = map_e (run n) xs"
  by (rule map_e_deeper [OF _ deeper])

lemma list_settled: "\<not> runs_out (map_e (run n) xs) \<Longrightarrow> n \<le> m \<Longrightarrow> map_e (run m) xs = map_e (run n) xs"
proof -
  assume xs: "\<not> runs_out (map_e (run n) xs)" and "n \<le> m"
  from \<open>n \<le> m\<close> show ?thesis by (induction m rule: dec_induct) (use xs in \<open>auto simp: list_deeper\<close>)
qed

lemma list_returns:
  "\<forall>x \<in> set xs. \<exists>n. \<not> runs_out (run n x) \<Longrightarrow> \<exists>n. \<not> runs_out (map_e (run n) xs)"
proof (induction xs)
  case (Cons x xs)
  then obtain n m where n: "\<not> runs_out (run n x)" and m: "\<not> runs_out (map_e (run m) xs)" by auto
  have "run (max n m) x = run n x" by (rule settled [OF n]) simp
  moreover have "map_e (run (max n m)) xs = map_e (run m) xs" by (rule list_settled [OF m]) simp
  ultimately show ?case using n m by (intro exI [of _ "max n m"]) (auto simp: runs_out_then_do)
qed auto

lemma answer:
  assumes "\<not> runs_out (run n x)"
  shows "\<exists>N r. \<not> runs_out r \<and> (\<forall>m \<ge> N. run m x = r)"
  using settled [OF assms] assms by blast

end

text \<open>The same for the values of a dictionary, and for a choice of the entries to visit.\<close>

definition visit :: "('k \<Rightarrow> 'v \<Rightarrow> exn + 'w) \<Rightarrow> 'k \<times> 'v \<Rightarrow> exn + 'k \<times> 'w" where
  "visit f kv = map_sum id (Pair (fst kv)) (f (fst kv) (snd kv))"

lemma visit_deeper:
  "(\<And>k v. \<not> runs_out (f k v) \<Longrightarrow> g k v = f k v) \<Longrightarrow> \<not> runs_out (visit f kv) \<Longrightarrow> visit g kv = visit f kv"
  by (simp add: visit_def)

lemma map_values_visit: "map_values_e f d = map_e (visit (\<lambda>k. f)) d"
  by (simp add: map_values_e_def visit_def [abs_def] case_prod_unfold)

section \<open>Inlining the references\<close>

definition ref_key :: string where
  "ref_key = CHR 0x24 # ''ref''"

definition defs_key :: string where
  "defs_key = CHR 0x24 # ''defs''"

text \<open>The local reference of a dictionary, if it is one.\<close>

definition local_ref :: "dict \<Rightarrow> string option" where
  "local_ref d = (case dict_get d ref_key of JStr r \<Rightarrow> if startswith r ref_prefix then Some r else None | _ \<Rightarrow> None)"

lemma resolve_Suc:
  "resolve (Suc n) ds (JList xs) = map_sum id JList (map_e (resolve n ds) xs)"
  "resolve (Suc n) ds (JObj d) = (case local_ref d of
     Some r \<Rightarrow> (case map_of ds (drop (length ref_prefix) r) of
        None \<Rightarrow> Inl (ValueError (''Unknown local JSON Schema reference: '' @ r)) | Some t \<Rightarrow> resolve n ds t)
   | None \<Rightarrow> map_sum id JObj (map_e (visit (\<lambda>k. resolve n ds)) (filter (\<lambda>(k, _). k \<noteq> defs_key) d)))"
  "resolve (Suc n) ds JNull = Inr JNull" "resolve (Suc n) ds (JBool b) = Inr (JBool b)" "resolve (Suc n) ds (JInt i) = Inr (JInt i)"
  "resolve (Suc n) ds (JFloat q) = Inr (JFloat q)" "resolve (Suc n) ds (JStr s) = Inr (JStr s)"
  by (simp_all add: local_ref_def ref_key_def defs_key_def map_values_visit cong: option.case_cong)

declare resolve.simps(2) [simp del]
declare resolve_Suc [simp]

lemma resolve_deeper: "\<not> runs_out (resolve n ds v) \<Longrightarrow> resolve (Suc n) ds v = resolve n ds v"
proof (induction n arbitrary: v)
  case (Suc n)
  have list: "map_e (resolve (Suc n) ds) xs = map_e (resolve n ds) xs" if "\<not> runs_out (map_e (resolve n ds) xs)" for xs
    using that by (rule map_e_deeper) (rule Suc.IH)
  have dict: "map_e (visit (\<lambda>k. resolve (Suc n) ds)) (d :: dict) = map_e (visit (\<lambda>k. resolve n ds)) d"
    if "\<not> runs_out (map_e (visit (\<lambda>k. resolve n ds)) d)" for d
    using that by (rule map_e_deeper) (rule visit_deeper, rule Suc.IH)
  show ?case using Suc.prems list dict Suc.IH by (cases v) (auto split: option.splits)
qed simp


interpretation resolving: bounded_recursion "\<lambda>n. resolve n ds" for ds
  by unfold_locales (rule resolve_deeper)

interpretation resolving_values: bounded_recursion "\<lambda>n. visit (\<lambda>k :: string. resolve n ds)" for ds
  by unfold_locales (rule visit_deeper [OF resolve_deeper])

text \<open>The definitions a schema refers to, and a ranking that their references descend.\<close>

fun refs :: "json \<Rightarrow> string list" where
  "refs (JList xs) = concat (map refs xs)"
| "refs (JObj d) = (case local_ref d of Some r \<Rightarrow> [drop (length ref_prefix) r] | None \<Rightarrow> concat (map (\<lambda>(k, v). refs v) d))"
| "refs v = []"

definition ranked :: "(string \<Rightarrow> nat) \<Rightarrow> dict \<Rightarrow> bool" where
  "ranked rank definitions = list_all (\<lambda>(name, t). list_all (\<lambda>m. rank m < rank name) (refs t)) definitions"

lemma resolve_returns:
  assumes ranked: "ranked rank ds"
  shows "\<forall>m \<in> set (refs v). rank m < k \<Longrightarrow> \<exists>n. \<not> runs_out (resolve n ds v)"
proof (induction k arbitrary: v rule: less_induct)
  case (less k)
  from less.prems show ?case
  proof (induction v rule: json.induct)
    case (JList xs)
    then have "\<forall>x \<in> set xs. \<exists>n. \<not> runs_out (resolve n ds x)" by auto
    then obtain n where "\<not> runs_out (map_e (resolve n ds) xs)" using resolving.list_returns by blast
    then show ?case by (intro exI [of _ "Suc n"]) simp
  next
    case (JObj d)
    show ?case
    proof (cases "local_ref d")
      case None
      have "\<exists>n. \<not> runs_out (visit (\<lambda>k. resolve n ds) kv)" if "kv \<in> set d" for kv
      proof -
        obtain key v where kv: "kv = (key, v)" by fastforce
        have "set (refs v) \<subseteq> set (refs (JObj d))" using that kv None by force
        then have "\<forall>m \<in> set (refs v). rank m < k" using JObj.prems by blast
        then have "\<exists>n. \<not> runs_out (resolve n ds v)" using JObj.IH [OF that, of v] kv by simp
        then show ?thesis by (simp add: kv visit_def)
      qed
      then obtain n where "\<not> runs_out (map_e (visit (\<lambda>k. resolve n ds)) (filter (\<lambda>(k, _). k \<noteq> defs_key) d))"
        using resolving_values.list_returns [of "filter (\<lambda>(k, _). k \<noteq> defs_key) d" ds] by auto
      then show ?thesis using None by (intro exI [of _ "Suc n"]) simp
    next
      case (Some r)
      let ?name = "drop (length ref_prefix) r"
      show ?thesis
      proof (cases "map_of ds ?name")
        case None
        then show ?thesis using Some by (intro exI [of _ "Suc 0"]) simp
      next
        case t: (Some t)
        have "rank ?name < k" using JObj.prems Some by simp
        moreover have "\<forall>m \<in> set (refs t). rank m < rank ?name"
          using ranked map_of_SomeD [OF t] by (fastforce simp: ranked_def list_all_iff)
        ultimately obtain n where "\<not> runs_out (resolve n ds t)" using less.IH by blast
        then show ?thesis using Some t by (intro exI [of _ "Suc n"]) simp
      qed
    qed
  qed (rule exI [of _ "Suc 0"], simp)+
qed

lemma resolve_terminates: "ranked rank ds \<Longrightarrow> \<exists>n. \<not> runs_out (resolve n ds v)"
proof -
  have "\<forall>m \<in> set (refs v). rank m < Suc (Max (rank ` set (refs v)))" by (simp add: less_Suc_eq_le)
  then show "ranked rank ds \<Longrightarrow> ?thesis" using resolve_returns by blast
qed

section \<open>The reduction\<close>

text \<open>What inlining answers has no definitions; inlining it again changes nothing, or fails.\<close>

fun no_defs :: "json \<Rightarrow> bool" where
  "no_defs (JList xs) = list_all no_defs xs"
| "no_defs (JObj d) = list_all (\<lambda>(k, v). k \<noteq> defs_key \<and> no_defs v) d"
| "no_defs v = True"

lemma map_e_all: "map_e f xs = Inr ys \<Longrightarrow> \<forall>x \<in> set xs. \<forall>y. f x = Inr y \<longrightarrow> P y \<Longrightarrow> list_all P ys"
  by (induction xs arbitrary: ys) auto

lemma map_e_same: "map_e f xs = Inr ys \<Longrightarrow> \<forall>x \<in> set xs. \<forall>y. f x = Inr y \<longrightarrow> y = x \<Longrightarrow> ys = xs"
  by (induction xs arbitrary: ys) auto

lemma visit_Inr: "visit f kv = Inr y \<longleftrightarrow> (\<exists>w. f (fst kv) (snd kv) = Inr w \<and> y = (fst kv, w))"
  by (cases "f (fst kv) (snd kv)") (auto simp: visit_def)

lemma map_sum_Inr: "map_sum id f r = Inr y \<longleftrightarrow> (\<exists>x. r = Inr x \<and> y = f x)"
  by (cases r) auto

lemma resolve_no_defs: "resolve n ds v = Inr v' \<Longrightarrow> no_defs v'"
proof (induction n arbitrary: v v')
  case (Suc n)
  show ?case
  proof (cases v)
    case (JList xs)
    then obtain ys where run: "map_e (resolve n ds) xs = Inr ys" and "v' = JList ys" using Suc.prems by (auto simp: map_sum_Inr)
    with map_e_all [OF run, of no_defs] Suc.IH show ?thesis by simp
  next
    case (JObj d)
    show ?thesis
    proof (cases "local_ref d")
      case None
      then obtain ys where run: "map_e (visit (\<lambda>k. resolve n ds)) (filter (\<lambda>(k, _). k \<noteq> defs_key) d) = Inr ys" and "v' = JObj ys"
        using Suc.prems JObj by (auto simp: map_sum_Inr)
      with map_e_all [OF run, of "\<lambda>(k, v). k \<noteq> defs_key \<and> no_defs v"] Suc.IH show ?thesis by (auto simp: visit_Inr)
    next
      case (Some r)
      then show ?thesis using Suc JObj by (simp split: option.splits)
    qed
  qed (use Suc.prems in auto)
qed simp

lemma resolve_again: "resolve n [] v = Inr v' \<Longrightarrow> no_defs v \<Longrightarrow> v' = v"
proof (induction n arbitrary: v v')
  case (Suc n)
  show ?case
  proof (cases v)
    case (JList xs)
    then obtain ys where run: "map_e (resolve n []) xs = Inr ys" and "v' = JList ys" using Suc.prems(1) by (auto simp: map_sum_Inr)
    moreover have "\<forall>x \<in> set xs. \<forall>y. resolve n [] x = Inr y \<longrightarrow> y = x" using Suc.IH Suc.prems(2) JList by (simp add: list_all_iff)
    ultimately show ?thesis using map_e_same [OF run] JList by simp
  next
    case (JObj d)
    have d: "filter (\<lambda>(k, _). k \<noteq> defs_key) d = d" using Suc.prems(2) JObj by (auto simp: list_all_iff filter_id_conv)
    obtain ys where run: "map_e (visit (\<lambda>k. resolve n [])) d = Inr ys" and "v' = JObj ys"
      using Suc.prems(1) JObj d by (auto simp: map_sum_Inr split: option.splits)
    moreover have "\<forall>kv \<in> set d. \<forall>y. visit (\<lambda>k. resolve n []) kv = Inr y \<longrightarrow> y = kv"
      using Suc.IH Suc.prems(2) JObj by (fastforce simp: list_all_iff visit_Inr)
    ultimately show ?thesis using map_e_same [OF run] JObj by simp
  qed (use Suc.prems in auto)
qed simp

text \<open>The entries the reduction keeps, and the step of the reduction over them.\<close>

definition supported :: "dict \<Rightarrow> dict" where
  "supported d = filter (\<lambda>(k, _). k \<in> set google_supported_schema_keys) d"

definition reduce_entries :: "(json \<Rightarrow> exn + json) \<Rightarrow> dict \<Rightarrow> exn + json" where
  "reduce_entries google d = map_sum id JObj (map_e (visit (schema_entry google)) (supported d))"

lemma google_Suc:
  "google_json_schema (Suc n) (JObj d) = then_do (inline_schema_refs n d)
     (\<lambda>v. case v of JObj d' \<Rightarrow> reduce_entries (google_json_schema n) d' | _ \<Rightarrow> Inl AttributeError)"
  "(\<nexists>d. v = JObj d) \<Longrightarrow> google_json_schema (Suc n) v = Inl AttributeError"
  by (simp_all add: reduce_entries_def supported_def visit_def [abs_def] case_prod_unfold cong: json.case_cong)
     (cases v; simp)

declare google_json_schema.simps(2) [simp del]

lemma schema_entry_deeper:
  assumes "\<And>v. \<not> runs_out (f v) \<Longrightarrow> g v = f v" and "\<not> runs_out (schema_entry f k v)"
  shows "schema_entry g k v = schema_entry f k v"
proof -
  have dict: "map_e (visit (\<lambda>k. g)) (d :: dict) = map_e (visit (\<lambda>k. f)) d" if "\<not> runs_out (map_e (visit (\<lambda>k. f)) d)" for d
    using that by (rule map_e_deeper) (rule visit_deeper, rule assms(1))
  have list: "map_e (\<lambda>x. if is_dict x then g x else Inr x) xs = map_e (\<lambda>x. if is_dict x then f x else Inr x) xs"
    if "\<not> runs_out (map_e (\<lambda>x. if is_dict x then f x else Inr x) xs)" for xs
    using that by (rule map_e_deeper) (simp split: if_splits add: assms(1))
  show ?thesis using assms(2)
    by (auto simp: schema_entry_def map_values_visit dict list assms(1) split: json.splits if_splits)
qed

lemma google_deeper: "\<not> runs_out (google_json_schema n v) \<Longrightarrow> google_json_schema (Suc n) v = google_json_schema n v"
proof (induction n arbitrary: v)
  case (Suc n)
  have entries: "reduce_entries (google_json_schema (Suc n)) d = reduce_entries (google_json_schema n) d"
    if "\<not> runs_out (reduce_entries (google_json_schema n) d)" for d
  proof -
    have "\<not> runs_out (map_e (visit (schema_entry (google_json_schema n))) (supported d))" using that by (simp add: reduce_entries_def)
    from map_e_deeper [OF this visit_deeper [OF schema_entry_deeper [OF Suc.IH]]] show ?thesis by (simp add: reduce_entries_def)
  qed
  show ?case
  proof (cases "\<exists>d. v = JObj d")
    case True
    then obtain d where v: "v = JObj d" ..
    have inlined: "inline_schema_refs (Suc n) d = inline_schema_refs n d"
      using Suc.prems resolve_deeper unfolding v google_Suc(1) runs_out_then_do inline_schema_refs_def by blast
    show ?thesis
    proof (cases "inline_schema_refs n d")
      case (Inl x)
      then show ?thesis by (simp add: v google_Suc inlined)
    next
      case (Inr w)
      then show ?thesis using Suc.prems entries unfolding v google_Suc(1) inlined by (cases w) (simp_all add: google_Suc)
    qed
  qed (simp add: google_Suc)
qed simp

interpretation reducing: bounded_recursion google_json_schema
  by unfold_locales (rule google_deeper)

interpretation reducing_values: bounded_recursion "\<lambda>n. visit (\<lambda>k :: string. google_json_schema n)"
  by unfold_locales (rule visit_deeper [OF google_deeper])

interpretation reducing_choices: bounded_recursion "\<lambda>n x. if is_dict x then google_json_schema n x else Inr x"
  by unfold_locales (simp add: google_deeper split: if_splits)

interpretation reducing_entries: bounded_recursion "\<lambda>n. visit (schema_entry (google_json_schema n))"
  by unfold_locales (rule visit_deeper [OF schema_entry_deeper [OF google_deeper]])

lemma smaller_value: "(k, v) \<in> set d \<Longrightarrow> size v < size (JObj d)"
  by (induction d) auto

lemma smaller_item: "x \<in> set xs \<Longrightarrow> size x < size (JList xs)"
  by (induction xs) auto

lemma schema_entry_returns:
  assumes smaller: "\<And>w. size w \<le> size v \<Longrightarrow> no_defs w \<Longrightarrow> \<exists>n. \<not> runs_out (google_json_schema n w)" and v: "no_defs v"
  shows "\<exists>n. \<not> runs_out (visit (schema_entry (google_json_schema n)) (k, v))"
proof -
  obtain n where n: "\<not> runs_out (google_json_schema n v)" using smaller v by blast
  have items: "\<exists>n. \<not> runs_out (map_e (\<lambda>x. if is_dict x then google_json_schema n x else Inr x) xs)" if "v = JList xs" for xs
  proof (rule reducing_choices.list_returns, rule ballI)
    fix x assume "x \<in> set xs"
    then have "size x \<le> size v" "no_defs x" using that v smaller_item by (auto simp: list_all_iff dest: less_imp_le)
    then show "\<exists>n. \<not> runs_out (if is_dict x then google_json_schema n x else Inr x)" using smaller by auto
  qed
  have fields: "\<exists>n. \<not> runs_out (map_e (visit (\<lambda>k. google_json_schema n)) d)" if "v = JObj d" for d
  proof (rule reducing_values.list_returns, rule ballI)
    fix kv assume kv: "kv \<in> set d"
    obtain key w where key: "kv = (key, w)" by fastforce
    have "size w \<le> size v" using less_imp_le [OF smaller_value] kv by (simp only: key that)
    moreover have "no_defs w" using that v kv by (auto simp: key list_all_iff)
    ultimately show "\<exists>n. \<not> runs_out (visit (\<lambda>k. google_json_schema n) kv)" using smaller by (simp add: key visit_def)
  qed
  have "\<exists>n. \<not> runs_out (schema_entry (google_json_schema n) k v)"
  proof (cases v)
    case (JList xs)
    obtain m where "\<not> runs_out (map_e (\<lambda>x. if is_dict x then google_json_schema m x else Inr x) xs)" using items [OF JList] ..
    then show ?thesis by (intro exI [of _ m]) (simp add: schema_entry_def JList is_dict_def)
  next
    case (JObj d)
    obtain m where "\<not> runs_out (map_e (visit (\<lambda>k. google_json_schema m)) d)" using fields [OF JObj] ..
    then show ?thesis using n unfolding JObj
      by (cases "k = ''properties''") (auto simp: schema_entry_def map_values_visit intro: exI [of _ m] exI [of _ n])
  qed (auto simp: schema_entry_def is_dict_def)
  then show ?thesis by (simp add: visit_def)
qed

lemma entries_return:
  assumes "\<And>w. size w < size (JObj d) \<Longrightarrow> no_defs w \<Longrightarrow> \<exists>n. \<not> runs_out (google_json_schema n w)" and "no_defs (JObj d)"
  shows "\<exists>n. \<not> runs_out (reduce_entries (google_json_schema n) d)"
proof -
  have "\<exists>n. \<not> runs_out (map_e (visit (schema_entry (google_json_schema n))) (supported d))"
  proof (rule reducing_entries.list_returns, rule ballI)
    fix kv assume "kv \<in> set (supported d)"
    moreover obtain key v where key: "kv = (key, v)" by fastforce
    ultimately have mem: "(key, v) \<in> set d" by (simp add: supported_def)
    have "no_defs v" using assms(2) mem by (auto simp: list_all_iff)
    then show "\<exists>n. \<not> runs_out (visit (schema_entry (google_json_schema n)) kv)"
      unfolding key using smaller_value [OF mem] assms(1) by (intro schema_entry_returns) auto
  qed
  then show ?thesis by (simp add: reduce_entries_def)
qed

lemma google_after:
  assumes inlined: "\<not> runs_out (inline_schema_refs m d)"
    and entries: "\<And>d'. inline_schema_refs m d = Inr (JObj d') \<Longrightarrow> \<exists>n. \<not> runs_out (reduce_entries (google_json_schema n) d')"
  shows "\<exists>n. \<not> runs_out (google_json_schema n (JObj d))"
proof -
  have later: "inline_schema_refs k d = inline_schema_refs m d" if "m \<le> k" for k
    using resolving.settled [OF inlined [unfolded inline_schema_refs_def] that] by (simp add: inline_schema_refs_def)
  show ?thesis
  proof (cases "\<exists>d'. inline_schema_refs m d = Inr (JObj d')")
    case True
    then obtain d' n where d': "inline_schema_refs m d = Inr (JObj d')" and n: "\<not> runs_out (reduce_entries (google_json_schema n) d')"
      using entries by blast
    have "map_e (visit (schema_entry (google_json_schema (max m n)))) (supported d') = map_e (visit (schema_entry (google_json_schema n))) (supported d')"
      by (rule reducing_entries.list_settled) (use n in \<open>simp_all add: reduce_entries_def\<close>)
    then show ?thesis using later [of "max m n"] d' n
      by (intro exI [of _ "Suc (max m n)"]) (simp add: google_Suc reduce_entries_def)
  next
    case False
    then show ?thesis using inlined
      by (intro exI [of _ "Suc m"]) (auto simp: google_Suc runs_out_then_do split: json.splits)
  qed
qed

lemma google_returns: "no_defs v \<Longrightarrow> \<exists>n. \<not> runs_out (google_json_schema n v)"
proof (induction v rule: measure_induct_rule [of size])
  case (less v)
  show ?case
  proof (cases "\<exists>d. v = JObj d")
    case True
    then obtain d where v: "v = JObj d" ..
    have defs: "(case dict_get d defs_key of JObj d \<Rightarrow> d | _ \<Rightarrow> []) = []"
    proof -
      have "map_of d defs_key = None" using less.prems v by (fastforce simp: map_of_eq_None_iff list_all_iff)
      then show ?thesis by (simp add: dict_get_def)
    qed
    have inline: "inline_schema_refs n d = resolve n [] v" for n
      using defs by (simp add: inline_schema_refs_def v defs_key_def)
    obtain m where m: "\<not> runs_out (resolve m [] v)" using resolve_terminates [of "\<lambda>_. 0" "[]"] by (auto simp: ranked_def)
    show ?thesis unfolding v
    proof (rule google_after [of m])
      show "\<not> runs_out (inline_schema_refs m d)" using m by (simp add: inline)
      fix d' assume "inline_schema_refs m d = Inr (JObj d')"
      then have "d' = d" using resolve_again [OF _ less.prems] by (auto simp: inline v)
      then show "\<exists>n. \<not> runs_out (reduce_entries (google_json_schema n) d')"
        using less.IH less.prems unfolding v by (intro entries_return) auto
    qed
  qed (intro exI [of _ "Suc 0"], simp add: google_Suc)
qed

text \<open>
  C16: the reduction of a schema for Gemini terminates. When the schema's definitions can be
  ranked so that each refers to lower ones only (no definition reaches itself), there is a depth
  of recursion from which on the answer, a reduced schema or an error about the schema, is always
  the same and never an exhausted stack.
\<close>

theorem schema_reduction_terminates:
  assumes "ranked rank (case dict_get d defs_key of JObj ds \<Rightarrow> ds | _ \<Rightarrow> [])"
  shows "\<exists>N r. r \<noteq> Inl RecursionError \<and> (\<forall>n \<ge> N. google_json_schema n (JObj d) = r)"
proof -
  obtain m where m: "\<not> runs_out (inline_schema_refs m d)"
    using resolve_terminates [OF assms, of "JObj d"] by (auto simp: inline_schema_refs_def defs_key_def)
  have "\<exists>n. \<not> runs_out (google_json_schema n (JObj d))"
  proof (rule google_after [OF m])
    fix d' assume "inline_schema_refs m d = Inr (JObj d')"
    then have "no_defs (JObj d')" unfolding inline_schema_refs_def by (rule resolve_no_defs)
    then show "\<exists>n. \<not> runs_out (reduce_entries (google_json_schema n) d')" using google_returns by (intro entries_return)
  qed
  then obtain n where "\<not> runs_out (google_json_schema n (JObj d))" ..
  from reducing.answer [OF this] show ?thesis by (simp add: runs_out_def)
qed

text \<open>The ranking is needed: a definition that refers to itself exhausts every stack.\<close>

definition example_ref :: "string \<Rightarrow> json" where
  "example_ref name = JObj [(ref_key, JStr (ref_prefix @ name))]"

lemma self_reference_runs_out: "resolve n [(''Node'', example_ref ''Node'')] (example_ref ''Node'') = Inl RecursionError"
proof (induction n)
  case (Suc n)
  have "local_ref [(ref_key, JStr (ref_prefix @ ''Node''))] = Some (ref_prefix @ ''Node'')"
    by (simp add: local_ref_def dict_get_def startswith_def)
  then show ?case using Suc by (simp add: example_ref_def)
qed simp

definition example_schema :: dict where
  "example_schema = [(''type'', JStr ''object''), (''properties'', JObj [(''plan'', example_ref ''Plan'')]),
     (defs_key, JObj [(''Plan'', JObj [(''items'', example_ref ''Step'')]), (''Step'', JObj [(''type'', JStr ''string'')])])]"

theorem schema_reduction_terminates_witness:
  "\<exists>N r. r \<noteq> Inl RecursionError \<and> (\<forall>n. N \<le> n \<longrightarrow> google_json_schema n (JObj example_schema) = r)"
  by (rule schema_reduction_terminates [of "\<lambda>name. if name = ''Plan'' then 1 else 0"]) code_simp

end
