(* ===== verification/Migrations.thy ===== *)
theory Migrations
  imports Mitre Correlation
begin

text \<open>
  The migrations of the database (\<^verbatim>\<open>migrations/versions\<close>, Alembic scripts) as operations on a
  schema, with the failures PostgreSQL has, and the schema the ORM models of \<^verbatim>\<open>models\<close> declare. The
  theorems compare the two, undo the migrations, and check the rows and keys the migrations
  write against what the program computes.
\<close>

section \<open>Schemas\<close>

datatype col_type =
    T_UUID | T_String nat | T_Text | T_Integer | T_Boolean | T_DateTime | T_JSON | T_JSONB | T_Numeric nat nat

record column_def =
  co_name :: string
  co_type :: col_type
  co_nullable :: bool
  co_default :: "string option"

text \<open>A foreign key: its column, the table and column it refers to, and what a deletion does.\<close>

type_synonym foreign_key = "string \<times> string \<times> string \<times> string option"

record table_def =
  td_name :: string
  td_columns :: "column_def list"
  td_primary :: "string list"
  td_unique :: "string list list"
  td_foreign :: "foreign_key list"

record index_def =
  ix_name :: string
  ix_table :: string
  ix_columns :: "string list"
  ix_unique :: bool

record db_schema =
  sc_tables :: "table_def list"
  sc_indexes :: "index_def list"

definition column :: "string \<Rightarrow> col_type \<Rightarrow> column_def" where
  "column name t = \<lparr>co_name = name, co_type = t, co_nullable = False, co_default = None\<rparr>"

definition optional :: "string \<Rightarrow> col_type \<Rightarrow> column_def" where
  "optional name t = \<lparr>co_name = name, co_type = t, co_nullable = True, co_default = None\<rparr>"

definition with_default :: "string \<Rightarrow> column_def \<Rightarrow> column_def" where
  "with_default sql c = c\<lparr>co_default := Some sql\<rparr>"

definition index :: "string \<Rightarrow> string \<Rightarrow> string list \<Rightarrow> bool \<Rightarrow> index_def" where
  "index name table columns unique = \<lparr>ix_name = name, ix_table = table, ix_columns = columns, ix_unique = unique\<rparr>"

section \<open>Operations\<close>

datatype schema_op =
    CreateTable table_def
  | DropTable string
  | AddColumn string column_def
  | DropColumn string string
  | AlterNullable string string bool
  | CreateIndex string string "string list" bool
  | DropIndex string string
  | BulkInsert string "string list" "json list list"
  | Execute

definition find_table :: "db_schema \<Rightarrow> string \<Rightarrow> table_def option" where
  "find_table s name = find (\<lambda>t. td_name t = name) (sc_tables s)"

definition has_table :: "db_schema \<Rightarrow> string \<Rightarrow> bool" where
  "has_table s name = (find_table s name \<noteq> None)"

definition has_columns :: "table_def \<Rightarrow> string list \<Rightarrow> bool" where
  "has_columns t names = list_all (\<lambda>n. n \<in> set (map co_name (td_columns t))) names"

definition index_names :: "db_schema \<Rightarrow> string \<Rightarrow> string list" where
  "index_names s table = map ix_name (filter (\<lambda>i. ix_table i = table) (sc_indexes s))"

text \<open>A foreign key refers to the primary key of a table that exists, possibly its own.\<close>

definition foreign_ok :: "db_schema \<Rightarrow> table_def \<Rightarrow> bool" where
  "foreign_ok s t = list_all (\<lambda>(c, table, target, _). has_columns t [c] \<and>
     (case (if table = td_name t then Some t else find_table s table) of None \<Rightarrow> False | Some r \<Rightarrow> td_primary r = [target])) (td_foreign t)"

definition change_table :: "string \<Rightarrow> (table_def \<Rightarrow> table_def) \<Rightarrow> db_schema \<Rightarrow> db_schema" where
  "change_table name f s = s\<lparr>sc_tables := map (\<lambda>t. if td_name t = name then f t else t) (sc_tables s)\<rparr>"

text \<open>
  \<open>None\<close> is the error of the server. A table goes with its indexes, and not while another table
  refers to it; a column goes with the indexes over it.
\<close>

fun apply_op :: "schema_op \<Rightarrow> db_schema \<Rightarrow> db_schema option" where
  "apply_op (CreateTable t) s =
    (if has_table s (td_name t) \<or> \<not> has_columns t (td_primary t @ concat (td_unique t)) \<or> \<not> foreign_ok s t then None
     else Some (s\<lparr>sc_tables := sc_tables s @ [t]\<rparr>))"
| "apply_op (DropTable name) s =
    (if \<not> has_table s name \<or> list_ex (\<lambda>t. td_name t \<noteq> name \<and> list_ex (\<lambda>(_, table, _). table = name) (td_foreign t)) (sc_tables s) then None
     else Some \<lparr>sc_tables = filter (\<lambda>t. td_name t \<noteq> name) (sc_tables s), sc_indexes = filter (\<lambda>i. ix_table i \<noteq> name) (sc_indexes s)\<rparr>)"
| "apply_op (AddColumn table c) s =
    (case find_table s table of None \<Rightarrow> None
     | Some t \<Rightarrow> if has_columns t [co_name c] then None
         else Some (change_table table (\<lambda>t. t\<lparr>td_columns := td_columns t @ [c]\<rparr>) s))"
| "apply_op (DropColumn table name) s =
    (case find_table s table of None \<Rightarrow> None
     | Some t \<Rightarrow> if \<not> has_columns t [name] then None
         else Some ((change_table table (\<lambda>t. t\<lparr>td_columns := filter (\<lambda>c. co_name c \<noteq> name) (td_columns t)\<rparr>) s)
           \<lparr>sc_indexes := filter (\<lambda>i. \<not> (ix_table i = table \<and> name \<in> set (ix_columns i))) (sc_indexes s)\<rparr>))"
| "apply_op (AlterNullable table name b) s =
    (case find_table s table of None \<Rightarrow> None
     | Some t \<Rightarrow> if \<not> has_columns t [name] then None
         else Some (change_table table (\<lambda>t. t\<lparr>td_columns := map (\<lambda>c. if co_name c = name then c\<lparr>co_nullable := b\<rparr> else c) (td_columns t)\<rparr>) s))"
| "apply_op (CreateIndex name table columns unique) s =
    (case find_table s table of None \<Rightarrow> None
     | Some t \<Rightarrow> if name \<in> set (map ix_name (sc_indexes s)) \<or> \<not> has_columns t columns then None
         else Some (s\<lparr>sc_indexes := sc_indexes s @ [index name table columns unique]\<rparr>))"
| "apply_op (DropIndex name table) s =
    (if name \<notin> set (map ix_name (sc_indexes s)) then None
     else Some (s\<lparr>sc_indexes := filter (\<lambda>i. ix_name i \<noteq> name) (sc_indexes s)\<rparr>))"
| "apply_op (BulkInsert table columns rows) s =
    (case find_table s table of None \<Rightarrow> None
     | Some t \<Rightarrow> if has_columns t columns \<and> list_all (\<lambda>row. length row = length columns) rows then Some s else None)"
| "apply_op Execute s = Some s"

fun apply_ops :: "schema_op list \<Rightarrow> db_schema \<Rightarrow> db_schema option" where
  "apply_ops [] s = Some s"
| "apply_ops (x # xs) s = (case apply_op x s of None \<Rightarrow> None | Some s' \<Rightarrow> apply_ops xs s')"

text \<open>A revision: some look at the schema first, to skip what is there.\<close>

record migration =
  mg_revision :: string
  mg_down_revision :: "string option"
  mg_upgrade :: "db_schema \<Rightarrow> schema_op list"
  mg_downgrade :: "schema_op list"

definition migration :: "string \<Rightarrow> string option \<Rightarrow> (db_schema \<Rightarrow> schema_op list) \<Rightarrow> schema_op list \<Rightarrow> migration" where
  "migration revision down up dn = \<lparr>mg_revision = revision, mg_down_revision = down, mg_upgrade = up, mg_downgrade = dn\<rparr>"

fun upgrade_all :: "migration list \<Rightarrow> db_schema \<Rightarrow> db_schema option" where
  "upgrade_all [] s = Some s"
| "upgrade_all (m # ms) s = (case apply_ops (mg_upgrade m s) s of None \<Rightarrow> None | Some s' \<Rightarrow> upgrade_all ms s')"

fun downgrade_all :: "migration list \<Rightarrow> db_schema \<Rightarrow> db_schema option" where
  "downgrade_all [] s = Some s"
| "downgrade_all (m # ms) s = (case apply_ops (mg_downgrade m) s of None \<Rightarrow> None | Some s' \<Rightarrow> downgrade_all ms s')"

section \<open>The revisions\<close>

text \<open>The statement of revision 7 fills a column; it is \<open>backfill_key\<close> below.\<close>

definition upgrade_0001 :: "schema_op list" where
  "upgrade_0001 = []"

definition downgrade_0001 :: "schema_op list" where
  "downgrade_0001 = []"

definition upgrade_0002 :: "schema_op list" where
  "upgrade_0002 = [
   CreateTable
    \<lparr>td_name = ''events'',
     td_columns = [
       column ''id'' T_UUID,
       column ''event_id'' (T_String 128),
       column ''timestamp'' T_DateTime,
       column ''received_at'' T_DateTime,
       column ''source'' (T_String 255),
       column ''source_type'' (T_String 64),
       column ''event_type'' (T_String 64),
       column ''category'' (T_String 64),
       optional ''severity'' (T_String 32),
       optional ''user_id'' (T_String 128),
       optional ''username'' (T_String 255),
       optional ''source_ip'' (T_String 64),
       optional ''destination_ip'' (T_String 64),
       optional ''source_port'' T_Integer,
       optional ''destination_port'' T_Integer,
       optional ''hostname'' (T_String 255),
       optional ''device_id'' (T_String 255),
       optional ''action'' (T_String 128),
       optional ''status'' (T_String 64),
       optional ''resource'' (T_String 255),
       optional ''resource_type'' (T_String 128),
       optional ''country'' (T_String 128),
       optional ''user_agent'' T_Text,
       optional ''bytes_sent'' T_Integer,
       optional ''bytes_received'' T_Integer,
       column ''raw_payload'' T_JSON,
       column ''metadata'' T_JSON,
       column ''created_at'' T_DateTime],
     td_primary = [''id''], td_unique = [[''event_id'']],
     td_foreign = []\<rparr>,
   CreateIndex ''ix_events_category'' ''events'' [''category''] False,
   CreateIndex ''ix_events_event_id'' ''events'' [''event_id''] False,
   CreateIndex ''ix_events_event_type'' ''events'' [''event_type''] False,
   CreateIndex ''ix_events_severity'' ''events'' [''severity''] False,
   CreateIndex ''ix_events_source'' ''events'' [''source''] False,
   CreateIndex ''ix_events_source_ip'' ''events'' [''source_ip''] False,
   CreateIndex ''ix_events_timestamp'' ''events'' [''timestamp''] False,
   CreateIndex ''ix_events_username'' ''events'' [''username''] False]"

definition downgrade_0002 :: "schema_op list" where
  "downgrade_0002 = [
   DropIndex ''ix_events_username'' ''events'',
   DropIndex ''ix_events_timestamp'' ''events'',
   DropIndex ''ix_events_source_ip'' ''events'',
   DropIndex ''ix_events_source'' ''events'',
   DropIndex ''ix_events_severity'' ''events'',
   DropIndex ''ix_events_event_type'' ''events'',
   DropIndex ''ix_events_event_id'' ''events'',
   DropIndex ''ix_events_category'' ''events'',
   DropTable ''events'']"

definition upgrade_0003 :: "schema_op list" where
  "upgrade_0003 = [
   CreateTable
    \<lparr>td_name = ''alerts'',
     td_columns = [
       column ''id'' T_UUID,
       column ''rule_id'' (T_String 128),
       column ''event_id'' T_UUID,
       column ''title'' (T_String 255),
       column ''description'' T_Text,
       column ''severity'' (T_String 32),
       column ''confidence'' (T_Numeric 4 2),
       column ''status'' (T_String 32),
       optional ''source_ip'' (T_String 64),
       optional ''username'' (T_String 255),
       column ''evidence'' T_JSON,
       column ''first_seen'' T_DateTime,
       column ''last_seen'' T_DateTime,
       column ''created_at'' T_DateTime],
     td_primary = [''id''], td_unique = [],
     td_foreign = [(''event_id'', ''events'', ''id'', Some ''CASCADE'')]\<rparr>,
   CreateIndex ''ix_alerts_event_id'' ''alerts'' [''event_id''] False,
   CreateIndex ''ix_alerts_rule_id'' ''alerts'' [''rule_id''] False,
   CreateIndex ''ix_alerts_severity'' ''alerts'' [''severity''] False,
   CreateIndex ''ix_alerts_source_ip'' ''alerts'' [''source_ip''] False,
   CreateIndex ''ix_alerts_status'' ''alerts'' [''status''] False,
   CreateIndex ''ix_alerts_username'' ''alerts'' [''username''] False]"

definition downgrade_0003 :: "schema_op list" where
  "downgrade_0003 = [
   DropIndex ''ix_alerts_username'' ''alerts'',
   DropIndex ''ix_alerts_status'' ''alerts'',
   DropIndex ''ix_alerts_source_ip'' ''alerts'',
   DropIndex ''ix_alerts_severity'' ''alerts'',
   DropIndex ''ix_alerts_rule_id'' ''alerts'',
   DropIndex ''ix_alerts_event_id'' ''alerts'',
   DropTable ''alerts'']"

definition upgrade_0004 :: "db_schema \<Rightarrow> schema_op list" where
  "upgrade_0004 s =
   (if has_table s ''incidents'' then [] else [
   CreateTable
    \<lparr>td_name = ''incidents'',
     td_columns = [
       column ''id'' T_UUID,
       column ''title'' (T_String 255),
       column ''description'' T_Text,
       column ''status'' (T_String 32),
       column ''severity'' (T_String 32),
       column ''risk_score'' T_Integer,
       optional ''primary_username'' (T_String 255),
       optional ''primary_source_ip'' (T_String 64),
       column ''first_seen'' T_DateTime,
       column ''last_seen'' T_DateTime,
       with_default ([CHR 0x27] @ ''[]'' @ [CHR 0x27] @ ''::jsonb'') (column ''timeline'' T_JSONB),
       column ''created_at'' T_DateTime,
       column ''updated_at'' T_DateTime],
     td_primary = [''id''], td_unique = [],
     td_foreign = []\<rparr>]) @
   map (\<lambda>(name, columns). CreateIndex name ''incidents'' columns False)
     (filter (\<lambda>(name, _). name \<notin> set (index_names s ''incidents'')) [
      (''ix_incidents_status'', [''status'']),
      (''ix_incidents_severity'', [''severity'']),
      (''ix_incidents_primary_username'', [''primary_username'']),
      (''ix_incidents_primary_source_ip'', [''primary_source_ip'']),
      (''ix_incidents_first_seen'', [''first_seen'']),
      (''ix_incidents_last_seen'', [''last_seen''])]) @
   (if has_table s ''incident_alerts'' then [] else [
   CreateTable
    \<lparr>td_name = ''incident_alerts'',
     td_columns = [
       column ''incident_id'' T_UUID,
       column ''alert_id'' T_UUID,
       column ''created_at'' T_DateTime],
     td_primary = [''incident_id'', ''alert_id''], td_unique = [[''incident_id'', ''alert_id'']],
     td_foreign = [(''alert_id'', ''alerts'', ''id'', Some ''CASCADE''), (''incident_id'', ''incidents'', ''id'', Some ''CASCADE'')]\<rparr>])"

definition downgrade_0004 :: "schema_op list" where
  "downgrade_0004 = [
   DropTable ''incident_alerts'',
   DropIndex ''ix_incidents_last_seen'' ''incidents'',
   DropIndex ''ix_incidents_first_seen'' ''incidents'',
   DropIndex ''ix_incidents_primary_source_ip'' ''incidents'',
   DropIndex ''ix_incidents_primary_username'' ''incidents'',
   DropIndex ''ix_incidents_severity'' ''incidents'',
   DropIndex ''ix_incidents_status'' ''incidents'',
   DropTable ''incidents'']"

definition upgrade_0005 :: "db_schema \<Rightarrow> schema_op list" where
  "upgrade_0005 s =
   (if has_table s ''model_registry'' then [] else [
   CreateTable
    \<lparr>td_name = ''model_registry'',
     td_columns = [
       column ''id'' T_UUID,
       column ''model_name'' (T_String 128),
       column ''model_version'' (T_String 255),
       column ''algorithm'' (T_String 64),
       column ''status'' (T_String 32),
       column ''feature_version'' (T_String 32),
       column ''artifact_path'' (T_String 1024),
       optional ''trained_at'' T_DateTime,
       with_default ([CHR 0x27] @ ''{}'' @ [CHR 0x27] @ ''::jsonb'') (column ''evaluation_metrics'' T_JSONB),
       with_default ([CHR 0x27] @ ''{}'' @ [CHR 0x27] @ ''::jsonb'') (column ''training_metadata'' T_JSONB),
       column ''created_at'' T_DateTime],
     td_primary = [''id''], td_unique = [[''model_version'']],
     td_foreign = []\<rparr>]) @
   map (\<lambda>(name, columns). CreateIndex name ''model_registry'' columns False)
     (filter (\<lambda>(name, _). name \<notin> set (index_names s ''model_registry'')) [
      (''ix_model_registry_model_name'', [''model_name'']),
      (''ix_model_registry_status'', [''status''])])"

definition downgrade_0005 :: "schema_op list" where
  "downgrade_0005 = [
   DropIndex ''ix_model_registry_status'' ''model_registry'',
   DropIndex ''ix_model_registry_model_name'' ''model_registry'',
   DropTable ''model_registry'']"

definition migration_techniques :: "json list list" where
  "migration_techniques = [
    [JStr ''T1110'', JStr ''Brute Force'',
     JStr ''Adversaries may systematically guess passwords or crack password material to gain account access.'',
     JList (map JStr [''Credential Access'']),
     JList (map JStr [''Containers'', ''ESXi'', ''IaaS'', ''Identity Provider'', ''Linux'', ''Network Devices'', ''Office Suite'', ''SaaS'', ''Windows'', ''macOS'']),
     JStr ''2.8'', JStr ''https://attack.mitre.org/techniques/T1110/'', JBool False, JNull],
    [JStr ''T1110.003'', JStr ''Password Spraying'',
     JStr ''Adversaries may try one or a small set of common passwords against many accounts.'',
     JList (map JStr [''Credential Access'']),
     JList (map JStr [''Containers'', ''ESXi'', ''IaaS'', ''Identity Provider'', ''Linux'', ''Network Devices'', ''Office Suite'', ''SaaS'', ''Windows'', ''macOS'']),
     JStr ''1.8'', JStr ''https://attack.mitre.org/techniques/T1110/003/'', JBool True, JStr ''T1110''],
    [JStr ''T1098'', JStr ''Account Manipulation'',
     JStr ''Adversaries may modify accounts, credentials, groups, or roles to preserve or elevate access.'',
     JList (map JStr [''Persistence'', ''Privilege Escalation'']),
     JList (map JStr [''Containers'', ''ESXi'', ''IaaS'', ''Identity Provider'', ''Linux'', ''Network Devices'', ''Office Suite'', ''SaaS'', ''Windows'', ''macOS'']),
     JStr ''2.8'', JStr ''https://attack.mitre.org/techniques/T1098/'', JBool False, JNull],
    [JStr ''T1005'', JStr ''Data from Local System'',
     JStr ''Adversaries may collect sensitive data from local files, databases, configuration, or memory.'',
     JList (map JStr [''Collection'']),
     JList (map JStr [''ESXi'', ''Linux'', ''Network Devices'', ''Windows'', ''macOS'']),
     JStr ''1.8'', JStr ''https://attack.mitre.org/techniques/T1005/'', JBool False, JNull],
    [JStr ''T1078'', JStr ''Valid Accounts'',
     JStr ''Adversaries may abuse credentials for existing accounts to gain or maintain access.'',
     JList (map JStr [''Stealth'', ''Persistence'', ''Privilege Escalation'', ''Initial Access'']),
     JList (map JStr [''Containers'', ''ESXi'', ''IaaS'', ''Identity Provider'', ''Linux'', ''Network Devices'', ''Office Suite'', ''SaaS'', ''Windows'', ''macOS'']),
     JStr ''3.0'', JStr ''https://attack.mitre.org/techniques/T1078/'', JBool False, JNull]]"

definition migration_mappings :: "(string \<times> string) list" where
  "migration_mappings = [
    (''rule_001_brute_force'', ''T1110''),
    (''rule_002_password_spray'', ''T1110.003''),
    (''rule_003_suspicious_privilege_change'', ''T1098''),
    (''rule_004_large_download'', ''T1005''),
    (''rule_005_login_after_failures'', ''T1078'')]"

definition create_0006 :: "schema_op list" where
  "create_0006 = [
   CreateTable
    \<lparr>td_name = ''mitre_techniques'',
     td_columns = [
       column ''external_id'' (T_String 32),
       column ''name'' (T_String 255),
       column ''description'' T_Text,
       column ''tactics'' T_JSONB,
       column ''platforms'' T_JSONB,
       column ''version'' (T_String 32),
       column ''source_url'' (T_String 512),
       column ''is_subtechnique'' T_Boolean,
       optional ''parent_external_id'' (T_String 32),
       column ''created_at'' T_DateTime,
       column ''updated_at'' T_DateTime],
     td_primary = [''external_id''], td_unique = [],
     td_foreign = [(''parent_external_id'', ''mitre_techniques'', ''external_id'', Some ''RESTRICT'')]\<rparr>,
   CreateIndex ''ix_mitre_techniques_name'' ''mitre_techniques'' [''name''] False,
   CreateTable
    \<lparr>td_name = ''rule_technique_mappings'',
     td_columns = [
       column ''rule_id'' (T_String 128),
       column ''technique_external_id'' (T_String 32),
       column ''created_at'' T_DateTime],
     td_primary = [''rule_id'', ''technique_external_id''], td_unique = [],
     td_foreign = [(''technique_external_id'', ''mitre_techniques'', ''external_id'', Some ''CASCADE'')]\<rparr>]"

definition upgrade_0006 :: "datetime \<Rightarrow> schema_op list" where
  "upgrade_0006 now = create_0006 @ [
   BulkInsert ''mitre_techniques''
     [''external_id'', ''name'', ''description'', ''tactics'', ''platforms'', ''version'', ''source_url'', ''is_subtechnique'', ''parent_external_id'', ''created_at'', ''updated_at'']
     (map (\<lambda>row. row @ [JStr (isoformat now), JStr (isoformat now)]) migration_techniques),
   BulkInsert ''rule_technique_mappings'' [''rule_id'', ''technique_external_id'', ''created_at'']
     (map (\<lambda>(rule_id, technique_id). [JStr rule_id, JStr technique_id, JStr (isoformat now)]) migration_mappings)]"

definition downgrade_0006 :: "schema_op list" where
  "downgrade_0006 = [
   DropTable ''rule_technique_mappings'',
   DropIndex ''ix_mitre_techniques_name'' ''mitre_techniques'',
   DropTable ''mitre_techniques'']"

definition upgrade_0007 :: "schema_op list" where
  "upgrade_0007 = [
   AddColumn ''incidents'' (optional ''correlation_key'' (T_String 512)),
   Execute,
   AlterNullable ''incidents'' ''correlation_key'' False,
   CreateIndex ''ix_incidents_correlation_lookup'' ''incidents'' [''correlation_key'', ''status'', ''last_seen''] False,
   CreateIndex ''ix_alerts_username_last_seen'' ''alerts'' [''username'', ''last_seen''] False,
   CreateIndex ''ix_alerts_source_ip_last_seen'' ''alerts'' [''source_ip'', ''last_seen''] False]"

definition downgrade_0007 :: "schema_op list" where
  "downgrade_0007 = [
   DropIndex ''ix_alerts_source_ip_last_seen'' ''alerts'',
   DropIndex ''ix_alerts_username_last_seen'' ''alerts'',
   DropIndex ''ix_incidents_correlation_lookup'' ''incidents'',
   DropColumn ''incidents'' ''correlation_key'']"

definition upgrade_0008 :: "schema_op list" where
  "upgrade_0008 = [
   CreateTable
    \<lparr>td_name = ''investigations'',
     td_columns = [
       column ''id'' T_UUID,
       column ''incident_id'' T_UUID,
       column ''status'' (T_String 32),
       column ''provider'' (T_String 64),
       column ''model'' (T_String 128),
       column ''prompt_version'' (T_String 64),
       column ''context_hash'' (T_String 64),
       with_default ([CHR 0x27] @ ''{}'' @ [CHR 0x27] @ ''::jsonb'') (column ''context_snapshot'' T_JSONB),
       optional ''result'' T_JSONB,
       with_default ([CHR 0x27] @ ''[]'' @ [CHR 0x27] @ ''::jsonb'') (column ''validation_errors'' T_JSONB),
       with_default ([CHR 0x27] @ ''[]'' @ [CHR 0x27] @ ''::jsonb'') (column ''provider_response_ids'' T_JSONB),
       optional ''error'' T_Text,
       with_default ''0'' (column ''input_tokens'' T_Integer),
       with_default ''0'' (column ''output_tokens'' T_Integer),
       with_default ''0'' (column ''attempt_count'' T_Integer),
       column ''queued_at'' T_DateTime,
       optional ''started_at'' T_DateTime,
       optional ''completed_at'' T_DateTime,
       column ''created_at'' T_DateTime,
       column ''updated_at'' T_DateTime],
     td_primary = [''id''], td_unique = [[''incident_id'', ''context_hash'', ''prompt_version'']],
     td_foreign = [(''incident_id'', ''incidents'', ''id'', Some ''CASCADE'')]\<rparr>,
   CreateIndex ''ix_investigations_incident_id'' ''investigations'' [''incident_id''] False,
   CreateIndex ''ix_investigations_status'' ''investigations'' [''status''] False,
   CreateIndex ''ix_investigations_incident_created'' ''investigations'' [''incident_id'', ''created_at''] False]"

definition downgrade_0008 :: "schema_op list" where
  "downgrade_0008 = [
   DropIndex ''ix_investigations_incident_created'' ''investigations'',
   DropIndex ''ix_investigations_status'' ''investigations'',
   DropIndex ''ix_investigations_incident_id'' ''investigations'',
   DropTable ''investigations'']"

definition upgrade_0009 :: "schema_op list" where
  "upgrade_0009 = [
   CreateTable
    \<lparr>td_name = ''roles'',
     td_columns = [
       column ''name'' (T_String 32),
       column ''description'' (T_String 255),
       with_default ''now()'' (column ''created_at'' T_DateTime)],
     td_primary = [''name''], td_unique = [],
     td_foreign = []\<rparr>,
   BulkInsert ''roles'' [''name'', ''description''] [
     [JStr ''admin'', JStr ''Full platform administration''],
     [JStr ''analyst'', JStr ''SOC analysis and investigation''],
     [JStr ''viewer'', JStr ''Read-only SOC access'']],
   CreateTable
    \<lparr>td_name = ''users'',
     td_columns = [
       column ''id'' T_UUID,
       column ''email'' (T_String 320),
       column ''full_name'' (T_String 255),
       column ''password_hash'' T_Text,
       column ''role_name'' (T_String 32),
       with_default ''true'' (column ''is_active'' T_Boolean),
       optional ''last_login_at'' T_DateTime,
       with_default ''now()'' (column ''credentials_changed_at'' T_DateTime),
       optional ''created_by'' T_UUID,
       with_default ''now()'' (column ''created_at'' T_DateTime),
       with_default ''now()'' (column ''updated_at'' T_DateTime)],
     td_primary = [''id''], td_unique = [[''email'']],
     td_foreign = [(''created_by'', ''users'', ''id'', Some ''SET NULL''), (''role_name'', ''roles'', ''name'', None)]\<rparr>,
   CreateIndex ''ix_users_email'' ''users'' [''email''] True,
   CreateIndex ''ix_users_role_name'' ''users'' [''role_name''] False,
   CreateIndex ''ix_users_is_active'' ''users'' [''is_active''] False,
   CreateTable
    \<lparr>td_name = ''auth_sessions'',
     td_columns = [
       column ''id'' T_UUID,
       column ''family_id'' T_UUID,
       column ''user_id'' T_UUID,
       column ''token_hash'' (T_String 64),
       column ''expires_at'' T_DateTime,
       optional ''revoked_at'' T_DateTime,
       optional ''replaced_by_id'' T_UUID,
       optional ''source_ip'' (T_String 64),
       optional ''user_agent'' (T_String 512),
       with_default ''now()'' (column ''created_at'' T_DateTime),
       optional ''last_used_at'' T_DateTime],
     td_primary = [''id''], td_unique = [[''token_hash'']],
     td_foreign = [(''user_id'', ''users'', ''id'', Some ''CASCADE'')]\<rparr>,
   CreateIndex ''ix_auth_sessions_family_id'' ''auth_sessions'' [''family_id''] False,
   CreateIndex ''ix_auth_sessions_user_id'' ''auth_sessions'' [''user_id''] False,
   CreateIndex ''ix_auth_sessions_expires_at'' ''auth_sessions'' [''expires_at''] False,
   CreateIndex ''ix_auth_sessions_family_active'' ''auth_sessions'' [''family_id'', ''revoked_at''] False,
   CreateTable
    \<lparr>td_name = ''service_api_keys'',
     td_columns = [
       column ''id'' T_UUID,
       column ''name'' (T_String 128),
       column ''prefix'' (T_String 16),
       column ''key_hash'' (T_String 64),
       with_default ([CHR 0x27] @ ''[]'' @ [CHR 0x27] @ ''::jsonb'') (column ''scopes'' T_JSONB),
       with_default ''true'' (column ''is_active'' T_Boolean),
       optional ''expires_at'' T_DateTime,
       column ''created_by'' T_UUID,
       optional ''last_used_at'' T_DateTime,
       optional ''revoked_at'' T_DateTime,
       with_default ''now()'' (column ''created_at'' T_DateTime)],
     td_primary = [''id''], td_unique = [[''key_hash''], [''prefix'']],
     td_foreign = [(''created_by'', ''users'', ''id'', Some ''RESTRICT'')]\<rparr>,
   CreateIndex ''ix_service_api_keys_prefix'' ''service_api_keys'' [''prefix''] True,
   CreateIndex ''ix_service_api_keys_is_active'' ''service_api_keys'' [''is_active''] False,
   CreateIndex ''ix_service_api_keys_created_by'' ''service_api_keys'' [''created_by''] False,
   CreateTable
    \<lparr>td_name = ''audit_logs'',
     td_columns = [
       column ''id'' T_UUID,
       column ''actor_type'' (T_String 32),
       optional ''actor_id'' T_UUID,
       optional ''actor_label'' (T_String 320),
       column ''action'' (T_String 128),
       optional ''resource_type'' (T_String 64),
       optional ''resource_id'' (T_String 128),
       column ''outcome'' (T_String 32),
       optional ''request_id'' (T_String 64),
       optional ''method'' (T_String 16),
       optional ''path'' (T_String 512),
       optional ''source_ip'' (T_String 64),
       optional ''user_agent'' (T_String 512),
       with_default ([CHR 0x27] @ ''{}'' @ [CHR 0x27] @ ''::jsonb'') (column ''details'' T_JSONB),
       with_default ''now()'' (column ''created_at'' T_DateTime)],
     td_primary = [''id''], td_unique = [],
     td_foreign = []\<rparr>,
   CreateIndex ''ix_audit_logs_actor_type'' ''audit_logs'' [''actor_type''] False,
   CreateIndex ''ix_audit_logs_action'' ''audit_logs'' [''action''] False,
   CreateIndex ''ix_audit_logs_outcome'' ''audit_logs'' [''outcome''] False,
   CreateIndex ''ix_audit_logs_request_id'' ''audit_logs'' [''request_id''] False,
   CreateIndex ''ix_audit_logs_created_at'' ''audit_logs'' [''created_at''] False,
   CreateIndex ''ix_audit_logs_actor_created'' ''audit_logs'' [''actor_type'', ''actor_id'', ''created_at''] False,
   CreateIndex ''ix_audit_logs_action_created'' ''audit_logs'' [''action'', ''created_at''] False]"

definition downgrade_0009 :: "schema_op list" where
  "downgrade_0009 = [
   DropTable ''audit_logs'',
   DropTable ''service_api_keys'',
   DropTable ''auth_sessions'',
   DropTable ''users'',
   DropTable ''roles'']"

definition upgrade_0010 :: "schema_op list" where
  "upgrade_0010 = [
   CreateTable
    \<lparr>td_name = ''incident_notes'',
     td_columns = [
       column ''id'' T_UUID,
       column ''incident_id'' T_UUID,
       column ''author_id'' T_UUID,
       column ''content'' T_Text,
       with_default ''now()'' (column ''created_at'' T_DateTime),
       with_default ''now()'' (column ''updated_at'' T_DateTime)],
     td_primary = [''id''], td_unique = [],
     td_foreign = [(''incident_id'', ''incidents'', ''id'', Some ''CASCADE''), (''author_id'', ''users'', ''id'', Some ''RESTRICT'')]\<rparr>,
   CreateIndex ''ix_incident_notes_incident_id'' ''incident_notes'' [''incident_id''] False,
   CreateIndex ''ix_incident_notes_author_id'' ''incident_notes'' [''author_id''] False,
   CreateIndex ''ix_incident_notes_incident_created'' ''incident_notes'' [''incident_id'', ''created_at''] False]"

definition downgrade_0010 :: "schema_op list" where
  "downgrade_0010 = [
   DropTable ''incident_notes'']"

definition upgrade_0011 :: "schema_op list" where
  "upgrade_0011 = [
   AddColumn ''investigations'' (optional ''error_class'' (T_String 64)),
   AddColumn ''investigations'' (optional ''next_retry_at'' T_DateTime)]"

definition downgrade_0011 :: "schema_op list" where
  "downgrade_0011 = [
   DropColumn ''investigations'' ''next_retry_at'',
   DropColumn ''investigations'' ''error_class'']"

definition upgrade_0012 :: "schema_op list" where
  "upgrade_0012 = [
   CreateTable
    \<lparr>td_name = ''response_actions'',
     td_columns = [
       column ''id'' T_UUID,
       column ''incident_id'' T_UUID,
       column ''action_type'' (T_String 64),
       column ''target'' (T_String 512),
       optional ''account_id'' (T_String 32),
       column ''status'' (T_String 32),
       column ''rationale'' T_Text,
       column ''impact'' T_Text,
       column ''evidence_refs'' T_JSONB,
       column ''idempotency_key'' (T_String 128),
       column ''proposed_by'' T_UUID,
       optional ''approved_by'' T_UUID,
       optional ''result'' T_JSONB,
       optional ''error'' T_Text,
       column ''created_at'' T_DateTime,
       column ''updated_at'' T_DateTime],
     td_primary = [''id''], td_unique = [[''incident_id'', ''idempotency_key'']],
     td_foreign = [(''incident_id'', ''incidents'', ''id'', Some ''CASCADE''), (''proposed_by'', ''users'', ''id'', None), (''approved_by'', ''users'', ''id'', None)]\<rparr>,
   CreateIndex ''ix_response_actions_incident_created'' ''response_actions'' [''incident_id'', ''created_at''] False]"

definition downgrade_0012 :: "schema_op list" where
  "downgrade_0012 = [
   DropIndex ''ix_response_actions_incident_created'' ''response_actions'',
   DropTable ''response_actions'']"

definition upgrade_0013 :: "schema_op list" where
  "upgrade_0013 = [
   CreateTable
    \<lparr>td_name = ''training_incidents'',
     td_columns = [
       column ''id'' T_UUID,
       column ''scenario_id'' (T_String 160),
       column ''title'' (T_String 255),
       column ''account_id'' (T_String 128),
       optional ''observed_at'' T_DateTime,
       column ''source_kind'' (T_String 64),
       column ''review_status'' (T_String 32),
       column ''labels'' T_JSONB,
       column ''events'' T_JSONB,
       optional ''source_ref'' T_Text,
       column ''created_at'' T_DateTime],
     td_primary = [''id''], td_unique = [[''scenario_id'']],
     td_foreign = []\<rparr>,
   CreateIndex ''ix_training_incidents_source_review'' ''training_incidents'' [''source_kind'', ''review_status''] False]"

definition downgrade_0013 :: "schema_op list" where
  "downgrade_0013 = [
   DropIndex ''ix_training_incidents_source_review'' ''training_incidents'',
   DropTable ''training_incidents'']"

definition upgrade_0014 :: "schema_op list" where
  "upgrade_0014 = [
   CreateTable
    \<lparr>td_name = ''incident_evidence'',
     td_columns = [
       column ''id'' T_UUID,
       column ''incident_id'' T_UUID,
       column ''submitted_by'' T_UUID,
       column ''kind'' (T_String 48),
       column ''source'' (T_String 160),
       column ''summary'' T_Text,
       optional ''network'' T_JSONB,
       optional ''observed_at'' T_DateTime,
       column ''sensitive_redacted'' T_Boolean,
       column ''created_at'' T_DateTime],
     td_primary = [''id''], td_unique = [],
     td_foreign = [(''incident_id'', ''incidents'', ''id'', Some ''CASCADE''), (''submitted_by'', ''users'', ''id'', Some ''RESTRICT'')]\<rparr>,
   CreateIndex ''ix_incident_evidence_incident_created'' ''incident_evidence'' [''incident_id'', ''created_at''] False]"

definition downgrade_0014 :: "schema_op list" where
  "downgrade_0014 = [
   DropIndex ''ix_incident_evidence_incident_created'' ''incident_evidence'',
   DropTable ''incident_evidence'']"

definition migrations :: "datetime \<Rightarrow> migration list" where
  "migrations now = [
    migration ''20260824_0001'' None (\<lambda>_. upgrade_0001) downgrade_0001,
    migration ''20260824_0002'' (Some ''20260824_0001'') (\<lambda>_. upgrade_0002) downgrade_0002,
    migration ''20260825_0003'' (Some ''20260824_0002'') (\<lambda>_. upgrade_0003) downgrade_0003,
    migration ''20260825_0004'' (Some ''20260825_0003'') upgrade_0004 downgrade_0004,
    migration ''20260825_0005'' (Some ''20260825_0004'') upgrade_0005 downgrade_0005,
    migration ''20260831_0006'' (Some ''20260825_0005'') (\<lambda>_. upgrade_0006 now) downgrade_0006,
    migration ''20260831_0007'' (Some ''20260831_0006'') (\<lambda>_. upgrade_0007) downgrade_0007,
    migration ''20260901_0008'' (Some ''20260831_0007'') (\<lambda>_. upgrade_0008) downgrade_0008,
    migration ''20260908_0009'' (Some ''20260901_0008'') (\<lambda>_. upgrade_0009) downgrade_0009,
    migration ''20261001_0010'' (Some ''20260908_0009'') (\<lambda>_. upgrade_0010) downgrade_0010,
    migration ''20261005_0011'' (Some ''20261001_0010'') (\<lambda>_. upgrade_0011) downgrade_0011,
    migration ''20261005_0012'' (Some ''20261005_0011'') (\<lambda>_. upgrade_0012) downgrade_0012,
    migration ''20261005_0013'' (Some ''20261005_0012'') (\<lambda>_. upgrade_0013) downgrade_0013,
    migration ''20261006_0014'' (Some ''20261005_0013'') (\<lambda>_. upgrade_0014) downgrade_0014]"

section \<open>The models\<close>

text \<open>What \<^verbatim>\<open>Base.metadata\<close> declares on PostgreSQL: \<^verbatim>\<open>unique=True\<close> with \<^verbatim>\<open>index=True\<close> is a unique index.\<close>

definition orm_alerts :: table_def where
  "orm_alerts = \<lparr>td_name = ''alerts'',
     td_columns = [
       column ''id'' T_UUID,
       column ''rule_id'' (T_String 128),
       column ''event_id'' T_UUID,
       column ''title'' (T_String 255),
       column ''description'' T_Text,
       column ''severity'' (T_String 32),
       column ''confidence'' (T_Numeric 4 2),
       column ''status'' (T_String 32),
       optional ''source_ip'' (T_String 64),
       optional ''username'' (T_String 255),
       column ''evidence'' T_JSONB,
       column ''first_seen'' T_DateTime,
       column ''last_seen'' T_DateTime,
       column ''created_at'' T_DateTime],
     td_primary = [''id''], td_unique = [],
     td_foreign = [(''event_id'', ''events'', ''id'', Some ''CASCADE'')]\<rparr>"

definition orm_roles :: table_def where
  "orm_roles = \<lparr>td_name = ''roles'',
     td_columns = [
       column ''name'' (T_String 32),
       column ''description'' (T_String 255),
       column ''created_at'' T_DateTime],
     td_primary = [''name''], td_unique = [],
     td_foreign = []\<rparr>"

definition orm_users :: table_def where
  "orm_users = \<lparr>td_name = ''users'',
     td_columns = [
       column ''id'' T_UUID,
       column ''email'' (T_String 320),
       column ''full_name'' (T_String 255),
       column ''password_hash'' T_Text,
       column ''role_name'' (T_String 32),
       column ''is_active'' T_Boolean,
       optional ''last_login_at'' T_DateTime,
       column ''credentials_changed_at'' T_DateTime,
       optional ''created_by'' T_UUID,
       column ''created_at'' T_DateTime,
       column ''updated_at'' T_DateTime],
     td_primary = [''id''], td_unique = [],
     td_foreign = [(''role_name'', ''roles'', ''name'', None), (''created_by'', ''users'', ''id'', Some ''SET NULL'')]\<rparr>"

definition orm_auth_sessions :: table_def where
  "orm_auth_sessions = \<lparr>td_name = ''auth_sessions'',
     td_columns = [
       column ''id'' T_UUID,
       column ''family_id'' T_UUID,
       column ''user_id'' T_UUID,
       column ''token_hash'' (T_String 64),
       column ''expires_at'' T_DateTime,
       optional ''revoked_at'' T_DateTime,
       optional ''replaced_by_id'' T_UUID,
       optional ''source_ip'' (T_String 64),
       optional ''user_agent'' (T_String 512),
       column ''created_at'' T_DateTime,
       optional ''last_used_at'' T_DateTime],
     td_primary = [''id''], td_unique = [[''token_hash'']],
     td_foreign = [(''user_id'', ''users'', ''id'', Some ''CASCADE'')]\<rparr>"

definition orm_service_api_keys :: table_def where
  "orm_service_api_keys = \<lparr>td_name = ''service_api_keys'',
     td_columns = [
       column ''id'' T_UUID,
       column ''name'' (T_String 128),
       column ''prefix'' (T_String 16),
       column ''key_hash'' (T_String 64),
       column ''scopes'' T_JSONB,
       column ''is_active'' T_Boolean,
       optional ''expires_at'' T_DateTime,
       column ''created_by'' T_UUID,
       optional ''last_used_at'' T_DateTime,
       optional ''revoked_at'' T_DateTime,
       column ''created_at'' T_DateTime],
     td_primary = [''id''], td_unique = [[''key_hash'']],
     td_foreign = [(''created_by'', ''users'', ''id'', Some ''RESTRICT'')]\<rparr>"

definition orm_audit_logs :: table_def where
  "orm_audit_logs = \<lparr>td_name = ''audit_logs'',
     td_columns = [
       column ''id'' T_UUID,
       column ''actor_type'' (T_String 32),
       optional ''actor_id'' T_UUID,
       optional ''actor_label'' (T_String 320),
       column ''action'' (T_String 128),
       optional ''resource_type'' (T_String 64),
       optional ''resource_id'' (T_String 128),
       column ''outcome'' (T_String 32),
       optional ''request_id'' (T_String 64),
       optional ''method'' (T_String 16),
       optional ''path'' (T_String 512),
       optional ''source_ip'' (T_String 64),
       optional ''user_agent'' (T_String 512),
       column ''details'' T_JSONB,
       column ''created_at'' T_DateTime],
     td_primary = [''id''], td_unique = [],
     td_foreign = []\<rparr>"

definition orm_events :: table_def where
  "orm_events = \<lparr>td_name = ''events'',
     td_columns = [
       column ''id'' T_UUID,
       column ''event_id'' (T_String 128),
       column ''timestamp'' T_DateTime,
       column ''received_at'' T_DateTime,
       column ''source'' (T_String 255),
       column ''source_type'' (T_String 64),
       column ''event_type'' (T_String 64),
       column ''category'' (T_String 64),
       optional ''severity'' (T_String 32),
       optional ''user_id'' (T_String 128),
       optional ''username'' (T_String 255),
       optional ''source_ip'' (T_String 64),
       optional ''destination_ip'' (T_String 64),
       optional ''source_port'' T_Integer,
       optional ''destination_port'' T_Integer,
       optional ''hostname'' (T_String 255),
       optional ''device_id'' (T_String 255),
       optional ''action'' (T_String 128),
       optional ''status'' (T_String 64),
       optional ''resource'' (T_String 255),
       optional ''resource_type'' (T_String 128),
       optional ''country'' (T_String 128),
       optional ''user_agent'' T_Text,
       optional ''bytes_sent'' T_Integer,
       optional ''bytes_received'' T_Integer,
       column ''raw_payload'' T_JSONB,
       column ''metadata'' T_JSONB,
       column ''created_at'' T_DateTime],
     td_primary = [''id''], td_unique = [],
     td_foreign = []\<rparr>"

definition orm_incidents :: table_def where
  "orm_incidents = \<lparr>td_name = ''incidents'',
     td_columns = [
       column ''id'' T_UUID,
       column ''title'' (T_String 255),
       column ''description'' T_Text,
       column ''status'' (T_String 32),
       column ''severity'' (T_String 32),
       column ''risk_score'' T_Integer,
       column ''correlation_key'' (T_String 512),
       optional ''primary_username'' (T_String 255),
       optional ''primary_source_ip'' (T_String 64),
       column ''first_seen'' T_DateTime,
       column ''last_seen'' T_DateTime,
       column ''timeline'' T_JSONB,
       column ''created_at'' T_DateTime,
       column ''updated_at'' T_DateTime],
     td_primary = [''id''], td_unique = [],
     td_foreign = []\<rparr>"

definition orm_incident_alerts :: table_def where
  "orm_incident_alerts = \<lparr>td_name = ''incident_alerts'',
     td_columns = [
       column ''incident_id'' T_UUID,
       column ''alert_id'' T_UUID,
       column ''created_at'' T_DateTime],
     td_primary = [''incident_id'', ''alert_id''], td_unique = [[''incident_id'', ''alert_id'']],
     td_foreign = [(''incident_id'', ''incidents'', ''id'', Some ''CASCADE''), (''alert_id'', ''alerts'', ''id'', Some ''CASCADE'')]\<rparr>"

definition orm_incident_evidence :: table_def where
  "orm_incident_evidence = \<lparr>td_name = ''incident_evidence'',
     td_columns = [
       column ''id'' T_UUID,
       column ''incident_id'' T_UUID,
       column ''submitted_by'' T_UUID,
       column ''kind'' (T_String 48),
       column ''source'' (T_String 160),
       column ''summary'' T_Text,
       optional ''network'' T_JSONB,
       optional ''observed_at'' T_DateTime,
       column ''sensitive_redacted'' T_Boolean,
       column ''created_at'' T_DateTime],
     td_primary = [''id''], td_unique = [],
     td_foreign = [(''incident_id'', ''incidents'', ''id'', Some ''CASCADE''), (''submitted_by'', ''users'', ''id'', Some ''RESTRICT'')]\<rparr>"

definition orm_investigations :: table_def where
  "orm_investigations = \<lparr>td_name = ''investigations'',
     td_columns = [
       column ''id'' T_UUID,
       column ''incident_id'' T_UUID,
       column ''status'' (T_String 32),
       column ''provider'' (T_String 64),
       column ''model'' (T_String 128),
       column ''prompt_version'' (T_String 64),
       column ''context_hash'' (T_String 64),
       column ''context_snapshot'' T_JSONB,
       optional ''result'' T_JSONB,
       column ''validation_errors'' T_JSONB,
       column ''provider_response_ids'' T_JSONB,
       optional ''error'' T_Text,
       optional ''error_class'' (T_String 64),
       column ''input_tokens'' T_Integer,
       column ''output_tokens'' T_Integer,
       column ''attempt_count'' T_Integer,
       optional ''next_retry_at'' T_DateTime,
       column ''queued_at'' T_DateTime,
       optional ''started_at'' T_DateTime,
       optional ''completed_at'' T_DateTime,
       column ''created_at'' T_DateTime,
       column ''updated_at'' T_DateTime],
     td_primary = [''id''], td_unique = [[''incident_id'', ''context_hash'', ''prompt_version'']],
     td_foreign = [(''incident_id'', ''incidents'', ''id'', Some ''CASCADE'')]\<rparr>"

definition orm_mitre_techniques :: table_def where
  "orm_mitre_techniques = \<lparr>td_name = ''mitre_techniques'',
     td_columns = [
       column ''external_id'' (T_String 32),
       column ''name'' (T_String 255),
       column ''description'' T_Text,
       column ''tactics'' T_JSONB,
       column ''platforms'' T_JSONB,
       column ''version'' (T_String 32),
       column ''source_url'' (T_String 512),
       column ''is_subtechnique'' T_Boolean,
       optional ''parent_external_id'' (T_String 32),
       column ''created_at'' T_DateTime,
       column ''updated_at'' T_DateTime],
     td_primary = [''external_id''], td_unique = [],
     td_foreign = [(''parent_external_id'', ''mitre_techniques'', ''external_id'', Some ''RESTRICT'')]\<rparr>"

definition orm_rule_technique_mappings :: table_def where
  "orm_rule_technique_mappings = \<lparr>td_name = ''rule_technique_mappings'',
     td_columns = [
       column ''rule_id'' (T_String 128),
       column ''technique_external_id'' (T_String 32),
       column ''created_at'' T_DateTime],
     td_primary = [''rule_id'', ''technique_external_id''], td_unique = [],
     td_foreign = [(''technique_external_id'', ''mitre_techniques'', ''external_id'', Some ''CASCADE'')]\<rparr>"

definition orm_model_registry :: table_def where
  "orm_model_registry = \<lparr>td_name = ''model_registry'',
     td_columns = [
       column ''id'' T_UUID,
       column ''model_name'' (T_String 128),
       column ''model_version'' (T_String 255),
       column ''algorithm'' (T_String 64),
       column ''status'' (T_String 32),
       column ''feature_version'' (T_String 32),
       column ''artifact_path'' (T_String 1024),
       optional ''trained_at'' T_DateTime,
       column ''evaluation_metrics'' T_JSONB,
       column ''training_metadata'' T_JSONB,
       column ''created_at'' T_DateTime],
     td_primary = [''id''], td_unique = [[''model_version'']],
     td_foreign = []\<rparr>"

definition orm_incident_notes :: table_def where
  "orm_incident_notes = \<lparr>td_name = ''incident_notes'',
     td_columns = [
       column ''id'' T_UUID,
       column ''incident_id'' T_UUID,
       column ''author_id'' T_UUID,
       column ''content'' T_Text,
       column ''created_at'' T_DateTime,
       column ''updated_at'' T_DateTime],
     td_primary = [''id''], td_unique = [],
     td_foreign = [(''incident_id'', ''incidents'', ''id'', Some ''CASCADE''), (''author_id'', ''users'', ''id'', Some ''RESTRICT'')]\<rparr>"

definition orm_response_actions :: table_def where
  "orm_response_actions = \<lparr>td_name = ''response_actions'',
     td_columns = [
       column ''id'' T_UUID,
       column ''incident_id'' T_UUID,
       column ''action_type'' (T_String 64),
       column ''target'' (T_String 512),
       optional ''account_id'' (T_String 32),
       column ''status'' (T_String 32),
       column ''rationale'' T_Text,
       column ''impact'' T_Text,
       column ''evidence_refs'' T_JSONB,
       column ''idempotency_key'' (T_String 128),
       column ''proposed_by'' T_UUID,
       optional ''approved_by'' T_UUID,
       optional ''result'' T_JSONB,
       optional ''error'' T_Text,
       column ''created_at'' T_DateTime,
       column ''updated_at'' T_DateTime],
     td_primary = [''id''], td_unique = [[''incident_id'', ''idempotency_key'']],
     td_foreign = [(''incident_id'', ''incidents'', ''id'', Some ''CASCADE''), (''proposed_by'', ''users'', ''id'', None), (''approved_by'', ''users'', ''id'', None)]\<rparr>"

definition orm_training_incidents :: table_def where
  "orm_training_incidents = \<lparr>td_name = ''training_incidents'',
     td_columns = [
       column ''id'' T_UUID,
       column ''scenario_id'' (T_String 160),
       column ''title'' (T_String 255),
       column ''account_id'' (T_String 128),
       optional ''observed_at'' T_DateTime,
       column ''source_kind'' (T_String 64),
       column ''review_status'' (T_String 32),
       column ''labels'' T_JSONB,
       column ''events'' T_JSONB,
       optional ''source_ref'' T_Text,
       column ''created_at'' T_DateTime],
     td_primary = [''id''], td_unique = [[''scenario_id'']],
     td_foreign = []\<rparr>"

definition orm_tables :: "table_def list" where
  "orm_tables = [orm_alerts, orm_roles, orm_users, orm_auth_sessions, orm_service_api_keys, orm_audit_logs, orm_events, orm_incidents, orm_incident_alerts, orm_incident_evidence, orm_investigations, orm_mitre_techniques, orm_rule_technique_mappings, orm_model_registry, orm_incident_notes, orm_response_actions, orm_training_incidents]"

definition orm_indexes :: "index_def list" where
  "orm_indexes = [
    index ''ix_alerts_rule_id'' ''alerts'' [''rule_id''] False,
    index ''ix_alerts_event_id'' ''alerts'' [''event_id''] False,
    index ''ix_alerts_severity'' ''alerts'' [''severity''] False,
    index ''ix_alerts_status'' ''alerts'' [''status''] False,
    index ''ix_alerts_source_ip'' ''alerts'' [''source_ip''] False,
    index ''ix_alerts_username'' ''alerts'' [''username''] False,
    index ''ix_alerts_username_last_seen'' ''alerts'' [''username'', ''last_seen''] False,
    index ''ix_alerts_source_ip_last_seen'' ''alerts'' [''source_ip'', ''last_seen''] False,
    index ''ix_users_email'' ''users'' [''email''] True,
    index ''ix_users_role_name'' ''users'' [''role_name''] False,
    index ''ix_users_is_active'' ''users'' [''is_active''] False,
    index ''ix_auth_sessions_family_id'' ''auth_sessions'' [''family_id''] False,
    index ''ix_auth_sessions_user_id'' ''auth_sessions'' [''user_id''] False,
    index ''ix_auth_sessions_expires_at'' ''auth_sessions'' [''expires_at''] False,
    index ''ix_auth_sessions_family_active'' ''auth_sessions'' [''family_id'', ''revoked_at''] False,
    index ''ix_service_api_keys_prefix'' ''service_api_keys'' [''prefix''] True,
    index ''ix_service_api_keys_is_active'' ''service_api_keys'' [''is_active''] False,
    index ''ix_service_api_keys_created_by'' ''service_api_keys'' [''created_by''] False,
    index ''ix_audit_logs_actor_type'' ''audit_logs'' [''actor_type''] False,
    index ''ix_audit_logs_action'' ''audit_logs'' [''action''] False,
    index ''ix_audit_logs_outcome'' ''audit_logs'' [''outcome''] False,
    index ''ix_audit_logs_request_id'' ''audit_logs'' [''request_id''] False,
    index ''ix_audit_logs_created_at'' ''audit_logs'' [''created_at''] False,
    index ''ix_audit_logs_actor_created'' ''audit_logs'' [''actor_type'', ''actor_id'', ''created_at''] False,
    index ''ix_audit_logs_action_created'' ''audit_logs'' [''action'', ''created_at''] False,
    index ''ix_events_event_id'' ''events'' [''event_id''] True,
    index ''ix_events_timestamp'' ''events'' [''timestamp''] False,
    index ''ix_events_source'' ''events'' [''source''] False,
    index ''ix_events_event_type'' ''events'' [''event_type''] False,
    index ''ix_events_category'' ''events'' [''category''] False,
    index ''ix_events_severity'' ''events'' [''severity''] False,
    index ''ix_events_username'' ''events'' [''username''] False,
    index ''ix_events_source_ip'' ''events'' [''source_ip''] False,
    index ''ix_incidents_status'' ''incidents'' [''status''] False,
    index ''ix_incidents_severity'' ''incidents'' [''severity''] False,
    index ''ix_incidents_primary_username'' ''incidents'' [''primary_username''] False,
    index ''ix_incidents_primary_source_ip'' ''incidents'' [''primary_source_ip''] False,
    index ''ix_incidents_first_seen'' ''incidents'' [''first_seen''] False,
    index ''ix_incidents_last_seen'' ''incidents'' [''last_seen''] False,
    index ''ix_incidents_correlation_lookup'' ''incidents'' [''correlation_key'', ''status'', ''last_seen''] False,
    index ''ix_incident_evidence_incident_created'' ''incident_evidence'' [''incident_id'', ''created_at''] False,
    index ''ix_investigations_incident_id'' ''investigations'' [''incident_id''] False,
    index ''ix_investigations_status'' ''investigations'' [''status''] False,
    index ''ix_investigations_incident_created'' ''investigations'' [''incident_id'', ''created_at''] False,
    index ''ix_mitre_techniques_name'' ''mitre_techniques'' [''name''] False,
    index ''ix_model_registry_model_name'' ''model_registry'' [''model_name''] False,
    index ''ix_model_registry_status'' ''model_registry'' [''status''] False,
    index ''ix_incident_notes_incident_id'' ''incident_notes'' [''incident_id''] False,
    index ''ix_incident_notes_author_id'' ''incident_notes'' [''author_id''] False,
    index ''ix_incident_notes_incident_created'' ''incident_notes'' [''incident_id'', ''created_at''] False,
    index ''ix_response_actions_incident_created'' ''response_actions'' [''incident_id'', ''created_at''] False,
    index ''ix_training_incidents_source_review'' ''training_incidents'' [''source_kind'', ''review_status''] False]"

section \<open>The backfill of revision 7\<close>

text \<open>
  \<^verbatim>\<open>btrim\<close> removes blanks only, \<^verbatim>\<open>lower\<close> is that of the collation of the database, a parameter;
  \<^verbatim>\<open>char_length\<close> counts code points, as \<^verbatim>\<open>len\<close> does.
\<close>

definition btrim :: "string \<Rightarrow> string" where
  "btrim s = rev (dropWhile (\<lambda>c. c = CHR '' '') (rev (dropWhile (\<lambda>c. c = CHR '' '') s)))"

definition sql_normalized :: "(string \<Rightarrow> string) \<Rightarrow> string option \<Rightarrow> string" where
  "sql_normalized lower v = lower (btrim (str_or v []))"

definition backfill_key :: "(string \<Rightarrow> string) \<Rightarrow> string option \<Rightarrow> string option \<Rightarrow> string" where
  "backfill_key lower username source_ip =
    ''credential_compromise:u:'' @ str_of_nat (length (sql_normalized lower username)) @ '':'' @ sql_normalized lower username @
    ''|s:'' @ str_of_nat (length (sql_normalized lower source_ip)) @ '':'' @ sql_normalized lower source_ip"

lemma blank_is_space: "is_space (CHR '' '')"
  by code_simp

text \<open>The only white space in a text is the blank.\<close>

definition blanks_only :: "string \<Rightarrow> bool" where
  "blanks_only s = list_all (\<lambda>c. is_space c \<longrightarrow> c = CHR '' '') s"

lemma blanks_only_subset: "blanks_only s \<Longrightarrow> set t \<subseteq> set s \<Longrightarrow> blanks_only t"
  unfolding blanks_only_def list_all_iff by blast

lemma dropWhile_spaces:
  assumes "blanks_only s"
  shows "dropWhile is_space s = dropWhile (\<lambda>c. c = CHR '' '') s"
proof (rule dropWhile_cong [OF refl])
  fix c assume "c \<in> set s"
  with assms have "is_space c \<longrightarrow> c = CHR '' ''" unfolding blanks_only_def list_all_iff by (rule bspec)
  then show "is_space c = (c = CHR '' '')" using blank_is_space by blast
qed

lemma btrim_strip:
  assumes "blanks_only s"
  shows "btrim s = py_strip s"
proof -
  have "blanks_only (rev (dropWhile (\<lambda>c. c = CHR '' '') s))"
    by (rule blanks_only_subset [OF assms]) (auto dest: set_dropWhileD)
  from dropWhile_spaces [OF this] show ?thesis
    unfolding btrim_def py_strip_def py_lstrip_def py_rstrip_def dropWhile_spaces [OF assms] by (rule arg_cong [OF sym])
qed

text \<open>
  C36: the correlation key revision 7 writes into the incidents that exist is the one the
  correlation computes for their identity exactly when the database normalises the username and
  the source address as the program does. If \<^verbatim>\<open>lower\<close> of the database agrees with that of Python
  (a hypothesis on its collation: under a C collation it leaves letters outside ASCII as they are),
  it does so for every value whose only white space is the blank.
\<close>

theorem backfill_matches_correlation:
  "(backfill_key lower u s = build_correlation_key u s \<longleftrightarrow> sql_normalized lower u = normalized u \<and> sql_normalized lower s = normalized s) \<and>
   (blanks_only (str_or u []) \<and> blanks_only (str_or s []) \<longrightarrow>
      backfill_key py_lower u s = build_correlation_key u s)"
proof (intro conjI impI)
  show "backfill_key lower u s = build_correlation_key u s \<longleftrightarrow> sql_normalized lower u = normalized u \<and> sql_normalized lower s = normalized s"
  proof
    assume "backfill_key lower u s = build_correlation_key u s"
    then have eq: "str_of_nat (length (sql_normalized lower u)) @ CHR '':'' # sql_normalized lower u @ ''|s:'' @
          str_of_nat (length (sql_normalized lower s)) @ CHR '':'' # sql_normalized lower s
        = str_of_nat (length (normalized u)) @ CHR '':'' # normalized u @ ''|s:'' @
          str_of_nat (length (normalized s)) @ CHR '':'' # normalized s"
      by (simp add: backfill_key_def build_correlation_key_def Let_def)
    from length_prefix_inj [OF eq] show "sql_normalized lower u = normalized u \<and> sql_normalized lower s = normalized s"
      by (simp add: lock_key_inj)
  qed (simp add: backfill_key_def build_correlation_key_def Let_def)
next
  assume "blanks_only (str_or u []) \<and> blanks_only (str_or s [])"
  then have "btrim (str_or u []) = py_strip (str_or u [])" "btrim (str_or s []) = py_strip (str_or s [])"
    by (simp_all add: btrim_strip)
  then show "backfill_key py_lower u s = build_correlation_key u s"
    unfolding backfill_key_def build_correlation_key_def sql_normalized_def normalized_def Let_def by (simp only:)
qed

theorem backfill_matches_correlation_witness:
  "backfill_key py_lower (Some '' Bob'') None = build_correlation_key (Some '' Bob'') None \<and>
   backfill_key py_lower (Some [CHR 0x09, CHR ''b'']) None \<noteq> build_correlation_key (Some [CHR 0x09, CHR ''b'']) None"
proof -
  have "backfill_key py_lower (Some '' Bob'') None = build_correlation_key (Some '' Bob'') None"
    by (rule mp [OF conjunct2 [OF backfill_matches_correlation]]) code_simp
  moreover have "sql_normalized py_lower (Some [CHR 0x09, CHR ''b'']) \<noteq> normalized (Some [CHR 0x09, CHR ''b''])"
    by code_simp
  ultimately show ?thesis
    using backfill_matches_correlation [of py_lower "Some [CHR 0x09, CHR ''b'']" None] by simp
qed

section \<open>The rows of revision 6\<close>

text \<open>Reading the inserted rows as the ORM reads them.\<close>

definition text_value :: "json \<Rightarrow> string" where
  "text_value j = (case j of JStr s \<Rightarrow> s | _ \<Rightarrow> [])"

definition text_values :: "json \<Rightarrow> string list" where
  "text_values j = (case j of JList js \<Rightarrow> map text_value js | _ \<Rightarrow> [])"

definition technique_row :: "datetime \<Rightarrow> json list \<Rightarrow> mitre_technique" where
  "technique_row now row =
    \<lparr>mt_external_id = text_value (row ! 0), mt_name = text_value (row ! 1), mt_description = text_value (row ! 2),
     mt_tactics = text_values (row ! 3), mt_platforms = text_values (row ! 4), mt_version = text_value (row ! 5),
     mt_source_url = text_value (row ! 6), mt_is_subtechnique = (row ! 7 = JBool True),
     mt_parent_external_id = (if row ! 8 = JNull then None else Some (text_value (row ! 8))),
     mt_created_at = now, mt_updated_at = now\<rparr>"

definition migrated_catalog :: "datetime \<Rightarrow> db" where
  "migrated_catalog now = empty_db\<lparr>db_techniques := map (technique_row now) migration_techniques,
     db_rule_techniques := map (\<lambda>(r, t). \<lparr>rm_rule_id = r, rm_technique_external_id = t, rm_created_at = now\<rparr>) migration_mappings\<rparr>"

lemma migrated_rows:
  "map (technique_row now) migration_techniques = core_techniques now now" "migration_mappings = core_rule_mappings"
  by (simp_all add: migration_techniques_def core_techniques_def migration_mappings_def core_rule_mappings_def technique_row_def text_value_def text_values_def)

text \<open>
  the techniques and rule mappings revision 6 inserts are the ones the application seeds: on
  a migrated database \<^verbatim>\<open>seed_core_catalog\<close> changes nothing.
\<close>

theorem migrated_catalog_is_complete:
  "seed_core_catalog later (migrated_catalog now) = migrated_catalog now \<and>
   db_techniques (migrated_catalog now) = core_techniques now now"
  by (simp add: seed_core_catalog_def migrated_catalog_def migrated_rows core_rule_mappings_def)
     (simp add: core_techniques_def)

section \<open>The schema after all revisions\<close>

definition empty_schema :: db_schema where
  "empty_schema = \<lparr>sc_tables = [], sc_indexes = []\<rparr>"

text \<open>Columns whose name, type or nullability the model declares and the table does not have, with the table's type.\<close>

definition column_differences :: "table_def \<Rightarrow> table_def \<Rightarrow> (string \<times> col_type option) list" where
  "column_differences t model =
    List.map_filter (\<lambda>c. case find (\<lambda>x. co_name x = co_name c) (td_columns t) of
       None \<Rightarrow> Some (co_name c, None)
     | Some x \<Rightarrow> if co_type x = co_type c \<and> co_nullable x = co_nullable c then None else Some (co_name c, Some (co_type x))) (td_columns model)"

text \<open>What is unique in a table: its primary key, its constraints and its unique indexes.\<close>

definition unique_keys :: "table_def \<Rightarrow> index_def list \<Rightarrow> string list list" where
  "unique_keys t is = td_primary t # td_unique t @ map ix_columns (filter (\<lambda>i. ix_table i = td_name t \<and> ix_unique i) is)"

definition same_members :: "'a list \<Rightarrow> 'a list \<Rightarrow> bool" where
  "same_members xs ys = (list_all (\<lambda>x. x \<in> set ys) xs \<and> list_all (\<lambda>y. y \<in> set xs) ys)"

text \<open>The keys, the references and the number of columns agree.\<close>

definition same_keys :: "table_def \<Rightarrow> index_def list \<Rightarrow> table_def \<Rightarrow> index_def list \<Rightarrow> bool" where
  "same_keys t is model is' =
    (td_primary t = td_primary model \<and> length (td_columns t) = length (td_columns model) \<and>
     same_members (td_foreign t) (td_foreign model) \<and> same_members (unique_keys t is) (unique_keys model is'))"

text \<open>The models whose table differs, with the columns that do.\<close>

definition schema_differences :: "db_schema \<Rightarrow> (string \<times> (string \<times> col_type option) list) list" where
  "schema_differences s = List.map_filter (\<lambda>model.
     case find_table s (td_name model) of None \<Rightarrow> Some (td_name model, [])
     | Some t \<Rightarrow>
       if same_keys t (sc_indexes s) model orm_indexes \<and> column_differences t model = [] then None
       else Some (td_name model, column_differences t model)) orm_tables"

text \<open>
  The operations on the schema alone: the rows that revision 6 inserts, with the time in them, only
  have to fit the columns.
\<close>

definition bare_0006 :: "schema_op list" where
  "bare_0006 = create_0006 @ [
   BulkInsert ''mitre_techniques''
     [''external_id'', ''name'', ''description'', ''tactics'', ''platforms'', ''version'', ''source_url'', ''is_subtechnique'', ''parent_external_id'', ''created_at'', ''updated_at''] [],
   BulkInsert ''rule_technique_mappings'' [''rule_id'', ''technique_external_id'', ''created_at''] []]"

definition schema_upgrades :: "(db_schema \<Rightarrow> schema_op list) list" where
  "schema_upgrades = [\<lambda>_. upgrade_0001, \<lambda>_. upgrade_0002, \<lambda>_. upgrade_0003, upgrade_0004, upgrade_0005, \<lambda>_. bare_0006,
     \<lambda>_. upgrade_0007, \<lambda>_. upgrade_0008, \<lambda>_. upgrade_0009, \<lambda>_. upgrade_0010, \<lambda>_. upgrade_0011, \<lambda>_. upgrade_0012,
     \<lambda>_. upgrade_0013, \<lambda>_. upgrade_0014]"

definition schema_downgrades :: "schema_op list list" where
  "schema_downgrades = [downgrade_0014, downgrade_0013, downgrade_0012, downgrade_0011, downgrade_0010, downgrade_0009, downgrade_0008,
     downgrade_0007, downgrade_0006, downgrade_0005, downgrade_0004, downgrade_0003, downgrade_0002, downgrade_0001]"

fun run_upgrades :: "(db_schema \<Rightarrow> schema_op list) list \<Rightarrow> db_schema \<Rightarrow> db_schema option" where
  "run_upgrades [] s = Some s"
| "run_upgrades (f # fs) s = (case apply_ops (f s) s of None \<Rightarrow> None | Some s' \<Rightarrow> run_upgrades fs s')"

fun run_downgrades :: "schema_op list list \<Rightarrow> db_schema \<Rightarrow> db_schema option" where
  "run_downgrades [] s = Some s"
| "run_downgrades (xs # xss) s = (case apply_ops xs s of None \<Rightarrow> None | Some s' \<Rightarrow> run_downgrades xss s')"

definition run_facts :: "db_schema option \<Rightarrow> bool" where
  "run_facts r = (case r of None \<Rightarrow> False | Some s \<Rightarrow>
     length (sc_tables s) = length orm_tables \<and>
     schema_differences s = [(''alerts'', [(''evidence'', Some T_JSON)]), (''events'', [(''raw_payload'', Some T_JSON), (''metadata'', Some T_JSON)])] \<and>
     run_downgrades schema_downgrades s = Some empty_schema)"

lemma run_evaluated: "run_facts (run_upgrades schema_upgrades empty_schema)"
  by code_simp

lemma apply_ops_append:
  "apply_ops (xs @ ys) s = (case apply_ops xs s of None \<Rightarrow> None | Some s' \<Rightarrow> apply_ops ys s')"
  by (induction xs arbitrary: s) (simp_all split: option.split)

lemma insert_fitting:
  "list_all (\<lambda>row. length row = length columns) rows \<Longrightarrow> apply_op (BulkInsert table columns rows) s = apply_op (BulkInsert table columns []) s"
  by (simp split: option.split)

lemma technique_rows_fit: "list_all (\<lambda>row. length row = 9) migration_techniques"
  by (simp add: migration_techniques_def)

lemma rows_fit: "apply_ops (upgrade_0006 now) s = apply_ops bare_0006 s"
proof -
  have techniques: "apply_op (BulkInsert ''mitre_techniques''
       [''external_id'', ''name'', ''description'', ''tactics'', ''platforms'', ''version'', ''source_url'', ''is_subtechnique'', ''parent_external_id'', ''created_at'', ''updated_at'']
       (map (\<lambda>row. row @ [JStr (isoformat now), JStr (isoformat now)]) migration_techniques)) s' = apply_op (BulkInsert ''mitre_techniques''
       [''external_id'', ''name'', ''description'', ''tactics'', ''platforms'', ''version'', ''source_url'', ''is_subtechnique'', ''parent_external_id'', ''created_at'', ''updated_at''] []) s'" for s'
    by (rule insert_fitting) (use technique_rows_fit in \<open>simp add: list_all_iff\<close>)
  have mappings: "apply_op (BulkInsert ''rule_technique_mappings'' [''rule_id'', ''technique_external_id'', ''created_at'']
       (map (\<lambda>(rule_id, technique_id). [JStr rule_id, JStr technique_id, JStr (isoformat now)]) migration_mappings)) s' =
     apply_op (BulkInsert ''rule_technique_mappings'' [''rule_id'', ''technique_external_id'', ''created_at''] []) s'" for s'
    by (rule insert_fitting) (simp add: list_all_iff split_beta)
  show ?thesis
    by (simp only: upgrade_0006_def bare_0006_def apply_ops_append apply_ops.simps techniques mappings cong: option.case_cong)
qed

lemma upgrades_run: "upgrade_all (migrations now) s = run_upgrades schema_upgrades s"
  by (simp add: migrations_def migration_def schema_upgrades_def rows_fit cong: option.case_cong)

lemma downgrades_run: "downgrade_all (rev (migrations now)) s = run_downgrades schema_downgrades s"
  by (simp add: migrations_def migration_def schema_downgrades_def cong: option.case_cong)

text \<open>
  C30: the revisions, applied in order to an empty database, all succeed and build the tables the
  ORM models declare, with the same keys, references and columns, except that three columns are
  \<^verbatim>\<open>JSON\<close> where the models declare \<^verbatim>\<open>JSONB\<close>.
\<close>

theorem migrations_match_models:
  "\<exists>s. upgrade_all (migrations now) empty_schema = Some s \<and> length (sc_tables s) = length orm_tables \<and>
     schema_differences s = [(''alerts'', [(''evidence'', Some T_JSON)]), (''events'', [(''raw_payload'', Some T_JSON), (''metadata'', Some T_JSON)])]"
  using run_evaluated by (auto simp: upgrades_run run_facts_def split: option.splits)

text \<open>C31: downgrading every revision, in reverse order, brings a migrated database back to the empty one.\<close>

theorem downgrade_undoes_upgrade:
  "\<exists>s. upgrade_all (migrations now) empty_schema = Some s \<and> downgrade_all (rev (migrations now)) s = Some empty_schema"
  using run_evaluated by (auto simp: upgrades_run downgrades_run run_facts_def split: option.splits)

end
