(* ===== verification/Spec2Isabelle.thy ===== *)
theory Spec2Isabelle
  imports Operations GoogleSchema Migrations
begin

text \<open>
  \<^bold>\<open>AI-SOC: a model of the backend and its theorems.\<close>

  AI-SOC is a security operations service. Telemetry events are posted to an API; detection rules
  raise alerts on them; alerts are correlated into incidents; incidents are investigated by a
  workflow around a language model, in a worker fed by a Redis queue; automated responses pass a
  deterministic policy, and analysts propose, approve and run responses in AWS; every action is
  audited and changes are published on a realtime channel. The code is Python under
  \<^verbatim>\<open>src/backend/app\<close>, with the migrations of its PostgreSQL database under
  \<^verbatim>\<open>src/backend/migrations\<close>, operator scripts under \<^verbatim>\<open>src/backend/scripts\<close> and a generator of
  telemetry in \<^verbatim>\<open>src/simulator/cli.py\<close>. Paths below are relative to \<^verbatim>\<open>src/backend/app\<close>.

  \<^bold>\<open>The theories\<close>

  Python and the data:
  \<^item> \<^verbatim>\<open>PyBase\<close>: the prelude. Strings, numbers, exceptions (\<open>exn\<close>), \<open>then_do\<close>, JSON values, SQL's
    ordering, the collection \<open>py_simps\<close> and the lemmas the components share.
  \<^item> \<^verbatim>\<open>PyUuid\<close>, \<^verbatim>\<open>PyFormat\<close>, \<^verbatim>\<open>PyDatetime\<close>: \<^verbatim>\<open>uuid.UUID\<close> (128-bit words), \<^verbatim>\<open>round\<close>, \<^verbatim>\<open>repr\<close> and
    float formats, \<^verbatim>\<open>datetime\<close> (integers, microseconds) and \<^verbatim>\<open>isoformat\<close>.
  \<^item> \<^verbatim>\<open>Settings\<close>: \<^verbatim>\<open>core/config.py\<close>. \<^verbatim>\<open>Models\<close>: one record per class of \<^verbatim>\<open>models/\<close>, the
    database \<open>db\<close> as the record of its tables, a table as the list of its rows; the locale
    \<open>keyed_table\<close> holds what reading after writing a row by its key gives.
  \<^item> \<^verbatim>\<open>Redis\<close>: the commands used, as a record of functions on an unknown state, with their
    documented laws in the locales \<open>redis_strings\<close> and \<open>redis_queues\<close>, and an implementation on maps.

  Events to incidents:
  \<^item> \<^verbatim>\<open>EventStore\<close>: \<^verbatim>\<open>schemas/event.py\<close>, \<^verbatim>\<open>services/event_normalizer.py\<close>,
    \<^verbatim>\<open>repositories/event_repository.py\<close>; the locale \<open>failure_history\<close> is what rules rely on of the queries.
  \<^item> \<^verbatim>\<open>Detection\<close>: \<^verbatim>\<open>detection/\<close>, the seven rules, registry, engine. \<^verbatim>\<open>Correlation\<close>:
    \<^verbatim>\<open>correlation/\<close> and the repositories of alerts and incidents. \<^verbatim>\<open>Mitre\<close>: \<^verbatim>\<open>mitre/\<close> with its
    repository and service.
  \<^item> \<^verbatim>\<open>Anomaly\<close> and \<^verbatim>\<open>Classifier\<close>: \<^verbatim>\<open>ml/\<close> and \<^verbatim>\<open>repositories/model_registry_repository.py\<close>.
  \<^item> \<^verbatim>\<open>Ingest\<close>: \<^verbatim>\<open>services/event_service.py\<close>, \<^verbatim>\<open>services/aws_finding_adapter.py\<close> and their
    endpoints. \<^verbatim>\<open>Pipeline\<close>: the invariant \<open>pipeline_ok\<close> of the composition and what a batch of
    events or of AWS findings leaves in the database. \<^verbatim>\<open>Simulator\<close>: the ten scenarios of
    \<^verbatim>\<open>src/simulator/cli.py\<close> sent to it.

  Accounts:
  \<^item> \<^verbatim>\<open>AuditTrail\<close> (\<^verbatim>\<open>security/audit.py\<close>, \<^verbatim>\<open>security/permissions.py\<close>, the audit service and
    repository), \<^verbatim>\<open>AuditChain\<close> (\<^verbatim>\<open>response/audit_chain.py\<close>), \<^verbatim>\<open>Tokens\<close> (passwords, tokens, rate
    limits), \<^verbatim>\<open>Auth\<close> (\<^verbatim>\<open>services/auth_service.py\<close>, \<^verbatim>\<open>security/dependencies.py\<close>), \<^verbatim>\<open>Accounts\<close>
    (user and key services; the step relation \<open>account_step\<close> and its invariants), \<^verbatim>\<open>Api\<close> (the
    endpoints of sessions, users, keys and audit rows), \<^verbatim>\<open>Realtime\<close> (\<^verbatim>\<open>realtime/\<close> and the socket).

  Investigations:
  \<^item> \<^verbatim>\<open>InvContext\<close> (\<^verbatim>\<open>investigation/context.py\<close>), \<^verbatim>\<open>InvSchema\<close> (\<^verbatim>\<open>schemas/investigation.py\<close>,
    \<^verbatim>\<open>network_assessment.py\<close>, \<^verbatim>\<open>validation.py\<close>), \<^verbatim>\<open>Provider\<close> and \<^verbatim>\<open>GoogleSchema\<close>
    (\<^verbatim>\<open>provider.py\<close>), \<^verbatim>\<open>InvStore\<close> (repository and queue), \<^verbatim>\<open>Workflow\<close> (\<^verbatim>\<open>workflow.py\<close>),
    \<^verbatim>\<open>Investigation\<close> (service, automatic dispatch, endpoint and worker).

  Responses and analysts:
  \<^item> \<^verbatim>\<open>Policy\<close> (\<^verbatim>\<open>response/actions.py\<close>, \<^verbatim>\<open>policy.py\<close>, \<^verbatim>\<open>circuit_breaker.py\<close>), \<^verbatim>\<open>ResponseActions\<close>
    (\<^verbatim>\<open>services/response_actions.py\<close>), \<^verbatim>\<open>Executor\<close> (\<^verbatim>\<open>response/executor.py\<close>,
    \<^verbatim>\<open>cloud_connector.py\<close>, the denylist of \<^verbatim>\<open>core/middleware.py\<close>).
  \<^item> \<^verbatim>\<open>Redaction\<close> and \<^verbatim>\<open>Incidents\<close>: \<^verbatim>\<open>services/incident_evidence.py\<close>, \<^verbatim>\<open>incident_service.py\<close>,
    \<^verbatim>\<open>dashboard_service.py\<close>, notes and their endpoints. \<^verbatim>\<open>Listings\<close>: the read endpoints.
  \<^item> \<^verbatim>\<open>Operations\<close>: health, operator scripts, demonstration data. \<^verbatim>\<open>Migrations\<close>: the fourteen
    revisions as schema operations, and the schema the ORM declares.
\<close>

text \<open>
  \<^bold>\<open>How the parts interact\<close>

  \<open>create_events_bulk\<close> normalizes all events of the batch (\<open>ingest_batch\<close>), then stores one event
  after the other, each time runs the rules with the rows stored so far and stores and correlates
  their alerts, and after the commit dispatches automatic investigations and publishes. A dispatched investigation is a row with status \<^verbatim>\<open>queued\<close> and an id
  in a Redis list; \<open>worker_iteration\<close> pops an id, claims the row, runs the workflow in a session of
  its own and completes, reschedules or fails the row. The workflow reads the context, asks the
  provider, validates its answers against the context, and passes planned actions to the policy
  and the executor. Response actions of analysts are rows with their own states; a worker claims
  an approved one and executes it by a cloud connector. All endpoints that need a user go through
  \<open>get_current_user\<close> and \<open>require_permission\<close>.

  \<^bold>\<open>Conventions\<close>

  \<^item> A service is a function from the state to an outcome and the new state. The outcome is
    \<open>exn + 'a\<close>; every \<^verbatim>\<open>raise\<close> and every status code is an \<open>Inl\<close>. Work on the database alone has
    the state \<open>db\<close>, with Redis \<open>'r world\<close>. An exception before a commit gives the rows of the
    last commit.
  \<^item> Random ids, secrets and clock readings are arguments, in the order the code draws them
    (records \<open>env\<close>, \<open>event_draws\<close>, \<open>after_draws\<close>); published messages are the list returned last.
  \<^item> A text is a list of characters, the code points 0 to 255. Floats are rationals: no
    rounding is modelled. Python's integers are \<open>int\<close>; columns of 32 bits are checked with \<open>32 word\<close>,
    addresses are \<open>32 word\<close>, ids \<open>128 word\<close>.
  \<^item> \<^verbatim>\<open>ORDER BY\<close> is a stable sort: rows that tie keep the order of insertion, which PostgreSQL does
    not promise. This concerns the listings above all (\<open>list_events\<close>, \<open>list_incidents\<close>,
    \<open>audit_list\<close>, users and keys), whose keys are times without a unique tiebreaker; C28 assumes
    different times, for which the order is determined (\<open>order_by_unique\<close>).
  \<^item> A datetime is an integer of microseconds. \<open>datetime_ok\<close> holds of those Python can represent (the
    years 1 to 9999), and \<open>checked_datetime\<close> raises OverflowError outside. It guards the arithmetic on
    times a client chooses: normalization, the windows of the rules, of correlation, of anomaly
    features and of training sets. Sums of a clock reading and a configured period (lifetimes of
    sessions, tokens and investigations, cooldowns, the simulator's and the scripts' clocks) are plain
    additions: a deployment whose clock is within those periods of the year 1 or 9999 is not
    modelled.
  \<^item> A request is one transaction at a time. Interleavings are modelled where the code commits in
    between: account steps, the claim and the completion of a response action, the iterations of the
    worker between requests. Not interleaved are: the commit of a new investigation and the \<^verbatim>\<open>rpush\<close>
    of its id that follows (\<open>request_investigation\<close>, one step, so a crash between the two, which
    leaves a queued row that no worker finds, is outside C9); \<^verbatim>\<open>BLPOP\<close> and the claim of the row
    (\<open>worker_iteration\<close>); the count and the insertion of evidence (\<open>add_evidence\<close>: two concurrent
    requests may exceed the limit of 200); and the count of administrators and the update it guards
    (\<open>user_update\<close>: the code takes no lock). The executor's \<^verbatim>\<open>DISABLE_USER\<close>, modelled in \<^verbatim>\<open>Executor\<close>,
    is no step of \<open>account_step\<close>, so C8 speaks of the account services alone.
  \<^item> Redis answers. Where the code itself handles a failing command (enqueueing an investigation, publishing)
    the failure is an argument; the branch of \<^verbatim>\<open>core/middleware.py\<close> for an unreachable denylist and
    failures of the two commands of \<open>dispatch_incident\<close> are not modelled, nor are failures of the
    database other than refused rows.
  \<^item> \<open>mock_provider\<close> is the mock's dispatch on the name of the requested class, written out for the
    classes the workflow requests; its data for \<^verbatim>\<open>RecommendationSet\<close>, which nothing requests, is left
    out, and \<^verbatim>\<open>PlannedRecommendationSet\<close>, for which it has no data, fails validation.
  \<^item> What is not in the repository is a parameter: hash functions, PyJWT and the password hasher
    (\<open>crypto\<close>), Redis, the AWS client, the language model client, pydantic's parsing of free JSON,
    scikit-learn's estimators and joblib's files. Theorems name the laws they need of them, and
    their witnesses instantiate the parameters with concrete functions.

  \<^bold>\<open>What the lemmas show\<close>

  Each component has lemmas for its operations, branch by branch; the properties are theorems
  marked C1 to C40 in their theories.
  \<^item> Invariants by rule induction: at most one live session in a token family and always an active
    administrator (\<^verbatim>\<open>Accounts\<close>), four eyes and at most one execution of a response action and
    its refinement of an abstract approval protocol (\<^verbatim>\<open>ResponseActions\<close>), at most one active model
    (\<^verbatim>\<open>Classifier\<close>), evidence bounded and free of access key ids (\<^verbatim>\<open>Incidents\<close>), queued rows in the
    queue (\<^verbatim>\<open>Investigation\<close>).
  \<^item> The pipeline: a batch is stored whole with references intact or not at all, findings reach an
    incident and are idempotent, bursts and the demonstration raise their alert.
  \<^item> Investigations: none is lost, the worker drains the queue, a completed result is valid and
    cites only its context, the workflow executes nothing, the policy's auto-execution condition.
  \<^item> Access: what a login, a refresh and a password change do to sessions; accounts change only by
    an administrator with one audit row; reading needs its permission and changes nothing.
  \<^item> Equivalences and round trips: features in training and in scoring, the schema of the migrations
    and of the models, the key the migrations backfill, undoing every migration, pages of listings.

  \<^bold>\<open>Bounds and fuel\<close>

  All functions are total. The schema reduction for Gemini recurses without a bound in the code,
  so \<open>resolve\<close> and \<open>google_json_schema\<close> take the number of calls the stack allows and answer
  RecursionError beyond it; \<^verbatim>\<open>GoogleSchema\<close> proves that some depth is enough when no definition
  reaches itself, and that a greater one changes nothing. The endless loop of the worker is its iteration. The two loops that
  move a window (\<open>advance_left\<close>, \<open>dataset_rows\<close>) and the shrinking of a context (\<open>shrink\<close>) terminate
  by measures. The audit sanitizer stops at depth 4, as the code does.

  \<^bold>\<open>Not modelled\<close>

  The wiring of FastAPI, SQLAlchemy and Redis objects (\<^verbatim>\<open>main.py\<close>, \<^verbatim>\<open>api/v1/router.py\<close>, \<^verbatim>\<open>db/\<close>),
  logging and the logging contexts; argument parsing, prompts, printing, CSV files and HTTP clients
  of the scripts and of the simulator; the reconnection of the realtime listener; the Redis
  variant of the circuit breaker, which no part of the program creates; \<^verbatim>\<open>response/notifications.py\<close>,
  which no part calls; the collection of public examples, which is downloading and writing files;
  Alembic's environment and the export of the OpenAPI document; advisory locks beyond the order
  they are taken in; crashes within an iteration of the worker. The frontend is not Python. The
  remaining uncovered lines of the modelled files are imports, constructors that store their
  arguments, and the wiring of dependencies.
\<close>

end
